(* ===== verification/Prelude.thy ===== *)
theory Prelude
  imports Main "HOL-Library.AList"
begin

text \<open>
  What every component of the model shares: the Go string functions the services call
  (package \<open>strings\<close>), the dynamic values of Go's \<open>interface{}\<close> as \<open>encoding/json\<close>
  produces them, points in time, and the collections of lemmas the component proofs use.

  A Go string is a sequence of bytes, and so is an Isabelle \<open>string\<close>: a \<open>char\<close> is
  a byte, and lengths and indices agree with Go's.
\<close>

section \<open>Collections of lemmas\<close>

named_theorems go_string \<open>unfoldings of the string functions\<close>
named_theorems frame \<open>fields an operation leaves unchanged\<close>

section \<open>Strings\<close>

definition has_prefix :: "string \<Rightarrow> string \<Rightarrow> bool" where
  \<comment> \<open>\<open>strings.HasPrefix(s, p)\<close>\<close>
  [go_string]: "has_prefix s p \<longleftrightarrow> take (length p) s = p"

definition has_suffix :: "string \<Rightarrow> string \<Rightarrow> bool" where
  \<comment> \<open>\<open>strings.HasSuffix(s, p)\<close>\<close>
  [go_string]: "has_suffix s p \<longleftrightarrow> length p \<le> length s \<and> drop (length s - length p) s = p"

fun contains_str :: "string \<Rightarrow> string \<Rightarrow> bool" where
  \<comment> \<open>\<open>strings.Contains(s, p)\<close>\<close>
  "contains_str [] p \<longleftrightarrow> p = []"
| "contains_str (c # s) p \<longleftrightarrow> has_prefix (c # s) p \<or> contains_str s p"

fun cut_at :: "char \<Rightarrow> string \<Rightarrow> string \<times> string option" where
  \<comment> \<open>\<open>strings.SplitN(s, sep, 2)\<close> for a one-byte separator: the part before the first
    separator, and the part after it if there is one\<close>
  "cut_at d [] = ([], None)"
| "cut_at d (c # s) =
     (if c = d then ([], Some s)
      else (case cut_at d s of (a, b) \<Rightarrow> (c # a, b)))"

fun split_on :: "char \<Rightarrow> string \<Rightarrow> string list" where
  \<comment> \<open>\<open>strings.Split(s, sep)\<close> for a one-byte separator: never empty\<close>
  "split_on d [] = [[]]"
| "split_on d (c # s) =
     (if c = d then [] # split_on d s
      else (case split_on d s of [] \<Rightarrow> [[c]] | w # ws \<Rightarrow> (c # w) # ws))"

text \<open>
  \<open>strings.TrimSpace\<close>: the white space of Unicode, as its UTF-8 encodings.
\<close>

definition white_space :: "string list" where
  "white_space =
     [[CHR 0x09], [CHR 0x0A], [CHR 0x0B], [CHR 0x0C], [CHR 0x0D], [CHR 0x20],
      [CHR 0xC2, CHR 0x85], [CHR 0xC2, CHR 0xA0], [CHR 0xE1, CHR 0x9A, CHR 0x80],
      [CHR 0xE2, CHR 0x80, CHR 0x80], [CHR 0xE2, CHR 0x80, CHR 0x81],
      [CHR 0xE2, CHR 0x80, CHR 0x82], [CHR 0xE2, CHR 0x80, CHR 0x83],
      [CHR 0xE2, CHR 0x80, CHR 0x84], [CHR 0xE2, CHR 0x80, CHR 0x85],
      [CHR 0xE2, CHR 0x80, CHR 0x86], [CHR 0xE2, CHR 0x80, CHR 0x87],
      [CHR 0xE2, CHR 0x80, CHR 0x88], [CHR 0xE2, CHR 0x80, CHR 0x89],
      [CHR 0xE2, CHR 0x80, CHR 0x8A], [CHR 0xE2, CHR 0x80, CHR 0xA8],
      [CHR 0xE2, CHR 0x80, CHR 0xA9], [CHR 0xE2, CHR 0x80, CHR 0xAF],
      [CHR 0xE2, CHR 0x81, CHR 0x9F], [CHR 0xE3, CHR 0x80, CHR 0x80]]"

lemma white_space_nonempty: "w \<in> set white_space \<Longrightarrow> 0 < length w"
  by (auto simp: white_space_def)

function trim_left :: "string \<Rightarrow> string" where
  "trim_left s =
     (case find (has_prefix s) white_space of
        None \<Rightarrow> s
      | Some w \<Rightarrow> if length w \<le> length s then trim_left (drop (length w) s) else s)"
  by pat_completeness auto
termination
proof (relation "measure length", goal_cases)
  case 1
  show ?case by simp
next
  case (2 s w)
  from 2(1) have "w \<in> set white_space"
    by (auto simp: find_Some_iff)
  from white_space_nonempty [OF this] 2(2) have "length s - length w < length s"
    by linarith
  then show ?case by simp
qed

declare trim_left.simps [simp del]

function trim_right :: "string \<Rightarrow> string" where
  "trim_right s =
     (case find (has_suffix s) white_space of
        None \<Rightarrow> s
      | Some w \<Rightarrow> if length w \<le> length s then trim_right (take (length s - length w) s) else s)"
  by pat_completeness auto
termination
proof (relation "measure length", goal_cases)
  case 1
  show ?case by simp
next
  case (2 s w)
  from 2(1) have "w \<in> set white_space"
    by (auto simp: find_Some_iff)
  from white_space_nonempty [OF this] 2(2) have "length s - length w < length s"
    by linarith
  then show ?case by simp
qed

declare trim_right.simps [simp del]

definition trim_space :: "string \<Rightarrow> string" where
  "trim_space s = trim_right (trim_left s)"

text \<open>
  \<open>strings.ToLower\<close>, as far as a comparison with an ASCII string can see it: ASCII letters,
  and the two characters outside ASCII whose lower case is an ASCII letter, the Kelvin sign
  (E2 84 AA, to \<open>k\<close>) and the dotted capital I (C4 B0, to \<open>i\<close>). Every other byte is kept; the
  services only look for ASCII words in the result.
\<close>

definition lower_char :: "char \<Rightarrow> char" where
  "lower_char c =
     (let n = (of_char c :: nat) in
      if 65 \<le> n \<and> n \<le> 90 then char_of (n + 32) else c)"

fun to_lower :: "string \<Rightarrow> string" where
  "to_lower [] = []"
| "to_lower (c # s) =
     (if c = CHR 0xE2 \<and> take 2 s = [CHR 0x84, CHR 0xAA] then CHR ''k'' # to_lower (drop 2 s)
      else if c = CHR 0xC4 \<and> take 1 s = [CHR 0xB0] then CHR ''i'' # to_lower (drop 1 s)
      else lower_char c # to_lower s)"

text \<open>\<open>%d\<close> of a number that is not negative, and of any number.\<close>

fun nat_string :: "nat \<Rightarrow> string" where
  "nat_string n =
     (if n < 10 then [char_of (48 + n)]
      else nat_string (n div 10) @ [char_of (48 + n mod 10)])"

declare nat_string.simps [simp del]

definition int_string :: "int \<Rightarrow> string" where
  "int_string i = (if i < 0 then CHR ''-'' # nat_string (nat (- i)) else nat_string (nat i))"

text \<open>\<open>strings.Join\<close> with a separator.\<close>

fun join_with :: "string \<Rightarrow> string list \<Rightarrow> string" where
  "join_with sep [] = []"
| "join_with sep [w] = w"
| "join_with sep (w # ws) = w @ sep @ join_with sep ws"

subsection \<open>Laws of the string functions\<close>

lemma has_prefix_append [simp]: "has_prefix (p @ s) p"
  by (simp add: has_prefix_def)

lemma has_prefix_iff: "has_prefix s p \<longleftrightarrow> (\<exists>r. s = p @ r)"
  by (auto simp: has_prefix_def) (metis append_take_drop_id)

lemma has_prefix_Nil [simp]: "has_prefix s []"
  by (simp add: has_prefix_def)

lemma has_prefix_single [simp]: "has_prefix s [c] \<longleftrightarrow> s \<noteq> [] \<and> hd s = c"
  by (cases s) (auto simp: has_prefix_def)

lemma has_suffix_append [simp]: "has_suffix (s @ p) p"
  by (simp add: has_suffix_def)

lemma has_suffix_iff: "has_suffix s p \<longleftrightarrow> (\<exists>r. s = r @ p)"
  by (auto simp: has_suffix_def) (metis append_take_drop_id)

lemma has_suffix_single: "has_suffix s [c] \<longleftrightarrow> s \<noteq> [] \<and> last s = c"
  by (auto simp: has_suffix_iff) (metis append_butlast_last_id)

lemma contains_str_iff: "contains_str s p \<longleftrightarrow> (\<exists>a b. s = a @ p @ b)"
proof (induction s)
  case Nil
  show ?case by auto
next
  case (Cons c s)
  have "(\<exists>a b. c # s = a @ p @ b) \<longleftrightarrow> has_prefix (c # s) p \<or> (\<exists>a b. s = a @ p @ b)"
    by (auto simp: has_prefix_iff Cons_eq_append_conv)
  with Cons.IH show ?case by simp
qed

lemma cut_at_None: "cut_at d s = (a, None) \<Longrightarrow> a = s \<and> d \<notin> set s"
  by (induction s arbitrary: a) (auto split: if_splits prod.splits)

lemma cut_at_Some: "cut_at d s = (a, Some b) \<Longrightarrow> s = a @ d # b \<and> d \<notin> set a"
  by (induction s arbitrary: a) (auto split: if_splits prod.splits)

lemma cut_at_append: "d \<notin> set a \<Longrightarrow> cut_at d (a @ d # b) = (a, Some b)"
  by (induction a) auto

lemma split_on_nonempty [simp]: "split_on d s \<noteq> []"
  by (induction s) (auto split: list.splits)

lemma split_on_notin: "d \<notin> set s \<Longrightarrow> split_on d s = [s]"
  by (induction s) auto

lemma split_on_append: "d \<notin> set a \<Longrightarrow> split_on d (a @ d # b) = a # split_on d b"
  by (induction a) auto

section \<open>Values of type \<open>interface{}\<close>\<close>

text \<open>
  What \<open>json.Unmarshal\<close> stores in an \<open>interface{}\<close> (\<open>nil\<close>, \<open>bool\<close>, \<open>float64\<close>, \<open>string\<close>,
  \<open>[]interface{}\<close>, \<open>map[string]interface{}\<close>), and Go's \<open>int\<close>, which the services put there
  themselves. A finite \<open>float64\<close> is a dyadic rational, written mantissa and exponent:
  \<open>GFloat m e\<close> is \<open>m * 2 ^ e\<close>. A map is an association list with distinct keys; its order
  stands for the order a \<open>range\<close> over it happens to take.
\<close>

datatype gval =
    GNil
  | GBool bool
  | GInt int
  | GFloat int int
  | GStr string
  | GArr "gval list"
  | GObj "(string \<times> gval) list"

text \<open>\<open>int(f)\<close> of a \<open>float64\<close>: truncation towards zero. Out of the range of \<open>int64\<close>, where the result
  depends on the implementation of Go, this is the exact integer.\<close>

definition float_to_int :: "int \<Rightarrow> int \<Rightarrow> int" where
  "float_to_int m e =
     (if 0 \<le> e then m * 2 ^ nat e else sgn m * (\<bar>m\<bar> div 2 ^ nat (- e)))"

text \<open>Type assertions: \<open>x, ok := v.(T)\<close>.\<close>

fun as_str :: "gval \<Rightarrow> string option" where
  "as_str (GStr s) = Some s"
| "as_str _ = None"

fun as_arr :: "gval \<Rightarrow> gval list option" where
  "as_arr (GArr vs) = Some vs"
| "as_arr _ = None"

fun as_obj :: "gval \<Rightarrow> (string \<times> gval) list option" where
  "as_obj (GObj kvs) = Some kvs"
| "as_obj _ = None"

fun as_float :: "gval \<Rightarrow> (int \<times> int) option" where
  "as_float (GFloat m e) = Some (m, e)"
| "as_float _ = None"

fun as_int :: "gval \<Rightarrow> int option" where
  "as_int (GInt i) = Some i"
| "as_int _ = None"

definition field_as :: "(gval \<Rightarrow> 'a option) \<Rightarrow> (string \<times> gval) list \<Rightarrow> string \<Rightarrow> 'a option" where
  \<comment> \<open>\<open>x, ok := m[k].(T)\<close>: a missing key reads as \<open>nil\<close>, which no assertion accepts\<close>
  "field_as f m k = (case map_of m k of None \<Rightarrow> None | Some v \<Rightarrow> f v)"

lemma as_str_Some [simp]: "as_str v = Some s \<longleftrightarrow> v = GStr s"
  by (cases v) auto

lemma as_arr_Some [simp]: "as_arr v = Some vs \<longleftrightarrow> v = GArr vs"
  by (cases v) auto

lemma as_obj_Some [simp]: "as_obj v = Some m \<longleftrightarrow> v = GObj m"
  by (cases v) auto

lemma as_float_Some [simp]: "as_float v = Some me \<longleftrightarrow> v = GFloat (fst me) (snd me)"
  by (cases v) auto

lemma as_int_Some [simp]: "as_int v = Some i \<longleftrightarrow> v = GInt i"
  by (cases v) auto

lemma field_as_Some: "field_as f m k = Some x \<longleftrightarrow> (\<exists>v. map_of m k = Some v \<and> f v = Some x)"
  by (auto simp: field_as_def split: option.splits)

lemma map_of_smaller [termination_simp]:
  assumes "map_of m k = Some v"
  shows "size v < size (GObj m)"
proof -
  from assms have "(k, v) \<in> set m" by (rule map_of_SomeD)
  then have "size_prod (\<lambda>_. 0) size (k, v) \<le> size_list (size_prod (\<lambda>_. 0) size) m"
    by (rule size_list_estimation') simp
  then show ?thesis by simp
qed

lemma field_as_smaller [termination_simp]:
  "field_as as_arr m k = Some vs \<Longrightarrow> size (GArr vs) < size (GObj m)"
  "field_as as_obj m k = Some m' \<Longrightarrow> size (GObj m') < size (GObj m)"
  by (auto simp: field_as_Some simp del: gval.size dest: map_of_smaller)

lemma gval_list_smaller:
  "size v < size (GArr (v # vs))" "size (GArr vs) < size (GArr (v # vs))"
  by simp_all

text \<open>\<open>m[k] = v\<close> on a map.\<close>

definition map_put :: "string \<Rightarrow> 'v \<Rightarrow> (string \<times> 'v) list \<Rightarrow> (string \<times> 'v) list" where
  "map_put k v m = AList.update k v m"

lemma map_of_map_put [simp]: "map_of (map_put k v m) = (map_of m)(k \<mapsto> v)"
  by (simp add: map_put_def update_conv')

lemma distinct_map_put: "distinct (map fst m) \<Longrightarrow> distinct (map fst (map_put k v m))"
  by (simp add: map_put_def distinct_update)

section \<open>Time\<close>

text \<open>
  A \<open>time.Time\<close> is the number of nanoseconds since the Unix epoch; the zero \<open>time.Time\<close> is
  midnight of January 1st of year 1. \<open>t.Before(u)\<close> and \<open>t.After(u)\<close> are \<open>t < u\<close> and
  \<open>u < t\<close>. The clock is not part of any state: a definition takes the readings of
  \<open>time.Now()\<close> it makes as arguments, in the order it makes them.
\<close>

type_synonym time = int

definition second :: int where "second = 1000000000"

definition zero_time :: time where "zero_time = - 62135596800 * second"

definition is_zero :: "time \<Rightarrow> bool" where "is_zero t \<longleftrightarrow> t = zero_time"

definition unix :: "time \<Rightarrow> int" where
  \<comment> \<open>\<open>t.Unix()\<close>\<close>
  "unix t = t div second"

section \<open>Results\<close>

text \<open>
  \<open>(x, err)\<close> is \<open>'e + 'a\<close>. \<open>try_all f xs\<close> is a loop that calls \<open>f\<close> on each element and
  returns the first error.
\<close>

fun try_all :: "('a \<Rightarrow> 'e + 'b) \<Rightarrow> 'a list \<Rightarrow> 'e + 'b list" where
  "try_all f [] = Inr []"
| "try_all f (x # xs) =
     (case f x of
        Inl e \<Rightarrow> Inl e
      | Inr y \<Rightarrow> (case try_all f xs of Inl e \<Rightarrow> Inl e | Inr ys \<Rightarrow> Inr (y # ys)))"

lemma try_all_cong [fundef_cong]:
  assumes "xs = ys" and "\<And>x. x \<in> set ys \<Longrightarrow> f x = g x"
  shows "try_all f xs = try_all g ys"
proof -
  have "(\<And>x. x \<in> set ys \<Longrightarrow> f x = g x) \<Longrightarrow> try_all f ys = try_all g ys"
  proof (induction ys)
    case Nil
    show ?case by simp
  next
    case (Cons y ys)
    from Cons.prems [of y] have "f y = g y" by simp
    moreover from Cons have "try_all f ys = try_all g ys" by simp
    ultimately show ?case by (simp only: try_all.simps)
  qed
  with assms show ?thesis by metis
qed

lemma try_all_Inr_iff:
  "(\<exists>ys. try_all f xs = Inr ys) \<longleftrightarrow> (\<forall>x\<in>set xs. \<exists>y. f x = Inr y)"
  by (induction xs) (auto split: sum.splits)

lemma try_all_InrD:
  "try_all f xs = Inr ys \<Longrightarrow> list_all2 (\<lambda>x y. f x = Inr y) xs ys"
  by (induction xs arbitrary: ys) (auto split: sum.splits)

text \<open>
  A validation loop \<open>for i, x := range xs\<close> that returns the first error; \<open>None\<close> is a nil
  error.
\<close>

fun first_err :: "(nat \<Rightarrow> 'a \<Rightarrow> 'e option) \<Rightarrow> nat \<Rightarrow> 'a list \<Rightarrow> 'e option" where
  "first_err f i [] = None"
| "first_err f i (x # xs) =
     (case f i x of Some e \<Rightarrow> Some e | None \<Rightarrow> first_err f (Suc i) xs)"

lemma first_err_cong [fundef_cong]:
  assumes "xs = ys" and "i = j" and "\<And>k x. x \<in> set ys \<Longrightarrow> f k x = g k x"
  shows "first_err f i xs = first_err g j ys"
proof -
  have "(\<And>k x. x \<in> set ys \<Longrightarrow> f k x = g k x) \<Longrightarrow> first_err f j ys = first_err g j ys"
  proof (induction ys arbitrary: j)
    case Nil
    show ?case by simp
  next
    case (Cons y ys)
    from Cons.prems [of y] have "f j y = g j y" by simp
    moreover from Cons have "first_err f (Suc j) ys = first_err g (Suc j) ys" by simp
    ultimately show ?case by (simp only: first_err.simps)
  qed
  with assms show ?thesis by metis
qed

lemma first_err_None:
  "first_err (\<lambda>i x. map_option (E i x) (g x)) i xs = None \<longleftrightarrow> (\<forall>x\<in>set xs. g x = None)"
  by (induction xs arbitrary: i) (auto split: option.splits)

lemma first_err_SomeD:
  "first_err f i xs = Some e \<Longrightarrow> \<exists>j<length xs. f (i + j) (xs ! j) = Some e"
proof (induction xs arbitrary: i)
  case Nil
  then show ?case by simp
next
  case (Cons x xs)
  show ?case
  proof (cases "f i x")
    case (Some e')
    with Cons.prems show ?thesis by (intro exI [of _ 0]) simp
  next
    case None
    with Cons obtain j where "j < length xs" "f (Suc i + j) (xs ! j) = Some e" by fastforce
    then show ?thesis by (intro exI [of _ "Suc j"]) simp
  qed
qed

text \<open>\<open>if err := step(); err != nil { return err }\<close>, then the rest.\<close>

fun and_then :: "'e option \<Rightarrow> 'e option \<Rightarrow> 'e option" where
  "and_then (Some e) r = Some e"
| "and_then None r = r"

lemma and_then_None [simp]: "and_then a b = None \<longleftrightarrow> a = None \<and> b = None"
  by (cases a) auto

end
