(* ===== verification/QueryModel.thy ===== *)
theory QueryModel
  imports Prelude
begin

text \<open>
  The canonical query of the search service (\<^verbatim>\<open>search/pkg/model/query.go\<close>). \<open>FilterExpr\<close> and
  \<open>Aggregation\<close> refer to themselves, so they are datatypes whose selectors are the Go fields;
  the other structs are records. A \<open>Value\<close> is what \<open>json.Unmarshal\<close> puts in an
  \<open>interface{}\<close>. The map \<open>Order\<close> is an association list in the order a \<open>range\<close> visits it.
\<close>

datatype filter_expr =
  FilterExpr (flt_field: string) (flt_operator: string) (flt_value: gval)
    (flt_type: string) (flt_conditions: "filter_expr list") (flt_condition: "filter_expr option")

record time_range =
  tr_start :: "time option"
  tr_end :: "time option"
  tr_last :: string

record sort_spec =
  sort_field :: string
  sort_order :: string

datatype aggregation =
  Aggregation (agg_type: string) (agg_field: string) (agg_name: string) (agg_size: int)
    (agg_interval: string) (agg_aggregations: "aggregation list")
    (agg_order: "(string \<times> string) list") (agg_top_hits_size: int)
    (agg_top_hits_sort: "sort_spec list")

record query =
  q_select :: "string list"
  q_filter :: "filter_expr option"
  q_time_range :: "time_range option"
  q_aggregations :: "aggregation list"
  q_sort :: "sort_spec list"
  q_limit :: int
  q_offset :: int
  q_cursor :: string

definition operators :: "string list" where
  "operators =
     [''eq'', ''ne'', ''gt'', ''gte'', ''lt'', ''lte'', ''in'', ''contains'', ''startsWith'',
      ''endsWith'', ''regex'', ''exists'', ''cidr'']"

definition compound_types :: "string list" where
  "compound_types = [''and'', ''or'', ''not'']"

definition aggregation_types :: "string list" where
  "aggregation_types =
     [''terms'', ''date_histogram'', ''avg'', ''sum'', ''min'', ''max'', ''stats'',
      ''cardinality'', ''top_hits'']"

definition IsSimpleCondition :: "filter_expr \<Rightarrow> bool" where
  "IsSimpleCondition f \<longleftrightarrow> flt_type f = [] \<and> flt_field f \<noteq> []"

definition IsCompoundCondition :: "filter_expr \<Rightarrow> bool" where
  "IsCompoundCondition f \<longleftrightarrow> flt_type f \<noteq> []"

lemma simple_not_compound: "IsSimpleCondition f \<Longrightarrow> \<not> IsCompoundCondition f"
  by (simp add: IsSimpleCondition_def IsCompoundCondition_def)

lemma filter_expr_smaller [termination_simp]:
  "c \<in> set (flt_conditions f) \<Longrightarrow> size c < size f"
  "flt_condition f = Some c \<Longrightarrow> size c < size f"
  by (cases f; fastforce dest: size_list_estimation' [where f = size, OF _ order_refl])+

lemma aggregation_smaller [termination_simp]:
  "a \<in> set (agg_aggregations b) \<Longrightarrow> size a < size b"
  by (cases b) (fastforce dest: size_list_estimation' [where f = size, OF _ order_refl])

text \<open>The nesting depth of a filter, the number of conditions around its deepest leaf.\<close>

fun filter_depth :: "filter_expr \<Rightarrow> nat" where
  "filter_depth (FilterExpr _ _ _ t cs c) =
     (if t = [] then 0
      else if t = ''not'' then (case c of None \<Rightarrow> 0 | Some c \<Rightarrow> Suc (filter_depth c))
      else fold max (map (\<lambda>c. Suc (filter_depth c)) cs) 0)"

end
