(* ===== verification/FieldCatalog.thy ===== *)
theory FieldCatalog
  imports Prelude
begin

text \<open>
  The catalogue of field paths a query or a detection rule may name
  (\<^verbatim>\<open>common/fields/fields.go\<close>): the table \<open>ValidFields\<close>, the wildcard prefixes, the check
  \<open>IsValidField\<close> that the query validator and the rule validator both rest on, and the
  functions that list and look fields up. The laws say what \<open>IsValidField\<close> accepts as a
  declarative condition, that it does not depend on the leading dot, and where it differs from
  what the table's \<open>AllowNested\<close> column says.
\<close>

section \<open>The catalogue\<close>

record field_info =
  fi_type :: string
  fi_description :: string
  fi_allow_nested :: bool

definition ValidFields :: "(string \<times> field_info) list" where
  "ValidFields =
     [(''.time'', \<lparr>fi_type = ''date'', fi_description = ''Event timestamp'', fi_allow_nested = False\<rparr>),
      (''.@timestamp'', \<lparr>fi_type = ''date'', fi_description = ''Event timestamp (alternative)'', fi_allow_nested = False\<rparr>),
      (''.class_uid'', \<lparr>fi_type = ''integer'', fi_description = ''OCSF event class identifier'', fi_allow_nested = False\<rparr>),
      (''.class'', \<lparr>fi_type = ''keyword'', fi_description = ''OCSF event class name'', fi_allow_nested = False\<rparr>),
      (''.class_name'', \<lparr>fi_type = ''keyword'', fi_description = ''OCSF event class name (alias)'', fi_allow_nested = False\<rparr>),
      (''.category_uid'', \<lparr>fi_type = ''integer'', fi_description = ''OCSF category identifier'', fi_allow_nested = False\<rparr>),
      (''.category'', \<lparr>fi_type = ''keyword'', fi_description = ''OCSF category name'', fi_allow_nested = False\<rparr>),
      (''.category_name'', \<lparr>fi_type = ''keyword'', fi_description = ''OCSF category name (alias)'', fi_allow_nested = False\<rparr>),
      (''.activity_id'', \<lparr>fi_type = ''integer'', fi_description = ''Activity identifier'', fi_allow_nested = False\<rparr>),
      (''.activity'', \<lparr>fi_type = ''keyword'', fi_description = ''Activity name'', fi_allow_nested = False\<rparr>),
      (''.activity_name'', \<lparr>fi_type = ''keyword'', fi_description = ''Activity name (alias)'', fi_allow_nested = False\<rparr>),
      (''.type_uid'', \<lparr>fi_type = ''long'', fi_description = ''Full type identifier (class_uid * 100 + activity_id)'', fi_allow_nested = False\<rparr>),
      (''.severity'', \<lparr>fi_type = ''keyword'', fi_description = ''Severity level name'', fi_allow_nested = False\<rparr>),
      (''.severity_id'', \<lparr>fi_type = ''integer'', fi_description = ''Severity level identifier'', fi_allow_nested = False\<rparr>),
      (''.status'', \<lparr>fi_type = ''keyword'', fi_description = ''Status name'', fi_allow_nested = False\<rparr>),
      (''.status_id'', \<lparr>fi_type = ''integer'', fi_description = ''Status identifier (1=Success, 2=Failure)'', fi_allow_nested = False\<rparr>),
      (''.status_detail'', \<lparr>fi_type = ''text'', fi_description = ''Detailed status message'', fi_allow_nested = False\<rparr>),
      (''.message'', \<lparr>fi_type = ''text'', fi_description = ''Event message'', fi_allow_nested = False\<rparr>),
      (''.metadata.version'', \<lparr>fi_type = ''keyword'', fi_description = ''OCSF schema version'', fi_allow_nested = False\<rparr>),
      (''.metadata.product.name'', \<lparr>fi_type = ''keyword'', fi_description = ''Product name'', fi_allow_nested = False\<rparr>),
      (''.metadata.product.vendor_name'', \<lparr>fi_type = ''keyword'', fi_description = ''Vendor name'', fi_allow_nested = False\<rparr>),
      (''.metadata.product.version'', \<lparr>fi_type = ''keyword'', fi_description = ''Product version'', fi_allow_nested = False\<rparr>),
      (''.metadata.log_name'', \<lparr>fi_type = ''keyword'', fi_description = ''Log source name'', fi_allow_nested = False\<rparr>),
      (''.metadata.log_provider'', \<lparr>fi_type = ''keyword'', fi_description = ''Log provider'', fi_allow_nested = False\<rparr>),
      (''.user.name'', \<lparr>fi_type = ''keyword'', fi_description = ''Target user name'', fi_allow_nested = False\<rparr>),
      (''.user.uid'', \<lparr>fi_type = ''keyword'', fi_description = ''Target user identifier'', fi_allow_nested = False\<rparr>),
      (''.user.email'', \<lparr>fi_type = ''keyword'', fi_description = ''Target user email'', fi_allow_nested = False\<rparr>),
      (''.user.domain'', \<lparr>fi_type = ''keyword'', fi_description = ''Target user domain'', fi_allow_nested = False\<rparr>),
      (''.actor.user'', \<lparr>fi_type = ''object'', fi_description = ''Actor user object'', fi_allow_nested = True\<rparr>),
      (''.actor.process'', \<lparr>fi_type = ''object'', fi_description = ''Actor process object'', fi_allow_nested = True\<rparr>),
      (''.process.pid'', \<lparr>fi_type = ''integer'', fi_description = ''Process ID'', fi_allow_nested = False\<rparr>),
      (''.process.name'', \<lparr>fi_type = ''keyword'', fi_description = ''Process name'', fi_allow_nested = False\<rparr>),
      (''.process.cmd_line'', \<lparr>fi_type = ''text'', fi_description = ''Command line'', fi_allow_nested = False\<rparr>),
      (''.process.uid'', \<lparr>fi_type = ''keyword'', fi_description = ''Process unique identifier'', fi_allow_nested = False\<rparr>),
      (''.process.parent_process'', \<lparr>fi_type = ''object'', fi_description = ''Parent process object'', fi_allow_nested = True\<rparr>),
      (''.process.file'', \<lparr>fi_type = ''object'', fi_description = ''Process executable file object'', fi_allow_nested = True\<rparr>),
      (''.process.file.path'', \<lparr>fi_type = ''keyword'', fi_description = ''Path to process executable'', fi_allow_nested = False\<rparr>),
      (''.process.file.name'', \<lparr>fi_type = ''keyword'', fi_description = ''Process executable filename'', fi_allow_nested = False\<rparr>),
      (''.file.path'', \<lparr>fi_type = ''keyword'', fi_description = ''File path'', fi_allow_nested = False\<rparr>),
      (''.file.name'', \<lparr>fi_type = ''keyword'', fi_description = ''File name'', fi_allow_nested = False\<rparr>),
      (''.file.type'', \<lparr>fi_type = ''keyword'', fi_description = ''File type'', fi_allow_nested = False\<rparr>),
      (''.file.size'', \<lparr>fi_type = ''long'', fi_description = ''File size in bytes'', fi_allow_nested = False\<rparr>),
      (''.file.modified_time'', \<lparr>fi_type = ''date'', fi_description = ''Last modified time'', fi_allow_nested = False\<rparr>),
      (''.src_endpoint.ip'', \<lparr>fi_type = ''ip'', fi_description = ''Source IP address'', fi_allow_nested = False\<rparr>),
      (''.src_endpoint.port'', \<lparr>fi_type = ''integer'', fi_description = ''Source port'', fi_allow_nested = False\<rparr>),
      (''.src_endpoint.hostname'', \<lparr>fi_type = ''keyword'', fi_description = ''Source hostname'', fi_allow_nested = False\<rparr>),
      (''.dst_endpoint.ip'', \<lparr>fi_type = ''ip'', fi_description = ''Destination IP address'', fi_allow_nested = False\<rparr>),
      (''.dst_endpoint.port'', \<lparr>fi_type = ''integer'', fi_description = ''Destination port'', fi_allow_nested = False\<rparr>),
      (''.dst_endpoint.hostname'', \<lparr>fi_type = ''keyword'', fi_description = ''Destination hostname'', fi_allow_nested = False\<rparr>),
      (''.connection_info.protocol_name'', \<lparr>fi_type = ''keyword'', fi_description = ''Protocol name (TCP, UDP, etc)'', fi_allow_nested = False\<rparr>),
      (''.connection_info.direction'', \<lparr>fi_type = ''keyword'', fi_description = ''Connection direction'', fi_allow_nested = False\<rparr>),
      (''.connection_info.boundary'', \<lparr>fi_type = ''keyword'', fi_description = ''Network boundary'', fi_allow_nested = False\<rparr>),
      (''.traffic.bytes'', \<lparr>fi_type = ''long'', fi_description = ''Bytes transferred'', fi_allow_nested = False\<rparr>),
      (''.traffic.packets'', \<lparr>fi_type = ''long'', fi_description = ''Packets transferred'', fi_allow_nested = False\<rparr>),
      (''.query.hostname'', \<lparr>fi_type = ''keyword'', fi_description = ''DNS query hostname'', fi_allow_nested = False\<rparr>),
      (''.query.type'', \<lparr>fi_type = ''keyword'', fi_description = ''DNS query type'', fi_allow_nested = False\<rparr>),
      (''.query.class'', \<lparr>fi_type = ''keyword'', fi_description = ''DNS query class'', fi_allow_nested = False\<rparr>),
      (''.answers'', \<lparr>fi_type = ''nested'', fi_description = ''DNS answers array'', fi_allow_nested = False\<rparr>),
      (''.response_code'', \<lparr>fi_type = ''keyword'', fi_description = ''DNS response code'', fi_allow_nested = False\<rparr>),
      (''.http_request'', \<lparr>fi_type = ''object'', fi_description = ''HTTP request object'', fi_allow_nested = True\<rparr>),
      (''.http_response'', \<lparr>fi_type = ''object'', fi_description = ''HTTP response object'', fi_allow_nested = True\<rparr>),
      (''.finding'', \<lparr>fi_type = ''object'', fi_description = ''Finding/detection object'', fi_allow_nested = True\<rparr>),
      (''.attacks'', \<lparr>fi_type = ''nested'', fi_description = ''MITRE ATT&CK mappings'', fi_allow_nested = True\<rparr>),
      (''.resources'', \<lparr>fi_type = ''nested'', fi_description = ''Affected resources'', fi_allow_nested = True\<rparr>),
      (''.risk_score'', \<lparr>fi_type = ''integer'', fi_description = ''Risk score (0-100)'', fi_allow_nested = False\<rparr>),
      (''.attack_tactic'', \<lparr>fi_type = ''keyword'', fi_description = ''MITRE ATT&CK tactic name (hoisted from attacks[0])'', fi_allow_nested = False\<rparr>),
      (''.attack_tactic_uid'', \<lparr>fi_type = ''keyword'', fi_description = ''MITRE ATT&CK tactic UID, e.g. TA0003 (hoisted from attacks[0])'', fi_allow_nested = False\<rparr>),
      (''.attack_technique'', \<lparr>fi_type = ''keyword'', fi_description = ''MITRE ATT&CK technique name (hoisted from attacks[0])'', fi_allow_nested = False\<rparr>),
      (''.attack_technique_uid'', \<lparr>fi_type = ''keyword'', fi_description = ''MITRE ATT&CK technique UID, e.g. T1547 (hoisted from attacks[0])'', fi_allow_nested = False\<rparr>),
      (''.auth_protocol'', \<lparr>fi_type = ''keyword'', fi_description = ''Authentication protocol'', fi_allow_nested = False\<rparr>),
      (''.properties'', \<lparr>fi_type = ''object'', fi_description = ''Custom properties object'', fi_allow_nested = True\<rparr>),
      (''.device.hostname'', \<lparr>fi_type = ''keyword'', fi_description = ''Device hostname'', fi_allow_nested = False\<rparr>),
      (''.device.ip'', \<lparr>fi_type = ''ip'', fi_description = ''Device IP address'', fi_allow_nested = False\<rparr>),
      (''.device.type'', \<lparr>fi_type = ''keyword'', fi_description = ''Device type'', fi_allow_nested = False\<rparr>),
      (''.device.type_id'', \<lparr>fi_type = ''integer'', fi_description = ''Device type ID'', fi_allow_nested = False\<rparr>),
      (''.device.os.name'', \<lparr>fi_type = ''keyword'', fi_description = ''Operating system name'', fi_allow_nested = False\<rparr>),
      (''.device.os.type'', \<lparr>fi_type = ''keyword'', fi_description = ''Operating system type'', fi_allow_nested = False\<rparr>)]"

definition WildcardPrefixes :: "string list" where
  "WildcardPrefixes =
     [''.metadata.'',
      ''.actor.user.'',
      ''.actor.process.'',
      ''.actor.session.'',
      ''.process.parent_process.'',
      ''.process.file.'',
      ''.http_request.'',
      ''.http_response.'',
      ''.finding.'',
      ''.properties.'',
      ''.device.'',
      ''.device.os.'',
      ''.raw.'']"

section \<open>Operations\<close>

definition dotted :: "string \<Rightarrow> string" where
  \<comment> \<open>the normalisation both lookups start with\<close>
  "dotted path = (if has_prefix path ''.'' then path else ''.'' @ path)"

definition IsValidField :: "string \<Rightarrow> bool" where
  "IsValidField fieldPath =
     (let fieldPath = dotted fieldPath in
      if map_of ValidFields fieldPath \<noteq> None then True
      else list_ex (has_prefix fieldPath) WildcardPrefixes)"

fun ValidateFields :: "string list \<Rightarrow> string list" where
  "ValidateFields [] = []"
| "ValidateFields (path # paths) =
     (if \<not> IsValidField path then path # ValidateFields paths else ValidateFields paths)"

definition GetFieldInfo :: "string \<Rightarrow> field_info option" where
  "GetFieldInfo fieldPath = map_of ValidFields (dotted fieldPath)"

text \<open>
  \<open>ListFields\<close> ranges over a Go map, so it may return the paths in any order: it is modelled
  by the results it may have.
\<close>

definition ListFields_returns :: "string list \<Rightarrow> bool" where
  "ListFields_returns fs \<longleftrightarrow> distinct fs \<and> set fs = set (map fst ValidFields)"

section \<open>Laws\<close>

lemma dotted_has_prefix [simp]: "has_prefix (dotted p) ''.''"
  by (simp add: dotted_def)

lemma dotted_idem [simp]: "dotted (dotted p) = dotted p"
  by (simp add: dotted_def)

lemma dotted_Cons [simp]: "dotted (CHR ''.'' # p) = CHR ''.'' # p"
  by (simp add: dotted_def)

lemma dotted_undotted: "\<not> has_prefix p ''.'' \<Longrightarrow> dotted p = CHR ''.'' # p"
  by (simp add: dotted_def)

lemma IsValidField_dotted [simp]: "IsValidField (dotted p) = IsValidField p"
  by (simp add: IsValidField_def)

lemma map_of_table_iff: "map_of t k \<noteq> None \<longleftrightarrow> k \<in> set (map fst t)"
  by (induction t) auto

lemma IsValidField_iff:
  "IsValidField p \<longleftrightarrow>
     dotted p \<in> set (map fst ValidFields)
     \<or> (\<exists>w\<in>set WildcardPrefixes. \<exists>rest. dotted p = w @ rest)"
  unfolding IsValidField_def Let_def map_of_table_iff list_ex_iff has_prefix_iff by auto

lemma ValidateFields_filter: "ValidateFields ps = filter (\<lambda>p. \<not> IsValidField p) ps"
  by (induction ps) auto

lemma ValidateFields_Nil_iff: "ValidateFields ps = [] \<longleftrightarrow> (\<forall>p\<in>set ps. IsValidField p)"
  by (auto simp: ValidateFields_filter filter_empty_conv)

lemma GetFieldInfo_valid: "GetFieldInfo p = Some i \<Longrightarrow> IsValidField p"
  by (simp add: GetFieldInfo_def IsValidField_def)

text \<open>Every path of the catalogue is dotted, and no path occurs twice.\<close>

lemma catalogue_dotted: "list_all (\<lambda>p. has_prefix p ''.'') (map fst ValidFields)"
  by code_simp

lemma catalogue_distinct: "distinct (map fst ValidFields)"
  by code_simp

lemma no_key_below_attacks:
  "list_all (\<lambda>k. \<not> has_prefix k ''.attacks.'') (map fst ValidFields)"
  by code_simp

section \<open>Properties\<close>

text \<open>The column \<open>AllowNested\<close> is not what decides whether a nested path is valid. The
  catalogue allows nested paths under \<open>.attacks\<close>, but \<open>IsValidField\<close> rejects every one of them,
  while under \<open>.http_request\<close> it accepts every one.\<close>

lemma AllowNested_not_consulted:
  "map_option fi_allow_nested (GetFieldInfo ''.attacks'') = Some True
   \<and> map_option fi_allow_nested (GetFieldInfo ''.http_request'') = Some True
   \<and> \<not> IsValidField (''.attacks.'' @ rest)
   \<and> IsValidField (''.http_request.'' @ rest)"
proof -
  have keys: "''.attacks.'' @ rest \<notin> set (map fst ValidFields)"
    using no_key_below_attacks has_prefix_append [of "''.attacks.''" rest]
    unfolding list_all_iff by blast
  have "dotted (''.attacks.'' @ rest) = ''.attacks.'' @ rest"
    by simp
  then have "\<not> IsValidField (''.attacks.'' @ rest)"
    unfolding IsValidField_iff using keys by (simp add: WildcardPrefixes_def)
  moreover have "IsValidField (''.http_request.'' @ rest)"
    by (simp add: IsValidField_iff WildcardPrefixes_def)
  moreover have "map_option fi_allow_nested (GetFieldInfo ''.attacks'') = Some True"
    "map_option fi_allow_nested (GetFieldInfo ''.http_request'') = Some True"
    by code_simp+
  ultimately show ?thesis by blast
qed

end
