(* ===== verification/QueryValidator.thy ===== *)
theory QueryValidator
  imports QueryModel FieldCatalog
begin

text \<open>
  The validator of canonical queries (\<^verbatim>\<open>search/internal/validator/query.go\<close>): its limits, one
  definition per method, and the errors as a datatype with one constructor per message and one
  per wrapping \<open>fmt.Errorf\<close>. A method that returns an \<open>error\<close> returns an option, \<open>None\<close> for nil.
  Whether \<open>regexp.Compile\<close> accepts a pattern is the parameter \<open>re_ok\<close>. The laws say which filters,
  aggregations and paths are accepted, and bound the depth of an accepted filter.
\<close>

section \<open>State and errors\<close>

record validator =
  maxAggregations :: int
  maxResultSize :: int
  maxFilterDepth :: int
  maxSelectFields :: int
  maxSortFields :: int
  validateFieldMappings :: bool

datatype query_error =
    QueryNil
  | UnsupportedFields "string list"
  | InSelect query_error | InFilter query_error | InTimeRange query_error
  | InAggregations query_error | InSort query_error | InPagination query_error
  | TooManySelectFields int int
  | InvalidNamedField string query_error
  | FilterTooDeep int int
  | NeitherSimpleNorCompound
  | InvalidField query_error
  | UnsupportedOperator string
  | NilValue string
  | InNotArray | ExistsNotBool | InvalidRegex | RegexNotString | CIDRNoSlash | CIDRNotString
  | UnsupportedCompoundType string
  | NoConditions string
  | InCondition nat query_error
  | NoNotCondition
  | InNotCondition query_error
  | NoTimeRange | BothTimeRanges | InvalidRelativeTime string | StartAfterEnd
  | TooManyAggregations int int
  | InAggregation nat string query_error
  | UnsupportedAggregationType string
  | EmptyAggregationName
  | TermsNeedField | TermsSizeNotPositive
  | InvalidOrderKey string | InvalidOrderDirection string
  | HistogramNeedsField | HistogramNeedsInterval
  | TopHitsNegative | TopHitsTooLarge
  | TopHitsSortField nat query_error | TopHitsSortOrder nat string
  | InNested query_error
  | TooManySortFields int int
  | SortField nat query_error | SortOrder nat string
  | NegativeLimit | LimitTooLarge int int | NegativeOffset | OffsetAndCursor
  | EmptyPath | PathWithoutDot string | PathDoubleDot | PathTrailingDot

definition NewQueryValidator :: validator where
  "NewQueryValidator =
     \<lparr>maxAggregations = 10, maxResultSize = 10000, maxFilterDepth = 10,
      maxSelectFields = 100, maxSortFields = 10, validateFieldMappings = True\<rparr>"

definition SetFieldMappingValidation :: "bool \<Rightarrow> validator \<Rightarrow> validator" where
  "SetFieldMappingValidation enabled v = v\<lparr>validateFieldMappings := enabled\<rparr>"

definition NewQueryValidatorWithoutFieldMapping :: validator where
  "NewQueryValidatorWithoutFieldMapping = NewQueryValidator\<lparr>validateFieldMappings := False\<rparr>"

section \<open>Paths, operators and types\<close>

definition validateFieldPath :: "string \<Rightarrow> query_error option" where
  "validateFieldPath field =
     (if field = [] then Some EmptyPath
      else if \<not> has_prefix field ''.'' then Some (PathWithoutDot field)
      else if contains_str field ''..'' then Some PathDoubleDot
      else if has_suffix field ''.'' \<and> field \<noteq> ''.'' then Some PathTrailingDot
      else None)"

definition isValidOperator :: "string \<Rightarrow> bool" where
  "isValidOperator op \<longleftrightarrow> list_ex (\<lambda>valid. op = valid) operators"

definition isValidCompoundType :: "string \<Rightarrow> bool" where
  "isValidCompoundType t \<longleftrightarrow> t = ''and'' \<or> t = ''or'' \<or> t = ''not''"

definition isValidAggregationType :: "string \<Rightarrow> bool" where
  "isValidAggregationType t \<longleftrightarrow> list_ex (\<lambda>valid. t = valid) aggregation_types"

definition is_digit :: "char \<Rightarrow> bool" where
  "is_digit c \<longleftrightarrow> 48 \<le> (of_char c :: nat) \<and> (of_char c :: nat) \<le> 57"

definition isValidRelativeTime :: "string \<Rightarrow> bool" where
  \<comment> \<open>the regular expression \<open>^\d+(m|h|d)$\<close>\<close>
  "isValidRelativeTime rel \<longleftrightarrow>
     2 \<le> length rel \<and> last rel \<in> set ''mhd'' \<and> list_all is_digit (butlast rel)"

section \<open>Collecting the fields of a query\<close>

definition add_field :: "string \<Rightarrow> string list \<Rightarrow> string list" where
  \<comment> \<open>\<open>if field != "" && field != "." { fieldSet[field] = struct{}{} }\<close>\<close>
  "add_field field fieldSet =
     (if field \<noteq> [] \<and> field \<noteq> ''.'' then List.insert field fieldSet else fieldSet)"

function collectFilterFields :: "filter_expr \<Rightarrow> string list \<Rightarrow> string list" where
  "collectFilterFields flt fieldSet =
     (if IsSimpleCondition flt then add_field (flt_field flt) fieldSet
      else if IsCompoundCondition flt then
        (let fs = fold collectFilterFields (flt_conditions flt) fieldSet
         in case flt_condition flt of
              None \<Rightarrow> fs
            | Some c \<Rightarrow> collectFilterFields c fs)
      else fieldSet)"
  by pat_completeness auto
termination
  by (relation "measure (\<lambda>(f, _). size f)") (auto dest: filter_expr_smaller)

declare collectFilterFields.simps [simp del]

function collectAggregationFields :: "aggregation \<Rightarrow> string list \<Rightarrow> string list" where
  "collectAggregationFields agg fieldSet =
     fold collectAggregationFields (agg_aggregations agg)
       (fold (\<lambda>s. add_field (sort_field s)) (agg_top_hits_sort agg)
         (add_field (agg_field agg) fieldSet))"
  by pat_completeness auto
termination
  by (relation "measure (\<lambda>(f, _). size f)") (auto dest: aggregation_smaller)

declare collectAggregationFields.simps [simp del]

definition collectFields :: "query \<Rightarrow> string list" where
  \<comment> \<open>in the order of insertion, one of the orders the \<open>range\<close> over the set may take\<close>
  "collectFields q =
     (let f1 = fold add_field (q_select q) [];
          f2 = (case q_filter q of None \<Rightarrow> f1 | Some flt \<Rightarrow> collectFilterFields flt f1);
          f3 = fold collectAggregationFields (q_aggregations q) f2
      in fold (\<lambda>s. add_field (sort_field s)) (q_sort q) f3)"

section \<open>Clauses\<close>

definition validateSelect :: "validator \<Rightarrow> string list \<Rightarrow> query_error option" where
  "validateSelect v fs =
     (if int (length fs) > maxSelectFields v
      then Some (TooManySelectFields (int (length fs)) (maxSelectFields v))
      else first_err (\<lambda>_ field. map_option (InvalidNamedField field) (validateFieldPath field)) 0 fs)"

definition validateSimpleCondition ::
  "(string \<Rightarrow> bool) \<Rightarrow> filter_expr \<Rightarrow> query_error option" where
  "validateSimpleCondition re_ok flt =
     (case validateFieldPath (flt_field flt) of
        Some e \<Rightarrow> Some (InvalidField e)
      | None \<Rightarrow>
      if \<not> isValidOperator (flt_operator flt) then Some (UnsupportedOperator (flt_operator flt))
      else if flt_value flt = GNil \<and> flt_operator flt \<noteq> ''exists''
      then Some (NilValue (flt_operator flt))
      else if flt_operator flt = ''in'' then
        (case flt_value flt of GArr _ \<Rightarrow> None | _ \<Rightarrow> Some InNotArray)
      else if flt_operator flt = ''exists'' then
        (case flt_value flt of GBool _ \<Rightarrow> None | _ \<Rightarrow> Some ExistsNotBool)
      else if flt_operator flt = ''regex'' then
        (case flt_value flt of
           GStr pattern \<Rightarrow> if re_ok pattern then None else Some InvalidRegex
         | _ \<Rightarrow> Some RegexNotString)
      else if flt_operator flt = ''cidr'' then
        (case flt_value flt of
           GStr cidr \<Rightarrow> if contains_str cidr ''/'' then None else Some CIDRNoSlash
         | _ \<Rightarrow> Some CIDRNotString)
      else None)"

function (sequential) validateFilterWithDepth ::
  "(string \<Rightarrow> bool) \<Rightarrow> validator \<Rightarrow> filter_expr \<Rightarrow> int \<Rightarrow> query_error option"
  and validateCompoundConditionWithDepth ::
  "(string \<Rightarrow> bool) \<Rightarrow> validator \<Rightarrow> filter_expr \<Rightarrow> int \<Rightarrow> query_error option"
where
  "validateFilterWithDepth re_ok v flt depth =
     (if depth > maxFilterDepth v then Some (FilterTooDeep depth (maxFilterDepth v))
      else if IsSimpleCondition flt then validateSimpleCondition re_ok flt
      else if IsCompoundCondition flt then validateCompoundConditionWithDepth re_ok v flt depth
      else Some NeitherSimpleNorCompound)"
| "validateCompoundConditionWithDepth re_ok v flt depth =
     (if \<not> isValidCompoundType (flt_type flt) then Some (UnsupportedCompoundType (flt_type flt))
      else if flt_type flt = ''and'' \<or> flt_type flt = ''or'' then
        (if flt_conditions flt = [] then Some (NoConditions (flt_type flt))
         else first_err
                (\<lambda>i c. map_option (InCondition i) (validateFilterWithDepth re_ok v c (depth + 1)))
                0 (flt_conditions flt))
      else
        (case flt_condition flt of
           None \<Rightarrow> Some NoNotCondition
         | Some c \<Rightarrow> map_option InNotCondition (validateFilterWithDepth re_ok v c (depth + 1))))"
  by pat_completeness auto
termination
  by (relation "measure (case_sum (\<lambda>(_, _, f, _). 2 * size f + 1) (\<lambda>(_, _, f, _). 2 * size f))")
    (auto dest: filter_expr_smaller)

declare validateFilterWithDepth.simps [simp del] validateCompoundConditionWithDepth.simps [simp del]

definition validateFilter ::
  "(string \<Rightarrow> bool) \<Rightarrow> validator \<Rightarrow> filter_expr \<Rightarrow> query_error option" where
  "validateFilter re_ok v flt = validateFilterWithDepth re_ok v flt 0"

definition validateCompoundCondition ::
  "(string \<Rightarrow> bool) \<Rightarrow> validator \<Rightarrow> filter_expr \<Rightarrow> query_error option" where
  "validateCompoundCondition re_ok v flt = validateCompoundConditionWithDepth re_ok v flt 0"

definition validateTimeRange :: "time_range \<Rightarrow> query_error option" where
  "validateTimeRange tr =
     (let hasAbsolute = (tr_start tr \<noteq> None \<or> tr_end tr \<noteq> None);
          hasRelative = (tr_last tr \<noteq> [])
      in if \<not> hasAbsolute \<and> \<not> hasRelative then Some NoTimeRange
         else if hasAbsolute \<and> hasRelative then Some BothTimeRanges
         else if hasRelative \<and> \<not> isValidRelativeTime (tr_last tr)
         then Some (InvalidRelativeTime (tr_last tr))
         else (case (tr_start tr, tr_end tr) of
                 (Some s, Some e) \<Rightarrow> if s > e then Some StartAfterEnd else None
               | _ \<Rightarrow> None))"

definition valid_direction :: "string \<Rightarrow> bool" where
  "valid_direction d \<longleftrightarrow> d = [] \<or> d = ''asc'' \<or> d = ''desc''"

definition validate_terms :: "aggregation \<Rightarrow> query_error option" where
  "validate_terms agg =
     (if agg_field agg = [] then Some TermsNeedField
      else if agg_size agg \<le> 0 then Some TermsSizeNotPositive
      else first_err
             (\<lambda>_ (key, direction).
                if key \<noteq> ''_count'' \<and> key \<noteq> ''_key'' then Some (InvalidOrderKey key)
                else if direction \<noteq> ''asc'' \<and> direction \<noteq> ''desc''
                then Some (InvalidOrderDirection direction)
                else None)
             0 (agg_order agg))"

definition validate_top_hits :: "aggregation \<Rightarrow> query_error option" where
  "validate_top_hits agg =
     (if agg_top_hits_size agg < 0 then Some TopHitsNegative
      else if agg_top_hits_size agg > 100 then Some TopHitsTooLarge
      else first_err
             (\<lambda>i s. case validateFieldPath (sort_field s) of
                      Some e \<Rightarrow> Some (TopHitsSortField i e)
                    | None \<Rightarrow>
                        if \<not> valid_direction (sort_order s)
                        then Some (TopHitsSortOrder i (sort_order s)) else None)
             0 (agg_top_hits_sort agg))"

definition validate_agg_type :: "aggregation \<Rightarrow> query_error option" where
  \<comment> \<open>the type-specific \<open>switch\<close> of \<open>validateAggregation\<close>\<close>
  "validate_agg_type agg =
     (if agg_type agg = ''terms'' then validate_terms agg
      else if agg_type agg = ''date_histogram'' then
        (if agg_field agg = [] then Some HistogramNeedsField
         else if agg_interval agg = [] then Some HistogramNeedsInterval
         else None)
      else if agg_type agg = ''top_hits'' then validate_top_hits agg
      else None)"

function validateAggregation :: "validator \<Rightarrow> aggregation \<Rightarrow> query_error option" where
  "validateAggregation v agg =
     (if \<not> isValidAggregationType (agg_type agg)
      then Some (UnsupportedAggregationType (agg_type agg))
      else if agg_name agg = [] then Some EmptyAggregationName
      else and_then
        (if agg_field agg \<noteq> [] then map_option InvalidField (validateFieldPath (agg_field agg))
         else None)
        (and_then (validate_agg_type agg)
          (if agg_aggregations agg = [] then None
           else map_option InNested
             (if int (length (agg_aggregations agg)) > maxAggregations v
              then Some (TooManyAggregations (int (length (agg_aggregations agg))) (maxAggregations v))
              else first_err
                     (\<lambda>i a. map_option (InAggregation i (agg_name a)) (validateAggregation v a))
                     0 (agg_aggregations agg)))))"
  by pat_completeness auto
termination
  by (relation "measure (\<lambda>(_, f). size f)") (auto dest: aggregation_smaller)

declare validateAggregation.simps [simp del]

definition validateAggregations :: "validator \<Rightarrow> aggregation list \<Rightarrow> query_error option" where
  "validateAggregations v aggs =
     (if int (length aggs) > maxAggregations v
      then Some (TooManyAggregations (int (length aggs)) (maxAggregations v))
      else first_err (\<lambda>i a. map_option (InAggregation i (agg_name a)) (validateAggregation v a)) 0 aggs)"

definition validateSort :: "validator \<Rightarrow> sort_spec list \<Rightarrow> query_error option" where
  "validateSort v sorts =
     (if int (length sorts) > maxSortFields v
      then Some (TooManySortFields (int (length sorts)) (maxSortFields v))
      else first_err
             (\<lambda>i s. case validateFieldPath (sort_field s) of
                      Some e \<Rightarrow> Some (SortField i e)
                    | None \<Rightarrow>
                        if \<not> valid_direction (sort_order s)
                        then Some (SortOrder i (sort_order s)) else None)
             0 sorts)"

definition validatePagination :: "validator \<Rightarrow> query \<Rightarrow> query_error option" where
  "validatePagination v q =
     (if q_limit q < 0 then Some NegativeLimit
      else if q_limit q > maxResultSize v \<and> q_cursor q = []
      then Some (LimitTooLarge (q_limit q) (maxResultSize v))
      else if q_offset q < 0 then Some NegativeOffset
      else if q_offset q > 0 \<and> q_cursor q \<noteq> [] then Some OffsetAndCursor
      else None)"

definition Validate ::
  "(string \<Rightarrow> bool) \<Rightarrow> validator \<Rightarrow> query option \<Rightarrow> query_error option" where
  "Validate re_ok v q =
     (case q of None \<Rightarrow> Some QueryNil | Some q \<Rightarrow>
      and_then
        (if validateFieldMappings v then
           (let invalidFields = ValidateFields (collectFields q)
            in if invalidFields \<noteq> [] then Some (UnsupportedFields invalidFields) else None)
         else None)
     (and_then (map_option InSelect (validateSelect v (q_select q)))
     (and_then
        (case q_filter q of None \<Rightarrow> None
         | Some f \<Rightarrow> map_option InFilter (validateFilter re_ok v f))
     (and_then
        (case q_time_range q of None \<Rightarrow> None
         | Some tr \<Rightarrow> map_option InTimeRange (validateTimeRange tr))
     (and_then
        (if q_aggregations q = [] then None
         else map_option InAggregations (validateAggregations v (q_aggregations q)))
     (and_then
        (if q_sort q = [] then None else map_option InSort (validateSort v (q_sort q)))
        (map_option InPagination (validatePagination v q))))))))"

section \<open>Paths\<close>

text \<open>The grammar of a path: a dot alone, or one or more segments, each after a dot.\<close>

definition path_of :: "string list \<Rightarrow> string" where
  "path_of segs = concat (map (\<lambda>s. CHR ''.'' # s) segs)"

definition segment :: "string \<Rightarrow> bool" where
  "segment s \<longleftrightarrow> s \<noteq> [] \<and> CHR ''.'' \<notin> set s"

definition valid_path :: "string \<Rightarrow> bool" where
  "valid_path p \<longleftrightarrow> p = ''.'' \<or> (\<exists>segs. segs \<noteq> [] \<and> list_all segment segs \<and> p = path_of segs)"

lemma path_of_simps [simp]:
  "path_of [] = []" "path_of (s # segs) = CHR ''.'' # s @ path_of segs"
  by (simp_all add: path_of_def)

lemma contains_dots_Cons:
  "contains_str (c # s) ''..'' \<longleftrightarrow> (c = CHR ''.'' \<and> has_prefix s ''.'') \<or> contains_str s ''..''"
  by (cases s) (auto simp: has_prefix_def)

lemma contains_dots_append:
  "CHR ''.'' \<notin> set s \<Longrightarrow> contains_str (s @ r) ''..'' \<longleftrightarrow> contains_str r ''..''"
  by (induction s) (auto simp: contains_dots_Cons simp del: contains_str.simps(2))

lemma path_of_shape:
  assumes "segs \<noteq> []" and "list_all segment segs"
  shows "has_prefix (path_of segs) ''.'' \<and> \<not> contains_str (path_of segs) ''..''
    \<and> \<not> has_suffix (path_of segs) ''.''"
  using assms
proof (induction segs)
  case Nil
  then show ?case by simp
next
  case (Cons s segs)
  then have s: "s \<noteq> []" "CHR ''.'' \<notin> set s" by (simp_all add: segment_def)
  then have nd: "\<not> has_prefix (s @ path_of segs) ''.''"
    by (cases s) auto
  have dots: "\<not> contains_str (path_of segs) ''..''"
    using Cons by (cases segs) simp_all
  have "last (s @ path_of segs) \<noteq> CHR ''.''"
  proof (cases "segs = []")
    case True
    then have "last (s @ path_of segs) \<in> set s" using last_in_set [OF s(1)] by simp
    with s(2) show ?thesis by metis
  next
    case False
    with Cons have "\<not> has_suffix (path_of segs) ''.''" by simp
    with False show ?thesis by (cases segs) (auto simp: has_suffix_single)
  qed
  with s nd dots show ?case
    by (simp add: contains_dots_Cons contains_dots_append has_suffix_single
        del: contains_str.simps(2))
qed

lemma shape_path_of:
  assumes "has_prefix p ''.''" and "\<not> contains_str p ''..''" and "\<not> has_suffix p ''.''"
  shows "\<exists>segs. segs \<noteq> [] \<and> list_all segment segs \<and> p = path_of segs"
  using assms
proof (induction p rule: length_induct)
  case (1 p)
  from "1.prems" obtain r where p: "p = CHR ''.'' # r" by (cases p) auto
  define s where "s = takeWhile (\<lambda>c. c \<noteq> CHR ''.'') r"
  define q where "q = dropWhile (\<lambda>c. c \<noteq> CHR ''.'') r"
  have r: "r = s @ q" by (simp add: s_def q_def)
  have sd: "CHR ''.'' \<notin> set s" by (auto simp: s_def dest: set_takeWhileD)
  have "r \<noteq> []" using "1.prems" p by (auto simp: has_suffix_single)
  moreover have "hd r \<noteq> CHR ''.''" if "r \<noteq> []"
    using "1.prems" p that by (simp add: contains_dots_Cons del: contains_str.simps(2))
  ultimately have s: "segment s"
    using sd by (cases r) (auto simp: segment_def s_def)
  show ?case
  proof (cases "q = []")
    case True
    with s p r have "p = path_of [s]" "list_all segment [s]" by simp_all
    then show ?thesis by blast
  next
    case False
    then have hq: "hd q = CHR ''.''"
      using hd_dropWhile [of "\<lambda>c. c \<noteq> CHR ''.''" r] unfolding q_def by blast
    from p have pq: "p = CHR ''.'' # (s @ q)" unfolding r .
    have "has_prefix q ''.''" using False hq by simp
    moreover have "\<not> contains_str q ''..''"
      using "1.prems"(2) unfolding pq contains_dots_Cons contains_dots_append [OF sd] by blast
    moreover have "\<not> has_suffix q ''.''"
      using "1.prems"(3) False unfolding pq has_suffix_single by simp
    moreover have "length q < length p" unfolding pq by simp
    ultimately obtain segs where "segs \<noteq> []" "list_all segment segs" "q = path_of segs"
      using "1.IH" by blast
    with s have "p = path_of (s # segs)" "list_all segment (s # segs)"
      unfolding pq by simp_all
    then show ?thesis by blast
  qed
qed

lemma validateFieldPath_iff: "validateFieldPath p = None \<longleftrightarrow> valid_path p"
proof (cases "p = ''.''")
  case True
  then show ?thesis
    by (simp add: validateFieldPath_def valid_path_def has_prefix_def)
next
  case False
  then have "validateFieldPath p = None \<longleftrightarrow>
      has_prefix p ''.'' \<and> \<not> contains_str p ''..'' \<and> \<not> has_suffix p ''.''"
    by (auto simp: validateFieldPath_def)
  also have "\<dots> \<longleftrightarrow> (\<exists>segs. segs \<noteq> [] \<and> list_all segment segs \<and> p = path_of segs)"
    using shape_path_of path_of_shape by blast
  finally show ?thesis using False by (simp add: valid_path_def)
qed

section \<open>Filters\<close>

definition value_fits :: "(string \<Rightarrow> bool) \<Rightarrow> string \<Rightarrow> gval \<Rightarrow> bool" where
  \<comment> \<open>the values an operator takes\<close>
  "value_fits re_ok op val \<longleftrightarrow>
     (if op = ''in'' then \<exists>vs. val = GArr vs
      else if op = ''exists'' then \<exists>b. val = GBool b
      else if op = ''regex'' then \<exists>s. val = GStr s \<and> re_ok s
      else if op = ''cidr'' then \<exists>s. val = GStr s \<and> CHR ''/'' \<in> set s
      else val \<noteq> GNil)"

function accepted :: "(string \<Rightarrow> bool) \<Rightarrow> filter_expr \<Rightarrow> bool" where
  \<comment> \<open>the filters the validator means to accept, without the bound on nesting\<close>
  "accepted re_ok f \<longleftrightarrow>
     (if flt_type f = [] then
        valid_path (flt_field f) \<and> flt_operator f \<in> set operators
        \<and> value_fits re_ok (flt_operator f) (flt_value f)
      else if flt_type f = ''and'' \<or> flt_type f = ''or'' then
        flt_conditions f \<noteq> [] \<and> list_all (accepted re_ok) (flt_conditions f)
      else flt_type f = ''not''
        \<and> (case flt_condition f of None \<Rightarrow> False | Some c \<Rightarrow> accepted re_ok c))"
  by pat_completeness auto
termination
  by (relation "measure (\<lambda>(_, f). size f)") (auto dest: filter_expr_smaller)

declare accepted.simps [simp del]

lemma contains_slash: "contains_str s ''/'' \<longleftrightarrow> CHR ''/'' \<in> set s"
  by (auto simp: contains_str_iff in_set_conv_decomp)

lemma validateSimpleCondition_iff:
  assumes "flt_field f \<noteq> []"
  shows "validateSimpleCondition re_ok f = None \<longleftrightarrow>
     valid_path (flt_field f) \<and> flt_operator f \<in> set operators
     \<and> value_fits re_ok (flt_operator f) (flt_value f)"
proof (cases "valid_path (flt_field f)")
  case False
  then show ?thesis
    using validateFieldPath_iff [of "flt_field f"] by (auto simp: validateSimpleCondition_def)
next
  case True
  then have path: "validateFieldPath (flt_field f) = None" by (simp add: validateFieldPath_iff)
  have ops: "isValidOperator op \<longleftrightarrow> op \<in> set operators" for op
    by (auto simp: isValidOperator_def list_ex_iff)
  show ?thesis
    unfolding validateSimpleCondition_def path option.case ops value_fits_def
    using True by (cases "flt_value f") (auto simp: contains_slash)
qed

lemma fold_max_le:
  "fold max xs (m::nat) \<le> n \<longleftrightarrow> m \<le> n \<and> (\<forall>x\<in>set xs. x \<le> n)"
  by (induction xs arbitrary: m) auto

lemma filter_depth_eq:
  "filter_depth f =
     (if flt_type f = [] then 0
      else if flt_type f = ''not''
      then (case flt_condition f of None \<Rightarrow> 0 | Some c \<Rightarrow> Suc (filter_depth c))
      else fold max (map (\<lambda>c. Suc (filter_depth c)) (flt_conditions f)) 0)"
  by (cases f) simp

lemma filter_depth_list_le:
  "int (fold max (map (\<lambda>c. Suc (filter_depth c)) cs) 0) \<le> m \<longleftrightarrow>
     0 \<le> m \<and> (\<forall>c\<in>set cs. 1 + int (filter_depth c) \<le> m)"
proof -
  have "int (fold max (map (\<lambda>c. Suc (filter_depth c)) cs) 0) \<le> m \<longleftrightarrow>
      0 \<le> m \<and> fold max (map (\<lambda>c. Suc (filter_depth c)) cs) 0 \<le> nat m"
    by linarith
  also have "\<dots> \<longleftrightarrow> 0 \<le> m \<and> (\<forall>c\<in>set cs. Suc (filter_depth c) \<le> nat m)"
    by (simp add: fold_max_le)
  also have "\<dots> \<longleftrightarrow> 0 \<le> m \<and> (\<forall>c\<in>set cs. 1 + int (filter_depth c) \<le> m)"
    by auto
  finally show ?thesis .
qed

lemma accepted_field: "accepted re_ok f \<Longrightarrow> flt_type f = [] \<Longrightarrow> flt_field f \<noteq> []"
  by (simp add: accepted.simps [of _ f]) (auto simp: valid_path_def neq_Nil_conv)

lemma validateFilterWithDepth_iff:
  "validateFilterWithDepth re_ok v f d = None \<longleftrightarrow>
     accepted re_ok f \<and> d + int (filter_depth f) \<le> maxFilterDepth v"
proof (induction f arbitrary: d rule: measure_induct_rule [of size])
  case (less f)
  note IH = less.IH
  consider (simple) "flt_type f = []"
    | (many) "flt_type f = ''and'' \<or> flt_type f = ''or''"
    | (neg) "flt_type f = ''not''"
    | (other) "\<not> isValidCompoundType (flt_type f)" "flt_type f \<noteq> []"
    by (auto simp: isValidCompoundType_def)
  then show ?case
  proof cases
    case simple
    then show ?thesis
      using accepted_field [of re_ok f]
      by (cases "flt_field f = []")
        (auto simp: validateFilterWithDepth.simps IsSimpleCondition_def IsCompoundCondition_def
          validateSimpleCondition_iff accepted.simps [of _ f] filter_depth_eq [of f])
  next
    case many
    have kids: "\<forall>c\<in>set (flt_conditions f). \<forall>d. validateFilterWithDepth re_ok v c d = None \<longleftrightarrow>
        accepted re_ok c \<and> d + int (filter_depth c) \<le> maxFilterDepth v"
      using IH filter_expr_smaller(1) by blast
    from many have ne: "flt_type f \<noteq> []" "flt_type f \<noteq> ''not''" "isValidCompoundType (flt_type f)"
      by (auto simp: isValidCompoundType_def)
    have depth: "d + int (filter_depth f) \<le> maxFilterDepth v \<longleftrightarrow>
        d \<le> maxFilterDepth v
        \<and> (\<forall>c\<in>set (flt_conditions f). d + 1 + int (filter_depth c) \<le> maxFilterDepth v)"
      using ne filter_depth_list_le [of "flt_conditions f" "maxFilterDepth v - d"]
      by (auto simp: filter_depth_eq [of f] algebra_simps)
    have acc: "accepted re_ok f \<longleftrightarrow>
        flt_conditions f \<noteq> [] \<and> (\<forall>c\<in>set (flt_conditions f). accepted re_ok c)"
      using many ne by (auto simp: accepted.simps [of _ f] list_all_iff)
    have "validateFilterWithDepth re_ok v f d = None \<longleftrightarrow>
        d \<le> maxFilterDepth v \<and> flt_conditions f \<noteq> []
        \<and> (\<forall>c\<in>set (flt_conditions f). validateFilterWithDepth re_ok v c (d + 1) = None)"
      using many ne
      by (simp add: validateFilterWithDepth.simps [of _ _ f] IsSimpleCondition_def
          IsCompoundCondition_def validateCompoundConditionWithDepth.simps first_err_None)
    with kids show ?thesis unfolding depth acc by auto
  next
    case neg
    show ?thesis
    proof (cases "flt_condition f")
      case None
      with neg show ?thesis
        by (simp add: validateFilterWithDepth.simps [of _ _ f] IsSimpleCondition_def
            IsCompoundCondition_def validateCompoundConditionWithDepth.simps
            accepted.simps [of _ f] isValidCompoundType_def)
    next
      case (Some c)
      have "validateFilterWithDepth re_ok v c (d + 1) = None \<longleftrightarrow>
          accepted re_ok c \<and> (d + 1) + int (filter_depth c) \<le> maxFilterDepth v"
        using IH filter_expr_smaller(2) [OF Some] by blast
      with neg Some show ?thesis
        by (auto simp: validateFilterWithDepth.simps [of _ _ f] IsSimpleCondition_def
            IsCompoundCondition_def validateCompoundConditionWithDepth.simps
            accepted.simps [of _ f] isValidCompoundType_def filter_depth_eq [of f])
    qed
  next
    case other
    then show ?thesis
      by (auto simp: validateFilterWithDepth.simps [of _ _ f] IsSimpleCondition_def
          IsCompoundCondition_def validateCompoundConditionWithDepth.simps
          accepted.simps [of _ f] isValidCompoundType_def)
  qed
qed

lemma validateFilter_iff:
  "validateFilter re_ok v f = None \<longleftrightarrow>
     accepted re_ok f \<and> int (filter_depth f) \<le> maxFilterDepth v"
  by (simp add: validateFilter_def validateFilterWithDepth_iff)

section \<open>Aggregations\<close>

function agg_shape :: "aggregation \<Rightarrow> bool" where
  \<comment> \<open>every aggregation of the tree has a known type and a name\<close>
  "agg_shape a \<longleftrightarrow> agg_type a \<in> set aggregation_types \<and> agg_name a \<noteq> []
     \<and> list_all agg_shape (agg_aggregations a)"
  by pat_completeness auto
termination
  by (relation "measure size") (auto dest: aggregation_smaller)

declare agg_shape.simps [simp del]

lemma isValidAggregationType_iff: "isValidAggregationType t \<longleftrightarrow> t \<in> set aggregation_types"
  by (auto simp: isValidAggregationType_def list_ex_iff)

lemma validateAggregation_shape: "validateAggregation v a = None \<Longrightarrow> agg_shape a"
proof (induction a rule: measure_induct_rule [of size])
  case (less a)
  from less.prems have own: "agg_type a \<in> set aggregation_types" "agg_name a \<noteq> []"
    by (auto simp: validateAggregation.simps [of v a] isValidAggregationType_iff split: if_splits)
  have "\<forall>b\<in>set (agg_aggregations a). validateAggregation v b = None"
    using less.prems
    by (cases "agg_aggregations a = []")
      (auto simp: validateAggregation.simps [of v a] first_err_None split: if_splits)
  then have "list_all agg_shape (agg_aggregations a)"
    using less.IH aggregation_smaller by (auto simp: list_all_iff)
  with own show ?case by (simp add: agg_shape.simps [of a])
qed

lemma validateAggregations_shape:
  "validateAggregations v aggs = None \<Longrightarrow> list_all agg_shape aggs"
  by (auto simp: validateAggregations_def first_err_None list_all_iff
      dest: validateAggregation_shape split: if_splits)

section \<open>The whole query\<close>

lemma Validate_None_iff:
  "Validate re_ok v (Some q) = None \<longleftrightarrow>
     (validateFieldMappings v \<longrightarrow> ValidateFields (collectFields q) = [])
     \<and> validateSelect v (q_select q) = None
     \<and> (\<forall>f. q_filter q = Some f \<longrightarrow> validateFilter re_ok v f = None)
     \<and> (\<forall>tr. q_time_range q = Some tr \<longrightarrow> validateTimeRange tr = None)
     \<and> (q_aggregations q \<noteq> [] \<longrightarrow> validateAggregations v (q_aggregations q) = None)
     \<and> (q_sort q \<noteq> [] \<longrightarrow> validateSort v (q_sort q) = None)
     \<and> validatePagination v q = None"
  by (auto simp: Validate_def Let_def split: option.splits if_splits)

lemma Validate_None:
  assumes "Validate re_ok v (Some q) = None"
  shows "\<And>f. q_filter q = Some f \<Longrightarrow> validateFilter re_ok v f = None"
    and "list_all agg_shape (q_aggregations q)"
    and "validatePagination v q = None"
    and "validateFieldMappings v \<Longrightarrow> \<forall>p\<in>set (collectFields q). IsValidField p"
  using assms validateAggregations_shape [of v "q_aggregations q"]
  by (auto simp: Validate_None_iff ValidateFields_Nil_iff)

end
