(* ===== verification/Translator.thy ===== *)
theory Translator
  imports QueryModel "HOL-Library.List_Lexorder" "HOL-Library.Char_ord"
begin

text \<open>
  The translation of a canonical query to the OpenSearch query language
  (\<^verbatim>\<open>search/internal/translator/opensearch.go\<close>), one definition per method. The result is the JSON
  document the service sends, a \<open>gval\<close>; a Go map literal becomes an object with its keys in the
  order they are written. The reading of \<open>time.Now()\<close> is the argument \<open>now\<close>, and the text of
  a \<open>float64\<close> under \<open>%v\<close> is the parameter \<open>ff\<close>.
\<close>

section \<open>Formatting\<close>

fun fmt_v :: "(int \<Rightarrow> int \<Rightarrow> string) \<Rightarrow> gval \<Rightarrow> string" where
  \<comment> \<open>\<open>fmt.Sprintf("%v", v)\<close>: a map prints its keys in sorted order\<close>
  "fmt_v ff GNil = ''<nil>''"
| "fmt_v ff (GBool b) = (if b then ''true'' else ''false'')"
| "fmt_v ff (GInt i) = int_string i"
| "fmt_v ff (GFloat m e) = ff m e"
| "fmt_v ff (GStr s) = s"
| "fmt_v ff (GArr vs) = ''['' @ join_with '' '' (map (fmt_v ff) vs) @ '']''"
| "fmt_v ff (GObj kvs) =
     ''map['' @ join_with '' ''
       (map (\<lambda>(k, s). k @ '':'' @ s) (sort_key fst (map (\<lambda>(k, v). (k, fmt_v ff v)) kvs))) @ '']''"

section \<open>Field names\<close>

definition translateFieldPath :: "string \<Rightarrow> string" where
  "translateFieldPath field = (if has_prefix field ''.'' then drop 1 field else field)"

definition numericFields :: "string list" where
  "numericFields =
     [''class_uid'', ''category_uid'', ''activity_id'', ''severity_id'', ''type_uid'', ''status_id'',
      ''time'', ''end_time'', ''start_time'', ''observed_time'']"

definition ensureKeywordField :: "string \<Rightarrow> string" where
  "ensureKeywordField field =
     (if has_suffix field ''.keyword'' then field
      else if field \<in> set numericFields then field
      else if has_suffix field ''_id'' \<or> has_suffix field ''_uid'' \<or> has_suffix field ''_code''
        \<or> has_suffix field ''.port'' then field
      else if has_suffix field ''.ip'' \<or> has_suffix field ''_ip'' then field
      else field @ ''.keyword'')"

definition exactMatchFields :: "string list" where
  "exactMatchFields =
     [''class_uid'', ''category_uid'', ''activity_id'', ''type_uid'', ''severity_id'', ''status_id'',
      ''severity'', ''status'', ''observables'']"

fun is_scalar :: "gval \<Rightarrow> bool" where
  \<comment> \<open>the type switch over the numeric types and \<open>bool\<close>\<close>
  "is_scalar (GInt _) = True"
| "is_scalar (GFloat _ _) = True"
| "is_scalar (GBool _) = True"
| "is_scalar _ = False"

definition shouldUseTermQuery :: "string \<Rightarrow> gval \<Rightarrow> bool" where
  "shouldUseTermQuery field val =
     (if is_scalar val then True
      else if has_suffix field ''.ip'' \<or> has_suffix field ''_ip'' then True
      else if has_suffix field ''.uid'' \<or> has_suffix field ''_uid''
        \<or> has_suffix field ''.id'' \<or> has_suffix field ''_id'' then True
      else if has_suffix field ''.port'' \<or> has_suffix field ''_port'' then True
      else if contains_str field ''_uid'' \<or> contains_str field ''_id''
        \<or> has_suffix field ''.code'' \<or> has_suffix field ''_code'' then True
      else if field \<in> set exactMatchFields then True
      else False)"

section \<open>Filters\<close>

datatype translate_error =
    NeitherFilter
  | UnsupportedOp string
  | NotWithoutCondition
  | UnsupportedCompound string
  | UnsupportedAgg string
  | BoolQueryFailed translate_error
  | AggregationsFailed translate_error

abbreviation obj1 :: "string \<Rightarrow> gval \<Rightarrow> gval" where
  "obj1 k v \<equiv> GObj [(k, v)]"

definition wildcard :: "string \<Rightarrow> string \<Rightarrow> gval" where
  "wildcard field valueStr = obj1 ''wildcard'' (obj1 field (obj1 ''value'' (GStr valueStr)))"

definition translateSimpleCondition ::
  "(int \<Rightarrow> int \<Rightarrow> string) \<Rightarrow> filter_expr \<Rightarrow> translate_error + gval" where
  "translateSimpleCondition ff flt =
     (let field = translateFieldPath (flt_field flt); op = flt_operator flt; val = flt_value flt in
      if op = ''eq'' then
        (if shouldUseTermQuery field val then Inr (obj1 ''term'' (obj1 field val))
         else Inr (obj1 ''match'' (obj1 field val)))
      else if op = ''ne'' then
        (if shouldUseTermQuery field val
         then Inr (obj1 ''bool'' (obj1 ''must_not'' (obj1 ''term'' (obj1 field val))))
         else Inr (obj1 ''bool'' (obj1 ''must_not'' (obj1 ''match'' (obj1 field val)))))
      else if op = ''gt'' then Inr (obj1 ''range'' (obj1 field (obj1 ''gt'' val)))
      else if op = ''gte'' then Inr (obj1 ''range'' (obj1 field (obj1 ''gte'' val)))
      else if op = ''lt'' then Inr (obj1 ''range'' (obj1 field (obj1 ''lt'' val)))
      else if op = ''lte'' then Inr (obj1 ''range'' (obj1 field (obj1 ''lte'' val)))
      else if op = ''in'' then Inr (obj1 ''terms'' (obj1 field val))
      else if op = ''contains'' then Inr (wildcard field (''*'' @ fmt_v ff val @ ''*''))
      else if op = ''startsWith'' then Inr (wildcard field (fmt_v ff val @ ''*''))
      else if op = ''endsWith'' then Inr (wildcard field (''*'' @ fmt_v ff val))
      else if op = ''regex'' then Inr (obj1 ''regexp'' (obj1 field val))
      else if op = ''exists'' then
        (if val = GBool True then Inr (obj1 ''exists'' (obj1 ''field'' (GStr field)))
         else Inr (obj1 ''bool'' (obj1 ''must_not'' (obj1 ''exists'' (obj1 ''field'' (GStr field))))))
      else if op = ''cidr'' then Inr (obj1 ''term'' (obj1 field val))
      else Inl (UnsupportedOp op))"

function (sequential) translateFilter ::
  "(int \<Rightarrow> int \<Rightarrow> string) \<Rightarrow> filter_expr \<Rightarrow> translate_error + gval"
  and translateCompoundCondition ::
  "(int \<Rightarrow> int \<Rightarrow> string) \<Rightarrow> filter_expr \<Rightarrow> translate_error + gval"
where
  "translateFilter ff flt =
     (if IsSimpleCondition flt then translateSimpleCondition ff flt
      else if IsCompoundCondition flt then translateCompoundCondition ff flt
      else Inl NeitherFilter)"
| "translateCompoundCondition ff flt =
     (if flt_type flt = ''and'' then
        (case try_all (translateFilter ff) (flt_conditions flt) of
           Inl e \<Rightarrow> Inl e
         | Inr must \<Rightarrow> Inr (obj1 ''bool'' (obj1 ''must'' (GArr must))))
      else if flt_type flt = ''or'' then
        (case try_all (translateFilter ff) (flt_conditions flt) of
           Inl e \<Rightarrow> Inl e
         | Inr should \<Rightarrow>
             Inr (obj1 ''bool''
                   (GObj [(''should'', GArr should), (''minimum_should_match'', GInt 1)])))
      else if flt_type flt = ''not'' then
        (case flt_condition flt of
           None \<Rightarrow> Inl NotWithoutCondition
         | Some c \<Rightarrow>
             (case translateFilter ff c of
                Inl e \<Rightarrow> Inl e
              | Inr translated \<Rightarrow> Inr (obj1 ''bool'' (obj1 ''must_not'' translated))))
      else Inl (UnsupportedCompound (flt_type flt)))"
  by pat_completeness auto
termination
  by (relation "measure (case_sum (\<lambda>(_, f). 2 * size f + 1) (\<lambda>(_, f). 2 * size f))")
    (auto dest: filter_expr_smaller)

declare translateFilter.simps [simp del] translateCompoundCondition.simps [simp del]

section \<open>Time range and bool query\<close>

definition buildTimeRangeFilter :: "time \<Rightarrow> time_range \<Rightarrow> gval option" where
  \<comment> \<open>never an error; \<open>None\<close> is the nil map of a range without bounds\<close>
  "buildTimeRangeFilter now tr =
     (if tr_last tr \<noteq> [] then
        Some (obj1 ''range'' (obj1 ''time''
          (GObj [(''gte'', GStr (''now-'' @ tr_last tr)), (''lte'', GStr ''now'')])))
      else
        (let gte = (case tr_start tr of Some s \<Rightarrow> [(''gte'', GInt (unix s))] | None \<Rightarrow> []);
             lte = (case tr_end tr of
                      Some e \<Rightarrow> [(''lte'', GInt (unix e))]
                    | None \<Rightarrow> if tr_start tr \<noteq> None then [(''lte'', GInt (unix now))] else [])
         in if gte @ lte = [] then None
            else Some (obj1 ''range'' (obj1 ''time'' (GObj (gte @ lte))))))"

definition buildBoolQuery ::
  "(int \<Rightarrow> int \<Rightarrow> string) \<Rightarrow> time \<Rightarrow> filter_expr option \<Rightarrow> time_range option \<Rightarrow> translate_error + gval"
where
  "buildBoolQuery ff now flt timeRange =
     (let time_part = (case timeRange of
                         None \<Rightarrow> []
                       | Some tr \<Rightarrow> (case buildTimeRangeFilter now tr of None \<Rightarrow> [] | Some f \<Rightarrow> [f]));
          result = (\<lambda>must. if must = [] then GObj [] else obj1 ''must'' (GArr must))
      in case flt of
           None \<Rightarrow> Inr (result time_part)
         | Some f \<Rightarrow>
             (case translateFilter ff f of
                Inl e \<Rightarrow> Inl e
              | Inr q \<Rightarrow> Inr (result (q # time_part))))"

section \<open>Sorting and aggregations\<close>

definition sort_clause :: "sort_spec \<Rightarrow> gval" where
  "sort_clause s =
     obj1 (translateFieldPath (sort_field s))
       (obj1 ''order'' (GStr (if sort_order s \<noteq> [] then sort_order s else ''desc'')))"

definition sort_clauses :: "sort_spec list \<Rightarrow> gval" where
  \<comment> \<open>the given sort, or by time descending\<close>
  "sort_clauses sorts =
     (if sorts \<noteq> [] then GArr (map sort_clause sorts)
      else GArr [obj1 ''time'' (obj1 ''order'' (GStr ''desc''))])"

definition agg_body :: "aggregation \<Rightarrow> translate_error + (string \<times> gval)" where
  \<comment> \<open>the \<open>switch\<close> over the aggregation type: the one entry of \<open>aggBody\<close>\<close>
  "agg_body agg =
     (let field = translateFieldPath (agg_field agg); ty = agg_type agg;
          on_field = obj1 ''field'' (GStr field) in
      if ty = ''terms'' then
        Inr (''terms'',
          GObj ([(''field'', GStr (ensureKeywordField field)), (''size'', GInt (agg_size agg))]
            @ (if agg_order agg \<noteq> []
               then [(''order'', GObj (map (\<lambda>(k, d). (k, GStr d)) (agg_order agg)))] else [])))
      else if ty = ''date_histogram'' then
        Inr (''date_histogram'',
          GObj [(''field'', GStr field), (''interval'', GStr (agg_interval agg))])
      else if ty = ''avg'' then Inr (''avg'', on_field)
      else if ty = ''sum'' then Inr (''sum'', on_field)
      else if ty = ''min'' then Inr (''min'', on_field)
      else if ty = ''max'' then Inr (''max'', on_field)
      else if ty = ''stats'' then Inr (''stats'', on_field)
      else if ty = ''cardinality'' then
        Inr (''cardinality'', obj1 ''field'' (GStr (ensureKeywordField field)))
      else if ty = ''top_hits'' then
        Inr (''top_hits'',
          GObj [(''size'', GInt (if agg_top_hits_size agg = 0 then 1 else agg_top_hits_size agg)),
                (''sort'', sort_clauses (agg_top_hits_sort agg))])
      else Inl (UnsupportedAgg ty))"

function translateAggregation :: "aggregation \<Rightarrow> translate_error + gval" where
  "translateAggregation agg =
     (case agg_body agg of
        Inl e \<Rightarrow> Inl e
      | Inr body \<Rightarrow>
          if agg_aggregations agg = [] then Inr (GObj [body])
          else
            (case try_all translateAggregation (agg_aggregations agg) of
               Inl e \<Rightarrow> Inl e
             | Inr bodies \<Rightarrow>
                 Inr (GObj [body, (''aggs'',
                   GObj (fold (\<lambda>(a, b). map_put (agg_name a) b)
                     (zip (agg_aggregations agg) bodies) []))])))"
  by pat_completeness auto
termination
  by (relation "measure size") (auto dest: aggregation_smaller)

declare translateAggregation.simps [simp del]

definition buildAggregations :: "aggregation list \<Rightarrow> translate_error + gval" where
  \<comment> \<open>\<open>result[agg.Name] = aggBody\<close>: a later aggregation of the same name wins\<close>
  "buildAggregations aggs =
     (case try_all translateAggregation aggs of
        Inl e \<Rightarrow> Inl e
      | Inr bodies \<Rightarrow> Inr (GObj (fold (\<lambda>(a, b). map_put (agg_name a) b) (zip aggs bodies) [])))"

section \<open>The whole query\<close>

definition Translate ::
  "(int \<Rightarrow> int \<Rightarrow> string) \<Rightarrow> time \<Rightarrow> query \<Rightarrow> translate_error + (string \<times> gval) list" where
  "Translate ff now q =
     (let query_part =
            (if q_filter q \<noteq> None \<or> q_time_range q \<noteq> None then
               (case buildBoolQuery ff now (q_filter q) (q_time_range q) of
                  Inl e \<Rightarrow> Inl (BoolQueryFailed e)
                | Inr b \<Rightarrow> Inr [(''query'', obj1 ''bool'' b)])
             else Inr [(''query'', obj1 ''match_all'' (GObj []))]);
          source = (if q_select q \<noteq> []
                    then [(''_source'', GArr (map (GStr \<circ> translateFieldPath) (q_select q)))] else []);
          sort = [(''sort'', sort_clauses (q_sort q))];
          size = [(''size'', GInt (if q_limit q > 0 then q_limit q else 100))];
          from = (if q_offset q > 0 then [(''from'', GInt (q_offset q))] else [])
      in case query_part of
           Inl e \<Rightarrow> Inl e
         | Inr query \<Rightarrow>
             if q_aggregations q = [] then Inr (query @ source @ sort @ size @ from)
             else
               (case buildAggregations (q_aggregations q) of
                  Inl e \<Rightarrow> Inl (AggregationsFailed e)
                | Inr aggs \<Rightarrow> Inr (query @ source @ sort @ size @ from @ [(''aggs'', aggs)])))"

end
