(* ===== verification/QueryRefinement.thy ===== *)
theory QueryRefinement
  imports QueryValidator Translator
begin

text \<open>
  What the validator and the translator of the search service promise each other and the search
  engine: a query the validator accepts is translated without an error; the translated filter
  means what the canonical filter says, for every engine that gives \<open>bool\<close> queries their
  documented meaning; and the fields and sizes that reach the engine are bounded by the
  validator's checks.
\<close>

section \<open>Accepted queries translate\<close>

lemma translateSimpleCondition_total:
  "flt_operator f \<in> set operators \<Longrightarrow> \<exists>q. translateSimpleCondition ff f = Inr q"
  by (auto simp: translateSimpleCondition_def operators_def Let_def)

lemma translateFilter_cases:
  "flt_type f = [] \<Longrightarrow> flt_field f \<noteq> [] \<Longrightarrow>
     translateFilter ff f = translateSimpleCondition ff f"
  "flt_type f \<noteq> [] \<Longrightarrow> translateFilter ff f = translateCompoundCondition ff f"
  by (simp_all add: translateFilter.simps [of ff f] IsSimpleCondition_def IsCompoundCondition_def)

lemma accepted_compound:
  "accepted re_ok f \<Longrightarrow> flt_type f \<noteq> [] \<Longrightarrow>
     (flt_type f = ''and'' \<or> flt_type f = ''or'') \<and> flt_conditions f \<noteq> []
       \<and> (\<forall>c\<in>set (flt_conditions f). accepted re_ok c)
     \<or> flt_type f = ''not'' \<and> (\<exists>c. flt_condition f = Some c \<and> accepted re_ok c)"
  by (auto simp: accepted.simps [of _ f] list_all_iff split: if_splits option.splits)

lemma accepted_translates: "accepted re_ok f \<Longrightarrow> \<exists>q. translateFilter ff f = Inr q"
proof (induction f rule: measure_induct_rule [of size])
  case (less f)
  show ?case
  proof (cases "flt_type f = []")
    case True
    with less.prems have "flt_operator f \<in> set operators" "flt_field f \<noteq> []"
      using accepted_field [OF less.prems True] by (simp_all add: accepted.simps [of _ f])
    with True show ?thesis
      using translateSimpleCondition_total by (simp add: translateFilter_cases)
  next
    case False
    from accepted_compound [OF less.prems False] show ?thesis
    proof (elim disjE conjE exE)
      fix c assume "flt_type f = ''not''" and c: "flt_condition f = Some c" "accepted re_ok c"
      moreover obtain q where "translateFilter ff c = Inr q"
        using less.IH [OF filter_expr_smaller(2) [OF c(1)] c(2)] by blast
      ultimately show ?thesis
        by (simp add: translateFilter_cases translateCompoundCondition.simps)
    next
      assume ty: "flt_type f = ''and''" and "\<forall>c\<in>set (flt_conditions f). accepted re_ok c"
      then obtain qs where "try_all (translateFilter ff) (flt_conditions f) = Inr qs"
        using less.IH filter_expr_smaller(1) try_all_Inr_iff [of "translateFilter ff"] by metis
      with ty show ?thesis by (simp add: translateFilter_cases translateCompoundCondition.simps)
    next
      assume ty: "flt_type f = ''or''" and "\<forall>c\<in>set (flt_conditions f). accepted re_ok c"
      then obtain qs where "try_all (translateFilter ff) (flt_conditions f) = Inr qs"
        using less.IH filter_expr_smaller(1) try_all_Inr_iff [of "translateFilter ff"] by metis
      with ty show ?thesis by (simp add: translateFilter_cases translateCompoundCondition.simps)
    qed
  qed
qed

lemma agg_body_total: "agg_type a \<in> set aggregation_types \<Longrightarrow> \<exists>b. agg_body a = Inr b"
  by (auto simp: agg_body_def aggregation_types_def Let_def)

lemma agg_shape_translates: "agg_shape a \<Longrightarrow> \<exists>q. translateAggregation a = Inr q"
proof (induction a rule: measure_induct_rule [of size])
  case (less a)
  from less.prems have "agg_type a \<in> set aggregation_types"
    by (simp add: agg_shape.simps [of a])
  then obtain b where b: "agg_body a = Inr b"
    using agg_body_total by blast
  from less.prems have "\<forall>c\<in>set (agg_aggregations a). \<exists>q. translateAggregation c = Inr q"
    using less.IH aggregation_smaller by (auto simp: agg_shape.simps [of a] list_all_iff)
  then obtain qs where "try_all translateAggregation (agg_aggregations a) = Inr qs"
    using try_all_Inr_iff [of translateAggregation] by metis
  with b show ?case by (simp add: translateAggregation.simps [of a])
qed

lemma buildAggregations_total:
  assumes "list_all agg_shape aggs"
  shows "\<exists>q. buildAggregations aggs = Inr q"
proof -
  from assms obtain qs where "try_all translateAggregation aggs = Inr qs"
    using agg_shape_translates try_all_Inr_iff [of translateAggregation aggs]
    by (metis list_all_iff)
  then show ?thesis by (simp add: buildAggregations_def)
qed

lemma Translate_total:
  assumes "\<And>f. q_filter q = Some f \<Longrightarrow> \<exists>d. translateFilter ff f = Inr d"
    and "list_all agg_shape (q_aggregations q)"
  shows "\<exists>dsl. Translate ff now q = Inr dsl"
proof -
  obtain a where "buildAggregations (q_aggregations q) = Inr a"
    using buildAggregations_total [OF assms(2)] by blast
  moreover obtain b where "buildBoolQuery ff now (q_filter q) (q_time_range q) = Inr b"
    using assms(1) by (cases "q_filter q") (auto simp: buildBoolQuery_def Let_def)
  ultimately show ?thesis by (simp add: Translate_def Let_def)
qed

lemma Translate_size:
  "Translate ff now q = Inr dsl \<Longrightarrow>
     map_of dsl ''size'' = Some (GInt (if q_limit q > 0 then q_limit q else 100))"
  by (auto simp: Translate_def Let_def split: if_splits sum.splits)

lemma Translate_keys:
  "Translate ff now q = Inr dsl \<Longrightarrow>
     fst ` set dsl \<subseteq> {''query'', ''_source'', ''sort'', ''size'', ''from'', ''aggs''}"
  by (auto simp: Translate_def Let_def split: if_splits sum.splits)

section \<open>The meaning of a translated filter\<close>

text \<open>
  The documented meaning of the engine's \<open>bool\<close> queries: all \<open>must\<close> clauses match, at least
  one \<open>should\<close> clause matches when \<open>minimum_should_match\<close> is 1, the \<open>must_not\<close> clause does
  not match.
\<close>

locale bool_query =
  fixes matches :: "gval \<Rightarrow> 'd \<Rightarrow> bool"
  assumes must: "matches (obj1 ''bool'' (obj1 ''must'' (GArr qs))) d \<longleftrightarrow> (\<forall>q\<in>set qs. matches q d)"
    and should: "matches (obj1 ''bool''
        (GObj [(''should'', GArr qs), (''minimum_should_match'', GInt 1)])) d
      \<longleftrightarrow> (\<exists>q\<in>set qs. matches q d)"
    and must_not: "matches (obj1 ''bool'' (obj1 ''must_not'' q)) d \<longleftrightarrow> \<not> matches q d"

text \<open>The clauses under \<open>filter\<close> must match as well.\<close>

locale filtered_query = bool_query +
  assumes filtered: "matches (obj1 ''bool'' (obj1 ''filter'' (GArr fs))) d \<longleftrightarrow> (\<forall>q\<in>set fs. matches q d)"
    and must_filtered: "matches (obj1 ''bool'' (GObj [(''must'', GArr qs), (''filter'', GArr fs)])) d
      \<longleftrightarrow> (\<forall>q\<in>set qs. matches q d) \<and> (\<forall>q\<in>set fs. matches q d)"

text \<open>
  What a canonical filter says of a document, given what its atoms say: a condition with
  \<open>ne\<close> is the negation of the one with \<open>eq\<close>, \<open>exists\<close> with anything but \<open>true\<close> the
  negation of \<open>exists true\<close>, and the compound types are conjunction, disjunction and negation.
\<close>

function holds :: "(string \<Rightarrow> string \<Rightarrow> gval \<Rightarrow> bool) \<Rightarrow> filter_expr \<Rightarrow> bool" where
  "holds atom f \<longleftrightarrow>
     (if flt_type f = [] then
        (if flt_operator f = ''ne'' then \<not> atom (flt_field f) ''eq'' (flt_value f)
         else if flt_operator f = ''exists'' \<and> flt_value f \<noteq> GBool True
         then \<not> atom (flt_field f) ''exists'' (GBool True)
         else atom (flt_field f) (flt_operator f) (flt_value f))
      else if flt_type f = ''and'' then list_all (holds atom) (flt_conditions f)
      else if flt_type f = ''or'' then list_ex (holds atom) (flt_conditions f)
      else (case flt_condition f of None \<Rightarrow> False | Some c \<Rightarrow> \<not> holds atom c))"
  by pat_completeness auto
termination
  by (relation "measure (\<lambda>(_, f). size f)") (auto dest: filter_expr_smaller)

declare holds.simps [simp del]

definition atom_query ::
  "(int \<Rightarrow> int \<Rightarrow> string) \<Rightarrow> string \<Rightarrow> string \<Rightarrow> gval \<Rightarrow> gval" where
  \<comment> \<open>the engine's query for one condition\<close>
  "atom_query ff field op val =
     (case translateSimpleCondition ff (FilterExpr field op val [] [] None) of
        Inl _ \<Rightarrow> GNil
      | Inr q \<Rightarrow> q)"

lemma translateSimpleCondition_fields:
  "translateSimpleCondition ff f =
     translateSimpleCondition ff (FilterExpr (flt_field f) (flt_operator f) (flt_value f) [] [] None)"
  by (simp add: translateSimpleCondition_def)

lemma simple_ne:
  "translateSimpleCondition ff (FilterExpr fld ''ne'' v [] [] None)
     = Inr (obj1 ''bool'' (obj1 ''must_not'' (atom_query ff fld ''eq'' v)))"
  by (simp add: translateSimpleCondition_def atom_query_def Let_def)

lemma simple_not_exists:
  "v \<noteq> GBool True \<Longrightarrow> translateSimpleCondition ff (FilterExpr fld ''exists'' v [] [] None)
     = Inr (obj1 ''bool'' (obj1 ''must_not'' (atom_query ff fld ''exists'' (GBool True))))"
  by (simp add: translateSimpleCondition_def atom_query_def Let_def)

context bool_query
begin

lemma simple_holds:
  assumes "translateSimpleCondition ff f = Inr q" and "flt_type f = []"
  shows "matches q d \<longleftrightarrow> holds (\<lambda>fld op v. matches (atom_query ff fld op v) d) f"
proof -
  note eq = assms(1) [unfolded translateSimpleCondition_fields [of ff f]]
  consider "flt_operator f = ''ne''"
    | "flt_operator f = ''exists''" "flt_value f \<noteq> GBool True"
    | "flt_operator f \<noteq> ''ne''" "flt_operator f = ''exists'' \<longrightarrow> flt_value f = GBool True"
    by blast
  then show ?thesis
  proof cases
    case 1
    with eq simple_ne [of ff] assms(2) show ?thesis
      by (auto simp: must_not holds.simps [of _ f])
  next
    case 2
    with eq simple_not_exists [OF 2(2), of ff] assms(2) show ?thesis
      by (auto simp: must_not holds.simps [of _ f])
  next
    case 3
    with eq assms(2) show ?thesis
      by (auto simp: holds.simps [of _ f] atom_query_def)
  qed
qed

lemma translate_list_holds:
  assumes "try_all (translateFilter ff) fs = Inr qs"
    and "\<And>f q. f \<in> set fs \<Longrightarrow> translateFilter ff f = Inr q \<Longrightarrow> matches q d \<longleftrightarrow> P f"
  shows "(\<forall>q\<in>set qs. matches q d) \<longleftrightarrow> list_all P fs" "(\<exists>q\<in>set qs. matches q d) \<longleftrightarrow> list_ex P fs"
proof -
  from try_all_InrD [OF assms(1)] have "list_all2 (\<lambda>f q. translateFilter ff f = Inr q) fs qs" .
  then have "list_all2 (\<lambda>f q. matches q d \<longleftrightarrow> P f) fs qs"
    by (rule list.rel_mono_strong) (use assms(2) in blast)
  then show "(\<forall>q\<in>set qs. matches q d) \<longleftrightarrow> list_all P fs"
    "(\<exists>q\<in>set qs. matches q d) \<longleftrightarrow> list_ex P fs"
    by (induction rule: list_all2_induct) auto
qed

lemma translate_holds:
  "translateFilter ff f = Inr q \<Longrightarrow>
     matches q d \<longleftrightarrow> holds (\<lambda>fld op v. matches (atom_query ff fld op v) d) f"
proof (induction f arbitrary: q rule: measure_induct_rule [of size])
  case (less f)
  let ?P = "holds (\<lambda>fld op v. matches (atom_query ff fld op v) d)"
  show ?case
  proof (cases "flt_type f = []")
    case True
    with less.prems have "translateSimpleCondition ff f = Inr q"
      by (auto simp: translateFilter.simps [of ff f] IsSimpleCondition_def IsCompoundCondition_def
          split: if_splits)
    then show ?thesis using True by (rule simple_holds)
  next
    case False
    with less.prems have tr: "translateCompoundCondition ff f = Inr q"
      by (simp add: translateFilter_cases)
    have IH: "\<And>c p. c \<in> set (flt_conditions f) \<Longrightarrow> translateFilter ff c = Inr p \<Longrightarrow>
        matches p d \<longleftrightarrow> ?P c"
      using less.IH filter_expr_smaller(1) by blast
    consider "flt_type f = ''and''" | "flt_type f = ''or''" | "flt_type f = ''not''"
      using tr by (auto simp: translateCompoundCondition.simps [of ff f] split: if_splits)
    then show ?thesis
    proof cases
      case 1
      with tr obtain qs where "try_all (translateFilter ff) (flt_conditions f) = Inr qs"
        and q: "q = obj1 ''bool'' (obj1 ''must'' (GArr qs))"
        by (auto simp: translateCompoundCondition.simps [of ff f] split: sum.splits)
      from translate_list_holds(1) [OF this(1) IH] 1 show ?thesis
        by (simp add: q must holds.simps [of _ f])
    next
      case 2
      with tr obtain qs where "try_all (translateFilter ff) (flt_conditions f) = Inr qs"
        and q: "q = obj1 ''bool''
          (GObj [(''should'', GArr qs), (''minimum_should_match'', GInt 1)])"
        by (auto simp: translateCompoundCondition.simps [of ff f] split: sum.splits)
      from translate_list_holds(2) [OF this(1) IH] 2 show ?thesis
        by (simp add: q should holds.simps [of _ f])
    next
      case 3
      with tr obtain c p where c: "flt_condition f = Some c" "translateFilter ff c = Inr p"
        and q: "q = obj1 ''bool'' (obj1 ''must_not'' p)"
        by (auto simp: translateCompoundCondition.simps [of ff f] split: sum.splits option.splits)
      from less.IH [OF filter_expr_smaller(2) [OF c(1)] c(2)] 3 c(1) show ?thesis
        by (simp add: q must_not holds.simps [of _ f])
    qed
  qed
qed

end

text \<open>
  A search engine for the witnesses: it evaluates \<open>bool\<close> queries as documented and hands any
  other query to \<open>leaf\<close>.
\<close>

datatype bool_clause = Must "gval list" | Should "gval list" | MustNot gval

definition bool_body :: "(string \<times> gval) list \<Rightarrow> bool_clause option" where
  "bool_body kvs =
     (if map fst kvs = [''must''] \<or> map fst kvs = [''filter'']
      then map_option Must (as_arr (snd (hd kvs)))
      else if map fst kvs = [''must'', ''filter'']
      then (case (as_arr (snd (hd kvs)), as_arr (snd (last kvs))) of
              (Some ms, Some fs) \<Rightarrow> Some (Must (ms @ fs))
            | _ \<Rightarrow> None)
      else if map fst kvs = [''must_not''] then Some (MustNot (snd (hd kvs)))
      else if map fst kvs = [''should'', ''minimum_should_match''] \<and> snd (last kvs) = GInt 1
      then map_option Should (as_arr (snd (hd kvs)))
      else None)"

definition bool_part :: "gval \<Rightarrow> bool_clause option" where
  "bool_part q =
     (case q of
        GObj kvs \<Rightarrow>
          if map fst kvs = [''bool''] then Option.bind (as_obj (snd (hd kvs))) bool_body else None
      | _ \<Rightarrow> None)"

lemma bool_body_smaller:
  "bool_body kvs = Some (Must qs) \<Longrightarrow> size (GArr qs) < size (GObj kvs)"
  "bool_body kvs = Some (Should qs) \<Longrightarrow> size (GArr qs) < size (GObj kvs)"
  "bool_body kvs = Some (MustNot p) \<Longrightarrow> size p < size (GObj kvs)"
  by (auto simp: bool_body_def map_eq_Cons_conv split: if_splits option.splits)

lemma bool_part_body:
  "bool_part q = Some c \<Longrightarrow> \<exists>kvs. bool_body kvs = Some c \<and> size (GObj kvs) < size q"
  by (auto simp: bool_part_def bind_eq_Some_conv map_eq_Cons_conv split: gval.splits if_splits)

lemma bool_part_smaller:
  "bool_part q = Some (Must qs) \<Longrightarrow> p \<in> set qs \<Longrightarrow> size p < size q"
  "bool_part q = Some (Should qs) \<Longrightarrow> p \<in> set qs \<Longrightarrow> size p < size q"
  "bool_part q = Some (MustNot p) \<Longrightarrow> size p < size q"
proof -
  have "p \<in> set qs \<Longrightarrow> size p < size (GArr qs)" for p qs
    by (auto simp: less_Suc_eq_le dest: size_list_estimation' [where f = size, OF _ order_refl])
  then show "bool_part q = Some (Must qs) \<Longrightarrow> p \<in> set qs \<Longrightarrow> size p < size q"
    "bool_part q = Some (Should qs) \<Longrightarrow> p \<in> set qs \<Longrightarrow> size p < size q"
    by (metis bool_part_body bool_body_smaller(1,2) less_trans)+
  show "bool_part q = Some (MustNot p) \<Longrightarrow> size p < size q"
    by (metis bool_part_body bool_body_smaller(3) less_trans)
qed

function eval_bool :: "(gval \<Rightarrow> 'd \<Rightarrow> bool) \<Rightarrow> gval \<Rightarrow> 'd \<Rightarrow> bool" where
  "eval_bool leaf q d =
     (case bool_part q of
        None \<Rightarrow> leaf q d
      | Some (Must qs) \<Rightarrow> list_all (\<lambda>q. eval_bool leaf q d) qs
      | Some (Should qs) \<Rightarrow> list_ex (\<lambda>q. eval_bool leaf q d) qs
      | Some (MustNot q) \<Rightarrow> \<not> eval_bool leaf q d)"
  by pat_completeness auto
termination
  by (relation "measure (\<lambda>(_, q, _). size q)") (auto dest: bool_part_smaller)

declare eval_bool.simps [simp del]

lemma eval_bool_clauses:
  "eval_bool leaf (obj1 ''bool'' (obj1 ''must'' (GArr qs))) d = list_all (\<lambda>q. eval_bool leaf q d) qs"
  "eval_bool leaf (obj1 ''bool''
      (GObj [(''should'', GArr qs), (''minimum_should_match'', GInt 1)])) d
    = list_ex (\<lambda>q. eval_bool leaf q d) qs"
  "eval_bool leaf (obj1 ''bool'' (obj1 ''must_not'' q)) d = (\<not> eval_bool leaf q d)"
  "eval_bool leaf (obj1 ''bool'' (obj1 ''filter'' (GArr fs))) d = list_all (\<lambda>q. eval_bool leaf q d) fs"
  "eval_bool leaf (obj1 ''bool'' (GObj [(''must'', GArr qs), (''filter'', GArr fs)])) d
    = (list_all (\<lambda>q. eval_bool leaf q d) qs \<and> list_all (\<lambda>q. eval_bool leaf q d) fs)"
  by (subst eval_bool.simps, simp add: bool_part_def bool_body_def)+

interpretation engine: filtered_query "eval_bool leaf" for leaf
  by unfold_locales (simp_all only: eval_bool_clauses list_all_iff list_ex_iff)

section \<open>The fields of an accepted filter\<close>

function leaves :: "filter_expr \<Rightarrow> filter_expr list" where
  \<comment> \<open>the conditions of a filter that the translation visits\<close>
  "leaves f =
     (if flt_type f = [] then [f]
      else if flt_type f = ''not''
      then (case flt_condition f of None \<Rightarrow> [] | Some c \<Rightarrow> leaves c)
      else concat (map leaves (flt_conditions f)))"
  by pat_completeness auto
termination
  by (relation "measure size") (auto dest: filter_expr_smaller)

declare leaves.simps [simp del]

lemma add_field_mono: "set fs \<subseteq> set (add_field p fs)"
  by (auto simp: add_field_def)

lemma add_field_in: "p \<noteq> [] \<Longrightarrow> p \<noteq> ''.'' \<Longrightarrow> p \<in> set (add_field p fs)"
  by (simp add: add_field_def)

lemma fold_mono:
  assumes "\<And>x fs. x \<in> set xs \<Longrightarrow> set fs \<subseteq> set (g x fs)"
  shows "set fs \<subseteq> set (fold g xs fs)"
  using assms
proof (induction xs arbitrary: fs)
  case Nil
  show ?case by simp
next
  case (Cons x xs)
  have "set fs \<subseteq> set (g x fs)" using Cons.prems by simp
  also have "\<dots> \<subseteq> set (fold g xs (g x fs))" using Cons by simp
  finally show ?case by simp
qed

lemma fold_in:
  assumes "\<And>x fs. x \<in> set xs \<Longrightarrow> set fs \<subseteq> set (g x fs)"
    and "x \<in> set xs" and "\<And>fs. p \<in> set (g x fs)"
  shows "p \<in> set (fold g xs fs)"
proof -
  obtain as bs where xs: "xs = as @ x # bs" using assms(2) by (meson split_list)
  have "set (g x (fold g as fs)) \<subseteq> set (fold g bs (g x (fold g as fs)))"
    by (rule fold_mono) (simp add: assms(1) xs)
  with assms(3) show ?thesis by (auto simp: xs)
qed

lemma collectFilterFields_mono: "set fs \<subseteq> set (collectFilterFields f fs)"
proof (induction f arbitrary: fs rule: measure_induct_rule [of size])
  case (less f)
  have kids: "set fs \<subseteq> set (fold collectFilterFields (flt_conditions f) fs)" for fs
    using less.IH filter_expr_smaller(1) by (intro fold_mono) blast
  have cond: "set fs \<subseteq> set (collectFilterFields c fs)" if "flt_condition f = Some c" for c fs
    using less.IH filter_expr_smaller(2) [OF that] by blast
  show ?case
    using kids cond add_field_mono
    by (fastforce simp: collectFilterFields.simps [of f] Let_def split: option.splits)
qed

lemma collectFilterFields_leaves:
  "l \<in> set (leaves f) \<Longrightarrow> IsSimpleCondition l \<Longrightarrow> flt_field l \<noteq> ''.'' \<Longrightarrow>
     flt_field l \<in> set (collectFilterFields f fs)"
proof (induction f arbitrary: fs rule: measure_induct_rule [of size])
  case (less f)
  show ?case
  proof (cases "flt_type f = []")
    case True
    with less.prems show ?thesis
      by (simp add: leaves.simps [of f] collectFilterFields.simps [of f] IsSimpleCondition_def
          add_field_in)
  next
    case False
    let ?f1 = "fold collectFilterFields (flt_conditions f) fs"
    have step: "collectFilterFields f fs =
        (case flt_condition f of None \<Rightarrow> ?f1 | Some c \<Rightarrow> collectFilterFields c ?f1)"
      using False by (simp add: collectFilterFields.simps [of f] IsSimpleCondition_def
          IsCompoundCondition_def Let_def)
    show ?thesis
    proof (cases "flt_type f = ''not''")
      case True
      with less.prems(1) obtain c where "flt_condition f = Some c" "l \<in> set (leaves c)"
        by (cases "flt_condition f") (simp_all add: leaves.simps [of f])
      with step less show ?thesis using filter_expr_smaller(2) by simp
    next
      case neg: False
      with False less.prems obtain c where "c \<in> set (flt_conditions f)" "l \<in> set (leaves c)"
        by (auto simp: leaves.simps [of f])
      then have "flt_field l \<in> set ?f1"
        using less.IH [of c] less.prems filter_expr_smaller(1) [of c f]
        by (intro fold_in [of _ _ c] collectFilterFields_mono) auto
      with step show ?thesis
        using collectFilterFields_mono [of ?f1] by (auto split: option.splits)
    qed
  qed
qed

lemma accepted_leaves: "accepted re_ok f \<Longrightarrow> l \<in> set (leaves f) \<Longrightarrow> IsSimpleCondition l"
proof (induction f rule: measure_induct_rule [of size])
  case (less f)
  show ?case
  proof (cases "flt_type f = []")
    case True
    with less.prems accepted_field show ?thesis
      by (auto simp: leaves.simps [of f] IsSimpleCondition_def)
  next
    case False
    from accepted_compound [OF less.prems(1) False] less.prems(2) show ?thesis
      using less.IH filter_expr_smaller by (fastforce simp: leaves.simps [of f])
  qed
qed

lemma collectAggregationFields_mono: "set fs \<subseteq> set (collectAggregationFields a fs)"
proof (induction a arbitrary: fs rule: measure_induct_rule [of size])
  case (less a)
  let ?g = "fold (\<lambda>s. add_field (sort_field s)) (agg_top_hits_sort a)
      (add_field (agg_field a) fs)"
  have "set fs \<subseteq> set (add_field (agg_field a) fs)" by (rule add_field_mono)
  also have "\<dots> \<subseteq> set ?g" by (rule fold_mono) (rule add_field_mono)
  also have "\<dots> \<subseteq> set (fold collectAggregationFields (agg_aggregations a) ?g)"
    using less.IH aggregation_smaller by (intro fold_mono) blast
  finally show ?case by (simp add: collectAggregationFields.simps [of a])
qed

lemma collectFields_filter:
  assumes "q_filter q = Some f"
  shows "\<exists>fs. set (collectFilterFields f fs) \<subseteq> set (collectFields q)"
proof (rule exI)
  let ?f1 = "collectFilterFields f (fold add_field (q_select q) [])"
  let ?f2 = "fold collectAggregationFields (q_aggregations q) ?f1"
  have "set ?f1 \<subseteq> set ?f2" by (intro fold_mono collectAggregationFields_mono)
  also have "\<dots> \<subseteq> set (fold (\<lambda>s. add_field (sort_field s)) (q_sort q) ?f2)"
    by (intro fold_mono add_field_mono)
  also have "\<dots> = set (collectFields q)"
    using assms by (simp add: collectFields_def Let_def)
  finally show "set ?f1 \<subseteq> set (collectFields q)" .
qed

section \<open>Properties\<close>

lemma valid_translates:
  assumes "Validate re_ok v (Some q) = None"
  shows "\<exists>dsl. Translate ff now q = Inr dsl"
proof (rule Translate_total)
  show "list_all agg_shape (q_aggregations q)"
    by (rule Validate_None(2) [OF assms])
  show "\<exists>d. translateFilter ff f = Inr d" if "q_filter q = Some f" for f
    using Validate_None(1) [OF assms that] accepted_translates by (auto simp: validateFilter_iff)
qed

text \<open>C2: A query that passes the validator, with whatever limits, is translated without an error:
  none of the translator's error branches can be taken after validation.\<close>

theorem validated_query_translates:
  assumes "Validate re_ok v (Some q) = None"
  shows "\<exists>dsl. Translate ff now q = Inr dsl"
  using assms by (rule valid_translates)

definition sample_filter :: filter_expr where
  "sample_filter =
     FilterExpr [] [] GNil ''and''
       [FilterExpr ''.severity_id'' ''gte'' (GInt 4) [] [] None,
        FilterExpr [] [] GNil ''not'' []
          (Some (FilterExpr ''.user.name'' ''ne'' (GStr ''root'') [] [] None))] None"

definition sample_query :: query where
  "sample_query =
     \<lparr>q_select = [''.time'', ''.user.name''], q_filter = Some sample_filter,
      q_time_range = Some \<lparr>tr_start = None, tr_end = None, tr_last = ''24h''\<rparr>,
      q_aggregations = [Aggregation ''terms'' ''.severity'' ''by_severity'' 5 [] [] [(''_count'', ''desc'')] 0 []],
      q_sort = [\<lparr>sort_field = ''.time'', sort_order = ''desc''\<rparr>],
      q_limit = 50, q_offset = 0, q_cursor = []\<rparr>"

lemma sample_query_valid: "Validate re_ok NewQueryValidator (Some sample_query) = None"
  by (simp add: sample_query_def) code_simp

theorem validated_query_translates_witness:
  "Validate (\<lambda>_. True) NewQueryValidator (Some sample_query) = None
   \<and> (\<exists>dsl. Translate (\<lambda>_ _. []) 0 sample_query = Inr dsl)"
  using sample_query_valid validated_query_translates [OF sample_query_valid] by blast

text \<open>C1: The translated filter means what the canonical filter says. For every engine that gives
  \<open>bool\<close> queries their documented meaning, a document matches the translation of an accepted
  filter exactly when the filter holds of it, where \<open>and\<close>, \<open>or\<close>, \<open>not\<close>, \<open>ne\<close> and
  \<open>exists\<close> with \<open>false\<close> are the Boolean operations and a condition holds of a document that
  matches its own leaf query.\<close>

theorem translated_filter_meaning:
  assumes "bool_query matches" and "validateFilter re_ok v f = None"
  shows "\<exists>q. translateFilter ff f = Inr q
    \<and> (\<forall>d. matches q d \<longleftrightarrow> holds (\<lambda>fld op val. matches (atom_query ff fld op val) d) f)"
proof -
  from assms(2) have "accepted re_ok f" by (simp add: validateFilter_iff)
  then obtain q where "translateFilter ff f = Inr q"
    using accepted_translates by blast
  with bool_query.translate_holds [OF assms(1) this] show ?thesis by blast
qed

lemma sample_filter_valid: "validateFilter re_ok NewQueryValidator sample_filter = None"
  using sample_query_valid [of re_ok] by (simp add: Validate_None_iff sample_query_def)

theorem translated_filter_meaning_witness:
  "bool_query (eval_bool (\<lambda>q (d :: string). q = GStr d))
   \<and> validateFilter (\<lambda>_. True) NewQueryValidator sample_filter = None
   \<and> (\<exists>q. translateFilter (\<lambda>_ _. []) sample_filter = Inr q)"
proof (intro conjI)
  show engine: "bool_query (eval_bool (\<lambda>q (d :: string). q = GStr d))"
    by (rule engine.bool_query_axioms)
  show valid: "validateFilter (\<lambda>_. True) NewQueryValidator sample_filter = None"
    by (rule sample_filter_valid)
  show "\<exists>q. translateFilter (\<lambda>_ _. []) sample_filter = Inr q"
    using translated_filter_meaning [OF engine valid, of "\<lambda>_ _. []"] by (elim exE conjE) (rule exI)
qed

text \<open>C37: \<open>validateFilter\<close> accepts exactly the well-formed filters of bounded depth: every condition
  has a path of dot-separated segments, a known operator and a value that the operator takes;
  \<open>and\<close> and \<open>or\<close> have at least one part and \<open>not\<close> has one; no other type occurs; and the
  nesting does not exceed \<open>maxFilterDepth\<close>.\<close>

theorem validateFilter_exact:
  "validateFilter re_ok v f = None \<longleftrightarrow>
     accepted re_ok f \<and> int (filter_depth f) \<le> maxFilterDepth v"
  by (rule validateFilter_iff)

text \<open>\<open>validateFieldPath\<close> accepts exactly the dot and the paths made of one or more non-empty
  segments without dots, each written after a dot.\<close>

lemma validateFieldPath_grammar:
  "validateFieldPath p = None \<longleftrightarrow>
     p = ''.'' \<or> (\<exists>segs. segs \<noteq> [] \<and> list_all (\<lambda>s. s \<noteq> [] \<and> CHR ''.'' \<notin> set s) segs
                  \<and> p = concat (map (\<lambda>s. CHR ''.'' # s) segs))"
  unfolding validateFieldPath_iff valid_path_def path_of_def segment_def ..

text \<open>With the catalogue check on, every condition of an accepted query, at any depth, is on a
  field of the catalogue; the one exception is the path consisting of a dot, which the collection
  of fields leaves out.\<close>

lemma validated_conditions_use_catalogue:
  assumes "Validate re_ok v (Some q) = None" and "validateFieldMappings v"
    and "q_filter q = Some f" and "l \<in> set (leaves f)"
  shows "flt_field l = ''.'' \<or> IsValidField (flt_field l)"
proof -
  from assms(1,3) have "accepted re_ok f"
    using Validate_None(1) by (simp add: validateFilter_iff)
  then have "IsSimpleCondition l" using assms(4) by (rule accepted_leaves)
  moreover obtain fs where "set (collectFilterFields f fs) \<subseteq> set (collectFields q)"
    using collectFields_filter [OF assms(3)] by blast
  ultimately show ?thesis
    using collectFilterFields_leaves [OF assms(4)] Validate_None(4) [OF assms(1,2)] by blast
qed

text \<open>Without a cursor, the number of hits an accepted query asks the engine for is at least 1
  and at most the validator's 10000.\<close>

lemma validated_size_bounded:
  assumes "Validate re_ok NewQueryValidator (Some q) = None" and "q_cursor q = []"
    and "Translate ff now q = Inr dsl"
  shows "\<exists>n. map_of dsl ''size'' = Some (GInt n) \<and> 1 \<le> n \<and> n \<le> 10000"
  using Validate_None(3) [OF assms(1)] assms(2) Translate_size [OF assms(3)]
  by (auto simp: validatePagination_def NewQueryValidator_def split: if_splits)

lemma validated_size_bounded_example:
  "\<exists>dsl. Translate (\<lambda>_ _. []) 0 sample_query = Inr dsl
     \<and> (\<exists>n. map_of dsl ''size'' = Some (GInt n) \<and> 1 \<le> n \<and> n \<le> 10000)"
proof -
  obtain dsl where dsl: "Translate (\<lambda>_ _. []) 0 sample_query = Inr dsl"
    using valid_translates [OF sample_query_valid] by blast
  have "q_cursor sample_query = []" by (simp add: sample_query_def)
  from validated_size_bounded [OF sample_query_valid this dsl] dsl show ?thesis by blast
qed

text \<open>A cursor lifts that bound without replacing it by anything: for every excess \<open>k\<close> there is
  an accepted query with a cursor that asks the engine for \<open>10001 + k\<close> hits, from offset 0 and
  without a \<open>search_after\<close> clause, because the translator ignores the cursor.\<close>

definition cursor_query :: "nat \<Rightarrow> query" where
  "cursor_query k =
     \<lparr>q_select = [], q_filter = None, q_time_range = None, q_aggregations = [], q_sort = [],
      q_limit = 10001 + int k, q_offset = 0, q_cursor = ''next''\<rparr>"

lemma cursor_lifts_size_bound:
  "Validate re_ok NewQueryValidator (Some (cursor_query k)) = None
   \<and> (\<exists>dsl. Translate ff now (cursor_query k) = Inr dsl
        \<and> map_of dsl ''size'' = Some (GInt (10001 + int k))
        \<and> map_of dsl ''search_after'' = None \<and> map_of dsl ''from'' = None)"
  by (simp add: Validate_None_iff cursor_query_def NewQueryValidator_def validateSelect_def
      collectFields_def validatePagination_def Translate_def sort_clauses_def)

text \<open>The field of a \<open>terms\<close> or \<open>cardinality\<close> aggregation gets at most one \<open>.keyword\<close> suffix:
  \<open>ensureKeywordField\<close> leaves its own results unchanged.\<close>

lemma ensureKeywordField_idempotent:
  "ensureKeywordField (ensureKeywordField field) = ensureKeywordField field"
  by (simp add: ensureKeywordField_def)

lemma validateTimeRange_cases:
  "validateTimeRange tr = None \<longleftrightarrow>
     (if tr_last tr \<noteq> []
      then tr_start tr = None \<and> tr_end tr = None \<and> isValidRelativeTime (tr_last tr)
      else (tr_start tr \<noteq> None \<or> tr_end tr \<noteq> None)
        \<and> (\<forall>s e. tr_start tr = Some s \<longrightarrow> tr_end tr = Some e \<longrightarrow> s \<le> e))"
  by (auto simp: validateTimeRange_def Let_def split: option.splits)

text \<open>An accepted time range always becomes a range clause on \<open>time\<close>, and when both ends are
  given the clause's lower bound does not exceed its upper bound; a relative range becomes the
  engine's date arithmetic from \<open>now\<close>, over a number and one of the units m, h and d.\<close>

lemma validated_time_range:
  assumes "validateTimeRange tr = None"
  shows "\<exists>r. buildTimeRangeFilter now tr = Some (obj1 ''range'' (obj1 ''time'' (GObj r)))
    \<and> (\<forall>s e. tr_start tr = Some s \<longrightarrow> tr_end tr = Some e \<longrightarrow>
         r = [(''gte'', GInt (unix s)), (''lte'', GInt (unix e))] \<and> unix s \<le> unix e)
    \<and> (tr_last tr \<noteq> [] \<longrightarrow>
         (\<exists>ds u. tr_last tr = ds @ [u] \<and> ds \<noteq> [] \<and> list_all is_digit ds \<and> u \<in> set ''mhd''
           \<and> r = [(''gte'', GStr (''now-'' @ ds @ [u])), (''lte'', GStr ''now'')]))"
proof (cases "tr_last tr = []")
  case True
  with assms show ?thesis
    by (auto simp: validateTimeRange_cases buildTimeRangeFilter_def Let_def unix_def second_def
        intro: zdiv_mono1 split: option.splits)
next
  case False
  with assms have rel: "isValidRelativeTime (tr_last tr)" "tr_start tr = None"
    by (simp_all add: validateTimeRange_cases)
  let ?ds = "butlast (tr_last tr)" and ?u = "last (tr_last tr)"
  have "tr_last tr = ?ds @ [?u]" using False by simp
  moreover have "?ds \<noteq> []" "list_all is_digit ?ds" "?u \<in> set ''mhd''"
    using rel(1) by (cases "tr_last tr"; auto simp: isValidRelativeTime_def)+
  ultimately show ?thesis
    using False rel(2) unfolding buildTimeRangeFilter_def
    by (metis (no_types, lifting) option.distinct(1) append.assoc)
qed

end
