(* ===== verification/RuleFields.thy ===== *)
theory RuleFields
  imports FieldCatalog
begin

text \<open>
  The check of a detection rule's field references (\<^verbatim>\<open>common/fields/validator.go\<close>):
  \<open>ValidateRule\<close> walks the model and view sections of a rule and reports every path the
  catalogue rejects, with its location; \<open>ExtractFields\<close> walks the same sections and collects
  the paths. The laws relate the two walks (the model walk reports exactly the extracted paths
  that are not valid) and state what \<open>ValidateRule\<close> reports against a description of a rule's
  references that uses neither walk. A section is a \<open>map[string]interface{}\<close>, \<open>None\<close> when it is nil; the
  accumulated \<open>*ValidationError\<close> and the set of field paths are passed and returned.
\<close>

type_synonym gmap = "(string \<times> gval) list"

section \<open>Validation\<close>

record invalid_field =
  if_path :: string
  if_location :: string

type_synonym validation_error = "invalid_field list"

definition invalid_at :: "string \<Rightarrow> string \<Rightarrow> invalid_field" where
  "invalid_at loc path = \<lparr>if_path = path, if_location = loc\<rparr>"

definition check_field :: "string \<Rightarrow> string \<Rightarrow> validation_error \<Rightarrow> validation_error" where
  \<comment> \<open>\<open>if !IsValidField(field) { ve.InvalidFields = append(...) }\<close>\<close>
  "check_field loc field ve = (if \<not> IsValidField field then ve @ [invalid_at loc field] else ve)"

definition HasErrors :: "validation_error \<Rightarrow> bool" where
  "HasErrors ve \<longleftrightarrow> ve \<noteq> []"

text \<open>\<open>%q\<close> of a path is its Go quotation, left as the parameter \<open>quote\<close>.\<close>

definition ValidationError_Error :: "(string \<Rightarrow> string) \<Rightarrow> validation_error \<Rightarrow> string" where
  "ValidationError_Error quote ve =
     (if ve = [] then ''no validation errors''
      else ''invalid field references in detection rule: ''
           @ join_with '', ''
               (map (\<lambda>f. quote (if_path f) @ '' (in '' @ if_location f @ '')'') ve))"

text \<open>\<open>validateFilter\<close>: the field of the filter, then its \<open>conditions\<close> by index.\<close>

function (sequential) validateFilter :: "gmap \<Rightarrow> string \<Rightarrow> validation_error \<Rightarrow> validation_error"
  and validateConditions ::
    "gval list \<Rightarrow> nat \<Rightarrow> string \<Rightarrow> validation_error \<Rightarrow> validation_error"
where
  "validateFilter flt location ve =
     (let ve1 = (case field_as as_str flt ''field'' of
                   Some field \<Rightarrow> check_field location field ve
                 | None \<Rightarrow> ve)
      in case field_as as_arr flt ''conditions'' of
           Some conditions \<Rightarrow> validateConditions conditions 0 location ve1
         | None \<Rightarrow> ve1)"
| "validateConditions [] i location ve = ve"
| "validateConditions (c # cs) i location ve =
     validateConditions cs (Suc i) location
       (case as_obj c of
          Some condMap \<Rightarrow>
            validateFilter condMap (location @ ''.conditions['' @ nat_string i @ '']'') ve
        | None \<Rightarrow> ve)"
  by pat_completeness auto
termination
  by (relation "measure (case_sum (\<lambda>(m, _). size (GObj m)) (\<lambda>(cs, _). size (GArr cs)))")
    (auto simp del: gval.size intro: gval_list_smaller dest: field_as_smaller)

definition opt_filter ::
  "gmap \<Rightarrow> string \<Rightarrow> validation_error \<Rightarrow> validation_error" where
  \<comment> \<open>the nested assertions \<open>m["query"]\<close>, \<open>query["filter"]\<close> around a call of \<open>validateFilter\<close>\<close>
  "opt_filter m location ve =
     (case field_as as_obj m ''query'' of
        None \<Rightarrow> ve
      | Some query \<Rightarrow>
          (case field_as as_obj query ''filter'' of
             None \<Rightarrow> ve
           | Some flt \<Rightarrow> validateFilter flt location ve))"

fun validate_each :: "string \<Rightarrow> gval list \<Rightarrow> validation_error \<Rightarrow> validation_error" where
  \<comment> \<open>the loop over \<open>group_by\<close>\<close>
  "validate_each location [] ve = ve"
| "validate_each location (f # fs) ve =
     validate_each location fs
       (case as_str f of Some field \<Rightarrow> check_field location field ve | None \<Rightarrow> ve)"

fun validate_steps :: "nat \<Rightarrow> gval list \<Rightarrow> validation_error \<Rightarrow> validation_error" where
  \<comment> \<open>the loop over \<open>sequence\<close>\<close>
  "validate_steps i [] ve = ve"
| "validate_steps i (step # steps) ve =
     validate_steps (Suc i) steps
       (case as_obj step of
          None \<Rightarrow> ve
        | Some stepMap \<Rightarrow>
            opt_filter stepMap
              (''model.parameters.sequence['' @ nat_string i @ ''].query.filter'') ve)"

definition validateModel :: "gmap option \<Rightarrow> validation_error \<Rightarrow> validation_error" where
  "validateModel model ve =
     (case model of None \<Rightarrow> ve | Some model \<Rightarrow>
     (case field_as as_obj model ''parameters'' of None \<Rightarrow> ve | Some params \<Rightarrow>
      (let ve1 = (case field_as as_arr params ''group_by'' of
                    Some groupBy \<Rightarrow> validate_each ''model.parameters.group_by'' groupBy ve
                  | None \<Rightarrow> ve);
           ve2 = (case field_as as_str params ''field'' of
                    Some field \<Rightarrow> check_field ''model.parameters.field'' field ve1
                  | None \<Rightarrow> ve1);
           ve3 = opt_filter params ''model.parameters.query.filter'' ve2
       in case field_as as_arr params ''sequence'' of
            Some sequence \<Rightarrow> validate_steps 0 sequence ve3
          | None \<Rightarrow> ve3)))"

definition isAggregationField :: "string \<Rightarrow> bool" where
  "isAggregationField field \<longleftrightarrow>
     field \<in> set [''event_count'', ''distinct_count'', ''count'', ''sum'', ''avg'', ''min'', ''max'']"

fun validate_order :: "gval list \<Rightarrow> validation_error \<Rightarrow> validation_error" where
  \<comment> \<open>the loop over \<open>fields_order\<close>: the path is looked up with a dot put in front\<close>
  "validate_order [] ve = ve"
| "validate_order (f # fs) ve =
     validate_order fs
       (case as_str f of
          None \<Rightarrow> ve
        | Some field \<Rightarrow>
            if isAggregationField field then ve
            else if \<not> IsValidField (''.'' @ field)
            then ve @ [invalid_at ''view.fields_order'' field]
            else ve)"

definition validateView :: "gmap option \<Rightarrow> validation_error \<Rightarrow> validation_error" where
  "validateView view ve =
     (case view of None \<Rightarrow> ve | Some view \<Rightarrow>
     (case field_as as_arr view ''fields_order'' of
        None \<Rightarrow> ve
      | Some fieldsOrder \<Rightarrow> validate_order fieldsOrder ve))"

definition ValidateRule ::
  "gmap option \<Rightarrow> gmap option \<Rightarrow> gmap option \<Rightarrow> validation_error option" where
  "ValidateRule model view controller =
     (let ve = validateView view (validateModel model [])
      in if HasErrors ve then Some ve else None)"

section \<open>Extraction\<close>

text \<open>The set of field paths is a list without repetition, in the order of insertion.\<close>

function (sequential) extractFieldsFromFilter :: "gmap \<Rightarrow> string list \<Rightarrow> string list"
  and extractFieldsFromConditions :: "gval list \<Rightarrow> string list \<Rightarrow> string list"
where
  "extractFieldsFromFilter flt flds =
     (let flds1 = (case field_as as_str flt ''field'' of
                       Some field \<Rightarrow> List.insert field flds
                     | None \<Rightarrow> flds)
      in case field_as as_arr flt ''conditions'' of
           Some conditions \<Rightarrow> extractFieldsFromConditions conditions flds1
         | None \<Rightarrow> flds1)"
| "extractFieldsFromConditions [] flds = flds"
| "extractFieldsFromConditions (c # cs) flds =
     extractFieldsFromConditions cs
       (case as_obj c of
          Some condMap \<Rightarrow> extractFieldsFromFilter condMap flds
        | None \<Rightarrow> flds)"
  by pat_completeness auto
termination
  by (relation "measure (case_sum (\<lambda>(m, _). size (GObj m)) (\<lambda>(cs, _). size (GArr cs)))")
    (auto simp del: gval.size intro: gval_list_smaller dest: field_as_smaller)

definition extract_opt_filter :: "gmap \<Rightarrow> string list \<Rightarrow> string list" where
  "extract_opt_filter m flds =
     (case field_as as_obj m ''query'' of
        None \<Rightarrow> flds
      | Some query \<Rightarrow>
          (case field_as as_obj query ''filter'' of
             None \<Rightarrow> flds
           | Some flt \<Rightarrow> extractFieldsFromFilter flt flds))"

fun extract_each :: "gval list \<Rightarrow> string list \<Rightarrow> string list" where
  "extract_each [] flds = flds"
| "extract_each (f # fs) flds =
     extract_each fs (case as_str f of Some field \<Rightarrow> List.insert field flds | None \<Rightarrow> flds)"

fun extract_steps :: "gval list \<Rightarrow> string list \<Rightarrow> string list" where
  "extract_steps [] flds = flds"
| "extract_steps (step # steps) flds =
     extract_steps steps
       (case as_obj step of
          None \<Rightarrow> flds
        | Some stepMap \<Rightarrow> extract_opt_filter stepMap flds)"

definition extractFieldsFromModel :: "gmap option \<Rightarrow> string list \<Rightarrow> string list" where
  "extractFieldsFromModel model flds =
     (case model of None \<Rightarrow> flds | Some model \<Rightarrow>
     (case field_as as_obj model ''parameters'' of None \<Rightarrow> flds | Some params \<Rightarrow>
      (let f1 = (case field_as as_arr params ''group_by'' of
                   Some groupBy \<Rightarrow> extract_each groupBy flds
                 | None \<Rightarrow> flds);
           f2 = (case field_as as_str params ''field'' of
                   Some field \<Rightarrow> List.insert field f1
                 | None \<Rightarrow> f1);
           f3 = extract_opt_filter params f2
       in case field_as as_arr params ''sequence'' of
            Some sequence \<Rightarrow> extract_steps sequence f3
          | None \<Rightarrow> f3)))"

fun extract_order :: "gval list \<Rightarrow> string list \<Rightarrow> string list" where
  "extract_order [] flds = flds"
| "extract_order (f # fs) flds =
     extract_order fs
       (case as_str f of
          None \<Rightarrow> flds
        | Some field \<Rightarrow>
            if \<not> isAggregationField field
            then List.insert (if \<not> has_prefix field ''.'' then ''.'' @ field else field) flds
            else flds)"

definition extractFieldsFromView :: "gmap option \<Rightarrow> string list \<Rightarrow> string list" where
  "extractFieldsFromView view flds =
     (case view of None \<Rightarrow> flds | Some view \<Rightarrow>
     (case field_as as_arr view ''fields_order'' of
        None \<Rightarrow> flds
      | Some fieldsOrder \<Rightarrow> extract_order fieldsOrder flds))"

definition ExtractFields :: "gmap option \<Rightarrow> gmap option \<Rightarrow> gmap option \<Rightarrow> string list" where
  \<comment> \<open>the map is turned into a slice in the order of insertion, one of the orders Go may take\<close>
  "ExtractFields model view controller =
     extractFieldsFromView view (extractFieldsFromModel model [])"

section \<open>The two walks agree\<close>

abbreviation paths :: "validation_error \<Rightarrow> string set" where
  "paths ve \<equiv> if_path ` set ve"

definition bad :: "string list \<Rightarrow> string set" where
  "bad fs = {f \<in> set fs. \<not> IsValidField f}"

lemma bad_simps [simp]:
  "bad [] = {}"
  "bad (List.insert f fs) = (if IsValidField f then bad fs else insert f (bad fs))"
  by (auto simp: bad_def)

lemma paths_check_field [simp]:
  "paths (check_field loc f ve) = (if IsValidField f then paths ve else insert f (paths ve))"
  by (auto simp: check_field_def invalid_at_def)

lemma validateFilter_paths:
  "paths ve = bad fs \<Longrightarrow> paths (validateFilter m loc ve) = bad (extractFieldsFromFilter m fs)"
  "paths ve = bad fs \<Longrightarrow>
     paths (validateConditions cs i loc ve) = bad (extractFieldsFromConditions cs fs)"
proof (induction m loc ve and cs i loc ve arbitrary: fs and fs
    rule: validateFilter_validateConditions.induct)
  case (1 m loc ve)
  then show ?case
    by (auto simp: Let_def split: option.splits)
next
  case (2 i loc ve)
  then show ?case by simp
next
  case (3 c cs i loc ve)
  then show ?case
    by (simp split: option.splits)
qed

lemma opt_filter_paths:
  "paths ve = bad fs \<Longrightarrow> paths (opt_filter m loc ve) = bad (extract_opt_filter m fs)"
  by (simp add: opt_filter_def extract_opt_filter_def validateFilter_paths split: option.splits)

lemma validate_each_paths:
  "paths ve = bad fs \<Longrightarrow> paths (validate_each loc xs ve) = bad (extract_each xs fs)"
  by (induction xs arbitrary: ve fs) (simp_all split: option.splits)

lemma validate_steps_paths:
  "paths ve = bad fs \<Longrightarrow> paths (validate_steps i xs ve) = bad (extract_steps xs fs)"
  by (induction xs arbitrary: i ve fs) (simp_all add: opt_filter_paths split: option.splits)

lemma validateModel_paths:
  "paths ve = bad fs \<Longrightarrow> paths (validateModel model ve) = bad (extractFieldsFromModel model fs)"
  by (simp add: validateModel_def extractFieldsFromModel_def Let_def opt_filter_paths
      validate_each_paths validate_steps_paths split: option.splits)

section \<open>The references of a rule\<close>

text \<open>
  What a rule refers to, read off the documented shape of a rule and independent of the two walks:
  a filter names the field of its own test, the fields of the elements of its \<open>conditions\<close> and
  the fields of its negated \<open>condition\<close>, each at a location. The flag says whether the reference
  stands below a negation.
\<close>

inductive filter_names :: "string \<Rightarrow> gmap \<Rightarrow> bool \<Rightarrow> string \<Rightarrow> string \<Rightarrow> bool" where
  own: "map_of m ''field'' = Some (GStr f) \<Longrightarrow> filter_names loc m False f loc"
| part: "\<lbrakk>map_of m ''conditions'' = Some (GArr cs); i < length cs; cs ! i = GObj c;
     filter_names (loc @ ''.conditions['' @ nat_string i @ '']'') c negated f l\<rbrakk>
    \<Longrightarrow> filter_names loc m negated f l"
| negated: "\<lbrakk>map_of m ''condition'' = Some (GObj c);
     filter_names (loc @ ''.condition'') c negated f l\<rbrakk>
    \<Longrightarrow> filter_names loc m True f l"

inductive model_names :: "gmap \<Rightarrow> bool \<Rightarrow> string \<Rightarrow> string \<Rightarrow> bool" where
  \<comment> \<open>of the object \<open>parameters\<close> of a model\<close>
  grouped: "\<lbrakk>map_of p ''group_by'' = Some (GArr xs); GStr f \<in> set xs\<rbrakk>
    \<Longrightarrow> model_names p False f ''model.parameters.group_by''"
| counted: "map_of p ''field'' = Some (GStr f)
    \<Longrightarrow> model_names p False f ''model.parameters.field''"
| queried: "\<lbrakk>map_of p ''query'' = Some (GObj q); map_of q ''filter'' = Some (GObj m);
     filter_names ''model.parameters.query.filter'' m negated f l\<rbrakk>
    \<Longrightarrow> model_names p negated f l"
| step: "\<lbrakk>map_of p ''sequence'' = Some (GArr ss); i < length ss; ss ! i = GObj st;
     map_of st ''query'' = Some (GObj q); map_of q ''filter'' = Some (GObj m);
     filter_names (''model.parameters.sequence['' @ nat_string i @ ''].query.filter'') m negated f l\<rbrakk>
    \<Longrightarrow> model_names p negated f l"

definition model_refers :: "gmap option \<Rightarrow> bool \<Rightarrow> string \<Rightarrow> string \<Rightarrow> bool" where
  "model_refers model negated f l \<longleftrightarrow>
     (\<exists>m p. model = Some m \<and> map_of m ''parameters'' = Some (GObj p) \<and> model_names p negated f l)"

definition view_refers :: "gmap option \<Rightarrow> string \<Rightarrow> bool" where
  \<comment> \<open>the columns of a view that are not results of an aggregation\<close>
  "view_refers view f \<longleftrightarrow>
     (\<exists>m xs. view = Some m \<and> map_of m ''fields_order'' = Some (GArr xs) \<and> GStr f \<in> set xs)
     \<and> f \<notin> {''event_count'', ''distinct_count'', ''count'', ''sum'', ''avg'', ''min'', ''max''}"

abbreviation found :: "validation_error \<Rightarrow> (string \<times> string) set" where
  "found ve \<equiv> (\<lambda>e. (if_path e, if_location e)) ` set ve"

lemma as_simps:
  "field_as as_str m k = Some s \<longleftrightarrow> map_of m k = Some (GStr s)"
  "field_as as_arr m k = Some xs \<longleftrightarrow> map_of m k = Some (GArr xs)"
  "field_as as_obj m k = Some ob \<longleftrightarrow> map_of m k = Some (GObj ob)"
  "as_str v = Some s \<longleftrightarrow> v = GStr s"
  "as_obj v = Some ob \<longleftrightarrow> v = GObj ob"
  by (auto simp: field_as_def split: option.splits; cases v; simp)+

lemma as_none:
  "field_as as_str m k = None \<longleftrightarrow> (\<forall>s. map_of m k \<noteq> Some (GStr s))"
  "field_as as_arr m k = None \<longleftrightarrow> (\<forall>xs. map_of m k \<noteq> Some (GArr xs))"
  "field_as as_obj m k = None \<longleftrightarrow> (\<forall>ob. map_of m k \<noteq> Some (GObj ob))"
  unfolding as_simps [symmetric] by auto

lemma found_check_field:
  "found (check_field loc f ve) = found ve \<union> {(g, l). g = f \<and> l = loc \<and> \<not> IsValidField g}"
  by (auto simp: check_field_def invalid_at_def)

definition refs_from :: "(nat \<Rightarrow> string) \<Rightarrow> nat \<Rightarrow> gval list \<Rightarrow> (string \<times> string) set" where
  \<comment> \<open>references outside negations of the filters in a list that starts at index \<open>i\<close>\<close>
  "refs_from loc i cs = {(f, l). \<exists>j c. j < length cs \<and> cs ! j = GObj c
     \<and> filter_names (loc (i + j)) c False f l}"

definition unknown :: "(string \<times> string) set \<Rightarrow> (string \<times> string) set" where
  "unknown R = {(f, l) \<in> R. \<not> IsValidField f}"

lemma unknown_Un: "unknown (R \<union> S) = unknown R \<union> unknown S"
  by (auto simp: unknown_def)

lemma unknown_empty: "unknown {} = {}"
  by (simp add: unknown_def)

lemma ex_nth_Cons:
  "(\<exists>j c. j < length (x # xs) \<and> (x # xs) ! j = GObj c \<and> P j c)
     \<longleftrightarrow> (\<exists>c. x = GObj c \<and> P 0 c) \<or> (\<exists>j c. j < length xs \<and> xs ! j = GObj c \<and> P (Suc j) c)"
proof -
  have "(\<exists>j c. j < length (x # xs) \<and> (x # xs) ! j = GObj c \<and> P j c)
      \<longleftrightarrow> (\<exists>j < Suc (length xs). \<exists>c. (x # xs) ! j = GObj c \<and> P j c)"
    by auto
  also have "\<dots> \<longleftrightarrow> (\<exists>c. x = GObj c \<and> P 0 c) \<or> (\<exists>j < length xs. \<exists>c. xs ! j = GObj c \<and> P (Suc j) c)"
    by (simp add: Ex_less_Suc2)
  finally show ?thesis by auto
qed

lemma refs_from_Nil: "refs_from loc i [] = {}"
  by (simp add: refs_from_def)

lemma refs_from_Cons:
  "refs_from loc i (x # cs) =
     {(f, l). \<exists>c. x = GObj c \<and> filter_names (loc i) c False f l} \<union> refs_from loc (Suc i) cs"
  unfolding refs_from_def ex_nth_Cons by (auto simp del: length_Cons)

definition cond_at :: "string \<Rightarrow> nat \<Rightarrow> string" where
  "cond_at loc i = loc @ ''.conditions['' @ nat_string i @ '']''"

lemma filter_names_outside_iff:
  "filter_names loc m False f l \<longleftrightarrow>
     map_of m ''field'' = Some (GStr f) \<and> l = loc
     \<or> (\<exists>cs. map_of m ''conditions'' = Some (GArr cs) \<and> (f, l) \<in> refs_from (cond_at loc) 0 cs)"
proof
  assume "filter_names loc m False f l"
  then show "map_of m ''field'' = Some (GStr f) \<and> l = loc
     \<or> (\<exists>cs. map_of m ''conditions'' = Some (GArr cs) \<and> (f, l) \<in> refs_from (cond_at loc) 0 cs)"
    by (cases rule: filter_names.cases) (auto simp: refs_from_def cond_at_def)
qed (auto simp: refs_from_def cond_at_def intro: filter_names.own filter_names.part)

lemma filter_names_outside:
  "{(f, l). filter_names loc m False f l} =
     (case field_as as_str m ''field'' of Some f \<Rightarrow> {(f, loc)} | None \<Rightarrow> {})
     \<union> (case field_as as_arr m ''conditions'' of Some cs \<Rightarrow> refs_from (cond_at loc) 0 cs | None \<Rightarrow> {})"
  unfolding filter_names_outside_iff by (auto simp: as_simps as_none split: option.splits)

lemma validateFilter_found:
  "found (validateFilter m loc ve) = found ve \<union> unknown {(f, l). filter_names loc m False f l}"
  "found (validateConditions cs i loc ve) = found ve \<union> unknown (refs_from (cond_at loc) i cs)"
proof (induction m loc ve and cs i loc ve rule: validateFilter_validateConditions.induct)
  case (1 m loc ve)
  then show ?case
    by (auto simp: filter_names_outside unknown_Un unknown_empty found_check_field Let_def
        split: option.splits) (auto simp: unknown_def)
next
  case (2 i loc ve)
  then show ?case
    by (simp add: refs_from_Nil unknown_empty)
next
  case (3 c cs i loc ve)
  then show ?case
    by (cases c) (simp_all add: refs_from_Cons unknown_Un unknown_empty cond_at_def Un_assoc)
qed

definition below :: "gmap \<Rightarrow> string \<Rightarrow> (string \<times> string) set" where
  \<comment> \<open>references outside negations of the filter of the query of \<open>m\<close>\<close>
  "below m loc = {(f, l). \<exists>q g. map_of m ''query'' = Some (GObj q)
     \<and> map_of q ''filter'' = Some (GObj g) \<and> filter_names loc g False f l}"

lemma opt_filter_found: "found (opt_filter m loc ve) = found ve \<union> unknown (below m loc)"
proof (cases "\<exists>q g. map_of m ''query'' = Some (GObj q) \<and> map_of q ''filter'' = Some (GObj g)")
  case True
  then obtain q g where q: "map_of m ''query'' = Some (GObj q)" "map_of q ''filter'' = Some (GObj g)"
    by blast
  then show ?thesis
    by (simp add: opt_filter_def below_def as_simps(3) [THEN iffD2] validateFilter_found
        del: validateFilter.simps)
next
  case False
  then show ?thesis
    by (auto simp: opt_filter_def below_def as_simps as_none unknown_def
        simp del: validateFilter.simps split: option.splits)
qed

lemma validate_each_found:
  "found (validate_each loc xs ve) =
     found ve \<union> unknown {(f, l). GStr f \<in> set xs \<and> l = loc}"
proof (induction xs arbitrary: ve)
  case (Cons x xs)
  then show ?case
    by (cases x) (auto simp: found_check_field unknown_def)
qed (simp add: unknown_def)

definition step_at :: "nat \<Rightarrow> string" where
  "step_at i = ''model.parameters.sequence['' @ nat_string i @ ''].query.filter''"

definition stepped :: "nat \<Rightarrow> gval list \<Rightarrow> (string \<times> string) set" where
  \<comment> \<open>references outside negations of the steps in a list that starts at index \<open>i\<close>\<close>
  "stepped i ss = {(f, l). \<exists>j st. j < length ss \<and> ss ! j = GObj st
     \<and> (f, l) \<in> below st (step_at (i + j))}"

lemma stepped_Cons:
  "stepped i (x # ss) = {(f, l). \<exists>st. x = GObj st \<and> (f, l) \<in> below st (step_at i)} \<union> stepped (Suc i) ss"
  unfolding stepped_def ex_nth_Cons by (auto simp del: length_Cons)

lemma validate_steps_Cons:
  "validate_steps i (x # ss) ve =
     validate_steps (Suc i) ss (case x of GObj st \<Rightarrow> opt_filter st (step_at i) ve | _ \<Rightarrow> ve)"
  by (cases x) (simp_all add: step_at_def)

lemma validate_steps_found:
  "found (validate_steps i ss ve) = found ve \<union> unknown (stepped i ss)"
proof (induction ss arbitrary: i ve)
  case (Cons x ss)
  then show ?case
    by (cases x) (simp_all add: validate_steps_Cons stepped_Cons opt_filter_found unknown_Un
        unknown_empty Un_assoc del: validate_steps.simps(2))
qed (simp add: unknown_def stepped_def)

lemma model_names_outside:
  "{(f, l). model_names p False f l} =
      (case field_as as_arr p ''group_by'' of
         Some xs \<Rightarrow> {(f, l). GStr f \<in> set xs \<and> l = ''model.parameters.group_by''} | None \<Rightarrow> {})
      \<union> (case field_as as_str p ''field'' of
         Some f \<Rightarrow> {(f, ''model.parameters.field'')} | None \<Rightarrow> {})
      \<union> below p ''model.parameters.query.filter''
      \<union> (case field_as as_arr p ''sequence'' of
         Some ss \<Rightarrow> stepped 0 ss | None \<Rightarrow> {})"
  (is "_ = ?grouped \<union> ?counted \<union> ?queried \<union> ?steps")
proof -
  have "?grouped = {(f, l). \<exists>xs. map_of p ''group_by'' = Some (GArr xs) \<and> GStr f \<in> set xs
      \<and> l = ''model.parameters.group_by''}"
    by (auto simp: as_simps as_none split: option.splits)
  moreover have "?counted = {(f, l). map_of p ''field'' = Some (GStr f) \<and> l = ''model.parameters.field''}"
    by (auto simp: as_simps as_none split: option.splits)
  moreover have "?steps = {(f, l). \<exists>ss j st. map_of p ''sequence'' = Some (GArr ss) \<and> j < length ss
      \<and> ss ! j = GObj st \<and> (f, l) \<in> below st (step_at j)}"
    by (auto simp: as_simps as_none stepped_def split: option.splits)
  moreover have "model_names p False f l \<longleftrightarrow>
      (\<exists>xs. map_of p ''group_by'' = Some (GArr xs) \<and> GStr f \<in> set xs
         \<and> l = ''model.parameters.group_by'')
      \<or> map_of p ''field'' = Some (GStr f) \<and> l = ''model.parameters.field''
      \<or> (f, l) \<in> below p ''model.parameters.query.filter''
      \<or> (\<exists>ss j st. map_of p ''sequence'' = Some (GArr ss) \<and> j < length ss \<and> ss ! j = GObj st
         \<and> (f, l) \<in> below st (step_at j))"
      (is "_ \<longleftrightarrow> ?names f l") for f l
  proof
    assume "model_names p False f l"
    then show "?names f l"
      by (cases rule: model_names.cases) (auto simp: below_def step_at_def)
  next
    assume "?names f l"
    then show "model_names p False f l"
      by (auto simp: below_def
          intro: model_names.grouped model_names.counted model_names.queried
            model_names.step [folded step_at_def])
  qed
  ultimately show ?thesis by auto
qed

lemma validateModel_found:
  "found (validateModel model ve) = found ve \<union> unknown {(f, l). model_refers model False f l}"
proof (cases "\<exists>m p. model = Some m \<and> map_of m ''parameters'' = Some (GObj p)")
  case True
  then obtain m p where m: "model = Some m" "map_of m ''parameters'' = Some (GObj p)" by blast
  have "found (validateModel model ve) = found ve \<union> unknown {(f, l). model_names p False f l}"
    unfolding model_names_outside
    by (simp add: validateModel_def m as_simps(3) [THEN iffD2, OF m(2)] unknown_Un unknown_empty Let_def
        opt_filter_found found_check_field validate_each_found validate_steps_found Un_ac
        split: option.splits) (auto simp: unknown_def)
  then show ?thesis using m by (simp add: model_refers_def)
next
  case False
  then have "validateModel model ve = ve"
    by (auto simp: validateModel_def as_simps as_none split: option.splits)
  then show ?thesis using False by (auto simp: model_refers_def unknown_def)
qed

lemma validate_order_found:
  "found (validate_order xs ve) = found ve \<union> {(f, l). GStr f \<in> set xs \<and> \<not> isAggregationField f
     \<and> \<not> IsValidField (''.'' @ f) \<and> l = ''view.fields_order''}"
proof (induction xs arbitrary: ve)
  case (Cons x xs)
  then show ?case
    by (cases x) (auto simp: invalid_at_def)
qed simp

lemma validateView_found:
  "found (validateView view ve) = found ve
     \<union> {(f, l). view_refers view f \<and> \<not> IsValidField (''.'' @ f) \<and> l = ''view.fields_order''}"
  by (auto simp: validateView_def view_refers_def validate_order_found as_simps
      as_none isAggregationField_def split: option.splits)

lemma validateFilter_leaf:
  assumes "map_of m ''field'' = None" and "map_of m ''conditions'' = None"
  shows "validateFilter m loc ve = ve"
  using assms by (simp add: field_as_def)

section \<open>Properties\<close>

text \<open>C38: \<open>ValidateRule\<close> reports exactly the unknown references of a rule, each with its
  location: of the model section, the names under \<open>group_by\<close> and \<open>field\<close> and the
  names in the filters of the query and of the steps of a sequence, at any depth of
  \<open>conditions\<close>, that the catalogue does not know; of the view section, the columns that are no
  aggregation result and that the catalogue does not know with a dot in front. References that
  stand below the \<open>condition\<close> of a \<open>not\<close> filter are not among them: they are never
  examined, although the function is documented to check every reference. The result is nil
  exactly when nothing is reported.\<close>

theorem ValidateRule_reports_exactly:
  "(case ValidateRule model view controller of None \<Rightarrow> {} | Some ve \<Rightarrow> found ve)
     = {(f, l). model_refers model False f l \<and> \<not> IsValidField f}
       \<union> {(f, l). view_refers view f \<and> \<not> IsValidField (''.'' @ f) \<and> l = ''view.fields_order''}"
proof -
  let ?ve = "validateView view (validateModel model [])"
  have "(case ValidateRule model view controller of None \<Rightarrow> {} | Some ve \<Rightarrow> found ve) = found ?ve"
    by (simp add: ValidateRule_def HasErrors_def Let_def)
  then show ?thesis
    by (auto simp: validateView_found validateModel_found unknown_def)
qed

text \<open>A negated filter is not examined: whatever field its condition names, a rule whose query
  filter is \<open>not\<close> of that condition validates.\<close>

lemma not_filter_unchecked:
  "ValidateRule
     (Some [(''parameters'', GObj [(''query'', GObj [(''filter'',
        GObj [(''type'', GStr ''not''), (''condition'', GObj [(''field'', GStr f), (''operator'', op)])])])])])
     None None = None"
  by (simp add: ValidateRule_def validateView_def validateModel_def HasErrors_def field_as_def
      opt_filter_def validateFilter_leaf del: validateFilter.simps)

end
