(* ===== verification/OcsfTables.thy ===== *)
theory OcsfTables
  imports Prelude
begin

text \<open>
  The tables of the OCSF core (\<^verbatim>\<open>common/ocsf/mappings.go\<close>, \<^verbatim>\<open>common/ocsf/constants.go\<close>): the names
  of categories, classes, activities, severities and statuses, and the type identifier that is
  computed from a category, a class and an activity. A \<open>switch\<close> over distinct constants is an
  association list, and its default the second argument of \<open>table_name\<close>.
\<close>

definition table_name :: "(int \<times> string) list \<Rightarrow> string \<Rightarrow> int \<Rightarrow> string" where
  "table_name t d k = (case map_of t k of None \<Rightarrow> d | Some n \<Rightarrow> n)"

definition category_names :: "(int \<times> string) list" where
  "category_names =
    [(6, ''Application Activity''), (5, ''Discovery''), (2, ''Findings''),
     (3, ''Identity & Access Management''), (4, ''Network Activity''), (7, ''Remediation''),
     (1, ''System Activity''), (8, ''Unmanned Systems'')]"

definition class_names :: "(int \<times> string) list" where
  "class_names =
    [(1001, ''File System Activity''), (1002, ''Kernel Extension Activity''),
     (1003, ''Kernel Activity''), (1004, ''Memory Activity''), (1005, ''Module Activity''),
     (1006, ''Scheduled Job Activity''), (1007, ''Process Activity''),
     (1008, ''Event Log Activity''), (1009, ''Script Activity''), (1010, ''Peripheral Activity''),
     (2000, ''Finding''), (2001, ''Security Finding''), (2002, ''Vulnerability Finding''),
     (2003, ''Compliance Finding''), (2004, ''Detection Finding''), (2005, ''Incident Finding''),
     (2006, ''Data Security Finding''), (2007, ''Application Security Posture Finding''),
     (2008, ''IAM Analysis Finding''), (3001, ''Account Change''), (3002, ''Authentication''),
     (3003, ''Authorize Session''), (3004, ''Entity Management''),
     (3005, ''User Access Management''), (3006, ''Group Management''),
     (4001, ''Network Activity''), (4002, ''HTTP Activity''), (4003, ''DNS Activity''),
     (4004, ''DHCP Activity''), (4005, ''RDP Activity''), (4006, ''SMB Activity''),
     (4007, ''SSH Activity''), (4008, ''FTP Activity''), (4009, ''Email Activity''),
     (4010, ''Network File Activity''), (4011, ''Email File Activity''),
     (4012, ''Email URL Activity''), (4013, ''NTP Activity''), (4014, ''Tunnel Activity''),
     (5000, ''Discovery Result''), (5001, ''Device Inventory Info''),
     (5002, ''Device Config State''), (5003, ''User Inventory Info''),
     (5004, ''Operating System Patch State''), (5006, ''Kernel Object Query''),
     (5007, ''File Query''), (5008, ''Folder Query''), (5009, ''Admin Group Query''),
     (5010, ''Job Query''), (5011, ''Module Query''), (5012, ''Network Connection Query''),
     (5013, ''Networks Query''), (5014, ''Peripheral Device Query''), (5015, ''Process Query''),
     (5016, ''Service Query''), (5017, ''User Session Query''), (5018, ''User Query''),
     (5019, ''Device Config State Change''), (5020, ''Software Inventory Info''),
     (5021, ''OSINT Inventory Info''), (5022, ''Startup Item Query''),
     (5023, ''Cloud Resources Inventory Info''), (5040, ''Live Evidence Info''),
     (6001, ''Web Resources Activity''), (6002, ''Application Lifecycle''),
     (6003, ''API Activity''), (6004, ''Web Resource Access Activity''),
     (6005, ''Datastore Activity''), (6006, ''File Hosting Activity''), (6007, ''Scan Activity''),
     (6008, ''Application Error''), (7001, ''Remediation Activity''),
     (7002, ''File Remediation Activity''), (7003, ''Process Remediation Activity''),
     (7004, ''Network Remediation Activity''), (8001, ''Drone Flights Activity''),
     (8002, ''Airborne Broadcast Activity'')]"

definition system_activities :: "(int \<times> string) list" where
  "system_activities =
    [(100101, ''Create''), (100102, ''Read''), (100103, ''Update''), (100104, ''Delete''),
     (100105, ''Rename''), (100106, ''Set Attributes''), (100107, ''Set Security''),
     (100108, ''Get Attributes''), (100109, ''Get Security''), (100110, ''Encrypt''),
     (100111, ''Decrypt''), (100112, ''Mount''), (100113, ''Unmount''), (100114, ''Open''),
     (100201, ''Load''), (100202, ''Unload''), (100301, ''Create''), (100302, ''Read''),
     (100303, ''Delete''), (100304, ''Invoke''), (100401, ''Allocate Page''),
     (100402, ''Modify Page''), (100403, ''Delete Page''), (100404, ''Buffer Overflow''),
     (100405, ''Disable DEP''), (100406, ''Enable DEP''), (100407, ''Read''), (100408, ''Write''),
     (100409, ''Map View''), (100501, ''Load''), (100502, ''Unload''), (100503, ''Invoke''),
     (100601, ''Create''), (100602, ''Update''), (100603, ''Delete''), (100604, ''Enable''),
     (100605, ''Disable''), (100606, ''Start''), (100701, ''Launch''), (100702, ''Terminate''),
     (100703, ''Open''), (100704, ''Inject''), (100705, ''Set User ID''), (100801, ''Clear''),
     (100802, ''Delete''), (100803, ''Export''), (100804, ''Archive''), (100805, ''Rotate''),
     (100806, ''Start''), (100807, ''Stop''), (100808, ''Restart''), (100809, ''Enable''),
     (100810, ''Disable''), (100901, ''Execute''), (101001, ''Connect''),
     (101002, ''Disconnect''), (101003, ''Enable''), (101004, ''Disable''), (101005, ''Eject'')]"

definition finding_activities :: "(int \<times> string) list" where
  "finding_activities =
    [(200001, ''Create''), (200002, ''Update''), (200003, ''Close''), (200101, ''Create''),
     (200102, ''Update''), (200103, ''Close''), (200501, ''Create''), (200502, ''Update''),
     (200503, ''Close''), (200601, ''Create''), (200602, ''Update''), (200603, ''Close''),
     (200604, ''Suppressed'')]"

definition identity_activities :: "(int \<times> string) list" where
  "identity_activities =
    [(300101, ''Create''), (300102, ''Enable''), (300103, ''Password Change''),
     (300104, ''Password Reset''), (300105, ''Disable''), (300106, ''Delete''),
     (300107, ''Attach Policy''), (300108, ''Detach Policy''), (300109, ''Lock''),
     (300110, ''MFA Factor Enable''), (300111, ''MFA Factor Disable''), (300112, ''Unlock''),
     (300201, ''Logon''), (300202, ''Logoff''), (300203, ''Authentication Ticket''),
     (300204, ''Service Ticket Request''), (300205, ''Service Ticket Renew''),
     (300206, ''Preauth''), (300207, ''Account Switch''), (300301, ''Assign Privileges''),
     (300302, ''Assign Groups''), (300401, ''Create''), (300402, ''Read''), (300403, ''Update''),
     (300404, ''Delete''), (300405, ''Move''), (300406, ''Enroll''), (300407, ''Unenroll''),
     (300408, ''Enable''), (300409, ''Disable''), (300410, ''Activate''),
     (300411, ''Deactivate''), (300412, ''Suspend''), (300413, ''Resume''),
     (300501, ''Assign Privileges''), (300502, ''Revoke Privileges''),
     (300601, ''Assign Privileges''), (300602, ''Revoke Privileges''), (300603, ''Add User''),
     (300604, ''Remove User''), (300605, ''Delete''), (300606, ''Create''),
     (300607, ''Add Subgroup''), (300608, ''Remove Subgroup'')]"

definition network_activities :: "(int \<times> string) list" where
  "network_activities =
    [(400101, ''Open''), (400102, ''Close''), (400103, ''Reset''), (400104, ''Fail''),
     (400105, ''Refuse''), (400106, ''Traffic''), (400107, ''Listen''), (400201, ''Connect''),
     (400202, ''Delete''), (400203, ''Get''), (400204, ''Head''), (400205, ''Options''),
     (400206, ''Post''), (400207, ''Put''), (400208, ''Trace''), (400209, ''Patch''),
     (400301, ''Query''), (400302, ''Response''), (400306, ''Traffic''), (400401, ''Discover''),
     (400402, ''Offer''), (400403, ''Request''), (400404, ''Decline''), (400405, ''Ack''),
     (400406, ''Nak''), (400407, ''Release''), (400408, ''Inform''), (400409, ''Expire''),
     (400501, ''Initial Request''), (400502, ''Initial Response''), (400503, ''Connect Request''),
     (400504, ''Connect Response''), (400505, ''TLS Handshake''), (400506, ''Traffic''),
     (400507, ''Disconnect''), (400508, ''Reconnect''), (400601, ''File Supersede''),
     (400602, ''File Open''), (400603, ''File Create''), (400604, ''File Open If''),
     (400605, ''File Overwrite''), (400606, ''File Overwrite If'')]"

definition file_transfer_activities :: "(int \<times> string) list" where
  "file_transfer_activities =
    [(400701, ''Open''), (400702, ''Close''), (400703, ''Reset''), (400704, ''Fail''),
     (400705, ''Refuse''), (400706, ''Traffic''), (400707, ''Listen''), (400801, ''Put''),
     (400802, ''Get''), (400803, ''Poll''), (400804, ''Delete''), (400805, ''Rename''),
     (400806, ''List''), (400901, ''Send''), (400902, ''Receive''), (400903, ''Scan''),
     (400904, ''Trace''), (400905, ''MTA Relay''), (401001, ''Upload''), (401002, ''Download''),
     (401003, ''Update''), (401004, ''Delete''), (401005, ''Rename''), (401006, ''Copy''),
     (401007, ''Move''), (401008, ''Restore''), (401009, ''Preview''), (401010, ''Lock''),
     (401011, ''Unlock''), (401012, ''Share''), (401013, ''Unshare''), (401014, ''Open''),
     (401015, ''Sync''), (401016, ''Unsync''), (401101, ''Send''), (401102, ''Receive''),
     (401103, ''Scan''), (401201, ''Send''), (401202, ''Receive''), (401203, ''Scan''),
     (401300, ''Unknown''), (401301, ''Symmetric Active Exchange''),
     (401302, ''Symmetric Passive Response''), (401303, ''Client Synchronization''),
     (401304, ''Server Response''), (401305, ''Broadcast''), (401306, ''Control''),
     (401307, ''Private Use Case''), (401399, ''Other''), (401400, ''Unknown''),
     (401401, ''Open''), (401402, ''Close''), (401403, ''Renew''), (401499, ''Other'')]"

definition discovery_activities :: "(int \<times> string) list" where
  "discovery_activities =
    [(500001, ''Query'')]"

definition application_activities :: "(int \<times> string) list" where
  "application_activities =
    [(600101, ''Create''), (600102, ''Read''), (600103, ''Update''), (600104, ''Delete''),
     (600105, ''Search''), (600106, ''Import''), (600107, ''Export''), (600108, ''Share''),
     (600201, ''Install''), (600202, ''Remove''), (600203, ''Start''), (600204, ''Stop''),
     (600205, ''Restart''), (600206, ''Enable''), (600207, ''Disable''), (600208, ''Update''),
     (600301, ''Create''), (600302, ''Read''), (600303, ''Update''), (600304, ''Delete''),
     (600401, ''Access Grant''), (600402, ''Access Deny''), (600403, ''Access Revoke''),
     (600404, ''Access Error''), (600501, ''Read''), (600502, ''Update''), (600503, ''Connect''),
     (600504, ''Query''), (600505, ''Write''), (600506, ''Create''), (600507, ''Delete''),
     (600508, ''List''), (600509, ''Encrypt''), (600510, ''Decrypt''), (600601, ''Upload''),
     (600602, ''Download''), (600603, ''Update''), (600604, ''Delete''), (600605, ''Rename''),
     (600606, ''Copy''), (600607, ''Move''), (600608, ''Restore''), (600609, ''Preview''),
     (600610, ''Lock''), (600611, ''Unlock''), (600612, ''Share''), (600613, ''Unshare''),
     (600614, ''Open''), (600615, ''Sync''), (600616, ''Unsync''), (600617, ''Access Check''),
     (600701, ''Started''), (600702, ''Completed''), (600703, ''Cancelled''),
     (600704, ''Duration Violation''), (600705, ''Pause Violation''), (600706, ''Error''),
     (600707, ''Paused''), (600708, ''Resumed''), (600709, ''Restarted''), (600710, ''Delayed''),
     (600801, ''General Error''), (600802, ''Translation Error'')]"

definition remediation_activities :: "(int \<times> string) list" where
  "remediation_activities =
    [(700101, ''Isolate''), (700102, ''Evict''), (700103, ''Restore''), (700104, ''Harden''),
     (700105, ''Detect'')]"

definition unmanned_activities :: "(int \<times> string) list" where
  "unmanned_activities =
    [(800100, ''Unknown''), (800101, ''Capture''), (800102, ''Record''), (800199, ''Other''),
     (800200, ''Unknown''), (800201, ''Capture''), (800202, ''Record''), (800299, ''Other'')]"

definition activity_names :: "(int \<times> string) list" where
  "activity_names = concat
     [system_activities, finding_activities, identity_activities,
      network_activities, file_transfer_activities, discovery_activities,
      application_activities, remediation_activities, unmanned_activities]"

definition severity_names :: "(int \<times> string) list" where
  "severity_names =
    [(0, ''Unknown''), (1, ''Informational''), (2, ''Low''), (3, ''Medium''), (4, ''High''),
     (5, ''Critical''), (6, ''Fatal'')]"

definition status_names :: "(int \<times> string) list" where
  "status_names = [(0, ''Unknown''), (1, ''Success''), (2, ''Failure''), (99, ''Other'')]"

definition CategoryName :: "int \<Rightarrow> string" where
  "CategoryName categoryUID = table_name category_names ''Unknown'' categoryUID"

definition ClassName :: "int \<Rightarrow> string" where
  "ClassName classUID = table_name class_names ''Unknown'' classUID"

definition ActivityName :: "int \<Rightarrow> int \<Rightarrow> string" where
  "ActivityName classUID activityID = table_name activity_names [] (classUID * 100 + activityID)"

definition SeverityName :: "int \<Rightarrow> string" where
  "SeverityName severityID = table_name severity_names ''Unknown'' severityID"

definition StatusName :: "int \<Rightarrow> string" where
  "StatusName statusID = table_name status_names ''Unknown'' statusID"

definition ComputeTypeUID :: "int \<Rightarrow> int \<Rightarrow> int \<Rightarrow> int" where
  \<comment> \<open>\<open>%\<close> of a non-negative number: the branch is taken for \<open>classUID >= 100\<close> only\<close>
  "ComputeTypeUID categoryUID classUID activityID =
     (if classUID < 100 then classUID * 100 + activityID
      else (categoryUID * 100 + classUID mod 1000) * 100 + activityID)"

section \<open>Properties\<close>

text \<open>The type identifier is not the documented one: for a class of its category's thousand
  (3002 of category 3, say), \<open>ComputeTypeUID\<close> falls short of \<open>class_uid * 100 + activity_id\<close> by
  90000 times the category, and so agrees with it in category 0 only.\<close>

lemma type_uid_differs:
  assumes "100 \<le> classUID" and "classUID = categoryUID * 1000 + n" and "0 \<le> n" and "n < 1000"
  shows "ComputeTypeUID categoryUID classUID activityID
    = classUID * 100 + activityID - 90000 * categoryUID"
proof -
  have "classUID mod 1000 = n" using assms(2-4) by (metis mod_mult_self3 mod_pos_pos_trivial)
  moreover have "\<not> classUID < 100" using assms(1) by simp
  ultimately have "ComputeTypeUID categoryUID classUID activityID
      = (categoryUID * 100 + n) * 100 + activityID" by (simp only: ComputeTypeUID_def if_False)
  then show ?thesis using assms(2) by simp
qed

end
