(* ===== verification/Pipeline.thy ===== *)
theory Pipeline
  imports OcsfTables
begin

text \<open>
  The normalization pipeline of the ingest service: the event and the envelope
  (\<^verbatim>\<open>common/ocsf/event.go\<close>, \<^verbatim>\<open>ingest/internal/models\<close>), the normalizers' registry, the OCSF passthrough
  and HEC normalizers (\<^verbatim>\<open>ingest/internal/normalizer\<close>), the helpers and the template of the generated
  normalizers and validators (\<^verbatim>\<open>ingest/internal/normalizer/generated\<close>), the validators (\<^verbatim>\<open>ingest/internal/validator\<close>) and the pipeline
  itself (\<^verbatim>\<open>ingest/internal/pipeline/pipeline.go\<close>).

  A \<open>Normalizer\<close> and a \<open>Validator\<close> are interface values: records of their two methods. What
  \<open>encoding/json\<close> and \<open>time\<close> do with text is gathered in the record \<open>codec\<close>, an argument of the
  definitions that use it.
\<close>

section \<open>Events and envelopes\<close>

record raw_envelope =
  en_id :: string
  en_source :: string
  en_source_type :: string
  en_format :: string
  en_payload :: string
  en_attributes :: "(string \<times> string) list"
  en_received_at :: time

record ocsf_actor_user =
  au_name :: string
  au_uid :: string
  au_domain :: string

record product =
  pr_name :: string
  pr_vendor :: string

record metadata_info =
  md_product :: product
  md_version :: string
  md_profiles :: "string list"
  md_log_provider :: string

record raw_descriptor =
  rd_format :: string
  rd_data :: gval

record ocsf_event =
  \<comment> \<open>the actor is known by its user; the other objects are carried along as decoded\<close>
  oe_category_uid :: int
  oe_class_uid :: int
  oe_activity_id :: int
  oe_type_uid :: int
  oe_time :: time
  oe_severity_id :: int
  oe_metadata :: metadata_info
  oe_category :: string
  oe_class :: string
  oe_activity :: string
  oe_severity :: string
  oe_status :: string
  oe_status_id :: int
  oe_observed_time :: time
  oe_actor :: "ocsf_actor_user option option"   \<comment> \<open>no actor; an actor without or with a user\<close>
  oe_objects :: "(string \<times> gval) list"
  oe_enrichments :: "(string \<times> string) list option"
  oe_properties :: "(string \<times> string) list option"
  oe_raw :: raw_descriptor

record codec =
  c_unmarshal :: "string \<Rightarrow> (string \<times> gval) list option"
    \<comment> \<open>\<open>json.Unmarshal\<close> into a \<open>map[string]interface{}\<close>; None is its error\<close>
  c_decode_event :: "(string \<times> gval) list \<Rightarrow> ocsf_event option"
    \<comment> \<open>\<open>json.Marshal\<close> of the map and \<open>json.Unmarshal\<close> into an \<open>ocsf.Event\<close>\<close>
  c_format_nano :: "time \<Rightarrow> string"
  c_parse_time :: "string \<Rightarrow> time option"       \<comment> \<open>\<open>time.Parse(time.RFC3339, v)\<close>\<close>
  c_parse_nano :: "string \<Rightarrow> time option"       \<comment> \<open>\<open>time.Parse(time.RFC3339Nano, v)\<close>\<close>

datatype normalize_error = DecodePayload | UnmarshalEvent

record normalizer =
  nz_supports :: "string \<Rightarrow> string \<Rightarrow> bool"          \<comment> \<open>format, source type\<close>
  nz_normalize :: "raw_envelope \<Rightarrow> normalize_error + ocsf_event"

section \<open>Times given as numbers\<close>

definition round_double :: "int \<Rightarrow> int \<Rightarrow> int \<times> int" where
  \<comment> \<open>the \<open>float64\<close> nearest to \<open>m * 2 ^ e\<close>, ties to even\<close>
  "round_double m e =
     (let n = nat \<bar>m\<bar>; bits = (if n = 0 then 0 else length (takeWhile (\<lambda>k. 2 ^ k \<le> n) [0..<2048])) in
      if bits \<le> 53 then (m, e)
      else let k = bits - 53; q = n div 2 ^ k; r = n mod 2 ^ k; half = 2 ^ (k - 1);
               q' = (if r > half \<or> r = half \<and> odd q then q + 1 else q)
           in (sgn m * int q', e + int k))"

definition unix_of_float :: "int \<Rightarrow> int \<Rightarrow> time" where
  \<comment> \<open>\<open>time.Unix(int64(t), int64((t-float64(int64(t)))*1e9))\<close>; the fraction is exact\<close>
  "unix_of_float m e =
     (let secs = float_to_int m e;
          frac_m = (if 0 \<le> e then 0 else m - secs * 2 ^ nat (- e));
          (pm, pe) = round_double (frac_m * 1000000000) e
      in secs * second + float_to_int pm pe)"

definition greater_1e12 :: "int \<Rightarrow> int \<Rightarrow> bool" where
  \<comment> \<open>\<open>timeVal > 1e12\<close>\<close>
  "greater_1e12 m e =
     (if 0 \<le> e then m * 2 ^ nat e > 1000000000000 else m > 1000000000000 * 2 ^ nat (- e))"

section \<open>The registry and the HEC normalizer\<close>

definition registry_Find :: "normalizer list option \<Rightarrow> raw_envelope \<Rightarrow> normalizer option" where
  "registry_Find r envelope =
     (case r of
        None \<Rightarrow> None
      | Some items \<Rightarrow>
          find (\<lambda>n. nz_supports n (en_format envelope) (en_source_type envelope)) items)"

definition HEC_Supports :: "string \<Rightarrow> string \<Rightarrow> bool" where
  "HEC_Supports format sourceType \<longleftrightarrow> format = ''json'' \<and> sourceType = ''hec''"

definition HEC_Normalize :: "codec \<Rightarrow> raw_envelope \<Rightarrow> normalize_error + ocsf_event" where
  "HEC_Normalize c envelope =
     (case c_unmarshal c (en_payload envelope) of
        None \<Rightarrow> Inl DecodePayload
      | Some payload \<Rightarrow>
          (let eventTime = (case field_as as_float payload ''time'' of
                              Some (m, e) \<Rightarrow> unix_of_float m e
                            | None \<Rightarrow> en_received_at envelope) in
           Inr \<lparr>oe_category_uid = 0, oe_class_uid = 0, oe_activity_id = 0,
                oe_type_uid = ComputeTypeUID 0 0 0, oe_time = eventTime, oe_severity_id = 0,
                oe_metadata = \<lparr>md_product = \<lparr>pr_name = ''TelHawk Stack'', pr_vendor = ''TelHawk Systems''\<rparr>,
                               md_version = ''1.1.0'', md_profiles = [], md_log_provider = []\<rparr>,
                oe_category = ''other'', oe_class = ''base_event'',
                oe_activity = ''ingest:'' @ en_source_type envelope, oe_severity = ''Unknown'',
                oe_status = ''Unknown'', oe_status_id = 0, oe_observed_time = en_received_at envelope,
                oe_actor = None, oe_objects = [], oe_enrichments = None,
                oe_properties = Some [(''source'', en_source envelope),
                                      (''source_type'', en_source_type envelope)],
                oe_raw = \<lparr>rd_format = en_format envelope, rd_data = GObj payload\<rparr>\<rparr>))"

section \<open>The passthrough normalizer\<close>

definition OCSF_Supports :: "string \<Rightarrow> string \<Rightarrow> bool" where
  "OCSF_Supports format sourceType \<longleftrightarrow>
     format = ''json'' \<and> has_prefix (to_lower sourceType) ''ocsf:''"

definition unwrap_event :: "(string \<times> gval) list \<Rightarrow> (string \<times> gval) list" where
  \<comment> \<open>the event inside a HEC wrapper, with the wrapper's time when it has none\<close>
  "unwrap_event payload =
     (case field_as as_obj payload ''event'' of
        Some eventData \<Rightarrow>
          (if map_of eventData ''time'' = None then
             (case field_as as_float payload ''time'' of
                Some (m, e) \<Rightarrow> map_put ''time'' (GFloat m e) eventData
              | None \<Rightarrow> eventData)
           else eventData)
      | None \<Rightarrow> payload)"

definition convert_time :: "codec \<Rightarrow> (string \<times> gval) list \<Rightarrow> (string \<times> gval) list" where
  "convert_time c ocsfData =
     (case field_as as_float ocsfData ''time'' of
        Some (m, e) \<Rightarrow>
          (let eventTime = (if greater_1e12 m e then float_to_int m e * 1000000
                            else unix_of_float m e) in
           map_put ''time'' (GStr (c_format_nano c eventTime)) ocsfData)
      | None \<Rightarrow> ocsfData)"

definition fill_name :: "string \<Rightarrow> bool \<Rightarrow> string \<Rightarrow> string" where
  \<comment> \<open>\<open>if x == "" && uid != 0 { x = Name(uid) }\<close>\<close>
  "fill_name x known name = (if x = [] \<and> known then name else x)"

definition complete_event ::
  "raw_envelope \<Rightarrow> (string \<times> gval) list \<Rightarrow> ocsf_event \<Rightarrow> ocsf_event" where
  \<comment> \<open>what \<open>Normalize\<close> does with the decoded event; the endpoints' \<open>Validate\<close> always returns nil\<close>
  "complete_event envelope payload ev =
     ev\<lparr>oe_observed_time := en_received_at envelope,
        oe_raw := (if rd_data (oe_raw ev) = GNil
                   then \<lparr>rd_format = en_format envelope, rd_data = GObj payload\<rparr> else oe_raw ev),
        oe_properties := Some (map_put ''source_type'' (en_source_type envelope)
          (map_put ''source'' (en_source envelope)
            (case oe_properties ev of None \<Rightarrow> [] | Some ps \<Rightarrow> ps))),
        oe_category := fill_name (oe_category ev) (oe_category_uid ev \<noteq> 0)
                         (CategoryName (oe_category_uid ev)),
        oe_class := fill_name (oe_class ev) (oe_class_uid ev \<noteq> 0) (ClassName (oe_class_uid ev)),
        oe_activity := fill_name (oe_activity ev) (oe_class_uid ev \<noteq> 0 \<and> oe_activity_id ev \<noteq> 0)
                         (ActivityName (oe_class_uid ev) (oe_activity_id ev)),
        oe_severity := fill_name (oe_severity ev) (oe_severity_id ev \<noteq> 0)
                         (SeverityName (oe_severity_id ev)),
        oe_status := fill_name (oe_status ev) (oe_status_id ev \<noteq> 0) (StatusName (oe_status_id ev)),
        oe_metadata := (oe_metadata ev)\<lparr>md_version :=
          (if md_version (oe_metadata ev) = [] then ''1.1.0'' else md_version (oe_metadata ev))\<rparr>\<rparr>"

definition OCSF_Normalize :: "codec \<Rightarrow> raw_envelope \<Rightarrow> normalize_error + ocsf_event" where
  \<comment> \<open>the payload kept as raw data shares its \<open>event\<close> with the data whose time was converted\<close>
  "OCSF_Normalize c envelope =
     (case c_unmarshal c (en_payload envelope) of
        None \<Rightarrow> Inl DecodePayload
      | Some payload \<Rightarrow>
          (let ocsfData = convert_time c (unwrap_event payload);
               payload' = (case field_as as_obj payload ''event'' of
                             Some _ \<Rightarrow> map_put ''event'' (GObj ocsfData) payload
                           | None \<Rightarrow> ocsfData) in
           case c_decode_event c ocsfData of
             None \<Rightarrow> Inl UnmarshalEvent
           | Some ev \<Rightarrow> Inr (complete_event envelope payload' ev)))"

section \<open>Helpers of the generated normalizers\<close>

fun ExtractString :: "(string \<times> gval) list \<Rightarrow> string list \<Rightarrow> string" where
  "ExtractString payload [] = []"
| "ExtractString payload (key # keys) =
     (case field_as as_str payload key of
        Some str \<Rightarrow> if str \<noteq> [] then str else ExtractString payload keys
      | None \<Rightarrow> ExtractString payload keys)"

definition ExtractUser :: "(string \<times> gval) list \<Rightarrow> ocsf_actor_user option" where
  "ExtractUser payload =
     (let name = ExtractString payload [''user'', ''username'', ''user_name'', ''account'', ''principal''] in
      if name = [] then None
      else Some \<lparr>au_name = name, au_uid = ExtractString payload [''user_id'', ''uid'', ''user_uid''],
                 au_domain = ExtractString payload [''domain'', ''user_domain'', ''realm'']\<rparr>)"

fun extract_timestamp :: "codec \<Rightarrow> (string \<times> gval) list \<Rightarrow> time \<Rightarrow> string list \<Rightarrow> time" where
  \<comment> \<open>the loop over the field names; a decoded number is never an \<open>int64\<close>\<close>
  "extract_timestamp c payload fallback [] = fallback"
| "extract_timestamp c payload fallback (f # fs) =
     (case map_of payload f of
        Some (GStr v) \<Rightarrow>
          (case c_parse_time c v of
             Some t \<Rightarrow> t
           | None \<Rightarrow>
               (case c_parse_nano c v of
                  Some t \<Rightarrow> t
                | None \<Rightarrow> extract_timestamp c payload fallback fs))
      | Some (GFloat m e) \<Rightarrow> float_to_int m e * second
      | _ \<Rightarrow> extract_timestamp c payload fallback fs)"

definition ExtractTimestamp :: "codec \<Rightarrow> (string \<times> gval) list \<Rightarrow> time \<Rightarrow> time" where
  "ExtractTimestamp c payload fallback =
     extract_timestamp c payload fallback
       [''timestamp'', ''time'', ''@timestamp'', ''event_time'', ''datetime'']"

definition ExtractStatus :: "(string \<times> gval) list \<Rightarrow> int \<times> string" where
  "ExtractStatus payload =
     (let status = to_lower (ExtractString payload [''status'', ''result'', ''outcome'']) in
      if contains_str status ''success'' \<or> contains_str status ''ok'' then (1, ''Success'')
      else if contains_str status ''fail'' \<or> contains_str status ''error'' then (2, ''Failure'')
      else (0, ''Unknown''))"

definition ExtractSeverity :: "(string \<times> gval) list \<Rightarrow> int \<times> string" where
  "ExtractSeverity payload =
     (let sev = to_lower (ExtractString payload [''severity'', ''level'', ''priority'']) in
      if contains_str sev ''critical'' \<or> contains_str sev ''fatal'' then (5, ''Critical'')
      else if contains_str sev ''high'' \<or> contains_str sev ''error'' then (4, ''High'')
      else if contains_str sev ''medium'' \<or> contains_str sev ''warn'' then (3, ''Medium'')
      else if contains_str sev ''low'' \<or> contains_str sev ''info'' then (2, ''Low'')
      else (0, ''Unknown''))"

section \<open>The template of the generated normalizers\<close>

definition new_event :: "int \<Rightarrow> string \<Rightarrow> int \<Rightarrow> string \<Rightarrow> int \<Rightarrow> ocsf_event" where
  \<comment> \<open>what the constructors share: the embedded event; the time they read is overwritten at once\<close>
  "new_event categoryUID category classUID cls activityID =
     \<lparr>oe_category_uid = categoryUID, oe_class_uid = classUID, oe_activity_id = activityID,
      oe_type_uid = ComputeTypeUID categoryUID classUID activityID, oe_time = zero_time,
      oe_severity_id = 0,
      oe_metadata = \<lparr>md_product = \<lparr>pr_name = ''TelHawk Stack'', pr_vendor = ''TelHawk Systems''\<rparr>,
                     md_version = ''1.1.0'', md_profiles = [], md_log_provider = []\<rparr>,
      oe_category = category, oe_class = cls, oe_activity = [], oe_severity = ''Unknown'',
      oe_status = [], oe_status_id = 0, oe_observed_time = zero_time, oe_actor = None,
      oe_objects = [], oe_enrichments = None, oe_properties = None,
      oe_raw = \<lparr>rd_format = [], rd_data = GNil\<rparr>\<rparr>"

record attack =
  \<comment> \<open>name and uid, each; nil is None\<close>
  ak_tactic :: "(string \<times> string) option"
  ak_technique :: "(string \<times> string) option"

record class_event =
  \<comment> \<open>the struct of an event class, which embeds \<open>ocsf.Event\<close>: of its own fields, those the normalizers
      name. A field declared again hides the embedded one from a selector such as \<open>event.Actor\<close>.\<close>
  cv_event :: ocsf_event
  cv_actor :: "ocsf_actor_user option option option"   \<comment> \<open>None: the class declares no \<open>Actor\<close>\<close>
  cv_risk_score :: "int option"                        \<comment> \<open>None: the class declares no \<open>RiskScore\<close>\<close>
  cv_attacks :: "attack list"

definition new_class :: "bool \<Rightarrow> bool \<Rightarrow> ocsf_event \<Rightarrow> class_event" where
  \<comment> \<open>a struct whose own fields have their zero values; whether it declares an actor, a risk score\<close>
  "new_class has_actor has_risk ev =
     \<lparr>cv_event = ev, cv_actor = (if has_actor then Some None else None),
      cv_risk_score = (if has_risk then Some 0 else None), cv_attacks = []\<rparr>"

definition class_constructor ::
  \<comment> \<open>the template of the constructors of \<^verbatim>\<open>common/ocsf/events\<close>\<close>
  "bool \<Rightarrow> bool \<Rightarrow> int \<Rightarrow> string \<Rightarrow> int \<Rightarrow> string \<Rightarrow> int \<Rightarrow> class_event" where
  "class_constructor has_actor has_risk categoryUID category classUID cls activityID =
     new_class has_actor has_risk (new_event categoryUID category classUID cls activityID)"

definition set_actor :: "ocsf_actor_user \<Rightarrow> class_event \<Rightarrow> class_event" where
  \<comment> \<open>\<open>event.Actor = &objects.Actor{User: user}\<close>\<close>
  "set_actor u e =
     (case cv_actor e of
        None \<Rightarrow> e\<lparr>cv_event := (cv_event e)\<lparr>oe_actor := Some (Some u)\<rparr>\<rparr>
      | Some _ \<Rightarrow> e\<lparr>cv_actor := Some (Some (Some u))\<rparr>)"

definition fill_event ::
  \<comment> \<open>the part all generated normalizers share\<close>
  "codec \<Rightarrow> raw_envelope \<Rightarrow> (string \<times> gval) list \<Rightarrow> class_event \<Rightarrow> class_event" where
  "fill_event c envelope payload e =
     (let (statusID, status) = ExtractStatus payload; (severityID, severity) = ExtractSeverity payload;
          e1 = (case ExtractUser payload of Some u \<Rightarrow> set_actor u e | None \<Rightarrow> e); ev = cv_event e1 in
      e1\<lparr>cv_event :=
        ev\<lparr>oe_time := ExtractTimestamp c payload (en_received_at envelope),
           oe_observed_time := en_received_at envelope,
           oe_status_id := statusID, oe_status := status,
           oe_severity_id := severityID, oe_severity := severity,
           oe_metadata := (oe_metadata ev)\<lparr>md_log_provider := en_source envelope\<rparr>,
           oe_raw := \<lparr>rd_format = en_format envelope, rd_data = GObj payload\<rparr>\<rparr>\<rparr>)"

definition put_object :: "string \<Rightarrow> gval \<Rightarrow> class_event \<Rightarrow> class_event" where
  \<comment> \<open>setting one of the other fields of the embedded event\<close>
  "put_object k v e =
     e\<lparr>cv_event := (cv_event e)\<lparr>oe_objects := map_put k v (oe_objects (cv_event e))\<rparr>\<rparr>"

definition hoist_risk :: "class_event \<Rightarrow> class_event" where
  \<comment> \<open>\<open>if event.RiskScore > 0 { event.Event.RiskScore = event.RiskScore }\<close>, a self-assignment where the
      class declares no such field\<close>
  "hoist_risk e =
     (case cv_risk_score e of
        None \<Rightarrow> e
      | Some score \<Rightarrow> if score > 0 then put_object ''risk_score'' (GInt score) e else e)"

definition hoist_attack :: "class_event \<Rightarrow> class_event" where
  "hoist_attack e =
     (case cv_attacks e of
        [] \<Rightarrow> e
      | attack # _ \<Rightarrow>
          (let put = (\<lambda>k x e. case x of
                 None \<Rightarrow> e
               | Some (name, uid) \<Rightarrow> put_object (k @ ''_uid'') (GStr uid) (put_object k (GStr name) e)) in
           put ''attack_technique'' (ak_technique attack) (put ''attack_tactic'' (ak_tactic attack) e)))"

definition keyword_supports :: "string list \<Rightarrow> string \<Rightarrow> string \<Rightarrow> bool" where
  \<comment> \<open>the generated \<open>Supports\<close>: JSON whose source type contains one of the words\<close>
  "keyword_supports words format sourceType =
     (if format \<noteq> ''json'' then False
      else let st = to_lower sourceType in list_ex (contains_str st) words)"

definition default_activity :: "(string \<times> gval) list \<Rightarrow> int" where
  "default_activity payload = 0"

definition generated_Normalize ::
  "codec \<Rightarrow> (int \<Rightarrow> class_event) \<Rightarrow> ((string \<times> gval) list \<Rightarrow> int) \<Rightarrow> (class_event \<Rightarrow> class_event) \<Rightarrow>
     raw_envelope \<Rightarrow> normalize_error + ocsf_event"
where
  \<comment> \<open>the generated \<open>Normalize\<close>, for a constructor, a choice of the activity and what is hoisted; it
      returns the embedded event alone\<close>
  "generated_Normalize c construct activity hoist envelope =
     (case c_unmarshal c (en_payload envelope) of
        None \<Rightarrow> Inl DecodePayload
      | Some payload \<Rightarrow>
          Inr (cv_event (hoist (fill_event c envelope payload (construct (activity payload))))))"

section \<open>The hand-written normalizers as values\<close>

definition HECNormalizer :: "codec \<Rightarrow> normalizer" where
  "HECNormalizer c = \<lparr>nz_supports = HEC_Supports, nz_normalize = HEC_Normalize c\<rparr>"

definition OCSFPassthroughNormalizer :: "codec \<Rightarrow> normalizer" where
  "OCSFPassthroughNormalizer c = \<lparr>nz_supports = OCSF_Supports, nz_normalize = OCSF_Normalize c\<rparr>"

section \<open>Validators\<close>

datatype validation_failure =
    MissingClass | MissingClassUID | MissingCategory | MissingTime | MissingProductName
  | MissingVersion | MissingActorUser | MissingActorUserName | InvalidStatus int
  | InvalidActivity int

record event_validator =
  va_supports :: "string \<Rightarrow> bool"
  va_validate :: "ocsf_event \<Rightarrow> validation_failure option"

definition Basic_Supports :: "string \<Rightarrow> bool" where
  "Basic_Supports cls \<longleftrightarrow> cls \<noteq> []"

definition Basic_Validate :: "ocsf_event \<Rightarrow> validation_failure option" where
  "Basic_Validate ev =
     (if oe_class ev = [] then Some MissingClass
      else if oe_class_uid ev = 0 \<and> oe_class ev \<noteq> ''base_event'' then Some MissingClassUID
      else if oe_category ev = [] then Some MissingCategory
      else if is_zero (oe_time ev) then Some MissingTime
      else if pr_name (md_product (oe_metadata ev)) = [] then Some MissingProductName
      else if md_version (oe_metadata ev) = [] then Some MissingVersion
      else None)"

definition BasicValidator :: event_validator where
  "BasicValidator = \<lparr>va_supports = Basic_Supports, va_validate = Basic_Validate\<rparr>"

definition require_user :: "ocsf_event \<Rightarrow> validation_failure option" where
  "require_user ev =
     (case oe_actor ev of
        Some (Some u) \<Rightarrow> if au_name u = [] then Some MissingActorUserName else None
      | _ \<Rightarrow> Some MissingActorUser)"

definition check_status :: "ocsf_event \<Rightarrow> validation_failure option" where
  "check_status ev =
     (if oe_status_id ev \<noteq> 0 \<and> (oe_status_id ev < 0 \<or> oe_status_id ev > 99)
      then Some (InvalidStatus (oe_status_id ev)) else None)"

definition check_activity :: "int list \<Rightarrow> ocsf_event \<Rightarrow> validation_failure option" where
  "check_activity activities ev =
     (if oe_activity_id ev \<noteq> 0 \<and> oe_activity_id ev \<notin> set activities
      then Some (InvalidActivity (oe_activity_id ev)) else None)"

fun first_failure :: "(ocsf_event \<Rightarrow> validation_failure option) list \<Rightarrow> ocsf_event \<Rightarrow> validation_failure option"
where
  "first_failure [] ev = None"
| "first_failure (check # checks) ev =
     (case check ev of Some err \<Rightarrow> Some err | None \<Rightarrow> first_failure checks ev)"

definition class_validator ::
  "string \<Rightarrow> int \<Rightarrow> (ocsf_event \<Rightarrow> validation_failure option) list \<Rightarrow> event_validator" where
  \<comment> \<open>the template of the generated validators: their class, the number they compare, their checks\<close>
  "class_validator cls uid checks =
     \<lparr>va_supports = (\<lambda>c. c = cls),
      va_validate = (\<lambda>ev. if oe_class_uid ev \<noteq> uid then None else first_failure checks ev)\<rparr>"

fun validate_all :: "event_validator list \<Rightarrow> ocsf_event \<Rightarrow> validation_failure option" where
  "validate_all [] ev = None"
| "validate_all (v # vs) ev =
     (if va_supports v (oe_class ev) then
        (case va_validate v ev of Some err \<Rightarrow> Some err | None \<Rightarrow> validate_all vs ev)
      else validate_all vs ev)"

definition chain_Validate :: "event_validator list option \<Rightarrow> ocsf_event \<Rightarrow> validation_failure option" where
  "chain_Validate ch ev = (case ch of None \<Rightarrow> None | Some vs \<Rightarrow> validate_all vs ev)"

section \<open>The pipeline\<close>

record pipeline =
  pl_normalizers :: "normalizer list option"
  pl_validators :: "event_validator list option"

datatype pipeline_error =
    PipelineNotConfigured
  | NoNormalizer string string
  | NormalizeError normalize_error
  | ValidateError validation_failure

definition Process :: "pipeline option \<Rightarrow> raw_envelope \<Rightarrow> pipeline_error + ocsf_event" where
  "Process p envelope =
     (case p of
        None \<Rightarrow> Inl PipelineNotConfigured
      | Some pl \<Rightarrow>
          (case registry_Find (pl_normalizers pl) envelope of
             None \<Rightarrow> Inl (NoNormalizer (en_format envelope) (en_source_type envelope))
           | Some n \<Rightarrow>
               (case nz_normalize n envelope of
                  Inl err \<Rightarrow> Inl (NormalizeError err)
                | Inr ev \<Rightarrow>
                    (case chain_Validate (pl_validators pl) ev of
                       Some err \<Rightarrow> Inl (ValidateError err)
                     | None \<Rightarrow> Inr ev))))"


section \<open>The interface of a normalizer\<close>

locale normalizer_contract =
  fixes supports :: "string \<Rightarrow> string \<Rightarrow> bool"
    and normalize :: "raw_envelope \<Rightarrow> normalize_error + ocsf_event"
  assumes json_only: "supports format sourceType \<Longrightarrow> format = ''json''"
    and observed: "normalize en = Inr ev \<Longrightarrow> oe_observed_time ev = en_received_at en"
    and raw_kept: "normalize en = Inr ev \<Longrightarrow> rd_data (oe_raw ev) \<noteq> GNil"
    and versioned: "normalize en = Inr ev \<Longrightarrow> md_version (oe_metadata ev) \<noteq> []"
begin

definition as_normalizer :: normalizer where
  "as_normalizer = \<lparr>nz_supports = supports, nz_normalize = normalize\<rparr>"

lemma provenance:
  assumes "nz_supports as_normalizer (en_format en) (en_source_type en)"
    and "nz_normalize as_normalizer en = Inr ev"
  shows "en_format en = ''json'' \<and> oe_observed_time ev = en_received_at en
    \<and> rd_data (oe_raw ev) \<noteq> GNil \<and> md_version (oe_metadata ev) \<noteq> []"
  using assms json_only observed raw_kept versioned by (simp add: as_normalizer_def)

end

lemma set_actor_simps [simp]:
  "cv_risk_score (set_actor u e) = cv_risk_score e" "cv_attacks (set_actor u e) = cv_attacks e"
  "oe_metadata (cv_event (set_actor u e)) = oe_metadata (cv_event e)"
  "oe_class (cv_event (set_actor u e)) = oe_class (cv_event e)"
  "oe_class_uid (cv_event (set_actor u e)) = oe_class_uid (cv_event e)"
  "oe_category (cv_event (set_actor u e)) = oe_category (cv_event e)"
  "oe_activity_id (cv_event (set_actor u e)) = oe_activity_id (cv_event e)"
  by (simp_all add: set_actor_def split: option.split)

lemma fill_event_simps [simp]:
  "cv_risk_score (fill_event c en payload e) = cv_risk_score e"
  "cv_attacks (fill_event c en payload e) = cv_attacks e"
  "oe_observed_time (cv_event (fill_event c en payload e)) = en_received_at en"
  "oe_raw (cv_event (fill_event c en payload e)) = \<lparr>rd_format = en_format en, rd_data = GObj payload\<rparr>"
  "md_version (oe_metadata (cv_event (fill_event c en payload e))) = md_version (oe_metadata (cv_event e))"
  "md_product (oe_metadata (cv_event (fill_event c en payload e))) = md_product (oe_metadata (cv_event e))"
  "oe_class (cv_event (fill_event c en payload e)) = oe_class (cv_event e)"
  "oe_class_uid (cv_event (fill_event c en payload e)) = oe_class_uid (cv_event e)"
  "oe_category (cv_event (fill_event c en payload e)) = oe_category (cv_event e)"
  "oe_activity_id (cv_event (fill_event c en payload e)) = oe_activity_id (cv_event e)"
  "oe_time (cv_event (fill_event c en payload e)) = ExtractTimestamp c payload (en_received_at en)"
  by (simp_all add: fill_event_def Let_def case_prod_unfold split: option.split)

lemma fill_event_actor:
  "oe_actor (cv_event (fill_event c en payload e)) =
     (case ExtractUser payload of
        Some u \<Rightarrow> if cv_actor e = None then Some (Some u) else oe_actor (cv_event e)
      | None \<Rightarrow> oe_actor (cv_event e))"
  by (auto simp: fill_event_def set_actor_def Let_def case_prod_unfold split: option.split)

lemma new_class_simps [simp]:
  "cv_event (new_class a r ev) = ev" "cv_attacks (new_class a r ev) = []"
  "cv_risk_score (new_class a r ev) = (if r then Some 0 else None)"
  "cv_actor (new_class a r ev) = (if a then Some None else None)"
  by (simp_all add: new_class_def)

lemma new_event_simps [simp]:
  "md_version (oe_metadata (new_event cat category uid cls act)) = ''1.1.0''"
  "pr_name (md_product (oe_metadata (new_event cat category uid cls act))) = ''TelHawk Stack''"
  "oe_class (new_event cat category uid cls act) = cls"
  "oe_class_uid (new_event cat category uid cls act) = uid"
  "oe_category (new_event cat category uid cls act) = category"
  "oe_activity_id (new_event cat category uid cls act) = act"
  "oe_actor (new_event cat category uid cls act) = None"
  by (simp_all add: new_event_def)

text \<open>Nothing is hoisted: the fields of the class that hoisting looks at have just been made.\<close>

lemma hoist_nothing [simp]:
  "cv_risk_score e \<in> {None, Some 0} \<Longrightarrow> hoist_risk e = e"
  "cv_attacks e = [] \<Longrightarrow> hoist_attack e = e"
  by (auto simp: hoist_risk_def hoist_attack_def)

lemma generated_Normalize_hoist:
  assumes "hoist \<in> {hoist_risk, hoist_attack \<circ> hoist_risk}"
  shows "generated_Normalize c (class_constructor own risk cat category uid cls) activity hoist =
    generated_Normalize c (class_constructor own risk cat category uid cls) activity id"
  using assms by (auto simp: generated_Normalize_def class_constructor_def fun_eq_iff split: option.split)

interpretation hec: normalizer_contract HEC_Supports "HEC_Normalize c" for c
  by unfold_locales (auto simp: HEC_Supports_def HEC_Normalize_def Let_def split: option.splits)

interpretation passthrough: normalizer_contract OCSF_Supports "OCSF_Normalize c" for c
  by unfold_locales
    (auto simp: OCSF_Supports_def OCSF_Normalize_def complete_event_def Let_def
      split: option.splits if_splits)

interpretation generated: normalizer_contract "keyword_supports words"
  "generated_Normalize c (class_constructor own risk cat category uid cls) activity id"
  for words c own risk cat category uid cls activity
  by unfold_locales
    (auto simp: keyword_supports_def generated_Normalize_def class_constructor_def split: option.splits if_splits)

lemma registry_Find_Some:
  "registry_Find (Some ns) en = Some n \<Longrightarrow>
     n \<in> set ns \<and> nz_supports n (en_format en) (en_source_type en)"
  unfolding registry_Find_def by (induction ns) (auto split: if_splits)

lemma Process_Inr:
  assumes "Process (Some pl) en = Inr ev"
  obtains ns n where "pl_normalizers pl = Some ns" and "n \<in> set ns"
    and "nz_supports n (en_format en) (en_source_type en)" and "nz_normalize n en = Inr ev"
    and "chain_Validate (pl_validators pl) ev = None"
proof -
  from assms obtain n where n: "registry_Find (pl_normalizers pl) en = Some n" "nz_normalize n en = Inr ev"
    "chain_Validate (pl_validators pl) ev = None"
    by (auto simp: Process_def split: option.splits sum.splits)
  then obtain ns where "pl_normalizers pl = Some ns" by (cases "pl_normalizers pl") (auto simp: registry_Find_def)
  with n registry_Find_Some [of ns en n] show ?thesis by (intro that [of ns n]) simp_all
qed

lemma validate_all_None:
  "validate_all vs ev = None \<Longrightarrow> v \<in> set vs \<Longrightarrow> va_supports v (oe_class ev) \<Longrightarrow> va_validate v ev = None"
  by (induction vs) (auto split: if_splits option.splits)

end
