(* ===== verification/EventClasses.thy ===== *)
theory EventClasses
  imports Pipeline
begin

text \<open>
  The constructors of the OCSF event classes (\<^verbatim>\<open>common/ocsf/events\<close>), one for each class, by category.
  The arguments of \<open>class_constructor\<close>: whether the struct declares an \<open>Actor\<close> and a \<open>RiskScore\<close> of
  its own, the category, the class.
\<close>

section \<open>System\<close>

definition NewFileActivity :: "int \<Rightarrow> class_event" where
  "NewFileActivity = class_constructor True False 1 ''system'' 1001 ''file_activity''"

definition NewKernelExtensionActivity :: "int \<Rightarrow> class_event" where
  "NewKernelExtensionActivity = class_constructor True False 1 ''system'' 1002 ''kernel_extension_activity''"

definition NewKernelActivity :: "int \<Rightarrow> class_event" where
  "NewKernelActivity = class_constructor False False 1 ''system'' 1003 ''kernel_activity''"

definition NewMemoryActivity :: "int \<Rightarrow> class_event" where
  "NewMemoryActivity = class_constructor False False 1 ''system'' 1004 ''memory_activity''"

definition NewModuleActivity :: "int \<Rightarrow> class_event" where
  "NewModuleActivity = class_constructor True False 1 ''system'' 1005 ''module_activity''"

definition NewScheduledJobActivity :: "int \<Rightarrow> class_event" where
  "NewScheduledJobActivity = class_constructor True False 1 ''system'' 1006 ''scheduled_job_activity''"

definition NewProcessActivity :: "int \<Rightarrow> class_event" where
  "NewProcessActivity = class_constructor True False 1 ''system'' 1007 ''process_activity''"

definition NewEventLogActvity :: "int \<Rightarrow> class_event" where
  "NewEventLogActvity = class_constructor True False 1 ''system'' 1008 ''event_log_actvity''"

definition NewScriptActivity :: "int \<Rightarrow> class_event" where
  "NewScriptActivity = class_constructor False False 1 ''system'' 1009 ''script_activity''"

definition NewPeripheralActivity :: "int \<Rightarrow> class_event" where
  "NewPeripheralActivity = class_constructor False False 1 ''system'' 1010 ''peripheral_activity''"

section \<open>Findings\<close>

definition NewFinding :: "int \<Rightarrow> class_event" where
  "NewFinding = class_constructor False False 2 ''findings'' 2000 ''finding''"

definition NewSecurityFinding :: "int \<Rightarrow> class_event" where
  "NewSecurityFinding = class_constructor False True 2 ''findings'' 2001 ''security_finding''"

definition NewVulnerabilityFinding :: "int \<Rightarrow> class_event" where
  "NewVulnerabilityFinding = class_constructor False False 2 ''findings'' 2002 ''vulnerability_finding''"

definition NewComplianceFinding :: "int \<Rightarrow> class_event" where
  "NewComplianceFinding = class_constructor False False 2 ''findings'' 2003 ''compliance_finding''"

definition NewDetectionFinding :: "int \<Rightarrow> class_event" where
  "NewDetectionFinding = class_constructor False True 2 ''findings'' 2004 ''detection_finding''"

definition NewIncidentFinding :: "int \<Rightarrow> class_event" where
  "NewIncidentFinding = class_constructor False False 2 ''findings'' 2005 ''incident_finding''"

definition NewDataSecurityFinding :: "int \<Rightarrow> class_event" where
  "NewDataSecurityFinding = class_constructor True True 2 ''findings'' 2006 ''data_security_finding''"

definition NewApplicationSecurityPostureFinding :: "int \<Rightarrow> class_event" where
  "NewApplicationSecurityPostureFinding = class_constructor False False 2 ''findings'' 2007 ''application_security_posture_finding''"

definition NewIamAnalysisFinding :: "int \<Rightarrow> class_event" where
  "NewIamAnalysisFinding = class_constructor False False 2 ''findings'' 2008 ''iam_analysis_finding''"

section \<open>Iam\<close>

definition NewAccountChange :: "int \<Rightarrow> class_event" where
  "NewAccountChange = class_constructor False False 3 ''iam'' 3001 ''account_change''"

definition NewAuthentication :: "int \<Rightarrow> class_event" where
  "NewAuthentication = class_constructor False False 3 ''iam'' 3002 ''authentication''"

definition NewAuthorizeSession :: "int \<Rightarrow> class_event" where
  "NewAuthorizeSession = class_constructor False False 3 ''iam'' 3003 ''authorize_session''"

definition NewEntityManagement :: "int \<Rightarrow> class_event" where
  "NewEntityManagement = class_constructor False False 3 ''iam'' 3004 ''entity_management''"

definition NewUserAccess :: "int \<Rightarrow> class_event" where
  "NewUserAccess = class_constructor False False 3 ''iam'' 3005 ''user_access''"

definition NewGroupManagement :: "int \<Rightarrow> class_event" where
  "NewGroupManagement = class_constructor False False 3 ''iam'' 3006 ''group_management''"

section \<open>Network\<close>

definition NewNetworkActivity :: "int \<Rightarrow> class_event" where
  "NewNetworkActivity = class_constructor False False 4 ''network'' 4001 ''network_activity''"

definition NewHttpActivity :: "int \<Rightarrow> class_event" where
  "NewHttpActivity = class_constructor False False 4 ''network'' 4002 ''http_activity''"

definition NewDnsActivity :: "int \<Rightarrow> class_event" where
  "NewDnsActivity = class_constructor False False 4 ''network'' 4003 ''dns_activity''"

definition NewDhcpActivity :: "int \<Rightarrow> class_event" where
  "NewDhcpActivity = class_constructor False False 4 ''network'' 4004 ''dhcp_activity''"

definition NewRdpActivity :: "int \<Rightarrow> class_event" where
  "NewRdpActivity = class_constructor False False 4 ''network'' 4005 ''rdp_activity''"

definition NewSmbActivity :: "int \<Rightarrow> class_event" where
  "NewSmbActivity = class_constructor False False 4 ''network'' 4006 ''smb_activity''"

definition NewSshActivity :: "int \<Rightarrow> class_event" where
  "NewSshActivity = class_constructor False False 4 ''network'' 4007 ''ssh_activity''"

definition NewFtpActivity :: "int \<Rightarrow> class_event" where
  "NewFtpActivity = class_constructor False False 4 ''network'' 4008 ''ftp_activity''"

definition NewEmailActivity :: "int \<Rightarrow> class_event" where
  "NewEmailActivity = class_constructor False False 4 ''network'' 4009 ''email_activity''"

definition NewNetworkFileActivity :: "int \<Rightarrow> class_event" where
  "NewNetworkFileActivity = class_constructor True False 4 ''network'' 4010 ''network_file_activity''"

definition NewEmailFileActivity :: "int \<Rightarrow> class_event" where
  "NewEmailFileActivity = class_constructor False False 4 ''network'' 4011 ''email_file_activity''"

definition NewEmailUrlActivity :: "int \<Rightarrow> class_event" where
  "NewEmailUrlActivity = class_constructor False False 4 ''network'' 4012 ''email_url_activity''"

definition NewNtpActivity :: "int \<Rightarrow> class_event" where
  "NewNtpActivity = class_constructor False False 4 ''network'' 4013 ''ntp_activity''"

definition NewTunnelActivity :: "int \<Rightarrow> class_event" where
  "NewTunnelActivity = class_constructor False False 4 ''network'' 4014 ''tunnel_activity''"

section \<open>Discovery\<close>

definition NewDiscoveryResult :: "int \<Rightarrow> class_event" where
  "NewDiscoveryResult = class_constructor False False 5 ''discovery'' 5000 ''discovery_result''"

definition NewInventoryInfo :: "int \<Rightarrow> class_event" where
  "NewInventoryInfo = class_constructor True False 5 ''discovery'' 5001 ''inventory_info''"

definition NewConfigState :: "int \<Rightarrow> class_event" where
  "NewConfigState = class_constructor True False 5 ''discovery'' 5002 ''config_state''"

definition NewUserInventory :: "int \<Rightarrow> class_event" where
  "NewUserInventory = class_constructor True False 5 ''discovery'' 5003 ''user_inventory''"

definition NewPatchState :: "int \<Rightarrow> class_event" where
  "NewPatchState = class_constructor False False 5 ''discovery'' 5004 ''patch_state''"

definition NewKernelObjectQuery :: "int \<Rightarrow> class_event" where
  "NewKernelObjectQuery = class_constructor False False 5 ''discovery'' 5006 ''kernel_object_query''"

definition NewFileQuery :: "int \<Rightarrow> class_event" where
  "NewFileQuery = class_constructor False False 5 ''discovery'' 5007 ''file_query''"

definition NewFolderQuery :: "int \<Rightarrow> class_event" where
  "NewFolderQuery = class_constructor False False 5 ''discovery'' 5008 ''folder_query''"

definition NewAdminGroupQuery :: "int \<Rightarrow> class_event" where
  "NewAdminGroupQuery = class_constructor False False 5 ''discovery'' 5009 ''admin_group_query''"

definition NewJobQuery :: "int \<Rightarrow> class_event" where
  "NewJobQuery = class_constructor False False 5 ''discovery'' 5010 ''job_query''"

definition NewModuleQuery :: "int \<Rightarrow> class_event" where
  "NewModuleQuery = class_constructor False False 5 ''discovery'' 5011 ''module_query''"

definition NewNetworkConnectionQuery :: "int \<Rightarrow> class_event" where
  "NewNetworkConnectionQuery = class_constructor False False 5 ''discovery'' 5012 ''network_connection_query''"

definition NewNetworksQuery :: "int \<Rightarrow> class_event" where
  "NewNetworksQuery = class_constructor False False 5 ''discovery'' 5013 ''networks_query''"

definition NewPeripheralDeviceQuery :: "int \<Rightarrow> class_event" where
  "NewPeripheralDeviceQuery = class_constructor False False 5 ''discovery'' 5014 ''peripheral_device_query''"

definition NewProcessQuery :: "int \<Rightarrow> class_event" where
  "NewProcessQuery = class_constructor False False 5 ''discovery'' 5015 ''process_query''"

definition NewServiceQuery :: "int \<Rightarrow> class_event" where
  "NewServiceQuery = class_constructor False False 5 ''discovery'' 5016 ''service_query''"

definition NewSessionQuery :: "int \<Rightarrow> class_event" where
  "NewSessionQuery = class_constructor False False 5 ''discovery'' 5017 ''session_query''"

definition NewUserQuery :: "int \<Rightarrow> class_event" where
  "NewUserQuery = class_constructor False False 5 ''discovery'' 5018 ''user_query''"

definition NewDeviceConfigStateChange :: "int \<Rightarrow> class_event" where
  "NewDeviceConfigStateChange = class_constructor True False 5 ''discovery'' 5019 ''device_config_state_change''"

definition NewSoftwareInfo :: "int \<Rightarrow> class_event" where
  "NewSoftwareInfo = class_constructor True False 5 ''discovery'' 5020 ''software_info''"

definition NewOsintInventoryInfo :: "int \<Rightarrow> class_event" where
  "NewOsintInventoryInfo = class_constructor True False 5 ''discovery'' 5021 ''osint_inventory_info''"

definition NewStartupItemQuery :: "int \<Rightarrow> class_event" where
  "NewStartupItemQuery = class_constructor False False 5 ''discovery'' 5022 ''startup_item_query''"

definition NewCloudResourcesInventoryInfo :: "int \<Rightarrow> class_event" where
  "NewCloudResourcesInventoryInfo = class_constructor False False 5 ''discovery'' 5023 ''cloud_resources_inventory_info''"

definition NewEvidenceInfo :: "int \<Rightarrow> class_event" where
  "NewEvidenceInfo = class_constructor False False 5 ''discovery'' 5040 ''evidence_info''"

section \<open>Application\<close>

definition NewWebResourcesActivity :: "int \<Rightarrow> class_event" where
  "NewWebResourcesActivity = class_constructor False False 6 ''application'' 6001 ''web_resources_activity''"

definition NewApplicationLifecycle :: "int \<Rightarrow> class_event" where
  "NewApplicationLifecycle = class_constructor False False 6 ''application'' 6002 ''application_lifecycle''"

definition NewApiActivity :: "int \<Rightarrow> class_event" where
  "NewApiActivity = class_constructor True False 6 ''application'' 6003 ''api_activity''"

definition NewWebResourceAccessActivity :: "int \<Rightarrow> class_event" where
  "NewWebResourceAccessActivity = class_constructor False False 6 ''application'' 6004 ''web_resource_access_activity''"

definition NewDatastoreActivity :: "int \<Rightarrow> class_event" where
  "NewDatastoreActivity = class_constructor True False 6 ''application'' 6005 ''datastore_activity''"

definition NewFileHosting :: "int \<Rightarrow> class_event" where
  "NewFileHosting = class_constructor True False 6 ''application'' 6006 ''file_hosting''"

definition NewScanActivity :: "int \<Rightarrow> class_event" where
  "NewScanActivity = class_constructor False False 6 ''application'' 6007 ''scan_activity''"

definition NewApplicationError :: "int \<Rightarrow> class_event" where
  "NewApplicationError = class_constructor False False 6 ''application'' 6008 ''application_error''"

section \<open>Remediation\<close>

definition NewRemediationActivity :: "int \<Rightarrow> class_event" where
  "NewRemediationActivity = class_constructor False False 7 ''remediation'' 7001 ''remediation_activity''"

definition NewFileRemediationActivity :: "int \<Rightarrow> class_event" where
  "NewFileRemediationActivity = class_constructor False False 7 ''remediation'' 7002 ''file_remediation_activity''"

definition NewProcessRemediationActivity :: "int \<Rightarrow> class_event" where
  "NewProcessRemediationActivity = class_constructor False False 7 ''remediation'' 7003 ''process_remediation_activity''"

definition NewNetworkRemediationActivity :: "int \<Rightarrow> class_event" where
  "NewNetworkRemediationActivity = class_constructor False False 7 ''remediation'' 7004 ''network_remediation_activity''"

section \<open>Unmanned systems\<close>

definition NewDroneFlightsActivity :: "int \<Rightarrow> class_event" where
  "NewDroneFlightsActivity = class_constructor False False 8 ''unmanned_systems'' 8001 ''drone_flights_activity''"

definition NewAirborneBroadcastActivity :: "int \<Rightarrow> class_event" where
  "NewAirborneBroadcastActivity = class_constructor False False 8 ''unmanned_systems'' 8002 ''airborne_broadcast_activity''"

lemmas class_constructors =
  NewFileActivity_def NewKernelExtensionActivity_def NewKernelActivity_def NewMemoryActivity_def
  NewModuleActivity_def NewScheduledJobActivity_def NewProcessActivity_def
  NewEventLogActvity_def NewScriptActivity_def NewPeripheralActivity_def NewFinding_def
  NewSecurityFinding_def NewVulnerabilityFinding_def NewComplianceFinding_def
  NewDetectionFinding_def NewIncidentFinding_def NewDataSecurityFinding_def
  NewApplicationSecurityPostureFinding_def NewIamAnalysisFinding_def NewAccountChange_def
  NewAuthentication_def NewAuthorizeSession_def NewEntityManagement_def NewUserAccess_def
  NewGroupManagement_def NewNetworkActivity_def NewHttpActivity_def NewDnsActivity_def
  NewDhcpActivity_def NewRdpActivity_def NewSmbActivity_def NewSshActivity_def
  NewFtpActivity_def NewEmailActivity_def NewNetworkFileActivity_def NewEmailFileActivity_def
  NewEmailUrlActivity_def NewNtpActivity_def NewTunnelActivity_def NewDiscoveryResult_def
  NewInventoryInfo_def NewConfigState_def NewUserInventory_def NewPatchState_def
  NewKernelObjectQuery_def NewFileQuery_def NewFolderQuery_def NewAdminGroupQuery_def
  NewJobQuery_def NewModuleQuery_def NewNetworkConnectionQuery_def NewNetworksQuery_def
  NewPeripheralDeviceQuery_def NewProcessQuery_def NewServiceQuery_def NewSessionQuery_def
  NewUserQuery_def NewDeviceConfigStateChange_def NewSoftwareInfo_def NewOsintInventoryInfo_def
  NewStartupItemQuery_def NewCloudResourcesInventoryInfo_def NewEvidenceInfo_def
  NewWebResourcesActivity_def NewApplicationLifecycle_def NewApiActivity_def
  NewWebResourceAccessActivity_def NewDatastoreActivity_def NewFileHosting_def
  NewScanActivity_def NewApplicationError_def NewRemediationActivity_def
  NewFileRemediationActivity_def NewProcessRemediationActivity_def
  NewNetworkRemediationActivity_def NewDroneFlightsActivity_def NewAirborneBroadcastActivity_def

end
