(* ===== verification/GenNormalizers.thy ===== *)
theory GenNormalizers
  imports EventClasses
begin

text \<open>
  The generated normalizers (\<^verbatim>\<open>ingest/internal/normalizer/generated\<close>), one for each event class: the words
  \<open>Supports\<close> looks for in the source type, and \<open>Normalize\<close>; and the registry, whose order decides which
  normalizer a source type gets. \<open>DiscoveryResult\<close> and \<open>Finding\<close> are not registered.
\<close>

section \<open>Activities\<close>

definition action_of :: "(string \<times> gval) list \<Rightarrow> string" where
  "action_of payload = to_lower (ExtractString payload [''action'', ''event_type'', ''activity''])"

fun activity_by :: "string \<Rightarrow> (string list \<times> int) list \<Rightarrow> int" where
  \<comment> \<open>the chain of \<open>if\<close>s: the first row with a word the action contains\<close>
  "activity_by action [] = 0"
| "activity_by action ((words, activity) # rows) =
     (if list_ex (contains_str action) words then activity else activity_by action rows)"

definition Authentication_determineActivityID :: "(string \<times> gval) list \<Rightarrow> int" where
  "Authentication_determineActivityID payload =
     activity_by (action_of payload)
       [([''logout'', ''logoff'', ''signout'', ''sign_out''], 1),
        ([''login'', ''logon'', ''signin'', ''sign_in''], 2)]"

definition NetworkActivity_determineActivityID :: "(string \<times> gval) list \<Rightarrow> int" where
  "NetworkActivity_determineActivityID payload =
     activity_by (action_of payload)
       [([''close'', ''disconnect'', ''terminate''], 1),
        ([''open'', ''connect'', ''establish''], 2),
        ([''refuse'', ''reject'', ''deny''], 3)]"

definition ProcessActivity_determineActivityID :: "(string \<times> gval) list \<Rightarrow> int" where
  "ProcessActivity_determineActivityID payload =
     activity_by (action_of payload)
       [([''launch'', ''start'', ''create'', ''exec''], 1),
        ([''terminate'', ''exit'', ''kill'', ''stop''], 2)]"

section \<open>Normalizers\<close>

definition ApiActivity_Supports :: "string \<Rightarrow> string \<Rightarrow> bool" where
  "ApiActivity_Supports =
     keyword_supports [''api_activity'', ''api'', ''api'']"

definition ApiActivity_Normalize :: "codec \<Rightarrow> raw_envelope \<Rightarrow> normalize_error + ocsf_event" where
  "ApiActivity_Normalize c = generated_Normalize c NewApiActivity default_activity id"

definition ApplicationError_Supports :: "string \<Rightarrow> string \<Rightarrow> bool" where
  "ApplicationError_Supports =
     keyword_supports [''application_error'', ''application'']"

definition ApplicationError_Normalize :: "codec \<Rightarrow> raw_envelope \<Rightarrow> normalize_error + ocsf_event" where
  "ApplicationError_Normalize c = generated_Normalize c NewApplicationError default_activity id"

definition ApplicationLifecycle_Supports :: "string \<Rightarrow> string \<Rightarrow> bool" where
  "ApplicationLifecycle_Supports =
     keyword_supports [''application_lifecycle'', ''application'']"

definition ApplicationLifecycle_Normalize :: "codec \<Rightarrow> raw_envelope \<Rightarrow> normalize_error + ocsf_event" where
  "ApplicationLifecycle_Normalize c = generated_Normalize c NewApplicationLifecycle default_activity id"

definition DatastoreActivity_Supports :: "string \<Rightarrow> string \<Rightarrow> bool" where
  "DatastoreActivity_Supports =
     keyword_supports [''datastore_activity'', ''datastore'', ''datastore'']"

definition DatastoreActivity_Normalize :: "codec \<Rightarrow> raw_envelope \<Rightarrow> normalize_error + ocsf_event" where
  "DatastoreActivity_Normalize c = generated_Normalize c NewDatastoreActivity default_activity id"

definition FileHosting_Supports :: "string \<Rightarrow> string \<Rightarrow> bool" where
  "FileHosting_Supports =
     keyword_supports [''file_hosting'', ''file'']"

definition FileHosting_Normalize :: "codec \<Rightarrow> raw_envelope \<Rightarrow> normalize_error + ocsf_event" where
  "FileHosting_Normalize c = generated_Normalize c NewFileHosting default_activity id"

definition ScanActivity_Supports :: "string \<Rightarrow> string \<Rightarrow> bool" where
  "ScanActivity_Supports =
     keyword_supports [''scan_activity'', ''scan'', ''scan'']"

definition ScanActivity_Normalize :: "codec \<Rightarrow> raw_envelope \<Rightarrow> normalize_error + ocsf_event" where
  "ScanActivity_Normalize c = generated_Normalize c NewScanActivity default_activity id"

definition WebResourceAccessActivity_Supports :: "string \<Rightarrow> string \<Rightarrow> bool" where
  "WebResourceAccessActivity_Supports =
     keyword_supports [''web_resource_access_activity'', ''web'', ''web_resource_access'']"

definition WebResourceAccessActivity_Normalize :: "codec \<Rightarrow> raw_envelope \<Rightarrow> normalize_error + ocsf_event" where
  "WebResourceAccessActivity_Normalize c = generated_Normalize c NewWebResourceAccessActivity default_activity id"

definition WebResourcesActivity_Supports :: "string \<Rightarrow> string \<Rightarrow> bool" where
  "WebResourcesActivity_Supports =
     keyword_supports [''web_resources_activity'', ''web'', ''web_resources'']"

definition WebResourcesActivity_Normalize :: "codec \<Rightarrow> raw_envelope \<Rightarrow> normalize_error + ocsf_event" where
  "WebResourcesActivity_Normalize c = generated_Normalize c NewWebResourcesActivity default_activity id"

definition AdminGroupQuery_Supports :: "string \<Rightarrow> string \<Rightarrow> bool" where
  "AdminGroupQuery_Supports =
     keyword_supports [''admin_group_query'', ''admin'']"

definition AdminGroupQuery_Normalize :: "codec \<Rightarrow> raw_envelope \<Rightarrow> normalize_error + ocsf_event" where
  "AdminGroupQuery_Normalize c = generated_Normalize c NewAdminGroupQuery default_activity id"

definition CloudResourcesInventoryInfo_Supports :: "string \<Rightarrow> string \<Rightarrow> bool" where
  "CloudResourcesInventoryInfo_Supports =
     keyword_supports [''cloud_resources_inventory_info'', ''cloud'']"

definition CloudResourcesInventoryInfo_Normalize :: "codec \<Rightarrow> raw_envelope \<Rightarrow> normalize_error + ocsf_event" where
  "CloudResourcesInventoryInfo_Normalize c = generated_Normalize c NewCloudResourcesInventoryInfo default_activity id"

definition ConfigState_Supports :: "string \<Rightarrow> string \<Rightarrow> bool" where
  "ConfigState_Supports =
     keyword_supports [''config_state'', ''config'']"

definition ConfigState_Normalize :: "codec \<Rightarrow> raw_envelope \<Rightarrow> normalize_error + ocsf_event" where
  "ConfigState_Normalize c = generated_Normalize c NewConfigState default_activity id"

definition DeviceConfigStateChange_Supports :: "string \<Rightarrow> string \<Rightarrow> bool" where
  "DeviceConfigStateChange_Supports =
     keyword_supports [''device_config_state_change'', ''device'']"

definition DeviceConfigStateChange_Normalize :: "codec \<Rightarrow> raw_envelope \<Rightarrow> normalize_error + ocsf_event" where
  "DeviceConfigStateChange_Normalize c = generated_Normalize c NewDeviceConfigStateChange default_activity id"

definition EvidenceInfo_Supports :: "string \<Rightarrow> string \<Rightarrow> bool" where
  "EvidenceInfo_Supports =
     keyword_supports [''evidence_info'', ''evidence'']"

definition EvidenceInfo_Normalize :: "codec \<Rightarrow> raw_envelope \<Rightarrow> normalize_error + ocsf_event" where
  "EvidenceInfo_Normalize c = generated_Normalize c NewEvidenceInfo default_activity id"

definition FileQuery_Supports :: "string \<Rightarrow> string \<Rightarrow> bool" where
  "FileQuery_Supports =
     keyword_supports [''file_query'', ''file'']"

definition FileQuery_Normalize :: "codec \<Rightarrow> raw_envelope \<Rightarrow> normalize_error + ocsf_event" where
  "FileQuery_Normalize c = generated_Normalize c NewFileQuery default_activity id"

definition FolderQuery_Supports :: "string \<Rightarrow> string \<Rightarrow> bool" where
  "FolderQuery_Supports =
     keyword_supports [''folder_query'', ''folder'']"

definition FolderQuery_Normalize :: "codec \<Rightarrow> raw_envelope \<Rightarrow> normalize_error + ocsf_event" where
  "FolderQuery_Normalize c = generated_Normalize c NewFolderQuery default_activity id"

definition InventoryInfo_Supports :: "string \<Rightarrow> string \<Rightarrow> bool" where
  "InventoryInfo_Supports =
     keyword_supports [''inventory_info'', ''inventory'']"

definition InventoryInfo_Normalize :: "codec \<Rightarrow> raw_envelope \<Rightarrow> normalize_error + ocsf_event" where
  "InventoryInfo_Normalize c = generated_Normalize c NewInventoryInfo default_activity id"

definition JobQuery_Supports :: "string \<Rightarrow> string \<Rightarrow> bool" where
  "JobQuery_Supports =
     keyword_supports [''job_query'', ''job'']"

definition JobQuery_Normalize :: "codec \<Rightarrow> raw_envelope \<Rightarrow> normalize_error + ocsf_event" where
  "JobQuery_Normalize c = generated_Normalize c NewJobQuery default_activity id"

definition KernelObjectQuery_Supports :: "string \<Rightarrow> string \<Rightarrow> bool" where
  "KernelObjectQuery_Supports =
     keyword_supports [''kernel_object_query'', ''kernel'']"

definition KernelObjectQuery_Normalize :: "codec \<Rightarrow> raw_envelope \<Rightarrow> normalize_error + ocsf_event" where
  "KernelObjectQuery_Normalize c = generated_Normalize c NewKernelObjectQuery default_activity id"

definition ModuleQuery_Supports :: "string \<Rightarrow> string \<Rightarrow> bool" where
  "ModuleQuery_Supports =
     keyword_supports [''module_query'', ''module'']"

definition ModuleQuery_Normalize :: "codec \<Rightarrow> raw_envelope \<Rightarrow> normalize_error + ocsf_event" where
  "ModuleQuery_Normalize c = generated_Normalize c NewModuleQuery default_activity id"

definition NetworkConnectionQuery_Supports :: "string \<Rightarrow> string \<Rightarrow> bool" where
  "NetworkConnectionQuery_Supports =
     keyword_supports [''network_connection_query'', ''network'']"

definition NetworkConnectionQuery_Normalize :: "codec \<Rightarrow> raw_envelope \<Rightarrow> normalize_error + ocsf_event" where
  "NetworkConnectionQuery_Normalize c = generated_Normalize c NewNetworkConnectionQuery default_activity id"

definition NetworksQuery_Supports :: "string \<Rightarrow> string \<Rightarrow> bool" where
  "NetworksQuery_Supports =
     keyword_supports [''networks_query'', ''networks'']"

definition NetworksQuery_Normalize :: "codec \<Rightarrow> raw_envelope \<Rightarrow> normalize_error + ocsf_event" where
  "NetworksQuery_Normalize c = generated_Normalize c NewNetworksQuery default_activity id"

definition OsintInventoryInfo_Supports :: "string \<Rightarrow> string \<Rightarrow> bool" where
  "OsintInventoryInfo_Supports =
     keyword_supports [''osint_inventory_info'', ''osint'']"

definition OsintInventoryInfo_Normalize :: "codec \<Rightarrow> raw_envelope \<Rightarrow> normalize_error + ocsf_event" where
  "OsintInventoryInfo_Normalize c = generated_Normalize c NewOsintInventoryInfo default_activity id"

definition PatchState_Supports :: "string \<Rightarrow> string \<Rightarrow> bool" where
  "PatchState_Supports =
     keyword_supports [''patch_state'', ''patch'']"

definition PatchState_Normalize :: "codec \<Rightarrow> raw_envelope \<Rightarrow> normalize_error + ocsf_event" where
  "PatchState_Normalize c = generated_Normalize c NewPatchState default_activity id"

definition PeripheralDeviceQuery_Supports :: "string \<Rightarrow> string \<Rightarrow> bool" where
  "PeripheralDeviceQuery_Supports =
     keyword_supports [''peripheral_device_query'', ''peripheral'']"

definition PeripheralDeviceQuery_Normalize :: "codec \<Rightarrow> raw_envelope \<Rightarrow> normalize_error + ocsf_event" where
  "PeripheralDeviceQuery_Normalize c = generated_Normalize c NewPeripheralDeviceQuery default_activity id"

definition ProcessQuery_Supports :: "string \<Rightarrow> string \<Rightarrow> bool" where
  "ProcessQuery_Supports =
     keyword_supports [''process_query'', ''process'']"

definition ProcessQuery_Normalize :: "codec \<Rightarrow> raw_envelope \<Rightarrow> normalize_error + ocsf_event" where
  "ProcessQuery_Normalize c = generated_Normalize c NewProcessQuery default_activity id"

definition ServiceQuery_Supports :: "string \<Rightarrow> string \<Rightarrow> bool" where
  "ServiceQuery_Supports =
     keyword_supports [''service_query'', ''service'']"

definition ServiceQuery_Normalize :: "codec \<Rightarrow> raw_envelope \<Rightarrow> normalize_error + ocsf_event" where
  "ServiceQuery_Normalize c = generated_Normalize c NewServiceQuery default_activity id"

definition SessionQuery_Supports :: "string \<Rightarrow> string \<Rightarrow> bool" where
  "SessionQuery_Supports =
     keyword_supports [''session_query'', ''session'']"

definition SessionQuery_Normalize :: "codec \<Rightarrow> raw_envelope \<Rightarrow> normalize_error + ocsf_event" where
  "SessionQuery_Normalize c = generated_Normalize c NewSessionQuery default_activity id"

definition SoftwareInfo_Supports :: "string \<Rightarrow> string \<Rightarrow> bool" where
  "SoftwareInfo_Supports =
     keyword_supports [''software_info'', ''software'']"

definition SoftwareInfo_Normalize :: "codec \<Rightarrow> raw_envelope \<Rightarrow> normalize_error + ocsf_event" where
  "SoftwareInfo_Normalize c = generated_Normalize c NewSoftwareInfo default_activity id"

definition StartupItemQuery_Supports :: "string \<Rightarrow> string \<Rightarrow> bool" where
  "StartupItemQuery_Supports =
     keyword_supports [''startup_item_query'', ''startup'']"

definition StartupItemQuery_Normalize :: "codec \<Rightarrow> raw_envelope \<Rightarrow> normalize_error + ocsf_event" where
  "StartupItemQuery_Normalize c = generated_Normalize c NewStartupItemQuery default_activity id"

definition UserInventory_Supports :: "string \<Rightarrow> string \<Rightarrow> bool" where
  "UserInventory_Supports =
     keyword_supports [''user_inventory'', ''user'']"

definition UserInventory_Normalize :: "codec \<Rightarrow> raw_envelope \<Rightarrow> normalize_error + ocsf_event" where
  "UserInventory_Normalize c = generated_Normalize c NewUserInventory default_activity id"

definition UserQuery_Supports :: "string \<Rightarrow> string \<Rightarrow> bool" where
  "UserQuery_Supports =
     keyword_supports [''user_query'', ''user'']"

definition UserQuery_Normalize :: "codec \<Rightarrow> raw_envelope \<Rightarrow> normalize_error + ocsf_event" where
  "UserQuery_Normalize c = generated_Normalize c NewUserQuery default_activity id"

definition ApplicationSecurityPostureFinding_Supports :: "string \<Rightarrow> string \<Rightarrow> bool" where
  "ApplicationSecurityPostureFinding_Supports =
     keyword_supports [''application_security_posture_finding'', ''application'']"

definition ApplicationSecurityPostureFinding_Normalize :: "codec \<Rightarrow> raw_envelope \<Rightarrow> normalize_error + ocsf_event" where
  "ApplicationSecurityPostureFinding_Normalize c = generated_Normalize c NewApplicationSecurityPostureFinding default_activity hoist_risk"

definition ComplianceFinding_Supports :: "string \<Rightarrow> string \<Rightarrow> bool" where
  "ComplianceFinding_Supports =
     keyword_supports [''compliance_finding'', ''compliance'']"

definition ComplianceFinding_Normalize :: "codec \<Rightarrow> raw_envelope \<Rightarrow> normalize_error + ocsf_event" where
  "ComplianceFinding_Normalize c = generated_Normalize c NewComplianceFinding default_activity hoist_risk"

definition DataSecurityFinding_Supports :: "string \<Rightarrow> string \<Rightarrow> bool" where
  "DataSecurityFinding_Supports =
     keyword_supports [''data_security_finding'', ''data'']"

definition DataSecurityFinding_Normalize :: "codec \<Rightarrow> raw_envelope \<Rightarrow> normalize_error + ocsf_event" where
  "DataSecurityFinding_Normalize c = generated_Normalize c NewDataSecurityFinding default_activity hoist_risk"

definition DetectionFinding_Supports :: "string \<Rightarrow> string \<Rightarrow> bool" where
  "DetectionFinding_Supports =
     keyword_supports [''alert'', ''detection'', ''security'', ''ids'', ''ips'', ''edr'',
                       ''av'', ''antivirus'']"

definition DetectionFinding_Normalize :: "codec \<Rightarrow> raw_envelope \<Rightarrow> normalize_error + ocsf_event" where
  "DetectionFinding_Normalize c = generated_Normalize c NewDetectionFinding default_activity (hoist_attack \<circ> hoist_risk)"

definition IamAnalysisFinding_Supports :: "string \<Rightarrow> string \<Rightarrow> bool" where
  "IamAnalysisFinding_Supports =
     keyword_supports [''iam_analysis_finding'', ''iam'']"

definition IamAnalysisFinding_Normalize :: "codec \<Rightarrow> raw_envelope \<Rightarrow> normalize_error + ocsf_event" where
  "IamAnalysisFinding_Normalize c = generated_Normalize c NewIamAnalysisFinding default_activity hoist_risk"

definition IncidentFinding_Supports :: "string \<Rightarrow> string \<Rightarrow> bool" where
  "IncidentFinding_Supports =
     keyword_supports [''incident_finding'', ''incident'']"

definition IncidentFinding_Normalize :: "codec \<Rightarrow> raw_envelope \<Rightarrow> normalize_error + ocsf_event" where
  "IncidentFinding_Normalize c = generated_Normalize c NewIncidentFinding default_activity (hoist_attack \<circ> hoist_risk)"

definition SecurityFinding_Supports :: "string \<Rightarrow> string \<Rightarrow> bool" where
  "SecurityFinding_Supports =
     keyword_supports [''security_finding'', ''security'']"

definition SecurityFinding_Normalize :: "codec \<Rightarrow> raw_envelope \<Rightarrow> normalize_error + ocsf_event" where
  "SecurityFinding_Normalize c = generated_Normalize c NewSecurityFinding default_activity (hoist_attack \<circ> hoist_risk)"

definition VulnerabilityFinding_Supports :: "string \<Rightarrow> string \<Rightarrow> bool" where
  "VulnerabilityFinding_Supports =
     keyword_supports [''vulnerability_finding'', ''vulnerability'']"

definition VulnerabilityFinding_Normalize :: "codec \<Rightarrow> raw_envelope \<Rightarrow> normalize_error + ocsf_event" where
  "VulnerabilityFinding_Normalize c = generated_Normalize c NewVulnerabilityFinding default_activity hoist_risk"

definition AccountChange_Supports :: "string \<Rightarrow> string \<Rightarrow> bool" where
  "AccountChange_Supports =
     keyword_supports [''account_change'', ''account'']"

definition AccountChange_Normalize :: "codec \<Rightarrow> raw_envelope \<Rightarrow> normalize_error + ocsf_event" where
  "AccountChange_Normalize c = generated_Normalize c NewAccountChange default_activity id"

definition Authentication_Supports :: "string \<Rightarrow> string \<Rightarrow> bool" where
  "Authentication_Supports =
     keyword_supports [''auth'', ''login'', ''logon'', ''session'', ''sso'', ''oauth'',
                       ''saml'', ''ldap'', ''kerberos'', ''ad_auth'']"

definition Authentication_Normalize :: "codec \<Rightarrow> raw_envelope \<Rightarrow> normalize_error + ocsf_event" where
  "Authentication_Normalize c = generated_Normalize c NewAuthentication Authentication_determineActivityID id"

definition AuthorizeSession_Supports :: "string \<Rightarrow> string \<Rightarrow> bool" where
  "AuthorizeSession_Supports =
     keyword_supports [''authorize_session'', ''authorize'']"

definition AuthorizeSession_Normalize :: "codec \<Rightarrow> raw_envelope \<Rightarrow> normalize_error + ocsf_event" where
  "AuthorizeSession_Normalize c = generated_Normalize c NewAuthorizeSession default_activity id"

definition EntityManagement_Supports :: "string \<Rightarrow> string \<Rightarrow> bool" where
  "EntityManagement_Supports =
     keyword_supports [''entity_management'', ''entity'']"

definition EntityManagement_Normalize :: "codec \<Rightarrow> raw_envelope \<Rightarrow> normalize_error + ocsf_event" where
  "EntityManagement_Normalize c = generated_Normalize c NewEntityManagement default_activity id"

definition GroupManagement_Supports :: "string \<Rightarrow> string \<Rightarrow> bool" where
  "GroupManagement_Supports =
     keyword_supports [''group_management'', ''group'']"

definition GroupManagement_Normalize :: "codec \<Rightarrow> raw_envelope \<Rightarrow> normalize_error + ocsf_event" where
  "GroupManagement_Normalize c = generated_Normalize c NewGroupManagement default_activity id"

definition UserAccess_Supports :: "string \<Rightarrow> string \<Rightarrow> bool" where
  "UserAccess_Supports =
     keyword_supports [''user_access'', ''user'']"

definition UserAccess_Normalize :: "codec \<Rightarrow> raw_envelope \<Rightarrow> normalize_error + ocsf_event" where
  "UserAccess_Normalize c = generated_Normalize c NewUserAccess default_activity id"

definition DhcpActivity_Supports :: "string \<Rightarrow> string \<Rightarrow> bool" where
  "DhcpActivity_Supports =
     keyword_supports [''dhcp_activity'', ''dhcp'', ''dhcp'']"

definition DhcpActivity_Normalize :: "codec \<Rightarrow> raw_envelope \<Rightarrow> normalize_error + ocsf_event" where
  "DhcpActivity_Normalize c = generated_Normalize c NewDhcpActivity default_activity id"

definition DnsActivity_Supports :: "string \<Rightarrow> string \<Rightarrow> bool" where
  "DnsActivity_Supports =
     keyword_supports [''dns'', ''bind'', ''named'']"

definition DnsActivity_Normalize :: "codec \<Rightarrow> raw_envelope \<Rightarrow> normalize_error + ocsf_event" where
  "DnsActivity_Normalize c = generated_Normalize c NewDnsActivity default_activity id"

definition EmailActivity_Supports :: "string \<Rightarrow> string \<Rightarrow> bool" where
  "EmailActivity_Supports =
     keyword_supports [''email_activity'', ''email'', ''email'']"

definition EmailActivity_Normalize :: "codec \<Rightarrow> raw_envelope \<Rightarrow> normalize_error + ocsf_event" where
  "EmailActivity_Normalize c = generated_Normalize c NewEmailActivity default_activity id"

definition EmailFileActivity_Supports :: "string \<Rightarrow> string \<Rightarrow> bool" where
  "EmailFileActivity_Supports =
     keyword_supports [''email_file_activity'', ''email'', ''email_file'']"

definition EmailFileActivity_Normalize :: "codec \<Rightarrow> raw_envelope \<Rightarrow> normalize_error + ocsf_event" where
  "EmailFileActivity_Normalize c = generated_Normalize c NewEmailFileActivity default_activity id"

definition EmailUrlActivity_Supports :: "string \<Rightarrow> string \<Rightarrow> bool" where
  "EmailUrlActivity_Supports =
     keyword_supports [''email_url_activity'', ''email'', ''email_url'']"

definition EmailUrlActivity_Normalize :: "codec \<Rightarrow> raw_envelope \<Rightarrow> normalize_error + ocsf_event" where
  "EmailUrlActivity_Normalize c = generated_Normalize c NewEmailUrlActivity default_activity id"

definition FtpActivity_Supports :: "string \<Rightarrow> string \<Rightarrow> bool" where
  "FtpActivity_Supports =
     keyword_supports [''ftp_activity'', ''ftp'', ''ftp'']"

definition FtpActivity_Normalize :: "codec \<Rightarrow> raw_envelope \<Rightarrow> normalize_error + ocsf_event" where
  "FtpActivity_Normalize c = generated_Normalize c NewFtpActivity default_activity id"

definition HttpActivity_Supports :: "string \<Rightarrow> string \<Rightarrow> bool" where
  "HttpActivity_Supports =
     keyword_supports [''http'', ''https'', ''web'', ''apache'', ''nginx'', ''iis'',
                       ''access_log'']"

definition HttpActivity_Normalize :: "codec \<Rightarrow> raw_envelope \<Rightarrow> normalize_error + ocsf_event" where
  "HttpActivity_Normalize c = generated_Normalize c NewHttpActivity default_activity id"

definition NetworkActivity_Supports :: "string \<Rightarrow> string \<Rightarrow> bool" where
  "NetworkActivity_Supports =
     keyword_supports [''network'', ''traffic'', ''connection'', ''flow'', ''firewall'',
                       ''proxy'', ''netflow'']"

definition NetworkActivity_Normalize :: "codec \<Rightarrow> raw_envelope \<Rightarrow> normalize_error + ocsf_event" where
  "NetworkActivity_Normalize c = generated_Normalize c NewNetworkActivity NetworkActivity_determineActivityID id"

definition NetworkFileActivity_Supports :: "string \<Rightarrow> string \<Rightarrow> bool" where
  "NetworkFileActivity_Supports =
     keyword_supports [''network_file_activity'', ''network'', ''network_file'']"

definition NetworkFileActivity_Normalize :: "codec \<Rightarrow> raw_envelope \<Rightarrow> normalize_error + ocsf_event" where
  "NetworkFileActivity_Normalize c = generated_Normalize c NewNetworkFileActivity default_activity id"

definition NtpActivity_Supports :: "string \<Rightarrow> string \<Rightarrow> bool" where
  "NtpActivity_Supports =
     keyword_supports [''ntp_activity'', ''ntp'', ''ntp'']"

definition NtpActivity_Normalize :: "codec \<Rightarrow> raw_envelope \<Rightarrow> normalize_error + ocsf_event" where
  "NtpActivity_Normalize c = generated_Normalize c NewNtpActivity default_activity id"

definition RdpActivity_Supports :: "string \<Rightarrow> string \<Rightarrow> bool" where
  "RdpActivity_Supports =
     keyword_supports [''rdp_activity'', ''rdp'', ''rdp'']"

definition RdpActivity_Normalize :: "codec \<Rightarrow> raw_envelope \<Rightarrow> normalize_error + ocsf_event" where
  "RdpActivity_Normalize c = generated_Normalize c NewRdpActivity default_activity id"

definition SmbActivity_Supports :: "string \<Rightarrow> string \<Rightarrow> bool" where
  "SmbActivity_Supports =
     keyword_supports [''smb_activity'', ''smb'', ''smb'']"

definition SmbActivity_Normalize :: "codec \<Rightarrow> raw_envelope \<Rightarrow> normalize_error + ocsf_event" where
  "SmbActivity_Normalize c = generated_Normalize c NewSmbActivity default_activity id"

definition SshActivity_Supports :: "string \<Rightarrow> string \<Rightarrow> bool" where
  "SshActivity_Supports =
     keyword_supports [''ssh_activity'', ''ssh'', ''ssh'']"

definition SshActivity_Normalize :: "codec \<Rightarrow> raw_envelope \<Rightarrow> normalize_error + ocsf_event" where
  "SshActivity_Normalize c = generated_Normalize c NewSshActivity default_activity id"

definition TunnelActivity_Supports :: "string \<Rightarrow> string \<Rightarrow> bool" where
  "TunnelActivity_Supports =
     keyword_supports [''tunnel_activity'', ''tunnel'', ''tunnel'']"

definition TunnelActivity_Normalize :: "codec \<Rightarrow> raw_envelope \<Rightarrow> normalize_error + ocsf_event" where
  "TunnelActivity_Normalize c = generated_Normalize c NewTunnelActivity default_activity id"

definition FileRemediationActivity_Supports :: "string \<Rightarrow> string \<Rightarrow> bool" where
  "FileRemediationActivity_Supports =
     keyword_supports [''file_remediation_activity'', ''file'', ''file_remediation'']"

definition FileRemediationActivity_Normalize :: "codec \<Rightarrow> raw_envelope \<Rightarrow> normalize_error + ocsf_event" where
  "FileRemediationActivity_Normalize c = generated_Normalize c NewFileRemediationActivity default_activity id"

definition NetworkRemediationActivity_Supports :: "string \<Rightarrow> string \<Rightarrow> bool" where
  "NetworkRemediationActivity_Supports =
     keyword_supports [''network_remediation_activity'', ''network'', ''network_remediation'']"

definition NetworkRemediationActivity_Normalize :: "codec \<Rightarrow> raw_envelope \<Rightarrow> normalize_error + ocsf_event" where
  "NetworkRemediationActivity_Normalize c = generated_Normalize c NewNetworkRemediationActivity default_activity id"

definition ProcessRemediationActivity_Supports :: "string \<Rightarrow> string \<Rightarrow> bool" where
  "ProcessRemediationActivity_Supports =
     keyword_supports [''process_remediation_activity'', ''process'', ''process_remediation'']"

definition ProcessRemediationActivity_Normalize :: "codec \<Rightarrow> raw_envelope \<Rightarrow> normalize_error + ocsf_event" where
  "ProcessRemediationActivity_Normalize c = generated_Normalize c NewProcessRemediationActivity default_activity id"

definition RemediationActivity_Supports :: "string \<Rightarrow> string \<Rightarrow> bool" where
  "RemediationActivity_Supports =
     keyword_supports [''remediation_activity'', ''remediation'', ''remediation'']"

definition RemediationActivity_Normalize :: "codec \<Rightarrow> raw_envelope \<Rightarrow> normalize_error + ocsf_event" where
  "RemediationActivity_Normalize c = generated_Normalize c NewRemediationActivity default_activity id"

definition EventLogActvity_Supports :: "string \<Rightarrow> string \<Rightarrow> bool" where
  "EventLogActvity_Supports =
     keyword_supports [''event_log_actvity'', ''event'']"

definition EventLogActvity_Normalize :: "codec \<Rightarrow> raw_envelope \<Rightarrow> normalize_error + ocsf_event" where
  "EventLogActvity_Normalize c = generated_Normalize c NewEventLogActvity default_activity id"

definition FileActivity_Supports :: "string \<Rightarrow> string \<Rightarrow> bool" where
  "FileActivity_Supports =
     keyword_supports [''file'', ''fmon'', ''fsmon'', ''filesystem'', ''audit'']"

definition FileActivity_Normalize :: "codec \<Rightarrow> raw_envelope \<Rightarrow> normalize_error + ocsf_event" where
  "FileActivity_Normalize c = generated_Normalize c NewFileActivity default_activity id"

definition KernelActivity_Supports :: "string \<Rightarrow> string \<Rightarrow> bool" where
  "KernelActivity_Supports =
     keyword_supports [''kernel_activity'', ''kernel'', ''kernel'']"

definition KernelActivity_Normalize :: "codec \<Rightarrow> raw_envelope \<Rightarrow> normalize_error + ocsf_event" where
  "KernelActivity_Normalize c = generated_Normalize c NewKernelActivity default_activity id"

definition KernelExtensionActivity_Supports :: "string \<Rightarrow> string \<Rightarrow> bool" where
  "KernelExtensionActivity_Supports =
     keyword_supports [''kernel_extension_activity'', ''kernel'', ''kernel_extension'']"

definition KernelExtensionActivity_Normalize :: "codec \<Rightarrow> raw_envelope \<Rightarrow> normalize_error + ocsf_event" where
  "KernelExtensionActivity_Normalize c = generated_Normalize c NewKernelExtensionActivity default_activity id"

definition MemoryActivity_Supports :: "string \<Rightarrow> string \<Rightarrow> bool" where
  "MemoryActivity_Supports =
     keyword_supports [''memory_activity'', ''memory'', ''memory'']"

definition MemoryActivity_Normalize :: "codec \<Rightarrow> raw_envelope \<Rightarrow> normalize_error + ocsf_event" where
  "MemoryActivity_Normalize c = generated_Normalize c NewMemoryActivity default_activity id"

definition ModuleActivity_Supports :: "string \<Rightarrow> string \<Rightarrow> bool" where
  "ModuleActivity_Supports =
     keyword_supports [''module_activity'', ''module'', ''module'']"

definition ModuleActivity_Normalize :: "codec \<Rightarrow> raw_envelope \<Rightarrow> normalize_error + ocsf_event" where
  "ModuleActivity_Normalize c = generated_Normalize c NewModuleActivity default_activity id"

definition PeripheralActivity_Supports :: "string \<Rightarrow> string \<Rightarrow> bool" where
  "PeripheralActivity_Supports =
     keyword_supports [''peripheral_activity'', ''peripheral'', ''peripheral'']"

definition PeripheralActivity_Normalize :: "codec \<Rightarrow> raw_envelope \<Rightarrow> normalize_error + ocsf_event" where
  "PeripheralActivity_Normalize c = generated_Normalize c NewPeripheralActivity default_activity id"

definition ProcessActivity_Supports :: "string \<Rightarrow> string \<Rightarrow> bool" where
  "ProcessActivity_Supports =
     keyword_supports [''process'', ''exec'', ''sysmon'', ''procmon'', ''endpoint'']"

definition ProcessActivity_Normalize :: "codec \<Rightarrow> raw_envelope \<Rightarrow> normalize_error + ocsf_event" where
  "ProcessActivity_Normalize c = generated_Normalize c NewProcessActivity ProcessActivity_determineActivityID id"

definition ScheduledJobActivity_Supports :: "string \<Rightarrow> string \<Rightarrow> bool" where
  "ScheduledJobActivity_Supports =
     keyword_supports [''scheduled_job_activity'', ''scheduled'', ''scheduled_job'']"

definition ScheduledJobActivity_Normalize :: "codec \<Rightarrow> raw_envelope \<Rightarrow> normalize_error + ocsf_event" where
  "ScheduledJobActivity_Normalize c = generated_Normalize c NewScheduledJobActivity default_activity id"

definition ScriptActivity_Supports :: "string \<Rightarrow> string \<Rightarrow> bool" where
  "ScriptActivity_Supports =
     keyword_supports [''script_activity'', ''script'', ''script'']"

definition ScriptActivity_Normalize :: "codec \<Rightarrow> raw_envelope \<Rightarrow> normalize_error + ocsf_event" where
  "ScriptActivity_Normalize c = generated_Normalize c NewScriptActivity default_activity id"

definition AirborneBroadcastActivity_Supports :: "string \<Rightarrow> string \<Rightarrow> bool" where
  "AirborneBroadcastActivity_Supports =
     keyword_supports [''airborne_broadcast_activity'', ''airborne'', ''airborne_broadcast'']"

definition AirborneBroadcastActivity_Normalize :: "codec \<Rightarrow> raw_envelope \<Rightarrow> normalize_error + ocsf_event" where
  "AirborneBroadcastActivity_Normalize c = generated_Normalize c NewAirborneBroadcastActivity default_activity id"

definition DroneFlightsActivity_Supports :: "string \<Rightarrow> string \<Rightarrow> bool" where
  "DroneFlightsActivity_Supports =
     keyword_supports [''drone_flights_activity'', ''drone'', ''drone_flights'']"

definition DroneFlightsActivity_Normalize :: "codec \<Rightarrow> raw_envelope \<Rightarrow> normalize_error + ocsf_event" where
  "DroneFlightsActivity_Normalize c = generated_Normalize c NewDroneFlightsActivity default_activity id"

definition DiscoveryResult_Supports :: "string \<Rightarrow> string \<Rightarrow> bool" where
  "DiscoveryResult_Supports =
     keyword_supports [''discovery_result'', ''discovery'']"

definition DiscoveryResult_Normalize :: "codec \<Rightarrow> raw_envelope \<Rightarrow> normalize_error + ocsf_event" where
  "DiscoveryResult_Normalize c = generated_Normalize c NewDiscoveryResult default_activity id"

definition Finding_Supports :: "string \<Rightarrow> string \<Rightarrow> bool" where
  "Finding_Supports =
     keyword_supports [''finding'']"

definition Finding_Normalize :: "codec \<Rightarrow> raw_envelope \<Rightarrow> normalize_error + ocsf_event" where
  "Finding_Normalize c = generated_Normalize c NewFinding default_activity id"

section \<open>The registry\<close>

definition AllNormalizers :: "codec \<Rightarrow> normalizer list" where
  "AllNormalizers c =
     [\<lparr>nz_supports = ApiActivity_Supports, nz_normalize = ApiActivity_Normalize c\<rparr>,
      \<lparr>nz_supports = ApplicationError_Supports, nz_normalize = ApplicationError_Normalize c\<rparr>,
      \<lparr>nz_supports = ApplicationLifecycle_Supports, nz_normalize = ApplicationLifecycle_Normalize c\<rparr>,
      \<lparr>nz_supports = DatastoreActivity_Supports, nz_normalize = DatastoreActivity_Normalize c\<rparr>,
      \<lparr>nz_supports = FileHosting_Supports, nz_normalize = FileHosting_Normalize c\<rparr>,
      \<lparr>nz_supports = ScanActivity_Supports, nz_normalize = ScanActivity_Normalize c\<rparr>,
      \<lparr>nz_supports = WebResourceAccessActivity_Supports, nz_normalize = WebResourceAccessActivity_Normalize c\<rparr>,
      \<lparr>nz_supports = WebResourcesActivity_Supports, nz_normalize = WebResourcesActivity_Normalize c\<rparr>,
      \<lparr>nz_supports = AdminGroupQuery_Supports, nz_normalize = AdminGroupQuery_Normalize c\<rparr>,
      \<lparr>nz_supports = CloudResourcesInventoryInfo_Supports, nz_normalize = CloudResourcesInventoryInfo_Normalize c\<rparr>,
      \<lparr>nz_supports = ConfigState_Supports, nz_normalize = ConfigState_Normalize c\<rparr>,
      \<lparr>nz_supports = DeviceConfigStateChange_Supports, nz_normalize = DeviceConfigStateChange_Normalize c\<rparr>,
      \<lparr>nz_supports = EvidenceInfo_Supports, nz_normalize = EvidenceInfo_Normalize c\<rparr>,
      \<lparr>nz_supports = FileQuery_Supports, nz_normalize = FileQuery_Normalize c\<rparr>,
      \<lparr>nz_supports = FolderQuery_Supports, nz_normalize = FolderQuery_Normalize c\<rparr>,
      \<lparr>nz_supports = InventoryInfo_Supports, nz_normalize = InventoryInfo_Normalize c\<rparr>,
      \<lparr>nz_supports = JobQuery_Supports, nz_normalize = JobQuery_Normalize c\<rparr>,
      \<lparr>nz_supports = KernelObjectQuery_Supports, nz_normalize = KernelObjectQuery_Normalize c\<rparr>,
      \<lparr>nz_supports = ModuleQuery_Supports, nz_normalize = ModuleQuery_Normalize c\<rparr>,
      \<lparr>nz_supports = NetworkConnectionQuery_Supports, nz_normalize = NetworkConnectionQuery_Normalize c\<rparr>,
      \<lparr>nz_supports = NetworksQuery_Supports, nz_normalize = NetworksQuery_Normalize c\<rparr>,
      \<lparr>nz_supports = OsintInventoryInfo_Supports, nz_normalize = OsintInventoryInfo_Normalize c\<rparr>,
      \<lparr>nz_supports = PatchState_Supports, nz_normalize = PatchState_Normalize c\<rparr>,
      \<lparr>nz_supports = PeripheralDeviceQuery_Supports, nz_normalize = PeripheralDeviceQuery_Normalize c\<rparr>,
      \<lparr>nz_supports = ProcessQuery_Supports, nz_normalize = ProcessQuery_Normalize c\<rparr>,
      \<lparr>nz_supports = ServiceQuery_Supports, nz_normalize = ServiceQuery_Normalize c\<rparr>,
      \<lparr>nz_supports = SessionQuery_Supports, nz_normalize = SessionQuery_Normalize c\<rparr>,
      \<lparr>nz_supports = SoftwareInfo_Supports, nz_normalize = SoftwareInfo_Normalize c\<rparr>,
      \<lparr>nz_supports = StartupItemQuery_Supports, nz_normalize = StartupItemQuery_Normalize c\<rparr>,
      \<lparr>nz_supports = UserInventory_Supports, nz_normalize = UserInventory_Normalize c\<rparr>,
      \<lparr>nz_supports = UserQuery_Supports, nz_normalize = UserQuery_Normalize c\<rparr>,
      \<lparr>nz_supports = ApplicationSecurityPostureFinding_Supports, nz_normalize = ApplicationSecurityPostureFinding_Normalize c\<rparr>,
      \<lparr>nz_supports = ComplianceFinding_Supports, nz_normalize = ComplianceFinding_Normalize c\<rparr>,
      \<lparr>nz_supports = DataSecurityFinding_Supports, nz_normalize = DataSecurityFinding_Normalize c\<rparr>,
      \<lparr>nz_supports = DetectionFinding_Supports, nz_normalize = DetectionFinding_Normalize c\<rparr>,
      \<lparr>nz_supports = IamAnalysisFinding_Supports, nz_normalize = IamAnalysisFinding_Normalize c\<rparr>,
      \<lparr>nz_supports = IncidentFinding_Supports, nz_normalize = IncidentFinding_Normalize c\<rparr>,
      \<lparr>nz_supports = SecurityFinding_Supports, nz_normalize = SecurityFinding_Normalize c\<rparr>,
      \<lparr>nz_supports = VulnerabilityFinding_Supports, nz_normalize = VulnerabilityFinding_Normalize c\<rparr>,
      \<lparr>nz_supports = AccountChange_Supports, nz_normalize = AccountChange_Normalize c\<rparr>,
      \<lparr>nz_supports = Authentication_Supports, nz_normalize = Authentication_Normalize c\<rparr>,
      \<lparr>nz_supports = AuthorizeSession_Supports, nz_normalize = AuthorizeSession_Normalize c\<rparr>,
      \<lparr>nz_supports = EntityManagement_Supports, nz_normalize = EntityManagement_Normalize c\<rparr>,
      \<lparr>nz_supports = GroupManagement_Supports, nz_normalize = GroupManagement_Normalize c\<rparr>,
      \<lparr>nz_supports = UserAccess_Supports, nz_normalize = UserAccess_Normalize c\<rparr>,
      \<lparr>nz_supports = DhcpActivity_Supports, nz_normalize = DhcpActivity_Normalize c\<rparr>,
      \<lparr>nz_supports = DnsActivity_Supports, nz_normalize = DnsActivity_Normalize c\<rparr>,
      \<lparr>nz_supports = EmailActivity_Supports, nz_normalize = EmailActivity_Normalize c\<rparr>,
      \<lparr>nz_supports = EmailFileActivity_Supports, nz_normalize = EmailFileActivity_Normalize c\<rparr>,
      \<lparr>nz_supports = EmailUrlActivity_Supports, nz_normalize = EmailUrlActivity_Normalize c\<rparr>,
      \<lparr>nz_supports = FtpActivity_Supports, nz_normalize = FtpActivity_Normalize c\<rparr>,
      \<lparr>nz_supports = HttpActivity_Supports, nz_normalize = HttpActivity_Normalize c\<rparr>,
      \<lparr>nz_supports = NetworkActivity_Supports, nz_normalize = NetworkActivity_Normalize c\<rparr>,
      \<lparr>nz_supports = NetworkFileActivity_Supports, nz_normalize = NetworkFileActivity_Normalize c\<rparr>,
      \<lparr>nz_supports = NtpActivity_Supports, nz_normalize = NtpActivity_Normalize c\<rparr>,
      \<lparr>nz_supports = RdpActivity_Supports, nz_normalize = RdpActivity_Normalize c\<rparr>,
      \<lparr>nz_supports = SmbActivity_Supports, nz_normalize = SmbActivity_Normalize c\<rparr>,
      \<lparr>nz_supports = SshActivity_Supports, nz_normalize = SshActivity_Normalize c\<rparr>,
      \<lparr>nz_supports = TunnelActivity_Supports, nz_normalize = TunnelActivity_Normalize c\<rparr>,
      \<lparr>nz_supports = FileRemediationActivity_Supports, nz_normalize = FileRemediationActivity_Normalize c\<rparr>,
      \<lparr>nz_supports = NetworkRemediationActivity_Supports, nz_normalize = NetworkRemediationActivity_Normalize c\<rparr>,
      \<lparr>nz_supports = ProcessRemediationActivity_Supports, nz_normalize = ProcessRemediationActivity_Normalize c\<rparr>,
      \<lparr>nz_supports = RemediationActivity_Supports, nz_normalize = RemediationActivity_Normalize c\<rparr>,
      \<lparr>nz_supports = EventLogActvity_Supports, nz_normalize = EventLogActvity_Normalize c\<rparr>,
      \<lparr>nz_supports = FileActivity_Supports, nz_normalize = FileActivity_Normalize c\<rparr>,
      \<lparr>nz_supports = KernelActivity_Supports, nz_normalize = KernelActivity_Normalize c\<rparr>,
      \<lparr>nz_supports = KernelExtensionActivity_Supports, nz_normalize = KernelExtensionActivity_Normalize c\<rparr>,
      \<lparr>nz_supports = MemoryActivity_Supports, nz_normalize = MemoryActivity_Normalize c\<rparr>,
      \<lparr>nz_supports = ModuleActivity_Supports, nz_normalize = ModuleActivity_Normalize c\<rparr>,
      \<lparr>nz_supports = PeripheralActivity_Supports, nz_normalize = PeripheralActivity_Normalize c\<rparr>,
      \<lparr>nz_supports = ProcessActivity_Supports, nz_normalize = ProcessActivity_Normalize c\<rparr>,
      \<lparr>nz_supports = ScheduledJobActivity_Supports, nz_normalize = ScheduledJobActivity_Normalize c\<rparr>,
      \<lparr>nz_supports = ScriptActivity_Supports, nz_normalize = ScriptActivity_Normalize c\<rparr>,
      \<lparr>nz_supports = AirborneBroadcastActivity_Supports, nz_normalize = AirborneBroadcastActivity_Normalize c\<rparr>,
      \<lparr>nz_supports = DroneFlightsActivity_Supports, nz_normalize = DroneFlightsActivity_Normalize c\<rparr>]"

lemmas supports_words =
  ApiActivity_Supports_def ApplicationError_Supports_def ApplicationLifecycle_Supports_def
  DatastoreActivity_Supports_def FileHosting_Supports_def ScanActivity_Supports_def
  WebResourceAccessActivity_Supports_def WebResourcesActivity_Supports_def
  AdminGroupQuery_Supports_def CloudResourcesInventoryInfo_Supports_def ConfigState_Supports_def
  DeviceConfigStateChange_Supports_def EvidenceInfo_Supports_def FileQuery_Supports_def
  FolderQuery_Supports_def InventoryInfo_Supports_def JobQuery_Supports_def
  KernelObjectQuery_Supports_def ModuleQuery_Supports_def NetworkConnectionQuery_Supports_def
  NetworksQuery_Supports_def OsintInventoryInfo_Supports_def PatchState_Supports_def
  PeripheralDeviceQuery_Supports_def ProcessQuery_Supports_def ServiceQuery_Supports_def
  SessionQuery_Supports_def SoftwareInfo_Supports_def StartupItemQuery_Supports_def
  UserInventory_Supports_def UserQuery_Supports_def
  ApplicationSecurityPostureFinding_Supports_def ComplianceFinding_Supports_def
  DataSecurityFinding_Supports_def DetectionFinding_Supports_def IamAnalysisFinding_Supports_def
  IncidentFinding_Supports_def SecurityFinding_Supports_def VulnerabilityFinding_Supports_def
  AccountChange_Supports_def Authentication_Supports_def AuthorizeSession_Supports_def
  EntityManagement_Supports_def GroupManagement_Supports_def UserAccess_Supports_def
  DhcpActivity_Supports_def DnsActivity_Supports_def EmailActivity_Supports_def
  EmailFileActivity_Supports_def EmailUrlActivity_Supports_def FtpActivity_Supports_def
  HttpActivity_Supports_def NetworkActivity_Supports_def NetworkFileActivity_Supports_def
  NtpActivity_Supports_def RdpActivity_Supports_def SmbActivity_Supports_def
  SshActivity_Supports_def TunnelActivity_Supports_def FileRemediationActivity_Supports_def
  NetworkRemediationActivity_Supports_def ProcessRemediationActivity_Supports_def
  RemediationActivity_Supports_def EventLogActvity_Supports_def FileActivity_Supports_def
  KernelActivity_Supports_def KernelExtensionActivity_Supports_def MemoryActivity_Supports_def
  ModuleActivity_Supports_def PeripheralActivity_Supports_def ProcessActivity_Supports_def
  ScheduledJobActivity_Supports_def ScriptActivity_Supports_def
  AirborneBroadcastActivity_Supports_def DroneFlightsActivity_Supports_def
  DiscoveryResult_Supports_def Finding_Supports_def

lemmas generated_normalizers =
  ApiActivity_Normalize_def ApplicationError_Normalize_def ApplicationLifecycle_Normalize_def
  DatastoreActivity_Normalize_def FileHosting_Normalize_def ScanActivity_Normalize_def
  WebResourceAccessActivity_Normalize_def WebResourcesActivity_Normalize_def
  AdminGroupQuery_Normalize_def CloudResourcesInventoryInfo_Normalize_def
  ConfigState_Normalize_def DeviceConfigStateChange_Normalize_def EvidenceInfo_Normalize_def
  FileQuery_Normalize_def FolderQuery_Normalize_def InventoryInfo_Normalize_def
  JobQuery_Normalize_def KernelObjectQuery_Normalize_def ModuleQuery_Normalize_def
  NetworkConnectionQuery_Normalize_def NetworksQuery_Normalize_def
  OsintInventoryInfo_Normalize_def PatchState_Normalize_def PeripheralDeviceQuery_Normalize_def
  ProcessQuery_Normalize_def ServiceQuery_Normalize_def SessionQuery_Normalize_def
  SoftwareInfo_Normalize_def StartupItemQuery_Normalize_def UserInventory_Normalize_def
  UserQuery_Normalize_def ApplicationSecurityPostureFinding_Normalize_def
  ComplianceFinding_Normalize_def DataSecurityFinding_Normalize_def
  DetectionFinding_Normalize_def IamAnalysisFinding_Normalize_def IncidentFinding_Normalize_def
  SecurityFinding_Normalize_def VulnerabilityFinding_Normalize_def AccountChange_Normalize_def
  Authentication_Normalize_def AuthorizeSession_Normalize_def EntityManagement_Normalize_def
  GroupManagement_Normalize_def UserAccess_Normalize_def DhcpActivity_Normalize_def
  DnsActivity_Normalize_def EmailActivity_Normalize_def EmailFileActivity_Normalize_def
  EmailUrlActivity_Normalize_def FtpActivity_Normalize_def HttpActivity_Normalize_def
  NetworkActivity_Normalize_def NetworkFileActivity_Normalize_def NtpActivity_Normalize_def
  RdpActivity_Normalize_def SmbActivity_Normalize_def SshActivity_Normalize_def
  TunnelActivity_Normalize_def FileRemediationActivity_Normalize_def
  NetworkRemediationActivity_Normalize_def ProcessRemediationActivity_Normalize_def
  RemediationActivity_Normalize_def EventLogActvity_Normalize_def FileActivity_Normalize_def
  KernelActivity_Normalize_def KernelExtensionActivity_Normalize_def
  MemoryActivity_Normalize_def ModuleActivity_Normalize_def PeripheralActivity_Normalize_def
  ProcessActivity_Normalize_def ScheduledJobActivity_Normalize_def ScriptActivity_Normalize_def
  AirborneBroadcastActivity_Normalize_def DroneFlightsActivity_Normalize_def
  DiscoveryResult_Normalize_def Finding_Normalize_def

end
