(* ===== verification/GenValidators.thy ===== *)
theory GenValidators
  imports Pipeline
begin

text \<open>
  The generated validators (\<^verbatim>\<open>ingest/internal/normalizer/generated\<close>): the class by name, the number they
  compare, and the checks in their order; what the code leaves to do (\<^verbatim>\<open>TODO\<close>) checks nothing.
\<close>

definition ApiActivityValidator :: event_validator where
  "ApiActivityValidator =
     class_validator ''api_activity'' 3
       [check_activity [1, 2, 3, 4]]"

definition ApplicationErrorValidator :: event_validator where
  "ApplicationErrorValidator =
     class_validator ''application_error'' 8
       [check_activity [1, 2]]"

definition ApplicationLifecycleValidator :: event_validator where
  "ApplicationLifecycleValidator =
     class_validator ''application_lifecycle'' 2
       [check_activity [1, 2, 3, 4, 5, 6, 7, 8]]"

definition DatastoreActivityValidator :: event_validator where
  "DatastoreActivityValidator =
     class_validator ''datastore_activity'' 5
       [check_activity [1, 10, 2, 3, 4, 5, 6, 7, 8, 9]]"

definition FileHostingValidator :: event_validator where
  "FileHostingValidator =
     class_validator ''file_hosting'' 6
       [check_activity [1, 10, 11, 12, 13, 14, 15, 16, 17, 2, 3, 4, 5, 6, 7, 8, 9]]"

definition ScanActivityValidator :: event_validator where
  "ScanActivityValidator =
     class_validator ''scan_activity'' 7
       [check_activity [1, 10, 2, 3, 4, 5, 6, 7, 8, 9]]"

definition WebResourceAccessActivityValidator :: event_validator where
  "WebResourceAccessActivityValidator =
     class_validator ''web_resource_access_activity'' 4
       [check_activity [1, 2, 3, 4]]"

definition WebResourcesActivityValidator :: event_validator where
  "WebResourcesActivityValidator =
     class_validator ''web_resources_activity'' 1
       [check_activity [1, 2, 3, 4, 5, 6, 7, 8]]"

definition AdminGroupQueryValidator :: event_validator where
  "AdminGroupQueryValidator =
     class_validator ''admin_group_query'' 9
       []"

definition CloudResourcesInventoryInfoValidator :: event_validator where
  "CloudResourcesInventoryInfoValidator =
     class_validator ''cloud_resources_inventory_info'' 23
       []"

definition ConfigStateValidator :: event_validator where
  "ConfigStateValidator =
     class_validator ''config_state'' 2
       []"

definition DeviceConfigStateChangeValidator :: event_validator where
  "DeviceConfigStateChangeValidator =
     class_validator ''device_config_state_change'' 19
       []"

definition EvidenceInfoValidator :: event_validator where
  "EvidenceInfoValidator =
     class_validator ''evidence_info'' 40
       []"

definition FileQueryValidator :: event_validator where
  "FileQueryValidator =
     class_validator ''file_query'' 7
       []"

definition FolderQueryValidator :: event_validator where
  "FolderQueryValidator =
     class_validator ''folder_query'' 8
       []"

definition InventoryInfoValidator :: event_validator where
  "InventoryInfoValidator =
     class_validator ''inventory_info'' 1
       []"

definition JobQueryValidator :: event_validator where
  "JobQueryValidator =
     class_validator ''job_query'' 10
       []"

definition KernelObjectQueryValidator :: event_validator where
  "KernelObjectQueryValidator =
     class_validator ''kernel_object_query'' 6
       []"

definition ModuleQueryValidator :: event_validator where
  "ModuleQueryValidator =
     class_validator ''module_query'' 11
       []"

definition NetworkConnectionQueryValidator :: event_validator where
  "NetworkConnectionQueryValidator =
     class_validator ''network_connection_query'' 12
       []"

definition NetworksQueryValidator :: event_validator where
  "NetworksQueryValidator =
     class_validator ''networks_query'' 13
       []"

definition OsintInventoryInfoValidator :: event_validator where
  "OsintInventoryInfoValidator =
     class_validator ''osint_inventory_info'' 21
       []"

definition PatchStateValidator :: event_validator where
  "PatchStateValidator =
     class_validator ''patch_state'' 4
       []"

definition PeripheralDeviceQueryValidator :: event_validator where
  "PeripheralDeviceQueryValidator =
     class_validator ''peripheral_device_query'' 14
       []"

definition ProcessQueryValidator :: event_validator where
  "ProcessQueryValidator =
     class_validator ''process_query'' 15
       []"

definition ServiceQueryValidator :: event_validator where
  "ServiceQueryValidator =
     class_validator ''service_query'' 16
       []"

definition SessionQueryValidator :: event_validator where
  "SessionQueryValidator =
     class_validator ''session_query'' 17
       []"

definition SoftwareInfoValidator :: event_validator where
  "SoftwareInfoValidator =
     class_validator ''software_info'' 20
       []"

definition StartupItemQueryValidator :: event_validator where
  "StartupItemQueryValidator =
     class_validator ''startup_item_query'' 22
       []"

definition UserInventoryValidator :: event_validator where
  "UserInventoryValidator =
     class_validator ''user_inventory'' 3
       [require_user]"

definition UserQueryValidator :: event_validator where
  "UserQueryValidator =
     class_validator ''user_query'' 18
       [require_user]"

definition ApplicationSecurityPostureFindingValidator :: event_validator where
  "ApplicationSecurityPostureFindingValidator =
     class_validator ''application_security_posture_finding'' 7
       []"

definition ComplianceFindingValidator :: event_validator where
  "ComplianceFindingValidator =
     class_validator ''compliance_finding'' 3
       []"

definition DataSecurityFindingValidator :: event_validator where
  "DataSecurityFindingValidator =
     class_validator ''data_security_finding'' 6
       [check_activity [1, 2, 3, 4]]"

definition DetectionFindingValidator :: event_validator where
  "DetectionFindingValidator =
     class_validator ''detection_finding'' 4
       []"

definition IamAnalysisFindingValidator :: event_validator where
  "IamAnalysisFindingValidator =
     class_validator ''iam_analysis_finding'' 8
       []"

definition IncidentFindingValidator :: event_validator where
  "IncidentFindingValidator =
     class_validator ''incident_finding'' 5
       [check_activity [1, 2, 3], check_status]"

definition SecurityFindingValidator :: event_validator where
  "SecurityFindingValidator =
     class_validator ''security_finding'' 1
       [check_activity [1, 2, 3]]"

definition VulnerabilityFindingValidator :: event_validator where
  "VulnerabilityFindingValidator =
     class_validator ''vulnerability_finding'' 2
       []"

definition AccountChangeValidator :: event_validator where
  "AccountChangeValidator =
     class_validator ''account_change'' 1
       [require_user, check_activity [1, 10, 11, 12, 2, 3, 4, 5, 6, 7, 8, 9]]"

definition AuthenticationValidator :: event_validator where
  "AuthenticationValidator =
     class_validator ''authentication'' 2
       [require_user, check_activity [1, 2, 3, 4, 5, 6, 7]]"

definition AuthorizeSessionValidator :: event_validator where
  "AuthorizeSessionValidator =
     class_validator ''authorize_session'' 3
       [require_user, check_activity [1, 2]]"

definition EntityManagementValidator :: event_validator where
  "EntityManagementValidator =
     class_validator ''entity_management'' 4
       [check_activity [1, 10, 11, 12, 13, 2, 3, 4, 5, 6, 7, 8, 9]]"

definition GroupManagementValidator :: event_validator where
  "GroupManagementValidator =
     class_validator ''group_management'' 6
       [check_activity [1, 2, 3, 4, 5, 6, 7, 8]]"

definition UserAccessValidator :: event_validator where
  "UserAccessValidator =
     class_validator ''user_access'' 5
       [require_user, check_activity [1, 2]]"

definition DhcpActivityValidator :: event_validator where
  "DhcpActivityValidator =
     class_validator ''dhcp_activity'' 4
       [check_activity [1, 2, 3, 4, 5, 6, 7, 8, 9]]"

definition DnsActivityValidator :: event_validator where
  "DnsActivityValidator =
     class_validator ''dns_activity'' 3
       [check_activity [1, 2, 6]]"

definition EmailActivityValidator :: event_validator where
  "EmailActivityValidator =
     class_validator ''email_activity'' 9
       [check_activity [1, 2, 3, 4, 5]]"

definition EmailFileActivityValidator :: event_validator where
  "EmailFileActivityValidator =
     class_validator ''email_file_activity'' 11
       [check_activity [1, 2, 3]]"

definition EmailUrlActivityValidator :: event_validator where
  "EmailUrlActivityValidator =
     class_validator ''email_url_activity'' 12
       [check_activity [1, 2, 3]]"

definition FtpActivityValidator :: event_validator where
  "FtpActivityValidator =
     class_validator ''ftp_activity'' 8
       [check_activity [1, 2, 3, 4, 5, 6]]"

definition HttpActivityValidator :: event_validator where
  "HttpActivityValidator =
     class_validator ''http_activity'' 2
       [check_activity [1, 2, 3, 4, 5, 6, 7, 8, 9]]"

definition NetworkActivityValidator :: event_validator where
  "NetworkActivityValidator =
     class_validator ''network_activity'' 1
       [check_activity [1, 2, 3, 4, 5, 6, 7]]"

definition NetworkFileActivityValidator :: event_validator where
  "NetworkFileActivityValidator =
     class_validator ''network_file_activity'' 10
       [check_activity [1, 10, 11, 12, 13, 14, 15, 16, 2, 3, 4, 5, 6, 7, 8, 9]]"

definition NtpActivityValidator :: event_validator where
  "NtpActivityValidator =
     class_validator ''ntp_activity'' 13
       [check_activity [0, 1, 2, 3, 4, 5, 6, 7, 99]]"

definition RdpActivityValidator :: event_validator where
  "RdpActivityValidator =
     class_validator ''rdp_activity'' 5
       [check_activity [1, 2, 3, 4, 5, 6, 7, 8]]"

definition SmbActivityValidator :: event_validator where
  "SmbActivityValidator =
     class_validator ''smb_activity'' 6
       [check_activity [1, 2, 3, 4, 5, 6]]"

definition SshActivityValidator :: event_validator where
  "SshActivityValidator =
     class_validator ''ssh_activity'' 7
       [check_activity [1, 2, 3, 4, 5, 6, 7]]"

definition TunnelActivityValidator :: event_validator where
  "TunnelActivityValidator =
     class_validator ''tunnel_activity'' 14
       [check_activity [0, 1, 2, 3, 99]]"

definition FileRemediationActivityValidator :: event_validator where
  "FileRemediationActivityValidator =
     class_validator ''file_remediation_activity'' 2
       []"

definition NetworkRemediationActivityValidator :: event_validator where
  "NetworkRemediationActivityValidator =
     class_validator ''network_remediation_activity'' 4
       []"

definition ProcessRemediationActivityValidator :: event_validator where
  "ProcessRemediationActivityValidator =
     class_validator ''process_remediation_activity'' 3
       []"

definition RemediationActivityValidator :: event_validator where
  "RemediationActivityValidator =
     class_validator ''remediation_activity'' 1
       [check_status, check_activity [1, 2, 3, 4, 5]]"

definition EventLogActvityValidator :: event_validator where
  "EventLogActvityValidator =
     class_validator ''event_log_actvity'' 8
       [check_activity [1, 10, 2, 3, 4, 5, 6, 7, 8, 9]]"

definition FileActivityValidator :: event_validator where
  "FileActivityValidator =
     class_validator ''file_activity'' 1
       [check_activity [1, 10, 11, 12, 13, 14, 2, 3, 4, 5, 6, 7, 8, 9]]"

definition KernelActivityValidator :: event_validator where
  "KernelActivityValidator =
     class_validator ''kernel_activity'' 3
       [check_activity [1, 2, 3, 4]]"

definition KernelExtensionActivityValidator :: event_validator where
  "KernelExtensionActivityValidator =
     class_validator ''kernel_extension_activity'' 2
       [check_activity [1, 2]]"

definition MemoryActivityValidator :: event_validator where
  "MemoryActivityValidator =
     class_validator ''memory_activity'' 4
       [check_activity [1, 2, 3, 4, 5, 6, 7, 8, 9]]"

definition ModuleActivityValidator :: event_validator where
  "ModuleActivityValidator =
     class_validator ''module_activity'' 5
       [check_activity [1, 2, 3]]"

definition PeripheralActivityValidator :: event_validator where
  "PeripheralActivityValidator =
     class_validator ''peripheral_activity'' 10
       [check_activity [1, 2, 3, 4, 5]]"

definition ProcessActivityValidator :: event_validator where
  "ProcessActivityValidator =
     class_validator ''process_activity'' 7
       [check_activity [1, 2, 3, 4, 5]]"

definition ScheduledJobActivityValidator :: event_validator where
  "ScheduledJobActivityValidator =
     class_validator ''scheduled_job_activity'' 6
       [check_activity [1, 2, 3, 4, 5, 6]]"

definition ScriptActivityValidator :: event_validator where
  "ScriptActivityValidator =
     class_validator ''script_activity'' 9
       [check_activity [1]]"

definition AirborneBroadcastActivityValidator :: event_validator where
  "AirborneBroadcastActivityValidator =
     class_validator ''airborne_broadcast_activity'' 2
       [check_activity [0, 1, 2, 99]]"

definition DroneFlightsActivityValidator :: event_validator where
  "DroneFlightsActivityValidator =
     class_validator ''drone_flights_activity'' 1
       [check_status, check_activity [0, 1, 2, 99]]"

section \<open>The registry\<close>

definition AllValidators :: "event_validator list" where
  "AllValidators =
     [ApiActivityValidator, ApplicationErrorValidator, ApplicationLifecycleValidator,
      DatastoreActivityValidator, FileHostingValidator, ScanActivityValidator,
      WebResourceAccessActivityValidator, WebResourcesActivityValidator,
      AdminGroupQueryValidator, CloudResourcesInventoryInfoValidator, ConfigStateValidator,
      DeviceConfigStateChangeValidator, EvidenceInfoValidator, FileQueryValidator,
      FolderQueryValidator, InventoryInfoValidator, JobQueryValidator,
      KernelObjectQueryValidator, ModuleQueryValidator, NetworkConnectionQueryValidator,
      NetworksQueryValidator, OsintInventoryInfoValidator, PatchStateValidator,
      PeripheralDeviceQueryValidator, ProcessQueryValidator, ServiceQueryValidator,
      SessionQueryValidator, SoftwareInfoValidator, StartupItemQueryValidator,
      UserInventoryValidator, UserQueryValidator, ApplicationSecurityPostureFindingValidator,
      ComplianceFindingValidator, DataSecurityFindingValidator, DetectionFindingValidator,
      IamAnalysisFindingValidator, IncidentFindingValidator, SecurityFindingValidator,
      VulnerabilityFindingValidator, AccountChangeValidator, AuthenticationValidator,
      AuthorizeSessionValidator, EntityManagementValidator, GroupManagementValidator,
      UserAccessValidator, DhcpActivityValidator, DnsActivityValidator, EmailActivityValidator,
      EmailFileActivityValidator, EmailUrlActivityValidator, FtpActivityValidator,
      HttpActivityValidator, NetworkActivityValidator, NetworkFileActivityValidator,
      NtpActivityValidator, RdpActivityValidator, SmbActivityValidator, SshActivityValidator,
      TunnelActivityValidator, FileRemediationActivityValidator,
      NetworkRemediationActivityValidator, ProcessRemediationActivityValidator,
      RemediationActivityValidator, EventLogActvityValidator, FileActivityValidator,
      KernelActivityValidator, KernelExtensionActivityValidator, MemoryActivityValidator,
      ModuleActivityValidator, PeripheralActivityValidator, ProcessActivityValidator,
      ScheduledJobActivityValidator, ScriptActivityValidator, AirborneBroadcastActivityValidator,
      DroneFlightsActivityValidator]"

lemmas generated_validators =
  ApiActivityValidator_def ApplicationErrorValidator_def ApplicationLifecycleValidator_def
  DatastoreActivityValidator_def FileHostingValidator_def ScanActivityValidator_def
  WebResourceAccessActivityValidator_def WebResourcesActivityValidator_def
  AdminGroupQueryValidator_def CloudResourcesInventoryInfoValidator_def ConfigStateValidator_def
  DeviceConfigStateChangeValidator_def EvidenceInfoValidator_def FileQueryValidator_def
  FolderQueryValidator_def InventoryInfoValidator_def JobQueryValidator_def
  KernelObjectQueryValidator_def ModuleQueryValidator_def NetworkConnectionQueryValidator_def
  NetworksQueryValidator_def OsintInventoryInfoValidator_def PatchStateValidator_def
  PeripheralDeviceQueryValidator_def ProcessQueryValidator_def ServiceQueryValidator_def
  SessionQueryValidator_def SoftwareInfoValidator_def StartupItemQueryValidator_def
  UserInventoryValidator_def UserQueryValidator_def
  ApplicationSecurityPostureFindingValidator_def ComplianceFindingValidator_def
  DataSecurityFindingValidator_def DetectionFindingValidator_def IamAnalysisFindingValidator_def
  IncidentFindingValidator_def SecurityFindingValidator_def VulnerabilityFindingValidator_def
  AccountChangeValidator_def AuthenticationValidator_def AuthorizeSessionValidator_def
  EntityManagementValidator_def GroupManagementValidator_def UserAccessValidator_def
  DhcpActivityValidator_def DnsActivityValidator_def EmailActivityValidator_def
  EmailFileActivityValidator_def EmailUrlActivityValidator_def FtpActivityValidator_def
  HttpActivityValidator_def NetworkActivityValidator_def NetworkFileActivityValidator_def
  NtpActivityValidator_def RdpActivityValidator_def SmbActivityValidator_def
  SshActivityValidator_def TunnelActivityValidator_def FileRemediationActivityValidator_def
  NetworkRemediationActivityValidator_def ProcessRemediationActivityValidator_def
  RemediationActivityValidator_def EventLogActvityValidator_def FileActivityValidator_def
  KernelActivityValidator_def KernelExtensionActivityValidator_def MemoryActivityValidator_def
  ModuleActivityValidator_def PeripheralActivityValidator_def ProcessActivityValidator_def
  ScheduledJobActivityValidator_def ScriptActivityValidator_def
  AirborneBroadcastActivityValidator_def DroneFlightsActivityValidator_def

end
