(* ===== verification/MainPipeline.thy ===== *)
theory MainPipeline
  imports GenNormalizers GenValidators
begin

text \<open>
  The pipeline as \<^verbatim>\<open>ingest/cmd/ingest/main.go\<close> puts it together: 77 normalizers and 76 validators, in
  their order. Which normalizer a source type gets is a matter of words and order; \<open>shadows\<close> lists
  the registered normalizers that can never get one.
\<close>

definition main_pipeline :: "codec \<Rightarrow> pipeline" where
  "main_pipeline c =
     \<lparr>pl_normalizers = Some ([OCSFPassthroughNormalizer c] @ AllNormalizers c @ [HECNormalizer c]),
      pl_validators = Some ([BasicValidator] @ AllValidators)\<rparr>"

section \<open>The shape of the generated normalizers\<close>

definition generated_shape :: "codec \<Rightarrow> normalizer \<Rightarrow> bool" where
  "generated_shape c n \<longleftrightarrow>
     (\<exists>words own risk cat category uid cls activity.
        n = \<lparr>nz_supports = keyword_supports words,
             nz_normalize = generated_Normalize c (class_constructor own risk cat category uid cls) activity id\<rparr>
        \<and> 1000 < uid \<and> cls \<noteq> [] \<and> category \<noteq> [])"

lemma generated_shapeI:
  "1000 < uid \<Longrightarrow> cls \<noteq> [] \<Longrightarrow> category \<noteq> [] \<Longrightarrow>
     generated_shape c \<lparr>nz_supports = keyword_supports words,
       nz_normalize = generated_Normalize c (class_constructor own risk cat category uid cls) activity id\<rparr>"
  unfolding generated_shape_def by blast

lemma AllNormalizers_shape: "list_all (generated_shape c) (AllNormalizers c)"
  by (simp add: AllNormalizers_def supports_words generated_normalizers class_constructors
      generated_Normalize_hoist generated_shapeI)

lemma generated_normalizer:
  assumes "n \<in> set (AllNormalizers c)"
  shows "normalizer_contract (nz_supports n) (nz_normalize n)"
    and "nz_normalize n en = Inr ev \<Longrightarrow>
      1000 < oe_class_uid ev \<and> oe_class ev \<noteq> [] \<and> oe_category ev \<noteq> []
      \<and> pr_name (md_product (oe_metadata ev)) = ''TelHawk Stack'' \<and> md_version (oe_metadata ev) = ''1.1.0''"
proof -
  from assms AllNormalizers_shape have "generated_shape c n" by (metis list.pred_set)
  then obtain words own risk cat category uid cls activity where
    n: "n = \<lparr>nz_supports = keyword_supports words,
      nz_normalize = generated_Normalize c (class_constructor own risk cat category uid cls) activity id\<rparr>"
    and u: "1000 < uid" "cls \<noteq> []" "category \<noteq> []"
    unfolding generated_shape_def by blast
  show "normalizer_contract (nz_supports n) (nz_normalize n)"
    by (simp add: n generated.normalizer_contract_axioms)
  show "nz_normalize n en = Inr ev \<Longrightarrow>
      1000 < oe_class_uid ev \<and> oe_class ev \<noteq> [] \<and> oe_category ev \<noteq> []
      \<and> pr_name (md_product (oe_metadata ev)) = ''TelHawk Stack'' \<and> md_version (oe_metadata ev) = ''1.1.0''"
    using u by (auto simp: n generated_Normalize_def class_constructor_def split: option.splits)
qed

lemma main_normalizer:
  assumes "n \<in> set (the (pl_normalizers (main_pipeline c)))"
    and "nz_supports n (en_format en) (en_source_type en)" and "nz_normalize n en = Inr ev"
  shows "en_format en = ''json'' \<and> oe_observed_time ev = en_received_at en
    \<and> rd_data (oe_raw ev) \<noteq> GNil \<and> md_version (oe_metadata ev) \<noteq> []"
proof -
  from assms(1) have "n = passthrough.as_normalizer c \<or> n = hec.as_normalizer c \<or> n \<in> set (AllNormalizers c)"
    by (auto simp: main_pipeline_def OCSFPassthroughNormalizer_def HECNormalizer_def
        passthrough.as_normalizer_def hec.as_normalizer_def)
  then have "normalizer_contract (nz_supports n) (nz_normalize n)"
    using passthrough.normalizer_contract_axioms hec.normalizer_contract_axioms generated_normalizer(1)
    by (auto simp: passthrough.as_normalizer_def hec.as_normalizer_def)
  with assms(2,3) show ?thesis by (auto simp: normalizer_contract_def)
qed

lemma AllValidators_idle: "100 < oe_class_uid ev \<Longrightarrow> list_all (\<lambda>v. va_validate v ev = None) AllValidators"
  by (simp add: AllValidators_def generated_validators class_validator_def)

lemma validate_all_idle: "list_all (\<lambda>v. va_validate v ev = None) vs \<Longrightarrow> validate_all vs ev = None"
  by (induction vs) auto

section \<open>Shadowed normalizers\<close>

definition registered_classes :: "string list" where
  \<comment> \<open>the class each registered normalizer gives its events\<close>
  "registered_classes =
     [''api_activity'', ''application_error'', ''application_lifecycle'',
      ''datastore_activity'', ''file_hosting'', ''scan_activity'',
      ''web_resource_access_activity'', ''web_resources_activity'', ''admin_group_query'',
      ''cloud_resources_inventory_info'', ''config_state'', ''device_config_state_change'',
      ''evidence_info'', ''file_query'', ''folder_query'', ''inventory_info'', ''job_query'',
      ''kernel_object_query'', ''module_query'', ''network_connection_query'',
      ''networks_query'', ''osint_inventory_info'', ''patch_state'',
      ''peripheral_device_query'', ''process_query'', ''service_query'', ''session_query'',
      ''software_info'', ''startup_item_query'', ''user_inventory'', ''user_query'',
      ''application_security_posture_finding'', ''compliance_finding'',
      ''data_security_finding'', ''detection_finding'', ''iam_analysis_finding'',
      ''incident_finding'', ''security_finding'', ''vulnerability_finding'',
      ''account_change'', ''authentication'', ''authorize_session'', ''entity_management'',
      ''group_management'', ''user_access'', ''dhcp_activity'', ''dns_activity'',
      ''email_activity'', ''email_file_activity'', ''email_url_activity'', ''ftp_activity'',
      ''http_activity'', ''network_activity'', ''network_file_activity'', ''ntp_activity'',
      ''rdp_activity'', ''smb_activity'', ''ssh_activity'', ''tunnel_activity'',
      ''file_remediation_activity'', ''network_remediation_activity'',
      ''process_remediation_activity'', ''remediation_activity'', ''event_log_actvity'',
      ''file_activity'', ''kernel_activity'', ''kernel_extension_activity'',
      ''memory_activity'', ''module_activity'', ''peripheral_activity'', ''process_activity'',
      ''scheduled_job_activity'', ''script_activity'', ''airborne_broadcast_activity'',
      ''drone_flights_activity'']"

definition dead_classes :: "string list" where
  "dead_classes =
     [''application_lifecycle'', ''web_resources_activity'', ''file_query'',
      ''networks_query'', ''user_query'', ''application_security_posture_finding'',
      ''security_finding'', ''authorize_session'', ''user_access'', ''email_file_activity'',
      ''email_url_activity'', ''network_file_activity'', ''file_remediation_activity'',
      ''network_remediation_activity'', ''process_remediation_activity'', ''kernel_activity'',
      ''kernel_extension_activity'', ''module_activity'', ''peripheral_activity'']"

definition shadows :: "(nat \<times> nat) list" where
  \<comment> \<open>positions in the registry: a normalizer, and one before it that takes all it supports\<close>
  "shadows =
     [(2, 1), (7, 6), (13, 4), (20, 19), (30, 29), (31, 1), (37, 34), (41, 40), (44, 29), (48, 47), (49, 47),
      (53, 19), (59, 4), (60, 19), (61, 24), (65, 17), (66, 17), (68, 18), (69, 23)]"

lemma contains_str_trans: "contains_str s t \<Longrightarrow> contains_str t u \<Longrightarrow> contains_str s u"
  unfolding contains_str_iff by (metis append.assoc)

lemma keyword_covered:
  "list_all (\<lambda>w. list_ex (contains_str w) words') words \<Longrightarrow> keyword_supports words format st \<Longrightarrow>
     keyword_supports words' format st"
  by (auto simp: keyword_supports_def Let_def list_all_iff list_ex_iff split: if_splits)
    (meson contains_str_trans)

lemma shadowed:
  "ApplicationLifecycle_Supports f st \<Longrightarrow> ApplicationError_Supports f st"
  "WebResourcesActivity_Supports f st \<Longrightarrow> WebResourceAccessActivity_Supports f st"
  "FileQuery_Supports f st \<Longrightarrow> FileHosting_Supports f st"
  "NetworksQuery_Supports f st \<Longrightarrow> NetworkConnectionQuery_Supports f st"
  "UserQuery_Supports f st \<Longrightarrow> UserInventory_Supports f st"
  "ApplicationSecurityPostureFinding_Supports f st \<Longrightarrow> ApplicationError_Supports f st"
  "SecurityFinding_Supports f st \<Longrightarrow> DetectionFinding_Supports f st"
  "AuthorizeSession_Supports f st \<Longrightarrow> Authentication_Supports f st"
  "UserAccess_Supports f st \<Longrightarrow> UserInventory_Supports f st"
  "EmailFileActivity_Supports f st \<Longrightarrow> EmailActivity_Supports f st"
  "EmailUrlActivity_Supports f st \<Longrightarrow> EmailActivity_Supports f st"
  "NetworkFileActivity_Supports f st \<Longrightarrow> NetworkConnectionQuery_Supports f st"
  "FileRemediationActivity_Supports f st \<Longrightarrow> FileHosting_Supports f st"
  "NetworkRemediationActivity_Supports f st \<Longrightarrow> NetworkConnectionQuery_Supports f st"
  "ProcessRemediationActivity_Supports f st \<Longrightarrow> ProcessQuery_Supports f st"
  "KernelActivity_Supports f st \<Longrightarrow> KernelObjectQuery_Supports f st"
  "KernelExtensionActivity_Supports f st \<Longrightarrow> KernelObjectQuery_Supports f st"
  "ModuleActivity_Supports f st \<Longrightarrow> ModuleQuery_Supports f st"
  "PeripheralActivity_Supports f st \<Longrightarrow> PeripheralDeviceQuery_Supports f st"
  unfolding supports_words by (erule keyword_covered [rotated], code_simp)+

lemma class_of_position:
  "list_all2 (\<lambda>n cls. \<forall>en ev. nz_normalize n en = Inr ev \<longrightarrow> oe_class ev = cls) (AllNormalizers c) registered_classes"
  by (simp add: AllNormalizers_def registered_classes_def generated_normalizers class_constructors
      generated_Normalize_hoist)
    (simp add: generated_Normalize_def class_constructor_def split: option.split)

lemma shadow_positions:
  "list_all (\<lambda>(i, j). nz_supports (AllNormalizers c ! i) f st \<longrightarrow> nz_supports (AllNormalizers c ! j) f st) shadows"
  by (simp add: shadows_def AllNormalizers_def shadowed)

lemma shadows_earlier: "list_all (\<lambda>(i, j). j < i) shadows"
  by code_simp

lemma dead_positions:
  "list_all (\<lambda>i. registered_classes ! i \<in> set dead_classes \<longrightarrow> list_ex (\<lambda>(k, j). k = i) shadows) [0..<75]"
  by code_simp

lemma find_append_Some: "find P xs = Some x \<Longrightarrow> find P (xs @ ys) = Some x"
  by (induction xs) auto

lemma routed:
  assumes "Process (Some (main_pipeline c)) en = Inr ev"
    and "\<not> has_prefix (to_lower (en_source_type en)) ''ocsf:''"
  shows "(\<exists>i<75. nz_normalize (AllNormalizers c ! i) en = Inr ev
      \<and> (\<forall>j<i. \<not> nz_supports (AllNormalizers c ! j) (en_format en) (en_source_type en))
      \<and> nz_supports (AllNormalizers c ! i) (en_format en) (en_source_type en))
    \<or> HEC_Normalize c en = Inr ev"
proof -
  let ?P = "\<lambda>n. nz_supports n (en_format en) (en_source_type en)"
  from assms(1) obtain n where n: "nz_normalize n en = Inr ev"
    and "registry_Find (pl_normalizers (main_pipeline c)) en = Some n"
    by (auto simp: Process_def split: option.splits sum.splits)
  with assms(2) have "find ?P (AllNormalizers c @ [HECNormalizer c]) = Some n"
    by (simp add: registry_Find_def main_pipeline_def OCSFPassthroughNormalizer_def OCSF_Supports_def
        split: if_splits)
  then obtain i where i: "i < length (AllNormalizers c @ [HECNormalizer c])"
    "?P ((AllNormalizers c @ [HECNormalizer c]) ! i)" "n = (AllNormalizers c @ [HECNormalizer c]) ! i"
    "\<forall>j<i. \<not> ?P ((AllNormalizers c @ [HECNormalizer c]) ! j)"
    by (auto simp: find_Some_iff)
  have len: "length (AllNormalizers c) = 75" by (simp add: AllNormalizers_def)
  show ?thesis
  proof (cases "i < 75")
    case True
    with i n len show ?thesis by (intro disjI1 exI [of _ i]) (auto simp: nth_append)
  next
    case False
    with i n len have "n = HECNormalizer c" by (simp add: nth_append)
    with n show ?thesis by (simp add: HECNormalizer_def)
  qed
qed

lemma HEC_class: "HEC_Normalize c en = Inr ev \<Longrightarrow> oe_class ev = ''base_event''"
  by (auto simp: HEC_Normalize_def Let_def split: option.splits)

section \<open>Hidden actors\<close>

definition hidden_actor_classes :: "string list" where
  \<comment> \<open>the classes whose struct declares an \<open>Actor\<close> beside the embedded one\<close>
  "hidden_actor_classes =
     [''file_activity'', ''kernel_extension_activity'', ''module_activity'',
      ''scheduled_job_activity'', ''process_activity'', ''event_log_actvity'',
      ''data_security_finding'', ''network_file_activity'', ''inventory_info'',
      ''config_state'', ''user_inventory'', ''device_config_state_change'', ''software_info'',
      ''osint_inventory_info'', ''api_activity'', ''datastore_activity'', ''file_hosting'']"

lemma hidden_positions:
  "map (\<lambda>cls. cls \<in> set hidden_actor_classes) registered_classes =
     [True, False, False, True, True, False, False, False, False, False, True, True, False,
      False, False, True, False, False, False, False, False, True, False, False, False, False,
      False, True, False, True, False, False, False, True, False, False, False, False, False,
      False, False, False, False, False, False, False, False, False, False, False, False, False,
      False, True, False, False, False, False, False, False, False, False, False, True, True,
      False, True, False, True, False, True, True, False, False, False]"
  by code_simp

lemma hidden_actor:
  "list_all2 (\<lambda>n hidden. hidden \<longrightarrow> (\<forall>en ev. nz_normalize n en = Inr ev \<longrightarrow> oe_actor ev = None))
     (AllNormalizers c) (map (\<lambda>cls. cls \<in> set hidden_actor_classes) registered_classes)"
  unfolding hidden_positions
  by (simp add: AllNormalizers_def generated_normalizers class_constructors generated_Normalize_hoist)
    (simp add: generated_Normalize_def class_constructor_def fill_event_actor split: option.split)

section \<open>A concrete codec\<close>

definition sample_codec :: codec where
  \<comment> \<open>the empty object, and a payload of two strings\<close>
  "sample_codec =
     \<lparr>c_unmarshal = (\<lambda>s. if s = ''{}'' then Some []
        else if s = ''login'' then Some [(''action'', GStr ''login''), (''user'', GStr ''ann'')] else None),
      c_decode_event = (\<lambda>m. None),
      c_format_nano = (\<lambda>t. []), c_parse_time = (\<lambda>s. None), c_parse_nano = (\<lambda>s. None)\<rparr>"

definition sample_envelope :: "string \<Rightarrow> string \<Rightarrow> raw_envelope" where
  "sample_envelope sourceType payload =
     \<lparr>en_id = ''e'', en_source = ''app'', en_source_type = sourceType, en_format = ''json'',
      en_payload = payload, en_attributes = [], en_received_at = 5\<rparr>"

section \<open>Properties\<close>

definition payload_kept :: "(string \<times> gval) list \<Rightarrow> (string \<times> gval) list \<Rightarrow> bool" where
  \<comment> \<open>the same fields, but for the time of the event, which is inside \<open>event\<close> where that is an object\<close>
  "payload_kept payload data \<longleftrightarrow>
     (case map_of payload ''event'' of
        Some (GObj inner) \<Rightarrow>
          (\<forall>k. k \<noteq> ''event'' \<longrightarrow> map_of data k = map_of payload k)
          \<and> (\<exists>inner'. map_of data ''event'' = Some (GObj inner')
                \<and> (\<forall>k. k \<noteq> ''time'' \<longrightarrow> map_of inner' k = map_of inner k))
      | _ \<Rightarrow> \<forall>k. k \<noteq> ''time'' \<longrightarrow> map_of data k = map_of payload k)"

lemma convert_time_other: "k \<noteq> ''time'' \<Longrightarrow> map_of (convert_time c d) k = map_of d k"
  by (simp add: convert_time_def split: option.split)

lemma unwrap_event_other:
  "map_of payload ''event'' = Some (GObj inner) \<Longrightarrow> k \<noteq> ''time'' \<Longrightarrow> map_of (unwrap_event payload) k = map_of inner k"
  by (simp add: unwrap_event_def field_as_def split: option.split)

lemma passthrough_event:
  assumes "OCSF_Normalize c en = Inr ev"
  shows "\<exists>payload own data. c_unmarshal c (en_payload en) = Some payload
    \<and> c_decode_event c (convert_time c (unwrap_event payload)) = Some own
    \<and> oe_time ev = oe_time own
    \<and> md_version (oe_metadata ev) = (if md_version (oe_metadata own) = [] then ''1.1.0'' else md_version (oe_metadata own))
    \<and> payload_kept payload data
    \<and> oe_raw ev = (if rd_data (oe_raw own) = GNil then \<lparr>rd_format = en_format en, rd_data = GObj data\<rparr> else oe_raw own)"
proof -
  from assms obtain payload own where p: "c_unmarshal c (en_payload en) = Some payload"
    and own: "c_decode_event c (convert_time c (unwrap_event payload)) = Some own"
    and ev: "ev = complete_event en (case field_as as_obj payload ''event'' of
        Some _ \<Rightarrow> map_put ''event'' (GObj (convert_time c (unwrap_event payload))) payload
      | None \<Rightarrow> convert_time c (unwrap_event payload)) own"
    by (auto simp: OCSF_Normalize_def Let_def split: option.splits)
  have "payload_kept payload (case field_as as_obj payload ''event'' of
        Some _ \<Rightarrow> map_put ''event'' (GObj (convert_time c (unwrap_event payload))) payload
      | None \<Rightarrow> convert_time c (unwrap_event payload))"
    by (auto simp: payload_kept_def field_as_def convert_time_other unwrap_event_other
        unwrap_event_def [of payload] split: option.splits gval.splits)
  with p own show ?thesis by (auto simp: ev complete_event_def)
qed

definition hec_time :: "(string \<times> gval) list \<Rightarrow> time \<Rightarrow> time" where
  \<comment> \<open>the number under \<open>time\<close>, in seconds\<close>
  "hec_time payload received =
     (case map_of payload ''time'' of Some (GFloat m e) \<Rightarrow> unix_of_float m e | _ \<Rightarrow> received)"

definition read_time :: "codec \<Rightarrow> gval \<Rightarrow> time option" where
  \<comment> \<open>a text in one of the two layouts, or a number of seconds\<close>
  "read_time c v =
     (case v of
        GStr s \<Rightarrow> (case c_parse_time c s of Some t \<Rightarrow> Some t | None \<Rightarrow> c_parse_nano c s)
      | GFloat m e \<Rightarrow> Some (float_to_int m e * second)
      | _ \<Rightarrow> None)"

definition gives_time :: "codec \<Rightarrow> string list \<Rightarrow> (string \<times> gval) list \<Rightarrow> time \<Rightarrow> time \<Rightarrow> bool" where
  \<comment> \<open>the first of the named fields that can be read as a time gives it, or else it is the other one\<close>
  "gives_time c names payload received t \<longleftrightarrow>
     (\<exists>earlier name later v. names = earlier @ name # later \<and> map_of payload name = Some v
        \<and> read_time c v = Some t
        \<and> (\<forall>k\<in>set earlier. Option.bind (map_of payload k) (read_time c) = None))
     \<or> ((\<forall>k\<in>set names. Option.bind (map_of payload k) (read_time c) = None) \<and> t = received)"

lemma gives_time_here:
  "map_of payload k = Some v \<Longrightarrow> read_time c v = Some t \<Longrightarrow> gives_time c (k # ks) payload received t"
  unfolding gives_time_def by (rule disjI1, rule exI [of _ "[]"]) simp

lemma gives_time_later:
  assumes "Option.bind (map_of payload k) (read_time c) = None" and "gives_time c ks payload received t"
  shows "gives_time c (k # ks) payload received t"
  using assms(2) unfolding gives_time_def
proof (elim disjE exE conjE)
  fix earlier name later v
  assume "ks = earlier @ name # later" "map_of payload name = Some v" "read_time c v = Some t"
    and "\<forall>k\<in>set earlier. Option.bind (map_of payload k) (read_time c) = None"
  with assms(1) show "(\<exists>earlier name later v. k # ks = earlier @ name # later \<and> map_of payload name = Some v
      \<and> read_time c v = Some t
      \<and> (\<forall>k\<in>set earlier. Option.bind (map_of payload k) (read_time c) = None))
    \<or> (\<forall>k\<in>set (k # ks). Option.bind (map_of payload k) (read_time c) = None) \<and> t = received"
    by (intro disjI1 exI [of _ "k # earlier"] exI [of _ name] exI [of _ later] exI [of _ v]) simp
qed (simp add: assms(1))

lemma extract_timestamp_gives: "gives_time c names payload received (extract_timestamp c payload received names)"
proof (induction names)
  case (Cons k ks)
  show ?case
  proof (cases "Option.bind (map_of payload k) (read_time c)")
    case None
    then have "extract_timestamp c payload received (k # ks) = extract_timestamp c payload received ks"
      by (auto simp: read_time_def split: option.splits gval.splits)
    with gives_time_later [OF None Cons.IH] show ?thesis by simp
  next
    case (Some t)
    then obtain v where v: "map_of payload k = Some v" "read_time c v = Some t"
      by (auto simp: bind_eq_Some_conv)
    then have "extract_timestamp c payload received (k # ks) = t"
      by (auto simp: read_time_def split: option.splits gval.splits)
    with gives_time_here [OF v] show ?thesis by simp
  qed
qed (simp add: gives_time_def)

lemma ExtractTimestamp_gives:
  "gives_time c [''timestamp'', ''time'', ''@timestamp'', ''event_time'', ''datetime''] payload received
     (ExtractTimestamp c payload received)"
  unfolding ExtractTimestamp_def by (rule extract_timestamp_gives)

definition of_generated :: "codec \<Rightarrow> raw_envelope \<Rightarrow> bool" where
  \<comment> \<open>a generated normalizer supports the source type\<close>
  "of_generated c en \<longleftrightarrow> list_ex (\<lambda>n. nz_supports n (en_format en) (en_source_type en)) (AllNormalizers c)"

lemma other_event:
  assumes "n \<in> set (AllNormalizers c) \<or> n = HECNormalizer c" and "nz_normalize n en = Inr ev"
    and "of_generated c en \<longleftrightarrow> n \<in> set (AllNormalizers c)"
  shows "\<exists>payload. c_unmarshal c (en_payload en) = Some payload
    \<and> oe_raw ev = \<lparr>rd_format = en_format en, rd_data = GObj payload\<rparr> \<and> md_version (oe_metadata ev) = ''1.1.0''
    \<and> (if of_generated c en
       then gives_time c [''timestamp'', ''time'', ''@timestamp'', ''event_time'', ''datetime''] payload
              (en_received_at en) (oe_time ev)
       else oe_time ev = hec_time payload (en_received_at en))"
proof (cases "n \<in> set (AllNormalizers c)")
  case True
  with AllNormalizers_shape have "generated_shape c n" by (metis list.pred_set)
  with True assms(2) obtain payload where "c_unmarshal c (en_payload en) = Some payload"
    "oe_raw ev = \<lparr>rd_format = en_format en, rd_data = GObj payload\<rparr>" "md_version (oe_metadata ev) = ''1.1.0''"
    and time: "oe_time ev = ExtractTimestamp c payload (en_received_at en)"
    by (auto simp: generated_shape_def generated_Normalize_def class_constructor_def split: option.splits)
  moreover have "of_generated c en" using assms(3) True by simp
  ultimately show ?thesis
    by (auto simp: time ExtractTimestamp_gives)
next
  case False
  with assms show ?thesis
    by (auto simp: HECNormalizer_def HEC_Normalize_def hec_time_def field_as_def Let_def
        split: option.splits gval.splits)
qed

text \<open>C32: Whatever comes out of the pipeline is traceable to its envelope, which was JSON: it was observed
  when the envelope was received. Unless the source type says OCSF, it holds the decoded payload itself as
  raw data, version 1.1.0 of the schema, and the time the payload gives, or else the time of reception:
  for a generated normalizer, of the first of five fields that can be read as a time, and for the generic
  one, of the number under \<open>time\<close>. An event that was OCSF already keeps its own time, version and raw data; where it brings no version it gets
  1.1.0, and where it brings no raw data the payload, in which at most the time of the event is written
  anew. And if it has a class, the basic validator found a category, a time and a product.\<close>

theorem processed_event_traceable:
  assumes "Process (Some (main_pipeline c)) en = Inr ev"
  shows "en_format en = ''json'' \<and> oe_observed_time ev = en_received_at en
    \<and> (\<exists>payload. c_unmarshal c (en_payload en) = Some payload
        \<and> (if has_prefix (to_lower (en_source_type en)) ''ocsf:''
           then \<exists>own data. c_decode_event c (convert_time c (unwrap_event payload)) = Some own
                  \<and> oe_time ev = oe_time own
                  \<and> md_version (oe_metadata ev)
                      = (if md_version (oe_metadata own) = [] then ''1.1.0'' else md_version (oe_metadata own))
                  \<and> payload_kept payload data
                  \<and> oe_raw ev = (if rd_data (oe_raw own) = GNil
                                 then \<lparr>rd_format = en_format en, rd_data = GObj data\<rparr> else oe_raw own)
           else oe_raw ev = \<lparr>rd_format = en_format en, rd_data = GObj payload\<rparr>
                  \<and> md_version (oe_metadata ev) = ''1.1.0''
                  \<and> (if of_generated c en
                     then gives_time c [''timestamp'', ''time'', ''@timestamp'', ''event_time'', ''datetime'']
                            payload (en_received_at en) (oe_time ev)
                     else oe_time ev = hec_time payload (en_received_at en))))
    \<and> (oe_class ev = [] \<or> oe_category ev \<noteq> [] \<and> \<not> is_zero (oe_time ev)
         \<and> pr_name (md_product (oe_metadata ev)) \<noteq> [])"
proof -
  let ?ns = "the (pl_normalizers (main_pipeline c))"
  from assms obtain n where n: "registry_Find (Some ?ns) en = Some n" "nz_normalize n en = Inr ev"
    and valid: "chain_Validate (pl_validators (main_pipeline c)) ev = None"
    by (auto simp: Process_def main_pipeline_def split: option.splits sum.splits)
  then have in_set: "n \<in> set ?ns" "nz_supports n (en_format en) (en_source_type en)"
    using registry_Find_Some by blast+
  have json: "en_format en = ''json'' \<and> oe_observed_time ev = en_received_at en"
    using main_normalizer [OF in_set n(2)] by simp
  have "Basic_Validate ev = None" if "oe_class ev \<noteq> []"
    using validate_all_None [of "the (pl_validators (main_pipeline c))" ev BasicValidator] valid that
    by (simp add: main_pipeline_def chain_Validate_def BasicValidator_def Basic_Supports_def)
  then have basic: "oe_class ev = [] \<or> oe_category ev \<noteq> [] \<and> \<not> is_zero (oe_time ev)
      \<and> pr_name (md_product (oe_metadata ev)) \<noteq> []"
    by (auto simp: Basic_Validate_def split: if_splits)
  show ?thesis
  proof (cases "has_prefix (to_lower (en_source_type en)) ''ocsf:''")
    case True
    with n(1) json have "n = OCSFPassthroughNormalizer c"
      by (simp add: registry_Find_def main_pipeline_def OCSFPassthroughNormalizer_def OCSF_Supports_def)
    then have "OCSF_Normalize c en = Inr ev" using n(2) by (simp add: OCSFPassthroughNormalizer_def)
    from passthrough_event [OF this] True json basic show ?thesis by auto
  next
    case False
    with in_set have "n \<in> set (AllNormalizers c) \<or> n = HECNormalizer c"
      by (auto simp: main_pipeline_def OCSFPassthroughNormalizer_def OCSF_Supports_def)
    moreover have "of_generated c en \<longleftrightarrow> n \<in> set (AllNormalizers c)"
    proof
      assume "of_generated c en"
      then obtain q where q: "find (\<lambda>q. nz_supports q (en_format en) (en_source_type en)) (AllNormalizers c) = Some q"
        by (cases "find (\<lambda>q. nz_supports q (en_format en) (en_source_type en)) (AllNormalizers c)")
          (auto simp: of_generated_def list_ex_iff find_None_iff)
      with False have "registry_Find (Some ?ns) en = Some q"
        by (simp add: registry_Find_def main_pipeline_def OCSFPassthroughNormalizer_def OCSF_Supports_def
            find_append_Some)
      with n(1) q show "n \<in> set (AllNormalizers c)" by (auto simp: find_Some_iff)
    next
      assume "n \<in> set (AllNormalizers c)"
      with in_set(2) show "of_generated c en" by (auto simp: of_generated_def list_ex_iff)
    qed
    ultimately show ?thesis using other_event [OF _ n(2)] False json basic by fastforce
  qed
qed

theorem processed_event_traceable_witness:
  "case Process (Some (main_pipeline sample_codec)) (sample_envelope ''sso'' ''{}'') of
     Inr ev \<Rightarrow> en_format (sample_envelope ''sso'' ''{}'') = ''json'' \<and> oe_observed_time ev = 5
   | Inl _ \<Rightarrow> False"
proof -
  have "case Process (Some (main_pipeline sample_codec)) (sample_envelope ''sso'' ''{}'') of
      Inr ev \<Rightarrow> True | Inl _ \<Rightarrow> False"
    by code_simp
  then obtain ev where ev: "Process (Some (main_pipeline sample_codec)) (sample_envelope ''sso'' ''{}'') = Inr ev"
    by (auto split: sum.splits)
  from processed_event_traceable [OF ev] show ?thesis by (simp add: ev) (simp add: sample_envelope_def)
qed

text \<open>C33: What the pipeline does with an event that a generated normalizer supports and whose source type
  does not begin with \<open>ocsf:\<close>, so that the passthrough does not take it, is decided by three things only: the first supporting normalizer of the registry, whether the payload is a JSON
  object, and whether its time is the zero time. No other validation ever fails.\<close>

theorem pipeline_outcome:
  assumes "en_format en = ''json''" and "\<not> has_prefix (to_lower (en_source_type en)) ''ocsf:''"
    and "find (\<lambda>n. nz_supports n (en_format en) (en_source_type en)) (AllNormalizers c) = Some n"
  shows "Process (Some (main_pipeline c)) en =
    (case c_unmarshal c (en_payload en) of
       None \<Rightarrow> Inl (NormalizeError DecodePayload)
     | Some payload \<Rightarrow>
         if is_zero (ExtractTimestamp c payload (en_received_at en)) then Inl (ValidateError MissingTime)
         else map_sum NormalizeError id (nz_normalize n en))"
proof -
  from assms(3) have n: "n \<in> set (AllNormalizers c)" by (auto simp: find_Some_iff)
  with AllNormalizers_shape have "generated_shape c n" by (metis list.pred_set)
  then obtain words own risk cat category uid cls activity where
    shape: "n = \<lparr>nz_supports = keyword_supports words,
      nz_normalize = generated_Normalize c (class_constructor own risk cat category uid cls) activity id\<rparr>"
    and u: "1000 < uid" "cls \<noteq> []" "category \<noteq> []"
    unfolding generated_shape_def by blast
  from assms(2,3) have "registry_Find (pl_normalizers (main_pipeline c)) en = Some n"
    by (simp add: registry_Find_def main_pipeline_def OCSFPassthroughNormalizer_def OCSF_Supports_def
        find_append_Some)
  moreover have "chain_Validate (pl_validators (main_pipeline c)) ev =
      (if is_zero (oe_time ev) then Some MissingTime else None)"
    if "nz_normalize n en = Inr ev" for ev
    using generated_normalizer(2) [OF n that] AllValidators_idle [of ev]
    by (simp add: main_pipeline_def chain_Validate_def validate_all_idle
        BasicValidator_def Basic_Supports_def Basic_Validate_def)
  ultimately show ?thesis
    by (auto simp: Process_def shape generated_Normalize_def class_constructor_def split: option.split)
qed

theorem pipeline_outcome_witness:
  "Process (Some (main_pipeline sample_codec)) ((sample_envelope ''sso'' ''{}'')\<lparr>en_received_at := zero_time\<rparr>)
     = Inl (ValidateError MissingTime)"
proof -
  let ?en = "(sample_envelope ''sso'' ''{}'')\<lparr>en_received_at := zero_time\<rparr>"
  have "list_ex (\<lambda>n. nz_supports n (en_format ?en) (en_source_type ?en)) (AllNormalizers sample_codec)"
    by code_simp
  then obtain n where n: "find (\<lambda>n. nz_supports n (en_format ?en) (en_source_type ?en))
      (AllNormalizers sample_codec) = Some n"
    by (cases "find (\<lambda>n. nz_supports n (en_format ?en) (en_source_type ?en)) (AllNormalizers sample_codec)")
      (auto simp: find_None_iff list_ex_iff)
  have "en_format ?en = ''json''" "\<not> has_prefix (to_lower (en_source_type ?en)) ''ocsf:''"
    by (simp_all add: sample_envelope_def has_prefix_def lower_char_def)
  from pipeline_outcome [OF this n] show ?thesis
    by (simp add: sample_envelope_def sample_codec_def ExtractTimestamp_def is_zero_def)
qed

text \<open>An event without a class is not validated at all: \<open>BasicValidator\<close> would report it, but does
  not support the empty class, so the chain skips it, and the generated validators skip it too.\<close>

lemma empty_class_unvalidated:
  "chain_Validate (pl_validators (main_pipeline c)) (ev\<lparr>oe_class := []\<rparr>) = None
   \<and> va_validate BasicValidator (ev\<lparr>oe_class := []\<rparr>) = Some MissingClass"
  by (simp add: chain_Validate_def main_pipeline_def BasicValidator_def Basic_Supports_def
      Basic_Validate_def AllValidators_def generated_validators class_validator_def)

text \<open>The generated validators never reject an event of the generated normalizers: they compare the
  class number with one local to the category (2 instead of 3002), and let every event pass, whatever
  its actor and its activity.\<close>

lemma generated_validators_idle:
  assumes "n \<in> set (AllNormalizers c)" and "nz_normalize n en = Inr ev" and "v \<in> set AllValidators"
  shows "va_validate v (ev\<lparr>oe_actor := actor, oe_activity_id := activity\<rparr>) = None"
  using generated_normalizer(2) [OF assms(1,2)] assms(3)
    AllValidators_idle [of "ev\<lparr>oe_actor := actor, oe_activity_id := activity\<rparr>"]
  by (simp add: list_all_iff)

text \<open>Nineteen registered normalizers are dead code: whatever the source type, unless it starts with
  \<open>ocsf:\<close>, no event leaves the pipeline with one of their classes, because an earlier normalizer takes
  every source type they support.\<close>

lemma dead_normalizers:
  assumes "Process (Some (main_pipeline c)) en = Inr ev"
    and "\<not> has_prefix (to_lower (en_source_type en)) ''ocsf:''"
  shows "oe_class ev \<notin> set dead_classes"
proof
  assume dead: "oe_class ev \<in> set dead_classes"
  then have "\<not> HEC_Normalize c en = Inr ev" by (auto dest: HEC_class simp: dead_classes_def)
  with routed [OF assms] obtain i where i: "i < 75" "nz_normalize (AllNormalizers c ! i) en = Inr ev"
    "nz_supports (AllNormalizers c ! i) (en_format en) (en_source_type en)"
    "\<forall>j<i. \<not> nz_supports (AllNormalizers c ! j) (en_format en) (en_source_type en)"
    by blast
  from class_of_position [of c] i(1,2) have "oe_class ev = registered_classes ! i"
    by (auto simp: list_all2_conv_all_nth AllNormalizers_def)
  with dead dead_positions i(1) obtain j where "(i, j) \<in> set shadows"
    by (auto simp: list_all_iff list_ex_iff)
  with shadow_positions [of c "en_format en" "en_source_type en"] shadows_earlier i(3,4) show False
    by (auto simp: list_all_iff)
qed

lemma dead_normalizers_example:
  "case Process (Some (main_pipeline sample_codec)) (sample_envelope ''file_query'' ''{}'') of
     Inr ev \<Rightarrow> oe_class ev = ''file_hosting'' \<and> oe_class ev \<notin> set dead_classes
   | Inl _ \<Rightarrow> False"
proof -
  have "case Process (Some (main_pipeline sample_codec)) (sample_envelope ''file_query'' ''{}'') of
      Inr ev \<Rightarrow> oe_class ev = ''file_hosting'' | Inl _ \<Rightarrow> False"
    by code_simp
  then obtain ev where ev: "Process (Some (main_pipeline sample_codec)) (sample_envelope ''file_query'' ''{}'') = Inr ev"
    "oe_class ev = ''file_hosting''" by (auto split: sum.splits)
  have "\<not> has_prefix (to_lower (en_source_type (sample_envelope ''file_query'' ''{}''))) ''ocsf:''"
    by (simp add: sample_envelope_def has_prefix_def lower_char_def)
  from dead_normalizers [OF ev(1) this] ev show ?thesis by simp
qed

text \<open>The user is lost for the classes that declare an actor of their own, process and file activity
  among them: the normalizer sets the actor of the class and returns the embedded event, which has none,
  whatever the payload says.\<close>

lemma hidden_actor_lost:
  assumes "Process (Some (main_pipeline c)) en = Inr ev"
    and "\<not> has_prefix (to_lower (en_source_type en)) ''ocsf:''"
    and "oe_class ev \<in> set hidden_actor_classes"
  shows "oe_actor ev = None"
proof -
  from assms(3) have "\<not> HEC_Normalize c en = Inr ev"
    by (auto dest: HEC_class simp: hidden_actor_classes_def)
  with routed [OF assms(1,2)] obtain i where i: "i < 75" "nz_normalize (AllNormalizers c ! i) en = Inr ev"
    by blast
  from class_of_position [of c] i have "oe_class ev = registered_classes ! i" "i < length registered_classes"
    by (auto simp: list_all2_conv_all_nth AllNormalizers_def registered_classes_def)
  with hidden_actor [of c] i assms(3) show ?thesis
    by (auto simp: list_all2_conv_all_nth)
qed

text \<open>Two of the three normalizers that choose an activity swap the numbers: a login gets the activity
  the table names \<open>Logoff\<close>, an opened connection the one it names \<open>Close\<close>.\<close>

lemma swapped_activities:
  "ActivityName 3002 (Authentication_determineActivityID [(''action'', GStr ''login'')]) = ''Logoff''
   \<and> ActivityName 3002 (Authentication_determineActivityID [(''action'', GStr ''logout'')]) = ''Logon''
   \<and> ActivityName 4001 (NetworkActivity_determineActivityID [(''action'', GStr ''open'')]) = ''Close''
   \<and> ActivityName 4001 (NetworkActivity_determineActivityID [(''action'', GStr ''close'')]) = ''Open''"
  by code_simp

end
