(* ===== verification/Rbac.thy ===== *)
theory Rbac
  imports Prelude
begin

text \<open>
  The data model of the authenticate service and the decisions made on it alone: users, roles,
  permissions, role assignments, organizations, clients, ingestion tokens and sessions
  (\<^verbatim>\<open>authenticate/internal/models/user.go\<close> and \<^verbatim>\<open>rbac.go\<close>), with role-based permission checks,
  the scope rules of platform, organization and client users, and who may manage whom. A Go
  pointer field is an option. A method that dereferences a pointer without checking it returns
  an option, \<open>None\<close> for the panic.
\<close>

section \<open>Scope tiers\<close>

datatype scope_tier = TierClient | TierOrganization | TierPlatform

text \<open>Tiers are ordered by reach.\<close>

fun tier_rank :: "scope_tier \<Rightarrow> nat" where
  "tier_rank TierClient = 0"
| "tier_rank TierOrganization = 1"
| "tier_rank TierPlatform = 2"

lemma tier_rank_inj [simp]: "tier_rank s = tier_rank t \<longleftrightarrow> s = t"
  by (cases s; cases t) auto

instantiation scope_tier :: linorder
begin

definition less_eq_scope_tier :: "scope_tier \<Rightarrow> scope_tier \<Rightarrow> bool" where
  "less_eq_scope_tier s t \<longleftrightarrow> tier_rank s \<le> tier_rank t"

definition less_scope_tier :: "scope_tier \<Rightarrow> scope_tier \<Rightarrow> bool" where
  "less_scope_tier s t \<longleftrightarrow> tier_rank s < tier_rank t"

instance
  by intro_classes (auto simp: less_eq_scope_tier_def less_scope_tier_def)

end

fun tier_of :: "string option \<Rightarrow> string option \<Rightarrow> scope_tier" where
  \<comment> \<open>from an organization id and a client id\<close>
  "tier_of _ (Some _) = TierClient"
| "tier_of (Some _) None = TierOrganization"
| "tier_of None None = TierPlatform"

section \<open>Organizations and clients\<close>

record organization =
  org_id :: string
  org_version_id :: string
  org_name :: string
  org_slug :: string
  org_settings :: string
  org_created_by :: "string option"
  org_updated_by :: "string option"
  org_disabled_at :: "time option"
  org_disabled_by :: "string option"
  org_deleted_at :: "time option"
  org_deleted_by :: "string option"

record org_response =
  orsp_id :: string
  orsp_version_id :: string
  orsp_name :: string
  orsp_slug :: string
  orsp_enabled :: bool

definition Organization_IsActive :: "organization \<Rightarrow> bool" where
  "Organization_IsActive o' \<longleftrightarrow> org_disabled_at o' = None \<and> org_deleted_at o' = None"

definition Organization_ToResponse :: "organization \<Rightarrow> org_response" where
  "Organization_ToResponse o' =
     \<lparr>orsp_id = org_id o', orsp_version_id = org_version_id o', orsp_name = org_name o',
      orsp_slug = org_slug o', orsp_enabled = Organization_IsActive o'\<rparr>"

record client =
  cl_id :: string
  cl_version_id :: string
  cl_organization_id :: string
  cl_name :: string
  cl_slug :: string
  cl_settings :: string
  cl_created_by :: "string option"
  cl_updated_by :: "string option"
  cl_disabled_at :: "time option"
  cl_disabled_by :: "string option"
  cl_deleted_at :: "time option"
  cl_deleted_by :: "string option"

record client_response =
  crsp_id :: string
  crsp_version_id :: string
  crsp_organization_id :: string
  crsp_name :: string
  crsp_slug :: string
  crsp_enabled :: bool

definition Client_IsActive :: "client \<Rightarrow> bool" where
  "Client_IsActive c \<longleftrightarrow> cl_disabled_at c = None \<and> cl_deleted_at c = None"

definition Client_ToResponse :: "client \<Rightarrow> client_response" where
  "Client_ToResponse c =
     \<lparr>crsp_id = cl_id c, crsp_version_id = cl_version_id c,
      crsp_organization_id = cl_organization_id c, crsp_name = cl_name c, crsp_slug = cl_slug c,
      crsp_enabled = Client_IsActive c\<rparr>"

section \<open>Permissions and roles\<close>

record permission =
  perm_id :: string
  perm_resource :: string
  perm_action :: string
  perm_description :: "string option"

definition Permission_String :: "permission \<Rightarrow> string" where
  "Permission_String p = perm_resource p @ '':'' @ perm_action p"

definition Permission_ToResponse :: "permission \<Rightarrow> permission" where
  \<comment> \<open>\<open>PermissionResponse\<close> has the fields of \<open>Permission\<close>\<close>
  "Permission_ToResponse p =
     \<lparr>perm_id = perm_id p, perm_resource = perm_resource p, perm_action = perm_action p,
      perm_description = perm_description p\<rparr>"

record role =
  role_id :: string
  role_version_id :: string
  role_organization_id :: "string option"
  role_client_id :: "string option"
  role_name :: string
  role_slug :: string
  role_ordinal :: int
  role_description :: "string option"
  role_is_system :: bool
  role_is_protected :: bool
  role_is_template :: bool
  role_created_by :: "string option"
  role_updated_by :: "string option"
  role_deleted_at :: "time option"
  role_deleted_by :: "string option"
  role_permissions :: "permission list"

definition Role_IsActive :: "role \<Rightarrow> bool" where
  "Role_IsActive r \<longleftrightarrow> role_deleted_at r = None"

definition Role_Tier :: "role \<Rightarrow> scope_tier" where
  "Role_Tier r = tier_of (role_organization_id r) (role_client_id r)"

definition IsPlatformRole :: "role \<Rightarrow> bool" where
  "IsPlatformRole r \<longleftrightarrow>
     role_organization_id r = None \<and> role_client_id r = None \<and> \<not> role_is_template r"

definition IsOrgRole :: "role \<Rightarrow> bool" where
  "IsOrgRole r \<longleftrightarrow> role_organization_id r \<noteq> None \<and> role_client_id r = None"

definition IsClientRole :: "role \<Rightarrow> bool" where
  "IsClientRole r \<longleftrightarrow> role_client_id r \<noteq> None"

definition HasPermission :: "role \<Rightarrow> string \<Rightarrow> string \<Rightarrow> bool" where
  "HasPermission r resource action \<longleftrightarrow>
     list_ex (\<lambda>p. perm_resource p = resource \<and> perm_action p = action) (role_permissions r)"

definition HasPermissionString :: "role \<Rightarrow> string \<Rightarrow> bool" where
  "HasPermissionString r permission =
     (case cut_at (CHR '':'') permission of
        (_, None) \<Rightarrow> False
      | (resource, Some action) \<Rightarrow> HasPermission r resource action)"

record role_response =
  rrsp_id :: string
  rrsp_version_id :: string
  rrsp_tier :: scope_tier
  rrsp_organization_id :: "string option"
  rrsp_client_id :: "string option"
  rrsp_name :: string
  rrsp_slug :: string
  rrsp_ordinal :: int
  rrsp_description :: "string option"
  rrsp_is_system :: bool
  rrsp_is_protected :: bool
  rrsp_is_template :: bool

definition Role_ToResponse :: "role \<Rightarrow> role_response" where
  "Role_ToResponse r =
     \<lparr>rrsp_id = role_id r, rrsp_version_id = role_version_id r, rrsp_tier = Role_Tier r,
      rrsp_organization_id = role_organization_id r, rrsp_client_id = role_client_id r,
      rrsp_name = role_name r, rrsp_slug = role_slug r, rrsp_ordinal = role_ordinal r,
      rrsp_description = role_description r, rrsp_is_system = role_is_system r,
      rrsp_is_protected = role_is_protected r, rrsp_is_template = role_is_template r\<rparr>"

definition ProtectedRoleSlugs :: "string list" where
  "ProtectedRoleSlugs = [''root'', ''admin'']"

definition IsProtectedSlug :: "string \<Rightarrow> bool" where
  "IsProtectedSlug slug \<longleftrightarrow> list_ex (\<lambda>protected. slug = protected) ProtectedRoleSlugs"

section \<open>Role assignments\<close>

record user_role =
  ur_id :: string
  ur_user_id :: string
  ur_role_id :: string
  ur_organization_id :: "string option"
  ur_client_id :: "string option"
  ur_scope_organization_ids :: "string list"
  ur_scope_client_ids :: "string list"
  ur_granted_by :: "string option"
  ur_revoked_at :: "time option"
  ur_revoked_by :: "string option"
  ur_role :: "role option"
  ur_organization :: "organization option"
  ur_client :: "client option"

definition UserRole_IsActive :: "user_role \<Rightarrow> bool" where
  "UserRole_IsActive ur \<longleftrightarrow> ur_revoked_at ur = None"

definition UserRole_Tier :: "user_role \<Rightarrow> scope_tier" where
  "UserRole_Tier ur = tier_of (ur_organization_id ur) (ur_client_id ur)"

record user_role_response =
  ursp_id :: string
  ursp_user_id :: string
  ursp_role_id :: string
  ursp_organization_id :: "string option"
  ursp_client_id :: "string option"
  ursp_tier :: scope_tier
  ursp_role :: "role_response option"

definition UserRole_ToResponse :: "user_role \<Rightarrow> user_role_response" where
  "UserRole_ToResponse ur =
     \<lparr>ursp_id = ur_id ur, ursp_user_id = ur_user_id ur, ursp_role_id = ur_role_id ur,
      ursp_organization_id = ur_organization_id ur, ursp_client_id = ur_client_id ur,
      ursp_tier = UserRole_Tier ur, ursp_role = map_option Role_ToResponse (ur_role ur)\<rparr>"

section \<open>Users\<close>

record user =
  u_id :: string
  u_version_id :: string
  u_username :: string
  u_email :: string
  u_password_hash :: string
  u_roles :: "string list"
  u_primary_organization_id :: "string option"
  u_primary_client_id :: "string option"
  u_created_by :: "string option"
  u_updated_by :: "string option"
  u_disabled_at :: "time option"
  u_disabled_by :: "string option"
  u_deleted_at :: "time option"
  u_deleted_by :: "string option"
  u_permissions_version :: int
  u_user_roles :: "user_role list"
  u_created_from_ip :: "string option"
  u_created_source_type :: int
  u_disabled_from_ip :: "string option"
  u_disabled_source_type :: int
  u_deleted_from_ip :: "string option"
  u_deleted_source_type :: int

definition User_IsActive :: "user \<Rightarrow> bool" where
  "User_IsActive u \<longleftrightarrow> u_disabled_at u = None \<and> u_deleted_at u = None"

definition GetScopeTier :: "user \<Rightarrow> scope_tier" where
  "GetScopeTier u =
     (if u_primary_client_id u \<noteq> None then TierClient
      else if u_primary_organization_id u \<noteq> None then TierOrganization
      else TierPlatform)"

record user_response =
  usr_id :: string
  usr_version_id :: string
  usr_username :: string
  usr_email :: string
  usr_roles :: "string list"
  usr_enabled :: bool

definition User_ToResponse :: "user \<Rightarrow> user_response" where
  "User_ToResponse u =
     \<lparr>usr_id = u_id u, usr_version_id = u_version_id u, usr_username = u_username u,
      usr_email = u_email u, usr_roles = u_roles u, usr_enabled = User_IsActive u\<rparr>"

definition HasProtectedRole :: "user \<Rightarrow> bool" where
  "HasProtectedRole u \<longleftrightarrow>
     list_ex (\<lambda>ur. case ur_role ur of
                     None \<Rightarrow> False
                   | Some r \<Rightarrow> UserRole_IsActive ur \<and> role_is_protected r \<and> role_ordinal r = 0)
       (u_user_roles u)"

definition Can :: "user \<Rightarrow> string \<Rightarrow> bool" where
  "Can u permission \<longleftrightarrow>
     (if HasProtectedRole u then True
      else list_ex (\<lambda>ur. case ur_role ur of
                           None \<Rightarrow> False
                         | Some r \<Rightarrow> UserRole_IsActive ur \<and> HasPermissionString r permission)
             (u_user_roles u))"

fun lowest_from :: "int \<Rightarrow> user_role list \<Rightarrow> int" where
  \<comment> \<open>the loop of \<open>LowestOrdinal\<close>\<close>
  "lowest_from lowest [] = lowest"
| "lowest_from lowest (ur # urs) =
     lowest_from
       (case ur_role ur of
          None \<Rightarrow> lowest
        | Some r \<Rightarrow>
            if UserRole_IsActive ur \<and> role_ordinal r < lowest then role_ordinal r else lowest)
       urs"

definition LowestOrdinal :: "user \<Rightarrow> int" where
  "LowestOrdinal u = lowest_from 100 (u_user_roles u)"

fun highest_from :: "int \<Rightarrow> user_role list \<Rightarrow> int" where
  "highest_from highest [] = highest"
| "highest_from highest (ur # urs) =
     highest_from
       (case ur_role ur of
          None \<Rightarrow> highest
        | Some r \<Rightarrow>
            if UserRole_IsActive ur \<and> role_ordinal r > highest then role_ordinal r else highest)
       urs"

definition HighestOrdinal :: "user \<Rightarrow> int" where
  "HighestOrdinal u = highest_from (- 1) (u_user_roles u)"

definition GetActiveRoles :: "user \<Rightarrow> user_role list" where
  "GetActiveRoles u = filter UserRole_IsActive (u_user_roles u)"

fun add_permissions :: "permission list \<Rightarrow> string list \<Rightarrow> string list" where
  \<comment> \<open>the inner loop of \<open>GetPermissions\<close>; \<open>seen\<close> holds the elements of the result\<close>
  "add_permissions [] acc = acc"
| "add_permissions (p # ps) acc =
     add_permissions ps
       (if Permission_String p \<notin> set acc then acc @ [Permission_String p] else acc)"

fun permissions_from :: "user_role list \<Rightarrow> string list \<Rightarrow> string list" where
  "permissions_from [] acc = acc"
| "permissions_from (ur # urs) acc =
     permissions_from urs
       (case ur_role ur of
          None \<Rightarrow> acc
        | Some r \<Rightarrow> if UserRole_IsActive ur then add_permissions (role_permissions r) acc else acc)"

definition GetPermissions :: "user \<Rightarrow> string list" where
  "GetPermissions u = permissions_from (u_user_roles u) []"

section \<open>Acting in a scope\<close>

text \<open>The lookup function \<open>clientBelongsToOrg\<close> may be nil.\<close>

type_synonym org_lookup = "(string \<Rightarrow> string \<Rightarrow> bool) option"

definition CanActInScope ::
  "user \<Rightarrow> string \<Rightarrow> string option \<Rightarrow> string option \<Rightarrow> org_lookup \<Rightarrow> bool option" where
  "CanActInScope u permission targetOrgID targetClientID clientBelongsToOrg =
     (if \<not> Can u permission then Some False
      else if GetScopeTier u = TierPlatform then Some True
      else if GetScopeTier u = TierOrganization then
        (case u_primary_organization_id u of
           None \<Rightarrow> None
         | Some own \<Rightarrow>
             if targetOrgID = None \<and> targetClientID = None then Some False
             else if targetOrgID \<noteq> None \<and> targetOrgID \<noteq> Some own then Some False
             else
               (case targetClientID of
                  None \<Rightarrow> Some True
                | Some cid \<Rightarrow>
                    (case clientBelongsToOrg of
                       None \<Rightarrow> Some False
                     | Some belongs \<Rightarrow> if \<not> belongs cid own then Some False else Some True)))
      else if GetScopeTier u = TierClient then
        (if targetClientID = None \<or> targetClientID \<noteq> u_primary_client_id u then Some False
         else
           (case targetOrgID of
              None \<Rightarrow> Some True
            | Some oid \<Rightarrow>
                (case u_primary_organization_id u of
                   None \<Rightarrow> None
                 | Some own \<Rightarrow> if oid \<noteq> own then Some False else Some True)))
      else Some False)"

definition CanActOnOrganization :: "user \<Rightarrow> string \<Rightarrow> string \<Rightarrow> bool option" where
  "CanActOnOrganization u permission targetOrgID =
     CanActInScope u permission (Some targetOrgID) None None"

definition CanActOnClient :: "user \<Rightarrow> string \<Rightarrow> string \<Rightarrow> string \<Rightarrow> org_lookup \<Rightarrow> bool option" where
  "CanActOnClient u permission targetOrgID targetClientID clientBelongsToOrg =
     CanActInScope u permission (Some targetOrgID) (Some targetClientID) clientBelongsToOrg"

definition CanActAtPlatformLevel :: "user \<Rightarrow> string \<Rightarrow> bool option" where
  "CanActAtPlatformLevel u permission = CanActInScope u permission None None None"

definition CanManageUser :: "user \<Rightarrow> user \<Rightarrow> org_lookup \<Rightarrow> bool option" where
  "CanManageUser u target clientBelongsToOrg =
     (if HasProtectedRole target then Some False
      else if \<not> Can u ''users:update'' then Some False
      else if LowestOrdinal u > LowestOrdinal target then Some False
      else
        (case CanActInScope u ''users:update'' (u_primary_organization_id target)
                (u_primary_client_id target) clientBelongsToOrg of
           None \<Rightarrow> None
         | Some ok \<Rightarrow> if \<not> ok then Some False else Some True))"

definition CanResetPassword :: "user \<Rightarrow> user \<Rightarrow> org_lookup \<Rightarrow> bool option" where
  "CanResetPassword u target clientBelongsToOrg =
     (if HasProtectedRole target then Some False
      else if \<not> Can u ''users:reset_password'' then Some False
      else if LowestOrdinal u > LowestOrdinal target then Some False
      else
        (case CanActInScope u ''users:reset_password'' (u_primary_organization_id target)
                (u_primary_client_id target) clientBelongsToOrg of
           None \<Rightarrow> None
         | Some ok \<Rightarrow> if \<not> ok then Some False else Some True))"

definition CanAssignRole :: "user \<Rightarrow> role \<Rightarrow> bool" where
  "CanAssignRole u r \<longleftrightarrow>
     (if role_is_protected r then False
      else if \<not> Can u ''users:assign_roles'' then False
      else if role_ordinal r < LowestOrdinal u then False
      else True)"

section \<open>Ingestion tokens and sessions\<close>

record hec_token =
  ht_id :: string
  ht_token :: string
  ht_name :: string
  ht_user_id :: string
  ht_client_id :: string
  ht_created_by :: string
  ht_expires_at :: "time option"
  ht_disabled_at :: "time option"
  ht_disabled_by :: "string option"
  ht_revoked_at :: "time option"
  ht_revoked_by :: "string option"
  ht_created_from_ip :: "string option"
  ht_created_source_type :: int
  ht_disabled_from_ip :: "string option"
  ht_disabled_source_type :: int
  ht_revoked_from_ip :: "string option"
  ht_revoked_source_type :: int

definition HECToken_IsActive :: "time \<Rightarrow> hec_token \<Rightarrow> bool" where
  "HECToken_IsActive now t \<longleftrightarrow>
     (if ht_disabled_at t \<noteq> None \<or> ht_revoked_at t \<noteq> None then False
      else (case ht_expires_at t of None \<Rightarrow> True | Some e \<Rightarrow> \<not> e < now))"

record hec_token_response =
  hr_id :: string
  hr_token :: string
  hr_name :: string
  hr_user_id :: string
  hr_client_id :: string
  hr_username :: string
  hr_enabled :: bool
  hr_expires_at :: "time option"

definition MaskToken :: "string \<Rightarrow> string" where
  "MaskToken token =
     (if length token \<le> 16 then token
      else take 8 token @ ''...'' @ drop (length token - 8) token)"

definition HECToken_ToResponse :: "time \<Rightarrow> hec_token \<Rightarrow> hec_token_response" where
  "HECToken_ToResponse now t =
     \<lparr>hr_id = ht_id t, hr_token = ht_token t, hr_name = ht_name t, hr_user_id = ht_user_id t,
      hr_client_id = ht_client_id t, hr_username = [], hr_enabled = HECToken_IsActive now t,
      hr_expires_at = ht_expires_at t\<rparr>"

definition ToMaskedResponse :: "time \<Rightarrow> hec_token \<Rightarrow> hec_token_response" where
  "ToMaskedResponse now t =
     \<lparr>hr_id = ht_id t, hr_token = MaskToken (ht_token t), hr_name = ht_name t,
      hr_user_id = ht_user_id t, hr_client_id = [], hr_username = [],
      hr_enabled = HECToken_IsActive now t, hr_expires_at = ht_expires_at t\<rparr>"

definition ToMaskedResponseWithUsername ::
  "time \<Rightarrow> string \<Rightarrow> hec_token \<Rightarrow> hec_token_response" where
  "ToMaskedResponseWithUsername now username t =
     \<lparr>hr_id = ht_id t, hr_token = MaskToken (ht_token t), hr_name = ht_name t,
      hr_user_id = ht_user_id t, hr_client_id = [], hr_username = username,
      hr_enabled = HECToken_IsActive now t, hr_expires_at = ht_expires_at t\<rparr>"

record session =
  s_id :: string
  s_user_id :: string
  s_access_token :: string
  s_refresh_token :: string
  s_expires_at :: time
  s_revoked_at :: "time option"
  s_revoked_by :: "string option"
  s_ip_address :: "string option"
  s_user_agent :: "string option"
  s_source_type :: int
  s_revoked_from_ip :: "string option"
  s_revoked_source_type :: int

definition Session_IsActive :: "time \<Rightarrow> session \<Rightarrow> bool" where
  "Session_IsActive now s \<longleftrightarrow>
     (if is_zero (s_expires_at s) then False
      else s_revoked_at s = None \<and> now < s_expires_at s)"

section \<open>Laws\<close>

definition active_roles :: "user \<Rightarrow> role list" where
  \<comment> \<open>the roles that count in every check: loaded, and through an assignment not revoked\<close>
  "active_roles u =
     concat (map (\<lambda>ur. case ur_role ur of
                         None \<Rightarrow> []
                       | Some r \<Rightarrow> if UserRole_IsActive ur then [r] else []) (u_user_roles u))"

lemma active_roles_iff:
  "r \<in> set (active_roles u) \<longleftrightarrow>
     (\<exists>ur\<in>set (u_user_roles u). ur_role ur = Some r \<and> UserRole_IsActive ur)"
  by (force simp: active_roles_def split: option.splits if_splits)

lemma case_option_ex: "(case x of None \<Rightarrow> False | Some r \<Rightarrow> P r) \<longleftrightarrow> (\<exists>r. x = Some r \<and> P r)"
  by (cases x) auto

lemma HasProtectedRole_iff:
  "HasProtectedRole u \<longleftrightarrow> (\<exists>r\<in>set (active_roles u). role_is_protected r \<and> role_ordinal r = 0)"
  unfolding HasProtectedRole_def list_ex_iff case_option_ex Bex_def active_roles_iff by blast

lemma Can_iff:
  "Can u p \<longleftrightarrow> HasProtectedRole u \<or> (\<exists>r\<in>set (active_roles u). HasPermissionString r p)"
  unfolding Can_def list_ex_iff case_option_ex Bex_def active_roles_iff by auto

lemma HasPermissionString_iff:
  "HasPermissionString r p \<longleftrightarrow>
     (\<exists>res act. p = res @ CHR '':'' # act \<and> CHR '':'' \<notin> set res \<and> HasPermission r res act)"
proof (cases "cut_at (CHR '':'') p")
  case (Pair res rest)
  show ?thesis
  proof (cases rest)
    case None
    with Pair cut_at_None have "CHR '':'' \<notin> set p" by fast
    with Pair None show ?thesis by (auto simp: HasPermissionString_def)
  next
    case (Some act)
    with Pair have p: "p = res @ CHR '':'' # act" "CHR '':'' \<notin> set res"
      by (auto dest: cut_at_Some)
    have "HasPermissionString r p \<longleftrightarrow> HasPermission r res act"
      using Pair Some by (simp add: HasPermissionString_def)
    moreover have "res' = res \<and> act' = act"
      if "p = res' @ CHR '':'' # act'" "CHR '':'' \<notin> set res'" for res' act'
      using cut_at_append [OF that(2), of act'] Pair Some that(1) by simp
    ultimately show ?thesis using p by blast
  qed
qed

lemma lowest_from_le: "x \<le> lowest_from l urs \<longleftrightarrow> x \<le> l \<and>
    (\<forall>ur\<in>set urs. \<forall>r. ur_role ur = Some r \<longrightarrow> UserRole_IsActive ur \<longrightarrow> x \<le> role_ordinal r)"
  by (induction l urs rule: lowest_from.induct) (auto split: option.splits)

lemma highest_from_le: "highest_from h urs \<le> x \<longleftrightarrow> h \<le> x \<and>
    (\<forall>ur\<in>set urs. \<forall>r. ur_role ur = Some r \<longrightarrow> UserRole_IsActive ur \<longrightarrow> role_ordinal r \<le> x)"
  by (induction h urs rule: highest_from.induct) (auto split: option.splits)

lemma LowestOrdinal_ge_iff:
  "x \<le> LowestOrdinal u \<longleftrightarrow> x \<le> 100 \<and> (\<forall>r\<in>set (active_roles u). x \<le> role_ordinal r)"
  by (auto simp: LowestOrdinal_def lowest_from_le active_roles_iff)

lemma HighestOrdinal_le_iff:
  "HighestOrdinal u \<le> x \<longleftrightarrow> - 1 \<le> x \<and> (\<forall>r\<in>set (active_roles u). role_ordinal r \<le> x)"
  by (auto simp: HighestOrdinal_def highest_from_le active_roles_iff)

lemma LowestOrdinal_Min:
  "LowestOrdinal u = Min (insert 100 (role_ordinal ` set (active_roles u)))"
proof (rule antisym)
  show "LowestOrdinal u \<le> Min (insert 100 (role_ordinal ` set (active_roles u)))"
    using LowestOrdinal_ge_iff [of "LowestOrdinal u" u] by simp
  show "Min (insert 100 (role_ordinal ` set (active_roles u))) \<le> LowestOrdinal u"
    by (auto simp: LowestOrdinal_ge_iff intro: Min_le)
qed

lemma HighestOrdinal_Max:
  "HighestOrdinal u = Max (insert (- 1) (role_ordinal ` set (active_roles u)))"
proof (rule antisym)
  show "HighestOrdinal u \<le> Max (insert (- 1) (role_ordinal ` set (active_roles u)))"
    by (auto simp: HighestOrdinal_le_iff intro: Max_ge)
  show "Max (insert (- 1) (role_ordinal ` set (active_roles u))) \<le> HighestOrdinal u"
    using HighestOrdinal_le_iff [of u "HighestOrdinal u"] by simp
qed

lemma add_permissions_set: "set (add_permissions ps acc) = set acc \<union> Permission_String ` set ps"
  by (induction ps acc rule: add_permissions.induct) auto

lemma add_permissions_distinct: "distinct acc \<Longrightarrow> distinct (add_permissions ps acc)"
  by (induction ps acc rule: add_permissions.induct) auto

lemma permissions_from_set:
  "set (permissions_from urs acc) =
     set acc \<union> {Permission_String p |p ur r. ur \<in> set urs \<and> ur_role ur = Some r
                   \<and> UserRole_IsActive ur \<and> p \<in> set (role_permissions r)}"
  by (induction urs acc rule: permissions_from.induct)
    (force simp: add_permissions_set split: option.splits)+

lemma permissions_from_distinct: "distinct acc \<Longrightarrow> distinct (permissions_from urs acc)"
  by (induction urs acc rule: permissions_from.induct)
    (auto simp: add_permissions_distinct split: option.splits)

lemma GetPermissions_set:
  "set (GetPermissions u) =
     {Permission_String p |p r. r \<in> set (active_roles u) \<and> p \<in> set (role_permissions r)}"
  by (auto simp: GetPermissions_def permissions_from_set active_roles_iff)

definition in_scope ::
  "org_lookup \<Rightarrow> user \<Rightarrow> string option \<Rightarrow> string option \<Rightarrow> bool" where
  \<comment> \<open>the scope rules: a platform user acts anywhere; an organization user on the own organization
    and on clients that belong to it; a client user on the own client\<close>
  "in_scope lookup u org cl \<longleftrightarrow>
     (case GetScopeTier u of
        TierPlatform \<Rightarrow> True
      | TierOrganization \<Rightarrow>
          (org = None \<or> org = u_primary_organization_id u) \<and> (org \<noteq> None \<or> cl \<noteq> None)
          \<and> (\<forall>c. cl = Some c \<longrightarrow>
               (\<exists>belongs. lookup = Some belongs \<and> belongs c (the (u_primary_organization_id u))))
      | TierClient \<Rightarrow>
          cl = u_primary_client_id u \<and> (org = None \<or> org = u_primary_organization_id u))"

definition scope_panics :: "user \<Rightarrow> string option \<Rightarrow> string option \<Rightarrow> bool" where
  \<comment> \<open>a client user without an organization, asked about the own client and some organization\<close>
  "scope_panics u org cl \<longleftrightarrow>
     GetScopeTier u = TierClient \<and> u_primary_organization_id u = None
     \<and> cl = u_primary_client_id u \<and> org \<noteq> None"

lemma GetScopeTier_org:
  "GetScopeTier u = TierOrganization \<longleftrightarrow>
     u_primary_client_id u = None \<and> u_primary_organization_id u \<noteq> None"
  "GetScopeTier u = TierClient \<longleftrightarrow> u_primary_client_id u \<noteq> None"
  "GetScopeTier u = TierPlatform \<longleftrightarrow>
     u_primary_client_id u = None \<and> u_primary_organization_id u = None"
  by (auto simp: GetScopeTier_def)

lemma CanActInScope_eq:
  "CanActInScope u p org cl lookup =
     (if \<not> Can u p then Some False
      else if scope_panics u org cl then None
      else Some (in_scope lookup u org cl))"
proof (cases "GetScopeTier u")
  case TierPlatform
  then show ?thesis by (simp add: CanActInScope_def in_scope_def scope_panics_def)
next
  case TierOrganization
  then obtain own where "u_primary_organization_id u = Some own"
    by (auto simp: GetScopeTier_org)
  with TierOrganization show ?thesis
    by (auto simp: CanActInScope_def in_scope_def scope_panics_def split: option.splits)
next
  case TierClient
  then obtain own where "u_primary_client_id u = Some own"
    by (auto simp: GetScopeTier_org)
  with TierClient show ?thesis
    by (auto simp: CanActInScope_def in_scope_def scope_panics_def split: option.splits)
qed

lemma CanActInScope_True:
  "CanActInScope u p org cl lookup = Some True \<longleftrightarrow>
     Can u p \<and> \<not> scope_panics u org cl \<and> in_scope lookup u org cl"
  by (simp add: CanActInScope_eq)

lemma CanManageUser_True:
  "CanManageUser u t lookup = Some True \<longleftrightarrow>
     \<not> HasProtectedRole t \<and> LowestOrdinal u \<le> LowestOrdinal t
     \<and> CanActInScope u ''users:update'' (u_primary_organization_id t) (u_primary_client_id t) lookup
       = Some True"
  by (auto simp: CanManageUser_def CanActInScope_eq)

lemma CanResetPassword_True:
  "CanResetPassword u t lookup = Some True \<longleftrightarrow>
     \<not> HasProtectedRole t \<and> LowestOrdinal u \<le> LowestOrdinal t
     \<and> CanActInScope u ''users:reset_password'' (u_primary_organization_id t)
         (u_primary_client_id t) lookup = Some True"
  by (auto simp: CanResetPassword_def CanActInScope_eq)

text \<open>A user with one more assignment.\<close>

definition grant :: "user_role \<Rightarrow> user \<Rightarrow> user" where
  "grant ur u = u\<lparr>u_user_roles := u_user_roles u @ [ur]\<rparr>"

lemma active_roles_grant:
  "set (active_roles (grant ur u)) = set (active_roles u) \<union>
     {r. ur_role ur = Some r \<and> UserRole_IsActive ur}"
  by (auto simp: active_roles_iff grant_def)

section \<open>Sample users\<close>

definition sample_role :: "int \<Rightarrow> role" where
  "sample_role ordinal =
     \<lparr>role_id = ''r'', role_version_id = ''r'', role_organization_id = None, role_client_id = None,
      role_name = ''Admin'', role_slug = ''org-admin'', role_ordinal = ordinal,
      role_description = None, role_is_system = False, role_is_protected = False,
      role_is_template = False, role_created_by = None, role_updated_by = None,
      role_deleted_at = None, role_deleted_by = None,
      role_permissions =
        map (\<lambda>a. \<lparr>perm_id = a, perm_resource = ''users'', perm_action = a, perm_description = None\<rparr>)
          [''update'', ''reset_password'', ''assign_roles'']\<rparr>"

definition sample_assignment :: "int \<Rightarrow> user_role" where
  "sample_assignment ordinal =
     \<lparr>ur_id = ''a'', ur_user_id = ''u'', ur_role_id = ''r'', ur_organization_id = None,
      ur_client_id = None, ur_scope_organization_ids = [], ur_scope_client_ids = [],
      ur_granted_by = None, ur_revoked_at = None, ur_revoked_by = None,
      ur_role = Some (sample_role ordinal), ur_organization = None, ur_client = None\<rparr>"

definition sample_user :: "string \<Rightarrow> user_role list \<Rightarrow> string option \<Rightarrow> string option \<Rightarrow> user" where
  "sample_user name urs org cl =
     \<lparr>u_id = name, u_version_id = name, u_username = name, u_email = [], u_password_hash = [],
      u_roles = [''viewer''], u_primary_organization_id = org, u_primary_client_id = cl,
      u_created_by = None, u_updated_by = None, u_disabled_at = None, u_disabled_by = None,
      u_deleted_at = None, u_deleted_by = None, u_permissions_version = 1, u_user_roles = urs,
      u_created_from_ip = None, u_created_source_type = 0, u_disabled_from_ip = None,
      u_disabled_source_type = 0, u_deleted_from_ip = None, u_deleted_source_type = 0\<rparr>"

definition org_admin :: "user_role list \<Rightarrow> user" where
  "org_admin urs = sample_user ''admin'' (sample_assignment 20 # urs) (Some ''o1'') None"

definition client_admin :: user where
  "client_admin = sample_user ''clerk'' [sample_assignment 20] (Some ''o1'') (Some ''c1'')"

lemmas sample_simps = org_admin_def client_admin_def sample_user_def sample_assignment_def
  sample_role_def active_roles_def UserRole_IsActive_def

lemma client_admin_acts:
  "CanActInScope client_admin ''users:update'' (Some ''o1'') (Some ''c1'')
     (Some (\<lambda>c oid. c = ''c1'' \<and> oid = ''o1'')) = Some True"
  by (simp add: CanActInScope_True in_scope_def scope_panics_def GetScopeTier_def Can_iff
      HasPermissionString_def HasPermission_def sample_simps)

section \<open>Properties\<close>

text \<open>\<open>CanActInScope\<close> decides the scope rules exactly: it answers whether the user has the
  permission and the target lies in the user's scope, and it dereferences a nil pointer in
  exactly one situation, a client user without an organization who asks about the own client
  together with some organization.\<close>

lemma CanActInScope_exact:
  "CanActInScope u p org cl lookup =
     (if \<not> Can u p then Some False
      else if GetScopeTier u = TierClient \<and> u_primary_organization_id u = None
           \<and> cl = u_primary_client_id u \<and> org \<noteq> None then None
      else Some (in_scope lookup u org cl))"
  unfolding CanActInScope_eq scope_panics_def ..

text \<open>Authority grows with the tier: whatever a user may do in a scope, a user with the same
  roles and at least that tier, in the same organization and client where the tier has one, may
  do as well, provided the first user's client belongs to the second user's organization.\<close>

lemma authority_monotone_in_tier:
  assumes "CanActInScope u p org cl (Some belongs) = Some True"
    and "u_user_roles u' = u_user_roles u" and "GetScopeTier u \<le> GetScopeTier u'"
    and "GetScopeTier u' \<noteq> TierPlatform \<Longrightarrow>
      u_primary_organization_id u' = u_primary_organization_id u"
    and "GetScopeTier u' = TierClient \<Longrightarrow> u_primary_client_id u' = u_primary_client_id u"
    and "\<And>c own. u_primary_client_id u = Some c \<Longrightarrow> u_primary_organization_id u' = Some own \<Longrightarrow>
      belongs c own"
  shows "CanActInScope u' p org cl (Some belongs) = Some True"
proof -
  from assms(2) have "active_roles u' = active_roles u" by (simp add: active_roles_def)
  with assms(1) have can: "Can u' p" by (simp add: CanActInScope_True Can_iff HasProtectedRole_iff)
  from assms(1) have sc: "in_scope (Some belongs) u org cl" "\<not> scope_panics u org cl"
    by (simp_all add: CanActInScope_True)
  have "in_scope (Some belongs) u' org cl \<and> \<not> scope_panics u' org cl"
  proof (cases "GetScopeTier u'")
    case TierPlatform
    then show ?thesis by (simp add: in_scope_def scope_panics_def)
  next
    case TierClient
    with assms(3) have "GetScopeTier u = TierClient"
      by (cases "GetScopeTier u") (auto simp: less_eq_scope_tier_def)
    with TierClient assms(4,5) sc show ?thesis by (simp add: in_scope_def scope_panics_def)
  next
    case TierOrganization
    then obtain own where own: "u_primary_organization_id u' = Some own"
      by (auto simp: GetScopeTier_org)
    with assms(4) TierOrganization have same: "u_primary_organization_id u = Some own" by simp
    show ?thesis
    proof (cases "GetScopeTier u")
      case TierPlatform
      with assms(3) TierOrganization show ?thesis by (simp add: less_eq_scope_tier_def)
    next
      case tier: TierOrganization
      with TierOrganization sc own same show ?thesis by (simp add: in_scope_def scope_panics_def)
    next
      case TierClient
      then obtain c where "u_primary_client_id u = Some c" by (auto simp: GetScopeTier_org)
      with TierClient TierOrganization sc own same assms(6) show ?thesis
        by (auto simp: in_scope_def scope_panics_def)
    qed
  qed
  with can show ?thesis by (simp add: CanActInScope_True)
qed

text \<open>Nobody manages a more powerful user, or a protected one, and nobody resets the password of
  one; so two users who may manage each other have the same power.\<close>

lemma management_respects_power:
  assumes "CanManageUser u t lookup = Some True \<or> CanResetPassword u t lookup = Some True"
  shows "\<not> HasProtectedRole t \<and> LowestOrdinal u \<le> LowestOrdinal t
    \<and> (CanManageUser t u lookup = Some True \<longrightarrow> LowestOrdinal t = LowestOrdinal u)"
  using assms by (auto simp: CanManageUser_True CanResetPassword_True)

text \<open>Assigning a role does not escalate: if a user may assign a role to a second one, then after
  the assignment the second user is no more powerful than the more powerful of the two was
  before, and has a protected role only if there was one before.\<close>

lemma assignment_does_not_escalate:
  assumes "CanAssignRole u r" and "ur_role ur = Some r"
  shows "min (LowestOrdinal u) (LowestOrdinal t) \<le> LowestOrdinal (grant ur t)
    \<and> (HasProtectedRole (grant ur t) \<longrightarrow> HasProtectedRole t)"
proof
  have "min (LowestOrdinal u) (LowestOrdinal t) \<le> 100"
    using LowestOrdinal_ge_iff [of "LowestOrdinal t" t] by auto
  moreover have "LowestOrdinal u \<le> role_ordinal r"
    using assms(1) by (auto simp: CanAssignRole_def split: if_splits)
  moreover have "LowestOrdinal t \<le> role_ordinal x" if "x \<in> set (active_roles t)" for x
    using that LowestOrdinal_ge_iff [of "LowestOrdinal t" t] by blast
  ultimately show "min (LowestOrdinal u) (LowestOrdinal t) \<le> LowestOrdinal (grant ur t)"
    using assms(2) by (auto simp: LowestOrdinal_ge_iff active_roles_grant min_le_iff_disj)
next
  from assms(1) have "\<not> role_is_protected r" by (auto simp: CanAssignRole_def split: if_splits)
  with assms(2) show "HasProtectedRole (grant ur t) \<longrightarrow> HasProtectedRole t"
    by (auto simp: HasProtectedRole_iff active_roles_grant)
qed

text \<open>The two views of a user's permissions agree. Where no resource name contains a colon,
  \<open>Can\<close> grants exactly the strings that \<open>GetPermissions\<close> lists, or everything to a user with a
  protected role; and \<open>GetPermissions\<close> lists no string twice.\<close>

lemma Can_iff_listed:
  assumes "\<And>r q. r \<in> set (active_roles u) \<Longrightarrow> q \<in> set (role_permissions r) \<Longrightarrow>
      CHR '':'' \<notin> set (perm_resource q)"
  shows "(Can u p \<longleftrightarrow> HasProtectedRole u \<or> p \<in> set (GetPermissions u))
    \<and> distinct (GetPermissions u)"
proof -
  have "HasPermissionString r p \<longleftrightarrow> (\<exists>q\<in>set (role_permissions r). p = Permission_String q)"
    if r: "r \<in> set (active_roles u)" for r
  proof
    assume "HasPermissionString r p"
    then show "\<exists>q\<in>set (role_permissions r). p = Permission_String q"
      by (auto simp: HasPermissionString_iff HasPermission_def list_ex_iff Permission_String_def)
  next
    assume "\<exists>q\<in>set (role_permissions r). p = Permission_String q"
    with assms [OF r] show "HasPermissionString r p"
      by (auto simp: HasPermissionString_iff HasPermission_def list_ex_iff Permission_String_def)
  qed
  then have "Can u p \<longleftrightarrow> HasProtectedRole u \<or> p \<in> set (GetPermissions u)"
    by (auto simp: Can_iff GetPermissions_set)
  then show ?thesis
    by (simp add: GetPermissions_def permissions_from_distinct)
qed

text \<open>\<open>LowestOrdinal\<close> and \<open>HighestOrdinal\<close> are the least and the greatest ordinal among the
  active roles, with 100 and -1 for a user who has none.\<close>

lemma ordinals_are_extremes:
  "LowestOrdinal u = Min (insert 100 (role_ordinal ` set (active_roles u)))
   \<and> HighestOrdinal u = Max (insert (- 1) (role_ordinal ` set (active_roles u)))"
  using LowestOrdinal_Min HighestOrdinal_Max by blast

text \<open>A masked token shows its first and its last 8 bytes and nothing else: what it shows does
  not depend on the bytes between them, nor on how many there are.\<close>

lemma MaskToken_hides_middle:
  assumes "length a = 8" and "length b = 8" and "m \<noteq> []"
  shows "MaskToken (a @ m @ b) = a @ ''...'' @ b"
  using assms by (cases m) (auto simp: MaskToken_def)

text \<open>The masked forms of a token response lose the token's client: they are the full response
  with the token masked and the username set, except that the client id is always empty.\<close>

lemma masked_responses_drop_client:
  "ToMaskedResponseWithUsername now name t =
     (HECToken_ToResponse now t)\<lparr>hr_token := MaskToken (ht_token t), hr_username := name, hr_client_id := []\<rparr>
   \<and> ToMaskedResponse now t = ToMaskedResponseWithUsername now [] t"
  by (simp add: ToMaskedResponse_def ToMaskedResponseWithUsername_def HECToken_ToResponse_def)

end
