(* ===== verification/AuthRepo.thy ===== *)
theory AuthRepo
  imports Rbac
begin

text \<open>
  The in-memory repository of the authenticate service
  (\<^verbatim>\<open>authenticate/internal/repository/memory.go\<close>). Its four maps hold pointers, and \<open>users\<close> and
  \<open>usersByName\<close> share them, so the model has an explicit heap per type: a pointer is an
  address, a map takes a key to an address, and a write through a pointer is seen by everyone
  who holds it. A map is an association list with distinct keys, whose order is the order a
  \<open>range\<close> visits it. Every method runs under the repository's lock, so it is one step.

  The locale \<open>user_store\<close> is what the service relies on: the laws of storing and finding users.
  The repository is shown to satisfy it, under the invariant that its two user maps agree.
\<close>

section \<open>State\<close>

type_synonym addr = nat

datatype repo_error =
    ErrUserNotFound | ErrUserExists | ErrSessionNotFound | ErrHECTokenNotFound
  | ErrOrganizationNotFound | ErrClientNotFound | ErrConflict

record repo =
  r_users :: "(string \<times> addr) list"
  r_users_by_name :: "(string \<times> addr) list"
  r_sessions :: "(string \<times> addr) list"
  r_hec_tokens :: "(string \<times> addr) list"
  h_users :: "addr \<Rightarrow> user"
  h_sessions :: "addr \<Rightarrow> session"
  h_tokens :: "addr \<Rightarrow> hec_token"

definition NewInMemoryRepository :: "'a repo_scheme \<Rightarrow> 'a repo_scheme" where
  \<comment> \<open>four empty maps; the heap is the program's, not the repository's\<close>
  "NewInMemoryRepository st =
     st\<lparr>r_users := [], r_users_by_name := [], r_sessions := [], r_hec_tokens := []\<rparr>"

section \<open>Users\<close>

definition CreateUser :: "addr \<Rightarrow> 'a repo_scheme \<Rightarrow> repo_error option \<times> 'a repo_scheme" where
  "CreateUser p st =
     (let user = h_users st p in
      case map_of (r_users_by_name st) (u_username user) of
        Some _ \<Rightarrow> (Some ErrUserExists, st)
      | None \<Rightarrow>
          (None, st\<lparr>r_users := map_put (u_id user) p (r_users st),
                    r_users_by_name := map_put (u_username user) p (r_users_by_name st)\<rparr>))"

definition GetUserByUsername :: "string \<Rightarrow> 'a repo_scheme \<Rightarrow> repo_error + addr" where
  "GetUserByUsername username st =
     (case map_of (r_users_by_name st) username of
        None \<Rightarrow> Inl ErrUserNotFound
      | Some p \<Rightarrow> Inr p)"

definition GetUserByID :: "string \<Rightarrow> 'a repo_scheme \<Rightarrow> repo_error + addr" where
  "GetUserByID uid st =
     (case map_of (r_users st) uid of None \<Rightarrow> Inl ErrUserNotFound | Some p \<Rightarrow> Inr p)"

definition GetUserWithRoles :: "string \<Rightarrow> 'a repo_scheme \<Rightarrow> repo_error + addr" where
  "GetUserWithRoles uid st = GetUserByID uid st"

definition GetUserPermissionsVersion :: "string \<Rightarrow> 'a repo_scheme \<Rightarrow> repo_error + int" where
  "GetUserPermissionsVersion uid st =
     (case map_of (r_users st) uid of
        None \<Rightarrow> Inl ErrUserNotFound
      | Some p \<Rightarrow> Inr (u_permissions_version (h_users st p)))"

definition UpdateUser :: "addr \<Rightarrow> 'a repo_scheme \<Rightarrow> repo_error option \<times> 'a repo_scheme" where
  "UpdateUser p st =
     (let user = h_users st p in
      case map_of (r_users st) (u_id user) of
        None \<Rightarrow> (Some ErrUserNotFound, st)
      | Some _ \<Rightarrow>
          (None, st\<lparr>r_users := map_put (u_id user) p (r_users st),
                    r_users_by_name := map_put (u_username user) p (r_users_by_name st)\<rparr>))"

definition DeleteUser :: "string \<Rightarrow> 'a repo_scheme \<Rightarrow> repo_error option \<times> 'a repo_scheme" where
  "DeleteUser uid st =
     (case map_of (r_users st) uid of
        None \<Rightarrow> (Some ErrUserNotFound, st)
      | Some p \<Rightarrow>
          (None, st\<lparr>r_users := AList.delete uid (r_users st),
                    r_users_by_name :=
                      AList.delete (u_username (h_users st p)) (r_users_by_name st)\<rparr>))"

definition ListUsers :: "'a repo_scheme \<Rightarrow> addr list" where
  "ListUsers st = map snd (r_users st)"

definition in_list_scope ::
  "string \<Rightarrow> string option \<Rightarrow> string option \<Rightarrow> user \<Rightarrow> bool" where
  \<comment> \<open>the \<open>switch\<close> over \<open>scopeType\<close>\<close>
  "in_list_scope scopeType orgID clientID user \<longleftrightarrow>
     (if scopeType = ''platform'' then
        u_primary_organization_id user = None \<and> u_primary_client_id user = None
      else if scopeType = ''organization'' then
        orgID \<noteq> None \<and> u_primary_organization_id user \<noteq> None
        \<and> u_primary_organization_id user = orgID
      else if scopeType = ''client'' then
        clientID \<noteq> None \<and> u_primary_client_id user \<noteq> None \<and> u_primary_client_id user = clientID
      else True)"

definition ListUsersByScope ::
  "string \<Rightarrow> string option \<Rightarrow> string option \<Rightarrow> 'a repo_scheme \<Rightarrow> addr list" where
  "ListUsersByScope scopeType orgID clientID st =
     filter (\<lambda>p. in_list_scope scopeType orgID clientID (h_users st p)) (map snd (r_users st))"

section \<open>Sessions\<close>

definition CreateSession :: "addr \<Rightarrow> 'a repo_scheme \<Rightarrow> 'a repo_scheme" where
  "CreateSession p st =
     st\<lparr>r_sessions := map_put (s_refresh_token (h_sessions st p)) p (r_sessions st)\<rparr>"

definition GetSession :: "string \<Rightarrow> 'a repo_scheme \<Rightarrow> repo_error + addr" where
  "GetSession refreshToken st =
     (case map_of (r_sessions st) refreshToken of
        None \<Rightarrow> Inl ErrSessionNotFound
      | Some p \<Rightarrow> Inr p)"

definition GetSessionByAccessToken :: "string \<Rightarrow> 'a repo_scheme \<Rightarrow> repo_error + addr" where
  "GetSessionByAccessToken accessToken st =
     (case find (\<lambda>p. s_access_token (h_sessions st p) = accessToken) (map snd (r_sessions st)) of
        None \<Rightarrow> Inl ErrSessionNotFound
      | Some p \<Rightarrow> Inr p)"

definition RevokeSession ::
  "time \<Rightarrow> string \<Rightarrow> 'a repo_scheme \<Rightarrow> repo_error option \<times> 'a repo_scheme" where
  "RevokeSession now refreshToken st =
     (case map_of (r_sessions st) refreshToken of
        None \<Rightarrow> (Some ErrSessionNotFound, st)
      | Some p \<Rightarrow>
          (None, st\<lparr>h_sessions := (h_sessions st)(p := (h_sessions st p)\<lparr>s_revoked_at := Some now\<rparr>)\<rparr>))"

section \<open>Ingestion tokens\<close>

definition CreateHECToken :: "addr \<Rightarrow> 'a repo_scheme \<Rightarrow> 'a repo_scheme" where
  "CreateHECToken p st =
     st\<lparr>r_hec_tokens := map_put (ht_token (h_tokens st p)) p (r_hec_tokens st)\<rparr>"

definition GetHECToken :: "string \<Rightarrow> 'a repo_scheme \<Rightarrow> repo_error + addr" where
  "GetHECToken token st =
     (case map_of (r_hec_tokens st) token of
        None \<Rightarrow> Inl ErrHECTokenNotFound
      | Some p \<Rightarrow> Inr p)"

definition GetHECTokenByID :: "string \<Rightarrow> 'a repo_scheme \<Rightarrow> repo_error + addr" where
  "GetHECTokenByID tid st =
     (case find (\<lambda>p. ht_id (h_tokens st p) = tid) (map snd (r_hec_tokens st)) of
        None \<Rightarrow> Inl ErrHECTokenNotFound
      | Some p \<Rightarrow> Inr p)"

definition ListHECTokensByUser :: "string \<Rightarrow> 'a repo_scheme \<Rightarrow> addr list" where
  "ListHECTokensByUser userID st =
     filter (\<lambda>p. ht_user_id (h_tokens st p) = userID) (map snd (r_hec_tokens st))"

definition ListAllHECTokens :: "'a repo_scheme \<Rightarrow> addr list" where
  "ListAllHECTokens st = map snd (r_hec_tokens st)"

definition RevokeHECToken ::
  "time \<Rightarrow> string \<Rightarrow> 'a repo_scheme \<Rightarrow> repo_error option \<times> 'a repo_scheme" where
  "RevokeHECToken now token st =
     (case map_of (r_hec_tokens st) token of
        None \<Rightarrow> (Some ErrHECTokenNotFound, st)
      | Some p \<Rightarrow>
          (None, st\<lparr>h_tokens := (h_tokens st)(p := (h_tokens st p)\<lparr>ht_revoked_at := Some now\<rparr>)\<rparr>))"

section \<open>Organizations and clients\<close>

text \<open>Stubs, as in the source: there are none.\<close>

definition GetOrganization :: "string \<Rightarrow> 'a repo_scheme \<Rightarrow> repo_error + organization" where
  "GetOrganization oid st = Inl ErrOrganizationNotFound"

definition ListOrganizations :: "'a repo_scheme \<Rightarrow> organization list" where
  "ListOrganizations st = []"

definition GetClient :: "string \<Rightarrow> 'a repo_scheme \<Rightarrow> repo_error + client" where
  "GetClient cid st = Inl ErrClientNotFound"

definition ListClients :: "'a repo_scheme \<Rightarrow> client list" where
  "ListClients st = []"

definition ListClientsByOrganization :: "string \<Rightarrow> 'a repo_scheme \<Rightarrow> client list" where
  "ListClientsByOrganization oid st = []"

section \<open>The invariant\<close>

definition keys_ok :: "(string \<times> addr) list \<Rightarrow> (addr \<Rightarrow> string) \<Rightarrow> bool" where
  \<comment> \<open>distinct keys, and every key is the one its object carries\<close>
  "keys_ok m key \<longleftrightarrow> distinct (map fst m) \<and> (\<forall>k p. map_of m k = Some p \<longrightarrow> key p = k)"

definition repo_ok :: "'a repo_scheme \<Rightarrow> bool" where
  \<comment> \<open>the keys are right, and the two user maps hold the same pointers\<close>
  "repo_ok st \<longleftrightarrow>
     keys_ok (r_users st) (\<lambda>p. u_id (h_users st p))
     \<and> keys_ok (r_users_by_name st) (\<lambda>p. u_username (h_users st p))
     \<and> keys_ok (r_sessions st) (\<lambda>p. s_refresh_token (h_sessions st p))
     \<and> keys_ok (r_hec_tokens st) (\<lambda>p. ht_token (h_tokens st p))
     \<and> (\<forall>p. map_of (r_users st) (u_id (h_users st p)) = Some p
           \<longleftrightarrow> map_of (r_users_by_name st) (u_username (h_users st p)) = Some p)"

lemma keys_ok_put:
  "keys_ok m key \<Longrightarrow> key p = k \<Longrightarrow> keys_ok (map_put k p m) key"
  by (auto simp: keys_ok_def distinct_map_put)

lemma map_of_delete: "map_of (AList.delete k m) = (map_of m)(k := None)"
  by (simp add: delete_conv')

lemma keys_ok_delete: "keys_ok m key \<Longrightarrow> keys_ok (AList.delete k m) key"
  by (auto simp: keys_ok_def map_of_delete distinct_delete)

lemma keys_ok_cong: "(\<And>p. key p = key' p) \<Longrightarrow> keys_ok m key = keys_ok m key'"
  by (simp add: keys_ok_def)

lemma keys_okD: "keys_ok m key \<Longrightarrow> map_of m k = Some p \<Longrightarrow> key p = k"
  by (simp add: keys_ok_def)

lemma repo_ok_new: "repo_ok (NewInMemoryRepository st)"
  by (simp add: repo_ok_def NewInMemoryRepository_def keys_ok_def)

definition store_user :: "addr \<Rightarrow> 'a repo_scheme \<Rightarrow> 'a repo_scheme" where
  \<comment> \<open>the two writes of \<open>CreateUser\<close> and \<open>UpdateUser\<close>\<close>
  "store_user p st =
     st\<lparr>r_users := map_put (u_id (h_users st p)) p (r_users st),
        r_users_by_name := map_put (u_username (h_users st p)) p (r_users_by_name st)\<rparr>"

lemma store_user_simps [simp]:
  "map_of (r_users (store_user p st)) = (map_of (r_users st))(u_id (h_users st p) \<mapsto> p)"
  "map_of (r_users_by_name (store_user p st)) =
     (map_of (r_users_by_name st))(u_username (h_users st p) \<mapsto> p)"
  "h_users (store_user p st) = h_users st"
  by (simp_all add: store_user_def)

lemma CreateUser_eq:
  "CreateUser p st =
     (if map_of (r_users_by_name st) (u_username (h_users st p)) = None
      then (None, store_user p st) else (Some ErrUserExists, st))"
  by (simp add: CreateUser_def store_user_def Let_def split: option.splits)

lemma UpdateUser_eq:
  "UpdateUser p st =
     (if map_of (r_users st) (u_id (h_users st p)) = None
      then (Some ErrUserNotFound, st) else (None, store_user p st))"
  by (simp add: UpdateUser_def store_user_def Let_def split: option.splits)

lemma repo_ok_store_user:
  assumes "repo_ok st"
    and "map_of (r_users st) (u_id (h_users st p)) = x"
    and "map_of (r_users_by_name st) (u_username (h_users st p)) = x"
    and "x = None \<or> x = Some p"
  shows "repo_ok (store_user p st)"
proof -
  have agree: "map_of (r_users st) (u_id (h_users st q)) = Some q \<longleftrightarrow>
      map_of (r_users_by_name st) (u_username (h_users st q)) = Some q" for q
    using assms(1) by (simp add: repo_ok_def)
  have "map_of (r_users (store_user p st)) (u_id (h_users st q)) = Some q \<longleftrightarrow>
      map_of (r_users_by_name (store_user p st)) (u_username (h_users st q)) = Some q" for q
  proof (cases "q = p")
    case True
    then show ?thesis by simp
  next
    case False
    then show ?thesis using agree [of q] assms(2-4)
      by (cases "u_id (h_users st q) = u_id (h_users st p)";
          cases "u_username (h_users st q) = u_username (h_users st p)") auto
  qed
  with assms(1) show ?thesis
    by (simp add: repo_ok_def store_user_def keys_ok_put)
qed

lemma repo_ok_CreateUser:
  assumes "repo_ok st" and "map_of (r_users st) (u_id (h_users st p)) = None"
  shows "repo_ok (snd (CreateUser p st))"
  using assms repo_ok_store_user [OF assms] by (simp add: CreateUser_eq)

lemma repo_ok_stored:
  assumes "repo_ok st" and "map_of (r_users st) uid = Some p"
  shows "u_id (h_users st p) = uid"
    and "map_of (r_users_by_name st) (u_username (h_users st p)) = Some p"
  using assms keys_okD [of "r_users st" "\<lambda>p. u_id (h_users st p)" uid p]
  by (auto simp: repo_ok_def)

lemma repo_ok_named:
  assumes "repo_ok st" and "map_of (r_users_by_name st) n = Some p"
  shows "u_username (h_users st p) = n" and "map_of (r_users st) (u_id (h_users st p)) = Some p"
  using assms keys_okD [of "r_users_by_name st" "\<lambda>p. u_username (h_users st p)" n p]
  by (auto simp: repo_ok_def)

lemma repo_ok_UpdateUser:
  assumes "repo_ok st" and "map_of (r_users st) (u_id (h_users st p)) = Some p"
  shows "repo_ok (snd (UpdateUser p st))"
  using assms repo_ok_store_user [OF assms repo_ok_stored(2) [OF assms]] by (simp add: UpdateUser_eq)

lemma repo_ok_DeleteUser:
  assumes "repo_ok st"
  shows "repo_ok (snd (DeleteUser uid st))"
proof (cases "map_of (r_users st) uid")
  case None
  with assms show ?thesis by (simp add: DeleteUser_def)
next
  case (Some p)
  from repo_ok_stored [OF assms Some] have p: "u_id (h_users st p) = uid"
    "map_of (r_users_by_name st) (u_username (h_users st p)) = Some p" by simp_all
  have "map_of (r_users st) (u_id (h_users st q)) = Some q \<longleftrightarrow>
      map_of (r_users_by_name st) (u_username (h_users st q)) = Some q" for q
    using assms by (simp add: repo_ok_def)
  with p Some assms show ?thesis
    by (auto simp: DeleteUser_def repo_ok_def keys_ok_delete map_of_delete) (metis option.inject)+
qed

lemma repo_ok_write_user:
  assumes "repo_ok st" and "u_id v = u_id (h_users st p)" and "u_username v = u_username (h_users st p)"
  shows "repo_ok (st\<lparr>h_users := (h_users st)(p := v)\<rparr>)"
proof -
  have "(\<lambda>q. u_id (((h_users st)(p := v)) q)) = (\<lambda>q. u_id (h_users st q))"
    "(\<lambda>q. u_username (((h_users st)(p := v)) q)) = (\<lambda>q. u_username (h_users st q))"
    using assms(2,3) by auto
  with assms(1) show ?thesis unfolding repo_ok_def by (simp add: fun_eq_iff)
qed

lemma repo_ok_CreateSession: "repo_ok st \<Longrightarrow> repo_ok (CreateSession p st)"
  by (simp add: repo_ok_def CreateSession_def keys_ok_put)

lemma repo_ok_write_session:
  assumes "repo_ok st" and "s_refresh_token v = s_refresh_token (h_sessions st p)"
  shows "repo_ok (st\<lparr>h_sessions := (h_sessions st)(p := v)\<rparr>)"
proof -
  have "(\<lambda>q. s_refresh_token (((h_sessions st)(p := v)) q)) = (\<lambda>q. s_refresh_token (h_sessions st q))"
    using assms(2) by auto
  with assms(1) show ?thesis by (simp add: repo_ok_def)
qed

lemma repo_ok_RevokeSession: "repo_ok st \<Longrightarrow> repo_ok (snd (RevokeSession now rt st))"
  by (cases "map_of (r_sessions st) rt") (simp_all add: RevokeSession_def repo_ok_write_session)

lemma repo_ok_CreateHECToken: "repo_ok st \<Longrightarrow> repo_ok (CreateHECToken p st)"
  by (simp add: repo_ok_def CreateHECToken_def keys_ok_put)

lemma repo_ok_write_token:
  assumes "repo_ok st" and "ht_token v = ht_token (h_tokens st p)"
  shows "repo_ok (st\<lparr>h_tokens := (h_tokens st)(p := v)\<rparr>)"
proof -
  have "(\<lambda>q. ht_token (((h_tokens st)(p := v)) q)) = (\<lambda>q. ht_token (h_tokens st q))"
    using assms(2) by auto
  with assms(1) show ?thesis by (simp add: repo_ok_def)
qed

lemma repo_ok_RevokeHECToken: "repo_ok st \<Longrightarrow> repo_ok (snd (RevokeHECToken now tok st))"
  by (cases "map_of (r_hec_tokens st) tok") (simp_all add: RevokeHECToken_def repo_ok_write_token)

section \<open>The interface: a store of users\<close>

locale user_store =
  fixes inv :: "'st \<Rightarrow> bool"
    and name_of :: "'st \<Rightarrow> 'p \<Rightarrow> string" and ident :: "'st \<Rightarrow> 'p \<Rightarrow> string"
    and create :: "'p \<Rightarrow> 'st \<Rightarrow> 'e option \<times> 'st"
    and remove :: "string \<Rightarrow> 'st \<Rightarrow> 'e option \<times> 'st"
    and by_name :: "string \<Rightarrow> 'st \<Rightarrow> 'e + 'p" and by_id :: "string \<Rightarrow> 'st \<Rightarrow> 'e + 'p"
    and not_found :: 'e and exists_already :: 'e
  assumes create_taken: "by_name (name_of st p) st = Inr q \<Longrightarrow> create p st = (Some exists_already, st)"
    and create_free: "by_name (name_of st p) st = Inl e \<Longrightarrow>
      \<exists>st'. create p st = (None, st') \<and> name_of st' = name_of st \<and> ident st' = ident st
        \<and> (\<forall>n. by_name n st' = (if n = name_of st p then Inr p else by_name n st))
        \<and> (\<forall>i. by_id i st' = (if i = ident st p then Inr p else by_id i st))"
    and create_inv: "inv st \<Longrightarrow> by_id (ident st p) st = Inl e \<Longrightarrow> inv (snd (create p st))"
    and lookup_error: "by_name n st = Inl e \<Longrightarrow> e = not_found" "by_id i st = Inl e \<Longrightarrow> e = not_found"
    and remove_missing: "by_id i st = Inl e \<Longrightarrow> remove i st = (Some not_found, st)"
    and remove_found: "by_id i st = Inr p \<Longrightarrow>
      \<exists>st'. remove i st = (None, st')
        \<and> (\<forall>n. by_name n st' = (if n = name_of st p then Inl not_found else by_name n st))
        \<and> (\<forall>j. by_id j st' = (if j = i then Inl not_found else by_id j st))"
    and remove_inv: "inv st \<Longrightarrow> inv (snd (remove i st))"
    and found_by_id: "inv st \<Longrightarrow> by_id i st = Inr p \<Longrightarrow>
      ident st p = i \<and> by_name (name_of st p) st = Inr p"
    and found_by_name: "inv st \<Longrightarrow> by_name n st = Inr p \<Longrightarrow>
      name_of st p = n \<and> by_id (ident st p) st = Inr p"
begin

lemma names_unique:
  assumes "inv st" and "by_id i st = Inr p" and "by_id j st = Inr q"
    and "name_of st p = name_of st q"
  shows "i = j \<and> p = q"
  using found_by_id [OF assms(1,2)] found_by_id [OF assms(1,3)] assms(4)
  by (metis sum.inject(2))

lemma create_then_find:
  assumes "create p st = (None, st')"
  shows "by_name (name_of st p) st' = Inr p \<and> by_id (ident st p) st' = Inr p"
proof (cases "by_name (name_of st p) st")
  case (Inl e)
  from create_free [OF this] assms show ?thesis by auto
next
  case (Inr q)
  from create_taken [OF this] assms show ?thesis by simp
qed

lemma create_twice_fails:
  assumes "create p st = (None, st')" and "name_of st' q = name_of st p"
  shows "create q st' = (Some exists_already, st')"
  using create_then_find [OF assms(1)] assms(2) create_taken [of st' q p] by simp

lemma create_remove:
  assumes "create p st = (None, st')" and "by_id (ident st p) st = Inl e"
  shows "\<exists>st''. remove (ident st p) st' = (None, st'')
    \<and> (\<forall>n. by_name n st'' = by_name n st) \<and> (\<forall>i. by_id i st'' = by_id i st)"
proof -
  obtain e' where free: "by_name (name_of st p) st = Inl e'"
    using create_taken [of st p] assms(1) by (cases "by_name (name_of st p) st") auto
  from create_free [OF free] assms(1)
  have st': "name_of st' = name_of st" "\<And>n. by_name n st' = (if n = name_of st p then Inr p else by_name n st)"
    "\<And>i. by_id i st' = (if i = ident st p then Inr p else by_id i st)" by auto
  then have "by_id (ident st p) st' = Inr p" by simp
  from remove_found [OF this] obtain st'' where
    "remove (ident st p) st' = (None, st'')"
    "\<And>n. by_name n st'' = (if n = name_of st' p then Inl not_found else by_name n st')"
    "\<And>j. by_id j st'' = (if j = ident st p then Inl not_found else by_id j st')" by blast
  with st' free assms(2) lookup_error show ?thesis by auto
qed

end

lemma GetUser_iffs:
  "GetUserByUsername n st = Inr p \<longleftrightarrow> map_of (r_users_by_name st) n = Some p"
  "GetUserByUsername n st = Inl e \<longleftrightarrow> map_of (r_users_by_name st) n = None \<and> e = ErrUserNotFound"
  "GetUserByID i st = Inr p \<longleftrightarrow> map_of (r_users st) i = Some p"
  "GetUserByID i st = Inl e \<longleftrightarrow> map_of (r_users st) i = None \<and> e = ErrUserNotFound"
  by (auto simp: GetUserByUsername_def GetUserByID_def split: option.splits)

lemma DeleteUser_found:
  "map_of (r_users st) uid = Some p \<Longrightarrow>
     DeleteUser uid st =
       (None, st\<lparr>r_users := AList.delete uid (r_users st),
                r_users_by_name := AList.delete (u_username (h_users st p)) (r_users_by_name st)\<rparr>)"
  by (simp add: DeleteUser_def)

interpretation mem: user_store repo_ok "\<lambda>st p. u_username (h_users st p)"
  "\<lambda>st p. u_id (h_users st p)" CreateUser DeleteUser GetUserByUsername GetUserByID
  ErrUserNotFound ErrUserExists
proof (unfold_locales, goal_cases)
  case (1 st p q)
  then show ?case by (simp add: GetUser_iffs CreateUser_eq)
next
  case (2 st p e)
  then have "CreateUser p st = (None, store_user p st)" by (simp add: GetUser_iffs CreateUser_eq)
  then show ?case
    by (intro exI [of _ "store_user p st"]) (simp add: GetUserByUsername_def GetUserByID_def)
next
  case (3 st p e)
  then show ?case by (simp add: GetUser_iffs repo_ok_CreateUser)
next
  case (4 n st e)
  then show ?case by (simp add: GetUser_iffs)
next
  case (5 i st e)
  then show ?case by (simp add: GetUser_iffs)
next
  case (6 i st e)
  then show ?case by (simp add: GetUser_iffs DeleteUser_def)
next
  case (7 i st p)
  then show ?case
    by (simp add: GetUser_iffs DeleteUser_found)
      (simp add: GetUserByUsername_def GetUserByID_def map_of_delete)
next
  case (8 st i)
  then show ?case by (rule repo_ok_DeleteUser)
next
  case (9 st i p)
  then show ?case using repo_ok_stored [of st i p] by (simp add: GetUser_iffs)
next
  case (10 st n p)
  then show ?case using repo_ok_named [of st n p] by (simp add: GetUser_iffs)
qed

definition sample_repo :: "(addr \<Rightarrow> user) \<Rightarrow> repo" where
  "sample_repo h =
     \<lparr>r_users = [], r_users_by_name = [], r_sessions = [], r_hec_tokens = [], h_users = h,
      h_sessions = (\<lambda>_. undefined), h_tokens = (\<lambda>_. undefined)\<rparr>"

lemma sample_repo_simps [simp]:
  "r_users (sample_repo h) = []" "r_users_by_name (sample_repo h) = []"
  "r_sessions (sample_repo h) = []" "r_hec_tokens (sample_repo h) = []"
  "h_users (sample_repo h) = h"
  by (simp_all add: sample_repo_def)

lemma sample_created: "repo_ok (store_user p (sample_repo h))"
  by (rule repo_ok_store_user [where x = None]) (simp_all add: repo_ok_def keys_ok_def)

lemma clerk_names [simp]:
  "u_id client_admin = ''clerk''" "u_username client_admin = ''clerk''"
  by (simp_all add: client_admin_def sample_user_def)

section \<open>Properties\<close>

text \<open>C40: Creating a user and deleting it again gives back the repository as its lookups see it: if
  \<open>CreateUser\<close> succeeds for an id not in use, then \<open>DeleteUser\<close> of that id succeeds, and after it
  every lookup, by name and by id, answers as before the creation.\<close>

theorem create_delete_roundtrip:
  assumes "CreateUser p st = (None, st')" and "GetUserByID (u_id (h_users st p)) st = Inl e"
  shows "\<exists>st''. DeleteUser (u_id (h_users st p)) st' = (None, st'')
    \<and> (\<forall>n. GetUserByUsername n st'' = GetUserByUsername n st)
    \<and> (\<forall>i. GetUserByID i st'' = GetUserByID i st)"
  using assms by (rule mem.create_remove)

theorem create_delete_roundtrip_witness:
  "let st = sample_repo (\<lambda>_. client_admin) in
   \<exists>st' st''. CreateUser 0 st = (None, st') \<and> DeleteUser ''clerk'' st' = (None, st'')
     \<and> GetUserByUsername ''clerk'' st'' = GetUserByUsername ''clerk'' st"
proof -
  let ?st = "sample_repo (\<lambda>_. client_admin)"
  have c: "CreateUser 0 ?st = (None, store_user 0 ?st)" by (simp add: CreateUser_eq)
  have f: "GetUserByID (u_id (h_users ?st 0)) ?st = Inl ErrUserNotFound"
    by (simp add: GetUser_iffs)
  from create_delete_roundtrip [OF c f] c show ?thesis by (auto simp: Let_def)
qed

text \<open>In a consistent repository no two users have the same name: two ids whose users have equal
  names are the same id and lead to the same object; and a name that is taken is refused.\<close>

lemma usernames_unique:
  assumes "repo_ok st" and "GetUserByID i st = Inr p" and "GetUserByID j st = Inr q"
  shows "(u_username (h_users st p) = u_username (h_users st q) \<longrightarrow> i = j \<and> p = q)
    \<and> (\<forall>x. u_username (h_users st x) = u_username (h_users st p) \<longrightarrow>
          CreateUser x st = (Some ErrUserExists, st))"
  using mem.names_unique [OF assms] mem.found_by_id [OF assms(1,2)] mem.create_taken by metis

text \<open>Renaming by storing another object for the same id leaves the old name behind: after
  \<open>UpdateUser\<close> the old name still leads to the old object, and the two user maps disagree.\<close>

lemma rename_leaves_old_name:
  assumes "repo_ok st" and "GetUserByUsername n st = Inr p"
    and "u_id (h_users st q) = u_id (h_users st p)" and "u_username (h_users st q) \<noteq> n"
  shows "fst (UpdateUser q st) = None
    \<and> GetUserByUsername n (snd (UpdateUser q st)) = Inr p
    \<and> GetUserByID (u_id (h_users st p)) (snd (UpdateUser q st)) = Inr q
    \<and> \<not> repo_ok (snd (UpdateUser q st))"
proof -
  from assms(2) have "map_of (r_users_by_name st) n = Some p" by (simp add: GetUser_iffs)
  from this repo_ok_named [OF assms(1) this]
  have p: "map_of (r_users_by_name st) n = Some p" "u_username (h_users st p) = n"
    "map_of (r_users st) (u_id (h_users st p)) = Some p" by simp_all
  with assms(3) have upd: "UpdateUser q st = (None, store_user q st)"
    by (simp add: UpdateUser_eq)
  have "q \<noteq> p" using p(2) assms(4) by blast
  with p assms(3,4)
  have "map_of (r_users (store_user q st)) (u_id (h_users (store_user q st) p)) \<noteq> Some p"
    and "map_of (r_users_by_name (store_user q st)) (u_username (h_users (store_user q st) p)) = Some p"
    by simp_all
  then have "\<not> repo_ok (store_user q st)" unfolding repo_ok_def by blast
  with upd p assms(3,4) show ?thesis by (simp add: GetUser_iffs)
qed

end
