(* ===== verification/AuditLog.thy ===== *)
theory AuditLog
  imports AuthRepo
begin

text \<open>
  The authenticate service's world and its audit log
  (\<^verbatim>\<open>authenticate/internal/audit/logger.go\<close>, \<^verbatim>\<open>audit/ingest.go\<close>, \<^verbatim>\<open>models/audit.go\<close>).

  The service's state \<open>svc\<close> extends the repository with the logger's list of entries, the events
  handed to the ingest client, the next free address, and a counter of the reads of the
  environment. The environment \<open>env\<close> holds the code that is not in the repository: random
  identifiers, the clock, bcrypt, the JWT library, the HMAC, JSON and date formatting. What
  differs from one call to the next is a function of the counter, which every read advances.
\<close>

section \<open>The environment and the service's state\<close>

record claims =
  \<comment> \<open>the dates are the ones handed to \<open>jwt.NewNumericDate\<close>\<close>
  jc_user_id :: string
  jc_roles :: "string list"
  jc_permissions_version :: int
  jc_organization_id :: string
  jc_client_id :: string
  jc_expires_at :: time
  jc_issued_at :: time
  jc_not_before :: time
  jc_issuer :: string

record env =
  e_uuid :: "nat \<Rightarrow> string option"                       \<comment> \<open>\<open>uuid.NewV7().String()\<close>; None is its error\<close>
  e_now :: "nat \<Rightarrow> time"                                 \<comment> \<open>\<open>time.Now()\<close>\<close>
  e_rand :: "nat \<Rightarrow> string option"                       \<comment> \<open>32 bytes of \<open>crypto/rand\<close>\<close>
  e_bcrypt :: "nat \<Rightarrow> string \<Rightarrow> string option"           \<comment> \<open>\<open>bcrypt.GenerateFromPassword\<close>\<close>
  e_bcrypt_compare :: "string \<Rightarrow> string \<Rightarrow> bool"         \<comment> \<open>hash, password: the error is nil\<close>
  e_jwt_sign :: "string \<Rightarrow> claims \<Rightarrow> string option"      \<comment> \<open>HS256 \<open>SignedString\<close> with a secret\<close>
  e_jwt_parse :: "time \<Rightarrow> (bool \<Rightarrow> string option) \<Rightarrow> string \<Rightarrow> (claims option \<times> bool) option"
    \<comment> \<open>\<open>jwt.ParseWithClaims\<close>: the key function learns whether the method is an HMAC; None is
        its error, else the claims the assertion finds and \<open>token.Valid\<close>\<close>
  e_hmac_sha256 :: "string \<Rightarrow> string \<Rightarrow> string"          \<comment> \<open>key, data\<close>
  e_format_time :: "time \<Rightarrow> string"                      \<comment> \<open>RFC 3339 with nanoseconds\<close>
  e_json :: "(string \<times> gval) list \<Rightarrow> string"            \<comment> \<open>\<open>json.Marshal\<close>\<close>
  e_access_secret :: string
  e_audit_secret :: string
  e_ingest_client :: bool                               \<comment> \<open>an ingest client is configured\<close>

record audit_log =
  al_id :: string
  al_timestamp :: time
  al_actor_type :: string
  al_actor_id :: string
  al_actor_username :: string
  al_action :: string
  al_resource :: string
  al_resource_id :: string
  al_ip_address :: string
  al_user_agent :: string
  al_result :: string
  al_reason :: string
  al_metadata :: "(string \<times> gval) list"
  al_signature :: string

record audit_log_entry =
  ae_timestamp :: time
  ae_actor_type :: string
  ae_actor_id :: string
  ae_actor_name :: string
  ae_action :: string
  ae_resource_type :: string
  ae_resource_id :: string
  ae_ip_address :: string
  ae_user_agent :: string
  ae_result :: string
  ae_error_message :: string
  ae_metadata :: "(string \<times> gval) list"

type_synonym action = string

type_synonym ip_address = string

type_synonym user_agent = string

type_synonym outcome = string

type_synonym metadata = "(string \<times> gval) list"

section \<open>The event for the ingest service\<close>

record ocsf_user =
  ou_name :: string
  ou_uid :: string
  ou_type :: string
  ou_type_id :: int

record ocsf_observable =
  oo_name :: string
  oo_type :: string
  oo_type_id :: int
  oo_value :: string

record ocsf_auth_event =
  oa_activity_id :: int
  oa_category_uid :: int
  oa_class_uid :: int
  oa_time :: int
  oa_type_uid :: int
  oa_severity :: string
  oa_severity_id :: int
  oa_status :: string
  oa_status_id :: int
  oa_user :: ocsf_user
  oa_src_endpoint :: "string option"
  oa_version :: string
  oa_product :: "string \<times> string \<times> string"
  oa_log_name :: string
  oa_message :: string
  oa_observables :: "ocsf_observable list"
  oa_raw_data :: string

record audit_hec_event =
  ah_time :: int
  ah_source :: string
  ah_sourcetype :: string
  ah_host :: string
  ah_event :: ocsf_auth_event

definition mapActionToActivityID :: "string \<Rightarrow> int" where
  "mapActionToActivityID action =
     (if action = ''login'' then 1
      else if action = ''logout'' then 2
      else if action = ''register'' then 1
      else if action = ''token_revoke'' then 2
      else if action = ''hec_token_create'' then 3
      else if action = ''hec_token_revoke'' then 99
      else if action = ''user_update'' then 99
      else if action = ''user_delete'' then 99
      else if action = ''password_change'' then 99
      else 99)"

definition mapResultToSeverity :: "string \<Rightarrow> string \<Rightarrow> string" where
  "mapResultToSeverity result action =
     (if result = ''success'' then ''Informational''
      else if action = ''login'' then ''Medium''
      else ''Low'')"

definition mapResultToSeverityID :: "string \<Rightarrow> string \<Rightarrow> int" where
  "mapResultToSeverityID result action =
     (if result = ''success'' then 1 else if action = ''login'' then 3 else 2)"

definition mapActorTypeToID :: "string \<Rightarrow> int" where
  "mapActorTypeToID actorType =
     (if actorType = ''user'' then 1
      else if actorType = ''service'' then 3
      else if actorType = ''system'' then 3
      else 99)"

definition ForwardEvent ::
  "env \<Rightarrow> string \<Rightarrow> string \<Rightarrow> string \<Rightarrow> action \<Rightarrow> string \<Rightarrow> string \<Rightarrow> ip_address \<Rightarrow> user_agent \<Rightarrow>
     outcome \<Rightarrow> string \<Rightarrow> metadata \<Rightarrow> time \<Rightarrow> audit_hec_event" where
  \<comment> \<open>the event it builds; marshalling and posting it is I/O\<close>
  "ForwardEvent env actorType actorID actorName action resourceType resourceID ipAddress userAgent
       result errorMessage metadata timestamp =
     (let activityID = mapActionToActivityID action;
          statusID = (if result \<noteq> ''success'' then 2 else 1);
          message = action @ '' '' @ result @ '' by '' @ actorName;
          ocsfEvent =
            \<lparr>oa_activity_id = activityID, oa_category_uid = 3, oa_class_uid = 3002,
             oa_time = timestamp div 1000000, oa_type_uid = 300200 + activityID,
             oa_severity = mapResultToSeverity result action,
             oa_severity_id = mapResultToSeverityID result action,
             oa_status = result, oa_status_id = statusID,
             oa_user = \<lparr>ou_name = actorName, ou_uid = actorID, ou_type = actorType,
                        ou_type_id = mapActorTypeToID actorType\<rparr>,
             oa_src_endpoint = (if ipAddress \<noteq> [] then Some ipAddress else None),
             oa_version = ''1.1.0'',
             oa_product = (''TelHawk Auth'', ''TelHawk Systems'', ''1.0.0''),
             oa_log_name = ''auth_audit'',
             oa_message = (if errorMessage \<noteq> [] then message @ '': '' @ errorMessage else message),
             oa_observables =
               (if ipAddress \<noteq> []
                then [\<lparr>oo_name = ''source_ip'', oo_type = ''IP Address'', oo_type_id = 2,
                       oo_value = ipAddress\<rparr>]
                else []),
             oa_raw_data = (if metadata \<noteq> [] then e_json env metadata else [])\<rparr>
      in \<lparr>ah_time = unix timestamp, ah_source = ''telhawk:auth'',
          ah_sourcetype = ''ocsf:authentication'', ah_host = ''auth-service'',
          ah_event = ocsfEvent\<rparr>)"

record svc = repo +
  sv_tick :: nat
  sv_next :: addr
  sv_logs :: "audit_log list"
  sv_forwarded :: "audit_hec_event list"

definition tick :: "svc \<Rightarrow> svc" where
  "tick st = st\<lparr>sv_tick := sv_tick st + 1\<rparr>"

section \<open>The logger\<close>

definition ShouldForwardToIngest :: "string \<Rightarrow> bool" where
  "ShouldForwardToIngest action =
     (if action = ''token_validate'' then False
      else if action = ''token_refresh'' then False
      else if action = ''hec_token_validate'' then False
      else True)"

definition hex_digit :: "nat \<Rightarrow> char" where
  "hex_digit n = ''0123456789abcdef'' ! n"

definition hex_encode :: "string \<Rightarrow> string" where
  \<comment> \<open>\<open>hex.EncodeToString\<close> of bytes\<close>
  "hex_encode s =
     concat (map (\<lambda>c. [hex_digit (of_char c div 16 mod 16), hex_digit (of_char c mod 16)]) s)"

definition sign :: "env \<Rightarrow> audit_log \<Rightarrow> string" where
  "sign env log =
     hex_encode (e_hmac_sha256 env (e_audit_secret env)
       (al_id log @ e_format_time env (al_timestamp log) @ al_actor_id log @ al_action log
        @ al_resource log @ al_result log))"

definition Verify :: "env \<Rightarrow> audit_log \<Rightarrow> bool" where
  "Verify env log \<longleftrightarrow> sign env log = al_signature log"

definition LogAudit :: "audit_log_entry \<Rightarrow> svc \<Rightarrow> repo_error option \<times> svc" where
  \<comment> \<open>the in-memory repository keeps nothing\<close>
  "LogAudit entry st = (None, st)"

definition Log ::
  "env \<Rightarrow> string \<Rightarrow> string \<Rightarrow> string \<Rightarrow> action \<Rightarrow> string \<Rightarrow> string \<Rightarrow> ip_address \<Rightarrow> user_agent \<Rightarrow>
     outcome \<Rightarrow> string \<Rightarrow> metadata \<Rightarrow> svc \<Rightarrow> audit_log option \<times> svc" where
  "Log env actorType actorID actorUsername action resource resourceID ipAddress userAgent result
       reason metadata st =
     (case e_uuid env (sv_tick st) of
        None \<Rightarrow> (None, tick st)
      | Some i \<Rightarrow>
          (let st1 = tick st;
               log0 = \<lparr>al_id = i, al_timestamp = e_now env (sv_tick st1),
                       al_actor_type = actorType, al_actor_id = actorID,
                       al_actor_username = actorUsername, al_action = action,
                       al_resource = resource, al_resource_id = resourceID,
                       al_ip_address = ipAddress, al_user_agent = userAgent, al_result = result,
                       al_reason = reason, al_metadata = metadata, al_signature = []\<rparr>;
               log = log0\<lparr>al_signature := sign env log0\<rparr>;
               st2 = (tick st1)\<lparr>sv_logs := sv_logs st1 @ [log]\<rparr>;
               entry = \<lparr>ae_timestamp = al_timestamp log, ae_actor_type = actorType,
                        ae_actor_id = actorID, ae_actor_name = actorUsername, ae_action = action,
                        ae_resource_type = resource, ae_resource_id = resourceID,
                        ae_ip_address = ipAddress, ae_user_agent = userAgent,
                        ae_result = result, ae_error_message = reason, ae_metadata = metadata\<rparr>;
               st3 = snd (LogAudit entry st2);
               st4 = (if e_ingest_client env \<and> ShouldForwardToIngest action
                      then st3\<lparr>sv_forwarded := sv_forwarded st3 @
                             [ForwardEvent env actorType actorID actorUsername action resource
                                resourceID ipAddress userAgent result reason metadata
                                (al_timestamp log)]\<rparr>
                      else st3)
           in (Some log, st4)))"

definition GetLogs :: "svc \<Rightarrow> audit_log list" where
  "GetLogs st = sv_logs st"

abbreviation logged ::
  "env \<Rightarrow> string \<Rightarrow> string \<Rightarrow> string \<Rightarrow> action \<Rightarrow> string \<Rightarrow> string \<Rightarrow> ip_address \<Rightarrow> user_agent \<Rightarrow>
     outcome \<Rightarrow> string \<Rightarrow> metadata \<Rightarrow> svc \<Rightarrow> svc" where
  \<comment> \<open>a call of \<open>Log\<close> whose result is not used\<close>
  "logged env actorType actorID actorUsername action resource resourceID ipAddress userAgent result
     reason metadata st \<equiv>
     snd (Log env actorType actorID actorUsername action resource resourceID ipAddress userAgent
            result reason metadata st)"

section \<open>Laws\<close>

text \<open>What an operation on the log leaves alone: the repository and the allocator.\<close>

lemma tick_frame [frame, simp]:
  "r_users (tick st) = r_users st" "r_users_by_name (tick st) = r_users_by_name st"
  "r_sessions (tick st) = r_sessions st" "r_hec_tokens (tick st) = r_hec_tokens st"
  "h_users (tick st) = h_users st" "h_sessions (tick st) = h_sessions st"
  "h_tokens (tick st) = h_tokens st" "sv_next (tick st) = sv_next st"
  "sv_logs (tick st) = sv_logs st" "sv_forwarded (tick st) = sv_forwarded st"
  "sv_tick (tick st) = Suc (sv_tick st)"
  by (simp_all add: tick_def)

lemma logged_frame [frame, simp]:
  "r_users (logged env a b c d e f g h i j m st) = r_users st"
  "r_users_by_name (logged env a b c d e f g h i j m st) = r_users_by_name st"
  "r_sessions (logged env a b c d e f g h i j m st) = r_sessions st"
  "r_hec_tokens (logged env a b c d e f g h i j m st) = r_hec_tokens st"
  "h_users (logged env a b c d e f g h i j m st) = h_users st"
  "h_sessions (logged env a b c d e f g h i j m st) = h_sessions st"
  "h_tokens (logged env a b c d e f g h i j m st) = h_tokens st"
  "sv_next (logged env a b c d e f g h i j m st) = sv_next st"
  by (simp_all add: Log_def LogAudit_def Let_def split: option.split)

lemma logged_tick: "sv_tick st < sv_tick (logged env a b c d e f g h i j m st)"
  by (simp add: Log_def LogAudit_def Let_def split: option.split)

lemma sign_signature [simp]: "sign env (log\<lparr>al_signature := s\<rparr>) = sign env log"
  by (simp add: sign_def)

lemma logged_verify:
  "list_all (Verify env) (sv_logs st) \<Longrightarrow>
     list_all (Verify env) (sv_logs (logged env a b c d e f g h i j m st))"
  by (simp add: Log_def LogAudit_def Let_def Verify_def split: option.split) (simp add: sign_def)

lemma logged_not_forwarded:
  "\<not> ShouldForwardToIngest d \<Longrightarrow>
     sv_forwarded (logged env a b c d e f g h i j m st) = sv_forwarded st"
  by (simp add: Log_def LogAudit_def Let_def split: option.split)

lemma repo_ok_logged [simp]: "repo_ok (logged env a b c d e f g h i j m st) = repo_ok st"
  by (simp add: repo_ok_def)

lemma repo_ok_tick [simp]: "repo_ok (tick st) = repo_ok st"
  by (simp add: repo_ok_def)

section \<open>Properties\<close>

text \<open>The signature covers only part of an entry: it is unchanged, and the entry still verifies,
  when the user name, the resource id, the address, the user agent, the reason and the metadata
  are rewritten; and characters can be moved from the actor's id to the action unnoticed.\<close>

lemma signature_coverage:
  "Verify env (log\<lparr>al_actor_username := n, al_actor_type := ty, al_resource_id := ri,
       al_ip_address := ip, al_user_agent := ua, al_reason := why, al_metadata := m\<rparr>) = Verify env log
   \<and> Verify env (log\<lparr>al_actor_id := x, al_action := y @ z\<rparr>)
       = Verify env (log\<lparr>al_actor_id := x @ y, al_action := z\<rparr>)"
  by (simp add: Verify_def sign_def)

end
