(* ===== verification/AuthService.thy ===== *)
theory AuthService
  imports AuditLog
begin

text \<open>
  The authenticate service (\<^verbatim>\<open>authenticate/internal/service/auth_service.go\<close>) and its access
  tokens (\<^verbatim>\<open>authenticate/pkg/tokens/jwt.go\<close>), over the in-memory repository: user creation, login,
  refresh, validation and revocation of sessions, the life of the ingestion tokens, and the audit
  entry each operation writes. An operation maps the state to its result, \<open>Inl\<close> the error it
  returns, and the new state. The repository's errors that cannot occur in memory
  (\<open>CreateSession\<close>, \<open>CreateHECToken\<close>, \<open>ListUsers\<close> and the other list methods always return a nil
  error there) have no branch.
\<close>

section \<open>Errors and requests\<close>

datatype svc_error =
    ErrInvalidCredentials
  | ErrInvalidToken
  | RepoError repo_error             \<comment> \<open>an error of the repository, passed on\<close>
  | BcryptError
  | JWTError
  | RandError
  | UuidError string                 \<comment> \<open>the message it is wrapped in\<close>
  | PermissionsVersionError repo_error
  | UsernameError string repo_error  \<comment> \<open>the user whose name is missing\<close>
  | ClientIDRequired
  | Unauthorized

definition repo_error_Error :: "repo_error \<Rightarrow> string" where
  "repo_error_Error e =
     (case e of
        ErrUserNotFound \<Rightarrow> ''user not found''
      | ErrUserExists \<Rightarrow> ''user already exists''
      | ErrSessionNotFound \<Rightarrow> ''session not found''
      | ErrHECTokenNotFound \<Rightarrow> ''HEC token not found''
      | ErrOrganizationNotFound \<Rightarrow> ''organization not found''
      | ErrClientNotFound \<Rightarrow> ''client not found''
      | ErrConflict \<Rightarrow>
          ''concurrent modification conflict: row was modified by another request'')"

record create_user_request =
  cu_username :: string
  cu_email :: string
  cu_password :: string
  cu_roles :: "string list"

record login_request =
  li_username :: string
  li_password :: string

record login_response =
  lr_access_token :: string
  lr_refresh_token :: string
  lr_expires_in :: int
  lr_token_type :: string

record validate_token_response =
  vt_valid :: bool
  vt_user_id :: string
  vt_roles :: "string list"
  vt_permissions_version :: int
  vt_permissions_stale :: bool
  vt_organization_id :: string
  vt_client_id :: string

record update_user_request =
  uu_email :: string
  uu_roles :: "string list option"   \<comment> \<open>None: a nil slice\<close>
  uu_enabled :: "bool option"

definition invalid_response :: validate_token_response where
  \<comment> \<open>\<open>ValidateTokenResponse{Valid: false}\<close>\<close>
  "invalid_response =
     \<lparr>vt_valid = False, vt_user_id = [], vt_roles = [], vt_permissions_version = 0,
      vt_permissions_stale = False, vt_organization_id = [], vt_client_id = []\<rparr>"

section \<open>Access and refresh tokens\<close>

definition minute :: int where "minute = 60 * second"

definition accessTTL :: int where "accessTTL = 15 * minute"

definition refreshTTL :: int where "refreshTTL = 7 * 24 * (60 * minute)"

definition new_claims ::
  "env \<Rightarrow> string \<Rightarrow> string list \<Rightarrow> int \<Rightarrow> string \<Rightarrow> string \<Rightarrow> nat \<Rightarrow> claims" where
  \<comment> \<open>the clock is read three times, from the \<open>n\<close>-th reading on\<close>
  "new_claims env userID roles permissionsVersion organizationID clientID n =
     \<lparr>jc_user_id = userID, jc_roles = roles, jc_permissions_version = permissionsVersion,
      jc_organization_id = organizationID, jc_client_id = clientID,
      jc_expires_at = e_now env n + accessTTL, jc_issued_at = e_now env (n + 1),
      jc_not_before = e_now env (n + 2), jc_issuer = ''telhawk-auth''\<rparr>"

definition GenerateAccessToken ::
  "env \<Rightarrow> string \<Rightarrow> string list \<Rightarrow> int \<Rightarrow> string \<Rightarrow> string \<Rightarrow> svc \<Rightarrow> string option \<times> svc" where
  "GenerateAccessToken env userID roles permissionsVersion organizationID clientID st =
     (let claims = new_claims env userID roles permissionsVersion organizationID clientID (sv_tick st)
      in (e_jwt_sign env (e_access_secret env) claims, tick (tick (tick st))))"

definition base64_digit :: "nat \<Rightarrow> char" where
  "base64_digit n =
     (''ABCDEFGHIJKLMNOPQRSTUVWXYZabcdefghijklmnopqrstuvwxyz0123456789-_'') ! (n mod 64)"

fun base64url :: "string \<Rightarrow> string" where
  \<comment> \<open>\<open>base64.URLEncoding.EncodeToString\<close>, with padding\<close>
  "base64url [] = []"
| "base64url [a] =
     (let n = of_char a * 65536 in
      [base64_digit (n div 262144), base64_digit (n div 4096), CHR ''='', CHR ''=''])"
| "base64url [a, b] =
     (let n = of_char a * 65536 + of_char b * 256 in
      [base64_digit (n div 262144), base64_digit (n div 4096), base64_digit (n div 64), CHR ''=''])"
| "base64url (a # b # c # s) =
     (let n = of_char a * 65536 + of_char b * 256 + of_char c in
      [base64_digit (n div 262144), base64_digit (n div 4096), base64_digit (n div 64), base64_digit n]
      @ base64url s)"

definition GenerateRefreshToken :: "env \<Rightarrow> svc \<Rightarrow> string option \<times> svc" where
  "GenerateRefreshToken env st = (map_option base64url (e_rand env (sv_tick st)), tick st)"

definition GenerateHECToken :: "env \<Rightarrow> svc \<Rightarrow> string option \<times> svc" where
  "GenerateHECToken env st = (map_option base64url (e_rand env (sv_tick st)), tick st)"

definition access_key :: "env \<Rightarrow> bool \<Rightarrow> string option" where
  \<comment> \<open>the key function: only HMAC methods get the secret\<close>
  "access_key env hmac = (if \<not> hmac then None else Some (e_access_secret env))"

definition ValidateAccessToken :: "env \<Rightarrow> string \<Rightarrow> svc \<Rightarrow> claims option \<times> svc" where
  "ValidateAccessToken env tokenString st =
     (case e_jwt_parse env (e_now env (sv_tick st)) (access_key env) tokenString of
        None \<Rightarrow> (None, tick st)
      | Some (cl, token_valid) \<Rightarrow>
          (case cl of
             None \<Rightarrow> (None, tick st)
           | Some c \<Rightarrow> (if \<not> token_valid then None else Some c, tick st)))"

section \<open>Users\<close>

definition stringOrEmpty :: "string option \<Rightarrow> string" where
  "stringOrEmpty s = (case s of None \<Rightarrow> [] | Some x \<Rightarrow> x)"

definition inferSourceType :: "string \<Rightarrow> int" where
  "inferSourceType userAgent =
     (if userAgent = [] then 0
      else let uaLower = to_lower userAgent in
        if contains_str uaLower ''thawk'' \<or> contains_str uaLower ''telhawk-cli'' then 2 else 1)"

definition new_user :: "string \<Rightarrow> create_user_request \<Rightarrow> string \<Rightarrow> string \<Rightarrow> string \<Rightarrow> user" where
  "new_user userID req hashedPassword ipAddress userAgent =
     \<lparr>u_id = userID, u_version_id = userID, u_username = cu_username req, u_email = cu_email req,
      u_password_hash = hashedPassword,
      u_roles = (if cu_roles req = [] then [''viewer''] else cu_roles req),
      u_primary_organization_id = None, u_primary_client_id = None, u_created_by = None,
      u_updated_by = None, u_disabled_at = None, u_disabled_by = None, u_deleted_at = None,
      u_deleted_by = None, u_permissions_version = 0, u_user_roles = [],
      u_created_from_ip = Some ipAddress, u_created_source_type = inferSourceType userAgent,
      u_disabled_from_ip = None, u_disabled_source_type = 0, u_deleted_from_ip = None,
      u_deleted_source_type = 0\<rparr>"

definition alloc_user :: "user \<Rightarrow> svc \<Rightarrow> addr \<times> svc" where
  "alloc_user u st =
     (sv_next st, st\<lparr>h_users := (h_users st)(sv_next st := u), sv_next := sv_next st + 1\<rparr>)"

definition roles_val :: "string list \<Rightarrow> gval" where
  "roles_val rs = GArr (map GStr rs)"

definition svc_CreateUser ::
  "env \<Rightarrow> create_user_request \<Rightarrow> string \<Rightarrow> string \<Rightarrow> string \<Rightarrow> svc \<Rightarrow> (svc_error + addr) \<times> svc" where
  "svc_CreateUser env req actorID ipAddress userAgent st =
     (case e_bcrypt env (sv_tick st) (cu_password req) of
        None \<Rightarrow>
          (Inl BcryptError,
           logged env ''user'' actorID [] ''user_create'' ''user'' [] ipAddress userAgent
             ''failure'' ''password hashing failed'' [] (tick st))
      | Some hashedPassword \<Rightarrow>
          (let st1 = tick st in
           case e_uuid env (sv_tick st1) of
             None \<Rightarrow>
               (Inl (UuidError ''failed to generate user ID''),
                logged env ''user'' actorID [] ''user_create'' ''user'' [] ipAddress userAgent
                  ''failure'' ''failed to generate user ID'' [] (tick st1))
           | Some userID \<Rightarrow>
               (let user = new_user userID req hashedPassword ipAddress userAgent;
                    (p, st2) = alloc_user user (tick st1) in
                case CreateUser p st2 of
                  (Some err, st3) \<Rightarrow>
                    (Inl (RepoError err),
                     logged env ''user'' actorID [] ''user_create'' ''user'' (u_id user) ipAddress
                       userAgent ''failure'' (repo_error_Error err) [] st3)
                | (None, st3) \<Rightarrow>
                    (Inr p,
                     logged env ''user'' actorID [] ''user_create'' ''user'' (u_id user) ipAddress
                       userAgent ''success'' []
                       [(''username'', GStr (u_username user)), (''email'', GStr (u_email user)),
                        (''roles'', roles_val (u_roles user))] st3))))"

definition svc_GetUserByID :: "string \<Rightarrow> svc \<Rightarrow> repo_error + addr" where
  "svc_GetUserByID userID st = GetUserByID userID st"

definition svc_GetUserWithRoles :: "string \<Rightarrow> svc \<Rightarrow> repo_error + addr" where
  "svc_GetUserWithRoles userID st = GetUserWithRoles userID st"

definition svc_GetUser :: "string \<Rightarrow> svc \<Rightarrow> repo_error + addr" where
  "svc_GetUser userID st = GetUserByID userID st"

definition svc_ListUsers :: "svc \<Rightarrow> addr list" where
  "svc_ListUsers st = ListUsers st"

definition svc_ListUsersByScope :: "string \<Rightarrow> string option \<Rightarrow> string option \<Rightarrow> svc \<Rightarrow> addr list" where
  "svc_ListUsersByScope scopeType orgID clientID st = ListUsersByScope scopeType orgID clientID st"

definition write_user :: "addr \<Rightarrow> user \<Rightarrow> svc \<Rightarrow> svc" where
  \<comment> \<open>an assignment through the pointer\<close>
  "write_user p u st = st\<lparr>h_users := (h_users st)(p := u)\<rparr>"

definition request_val :: "update_user_request \<Rightarrow> gval" where
  \<comment> \<open>the request as its JSON tags have it, all \<open>omitempty\<close>\<close>
  "request_val req =
     GObj ((if uu_email req \<noteq> [] then [(''email'', GStr (uu_email req))] else [])
       @ (case uu_roles req of
            None \<Rightarrow> []
          | Some rs \<Rightarrow> if rs \<noteq> [] then [(''roles'', roles_val rs)] else [])
       @ (case uu_enabled req of None \<Rightarrow> [] | Some b \<Rightarrow> [(''enabled'', GBool b)]))"

definition apply_update :: "update_user_request \<Rightarrow> user \<Rightarrow> user" where
  \<comment> \<open>the two assignments of \<open>UpdateUserDetails\<close>\<close>
  "apply_update req u =
     (let u1 = (if uu_email req \<noteq> [] then u\<lparr>u_email := uu_email req\<rparr> else u) in
      case uu_roles req of None \<Rightarrow> u1 | Some rs \<Rightarrow> u1\<lparr>u_roles := rs\<rparr>)"

definition UpdateUserDetails ::
  "env \<Rightarrow> string \<Rightarrow> update_user_request \<Rightarrow> string \<Rightarrow> string \<Rightarrow> string \<Rightarrow> svc \<Rightarrow>
     (svc_error + addr) \<times> svc" where
  "UpdateUserDetails env userID req actorID ipAddress userAgent st =
     (case GetUserByID userID st of
        Inl err \<Rightarrow> (Inl (RepoError err), st)
      | Inr p \<Rightarrow>
          (case UpdateUser p (write_user p (apply_update req (h_users st p)) st) of
             (Some err, st1) \<Rightarrow>
               (Inl (RepoError err),
                logged env ''user'' actorID [] ''user_update'' ''user'' userID ipAddress userAgent
                  ''failure'' (repo_error_Error err) [(''changes'', request_val req)] st1)
           | (None, st1) \<Rightarrow>
               (Inr p,
                logged env ''user'' actorID [] ''user_update'' ''user'' userID ipAddress userAgent
                  ''success'' [] [(''changes'', request_val req)] st1)))"

definition svc_DeleteUser ::
  "env \<Rightarrow> string \<Rightarrow> string \<Rightarrow> string \<Rightarrow> string \<Rightarrow> svc \<Rightarrow> svc_error option \<times> svc" where
  "svc_DeleteUser env userID actorID ipAddress userAgent st =
     (case GetUserByID userID st of
        Inl err \<Rightarrow> (Some (RepoError err), st)
      | Inr p \<Rightarrow>
          (let name = GStr (u_username (h_users st p)) in
           case DeleteUser userID st of
             (Some err, st1) \<Rightarrow>
               (Some (RepoError err),
                logged env ''user'' actorID [] ''user_delete'' ''user'' userID ipAddress userAgent
                  ''failure'' (repo_error_Error err) [(''username'', name)] st1)
           | (None, st1) \<Rightarrow>
               (None,
                logged env ''user'' actorID [] ''user_delete'' ''user'' userID ipAddress userAgent
                  ''success'' [] [(''username'', name)] st1)))"

definition ResetPassword ::
  "env \<Rightarrow> string \<Rightarrow> string \<Rightarrow> string \<Rightarrow> string \<Rightarrow> string \<Rightarrow> svc \<Rightarrow> svc_error option \<times> svc" where
  "ResetPassword env userID newPassword actorID ipAddress userAgent st =
     (case GetUserByID userID st of
        Inl err \<Rightarrow> (Some (RepoError err), st)
      | Inr p \<Rightarrow>
          (case e_bcrypt env (sv_tick st) newPassword of
             None \<Rightarrow>
               (Some BcryptError,
                logged env ''user'' actorID [] ''password_reset'' ''user'' userID ipAddress
                  userAgent ''failure'' ''password hashing failed'' [] (tick st))
           | Some hashedPassword \<Rightarrow>
               (case UpdateUser p
                   (write_user p ((h_users st p)\<lparr>u_password_hash := hashedPassword\<rparr>) (tick st)) of
                  (Some err, st1) \<Rightarrow>
                    (Some (RepoError err),
                     logged env ''user'' actorID [] ''password_reset'' ''user'' userID ipAddress
                       userAgent ''failure'' (repo_error_Error err) [] st1)
                | (None, st1) \<Rightarrow>
                    (None,
                     logged env ''user'' actorID [] ''password_reset'' ''user'' userID ipAddress
                       userAgent ''success'' [] [] st1))))"

section \<open>Sessions\<close>

definition alloc_session :: "session \<Rightarrow> svc \<Rightarrow> addr \<times> svc" where
  "alloc_session s st =
     (sv_next st, st\<lparr>h_sessions := (h_sessions st)(sv_next st := s), sv_next := sv_next st + 1\<rparr>)"

definition user_access_token :: "env \<Rightarrow> user \<Rightarrow> svc \<Rightarrow> string option \<times> svc" where
  "user_access_token env user st =
     GenerateAccessToken env (u_id user) (u_roles user) (u_permissions_version user)
       (stringOrEmpty (u_primary_organization_id user)) (stringOrEmpty (u_primary_client_id user)) st"

definition bearer :: "string \<Rightarrow> string \<Rightarrow> login_response" where
  "bearer accessToken refreshToken =
     \<lparr>lr_access_token = accessToken, lr_refresh_token = refreshToken, lr_expires_in = 900,
      lr_token_type = ''Bearer''\<rparr>"

definition new_session ::
  "string \<Rightarrow> user \<Rightarrow> string \<Rightarrow> string \<Rightarrow> time \<Rightarrow> string \<Rightarrow> string \<Rightarrow> session" where
  "new_session sessionID user accessToken refreshToken now ipAddress userAgent =
     \<lparr>s_id = sessionID, s_user_id = u_id user, s_access_token = accessToken,
      s_refresh_token = refreshToken, s_expires_at = now + 7 * 24 * (60 * minute),
      s_revoked_at = None, s_revoked_by = None, s_ip_address = Some ipAddress,
      s_user_agent = Some userAgent, s_source_type = inferSourceType userAgent,
      s_revoked_from_ip = None, s_revoked_source_type = 0\<rparr>"

definition Login_session ::
  \<comment> \<open>the second half of \<open>Login\<close>: the tokens are made, the session is stored\<close>
  "env \<Rightarrow> user \<Rightarrow> string \<Rightarrow> string \<Rightarrow> string \<Rightarrow> string \<Rightarrow> svc \<Rightarrow> (svc_error + login_response) \<times> svc"
where
  "Login_session env user accessToken refreshToken ipAddress userAgent st =
     (case e_uuid env (sv_tick st) of
        None \<Rightarrow> (Inl (UuidError ''generating session ID''), tick st)
      | Some sessionID \<Rightarrow>
          (let st1 = tick st;
               session = new_session sessionID user accessToken refreshToken
                           (e_now env (sv_tick st1)) ipAddress userAgent;
               (p, st2) = alloc_session session (tick st1);
               st3 = CreateSession p st2
           in (Inr (bearer accessToken refreshToken),
               logged env ''user'' (u_id user) (u_username user) ''login'' ''session'' sessionID
                 ipAddress userAgent ''success'' []
                 [(''session_id'', GStr sessionID), (''roles'', roles_val (u_roles user))] st3)))"

definition Login ::
  "env \<Rightarrow> login_request \<Rightarrow> string \<Rightarrow> string \<Rightarrow> svc \<Rightarrow> (svc_error + login_response) \<times> svc" where
  "Login env req ipAddress userAgent st =
     (case GetUserByUsername (li_username req) st of
        Inl _ \<Rightarrow>
          (Inl ErrInvalidCredentials,
           logged env ''user'' [] (li_username req) ''login'' ''session'' [] ipAddress userAgent
             ''failure'' ''user not found'' [] st)
      | Inr p \<Rightarrow>
          (let user = h_users st p;
               failed = (\<lambda>why. logged env ''user'' (u_id user) (u_username user) ''login''
                           ''session'' [] ipAddress userAgent ''failure'' why []) in
           if \<not> User_IsActive user then
             (Inl ErrInvalidCredentials, failed ''account disabled or deleted'' st)
           else if \<not> e_bcrypt_compare env (u_password_hash user) (li_password req) then
             (Inl ErrInvalidCredentials, failed ''invalid password'' st)
           else
             (case user_access_token env user st of
                (None, st1) \<Rightarrow> (Inl JWTError, failed ''token generation failed'' st1)
              | (Some accessToken, st1) \<Rightarrow>
                  (case GenerateRefreshToken env st1 of
                     (None, st2) \<Rightarrow> (Inl RandError, failed ''refresh token generation failed'' st2)
                   | (Some refreshToken, st2) \<Rightarrow>
                       Login_session env user accessToken refreshToken ipAddress userAgent st2))))"

definition RefreshToken :: "env \<Rightarrow> string \<Rightarrow> svc \<Rightarrow> (svc_error + login_response) \<times> svc" where
  "RefreshToken env refreshToken st =
     (case GetSession refreshToken st of
        Inl _ \<Rightarrow> (Inl ErrInvalidToken, st)
      | Inr q \<Rightarrow>
          if \<not> Session_IsActive (e_now env (sv_tick st)) (h_sessions st q)
          then (Inl ErrInvalidToken, tick st)
          else
            (case GetUserByID (s_user_id (h_sessions st q)) st of
               Inl err \<Rightarrow> (Inl (RepoError err), tick st)
             | Inr p \<Rightarrow>
                 (case user_access_token env (h_users st p) (tick st) of
                    (None, st1) \<Rightarrow> (Inl JWTError, st1)
                  | (Some accessToken, st1) \<Rightarrow> (Inr (bearer accessToken refreshToken), st1))))"

definition ValidateToken ::
  "env \<Rightarrow> string \<Rightarrow> svc \<Rightarrow> (svc_error + validate_token_response) \<times> svc" where
  "ValidateToken env tokenString st =
     (case ValidateAccessToken env tokenString st of
        (None, st1) \<Rightarrow> (Inr invalid_response, st1)
      | (Some c, st1) \<Rightarrow>
          (case GetSessionByAccessToken tokenString st1 of
             Inl _ \<Rightarrow> (Inr invalid_response, st1)
           | Inr q \<Rightarrow>
               if \<not> Session_IsActive (e_now env (sv_tick st1)) (h_sessions st1 q)
               then (Inr invalid_response, tick st1)
               else
                 (case GetUserPermissionsVersion (jc_user_id c) st1 of
                    Inl err \<Rightarrow> (Inl (PermissionsVersionError err), tick st1)
                  | Inr currentVersion \<Rightarrow>
                      (Inr \<lparr>vt_valid = True, vt_user_id = jc_user_id c, vt_roles = jc_roles c,
                            vt_permissions_version = currentVersion,
                            vt_permissions_stale = (currentVersion \<noteq> jc_permissions_version c),
                            vt_organization_id = jc_organization_id c,
                            vt_client_id = jc_client_id c\<rparr>,
                       tick st1))))"

definition RevokeToken :: "env \<Rightarrow> string \<Rightarrow> svc \<Rightarrow> repo_error option \<times> svc" where
  "RevokeToken env refreshToken st =
     RevokeSession (e_now env (sv_tick st)) refreshToken (tick st)"

section \<open>Ingestion tokens\<close>

definition ValidateHECToken ::
  "env \<Rightarrow> string \<Rightarrow> string \<Rightarrow> string \<Rightarrow> svc \<Rightarrow> (svc_error + addr) \<times> svc" where
  "ValidateHECToken env token ipAddress userAgent st =
     (case GetHECToken token st of
        Inl err \<Rightarrow>
          (Inl (RepoError err),
           logged env ''service'' [] [] ''hec_token_validate'' ''hec_token'' [] ipAddress userAgent
             ''failure'' ''token not found'' [] st)
      | Inr q \<Rightarrow>
          (let t = h_tokens st q;
               st1 = tick st;
               verdict = (\<lambda>result why. logged env ''service'' (ht_user_id t) []
                            ''hec_token_validate'' ''hec_token'' (ht_id t) ipAddress userAgent
                            result why [(''token_name'', GStr (ht_name t))]) in
           if \<not> HECToken_IsActive (e_now env (sv_tick st)) t then
             (Inl ErrInvalidToken, verdict ''failure'' ''token disabled or revoked'' st1)
           else if (case ht_expires_at t of
                      None \<Rightarrow> False
                    | Some e \<Rightarrow> \<not> is_zero e \<and> e < e_now env (sv_tick st1)) then
             (Inl ErrInvalidToken, verdict ''failure'' ''token expired'' (tick st1))
           else (Inr q, verdict ''success'' [] (tick st1))))"

definition new_hec_token ::
  "string \<Rightarrow> string \<Rightarrow> string \<Rightarrow> string \<Rightarrow> string \<Rightarrow> string \<Rightarrow> string \<Rightarrow> hec_token" where
  "new_hec_token i token userID clientID name ipAddress userAgent =
     \<lparr>ht_id = i, ht_token = token, ht_name = name, ht_user_id = userID, ht_client_id = clientID,
      ht_created_by = userID, ht_expires_at = None, ht_disabled_at = None, ht_disabled_by = None,
      ht_revoked_at = None, ht_revoked_by = None, ht_created_from_ip = Some ipAddress,
      ht_created_source_type = inferSourceType userAgent, ht_disabled_from_ip = None,
      ht_disabled_source_type = 0, ht_revoked_from_ip = None, ht_revoked_source_type = 0\<rparr>"

definition alloc_token :: "hec_token \<Rightarrow> svc \<Rightarrow> addr \<times> svc" where
  "alloc_token t st =
     (sv_next st, st\<lparr>h_tokens := (h_tokens st)(sv_next st := t), sv_next := sv_next st + 1\<rparr>)"

definition svc_CreateHECToken ::
  "env \<Rightarrow> string \<Rightarrow> string \<Rightarrow> string \<Rightarrow> string \<Rightarrow> string \<Rightarrow> string \<Rightarrow> svc \<Rightarrow>
     (svc_error + addr) \<times> svc" where
  "svc_CreateHECToken env userID clientID name expiresIn ipAddress userAgent st =
     (if clientID = [] then (Inl ClientIDRequired, st)
      else
        (case e_uuid env (sv_tick st) of
           None \<Rightarrow> (Inl (UuidError ''generating token UUID''), tick st)
         | Some token \<Rightarrow>
             (let st1 = tick st in
              case e_uuid env (sv_tick st1) of
                None \<Rightarrow> (Inl (UuidError ''generating HEC token ID''), tick st1)
              | Some i \<Rightarrow>
                  (let (p, st2) = alloc_token
                         (new_hec_token i token userID clientID name ipAddress userAgent) (tick st1);
                       st3 = CreateHECToken p st2
                   in (Inr p,
                       logged env ''user'' userID [] ''hec_token_create'' ''hec_token'' i ipAddress
                         userAgent ''success'' [] [(''token_name'', GStr name)] st3)))))"

definition svc_ListHECTokensByUser :: "string \<Rightarrow> svc \<Rightarrow> addr list" where
  "svc_ListHECTokensByUser userID st = ListHECTokensByUser userID st"

fun usernames_of :: "string list \<Rightarrow> svc \<Rightarrow> svc_error + (string \<times> string) list" where
  \<comment> \<open>the second loop, over the set of user ids\<close>
  "usernames_of [] st = Inr []"
| "usernames_of (userID # us) st =
     (case GetUserByID userID st of
        Inl err \<Rightarrow> Inl (UsernameError userID err)
      | Inr p \<Rightarrow>
          (case usernames_of us st of
             Inl e \<Rightarrow> Inl e
           | Inr m \<Rightarrow> Inr (map_put userID (u_username (h_users st p)) m)))"

definition ListAllHECTokensWithUsernames ::
  "svc \<Rightarrow> svc_error + (string \<times> string) list \<times> addr list" where
  "ListAllHECTokensWithUsernames st =
     (let tokens = ListAllHECTokens st;
          userIDs = remdups (map (\<lambda>p. ht_user_id (h_tokens st p)) tokens) in
      case usernames_of userIDs st of Inl e \<Rightarrow> Inl e | Inr m \<Rightarrow> Inr (m, tokens))"

definition revoke_hec_token ::
  \<comment> \<open>the part the two revocations share, word for word\<close>
  "env \<Rightarrow> addr \<Rightarrow> string \<Rightarrow> string \<Rightarrow> string \<Rightarrow> string \<Rightarrow> svc \<Rightarrow> svc_error option \<times> svc" where
  "revoke_hec_token env q token userID ipAddress userAgent st =
     (let t = h_tokens st q in
      if ht_user_id t \<noteq> userID then (Some Unauthorized, st)
      else
        (case RevokeHECToken (e_now env (sv_tick st)) token (tick st) of
           (Some err, st1) \<Rightarrow>
             (Some (RepoError err),
              logged env ''user'' userID [] ''hec_token_revoke'' ''hec_token'' (ht_id t) ipAddress
                userAgent ''failure'' (repo_error_Error err) [] st1)
         | (None, st1) \<Rightarrow>
             (None,
              logged env ''user'' userID [] ''hec_token_revoke'' ''hec_token'' (ht_id t) ipAddress
                userAgent ''success'' [] [] st1)))"

definition RevokeHECTokenByUser ::
  "env \<Rightarrow> string \<Rightarrow> string \<Rightarrow> string \<Rightarrow> string \<Rightarrow> svc \<Rightarrow> svc_error option \<times> svc" where
  "RevokeHECTokenByUser env token userID ipAddress userAgent st =
     (case GetHECToken token st of
        Inl err \<Rightarrow> (Some (RepoError err), st)
      | Inr q \<Rightarrow> revoke_hec_token env q token userID ipAddress userAgent st)"

definition RevokeHECTokenByID ::
  "env \<Rightarrow> string \<Rightarrow> string \<Rightarrow> string \<Rightarrow> string \<Rightarrow> svc \<Rightarrow> svc_error option \<times> svc" where
  "RevokeHECTokenByID env tokenID userID ipAddress userAgent st =
     (case GetHECTokenByID tokenID st of
        Inl err \<Rightarrow> (Some (RepoError err), st)
      | Inr q \<Rightarrow> revoke_hec_token env q (ht_token (h_tokens st q)) userID ipAddress userAgent st)"

section \<open>Scope\<close>

record user_scope_response =
  us_max_tier :: string
  us_organizations :: "org_response list"
  us_clients :: "client_response list"

definition GetUserScope ::
  "string \<Rightarrow> string list \<Rightarrow> svc \<Rightarrow> svc_error + user_scope_response" where
  "GetUserScope userID roles st =
     (let isAdmin = (''admin'' \<in> set roles);
          maxTier = (if isAdmin then ''platform'' else ''client'');
          organizations =
            (if isAdmin then map Organization_ToResponse (ListOrganizations st) else []) in
      if isAdmin then
        Inr \<lparr>us_max_tier = maxTier, us_organizations = organizations,
             us_clients = concat (map (\<lambda>org. map Client_ToResponse
                            (ListClientsByOrganization (orsp_id org) st)) organizations)\<rparr>
      else
        (case GetUserByID userID st of
           Inl err \<Rightarrow> Inl (RepoError err)
         | Inr p \<Rightarrow>
             Inr \<lparr>us_max_tier = maxTier, us_organizations = organizations,
                  us_clients =
                    (case u_primary_client_id (h_users st p) of
                       None \<Rightarrow> []
                     | Some cid \<Rightarrow>
                         (case GetClient cid st of
                            Inl _ \<Rightarrow> []
                          | Inr c \<Rightarrow> [Client_ToResponse c]))\<rparr>))"

definition ClientBelongsToOrg :: "string \<Rightarrow> string \<Rightarrow> svc \<Rightarrow> bool" where
  "ClientBelongsToOrg clientID orgID st =
     (case GetClient clientID st of
        Inl _ \<Rightarrow> False
      | Inr c \<Rightarrow> cl_organization_id c = orgID)"

end
