(* ===== verification/AuthLaws.thy ===== *)
theory AuthLaws
  imports AuthService
begin

text \<open>
  What the authenticate service guarantees: an invariant of every reachable state, the life of a
  session from login to logout, the refusals of \<open>Login\<close>, and the life of an ingestion token.
  The service's operations are the steps of \<open>svc_step\<close>; \<open>svc_reachable\<close> closes them from an
  empty repository.
\<close>

section \<open>The steps of the service\<close>

definition NewAuthService :: "svc \<Rightarrow> svc" where
  \<comment> \<open>over a new repository, with a new logger\<close>
  "NewAuthService st = (NewInMemoryRepository st)\<lparr>sv_logs := [], sv_forwarded := []\<rparr>"

inductive svc_step :: "env \<Rightarrow> svc \<Rightarrow> svc \<Rightarrow> bool" for env where
  create_user: "svc_step env st (snd (svc_CreateUser env req actor ip ua st))"
| login: "svc_step env st (snd (Login env lreq ip ua st))"
| refresh: "svc_step env st (snd (RefreshToken env tok st))"
| validate: "svc_step env st (snd (ValidateToken env tok st))"
| revoke: "svc_step env st (snd (RevokeToken env tok st))"
| update_user: "svc_step env st (snd (UpdateUserDetails env uid ureq actor ip ua st))"
| delete_user: "svc_step env st (snd (svc_DeleteUser env uid actor ip ua st))"
| reset_password: "svc_step env st (snd (ResetPassword env uid pw actor ip ua st))"
| create_hec: "svc_step env st (snd (svc_CreateHECToken env uid cid name ex ip ua st))"
| validate_hec: "svc_step env st (snd (ValidateHECToken env tok ip ua st))"
| revoke_hec: "svc_step env st (snd (RevokeHECTokenByUser env tok uid ip ua st))"
| revoke_hec_id: "svc_step env st (snd (RevokeHECTokenByID env tid uid ip ua st))"

inductive svc_reachable :: "env \<Rightarrow> svc \<Rightarrow> bool" for env where
  start: "svc_reachable env (NewAuthService st)"
| step: "svc_reachable env st \<Longrightarrow> svc_step env st st' \<Longrightarrow> svc_reachable env st'"

section \<open>The invariant\<close>

definition fresh_uuids :: "env \<Rightarrow> bool" where
  \<comment> \<open>\<open>uuid.NewV7\<close> never gives an identifier twice\<close>
  "fresh_uuids env \<longleftrightarrow>
     (\<forall>m n i. e_uuid env m = Some i \<longrightarrow> e_uuid env n = Some i \<longrightarrow> m = n)"

definition issued :: "env \<Rightarrow> nat \<Rightarrow> string \<Rightarrow> bool" where
  "issued env bound i \<longleftrightarrow> (\<exists>n < bound. e_uuid env n = Some i)"

definition svc_ok :: "env \<Rightarrow> svc \<Rightarrow> bool" where
  \<comment> \<open>the repository is consistent, its pointers are allocated, its ids and tokens were issued,
      and every audit entry carries its signature\<close>
  "svc_ok env st \<longleftrightarrow>
     repo_ok st \<and> list_all (Verify env) (sv_logs st)
     \<and> (\<forall>i p. map_of (r_users st) i = Some p \<longrightarrow> p < sv_next st \<and> issued env (sv_tick st) i)
     \<and> (\<forall>i p. map_of (r_sessions st) i = Some p \<longrightarrow> p < sv_next st)
     \<and> (\<forall>i p. map_of (r_hec_tokens st) i = Some p \<longrightarrow>
           p < sv_next st \<and> issued env (sv_tick st) i)"

lemma issued_mono: "issued env m i \<Longrightarrow> m \<le> n \<Longrightarrow> issued env n i"
  unfolding issued_def by (meson less_le_trans)

lemma fresh_not_issued:
  "fresh_uuids env \<Longrightarrow> e_uuid env n = Some i \<Longrightarrow> b \<le> n \<Longrightarrow> \<not> issued env b i"
  by (fastforce simp: fresh_uuids_def issued_def)

lemma svc_okD:
  assumes "svc_ok env st"
  shows "repo_ok st" and "list_all (Verify env) (sv_logs st)"
    and "map_of (r_users st) i = Some p \<Longrightarrow> p < sv_next st \<and> issued env (sv_tick st) i"
    and "map_of (r_sessions st) i = Some p \<Longrightarrow> p < sv_next st"
    and "map_of (r_hec_tokens st) i = Some p \<Longrightarrow> p < sv_next st \<and> issued env (sv_tick st) i"
  using assms by (simp_all add: svc_ok_def)

lemma svc_ok_tick [intro, simp]: "svc_ok env st \<Longrightarrow> svc_ok env (tick st)"
  unfolding svc_ok_def by (auto intro: issued_mono [of env "sv_tick st"])

lemma svc_ok_logged [intro, simp]:
  assumes "svc_ok env st"
  shows "svc_ok env (logged env a b c d e f g h i j m st)"
proof -
  have "sv_tick st \<le> sv_tick (logged env a b c d e f g h i j m st)"
    using logged_tick [of st env a b c d e f g h i j m] by simp
  with assms show ?thesis
    unfolding svc_ok_def
    by (simp add: logged_verify) (meson issued_mono)
qed

lemma svc_ok_alloc_user [intro]:
  assumes "svc_ok env st"
  shows "svc_ok env (snd (alloc_user u st))"
proof -
  let ?st = "snd (alloc_user u st)"
  have maps: "r_users ?st = r_users st" "r_users_by_name ?st = r_users_by_name st"
    "r_sessions ?st = r_sessions st" "r_hec_tokens ?st = r_hec_tokens st"
    "h_sessions ?st = h_sessions st" "h_tokens ?st = h_tokens st"
    "h_users ?st = (h_users st)(sv_next st := u)" "sv_tick ?st = sv_tick st"
    "sv_logs ?st = sv_logs st" "sv_next ?st = sv_next st + 1"
    by (simp_all add: alloc_user_def)
  have fresh: "map_of (r_users st) i \<noteq> Some (sv_next st)" for i
    using svc_okD(3) [OF assms] by (meson less_irrefl)
  have fresh': "map_of (r_users_by_name st) n \<noteq> Some (sv_next st)" for n
    using repo_ok_named(2) [OF svc_okD(1) [OF assms]] fresh by blast
  have "keys_ok (r_users st) (\<lambda>p. u_id (((h_users st)(sv_next st := u)) p))"
    "keys_ok (r_users_by_name st) (\<lambda>p. u_username (((h_users st)(sv_next st := u)) p))"
    using svc_okD(1) [OF assms] fresh fresh' by (auto simp: repo_ok_def keys_ok_def)
  then have "repo_ok ?st"
    using svc_okD(1) [OF assms] fresh fresh' unfolding repo_ok_def maps by auto
  with assms show ?thesis unfolding svc_ok_def maps by (auto intro: less_SucI)
qed

lemma svc_ok_CreateUser:
  assumes "svc_ok env st" and "p < sv_next st" and "issued env (sv_tick st) (u_id (h_users st p))"
    and "map_of (r_users st) (u_id (h_users st p)) = None"
  shows "svc_ok env (snd (CreateUser p st))"
  using assms repo_ok_CreateUser [OF svc_okD(1) [OF assms(1)] assms(4)]
  by (auto simp: CreateUser_def svc_ok_def Let_def map_of_map_put split: option.splits)

lemma svc_ok_UpdateUser:
  assumes "svc_ok env st" and "map_of (r_users st) (u_id (h_users st p)) = Some p"
  shows "svc_ok env (snd (UpdateUser p st))"
  using assms repo_ok_UpdateUser [OF svc_okD(1) [OF assms(1)] assms(2)]
  by (auto simp: UpdateUser_def svc_ok_def Let_def map_of_map_put)

lemma svc_ok_write_user:
  assumes "svc_ok env st" and "u_id u = u_id (h_users st p)"
    and "u_username u = u_username (h_users st p)"
  shows "svc_ok env (write_user p u st)"
  using assms repo_ok_write_user [OF svc_okD(1) [OF assms(1)] assms(2,3)]
  by (simp add: write_user_def svc_ok_def)

lemma svc_ok_DeleteUser: "svc_ok env st \<Longrightarrow> svc_ok env (snd (DeleteUser uid st))"
  using repo_ok_DeleteUser [OF svc_okD(1), of env st uid]
  by (auto simp: DeleteUser_def svc_ok_def map_of_delete split: option.splits if_splits)

lemma svc_ok_new_session:
  assumes "svc_ok env st"
  shows "svc_ok env (CreateSession (sv_next st) (snd (alloc_session s st)))"
proof -
  let ?st = "snd (alloc_session s st)"
  have "map_of (r_sessions st) i \<noteq> Some (sv_next st)" for i
    using svc_okD(4) [OF assms] by (meson less_irrefl)
  then have "repo_ok ?st"
    using svc_okD(1) [OF assms] by (auto simp: alloc_session_def repo_ok_def keys_ok_def)
  from repo_ok_CreateSession [OF this, of "sv_next st"] assms show ?thesis
    by (auto simp: svc_ok_def CreateSession_def alloc_session_def map_of_map_put less_SucI)
qed

lemma svc_ok_new_token:
  assumes "svc_ok env st" and "issued env (sv_tick st) (ht_token t)"
  shows "svc_ok env (CreateHECToken (sv_next st) (snd (alloc_token t st)))"
proof -
  let ?st = "snd (alloc_token t st)"
  have "map_of (r_hec_tokens st) i \<noteq> Some (sv_next st)" for i
    using svc_okD(5) [OF assms(1)] by (meson less_irrefl)
  then have "repo_ok ?st"
    using svc_okD(1) [OF assms(1)] by (auto simp: alloc_token_def repo_ok_def keys_ok_def)
  from repo_ok_CreateHECToken [OF this, of "sv_next st"] assms show ?thesis
    by (auto simp: svc_ok_def CreateHECToken_def alloc_token_def map_of_map_put less_SucI)
qed

lemma svc_ok_RevokeSession: "svc_ok env st \<Longrightarrow> svc_ok env (snd (RevokeSession now tok st))"
  using repo_ok_RevokeSession [OF svc_okD(1), of env st now tok]
  by (auto simp: svc_ok_def RevokeSession_def split: option.splits)

lemma svc_ok_RevokeHECToken: "svc_ok env st \<Longrightarrow> svc_ok env (snd (RevokeHECToken now tok st))"
  using repo_ok_RevokeHECToken [OF svc_okD(1), of env st now tok]
  by (auto simp: svc_ok_def RevokeHECToken_def split: option.splits)


section \<open>Every operation keeps it\<close>

lemma svc_ok_svc_CreateUser:
  assumes "svc_ok env st" and "fresh_uuids env"
  shows "svc_ok env (snd (svc_CreateUser env req actor ip ua st))"
proof (cases "e_bcrypt env (sv_tick st) (cu_password req)")
  case None
  with assms show ?thesis by (simp add: svc_CreateUser_def)
next
  case hash: (Some h)
  show ?thesis
  proof (cases "e_uuid env (sv_tick (tick st))")
    case None
    with hash assms show ?thesis by (simp add: svc_CreateUser_def Let_def)
  next
    case (Some i)
    let ?u = "new_user i req h ip ua"
    let ?st = "snd (alloc_user ?u (tick (tick st)))"
    have ok: "svc_ok env ?st" using assms(1) by blast
    have alloc: "fst (alloc_user ?u (tick (tick st))) = sv_next st" "sv_next ?st = Suc (sv_next st)"
      "h_users ?st (sv_next st) = ?u" "r_users ?st = r_users st" "sv_tick ?st = Suc (Suc (sv_tick st))"
      "u_id ?u = i"
      by (simp_all add: alloc_user_def new_user_def)
    have "\<not> issued env (sv_tick st) i"
      using fresh_not_issued [OF assms(2) Some, of "sv_tick st"] by simp
    with svc_okD(3) [OF assms(1)] have "map_of (r_users st) i = None"
      by (metis not_None_eq)
    moreover have "issued env (sv_tick ?st) i" using Some alloc unfolding issued_def by auto
    ultimately have "svc_ok env (snd (CreateUser (sv_next st) ?st))"
      using svc_ok_CreateUser [OF ok, of "sv_next st"] alloc by simp
    with hash Some alloc(1) show ?thesis
      by (simp add: svc_CreateUser_def Let_def case_prod_unfold split: option.split)
  qed
qed

lemma GetUserByID_named:
  assumes "svc_ok env st" and "GetUserByID uid st = Inr p"
  shows "map_of (r_users st) (u_id (h_users st p)) = Some p"
  using repo_ok_stored [OF svc_okD(1) [OF assms(1)], of uid p] assms(2) by (simp add: GetUser_iffs)

lemma svc_ok_store_again:
  assumes "svc_ok env st" and "GetUserByID uid st = Inr p" and "u_id u = u_id (h_users st p)"
    and "u_username u = u_username (h_users st p)"
  shows "svc_ok env (snd (UpdateUser p (write_user p u st)))"
proof (rule svc_ok_UpdateUser [OF svc_ok_write_user [OF assms(1,3,4)]])
  show "map_of (r_users (write_user p u st)) (u_id (h_users (write_user p u st) p)) = Some p"
    using GetUserByID_named [OF assms(1,2)] assms(3) by (simp add: write_user_def)
qed

lemma svc_ok_UpdateUserDetails:
  assumes "svc_ok env st"
  shows "svc_ok env (snd (UpdateUserDetails env uid req actor ip ua st))"
proof (cases "GetUserByID uid st")
  case (Inl e)
  with assms show ?thesis by (simp add: UpdateUserDetails_def)
next
  case (Inr p)
  have "u_id (apply_update req u) = u_id u" "u_username (apply_update req u) = u_username u" for u
    by (simp_all add: apply_update_def Let_def split: option.split)
  then have "svc_ok env (snd (UpdateUser p (write_user p (apply_update req (h_users st p)) st)))"
    by (rule svc_ok_store_again [OF assms Inr])
  with Inr show ?thesis
    by (simp add: UpdateUserDetails_def case_prod_unfold split: option.split)
qed

lemma svc_ok_svc_DeleteUser:
  assumes "svc_ok env st"
  shows "svc_ok env (snd (svc_DeleteUser env uid actor ip ua st))"
  using assms svc_ok_DeleteUser [OF assms, of uid]
  by (simp add: svc_DeleteUser_def Let_def case_prod_unfold split: sum.split option.split)

lemma svc_ok_ResetPassword:
  assumes "svc_ok env st"
  shows "svc_ok env (snd (ResetPassword env uid pw actor ip ua st))"
proof (cases "GetUserByID uid st")
  case (Inl e)
  with assms show ?thesis by (simp add: ResetPassword_def)
next
  case (Inr p)
  then have "GetUserByID uid (tick st) = Inr p" by (simp add: GetUser_iffs)
  from svc_ok_store_again [OF svc_ok_tick [OF assms] this]
  have "svc_ok env (snd (UpdateUser p (write_user p ((h_users st p)\<lparr>u_password_hash := h\<rparr>) (tick st))))"
    for h by simp
  with Inr assms show ?thesis
    by (simp add: ResetPassword_def case_prod_unfold split: option.split)
qed

lemma user_access_token_state [simp]: "snd (user_access_token env u st) = tick (tick (tick st))"
  by (simp add: user_access_token_def GenerateAccessToken_def Let_def)

lemma GenerateRefreshToken_state [simp]: "snd (GenerateRefreshToken env st) = tick st"
  by (simp add: GenerateRefreshToken_def)

lemma svc_ok_Login_session:
  "svc_ok env st \<Longrightarrow> svc_ok env (snd (Login_session env u at rt ip ua st))"
  using svc_ok_new_session [of env "tick (tick st)"]
  by (auto simp: Login_session_def alloc_session_def Let_def split: option.split)

lemma svc_ok_Login:
  "svc_ok env st \<Longrightarrow> svc_ok env (snd (Login env req ip ua st))"
  by (auto simp: Login_def Let_def case_prod_unfold svc_ok_Login_session split: sum.split option.split)

lemma svc_ok_RefreshToken: "svc_ok env st \<Longrightarrow> svc_ok env (snd (RefreshToken env tok st))"
  by (auto simp: RefreshToken_def case_prod_unfold split: sum.split option.split)

lemma ValidateAccessToken_state [simp]: "snd (ValidateAccessToken env tok st) = tick st"
  by (simp add: ValidateAccessToken_def split: option.split prod.split)

lemma svc_ok_ValidateToken: "svc_ok env st \<Longrightarrow> svc_ok env (snd (ValidateToken env tok st))"
  by (auto simp: ValidateToken_def case_prod_unfold split: sum.split option.split)

lemma svc_ok_RevokeToken: "svc_ok env st \<Longrightarrow> svc_ok env (snd (RevokeToken env tok st))"
  by (simp add: RevokeToken_def svc_ok_RevokeSession)

lemma svc_ok_svc_CreateHECToken:
  assumes "svc_ok env st"
  shows "svc_ok env (snd (svc_CreateHECToken env uid cid name ex ip ua st))"
proof -
  have "svc_ok env (CreateHECToken (sv_next st)
      (snd (alloc_token (new_hec_token i tok uid cid name ip ua) (tick (tick st)))))"
    if "e_uuid env (sv_tick st) = Some tok" for i tok
  proof -
    from that have "issued env (sv_tick (tick (tick st))) tok"
      unfolding issued_def by (intro exI [of _ "sv_tick st"]) simp
    then show ?thesis
      using svc_ok_new_token [of env "tick (tick st)" "new_hec_token i tok uid cid name ip ua"] assms
      by (simp add: new_hec_token_def)
  qed
  with assms show ?thesis
    by (auto simp: svc_CreateHECToken_def Let_def alloc_token_def split: option.split)
qed

lemma svc_ok_ValidateHECToken: "svc_ok env st \<Longrightarrow> svc_ok env (snd (ValidateHECToken env tok ip ua st))"
  by (auto simp: ValidateHECToken_def Let_def split: sum.split)

lemma svc_ok_revoke_hec_token:
  "svc_ok env st \<Longrightarrow> svc_ok env (snd (revoke_hec_token env q tok uid ip ua st))"
  using svc_ok_RevokeHECToken [of env "tick st"]
  by (auto simp: revoke_hec_token_def Let_def case_prod_unfold split: option.split)

lemmas svc_ok_operations =
  svc_ok_svc_CreateUser svc_ok_Login svc_ok_RefreshToken svc_ok_ValidateToken svc_ok_RevokeToken
  svc_ok_UpdateUserDetails svc_ok_svc_DeleteUser svc_ok_ResetPassword svc_ok_svc_CreateHECToken
  svc_ok_ValidateHECToken svc_ok_revoke_hec_token

lemma svc_ok_step: "svc_step env st st' \<Longrightarrow> fresh_uuids env \<Longrightarrow> svc_ok env st \<Longrightarrow> svc_ok env st'"
  by (induction rule: svc_step.induct)
    (auto simp: svc_ok_operations RevokeHECTokenByUser_def RevokeHECTokenByID_def split: sum.split)

lemma svc_ok_start: "svc_ok env (NewAuthService st)"
  using repo_ok_new [of st]
  by (simp add: svc_ok_def NewAuthService_def NewInMemoryRepository_def repo_ok_def)


section \<open>Sessions\<close>

definition user_claims :: "env \<Rightarrow> user \<Rightarrow> nat \<Rightarrow> claims" where
  \<comment> \<open>what a token issued for the user carries\<close>
  "user_claims env u n =
     new_claims env (u_id u) (u_roles u) (u_permissions_version u)
       (stringOrEmpty (u_primary_organization_id u)) (stringOrEmpty (u_primary_client_id u)) n"

definition jwt_sound :: "env \<Rightarrow> bool" where
  \<comment> \<open>the JWT library: what was signed with the access secret parses, as the claims it was made of,
      from its not-before date up to a second before its expiry (dates are kept to the second)\<close>
  "jwt_sound env \<longleftrightarrow>
     (\<forall>c tok now. e_jwt_sign env (e_access_secret env) c = Some tok \<longrightarrow>
        jc_not_before c \<le> now \<longrightarrow> now + second \<le> jc_expires_at c \<longrightarrow>
        (\<exists>c'. e_jwt_parse env now (access_key env) tok = Some (Some c', True)
           \<and> jc_user_id c' = jc_user_id c \<and> jc_roles c' = jc_roles c
           \<and> jc_permissions_version c' = jc_permissions_version c
           \<and> jc_organization_id c' = jc_organization_id c \<and> jc_client_id c' = jc_client_id c))"

lemma user_access_token_eq:
  "user_access_token env u st =
     (e_jwt_sign env (e_access_secret env) (user_claims env u (sv_tick st)), tick (tick (tick st)))"
  by (simp add: user_access_token_def GenerateAccessToken_def user_claims_def)

lemma Login_session_success:
  assumes "Login_session env u at rt ip ua st = (Inr r, st')"
  obtains i where "r = bearer at rt" and "sv_tick st + 2 < sv_tick st'"
    and "r_users st' = r_users st" and "r_users_by_name st' = r_users_by_name st"
    and "h_users st' = h_users st"
    and "r_sessions st' = map_put rt (sv_next st) (r_sessions st)"
    and "h_sessions st' = (h_sessions st)
          (sv_next st := new_session i u at rt (e_now env (Suc (sv_tick st))) ip ua)"
proof (cases "e_uuid env (sv_tick st)")
  case None
  with assms show ?thesis by (simp add: Login_session_def)
next
  case (Some i)
  let ?s = "new_session i u at rt (e_now env (Suc (sv_tick st))) ip ua"
  let ?st3 = "CreateSession (sv_next st) (snd (alloc_session ?s (tick (tick st))))"
  have rt: "s_refresh_token ?s = rt" by (simp add: new_session_def)
  from Some assms have r: "r = bearer at rt"
    and st': "st' = logged env ''user'' (u_id u) (u_username u) ''login'' ''session'' i ip ua
      ''success'' [] [(''session_id'', GStr i), (''roles'', roles_val (u_roles u))] ?st3"
    by (auto simp: Login_session_def Let_def alloc_session_def)
  have "sv_tick st + 2 = sv_tick ?st3" by (simp add: CreateSession_def alloc_session_def)
  also have "\<dots> < sv_tick st'" unfolding st' by (rule logged_tick)
  finally have n: "sv_tick st + 2 < sv_tick st'" .
  show ?thesis
    by (rule that [OF r n, of i]) (simp_all add: st' rt CreateSession_def alloc_session_def)
qed

lemma Login_success:
  assumes "Login env req ip ua st = (Inr r, st')"
  obtains p where "GetUserByUsername (li_username req) st = Inr p"
    and "User_IsActive (h_users st p)"
    and "e_bcrypt_compare env (u_password_hash (h_users st p)) (li_password req)"
    and "e_jwt_sign env (e_access_secret env) (user_claims env (h_users st p) (sv_tick st))
           = Some (lr_access_token r)"
    and "Login_session env (h_users st p) (lr_access_token r) (lr_refresh_token r) ip ua
           (tick (tick (tick (tick st)))) = (Inr r, st')"
proof -
  from assms obtain p where p: "GetUserByUsername (li_username req) st = Inr p"
    by (auto simp: Login_def split: sum.splits)
  with assms have "User_IsActive (h_users st p)"
    "e_bcrypt_compare env (u_password_hash (h_users st p)) (li_password req)"
    by (auto simp: Login_def Let_def split: if_splits)
  moreover from p assms this obtain at rt where
    at: "e_jwt_sign env (e_access_secret env) (user_claims env (h_users st p) (sv_tick st)) = Some at"
    and s: "Login_session env (h_users st p) at rt ip ua (tick (tick (tick (tick st)))) = (Inr r, st')"
    by (auto simp: Login_def Let_def user_access_token_eq GenerateRefreshToken_def split: option.splits)
  moreover from s have "lr_access_token r = at" "lr_refresh_token r = rt"
    by (auto elim!: Login_session_success simp: bearer_def)
  ultimately show ?thesis using that p by blast
qed

lemma find_Some_in: "find P xs = Some x \<Longrightarrow> x \<in> set xs \<and> P x"
  by (induction xs) (auto split: if_splits)

lemma GetSessionByAccessToken_Inr:
  assumes "GetSessionByAccessToken at st = Inr q"
  shows "q \<in> snd ` set (r_sessions st) \<and> s_access_token (h_sessions st q) = at"
proof -
  from assms have "find (\<lambda>p. s_access_token (h_sessions st p) = at) (map snd (r_sessions st)) = Some q"
    by (simp add: GetSessionByAccessToken_def split: option.splits)
  from find_Some_in [OF this] show ?thesis by simp
qed

lemma find_eq_only:
  assumes "x \<in> set xs" and "P x" and "\<And>y. y \<in> set xs \<Longrightarrow> P y \<Longrightarrow> y = x"
  shows "find P xs = Some x"
proof (cases "find P xs")
  case None
  with assms(1,2) show ?thesis by (auto simp: find_None_iff)
next
  case (Some y)
  from assms(3) find_Some_in [OF Some] have "y = x" by blast
  with Some show ?thesis by simp
qed

lemma in_map_put: "q \<in> snd ` set (map_put k p m) \<Longrightarrow> q = p \<or> q \<in> snd ` set m"
  unfolding map_put_def by (induction m) (auto split: if_splits)

lemma map_put_in: "p \<in> snd ` set (map_put k p m)"
  unfolding map_put_def by (induction m) auto

lemma GetSessionByAccessToken_only:
  assumes "q \<in> snd ` set (r_sessions st)" and "s_access_token (h_sessions st q) = at"
    and "\<And>p. p \<in> snd ` set (r_sessions st) \<Longrightarrow> s_access_token (h_sessions st p) = at \<Longrightarrow> p = q"
  shows "GetSessionByAccessToken at st = Inr q"
proof -
  have "find (\<lambda>p. s_access_token (h_sessions st p) = at) (map snd (r_sessions st)) = Some q"
  proof (rule find_eq_only)
    show "q \<in> set (map snd (r_sessions st))" using assms(1) by simp
  next
    show "s_access_token (h_sessions st q) = at" by (rule assms(2))
  next
    show "y = q" if "y \<in> set (map snd (r_sessions st))" "s_access_token (h_sessions st y) = at" for y
      by (rule assms(3)) (use that in simp_all)
  qed
  then show ?thesis by (simp add: GetSessionByAccessToken_def)
qed

lemma ValidateToken_no_session:
  assumes "\<And>q. q \<in> snd ` set (r_sessions st) \<Longrightarrow> s_access_token (h_sessions st q) = at \<Longrightarrow>
      s_revoked_at (h_sessions st q) \<noteq> None"
  shows "fst (ValidateToken env at st) = Inr invalid_response"
proof (cases "GetSessionByAccessToken at (tick st)")
  case (Inl e)
  then show ?thesis
    by (auto simp: ValidateToken_def case_prod_unfold split: option.split)
next
  case (Inr q)
  from GetSessionByAccessToken_Inr [OF this] have "s_revoked_at (h_sessions st q) \<noteq> None"
    using assms [of q] by simp
  with Inr show ?thesis
    by (auto simp: ValidateToken_def case_prod_unfold Session_IsActive_def split: option.split)
qed

lemma ValidateToken_session:
  assumes "e_jwt_parse env (e_now env (sv_tick st)) (access_key env) at = Some (Some c, True)"
    and "GetSessionByAccessToken at st = Inr q"
    and "Session_IsActive (e_now env (Suc (sv_tick st))) (h_sessions st q)"
    and "map_of (r_users st) (jc_user_id c) = Some p"
  shows "fst (ValidateToken env at st) =
    Inr \<lparr>vt_valid = True, vt_user_id = jc_user_id c, vt_roles = jc_roles c,
         vt_permissions_version = u_permissions_version (h_users st p),
         vt_permissions_stale = (u_permissions_version (h_users st p) \<noteq> jc_permissions_version c),
         vt_organization_id = jc_organization_id c, vt_client_id = jc_client_id c\<rparr>"
proof -
  have "GetSessionByAccessToken at (tick st) = Inr q"
    using assms(2) by (simp add: GetSessionByAccessToken_def)
  moreover have "GetUserPermissionsVersion (jc_user_id c) (tick st) = Inr (u_permissions_version (h_users st p))"
    using assms(4) by (simp add: GetUserPermissionsVersion_def)
  ultimately show ?thesis
    using assms(1,3) by (simp add: ValidateToken_def ValidateAccessToken_def)
qed


lemma validation_frame: "repo.truncate (snd (ValidateToken env tok st)) = repo.truncate st"
  by (simp add: ValidateToken_def case_prod_unfold repo.truncate_def split: sum.split option.split)

end
