(* ===== verification/AuthProps.thy ===== *)
theory AuthProps
  imports AuthLaws
begin

text \<open>
  The properties of the authenticate service, each with an instance on a small concrete run: a
  service whose environment is given by simple functions, in which a user is created, logs in,
  refreshes and logs out.
\<close>

section \<open>A concrete service\<close>

definition sample_env :: env where
  "sample_env =
     \<lparr>e_uuid = (\<lambda>n. Some (replicate n (CHR ''u''))), e_now = (\<lambda>_. 1700000000 * second),
      e_rand = (\<lambda>n. Some ''rnd''), e_bcrypt = (\<lambda>_ pw. Some pw),
      e_bcrypt_compare = (\<lambda>h pw. h = pw),
      e_jwt_sign = (\<lambda>s c.
        if jc_roles c = [''viewer''] \<and> jc_permissions_version c = 0 \<and> jc_organization_id c = []
           \<and> jc_client_id c = []
        then Some (jc_user_id c) else None),
      e_jwt_parse = (\<lambda>now key tok.
        case key True of
          None \<Rightarrow> None
        | Some s \<Rightarrow> Some (Some \<lparr>jc_user_id = tok, jc_roles = [''viewer''], jc_permissions_version = 0,
            jc_organization_id = [], jc_client_id = [], jc_expires_at = now, jc_issued_at = now,
            jc_not_before = now, jc_issuer = []\<rparr>, True)),
      e_hmac_sha256 = (\<lambda>k d. k @ d), e_format_time = (\<lambda>t. []), e_json = (\<lambda>m. []),
      e_access_secret = ''key'', e_audit_secret = ''audit'', e_ingest_client = True\<rparr>"

definition sample_start :: svc where
  "sample_start =
     NewAuthService \<lparr>r_users = [], r_users_by_name = [], r_sessions = [], r_hec_tokens = [],
       h_users = (\<lambda>_. client_admin), h_sessions = (\<lambda>_. new_session [] client_admin [] [] 0 [] []),
       h_tokens = (\<lambda>_. new_hec_token [] [] [] [] [] [] []), sv_tick = 0, sv_next = 0,
       sv_logs = [], sv_forwarded = []\<rparr>"

definition sample_created :: svc where
  "sample_created =
     snd (svc_CreateUser sample_env
       \<lparr>cu_username = ''ann'', cu_email = ''a@b'', cu_password = ''pw'', cu_roles = []\<rparr>
       ''root'' ''10.0.0.1'' ''curl'' sample_start)"

definition sample_login :: "(svc_error + login_response) \<times> svc" where
  "sample_login =
     Login sample_env \<lparr>li_username = ''ann'', li_password = ''pw''\<rparr> ''10.0.0.1'' ''curl'' sample_created"

lemma sample_fresh: "fresh_uuids sample_env"
  by (auto simp: fresh_uuids_def sample_env_def dest: arg_cong [of _ _ length])

lemma sample_jwt: "jwt_sound sample_env"
  by (auto simp: jwt_sound_def sample_env_def access_key_def)

lemma sample_reachable: "svc_reachable sample_env sample_created"
  unfolding sample_created_def sample_start_def
  by (rule svc_reachable.step [OF svc_reachable.start svc_step.create_user])

lemma sample_ok: "svc_ok sample_env sample_created"
  unfolding sample_created_def sample_start_def
  by (rule svc_ok_svc_CreateUser [OF svc_ok_start sample_fresh])

lemma sample_start_simps [simp]:
  "r_users sample_start = []" "r_users_by_name sample_start = []" "r_sessions sample_start = []"
  "r_hec_tokens sample_start = []" "sv_tick sample_start = 0" "sv_next sample_start = 0"
  "sv_logs sample_start = []" "sv_forwarded sample_start = []"
  by (simp_all add: sample_start_def NewAuthService_def NewInMemoryRepository_def)

lemma sample_env_simps [simp]:
  "e_uuid sample_env n = Some (replicate n (CHR ''u''))" "e_now sample_env n = 1700000000 * second"
  "e_rand sample_env n = Some ''rnd''" "e_bcrypt sample_env n pw = Some pw"
  "e_bcrypt_compare sample_env h pw = (h = pw)" "e_access_secret sample_env = ''key''"
  "e_ingest_client sample_env"
  by (simp_all add: sample_env_def)

definition sample_ann :: user where
  "sample_ann =
     new_user ''u'' \<lparr>cu_username = ''ann'', cu_email = ''a@b'', cu_password = ''pw'', cu_roles = []\<rparr>
       ''pw'' ''10.0.0.1'' ''curl''"

lemma sample_created_simps [simp]:
  "r_users sample_created = [(''u'', 0)]" "r_users_by_name sample_created = [(''ann'', 0)]"
  "r_sessions sample_created = []" "r_hec_tokens sample_created = []"
  "h_users sample_created 0 = sample_ann" "sv_next sample_created = 1" "sv_tick sample_created = 4"
  by (simp_all add: sample_created_def svc_CreateUser_def alloc_user_def CreateUser_def new_user_def
      map_put_def sample_ann_def Let_def Log_def LogAudit_def)

lemma sample_ann_simps [simp]:
  "u_id sample_ann = ''u''" "u_username sample_ann = ''ann''" "u_password_hash sample_ann = ''pw''"
  "u_roles sample_ann = [''viewer'']" "u_permissions_version sample_ann = 0"
  "u_primary_organization_id sample_ann = None" "u_primary_client_id sample_ann = None"
  "User_IsActive sample_ann"
  by (simp_all add: sample_ann_def new_user_def User_IsActive_def)

lemma sample_ann_token: "e_jwt_sign sample_env ''key'' (user_claims sample_env sample_ann n) = Some ''u''"
  by (simp add: sample_env_def user_claims_def new_claims_def stringOrEmpty_def)

declare base64url.simps [simp del]

lemma sample_base64: "base64url ''rnd'' = ''cm5k''"
  by (simp add: base64url.simps base64_digit_def Let_def)

lemma sample_response: "fst sample_login = Inr (bearer ''u'' ''cm5k'')"
  by (simp add: sample_login_def Login_def GetUserByUsername_def user_access_token_eq sample_ann_token
      GenerateRefreshToken_def Login_session_def sample_base64 Let_def alloc_session_def)

lemma sample_login_success:
  obtains st' where "sample_login = (Inr (bearer ''u'' ''cm5k''), st')" and "snd sample_login = st'"
  using sample_response by (metis prod.collapse)

section \<open>Reachable states\<close>

text \<open>C34: Every state the service can reach from an empty repository is consistent, if \<open>NewV7\<close> never
  repeats: user ids and names determine each other, keys are the ones their objects carry, no
  pointer dangles, and every entry of the audit log carries a signature that verifies.\<close>

theorem reachable_service_consistent:
  assumes "fresh_uuids env" and "svc_reachable env st"
  shows "svc_ok env st"
  using assms(2)
proof induction
  case (start st)
  show ?case by (rule svc_ok_start)
next
  case (step st st')
  then show ?case using svc_ok_step assms(1) by blast
qed

theorem reachable_service_consistent_witness:
  "svc_ok sample_env sample_created \<and> GetUserByUsername ''ann'' sample_created = Inr 0"
  using reachable_service_consistent [OF sample_fresh sample_reachable] by (simp add: GetUser_iffs)

section \<open>Sessions\<close>

text \<open>\<open>Login\<close> answers \<open>ErrInvalidCredentials\<close> exactly when the name is unknown, the account is
  disabled or deleted, or the password is wrong, so the answer does not tell them apart; and it
  adds a session, under the refresh token it returns, exactly when it succeeds.\<close>

lemma login_refusals:
  "(fst (Login env req ip ua st) = Inl ErrInvalidCredentials) =
     (case GetUserByUsername (li_username req) st of
        Inl _ \<Rightarrow> True
      | Inr p \<Rightarrow> \<not> (User_IsActive (h_users st p)
                   \<and> e_bcrypt_compare env (u_password_hash (h_users st p)) (li_password req)))
   \<and> r_sessions (snd (Login env req ip ua st)) =
       (case fst (Login env req ip ua st) of
          Inl _ \<Rightarrow> r_sessions st
        | Inr r \<Rightarrow> map_put (lr_refresh_token r) (sv_next st) (r_sessions st))"
proof
  show "(fst (Login env req ip ua st) = Inl ErrInvalidCredentials) =
     (case GetUserByUsername (li_username req) st of
        Inl _ \<Rightarrow> True
      | Inr p \<Rightarrow> \<not> (User_IsActive (h_users st p)
                   \<and> e_bcrypt_compare env (u_password_hash (h_users st p)) (li_password req)))"
    by (simp add: Login_def Let_def case_prod_unfold Login_session_def split: sum.split option.split)
next
  show "r_sessions (snd (Login env req ip ua st)) =
       (case fst (Login env req ip ua st) of
          Inl _ \<Rightarrow> r_sessions st
        | Inr r \<Rightarrow> map_put (lr_refresh_token r) (sv_next st) (r_sessions st))"
  proof (cases "Login env req ip ua st")
    case (Pair res st')
    show ?thesis
    proof (cases res)
      case (Inl e)
      with Pair have "Login env req ip ua st = (Inl e, st')" by simp
      then have "r_sessions st' = r_sessions st"
        by (auto simp: Login_def Let_def user_access_token_eq GenerateRefreshToken_def Login_session_def
            case_prod_unfold split: sum.splits option.splits if_splits)
      with Pair Inl show ?thesis by simp
    next
      case (Inr r)
      with Pair have "Login env req ip ua st = (Inr r, st')" by simp
      then have "r_sessions st' = map_put (lr_refresh_token r) (sv_next st) (r_sessions st)"
        by (auto elim!: Login_success Login_session_success simp: bearer_def)
      with Pair Inr show ?thesis by simp
    qed
  qed
qed

text \<open>C3: An access token that \<open>Login\<close> has just issued is valid: if the JWT library does what it
  documents, the clock runs forward, less than the token's life (less a second) has passed, and no
  older session carries the same token, then \<open>ValidateToken\<close> says so, for the user who logged in,
  with the user's roles and scope, and not stale.\<close>

theorem login_then_validate:
  assumes "svc_ok env st" and "jwt_sound env" and "mono (e_now env)" and "0 < e_now env (sv_tick st)"
    and "Login env req ip ua st = (Inr r, st')"
    and "GetUserByUsername (li_username req) st = Inr p"
    and "e_now env (Suc (sv_tick st')) + second \<le> e_now env (sv_tick st) + accessTTL"
    and "\<forall>q \<in> snd ` set (r_sessions st). s_access_token (h_sessions st q) \<noteq> lr_access_token r"
  shows "fst (ValidateToken env (lr_access_token r) st') =
    Inr \<lparr>vt_valid = True, vt_user_id = u_id (h_users st p), vt_roles = u_roles (h_users st p),
         vt_permissions_version = u_permissions_version (h_users st p), vt_permissions_stale = False,
         vt_organization_id = stringOrEmpty (u_primary_organization_id (h_users st p)),
         vt_client_id = stringOrEmpty (u_primary_client_id (h_users st p))\<rparr>"
proof -
  let ?at = "lr_access_token r" and ?u = "h_users st p" and ?t = "sv_tick st"
  from assms(5,6) have jwt: "e_jwt_sign env (e_access_secret env) (user_claims env ?u ?t) = Some ?at"
    and ses: "Login_session env ?u ?at (lr_refresh_token r) ip ua (tick (tick (tick (tick st)))) = (Inr r, st')"
    by (auto elim: Login_success)
  from ses obtain i where st': "?t + 6 < sv_tick st'" "r_users st' = r_users st" "h_users st' = h_users st"
    "r_sessions st' = map_put (lr_refresh_token r) (sv_next st) (r_sessions st)"
    "h_sessions st' = (h_sessions st)(sv_next st :=
       new_session i ?u ?at (lr_refresh_token r) (e_now env (?t + 5)) ip ua)"
    by (rule Login_session_success) (simp add: numeral_eq_Suc)
  have clock: "e_now env (?t + 2) \<le> e_now env (sv_tick st')" "e_now env ?t \<le> e_now env (?t + 5)"
    "e_now env (sv_tick st') \<le> e_now env (Suc (sv_tick st'))"
    using st'(1) assms(3) by (auto elim: monoD)
  have "jc_not_before (user_claims env ?u ?t) \<le> e_now env (sv_tick st')"
    "e_now env (sv_tick st') + second \<le> jc_expires_at (user_claims env ?u ?t)"
    using clock assms(7) by (simp_all add: user_claims_def new_claims_def)
  with jwt assms(2) obtain c where c: "e_jwt_parse env (e_now env (sv_tick st')) (access_key env) ?at = Some (Some c, True)"
    "jc_user_id c = u_id ?u" "jc_roles c = u_roles ?u" "jc_permissions_version c = u_permissions_version ?u"
    "jc_organization_id c = stringOrEmpty (u_primary_organization_id ?u)"
    "jc_client_id c = stringOrEmpty (u_primary_client_id ?u)"
    unfolding jwt_sound_def by (fastforce simp: user_claims_def new_claims_def)
  have found: "GetSessionByAccessToken ?at st' = Inr (sv_next st)"
  proof (rule GetSessionByAccessToken_only)
    show "sv_next st \<in> snd ` set (r_sessions st')" using st'(4) by (simp add: map_put_in)
    show "s_access_token (h_sessions st' (sv_next st)) = ?at" using st'(5) by (simp add: new_session_def)
    show "q = sv_next st" if "q \<in> snd ` set (r_sessions st')" "s_access_token (h_sessions st' q) = ?at" for q
      using that st'(4,5) assms(8) in_map_put by (fastforce split: if_splits)
  qed
  have active: "Session_IsActive (e_now env (Suc (sv_tick st'))) (h_sessions st' (sv_next st))"
    using st'(5) clock assms(4,7)
    by (simp add: Session_IsActive_def new_session_def is_zero_def zero_time_def second_def minute_def accessTTL_def)
  have stored: "map_of (r_users st') (jc_user_id c) = Some p"
    using repo_ok_named(2) [OF svc_okD(1) [OF assms(1)]] assms(6) c(2) st'(2) by (simp add: GetUser_iffs)
  show ?thesis using ValidateToken_session [OF c(1) found active stored] c st'(3) by simp
qed

theorem login_then_validate_witness:
  "vt_valid (case fst (ValidateToken sample_env ''u'' (snd sample_login)) of Inr v \<Rightarrow> v)"
proof -
  obtain st' where login: "sample_login = (Inr (bearer ''u'' ''cm5k''), st')" "snd sample_login = st'"
    by (rule sample_login_success)
  from login(1) have l: "Login sample_env \<lparr>li_username = ''ann'', li_password = ''pw''\<rparr> ''10.0.0.1''
      ''curl'' sample_created = (Inr (bearer ''u'' ''cm5k''), st')" by (simp add: sample_login_def)
  from login_then_validate [OF sample_ok sample_jwt _ _ l, of 0]
  show ?thesis unfolding login(2)
    by (simp add: mono_def second_def GetUser_iffs accessTTL_def minute_def bearer_def)
qed

text \<open>C4: Logging out ends the session: after a successful \<open>RevokeToken\<close> the refresh token is refused
  with \<open>ErrInvalidToken\<close>, and every access token carried by that session alone is invalid, whatever
  the clock and the JWT library say.\<close>

theorem logout_ends_session:
  assumes "RevokeToken env rt st = (None, st')"
    and "\<forall>q \<in> snd ` set (r_sessions st). s_access_token (h_sessions st q) = at \<longrightarrow>
      map_of (r_sessions st) rt = Some q"
  shows "fst (RefreshToken env' rt st') = Inl ErrInvalidToken
    \<and> fst (ValidateToken env' at st') = Inr invalid_response"
proof -
  from assms(1) obtain q where q: "map_of (r_sessions st) rt = Some q"
    and st': "st' = (tick st)\<lparr>h_sessions := (h_sessions st)
      (q := (h_sessions st q)\<lparr>s_revoked_at := Some (e_now env (sv_tick st))\<rparr>)\<rparr>"
    by (auto simp: RevokeToken_def RevokeSession_def split: option.splits)
  have "fst (RefreshToken env' rt st') = Inl ErrInvalidToken"
    using q by (simp add: st' RefreshToken_def GetSession_def Session_IsActive_def)
  moreover have "fst (ValidateToken env' at st') = Inr invalid_response"
    by (rule ValidateToken_no_session) (use assms(2) q st' in \<open>auto split: if_splits\<close>)
  ultimately show ?thesis by simp
qed

theorem logout_ends_session_witness:
  "fst (RevokeToken sample_env ''cm5k'' (snd sample_login)) = None
   \<and> fst (ValidateToken sample_env ''u'' (snd (RevokeToken sample_env ''cm5k'' (snd sample_login))))
       = Inr invalid_response"
proof -
  let ?st = "snd sample_login"
  have one: "r_sessions ?st = [(''cm5k'', 1)]"
    using login_refusals [of sample_env] sample_response
    by (simp add: sample_login_def bearer_def map_put_def)
  then have r: "RevokeToken sample_env ''cm5k'' ?st = (None, snd (RevokeToken sample_env ''cm5k'' ?st))"
    by (simp add: RevokeToken_def RevokeSession_def)
  from r have "fst (RevokeToken sample_env ''cm5k'' ?st) = None" by (metis fst_conv)
  with logout_ends_session [OF r, of "''u''" sample_env] one show ?thesis by simp
qed

text \<open>The access token \<open>RefreshToken\<close> returns is of no use: it is never stored in the session, so
  \<open>ValidateToken\<close> finds no session for it and answers invalid, as long as it differs from the tokens
  issued at the logins. A refresh leaves every session as it was.\<close>

lemma refreshed_token_rejected:
  assumes "RefreshToken env rt st = (Inr r, st')"
    and "\<forall>q \<in> snd ` set (r_sessions st). s_access_token (h_sessions st q) \<noteq> lr_access_token r"
  shows "r_sessions st' = r_sessions st \<and> h_sessions st' = h_sessions st
    \<and> fst (ValidateToken env' (lr_access_token r) st') = Inr invalid_response"
proof -
  from assms(1) have "r_sessions st' = r_sessions st" "h_sessions st' = h_sessions st"
    by (auto simp: RefreshToken_def user_access_token_eq split: sum.splits option.splits if_splits)
  moreover from this assms(2) have "fst (ValidateToken env' (lr_access_token r) st') = Inr invalid_response"
    by (intro ValidateToken_no_session) (simp, blast)
  ultimately show ?thesis by simp
qed

definition sample_stale :: svc where
  \<comment> \<open>a session whose access token was issued before the user's\<close>
  "sample_stale =
     sample_created\<lparr>r_sessions := [(''rt'', 1)],
       h_sessions := (\<lambda>_. new_session ''s'' sample_ann ''old'' ''rt'' (1700000000 * second) [] [])\<rparr>"

lemma sample_stale_active:
  "Session_IsActive (1700000000 * second)
     (new_session ''s'' sample_ann ''old'' ''rt'' (1700000000 * second) [] [])"
  by (simp add: Session_IsActive_def new_session_def is_zero_def zero_time_def second_def minute_def)

lemma sample_stale_user: "s_user_id (new_session i sample_ann at rt n ip ua) = ''u''"
  by (simp add: new_session_def)

lemma sample_refresh:
  "RefreshToken sample_env ''rt'' sample_stale = (Inr (bearer ''u'' ''rt''), tick (tick (tick (tick sample_stale))))"
  using sample_stale_active sample_stale_user
  by (simp add: RefreshToken_def GetSession_def sample_stale_def GetUserByID_def user_access_token_eq
      sample_ann_token tick_def)

text \<open>Disabling an account stops its logins but not its refreshes: for a user who is disabled or
  deleted, but still stored, \<open>Login\<close> is refused, and yet the refresh token of a session opened
  before still gets a new access token, with the user's roles.\<close>

lemma disabled_user_refreshes:
  assumes "GetUserByUsername (li_username req) st = Inr p" and "\<not> User_IsActive (h_users st p)"
    and "GetSession rt st = Inr q" and "Session_IsActive (e_now env (sv_tick st)) (h_sessions st q)"
    and "GetUserByID (s_user_id (h_sessions st q)) st = Inr p"
    and "e_jwt_sign env (e_access_secret env) (user_claims env (h_users st p) (Suc (sv_tick st))) = Some at"
  shows "fst (Login env req ip ua st) = Inl ErrInvalidCredentials
    \<and> fst (RefreshToken env rt st) = Inr (bearer at rt)"
  using assms by (simp add: Login_def RefreshToken_def user_access_token_eq Let_def)

section \<open>Ingestion tokens and the audit trail\<close>

text \<open>An ingestion token never expires, whatever expiry was asked for: \<open>CreateHECToken\<close> does the
  same for every \<open>expiresIn\<close>, and the token it makes is accepted under every clock.\<close>

lemma hec_token_never_expires:
  assumes "svc_CreateHECToken env userID clientID name expiresIn ip ua st = (Inr p, st')"
  shows "svc_CreateHECToken env userID clientID name expiresIn' ip ua st = (Inr p, st')
    \<and> fst (ValidateHECToken env' (ht_token (h_tokens st' p)) ip' ua' st') = Inr p"
proof -
  from assms obtain tok i where ids: "e_uuid env (sv_tick st) = Some tok" "clientID \<noteq> []"
    "e_uuid env (Suc (sv_tick st)) = Some i"
    by (auto simp: svc_CreateHECToken_def Let_def split: if_splits option.splits)
  let ?t = "new_hec_token i tok userID clientID name ip ua"
  have tok: "ht_token ?t = tok" "ht_expires_at ?t = None" "HECToken_IsActive now ?t" for now
    by (simp_all add: new_hec_token_def HECToken_IsActive_def)
  from ids assms tok have "p = sv_next st" "h_tokens st' p = ?t" "map_of (r_hec_tokens st') tok = Some p"
    by (auto simp: svc_CreateHECToken_def Let_def alloc_token_def CreateHECToken_def)
  with tok have "fst (ValidateHECToken env' (ht_token (h_tokens st' p)) ip' ua' st') = Inr p"
    by (simp add: ValidateHECToken_def GetHECToken_def Let_def)
  with assms show ?thesis by (simp add: svc_CreateHECToken_def)
qed

lemma sample_hec:
  "svc_CreateHECToken sample_env ''u'' ''c'' ''n'' ''1h'' [] [] sample_created =
     (Inr 1, snd (svc_CreateHECToken sample_env ''u'' ''c'' ''n'' ''1h'' [] [] sample_created))"
  by (rule prod_eqI) (simp_all add: svc_CreateHECToken_def Let_def alloc_token_def)

text \<open>Only the owner of an ingestion token can revoke it, and revocation is final: anyone else is
  refused and changes nothing; after the owner's revocation the token is never accepted again.\<close>

lemma revoked_hec_token_refused:
  assumes "GetHECToken tok st = Inr q"
  shows "(if uid \<noteq> ht_user_id (h_tokens st q)
     then RevokeHECTokenByUser env tok uid ip ua st = (Some Unauthorized, st)
     else fst (RevokeHECTokenByUser env tok uid ip ua st) = None
       \<and> fst (ValidateHECToken env' tok ip' ua' (snd (RevokeHECTokenByUser env tok uid ip ua st)))
           = Inl ErrInvalidToken)"
proof (cases "uid = ht_user_id (h_tokens st q)")
  case False
  with assms show ?thesis by (simp add: RevokeHECTokenByUser_def revoke_hec_token_def)
next
  case True
  from assms have q: "map_of (r_hec_tokens st) tok = Some q"
    by (simp add: GetHECToken_def split: option.splits)
  let ?st = "snd (RevokeHECToken (e_now env (sv_tick st)) tok (tick st))"
  have r: "r_hec_tokens ?st = r_hec_tokens st" "ht_revoked_at (h_tokens ?st q) \<noteq> None"
    "fst (RevokeHECToken (e_now env (sv_tick st)) tok (tick st)) = None"
    using q by (simp_all add: RevokeHECToken_def)
  let ?st' = "logged env ''user'' uid [] ''hec_token_revoke'' ''hec_token'' (ht_id (h_tokens st q))
    ip ua ''success'' [] [] ?st"
  have "RevokeHECTokenByUser env tok uid ip ua st = (None, ?st')"
    using assms r(3) True
    by (simp add: RevokeHECTokenByUser_def revoke_hec_token_def case_prod_unfold Let_def)
  moreover have "fst (ValidateHECToken env' tok ip' ua' ?st') = Inl ErrInvalidToken"
    using q r(1,2) by (simp add: ValidateHECToken_def GetHECToken_def HECToken_IsActive_def Let_def)
  ultimately show ?thesis using True by simp
qed


text \<open>Validating tokens never feeds the ingest pipeline, so that the ingest service, which validates
  a token for each request, cannot start a loop: \<open>ValidateHECToken\<close>, \<open>ValidateToken\<close> and
  \<open>RefreshToken\<close> forward no audit event, and none of them changes the repository.\<close>

lemma validation_not_forwarded:
  "sv_forwarded (snd (ValidateHECToken env tok ip ua st)) = sv_forwarded st
   \<and> sv_forwarded (snd (ValidateToken env tok st)) = sv_forwarded st
   \<and> sv_forwarded (snd (RefreshToken env tok st)) = sv_forwarded st
   \<and> repo.truncate (snd (ValidateHECToken env tok ip ua st)) = repo.truncate st
   \<and> repo.truncate (snd (ValidateToken env tok st)) = repo.truncate st
   \<and> repo.truncate (snd (RefreshToken env tok st)) = repo.truncate st"
proof -
  have "\<not> ShouldForwardToIngest ''hec_token_validate''" by (simp add: ShouldForwardToIngest_def)
  note quiet = logged_not_forwarded [OF this]
  show ?thesis
    by (simp add: ValidateHECToken_def ValidateToken_def RefreshToken_def Let_def case_prod_unfold quiet
        repo.truncate_def split: sum.split option.split)
qed

end
