(* ===== verification/Middleware.thy ===== *)
theory Middleware
  imports AuthProps
begin

text \<open>
  The authenticate service's HTTP middleware (\<^verbatim>\<open>authenticate/internal/middleware/auth.go\<close>,
  \<^verbatim>\<open>middleware/permission.go\<close>). A middleware either answers itself or calls the next handler with
  a context; a \<open>verdict\<close> is one or the other, and \<open>Panicked\<close> a nil dereference in the check it
  makes (which \<open>net/http\<close> turns into a dropped connection). The header is what
  \<open>r.Header.Get("Authorization")\<close> returns.
\<close>

section \<open>Authentication\<close>

record auth_context =
  ax_user_id :: string
  ax_permissions_version :: int
  ax_permissions_stale :: bool
  ax_user :: user

record permission_error =
  pe_status :: int
  pe_code :: string
  pe_title :: string
  pe_detail :: string
  pe_permission :: string

datatype verdict =
    Plain int string                \<comment> \<open>\<open>http.Error\<close>: status and text\<close>
  | Refused permission_error        \<comment> \<open>the JSON:API error\<close>
  | Passed auth_context             \<comment> \<open>\<open>next.ServeHTTP\<close> with this context\<close>
  | Panicked

definition RequireAuth :: "env \<Rightarrow> string \<Rightarrow> svc \<Rightarrow> verdict \<times> svc" where
  "RequireAuth env authHeader st =
     (if authHeader = [] then (Plain 401 ''Missing authorization header'', st)
      else
        (case split_on (CHR '' '') authHeader of
           [scheme, token] \<Rightarrow>
             if scheme \<noteq> ''Bearer'' then (Plain 401 ''Invalid authorization header'', st)
             else
               (case ValidateToken env token st of
                  (Inl _, st1) \<Rightarrow> (Plain 401 ''Invalid or expired token'', st1)
                | (Inr resp, st1) \<Rightarrow>
                    if \<not> vt_valid resp then (Plain 401 ''Invalid or expired token'', st1)
                    else
                      (case svc_GetUserWithRoles (vt_user_id resp) st1 of
                         Inl _ \<Rightarrow> (Plain 500 ''Failed to load user data'', st1)
                       | Inr p \<Rightarrow>
                           (Passed \<lparr>ax_user_id = vt_user_id resp,
                                    ax_permissions_version = vt_permissions_version resp,
                                    ax_permissions_stale = vt_permissions_stale resp,
                                    ax_user = h_users st1 p\<rparr>, st1)))
         | _ \<Rightarrow> (Plain 401 ''Invalid authorization header'', st)))"

section \<open>Permissions\<close>

definition writePermissionError :: "int \<Rightarrow> string \<Rightarrow> string \<Rightarrow> permission_error" where
  "writePermissionError status detail permission =
     (if status = 401
      then \<lparr>pe_status = status, pe_code = ''unauthorized'', pe_title = ''Unauthorized'',
            pe_detail = detail, pe_permission = permission\<rparr>
      else \<lparr>pe_status = status, pe_code = ''forbidden'', pe_title = ''Forbidden'',
            pe_detail = detail, pe_permission = permission\<rparr>)"

definition with_auth ::
  \<comment> \<open>\<open>m.RequireAuth(func ...)\<close>: \<open>RequireAuth\<close> always puts a user into the context, so the check
      \<open>user == nil\<close> of the inner handlers fails\<close>
  "(auth_context \<Rightarrow> verdict) \<Rightarrow> env \<Rightarrow> string \<Rightarrow> svc \<Rightarrow> verdict \<times> svc" where
  "with_auth inner env authHeader st =
     (case RequireAuth env authHeader st of
        (Passed ctx, st1) \<Rightarrow> (inner ctx, st1)
      | (v, st1) \<Rightarrow> (v, st1))"

definition check_permission :: "string \<Rightarrow> auth_context \<Rightarrow> verdict" where
  "check_permission permission ctx =
     (if \<not> Can (ax_user ctx) permission
      then Refused (writePermissionError 403 (permission @ '' permission required'') permission)
      else Passed ctx)"

definition RequirePermission :: "string \<Rightarrow> env \<Rightarrow> string \<Rightarrow> svc \<Rightarrow> verdict \<times> svc" where
  "RequirePermission permission = with_auth (check_permission permission)"

definition check_any :: "string list \<Rightarrow> auth_context \<Rightarrow> verdict" where
  \<comment> \<open>\<open>%v\<close> of a slice: its elements between brackets, separated by spaces\<close>
  "check_any permissions ctx =
     (if list_ex (Can (ax_user ctx)) permissions then Passed ctx
      else Refused (writePermissionError 403
             (''one of ['' @ join_with '' '' permissions @ ''] permissions required'') []))"

definition RequireAnyPermission :: "string list \<Rightarrow> env \<Rightarrow> string \<Rightarrow> svc \<Rightarrow> verdict \<times> svc" where
  "RequireAnyPermission permissions = with_auth (check_any permissions)"

fun check_all :: "string list \<Rightarrow> auth_context \<Rightarrow> verdict" where
  "check_all [] ctx = Passed ctx"
| "check_all (permission # permissions) ctx =
     (if \<not> Can (ax_user ctx) permission
      then Refused (writePermissionError 403 (permission @ '' permission required'') permission)
      else check_all permissions ctx)"

definition RequireAllPermissions :: "string list \<Rightarrow> env \<Rightarrow> string \<Rightarrow> svc \<Rightarrow> verdict \<times> svc" where
  "RequireAllPermissions permissions = with_auth (check_all permissions)"

definition check_ordinal :: "int \<Rightarrow> auth_context \<Rightarrow> verdict" where
  "check_ordinal maxOrdinal ctx =
     (if LowestOrdinal (ax_user ctx) > maxOrdinal
      then Refused (writePermissionError 403
             (''insufficient privilege level (requires ordinal <= '' @ int_string maxOrdinal @ '')'') [])
      else Passed ctx)"

definition RequireOrdinal :: "int \<Rightarrow> env \<Rightarrow> string \<Rightarrow> svc \<Rightarrow> verdict \<times> svc" where
  "RequireOrdinal maxOrdinal = with_auth (check_ordinal maxOrdinal)"

fun tier_text :: "scope_tier \<Rightarrow> string" where
  "tier_text TierPlatform = ''platform''"
| "tier_text TierOrganization = ''organization''"
| "tier_text TierClient = ''client''"

definition check_tier :: "scope_tier list \<Rightarrow> auth_context \<Rightarrow> verdict" where
  "check_tier allowedTiers ctx =
     (let userScopeTier = GetScopeTier (ax_user ctx) in
      if userScopeTier \<in> set allowedTiers then Passed ctx
      else Refused (writePermissionError 403
             (''scope tier '' @ tier_text userScopeTier @ '' not authorized for this operation'') []))"

definition RequireScopeTier :: "scope_tier list \<Rightarrow> env \<Rightarrow> string \<Rightarrow> svc \<Rightarrow> verdict \<times> svc" where
  "RequireScopeTier allowedTiers = with_auth (check_tier allowedTiers)"

definition check_in_scope ::
  "string \<Rightarrow> string option \<Rightarrow> string option \<Rightarrow> org_lookup \<Rightarrow> auth_context \<Rightarrow> verdict" where
  \<comment> \<open>the target organization and client are what \<open>extractScope\<close> found in the request\<close>
  "check_in_scope permission targetOrgID targetClientID verifyClientOrg ctx =
     (case CanActInScope (ax_user ctx) permission targetOrgID targetClientID verifyClientOrg of
        None \<Rightarrow> Panicked
      | Some False \<Rightarrow>
          Refused (writePermissionError 403 (permission @ '' permission required in target scope'') permission)
      | Some True \<Rightarrow> Passed ctx)"

definition RequirePermissionInScope ::
  "string \<Rightarrow> string option \<Rightarrow> string option \<Rightarrow> org_lookup \<Rightarrow> env \<Rightarrow> string \<Rightarrow> svc \<Rightarrow> verdict \<times> svc"
where
  "RequirePermissionInScope permission targetOrgID targetClientID verifyClientOrg =
     with_auth (check_in_scope permission targetOrgID targetClientID verifyClientOrg)"

definition check_platform :: "string \<Rightarrow> auth_context \<Rightarrow> verdict" where
  "check_platform permission ctx =
     (case CanActAtPlatformLevel (ax_user ctx) permission of
        None \<Rightarrow> Panicked
      | Some False \<Rightarrow>
          Refused (writePermissionError 403 (permission @ '' permission required at platform level'') permission)
      | Some True \<Rightarrow> Passed ctx)"

definition RequirePlatformPermission :: "string \<Rightarrow> env \<Rightarrow> string \<Rightarrow> svc \<Rightarrow> verdict \<times> svc" where
  "RequirePlatformPermission permission = with_auth (check_platform permission)"


section \<open>The interface of a check\<close>

locale guard =
  fixes inner :: "auth_context \<Rightarrow> verdict" and allowed :: "user \<Rightarrow> bool"
  assumes passes_iff: "inner ctx = Passed c \<longleftrightarrow> c = ctx \<and> allowed (ax_user ctx)"
begin

lemma with_auth_passes:
  "with_auth inner env h st = (Passed ctx, st') \<longleftrightarrow>
     RequireAuth env h st = (Passed ctx, st') \<and> allowed (ax_user ctx)"
  by (cases "RequireAuth env h st"; cases "fst (RequireAuth env h st)")
    (auto simp: with_auth_def passes_iff)

end

interpretation permission: guard "check_permission p" "\<lambda>u. Can u p" for p
  by unfold_locales (auto simp: check_permission_def)

interpretation any: guard "check_any ps" "\<lambda>u. list_ex (Can u) ps" for ps
  by unfold_locales (auto simp: check_any_def)

interpretation all: guard "check_all ps" "\<lambda>u. list_all (Can u) ps" for ps
proof
  show "check_all ps ctx = Passed c \<longleftrightarrow> c = ctx \<and> list_all (Can (ax_user ctx)) ps" for ctx c
    by (induction ps) auto
qed

interpretation ordinal: guard "check_ordinal n" "\<lambda>u. LowestOrdinal u \<le> n" for n
  by unfold_locales (auto simp: check_ordinal_def)

interpretation tier: guard "check_tier ts" "\<lambda>u. GetScopeTier u \<in> set ts" for ts
  by unfold_locales (auto simp: check_tier_def Let_def)

interpretation in_scope: guard "check_in_scope p org cl belongs"
  "\<lambda>u. CanActInScope u p org cl belongs = Some True" for p org cl belongs
  by unfold_locales (auto simp: check_in_scope_def split: option.split bool.split)

interpretation platform: guard "check_platform p" "\<lambda>u. CanActAtPlatformLevel u p = Some True" for p
  by unfold_locales (auto simp: check_platform_def split: option.split bool.split)

lemma split_on_two:
  assumes "split_on d s = [a, b]"
  shows "s = a @ d # b \<and> d \<notin> set b"
proof -
  have one: "t = w \<and> d \<notin> set w" if "split_on d t = [w]" for t w
    using that by (induction t arbitrary: w) (auto split: if_splits list.splits)
  show ?thesis using assms
    by (induction s arbitrary: a) (auto split: if_splits list.splits dest: one)
qed

lemma ValidateToken_valid:
  assumes "ValidateToken env tok st = (Inr resp, st')" and "vt_valid resp"
  obtains c q where "e_jwt_parse env (e_now env (sv_tick st)) (access_key env) tok = Some (Some c, True)"
    and "q \<in> snd ` set (r_sessions st)" and "s_access_token (h_sessions st q) = tok"
    and "Session_IsActive (e_now env (Suc (sv_tick st))) (h_sessions st q)"
    and "vt_user_id resp = jc_user_id c"
proof -
  from assms obtain c where c: "ValidateAccessToken env tok st = (Some c, tick st)"
    by (cases "ValidateAccessToken env tok st"; cases "fst (ValidateAccessToken env tok st)")
      (auto simp: ValidateToken_def invalid_response_def ValidateAccessToken_def
        split: option.splits prod.splits if_splits)
  then have jwt: "e_jwt_parse env (e_now env (sv_tick st)) (access_key env) tok = Some (Some c, True)"
    by (auto simp: ValidateAccessToken_def split: option.splits prod.splits if_splits)
  from assms c obtain q where q: "GetSessionByAccessToken tok (tick st) = Inr q"
    by (auto simp: ValidateToken_def invalid_response_def split: sum.splits)
  with assms c have "Session_IsActive (e_now env (Suc (sv_tick st))) (h_sessions st q)"
    "vt_user_id resp = jc_user_id c"
    by (auto simp: ValidateToken_def invalid_response_def split: sum.splits if_splits)
  with jwt GetSessionByAccessToken_Inr [OF q] show ?thesis by (intro that [of c q]) simp_all
qed

definition sample_live :: svc where
  \<comment> \<open>ann has a session with access token \<open>u\<close>\<close>
  "sample_live =
     sample_created\<lparr>r_sessions := [(''rt'', 1)],
       h_sessions := (\<lambda>_. new_session ''s'' sample_ann ''u'' ''rt'' (1700000000 * second) [] [])\<rparr>"

lemma sample_live_passes: "\<exists>ctx st'. RequireAuth sample_env ''Bearer u'' sample_live = (Passed ctx, st')"
proof -
  have active: "Session_IsActive (1700000000 * second)
      (new_session ''s'' sample_ann ''u'' ''rt'' (1700000000 * second) [] [])"
    by (simp add: Session_IsActive_def new_session_def is_zero_def zero_time_def second_def minute_def)
  have parse: "e_jwt_parse sample_env n (access_key sample_env) ''u'' =
      Some (Some \<lparr>jc_user_id = ''u'', jc_roles = [''viewer''], jc_permissions_version = 0,
        jc_organization_id = [], jc_client_id = [], jc_expires_at = n, jc_issued_at = n,
        jc_not_before = n, jc_issuer = []\<rparr>, True)" for n
    by (simp add: sample_env_def access_key_def)
  show ?thesis
    using active
    by (simp add: RequireAuth_def ValidateToken_def ValidateAccessToken_def parse sample_live_def
        GetSessionByAccessToken_def new_session_def GetUserPermissionsVersion_def
        svc_GetUserWithRoles_def GetUserWithRoles_def GetUserByID_def)
qed

section \<open>Properties\<close>

text \<open>C7: No request gets past \<open>RequireAuth\<close> without a live session: if it passes, the header is
  \<open>Bearer\<close>, one space and a token; the JWT library accepts the token with the access secret; a session
  that is neither revoked nor expired carries it; and the user in the context is the stored user the
  token names.\<close>

theorem RequireAuth_sound:
  assumes "RequireAuth env header st = (Passed ctx, st')"
  shows "\<exists>tok c q p. header = ''Bearer'' @ CHR '' '' # tok
    \<and> e_jwt_parse env (e_now env (sv_tick st)) (access_key env) tok = Some (Some c, True)
    \<and> q \<in> snd ` set (r_sessions st) \<and> s_access_token (h_sessions st q) = tok
    \<and> Session_IsActive (e_now env (Suc (sv_tick st))) (h_sessions st q)
    \<and> ax_user_id ctx = jc_user_id c \<and> map_of (r_users st) (jc_user_id c) = Some p
    \<and> ax_user ctx = h_users st p"
proof -
  from assms obtain tok where tok: "split_on (CHR '' '') header = [''Bearer'', tok]"
    by (auto simp: RequireAuth_def split: if_splits list.splits)
  with assms have ne: "header \<noteq> []" by (auto simp: RequireAuth_def)
  from assms tok ne obtain resp s where v: "ValidateToken env tok st = (Inr resp, s)" "vt_valid resp"
    by (auto simp: RequireAuth_def split: prod.splits sum.splits if_splits)
  with assms tok ne obtain p where p: "svc_GetUserWithRoles (vt_user_id resp) s = Inr p"
    "ax_user_id ctx = vt_user_id resp" "ax_user ctx = h_users s p"
    by (auto simp: RequireAuth_def split: sum.splits)
  have "repo.truncate s = repo.truncate st"
    using validation_frame v(1) by (metis snd_conv)
  then have "r_users s = r_users st" "h_users s = h_users st" by (simp_all add: repo.truncate_def)
  with p have "map_of (r_users st) (vt_user_id resp) = Some p" "ax_user ctx = h_users st p"
    by (simp_all add: svc_GetUserWithRoles_def GetUserWithRoles_def GetUser_iffs)
  with ValidateToken_valid [OF v] split_on_two [OF tok] p(2) show ?thesis by metis
qed

theorem RequireAuth_sound_witness:
  "\<exists>c q. e_jwt_parse sample_env (1700000000 * second) (access_key sample_env) ''u'' = Some (Some c, True)
     \<and> q \<in> snd ` set (r_sessions sample_live) \<and> s_access_token (h_sessions sample_live q) = ''u''"
proof -
  from sample_live_passes obtain ctx st' where
    "RequireAuth sample_env ''Bearer u'' sample_live = (Passed ctx, st')" by blast
  from RequireAuth_sound [OF this] show ?thesis by auto
qed

text \<open>Each permission middleware lets a request through exactly when \<open>RequireAuth\<close> does and the user
  it loaded passes the check: the permission, any or all of several, an ordinal, a scope tier, a
  permission in the target scope, or one at platform level.\<close>

lemma middleware_exact:
  "(RequirePermission p env h st = (Passed ctx, st')) =
     (RequireAuth env h st = (Passed ctx, st') \<and> Can (ax_user ctx) p)
   \<and> (RequireAnyPermission ps env h st = (Passed ctx, st')) =
     (RequireAuth env h st = (Passed ctx, st') \<and> list_ex (Can (ax_user ctx)) ps)
   \<and> (RequireAllPermissions ps env h st = (Passed ctx, st')) =
     (RequireAuth env h st = (Passed ctx, st') \<and> list_all (Can (ax_user ctx)) ps)
   \<and> (RequireOrdinal n env h st = (Passed ctx, st')) =
     (RequireAuth env h st = (Passed ctx, st') \<and> LowestOrdinal (ax_user ctx) \<le> n)
   \<and> (RequireScopeTier ts env h st = (Passed ctx, st')) =
     (RequireAuth env h st = (Passed ctx, st') \<and> GetScopeTier (ax_user ctx) \<in> set ts)
   \<and> (RequirePermissionInScope p org cl belongs env h st = (Passed ctx, st')) =
     (RequireAuth env h st = (Passed ctx, st')
       \<and> CanActInScope (ax_user ctx) p org cl belongs = Some True)
   \<and> (RequirePlatformPermission p env h st = (Passed ctx, st')) =
     (RequireAuth env h st = (Passed ctx, st') \<and> CanActAtPlatformLevel (ax_user ctx) p = Some True)"
  unfolding RequirePermission_def RequireAnyPermission_def RequireAllPermissions_def
    RequireOrdinal_def RequireScopeTier_def RequirePermissionInScope_def RequirePlatformPermission_def
    permission.with_auth_passes any.with_auth_passes all.with_auth_passes ordinal.with_auth_passes
    tier.with_auth_passes in_scope.with_auth_passes platform.with_auth_passes
  by simp

end
