(* ===== verification/Http.thy ===== *)
theory Http
  imports Prelude
begin

text \<open>
  HTTP as the services see it, and the shared request helpers of \<^verbatim>\<open>common/httputil\<close>: the client
  address, the audit context of a request, pagination, and the shape of the responses. A request's
  headers are what \<open>Header.Get\<close> answers, the query what \<open>URL.Query().Get\<close> answers. A response
  is its status, its content type and its body; a body is a text or a JSON document.
\<close>

section \<open>Requests\<close>

record request =
  rq_method :: string
  rq_host :: string
  rq_path :: string
  rq_header :: "string \<Rightarrow> string"     \<comment> \<open>\<open>Header.Get\<close>: empty when absent\<close>
  rq_query :: "string \<Rightarrow> string"
  rq_cookie :: "string \<Rightarrow> string option"
  rq_remote_addr :: string
  rq_body :: "string option"          \<comment> \<open>None: reading it fails\<close>

definition SplitHostPort :: "string \<Rightarrow> string option" where
  \<comment> \<open>\<open>net.SplitHostPort\<close>, the host only; the port starts after the last colon\<close>
  "SplitHostPort hostport =
     (if CHR '':'' \<notin> set hostport then None
      else
        let i = length hostport - Suc (length (takeWhile (\<lambda>c. c \<noteq> CHR '':'') (rev hostport))) in
        if hd hostport = CHR ''['' then
          (let e = length (takeWhile (\<lambda>c. c \<noteq> CHR '']'') hostport) in
           if e = length hostport \<or> Suc e \<noteq> i then None
           else if CHR ''['' \<in> set (drop 1 hostport) \<or> CHR '']'' \<in> set (drop (Suc e) hostport) then None
           else Some (take (e - 1) (drop 1 hostport)))
        else
          (let host = take i hostport in
           if CHR '':'' \<in> set host then None
           else if CHR ''['' \<in> set hostport \<or> CHR '']'' \<in> set hostport then None
           else Some host))"

definition GetClientIP :: "request \<Rightarrow> string" where
  "GetClientIP r =
     (let xff = rq_header r ''X-Forwarded-For''; xri = rq_header r ''X-Real-IP'' in
      if xff \<noteq> [] then trim_space (hd (split_on (CHR '','') xff))
      else if xri \<noteq> [] then xri
      else (case SplitHostPort (rq_remote_addr r) of
              None \<Rightarrow> rq_remote_addr r
            | Some host \<Rightarrow> host))"

section \<open>The audit context of a request\<close>

datatype source_type =
  SourceTypeUnknown | SourceTypeWeb | SourceTypeCLI | SourceTypeAPI | SourceTypeSystem

fun source_type_code :: "source_type \<Rightarrow> int" where
  "source_type_code SourceTypeUnknown = 0"
| "source_type_code SourceTypeWeb = 1"
| "source_type_code SourceTypeCLI = 2"
| "source_type_code SourceTypeAPI = 3"
| "source_type_code SourceTypeSystem = 4"

fun source_type_String :: "source_type \<Rightarrow> string" where
  "source_type_String SourceTypeWeb = ''web''"
| "source_type_String SourceTypeCLI = ''cli''"
| "source_type_String SourceTypeAPI = ''api''"
| "source_type_String SourceTypeSystem = ''system''"
| "source_type_String SourceTypeUnknown = ''unknown''"

record request_context =
  rc_ip :: "string option"        \<comment> \<open>\<open>net.ParseIP\<close> of the address, None for nil\<close>
  rc_source_type :: source_type
  rc_user_agent :: string

definition explicit_source :: "string \<Rightarrow> source_type" where
  "explicit_source source =
     (let s = to_lower source in
      if s = ''web'' then SourceTypeWeb
      else if s = ''cli'' then SourceTypeCLI
      else if s = ''api'' then SourceTypeAPI
      else if s = ''system'' then SourceTypeSystem
      else SourceTypeUnknown)"

definition NewRequestContext :: "(string \<Rightarrow> string option) \<Rightarrow> request \<Rightarrow> request_context" where
  "NewRequestContext parse_ip r =
     (let ip = GetClientIP r;
          ipStr = (case SplitHostPort ip of Some host \<Rightarrow> host | None \<Rightarrow> ip);
          ua = rq_header r ''User-Agent'';
          source = rq_header r ''X-TelHawk-Source'' in
      \<lparr>rc_ip = parse_ip ipStr,
       rc_source_type =
         (if source \<noteq> [] then explicit_source source
          else if ua \<noteq> [] then
            (if contains_str (to_lower ua) ''thawk'' \<or> contains_str (to_lower ua) ''telhawk-cli''
             then SourceTypeCLI else SourceTypeWeb)
          else SourceTypeUnknown),
       rc_user_agent = ua\<rparr>)"

definition IPString :: "request_context option \<Rightarrow> string" where
  "IPString rc =
     (case rc of None \<Rightarrow> [] | Some c \<Rightarrow> (case rc_ip c of None \<Rightarrow> [] | Some ip \<Rightarrow> ip))"

section \<open>Pagination\<close>

text \<open>
  Go's \<open>int\<close> is 64 bits wide here, since the page and the limit come from the request and are
  multiplied; \<open>wrap64\<close> is the wrap-around.
\<close>

definition wrap64 :: "int \<Rightarrow> int" where
  "wrap64 x = (x + 2 ^ 63) mod 2 ^ 64 - 2 ^ 63"

definition digit :: "char \<Rightarrow> int option" where
  "digit c =
     (let n = (of_char c :: nat) in if 48 \<le> n \<and> n \<le> 57 then Some (int n - 48) else None)"

fun digits_value :: "int \<Rightarrow> string \<Rightarrow> int option" where
  "digits_value acc [] = Some acc"
| "digits_value acc (c # cs) =
     (case digit c of None \<Rightarrow> None | Some d \<Rightarrow> digits_value (10 * acc + d) cs)"

definition atoi :: "string \<Rightarrow> int option" where
  \<comment> \<open>\<open>strconv.Atoi\<close>: an optional sign, digits, and a value of 64 bits\<close>
  "atoi s =
     (let (sign, ds) = (case s of
            [] \<Rightarrow> (1, [])
          | c # cs \<Rightarrow> if c = CHR ''-'' then (- 1, cs) else if c = CHR ''+'' then (1, cs) else (1, s)) in
      if ds = [] then None
      else (case digits_value 0 ds of
              None \<Rightarrow> None
            | Some n \<Rightarrow> let v = sign * n in if - (2 ^ 63) \<le> v \<and> v < 2 ^ 63 then Some v else None))"

definition ParseIntParam :: "string \<Rightarrow> int \<Rightarrow> int" where
  "ParseIntParam s defaultVal =
     (if s = [] then defaultVal else (case atoi s of Some v \<Rightarrow> v | None \<Rightarrow> defaultVal))"

record pagination =
  pg_page :: int
  pg_limit :: int
  pg_total :: int

definition ParsePagination :: "request \<Rightarrow> int \<Rightarrow> int \<Rightarrow> pagination" where
  "ParsePagination r defaultLimit maxLimit =
     (let page = ParseIntParam (rq_query r ''page'') 1;
          limit = ParseIntParam (rq_query r ''limit'') defaultLimit;
          limit = (if limit > maxLimit then maxLimit else limit);
          page = (if page < 1 then 1 else page) in
      \<lparr>pg_page = page, pg_limit = limit, pg_total = 0\<rparr>)"

definition Offset :: "pagination \<Rightarrow> int" where
  "Offset p = wrap64 ((pg_page p - 1) * pg_limit p)"

section \<open>Responses\<close>

record 'b response =
  rs_status :: int
  rs_content_type :: string
  rs_body :: 'b

datatype doc =
    Nothing
  | Plain_text string
  | Doc gval

definition http_Error :: "string \<Rightarrow> int \<Rightarrow> doc response" where
  \<comment> \<open>\<open>http.Error\<close>; the newline it appends is left out\<close>
  "http_Error text status =
     \<lparr>rs_status = status, rs_content_type = ''text/plain; charset=utf-8'', rs_body = Plain_text text\<rparr>"

definition WriteJSON :: "int \<Rightarrow> gval \<Rightarrow> doc response" where
  "WriteJSON status data =
     \<lparr>rs_status = status, rs_content_type = ''application/json'', rs_body = Doc data\<rparr>"

definition WriteJSONAPI :: "int \<Rightarrow> gval \<Rightarrow> doc response" where
  "WriteJSONAPI status data =
     \<lparr>rs_status = status, rs_content_type = ''application/vnd.api+json'', rs_body = Doc data\<rparr>"

definition no_content :: "doc response" where
  "no_content = \<lparr>rs_status = 204, rs_content_type = [], rs_body = Nothing\<rparr>"

definition total_pages :: "pagination \<Rightarrow> int" where
  \<comment> \<open>the quotient of \<open>WriteJSONAPICollection\<close>; Go divides towards zero\<close>
  "total_pages p =
     (if pg_limit p > 0
      then (let n = wrap64 (pg_total p + pg_limit p - 1) in
            sgn n * (\<bar>n\<bar> div pg_limit p))
      else 0)"

definition collection_meta :: "pagination \<Rightarrow> gval" where
  "collection_meta p =
     GObj [(''pagination'', GObj [(''page'', GInt (pg_page p)), (''limit'', GInt (pg_limit p)),
       (''total'', GInt (pg_total p)), (''total_pages'', GInt (total_pages p))])]"

end
