(* ===== verification/AuthHandler.thy ===== *)
theory AuthHandler
  imports Middleware Http
begin

text \<open>
  The HTTP layer of the authenticate service (\<^verbatim>\<open>authenticate/internal/handlers/auth_handler.go\<close>,
  \<^verbatim>\<open>authenticate/internal/server/router.go\<close>): a handler maps a request and the service's state to the
  response and the new state; \<open>NewRouter\<close> finds the handler of a method and a path and puts the
  middleware before it. The handlers read the caller's identity from the headers \<open>X-User-ID\<close> and
  \<open>X-User-Roles\<close>, not from the context that \<open>RequireAuth\<close> fills.

  What \<open>encoding/json\<close> makes of a request body, and the texts of the errors of libraries, are in the
  record \<open>auth_codec\<close>. A JSON response is the value it encodes; key order is not significant.
\<close>

section \<open>Requests and errors\<close>

record create_hec_request =
  ch_name :: string
  ch_client_id :: string
  ch_expires_in :: string

record auth_codec =
  ac_create_user :: "string \<Rightarrow> create_user_request option"   \<comment> \<open>\<open>Decode\<close> into each request type\<close>
  ac_login :: "string \<Rightarrow> login_request option"
  ac_refresh :: "string \<Rightarrow> string option"                      \<comment> \<open>the field \<open>refresh_token\<close>\<close>
  ac_token :: "string \<Rightarrow> string option"                        \<comment> \<open>the field \<open>token\<close>\<close>
  ac_update :: "string \<Rightarrow> update_user_request option"
  ac_reset :: "string \<Rightarrow> string option"                        \<comment> \<open>the field \<open>new_password\<close>\<close>
  ac_create_hec :: "string \<Rightarrow> create_hec_request option"
  ac_library_error :: "svc_error \<Rightarrow> string"                    \<comment> \<open>bcrypt, JWT, uuid\<close>
  ac_marshal :: "gval \<Rightarrow> string"                               \<comment> \<open>\<open>json.Marshal\<close>\<close>

definition Decode :: "(string \<Rightarrow> 'a option) \<Rightarrow> request \<Rightarrow> 'a option" where
  "Decode dec r = (case rq_body r of None \<Rightarrow> None | Some b \<Rightarrow> dec b)"

definition svc_error_Error :: "auth_codec \<Rightarrow> svc_error \<Rightarrow> string" where
  "svc_error_Error cd e =
     (case e of
        ErrInvalidCredentials \<Rightarrow> ''invalid credentials''
      | ErrInvalidToken \<Rightarrow> ''invalid token''
      | RepoError err \<Rightarrow> repo_error_Error err
      | UuidError what \<Rightarrow> what @ '': '' @ ac_library_error cd e
      | PermissionsVersionError err \<Rightarrow> ''fetching permissions version: '' @ repo_error_Error err
      | UsernameError userID err \<Rightarrow>
          ''failed to get username for user '' @ userID @ '': '' @ repo_error_Error err
      | ClientIDRequired \<Rightarrow> ''client_id is required for HEC token creation''
      | Unauthorized \<Rightarrow> ''unauthorized''
      | _ \<Rightarrow> ac_library_error cd e)"

type_synonym auth_handler = "request \<Rightarrow> svc \<Rightarrow> doc response \<times> svc"

definition hasRole :: "string \<Rightarrow> string \<Rightarrow> bool" where
  "hasRole rolesHeader target =
     list_ex (\<lambda>r. trim_space r = target) (split_on (CHR '','') rolesHeader)"

section \<open>Documents\<close>

definition user_resource :: "user \<Rightarrow> gval" where
  "user_resource user =
     (let resp = User_ToResponse user in
      GObj [(''type'', GStr ''user''), (''id'', GStr (usr_id resp)),
            (''attributes'', GObj
               [(''version_id'', GStr (usr_version_id resp)), (''username'', GStr (usr_username resp)),
                (''email'', GStr (usr_email resp)), (''roles'', roles_val (usr_roles resp)),
                (''enabled'', GBool (usr_enabled resp))])])"

definition login_doc :: "login_response \<Rightarrow> gval" where
  "login_doc resp =
     GObj [(''access_token'', GStr (lr_access_token resp)),
           (''refresh_token'', GStr (lr_refresh_token resp)),
           (''expires_in'', GInt (lr_expires_in resp)), (''token_type'', GStr (lr_token_type resp))]"

definition omitempty :: "string \<Rightarrow> string \<Rightarrow> (string \<times> gval) list" where
  "omitempty key s = (if s = [] then [] else [(key, GStr s)])"

definition validate_doc :: "validate_token_response \<Rightarrow> gval" where
  "validate_doc resp =
     GObj ([(''valid'', GBool (vt_valid resp))]
       @ omitempty ''user_id'' (vt_user_id resp)
       @ (if vt_roles resp = [] then [] else [(''roles'', roles_val (vt_roles resp))])
       @ (if vt_permissions_version resp = 0 then []
          else [(''permissions_version'', GInt (vt_permissions_version resp))])
       @ (if vt_permissions_stale resp then [(''permissions_stale'', GBool True)] else [])
       @ omitempty ''organization_id'' (vt_organization_id resp)
       @ omitempty ''client_id'' (vt_client_id resp))"

definition validate_hec_doc :: "hec_token option \<Rightarrow> gval" where
  \<comment> \<open>\<open>None\<close>: the answer \<open>Valid: false\<close>\<close>
  "validate_hec_doc hecToken =
     (case hecToken of
        None \<Rightarrow> GObj [(''valid'', GBool False)]
      | Some t \<Rightarrow>
          GObj ([(''valid'', GBool True)]
            @ omitempty ''token_id'' (ht_id t) @ omitempty ''token_name'' (ht_name t)
            @ omitempty ''user_id'' (ht_user_id t) @ omitempty ''client_id'' (ht_client_id t)))"

definition expires_val :: "env \<Rightarrow> hec_token_response \<Rightarrow> string \<times> gval" where
  "expires_val env resp =
     (''expires_at'', case hr_expires_at resp of None \<Rightarrow> GNil | Some t \<Rightarrow> GStr (e_format_time env t))"

definition hec_resource :: "string \<Rightarrow> (string \<times> gval) list \<Rightarrow> gval" where
  "hec_resource i attributes =
     GObj [(''type'', GStr ''hec-token''), (''id'', GStr i), (''attributes'', GObj attributes)]"

definition created_hec_doc :: "env \<Rightarrow> hec_token_response \<Rightarrow> gval" where
  "created_hec_doc env resp =
     GObj [(''data'', hec_resource (hr_id resp)
       [(''token'', GStr (hr_token resp)), (''name'', GStr (hr_name resp)),
        (''user_id'', GStr (hr_user_id resp)), (''client_id'', GStr (hr_client_id resp)),
        (''enabled'', GBool (hr_enabled resp)), expires_val env resp])]"

definition masked_hec_doc :: "env \<Rightarrow> string option \<Rightarrow> time \<Rightarrow> hec_token \<Rightarrow> gval" where
  \<comment> \<open>an entry of \<open>ListHECTokens\<close>, with the owner's name for an admin\<close>
  "masked_hec_doc env username now t =
     (let resp = (case username of
                    None \<Rightarrow> ToMaskedResponse now t
                  | Some name \<Rightarrow> ToMaskedResponseWithUsername now name t) in
      hec_resource (hr_id resp)
        ([(''token'', GStr (hr_token resp)), (''name'', GStr (hr_name resp)),
          (''user_id'', GStr (hr_user_id resp))]
         @ (case username of None \<Rightarrow> [] | Some _ \<Rightarrow> [(''username'', GStr (hr_username resp))])
         @ [(''enabled'', GBool (hr_enabled resp)), expires_val env resp]))"

definition scope_doc :: "user_scope_response \<Rightarrow> gval" where
  "scope_doc s =
     GObj [(''max_tier'', GStr (us_max_tier s)),
       (''organizations'', GArr (map (\<lambda>o'. GObj
          [(''id'', GStr (orsp_id o')), (''version_id'', GStr (orsp_version_id o')),
           (''name'', GStr (orsp_name o')), (''slug'', GStr (orsp_slug o')),
           (''enabled'', GBool (orsp_enabled o'))]) (us_organizations s))),
       (''clients'', GArr (map (\<lambda>c. GObj
          [(''id'', GStr (crsp_id c)), (''version_id'', GStr (crsp_version_id c)),
           (''organization_id'', GStr (crsp_organization_id c)), (''name'', GStr (crsp_name c)),
           (''slug'', GStr (crsp_slug c)), (''enabled'', GBool (crsp_enabled c))]) (us_clients s)))]"

section \<open>Handlers\<close>

definition json_ok :: "gval \<Rightarrow> doc response" where
  \<comment> \<open>the content type set, then \<open>json.NewEncoder(w).Encode\<close>, which sends status 200\<close>
  "json_ok v = WriteJSON 200 v"

definition bad_method :: "doc response" where
  "bad_method = http_Error ''Method not allowed'' 405"

definition bad_body :: "doc response" where
  "bad_body = http_Error ''Invalid request body'' 400"

definition user_agent :: "request \<Rightarrow> string" where
  "user_agent r = rq_header r ''User-Agent''"

definition http_CreateUser :: "env \<Rightarrow> auth_codec \<Rightarrow> auth_handler" where
  \<comment> \<open>\<open>WriteJSON\<close> replaces the content type set before it\<close>
  "http_CreateUser env cd r st =
     (let actorID = rq_header r ''X-User-ID'' in
      if actorID = [] then (http_Error ''Unauthorized'' 401, st)
      else if \<not> hasRole (rq_header r ''X-User-Roles'') ''admin''
      then (http_Error ''Forbidden: admin role required'' 403, st)
      else
        (case Decode (ac_create_user cd) r of
           None \<Rightarrow> (bad_body, st)
         | Some req \<Rightarrow>
             (case svc_CreateUser env req actorID (GetClientIP r) (user_agent r) st of
                (Inl err, st1) \<Rightarrow> (http_Error (svc_error_Error cd err) 400, st1)
              | (Inr p, st1) \<Rightarrow>
                  (WriteJSON 201 (GObj [(''data'', user_resource (h_users st1 p))]), st1))))"

definition http_Login :: "env \<Rightarrow> auth_codec \<Rightarrow> auth_handler" where
  "http_Login env cd r st =
     (if rq_method r \<noteq> ''POST'' then (bad_method, st)
      else
        (case Decode (ac_login cd) r of
           None \<Rightarrow> (bad_body, st)
         | Some req \<Rightarrow>
             (case Login env req (GetClientIP r) (user_agent r) st of
                (Inl err, st1) \<Rightarrow> (http_Error ''Invalid credentials'' 401, st1)
              | (Inr resp, st1) \<Rightarrow> (json_ok (login_doc resp), st1))))"

definition http_RefreshToken :: "env \<Rightarrow> auth_codec \<Rightarrow> auth_handler" where
  "http_RefreshToken env cd r st =
     (if rq_method r \<noteq> ''POST'' then (bad_method, st)
      else
        (case Decode (ac_refresh cd) r of
           None \<Rightarrow> (bad_body, st)
         | Some refreshToken \<Rightarrow>
             (case RefreshToken env refreshToken st of
                (Inl err, st1) \<Rightarrow> (http_Error ''Invalid token'' 401, st1)
              | (Inr resp, st1) \<Rightarrow> (json_ok (login_doc resp), st1))))"

definition http_ValidateToken :: "env \<Rightarrow> auth_codec \<Rightarrow> auth_handler" where
  "http_ValidateToken env cd r st =
     (if rq_method r \<noteq> ''POST'' then (bad_method, st)
      else
        (case Decode (ac_token cd) r of
           None \<Rightarrow> (bad_body, st)
         | Some token \<Rightarrow>
             (case ValidateToken env token st of
                (Inl err, st1) \<Rightarrow> (http_Error ''Internal server error'' 500, st1)
              | (Inr resp, st1) \<Rightarrow>
                  if \<not> vt_valid resp then (WriteJSON 401 (validate_doc resp), st1)
                  else (json_ok (validate_doc resp), st1))))"

definition http_RevokeToken :: "env \<Rightarrow> auth_codec \<Rightarrow> auth_handler" where
  "http_RevokeToken env cd r st =
     (if rq_method r \<noteq> ''POST'' then (bad_method, st)
      else
        (case Decode (ac_token cd) r of
           None \<Rightarrow> (bad_body, st)
         | Some token \<Rightarrow>
             (case RevokeToken env token st of
                (Some err, st1) \<Rightarrow> (http_Error (repo_error_Error err) 400, st1)
              | (None, st1) \<Rightarrow> (no_content, st1))))"

definition http_ValidateHECToken :: "env \<Rightarrow> auth_codec \<Rightarrow> auth_handler" where
  "http_ValidateHECToken env cd r st =
     (if rq_method r \<noteq> ''POST'' then (bad_method, st)
      else
        (case Decode (ac_token cd) r of
           None \<Rightarrow> (bad_body, st)
         | Some token \<Rightarrow>
             (case ValidateHECToken env token (GetClientIP r) (user_agent r) st of
                (Inl err, st1) \<Rightarrow> (json_ok (validate_hec_doc None), st1)
              | (Inr q, st1) \<Rightarrow> (json_ok (validate_hec_doc (Some (h_tokens st1 q))), st1))))"

definition http_HealthCheck :: auth_handler where
  "http_HealthCheck r st = (json_ok (GObj [(''status'', GStr ''healthy'')]), st)"

definition list_users :: "request \<Rightarrow> svc \<Rightarrow> string + addr list" where
  \<comment> \<open>which users \<open>ListUsers\<close> shows; \<open>Inl\<close> is the text of a lookup error, and a missing identity
      is answered before\<close>
  "list_users r st =
     (let isAdmin = (rq_header r ''X-User-Roles'' \<noteq> [] \<and> hasRole (rq_header r ''X-User-Roles'') ''admin'');
          scopeType = rq_header r ''X-Scope-Type'';
          orgID = (if rq_header r ''X-Organization-ID'' = [] then None
                   else Some (rq_header r ''X-Organization-ID''));
          clientID = (if rq_header r ''X-Client-ID'' = [] then None
                      else Some (rq_header r ''X-Client-ID'')) in
      if scopeType \<noteq> [] then Inr (svc_ListUsersByScope scopeType orgID clientID st)
      else if isAdmin then Inr (svc_ListUsers st)
      else (case svc_GetUser (rq_header r ''X-User-ID'') st of
              Inl err \<Rightarrow> Inl (repo_error_Error err)
            | Inr p \<Rightarrow> Inr [p]))"

definition http_ListUsers :: auth_handler where
  "http_ListUsers r st =
     (if rq_method r \<noteq> ''GET'' then (bad_method, st)
      else if rq_header r ''X-Scope-Type'' = []
           \<and> \<not> (rq_header r ''X-User-Roles'' \<noteq> [] \<and> hasRole (rq_header r ''X-User-Roles'') ''admin'')
           \<and> rq_header r ''X-User-ID'' = [] then (http_Error ''Unauthorized'' 401, st)
      else
        (case list_users r st of
           Inl err \<Rightarrow> (http_Error err 500, st)
         | Inr users \<Rightarrow>
             (WriteJSONAPI 200
                (GObj [(''data'', GArr (map (\<lambda>p. user_resource (h_users st p)) users))]), st)))"

definition http_GetUser :: auth_handler where
  "http_GetUser r st =
     (let userID = rq_query r ''id'' in
      if rq_method r \<noteq> ''GET'' then (bad_method, st)
      else if userID = [] then (http_Error ''user id required'' 400, st)
      else
        (case svc_GetUser userID st of
           Inl err \<Rightarrow> (http_Error (repo_error_Error err) 404, st)
         | Inr p \<Rightarrow> (WriteJSONAPI 200 (GObj [(''data'', user_resource (h_users st p))]), st)))"

definition http_UpdateUser :: "env \<Rightarrow> auth_codec \<Rightarrow> auth_handler" where
  "http_UpdateUser env cd r st =
     (let userID = rq_query r ''id'' in
      if rq_method r \<noteq> ''PUT'' \<and> rq_method r \<noteq> ''PATCH'' then (bad_method, st)
      else if userID = [] then (http_Error ''user id required'' 400, st)
      else
        (case Decode (ac_update cd) r of
           None \<Rightarrow> (bad_body, st)
         | Some req \<Rightarrow>
             (case UpdateUserDetails env userID req (rq_header r ''X-User-ID'') (GetClientIP r)
                     (user_agent r) st of
                (Inl err, st1) \<Rightarrow> (http_Error (svc_error_Error cd err) 400, st1)
              | (Inr p, st1) \<Rightarrow>
                  (WriteJSONAPI 200 (GObj [(''data'', user_resource (h_users st1 p))]), st1))))"

definition http_DeleteUser :: "env \<Rightarrow> auth_codec \<Rightarrow> auth_handler" where
  "http_DeleteUser env cd r st =
     (let userID = rq_query r ''id'' in
      if rq_method r \<noteq> ''DELETE'' then (bad_method, st)
      else if userID = [] then (http_Error ''user id required'' 400, st)
      else
        (case svc_DeleteUser env userID (rq_header r ''X-User-ID'') (GetClientIP r) (user_agent r) st of
           (Some err, st1) \<Rightarrow> (http_Error (svc_error_Error cd err) 400, st1)
         | (None, st1) \<Rightarrow> (no_content, st1)))"

definition http_ResetPassword :: "env \<Rightarrow> auth_codec \<Rightarrow> auth_handler" where
  "http_ResetPassword env cd r st =
     (let userID = rq_query r ''id'' in
      if rq_method r \<noteq> ''POST'' then (bad_method, st)
      else if userID = [] then (http_Error ''user id required'' 400, st)
      else
        (case Decode (ac_reset cd) r of
           None \<Rightarrow> (bad_body, st)
         | Some newPassword \<Rightarrow>
             (case ResetPassword env userID newPassword (rq_header r ''X-User-ID'') (GetClientIP r)
                     (user_agent r) st of
                (Some err, st1) \<Rightarrow> (http_Error (svc_error_Error cd err) 400, st1)
              | (None, st1) \<Rightarrow> (no_content, st1))))"

section \<open>Ingestion tokens\<close>

definition read_clock :: "nat \<Rightarrow> svc \<Rightarrow> svc" where
  \<comment> \<open>\<open>n\<close> readings of the environment\<close>
  "read_clock n st = (tick ^^ n) st"

definition http_CreateHECToken :: "env \<Rightarrow> auth_codec \<Rightarrow> auth_handler" where
  "http_CreateHECToken env cd r st =
     (let userID = rq_header r ''X-User-ID'' in
      if rq_method r \<noteq> ''POST'' then (bad_method, st)
      else if userID = [] then (http_Error ''Unauthorized'' 401, st)
      else
        (case Decode (ac_create_hec cd) r of
           None \<Rightarrow> (bad_body, st)
         | Some req \<Rightarrow>
             (case svc_CreateHECToken env userID (ch_client_id req) (ch_name req) (ch_expires_in req)
                     (GetClientIP r) (user_agent r) st of
                (Inl err, st1) \<Rightarrow> (http_Error (svc_error_Error cd err) 500, st1)
              | (Inr p, st1) \<Rightarrow>
                  (WriteJSON 201 (created_hec_doc env
                     (HECToken_ToResponse (e_now env (sv_tick st1)) (h_tokens st1 p))),
                   tick st1))))"

definition masked_list :: "env \<Rightarrow> (addr \<Rightarrow> string option) \<Rightarrow> svc \<Rightarrow> addr list \<Rightarrow> gval" where
  \<comment> \<open>the loop over the tokens; each \<open>IsActive\<close> reads the clock\<close>
  "masked_list env username st tokens =
     GObj [(''data'', GArr (map (\<lambda>(i, p).
        masked_hec_doc env (username p) (e_now env (sv_tick st + i)) (h_tokens st p))
        (enumerate 0 tokens)))]"

definition http_ListHECTokens :: "env \<Rightarrow> auth_codec \<Rightarrow> auth_handler" where
  "http_ListHECTokens env cd r st =
     (let userID = rq_header r ''X-User-ID'' in
      if rq_method r \<noteq> ''GET'' then (bad_method, st)
      else if userID = [] then (http_Error ''Unauthorized'' 401, st)
      else if hasRole (rq_header r ''X-User-Roles'') ''admin'' then
        (case ListAllHECTokensWithUsernames st of
           Inl err \<Rightarrow> (http_Error (svc_error_Error cd err) 500, st)
         | Inr (usernames, tokens) \<Rightarrow>
             (WriteJSONAPI 200 (masked_list env
                (\<lambda>p. Some (case map_of usernames (ht_user_id (h_tokens st p)) of
                             None \<Rightarrow> [] | Some name \<Rightarrow> name)) st tokens),
              read_clock (length tokens) st))
      else
        (let tokens = svc_ListHECTokensByUser userID st in
         (WriteJSONAPI 200 (masked_list env (\<lambda>p. None) st tokens),
          read_clock (length tokens) st)))"

definition http_RevokeHECToken :: "env \<Rightarrow> auth_codec \<Rightarrow> auth_handler" where
  "http_RevokeHECToken env cd r st =
     (let userID = rq_header r ''X-User-ID'' in
      if rq_method r \<noteq> ''POST'' \<and> rq_method r \<noteq> ''DELETE'' then (bad_method, st)
      else if userID = [] then (http_Error ''Unauthorized'' 401, st)
      else
        (case Decode (ac_token cd) r of
           None \<Rightarrow> (bad_body, st)
         | Some token \<Rightarrow>
             (case RevokeHECTokenByUser env token userID (GetClientIP r) (user_agent r) st of
                (Some err, st1) \<Rightarrow> (http_Error (svc_error_Error cd err) 400, st1)
              | (None, st1) \<Rightarrow> (no_content, st1))))"

definition trim_prefix :: "string \<Rightarrow> string \<Rightarrow> string" where
  \<comment> \<open>\<open>strings.TrimPrefix\<close>\<close>
  "trim_prefix s p = (if has_prefix s p then drop (length p) s else s)"

definition trim_suffix :: "string \<Rightarrow> string \<Rightarrow> string" where
  "trim_suffix s p = (if has_suffix s p then take (length s - length p) s else s)"

definition token_id_of_path :: "string \<Rightarrow> string" where
  "token_id_of_path path = trim_suffix (trim_prefix path ''/api/v1/hec/tokens/'') ''/revoke''"

definition http_RevokeHECTokenByID :: "env \<Rightarrow> auth_codec \<Rightarrow> auth_handler" where
  "http_RevokeHECTokenByID env cd r st =
     (let userID = rq_header r ''X-User-ID''; tokenID = token_id_of_path (rq_path r) in
      if rq_method r \<noteq> ''DELETE'' \<and> rq_method r \<noteq> ''POST'' then (bad_method, st)
      else if userID = [] then (http_Error ''Unauthorized'' 401, st)
      else if tokenID = [] then (http_Error ''Token ID is required'' 400, st)
      else
        (case RevokeHECTokenByID env tokenID userID (GetClientIP r) (user_agent r) st of
           (Some err, st1) \<Rightarrow> (http_Error (svc_error_Error cd err) 400, st1)
         | (None, st1) \<Rightarrow> (no_content, st1)))"

definition http_GetUserScope :: "auth_codec \<Rightarrow> auth_handler" where
  "http_GetUserScope cd r st =
     (let userID = rq_header r ''X-User-ID''; rolesHeader = rq_header r ''X-User-Roles'';
          roles = (if rolesHeader = [] then [] else split_on (CHR '','') rolesHeader) in
      if userID = [] then (http_Error ''Unauthorized'' 401, st)
      else
        (case GetUserScope userID roles st of
           Inl err \<Rightarrow> (http_Error (svc_error_Error cd err) 500, st)
         | Inr scope \<Rightarrow> (json_ok (scope_doc scope), st)))"

section \<open>Routes\<close>

text \<open>
  The route of a request is the pattern \<open>http.ServeMux\<close> chooses: the exact path before the subtree
  \<^verbatim>\<open>/api/v1/hec/tokens/\<close>, and a pattern with a method matches that method only (\<open>GET\<close> matches \<open>HEAD\<close>
  as well); a path with no pattern for the method is answered 405. Paths are clean: the
  redirections of \<open>ServeMux\<close> are not part of the model. \<open>RequestID\<close>, outermost, adds a header to
  the response and is left out. A nil dereference in a check drops the connection: \<open>None\<close>.
\<close>

datatype route =
    Login_route | Refresh_route | Validate_route | ValidateHEC_route | Revoke_route | Scope_route
  | CreateUser_route | GetUser_route | UpdateUser_route | DeleteUser_route | ResetPassword_route
  | ListUsers_route | CreateHEC_route | ListHEC_route | RevokeHEC_route | RevokeHECByID_route
  | Health_route | Bad_method_route | Mux_method_route | Not_found_route
  | Mux_not_found_route

definition is_get :: "string \<Rightarrow> bool" where
  "is_get m \<longleftrightarrow> m = ''GET'' \<or> m = ''HEAD''"

definition on_method :: "bool \<Rightarrow> route \<Rightarrow> route" where
  "on_method ok r = (if ok then r else Mux_method_route)"

definition route_of :: "string \<Rightarrow> string \<Rightarrow> route" where
  "route_of m path =
     (if path = ''/api/v1/auth/login'' then Login_route
      else if path = ''/api/v1/auth/refresh'' then Refresh_route
      else if path = ''/api/v1/auth/validate'' then Validate_route
      else if path = ''/api/v1/auth/validate-hec'' then ValidateHEC_route
      else if path = ''/api/v1/auth/revoke'' then Revoke_route
      else if path = ''/api/v1/auth/scope'' then on_method (is_get m) Scope_route
      else if path = ''/api/v1/users/create'' then on_method (m = ''POST'') CreateUser_route
      else if path = ''/api/v1/users/get'' then on_method (is_get m) GetUser_route
      else if path = ''/api/v1/users/update''
      then on_method (m = ''PUT'' \<or> m = ''PATCH'') UpdateUser_route
      else if path = ''/api/v1/users/delete'' then on_method (m = ''DELETE'') DeleteUser_route
      else if path = ''/api/v1/users/reset-password''
      then on_method (m = ''POST'') ResetPassword_route
      else if path = ''/api/v1/users'' then on_method (is_get m) ListUsers_route
      else if path = ''/api/v1/hec/tokens''
      then (if m = ''POST'' then CreateHEC_route
            else if m = ''GET'' then ListHEC_route else Bad_method_route)
      else if path = ''/api/v1/hec/tokens/revoke'' then RevokeHEC_route
      else if has_prefix path ''/api/v1/hec/tokens/'' \<and> has_suffix path ''/revoke''
           \<and> (m = ''DELETE'' \<or> m = ''POST'') then RevokeHECByID_route
      else if has_prefix path ''/api/v1/hec/tokens/'' then Not_found_route
      else if path = ''/healthz'' then Health_route
      else Mux_not_found_route)"

definition permission_of :: "route \<Rightarrow> string option" where
  \<comment> \<open>the argument of \<open>RequirePermission\<close>\<close>
  "permission_of rt =
     (case rt of
        CreateUser_route \<Rightarrow> Some ''users:create''
      | GetUser_route \<Rightarrow> Some ''users:read''
      | UpdateUser_route \<Rightarrow> Some ''users:update''
      | DeleteUser_route \<Rightarrow> Some ''users:delete''
      | ResetPassword_route \<Rightarrow> Some ''users:reset_password''
      | ListUsers_route \<Rightarrow> Some ''users:read''
      | CreateHEC_route \<Rightarrow> Some ''tokens:create''
      | ListHEC_route \<Rightarrow> Some ''tokens:read''
      | RevokeHEC_route \<Rightarrow> Some ''tokens:revoke''
      | RevokeHECByID_route \<Rightarrow> Some ''tokens:revoke''
      | _ \<Rightarrow> None)"

definition handler_of :: "env \<Rightarrow> auth_codec \<Rightarrow> route \<Rightarrow> auth_handler" where
  "handler_of env cd rt =
     (case rt of
        Login_route \<Rightarrow> http_Login env cd
      | Refresh_route \<Rightarrow> http_RefreshToken env cd
      | Validate_route \<Rightarrow> http_ValidateToken env cd
      | ValidateHEC_route \<Rightarrow> http_ValidateHECToken env cd
      | Revoke_route \<Rightarrow> http_RevokeToken env cd
      | Scope_route \<Rightarrow> http_GetUserScope cd
      | CreateUser_route \<Rightarrow> http_CreateUser env cd
      | GetUser_route \<Rightarrow> http_GetUser
      | UpdateUser_route \<Rightarrow> http_UpdateUser env cd
      | DeleteUser_route \<Rightarrow> http_DeleteUser env cd
      | ResetPassword_route \<Rightarrow> http_ResetPassword env cd
      | ListUsers_route \<Rightarrow> http_ListUsers
      | CreateHEC_route \<Rightarrow> http_CreateHECToken env cd
      | ListHEC_route \<Rightarrow> http_ListHECTokens env cd
      | RevokeHEC_route \<Rightarrow> http_RevokeHECToken env cd
      | RevokeHECByID_route \<Rightarrow> http_RevokeHECTokenByID env cd
      | Health_route \<Rightarrow> http_HealthCheck
      | Bad_method_route \<Rightarrow> \<lambda>r st. (bad_method, st)
      | Mux_method_route \<Rightarrow> \<lambda>r st. (http_Error ''Method Not Allowed'' 405, st)
      | Not_found_route \<Rightarrow> \<lambda>r st. (http_Error ''Not found'' 404, st)
      | Mux_not_found_route \<Rightarrow> \<lambda>r st. (http_Error ''404 page not found'' 404, st))"

definition permission_doc :: "permission_error \<Rightarrow> doc response" where
  "permission_doc e =
     WriteJSONAPI (pe_status e) (GObj [(''errors'', GArr [GObj
       ([(''status'', GInt (pe_status e)), (''code'', GStr (pe_code e)), (''title'', GStr (pe_title e)),
         (''detail'', GStr (pe_detail e))] @ omitempty ''permission'' (pe_permission e))])])"

definition after_check ::
  "verdict \<times> svc \<Rightarrow> (svc \<Rightarrow> doc response \<times> svc) \<Rightarrow> doc response option \<times> svc" where
  \<comment> \<open>the handler behind a middleware; it does not see the context\<close>
  "after_check v inner =
     (case v of
        (Plain status text, st) \<Rightarrow> (Some (http_Error text status), st)
      | (Refused e, st) \<Rightarrow> (Some (permission_doc e), st)
      | (Panicked, st) \<Rightarrow> (None, st)
      | (Passed ctx, st) \<Rightarrow> (case inner st of (resp, st1) \<Rightarrow> (Some resp, st1)))"

definition NewRouter ::
  "env \<Rightarrow> auth_codec \<Rightarrow> request \<Rightarrow> svc \<Rightarrow> doc response option \<times> svc" where
  "NewRouter env cd r st =
     (let rt = route_of (rq_method r) (rq_path r);
          auth = rq_header r ''Authorization'';
          inner = handler_of env cd rt r in
      case permission_of rt of
        Some permission \<Rightarrow> after_check (RequirePermission permission env auth st) inner
      | None \<Rightarrow>
          if rt = Revoke_route \<or> rt = Scope_route then after_check (RequireAuth env auth st) inner
          else (case inner st of (resp, st1) \<Rightarrow> (Some resp, st1)))"

section \<open>What a request can change\<close>

lemma same_repo_simps [simp]:
  "repo.truncate (tick st) = repo.truncate st"
  "repo.truncate (logged env a b c d e f g h i j k st) = repo.truncate st"
  by (simp_all add: repo.truncate_def)

lemma read_clock_frame [simp]: "repo.truncate (read_clock n st) = repo.truncate st"
  by (induction n) (simp_all add: read_clock_def)

lemma RefreshToken_frame: "repo.truncate (snd (RefreshToken env tok st)) = repo.truncate st"
  by (simp add: RefreshToken_def user_access_token_eq case_prod_unfold split: sum.split option.split)

lemma ValidateHECToken_frame: "repo.truncate (snd (ValidateHECToken env tok ip ua st)) = repo.truncate st"
  by (simp add: ValidateHECToken_def Let_def split: sum.split option.split)

lemma RequireAuth_frame: "repo.truncate (snd (RequireAuth env auth st)) = repo.truncate st"
  using validation_frame
  by (auto simp: RequireAuth_def split: list.split prod.split sum.split) (metis snd_conv)+

lemma with_auth_state: "snd (with_auth inner env auth st) = snd (RequireAuth env auth st)"
  by (simp add: with_auth_def split: prod.split verdict.split)

lemma RequirePermission_frame: "repo.truncate (snd (RequirePermission p env auth st)) = repo.truncate st"
  by (simp add: RequirePermission_def with_auth_state RequireAuth_frame)

lemma case_frames:
  "repo.truncate (snd (case x of (Inl e, s) \<Rightarrow> (f e s, s) | (Inr v, s) \<Rightarrow> (g v s, s))) =
     repo.truncate (snd x)"
  by (cases x; cases "fst x") auto

definition reads_only :: "route \<Rightarrow> bool" where
  \<comment> \<open>the routes whose handlers leave users, sessions and tokens alone\<close>
  "reads_only rt \<longleftrightarrow>
     rt \<notin> {Login_route, Revoke_route, CreateUser_route, UpdateUser_route, DeleteUser_route,
            ResetPassword_route, CreateHEC_route, RevokeHEC_route, RevokeHECByID_route}"

lemma handler_frame:
  "reads_only rt \<Longrightarrow> repo.truncate (snd (handler_of env cd rt r st)) = repo.truncate st"
  using RefreshToken_frame validation_frame ValidateHECToken_frame
  by (cases rt)
    (simp_all add: reads_only_def handler_of_def http_RefreshToken_def http_ValidateToken_def
      http_ValidateHECToken_def http_GetUserScope_def http_GetUser_def http_ListUsers_def
      http_ListHECTokens_def http_HealthCheck_def Let_def case_prod_unfold
      split: option.split sum.split)

lemma guarded_change:
  assumes "repo.truncate (snd (after_check v inner)) \<noteq> repo.truncate st"
    and "repo.truncate (snd v) = repo.truncate st"
  shows "\<exists>ctx. v = (Passed ctx, snd v)"
  using assms by (cases v) (auto simp: after_check_def split: verdict.splits prod.splits)

lemma NewRouter_unguarded:
  assumes "permission_of (route_of (rq_method r) (rq_path r)) = None"
    and "reads_only (route_of (rq_method r) (rq_path r))"
  shows "repo.truncate (snd (NewRouter env cd r st)) = repo.truncate st"
  using handler_frame [OF assms(2)] RequireAuth_frame assms(1)
  by (auto simp: NewRouter_def Let_def after_check_def split: prod.split verdict.split) (metis snd_conv)+

lemma with_auth_Passed:
  "RequireAuth env h st = (Passed ctx, s) \<Longrightarrow> Can (ax_user ctx) p \<Longrightarrow>
     RequirePermission p env h st = (Passed ctx, s)"
  by (simp add: RequirePermission_def permission.with_auth_passes)

lemma NewRouter_passed:
  assumes "permission_of (route_of (rq_method r) (rq_path r)) = Some p"
    and "RequireAuth env (rq_header r ''Authorization'') st = (Passed ctx, s)" and "Can (ax_user ctx) p"
  shows "NewRouter env cd r st =
    (let (resp, st') = handler_of env cd (route_of (rq_method r) (rq_path r)) r s in (Some resp, st'))"
  using assms by (simp add: NewRouter_def Let_def after_check_def with_auth_Passed)

lemma RequireAuth_same:
  assumes "RequireAuth env h st = (v, s)"
  shows "r_users s = r_users st" "h_users s = h_users st" "r_hec_tokens s = r_hec_tokens st"
    "h_tokens s = h_tokens st" "r_users_by_name s = r_users_by_name st" "h_sessions s = h_sessions st"
  using RequireAuth_frame [of env h st] assms by (simp_all add: repo.truncate_def)

section \<open>A concrete request\<close>

definition sample_grant :: "string \<Rightarrow> string \<Rightarrow> user_role" where
  "sample_grant resource action' =
     (sample_assignment 30)\<lparr>ur_role := Some ((sample_role 30)\<lparr>role_permissions :=
        [\<lparr>perm_id = ''p'', perm_resource = resource, perm_action = action', perm_description = None\<rparr>]\<rparr>)\<rparr>"

definition sample_office :: "string \<Rightarrow> string \<Rightarrow> svc" where
  \<comment> \<open>ann, user \<open>u\<close>, has a live session and one permission; \<open>t\<close> is a token of user \<open>v\<close>\<close>
  "sample_office resource action' =
     sample_live\<lparr>h_users := (\<lambda>_. sample_ann\<lparr>u_user_roles := [sample_grant resource action']\<rparr>),
       r_hec_tokens := [(''t'', 7)],
       h_tokens := (\<lambda>_. new_hec_token ''i'' ''t'' ''v'' ''c'' ''n'' [] [])\<rparr>"

definition sample_auth_codec :: auth_codec where
  "sample_auth_codec =
     \<lparr>ac_create_user = (\<lambda>b. None), ac_login = (\<lambda>b. None), ac_refresh = Some, ac_token = Some,
      ac_update = (\<lambda>b. Some \<lparr>uu_email = [], uu_roles = Some [''admin''], uu_enabled = None\<rparr>),
      ac_reset = Some, ac_create_hec = (\<lambda>b. None), ac_library_error = (\<lambda>e. []),
      ac_marshal = (\<lambda>v. case v of GObj [(k, GStr s)] \<Rightarrow> s | _ \<Rightarrow> [])\<rparr>"

definition auth_request :: "string \<Rightarrow> string \<Rightarrow> string \<Rightarrow> request" where
  "auth_request m path user =
     \<lparr>rq_method = m, rq_host = [], rq_path = path,
      rq_header = (\<lambda>h. if h = ''Authorization'' then ''Bearer u'' else if h = ''X-User-ID'' then user else []),
      rq_query = (\<lambda>q. ''u''), rq_cookie = (\<lambda>c. None), rq_remote_addr = ''10.0.0.1:5'', rq_body = Some ''t''\<rparr>"

lemma sample_office_passes:
  assumes "CHR '':'' \<notin> set a"
  obtains ctx s where "RequireAuth sample_env ''Bearer u'' (sample_office a b) = (Passed ctx, s)"
    and "Can (ax_user ctx) (a @ '':'' @ b)"
proof -
  have active: "Session_IsActive (1700000000 * second)
      (new_session ''s'' sample_ann ''u'' ''rt'' (1700000000 * second) [] [])"
    by (simp add: Session_IsActive_def new_session_def is_zero_def zero_time_def second_def minute_def)
  have parse: "e_jwt_parse sample_env n (access_key sample_env) ''u'' =
      Some (Some \<lparr>jc_user_id = ''u'', jc_roles = [''viewer''], jc_permissions_version = 0,
        jc_organization_id = [], jc_client_id = [], jc_expires_at = n, jc_issued_at = n,
        jc_not_before = n, jc_issuer = []\<rparr>, True)" for n
    by (simp add: sample_env_def access_key_def)
  have can: "Can (sample_ann\<lparr>u_user_roles := [sample_grant a b]\<rparr>) (a @ '':'' @ b)"
    by (simp add: Can_iff active_roles_def sample_grant_def sample_assignment_def UserRole_IsActive_def
        HasPermissionString_def HasPermission_def cut_at_append [OF assms])
  have "\<exists>ctx s. RequireAuth sample_env ''Bearer u'' (sample_office a b) = (Passed ctx, s)
      \<and> Can (ax_user ctx) (a @ '':'' @ b)"
    using active can
    by (simp add: RequireAuth_def ValidateToken_def ValidateAccessToken_def parse sample_office_def
        sample_live_def GetSessionByAccessToken_def new_session_def GetUserPermissionsVersion_def
        svc_GetUserWithRoles_def GetUserWithRoles_def GetUserByID_def)
  then show ?thesis using that by blast
qed

section \<open>Properties\<close>

text \<open>C5: Users, sessions and ingestion tokens change only at the hands of someone who may: a request
  that changes any of them is a login, or carries a bearer token \<open>RequireAuth\<close> accepts, and then the
  route is the revocation of a session, or one with a permission that the token's user has.\<close>

theorem changes_need_permission:
  assumes "repo.truncate (snd (NewRouter env cd r st)) \<noteq> repo.truncate st"
  shows "route_of (rq_method r) (rq_path r) = Login_route
    \<or> (\<exists>ctx s. RequireAuth env (rq_header r ''Authorization'') st = (Passed ctx, s)
        \<and> (route_of (rq_method r) (rq_path r) = Revoke_route
          \<or> (\<exists>permission. permission_of (route_of (rq_method r) (rq_path r)) = Some permission
              \<and> Can (ax_user ctx) permission)))"
proof -
  let ?rt = "route_of (rq_method r) (rq_path r)" and ?h = "rq_header r ''Authorization''"
  show ?thesis
  proof (cases "permission_of ?rt")
    case (Some permission)
    with assms have "repo.truncate (snd (after_check (RequirePermission permission env ?h st)
        (handler_of env cd ?rt r))) \<noteq> repo.truncate st"
      by (simp add: NewRouter_def Let_def)
    from guarded_change [OF this RequirePermission_frame]
    obtain ctx s where "RequirePermission permission env ?h st = (Passed ctx, s)" by blast
    then have "RequireAuth env ?h st = (Passed ctx, s) \<and> Can (ax_user ctx) permission"
      unfolding RequirePermission_def permission.with_auth_passes .
    with Some show ?thesis by blast
  next
    case None
    with NewRouter_unguarded assms have "\<not> reads_only ?rt" by blast
    with None have "?rt = Login_route \<or> ?rt = Revoke_route"
      by (cases ?rt) (simp_all add: reads_only_def permission_of_def)
    moreover have "\<exists>ctx s. RequireAuth env ?h st = (Passed ctx, s)" if "?rt = Revoke_route"
    proof -
      from assms None that have "repo.truncate (snd (after_check (RequireAuth env ?h st)
          (handler_of env cd ?rt r))) \<noteq> repo.truncate st"
        by (simp add: NewRouter_def Let_def)
      from guarded_change [OF this RequireAuth_frame] show ?thesis by blast
    qed
    ultimately show ?thesis by blast
  qed
qed

theorem changes_need_permission_witness:
  "\<exists>ctx s. RequireAuth sample_env ''Bearer u'' (sample_office ''tokens'' ''revoke'') = (Passed ctx, s)
     \<and> Can (ax_user ctx) ''tokens:revoke''"
proof -
  let ?st = "sample_office ''tokens'' ''revoke''"
  let ?r = "auth_request ''POST'' ''/api/v1/hec/tokens/revoke'' ''v''"
  have rt: "route_of (rq_method ?r) (rq_path ?r) = RevokeHEC_route"
    by (simp add: auth_request_def route_of_def)
  obtain ctx s where s: "RequireAuth sample_env ''Bearer u'' ?st = (Passed ctx, s)"
    "Can (ax_user ctx) ''tokens:revoke''"
    by (rule sample_office_passes [of "''tokens''" "''revoke''"]) simp_all
  have "ht_revoked_at (h_tokens (snd (NewRouter sample_env sample_auth_codec ?r ?st)) 7) \<noteq> None"
    using NewRouter_passed [where r = ?r and st = ?st and env = sample_env and s = s and cd = sample_auth_codec]
      s rt RequireAuth_same [OF s(1)]
    by (simp add: permission_of_def handler_of_def http_RevokeHECToken_def RevokeHECTokenByUser_def
        GetHECToken_def revoke_hec_token_def RevokeHECToken_def auth_request_def sample_office_def
        Decode_def sample_auth_codec_def new_hec_token_def Let_def case_prod_unfold)
  then have "repo.truncate (snd (NewRouter sample_env sample_auth_codec ?r ?st)) \<noteq> repo.truncate ?st"
    by (auto simp: repo.truncate_def sample_office_def new_hec_token_def)
  from changes_need_permission [OF this, unfolded rt] show ?thesis
    by (simp add: permission_of_def auth_request_def)
qed

text \<open>Whose ingestion token is revoked is decided by a header: whoever may revoke tokens at all
  revokes the token of any owner by naming the owner in \<open>X-User-ID\<close>; nothing relates the header to
  the user \<open>RequireAuth\<close> found, and the audit log names the owner as the one who did it.\<close>

lemma header_names_the_caller:
  assumes "rq_method r = ''POST''" and "rq_path r = ''/api/v1/hec/tokens/revoke''"
    and "RequireAuth env (rq_header r ''Authorization'') st = (Passed ctx, s)"
    and "Can (ax_user ctx) ''tokens:revoke''"
    and "Decode (ac_token cd) r = Some token" and "map_of (r_hec_tokens st) token = Some q"
    and "rq_header r ''X-User-ID'' = ht_user_id (h_tokens st q)" and "ht_user_id (h_tokens st q) \<noteq> []"
    and "NewRouter env cd r st = (resp, st')"
  shows "resp = Some no_content \<and> ht_revoked_at (h_tokens st' q) \<noteq> None
    \<and> (\<forall>l\<in>set (sv_logs st') - set (sv_logs s). al_actor_id l = ht_user_id (h_tokens st q))"
proof -
  have rt: "route_of (rq_method r) (rq_path r) = RevokeHEC_route"
    by (simp add: route_of_def on_method_def assms(1,2))
  from NewRouter_passed [OF _ assms(3), of "''tokens:revoke''" cd] assms(4,9)
  have "(resp, st') = (let (resp, st') = http_RevokeHECToken env cd r s in (Some resp, st'))"
    by (simp add: rt permission_of_def handler_of_def)
  with assms(1,5,6,7,8) show ?thesis
    by (auto simp: http_RevokeHECToken_def RevokeHECTokenByUser_def GetHECToken_def revoke_hec_token_def
        RevokeHECToken_def RequireAuth_same [OF assms(3)] Log_def LogAudit_def Let_def
        split: option.splits)
qed

text \<open>Whoever may update users may give anybody any roles: the handler replaces the target's
  role names by the ones in the request, whatever \<open>CanManageUser\<close> and \<open>CanAssignRole\<close> say about the
  two users; the own account and protected ones are no exception.\<close>

lemma update_grants_any_role:
  assumes "rq_method r = ''PATCH''" and "rq_path r = ''/api/v1/users/update''"
    and "RequireAuth env (rq_header r ''Authorization'') st = (Passed ctx, s)"
    and "Can (ax_user ctx) ''users:update''"
    and "Decode (ac_update cd) r = Some req" and "uu_roles req = Some roles"
    and "repo_ok st" and "rq_query r ''id'' \<noteq> []" and "map_of (r_users st) (rq_query r ''id'') = Some p"
    and "NewRouter env cd r st = (resp, st')"
  shows "map_option rs_status resp = Some 200 \<and> u_roles (h_users st' p) = roles
    \<and> map_of (r_users st') (rq_query r ''id'') = Some p"
proof -
  have rt: "route_of (rq_method r) (rq_path r) = UpdateUser_route"
    by (simp add: route_of_def on_method_def assms(1,2))
  from assms(7,9) have "u_id (h_users st p) = rq_query r ''id''"
    using keys_okD [of "r_users st" "\<lambda>p. u_id (h_users st p)"] by (simp add: repo_ok_def)
  then have "u_id (apply_update req (h_users st p)) = rq_query r ''id''"
    and "u_roles (apply_update req (h_users st p)) = roles"
    by (simp_all add: apply_update_def assms(6) Let_def)
  moreover from NewRouter_passed [OF _ assms(3), of "''users:update''" cd] assms(4,10)
  have "(resp, st') = (let (resp, st') = http_UpdateUser env cd r s in (Some resp, st'))"
    by (simp add: rt permission_of_def handler_of_def)
  ultimately show ?thesis using assms(1,5,8,9)
    by (simp add: http_UpdateUser_def UpdateUserDetails_def GetUserByID_def write_user_def UpdateUser_eq
        RequireAuth_same [OF assms(3)] WriteJSONAPI_def Let_def)
qed

end
