(* ===== verification/Gateway.thy ===== *)
theory Gateway
  imports AuthHandler
begin

text \<open>
  The web backend, the gateway between browsers and the services
  (\<^verbatim>\<open>web/backend/internal\<close>): its client of the authenticate service and its session middleware (package
  \<^verbatim>\<open>auth\<close>), the login and logout handlers (\<^verbatim>\<open>handlers/auth.go\<close>), the proxy (\<^verbatim>\<open>proxy/proxy.go\<close>), the
  cross-origin checks (\<^verbatim>\<open>middleware/csrf.go\<close>, \<^verbatim>\<open>common/middleware/cors.go\<close>) and the routes
  (\<^verbatim>\<open>server/router.go\<close>).

  The gateway keeps no state of its own: a handler threads the state of the authenticate service,
  which it calls over HTTP as \<open>NewRouter\<close> of the theory \<open>AuthHandler\<close>. What the network does
  with an exchange is a parameter: it is answered, or the request or its answer is lost.
\<close>

section \<open>The client of the authenticate service\<close>

datatype exchange = Answered | Request_lost | Answer_lost

record gateway =
  gw_net :: "nat \<Rightarrow> exchange"            \<comment> \<open>the exchange made when the service's counter is at \<open>n\<close>\<close>
  gw_address :: string                      \<comment> \<open>the address the services see\<close>
  gw_url_ok :: "request \<Rightarrow> bool"         \<comment> \<open>\<open>http.NewRequest\<close> accepts the target\<close>
  gw_domain :: string
  gw_secure :: bool
  gw_login :: "string \<Rightarrow> (string \<times> string) option"   \<comment> \<open>\<open>Decode\<close> of a \<open>LoginRequest\<close>\<close>
  gw_origin_host :: "string \<Rightarrow> string option"           \<comment> \<open>\<open>url.Parse\<close> and its \<open>Host\<close>\<close>

definition post_request :: "gateway \<Rightarrow> string \<Rightarrow> string \<Rightarrow> request" where
  \<comment> \<open>\<open>httpClient.Post(baseURL + path, "application/json", body)\<close>\<close>
  "post_request gw path body =
     \<lparr>rq_method = ''POST'', rq_host = [], rq_path = path,
      rq_header = (\<lambda>h. if h = ''Content-Type'' then ''application/json''
                        else if h = ''User-Agent'' then ''Go-http-client/1.1'' else []),
      rq_query = (\<lambda>q. []), rq_cookie = (\<lambda>c. None), rq_remote_addr = gw_address gw,
      rq_body = Some body\<rparr>"

definition exchange_with ::
  "gateway \<Rightarrow> env \<Rightarrow> auth_codec \<Rightarrow> request \<Rightarrow> svc \<Rightarrow> doc response option \<times> svc" where
  "exchange_with gw env cd r st =
     (case gw_net gw (sv_tick st) of
        Request_lost \<Rightarrow> (None, st)
      | Answer_lost \<Rightarrow> (None, snd (NewRouter env cd r st))
      | Answered \<Rightarrow> NewRouter env cd r st)"

record web_login =
  wl_access_token :: string
  wl_refresh_token :: string
  wl_expires_in :: int
  wl_token_type :: string

record web_validate =
  wv_valid :: bool
  wv_user_id :: string
  wv_roles :: "string list"

definition field_or :: "(gval \<Rightarrow> 'a option) \<Rightarrow> 'a \<Rightarrow> (string \<times> gval) list \<Rightarrow> string \<Rightarrow> 'a option" where
  \<comment> \<open>how \<open>Decode\<close> fills a field: absent or null keeps the zero value, another type is an error\<close>
  "field_or as zero m key =
     (case map_of m key of None \<Rightarrow> Some zero | Some GNil \<Rightarrow> Some zero | Some v \<Rightarrow> as v)"

fun as_boolean :: "gval \<Rightarrow> bool option" where
  "as_boolean (GBool b) = Some b"
| "as_boolean _ = None"

definition as_strings :: "gval \<Rightarrow> string list option" where
  "as_strings v =
     (case as_arr v of None \<Rightarrow> None
      | Some vs \<Rightarrow> if list_all (\<lambda>x. as_str x \<noteq> None) vs then Some (map (the \<circ> as_str) vs) else None)"

definition decode_login :: "doc \<Rightarrow> web_login option" where
  "decode_login d =
     (case d of Doc (GObj m) \<Rightarrow>
        (case (field_or as_str [] m ''access_token'', field_or as_str [] m ''refresh_token'',
               field_or as_int 0 m ''expires_in'', field_or as_str [] m ''token_type'') of
           (Some a, Some r, Some e, Some t) \<Rightarrow>
             Some \<lparr>wl_access_token = a, wl_refresh_token = r, wl_expires_in = e, wl_token_type = t\<rparr>
         | _ \<Rightarrow> None)
      | _ \<Rightarrow> None)"

definition decode_validate :: "doc \<Rightarrow> web_validate option" where
  "decode_validate d =
     (case d of Doc (GObj m) \<Rightarrow>
        (case (field_or as_boolean False m ''valid'', field_or as_str [] m ''user_id'',
               field_or as_strings [] m ''roles'') of
           (Some v, Some u, Some rs) \<Rightarrow> Some \<lparr>wv_valid = v, wv_user_id = u, wv_roles = rs\<rparr>
         | _ \<Rightarrow> None)
      | _ \<Rightarrow> None)"

definition client_Login ::
  "gateway \<Rightarrow> env \<Rightarrow> auth_codec \<Rightarrow> string \<Rightarrow> string \<Rightarrow> svc \<Rightarrow> web_login option \<times> svc" where
  \<comment> \<open>\<open>None\<close>: an error\<close>
  "client_Login gw env cd username password st =
     (case exchange_with gw env cd (post_request gw ''/api/v1/auth/login''
             (ac_marshal cd (GObj [(''username'', GStr username), (''password'', GStr password)]))) st of
        (None, st1) \<Rightarrow> (None, st1)
      | (Some resp, st1) \<Rightarrow>
          (if rs_status resp \<noteq> 200 then None else decode_login (rs_body resp), st1))"

definition client_ValidateToken ::
  "gateway \<Rightarrow> env \<Rightarrow> auth_codec \<Rightarrow> string \<Rightarrow> svc \<Rightarrow> web_validate option \<times> svc" where
  "client_ValidateToken gw env cd token st =
     (case exchange_with gw env cd (post_request gw ''/api/v1/auth/validate''
             (ac_marshal cd (GObj [(''token'', GStr token)]))) st of
        (None, st1) \<Rightarrow> (None, st1)
      | (Some resp, st1) \<Rightarrow>
          (if rs_status resp \<noteq> 200 then Some \<lparr>wv_valid = False, wv_user_id = [], wv_roles = []\<rparr>
           else decode_validate (rs_body resp), st1))"

definition client_RefreshToken ::
  "gateway \<Rightarrow> env \<Rightarrow> auth_codec \<Rightarrow> string \<Rightarrow> svc \<Rightarrow> web_login option \<times> svc" where
  "client_RefreshToken gw env cd refreshToken st =
     (case exchange_with gw env cd (post_request gw ''/api/v1/auth/refresh''
             (ac_marshal cd (GObj [(''refresh_token'', GStr refreshToken)]))) st of
        (None, st1) \<Rightarrow> (None, st1)
      | (Some resp, st1) \<Rightarrow>
          (if rs_status resp \<noteq> 200 then None else decode_login (rs_body resp), st1))"

definition client_RevokeToken ::
  "gateway \<Rightarrow> env \<Rightarrow> auth_codec \<Rightarrow> string \<Rightarrow> svc \<Rightarrow> bool \<times> svc" where
  \<comment> \<open>whether the error is nil\<close>
  "client_RevokeToken gw env cd token st =
     (case exchange_with gw env cd (post_request gw ''/api/v1/auth/revoke''
             (ac_marshal cd (GObj [(''token'', GStr token)]))) st of
        (None, st1) \<Rightarrow> (False, st1)
      | (Some resp, st1) \<Rightarrow> (rs_status resp = 204 \<or> rs_status resp = 200, st1))"

section \<open>Cookies\<close>

record cookie =
  ck_name :: string
  ck_value :: string
  ck_domain :: string
  ck_max_age :: int
  ck_secure :: bool
  ck_http_only :: bool
  ck_same_site_strict :: bool

definition auth_cookie :: "gateway \<Rightarrow> string \<Rightarrow> string \<Rightarrow> int \<Rightarrow> cookie" where
  \<comment> \<open>the shape of all the cookies set, with path \<^verbatim>\<open>/\<close>\<close>
  "auth_cookie gw name v maxAge =
     \<lparr>ck_name = name, ck_value = v, ck_domain = gw_domain gw, ck_max_age = maxAge,
      ck_secure = gw_secure gw, ck_http_only = True, ck_same_site_strict = True\<rparr>"

definition access_token_cookie :: "gateway \<Rightarrow> string \<Rightarrow> int \<Rightarrow> cookie" where
  "access_token_cookie gw token expiresIn = auth_cookie gw ''access_token'' token expiresIn"

definition refresh_token_cookie :: "gateway \<Rightarrow> string \<Rightarrow> cookie" where
  "refresh_token_cookie gw token = auth_cookie gw ''refresh_token'' token (7 * 24 * 60 * 60)"

definition clear_auth_cookies :: "gateway \<Rightarrow> cookie list" where
  "clear_auth_cookies gw =
     [auth_cookie gw ''access_token'' [] (- 1), auth_cookie gw ''refresh_token'' [] (- 1)]"

section \<open>The session middleware\<close>

record web_context =
  wc_user_id :: string
  wc_roles :: "string list"

definition header_token :: "string \<Rightarrow> string" where
  \<comment> \<open>\<open>len(authHeader) > 7 && authHeader[:7] == "Bearer "\<close>\<close>
  "header_token authHeader =
     (if length authHeader > 7 \<and> take 7 authHeader = ''Bearer '' then drop 7 authHeader else [])"

definition access_token_of :: "request \<Rightarrow> string option" where
  \<comment> \<open>the header first, then the cookie; \<open>None\<close> without either\<close>
  "access_token_of r =
     (if header_token (rq_header r ''Authorization'') \<noteq> []
      then Some (header_token (rq_header r ''Authorization''))
      else rq_cookie r ''access_token'')"

definition refresh_session ::
  "gateway \<Rightarrow> env \<Rightarrow> auth_codec \<Rightarrow> request \<Rightarrow> svc \<Rightarrow> (web_validate option \<times> cookie list) \<times> svc" where
  \<comment> \<open>the branch \<open>!validateResp.Valid\<close>\<close>
  "refresh_session gw env cd r st =
     (case rq_cookie r ''refresh_token'' of
        None \<Rightarrow> ((None, []), st)
      | Some refreshToken \<Rightarrow>
          (case client_RefreshToken gw env cd refreshToken st of
             (None, st1) \<Rightarrow> ((None, []), st1)
           | (Some loginResp, st1) \<Rightarrow>
               (let cookies = [access_token_cookie gw (wl_access_token loginResp) (wl_expires_in loginResp)]
                in case client_ValidateToken gw env cd (wl_access_token loginResp) st1 of
                     (Some v, st2) \<Rightarrow> ((if \<not> wv_valid v then None else Some v, cookies), st2)
                   | (None, st2) \<Rightarrow> ((None, cookies), st2))))"

definition Protect ::
  "gateway \<Rightarrow> env \<Rightarrow> auth_codec \<Rightarrow> request \<Rightarrow> svc \<Rightarrow> (web_context option \<times> cookie list) \<times> svc" where
  \<comment> \<open>\<open>None\<close>: answered \<open>Unauthorized\<close>, 401; else the next handler runs with the context\<close>
  "Protect gw env cd r st =
     (case access_token_of r of
        None \<Rightarrow> ((None, []), st)
      | Some accessToken \<Rightarrow>
          (case client_ValidateToken gw env cd accessToken st of
             (None, st1) \<Rightarrow> ((None, []), st1)
           | (Some validateResp, st1) \<Rightarrow>
               (let pass = (\<lambda>v. \<lparr>wc_user_id = wv_user_id v, wc_roles = wv_roles v\<rparr>) in
                if \<not> wv_valid validateResp then
                  (case refresh_session gw env cd r st1 of
                     ((v, cookies), st2) \<Rightarrow> ((map_option pass v, cookies), st2))
                else ((Some (pass validateResp), []), st1))))"

section \<open>The proxy\<close>

definition upper_char :: "char \<Rightarrow> char" where
  "upper_char c =
     (let n = (of_char c :: nat) in if 97 \<le> n \<and> n \<le> 122 then char_of (n - 32) else c)"

fun canonical_from :: "bool \<Rightarrow> string \<Rightarrow> string" where
  \<comment> \<open>the flag: the next letter starts a word\<close>
  "canonical_from up [] = []"
| "canonical_from up (c # cs) =
     (if up then upper_char c else lower_char c) # canonical_from (c = CHR ''-'') cs"

definition token_char :: "char \<Rightarrow> bool" where
  \<comment> \<open>a byte allowed in a header name\<close>
  "token_char c =
     (let n = (of_char c :: nat) in
      (48 \<le> n \<and> n \<le> 57) \<or> (65 \<le> n \<and> n \<le> 90) \<or> (97 \<le> n \<and> n \<le> 122) \<or> c \<in> set ''!#$%&*+-.^_`|~'' \<or> n = 39)"

definition CanonicalHeaderKey :: "string \<Rightarrow> string" where
  "CanonicalHeaderKey s = (if list_all token_char s then canonical_from True s else s)"

definition allowedHeaders :: "string list" where
  "allowedHeaders =
     [''Content-Type'', ''Accept'', ''Accept-Language'', ''Accept-Encoding'', ''X-Request-Id'',
      ''X-Correlation-Id'']"

definition forward_header :: "web_context \<Rightarrow> request \<Rightarrow> string \<Rightarrow> string" where
  \<comment> \<open>what \<open>Header.Get\<close> answers in the request sent on; the transport adds a \<open>User-Agent\<close>\<close>
  "forward_header ctx r h =
     (let key = CanonicalHeaderKey h in
      if key \<in> set allowedHeaders then rq_header r h
      else if key = ''Authorization'' then
        (case rq_cookie r ''access_token'' of
           Some v \<Rightarrow> if v \<noteq> [] then ''Bearer '' @ v else []
         | None \<Rightarrow> [])
      else if key = ''X-User-Id'' then wc_user_id ctx
      else if key = ''X-User-Roles'' then
        (if wc_roles ctx \<noteq> [] then join_with '','' (wc_roles ctx) else [])
      else if key = ''User-Agent'' then ''Go-http-client/1.1''
      else [])"

definition forward :: "gateway \<Rightarrow> web_context \<Rightarrow> request \<Rightarrow> request" where
  "forward gw ctx r =
     r\<lparr>rq_host := [], rq_header := forward_header ctx r, rq_cookie := (\<lambda>c. None),
       rq_remote_addr := gw_address gw\<rparr>"

definition proxy_Handler ::
  "gateway \<Rightarrow> web_context \<Rightarrow> (request \<Rightarrow> 's \<Rightarrow> doc response option \<times> 's) \<Rightarrow> request \<Rightarrow> 's \<Rightarrow>
     doc response \<times> 's"
where
  \<comment> \<open>\<open>backend\<close> is the service behind the target\<close>
  "proxy_Handler gw ctx backend r st =
     (if \<not> gw_url_ok gw r then (http_Error ''Internal server error'' 500, st)
      else
        (case backend (forward gw ctx r) st of
           (None, st1) \<Rightarrow> (http_Error ''Service unavailable'' 503, st1)
         | (Some resp, st1) \<Rightarrow> (resp, st1)))"

section \<open>Login and logout\<close>

definition success_doc :: "string \<Rightarrow> (string \<times> gval) list \<Rightarrow> gval" where
  "success_doc message extra =
     GObj ([(''success'', GBool True), (''message'', GStr message)] @ extra)"

definition web_Login ::
  "gateway \<Rightarrow> env \<Rightarrow> auth_codec \<Rightarrow> request \<Rightarrow> svc \<Rightarrow> (doc response \<times> cookie list) \<times> svc" where
  "web_Login gw env cd r st =
     (case Decode (gw_login gw) r of
        None \<Rightarrow> ((http_Error ''Invalid request'' 400, []), st)
      | Some (username, password) \<Rightarrow>
          (case client_Login gw env cd username password st of
             (None, st1) \<Rightarrow> ((http_Error ''Login failed'' 401, []), st1)
           | (Some l, st1) \<Rightarrow>
               (let cookies = [access_token_cookie gw (wl_access_token l) (wl_expires_in l),
                               refresh_token_cookie gw (wl_refresh_token l)];
                    isCLIRequest = (rq_header r ''X-CLI-Client'' = ''true'' \<or> rq_query r ''cli'' = ''true'')
                in ((json_ok (success_doc ''Login successful''
                      (if isCLIRequest then
                         [(''access_token'', GStr (wl_access_token l)),
                          (''refresh_token'', GStr (wl_refresh_token l)),
                          (''expires_in'', GInt (wl_expires_in l)), (''token_type'', GStr ''Bearer'')]
                       else [])), cookies), st1))))"

definition web_Logout ::
  "gateway \<Rightarrow> env \<Rightarrow> auth_codec \<Rightarrow> request \<Rightarrow> svc \<Rightarrow> (doc response \<times> cookie list) \<times> svc" where
  \<comment> \<open>an error of the revocation is only logged\<close>
  "web_Logout gw env cd r st =
     (let st1 = (case rq_cookie r ''refresh_token'' of
                   Some v \<Rightarrow> if v \<noteq> [] then snd (client_RevokeToken gw env cd v st) else st
                 | None \<Rightarrow> st)
      in ((json_ok (success_doc ''Logout successful'' []), clear_auth_cookies gw), st1))"

definition web_Me :: "web_context \<Rightarrow> doc response" where
  "web_Me ctx =
     json_ok (GObj [(''user_id'', GStr (wc_user_id ctx)), (''roles'', roles_val (wc_roles ctx))])"

section \<open>Cross-origin checks\<close>

definition csrf_exempt :: "string \<Rightarrow> bool" where
  "csrf_exempt path \<longleftrightarrow>
     path \<in> {''/api/auth/login'', ''/api/health''}
     \<or> list_ex (has_prefix path) [''/api/search/'', ''/api/core/'', ''/api/auth/me'', ''/api/auth/api'']"

definition cross_origin_ok :: "gateway \<Rightarrow> request \<Rightarrow> bool" where
  \<comment> \<open>\<open>CrossOriginProtection.Check\<close> of \<open>net/http\<close>, with no trusted origins\<close>
  "cross_origin_ok gw r \<longleftrightarrow>
     rq_method r \<in> {''GET'', ''HEAD'', ''OPTIONS''}
     \<or> (if rq_header r ''Sec-Fetch-Site'' = []
        then rq_header r ''Origin'' = [] \<or> gw_origin_host gw (rq_header r ''Origin'') = Some (rq_host r)
        else rq_header r ''Sec-Fetch-Site'' \<in> {''same-origin'', ''none''})"

definition CSRF :: "gateway \<Rightarrow> request \<Rightarrow> doc response option" where
  \<comment> \<open>\<open>None\<close>: the next handler runs\<close>
  "CSRF gw r =
     (if csrf_exempt (rq_path r) then None
      else if cross_origin_ok gw r then None
      else Some (http_Error ''CSRF token validation failed'' 403))"

record cors_config =
  co_origins :: "string list"
  co_methods :: "string list"
  co_headers :: "string list"
  co_credentials :: bool
  co_max_age :: int

definition origin_allowed :: "cors_config \<Rightarrow> string \<Rightarrow> bool" where
  "origin_allowed cfg origin \<longleftrightarrow>
     list_ex (\<lambda>allowed. if has_prefix allowed ''*.'' then has_suffix origin (drop 1 allowed)
                        else origin = allowed) (co_origins cfg)"

definition CORS :: "cors_config \<Rightarrow> request \<Rightarrow> (string \<times> string) list \<times> bool" where
  \<comment> \<open>the headers set, and whether the next handler runs\<close>
  "CORS cfg r =
     ((if rq_header r ''Origin'' \<noteq> [] \<and> origin_allowed cfg (rq_header r ''Origin'')
       then [(''Access-Control-Allow-Origin'', rq_header r ''Origin'')] else [])
      @ [(''Access-Control-Allow-Methods'', join_with '', '' (co_methods cfg)),
         (''Access-Control-Allow-Headers'', join_with '', '' (co_headers cfg))]
      @ (if co_credentials cfg then [(''Access-Control-Allow-Credentials'', ''true'')] else [])
      @ [(''Access-Control-Max-Age'', if co_max_age cfg > 0 then int_string (co_max_age cfg) else ''300'')],
      rq_method r \<noteq> ''OPTIONS'')"

section \<open>Routes\<close>

text \<open>
  \<open>ServeMux\<close> chooses the most specific pattern, and a pattern with a method falls back to the
  subtree around it: a \<open>POST\<close> of \<^verbatim>\<open>/api/auth/me\<close> is proxied, a \<open>GET\<close> of an unknown path is a static
  file.
\<close>

datatype web_route =
    Web_csrf_token | Web_login | Web_logout | Web_me | Web_metrics | Web_submit | Web_status
  | Web_hec_stats | Web_hec_batch | Web_auth | Web_search | Web_core | Web_rules | Web_alerting
  | Web_health | Web_static

definition one_segment :: "string \<Rightarrow> string \<Rightarrow> bool" where
  \<comment> \<open>the pattern \<^verbatim>\<open>prefix{id}\<close>\<close>
  "one_segment path p \<longleftrightarrow>
     has_prefix path p \<and> length p < length path \<and> CHR ''/'' \<notin> set (drop (length p) path)"

definition web_route_of :: "bool \<Rightarrow> bool \<Rightarrow> string \<Rightarrow> string \<Rightarrow> web_route" where
  \<comment> \<open>\<open>async\<close> and \<open>stats\<close>: the two optional handlers are configured\<close>
  "web_route_of async stats m path =
     (if path = ''/api/auth/csrf-token'' \<and> is_get m then Web_csrf_token
      else if path = ''/api/auth/login'' \<and> m = ''POST'' then Web_login
      else if path = ''/api/auth/logout'' \<and> m = ''POST'' then Web_logout
      else if path = ''/api/auth/me'' \<and> is_get m then Web_me
      else if path = ''/api/dashboard/metrics'' \<and> is_get m then Web_metrics
      else if async \<and> path = ''/api/async-query/submit'' \<and> m = ''POST'' then Web_submit
      else if async \<and> one_segment path ''/api/async-query/status/'' \<and> is_get m then Web_status
      else if stats \<and> one_segment path ''/api/hec/stats/'' \<and> is_get m then Web_hec_stats
      else if stats \<and> path = ''/api/hec/stats/batch'' \<and> m = ''POST'' then Web_hec_batch
      else if has_prefix path ''/api/auth/'' then Web_auth
      else if has_prefix path ''/api/search/'' then Web_search
      else if has_prefix path ''/api/core/'' then Web_core
      else if has_prefix path ''/api/rules/'' then Web_rules
      else if has_prefix path ''/api/alerting/'' then Web_alerting
      else if path = ''/api/health'' \<and> is_get m then Web_health
      else Web_static)"

definition StripPrefix :: "string \<Rightarrow> request \<Rightarrow> request" where
  "StripPrefix p r = r\<lparr>rq_path := trim_prefix (rq_path r) p\<rparr>"

definition unauthorized :: "doc response" where
  "unauthorized = http_Error ''Unauthorized'' 401"

definition gateway_auth ::
  "gateway \<Rightarrow> env \<Rightarrow> auth_codec \<Rightarrow> request \<Rightarrow> svc \<Rightarrow> (doc response \<times> cookie list) \<times> svc" where
  \<comment> \<open>the route \<open>Web_auth\<close>: \<open>Protect\<close>, \<open>StripPrefix\<close>, and the proxy to the authenticate service\<close>
  "gateway_auth gw env cd r st =
     (case Protect gw env cd r st of
        ((None, cookies), st1) \<Rightarrow> ((unauthorized, cookies), st1)
      | ((Some ctx, cookies), st1) \<Rightarrow>
          (case proxy_Handler gw ctx (exchange_with gw env cd) (StripPrefix ''/api/auth'' r) st1 of
             (resp, st2) \<Rightarrow> ((resp, cookies), st2)))"

section \<open>Laws\<close>

lemma exchange_frame:
  "(\<And>s. repo.truncate (snd (NewRouter env cd r s)) = repo.truncate s) \<Longrightarrow>
     repo.truncate (snd (exchange_with gw env cd r st)) = repo.truncate st"
  by (simp add: exchange_with_def split: exchange.split)

lemma no_auth_refused:
  "rq_header r ''Authorization'' = [] \<Longrightarrow>
     route_of (rq_method r) (rq_path r) = Revoke_route
       \<or> permission_of (route_of (rq_method r) (rq_path r)) \<noteq> None \<Longrightarrow>
     NewRouter env cd r st = (Some (http_Error ''Missing authorization header'' 401), st)"
  by (auto simp: NewRouter_def Let_def RequireAuth_def RequirePermission_def with_auth_def after_check_def
      permission_of_def)

lemma post_routes [simp]:
  "route_of ''POST'' ''/api/v1/auth/login'' = Login_route"
  "route_of ''POST'' ''/api/v1/auth/refresh'' = Refresh_route"
  "route_of ''POST'' ''/api/v1/auth/validate'' = Validate_route"
  "route_of ''POST'' ''/api/v1/auth/revoke'' = Revoke_route"
  by (simp_all add: route_of_def)

lemma post_request_simps [simp]:
  "rq_method (post_request gw path body) = ''POST''" "rq_path (post_request gw path body) = path"
  "rq_header (post_request gw path body) ''Authorization'' = []"
  "rq_body (post_request gw path body) = Some body"
  by (simp_all add: post_request_def)

lemma client_ValidateToken_frame:
  "repo.truncate (snd (client_ValidateToken gw env cd tok st)) = repo.truncate st"
  using exchange_frame [OF NewRouter_unguarded]
  by (simp add: client_ValidateToken_def case_prod_unfold reads_only_def permission_of_def split: option.split)

lemma client_RefreshToken_frame:
  "repo.truncate (snd (client_RefreshToken gw env cd tok st)) = repo.truncate st"
  using exchange_frame [OF NewRouter_unguarded]
  by (simp add: client_RefreshToken_def case_prod_unfold reads_only_def permission_of_def split: option.split)

lemma Protect_frame: "repo.truncate (snd (Protect gw env cd r st)) = repo.truncate st"
  using client_ValidateToken_frame client_RefreshToken_frame
  by (auto simp: Protect_def refresh_session_def Let_def split: option.split prod.split) (metis snd_conv)+

lemma canonical_simps [simp]:
  "CanonicalHeaderKey ''Authorization'' = ''Authorization''"
  "CanonicalHeaderKey ''X-User-ID'' = ''X-User-Id''"
  "CanonicalHeaderKey ''X-User-Roles'' = ''X-User-Roles''"
  "CanonicalHeaderKey ''X-Scope-Type'' = ''X-Scope-Type''"
  "CanonicalHeaderKey ''X-Organization-ID'' = ''X-Organization-Id''"
  "CanonicalHeaderKey ''X-Client-ID'' = ''X-Client-Id''"
  "CanonicalHeaderKey ''X-Forwarded-For'' = ''X-Forwarded-For''"
  "CanonicalHeaderKey ''X-Real-IP'' = ''X-Real-Ip''"
  by code_simp+

section \<open>Whose tokens a request can touch\<close>

lemma Login_tokens: "h_tokens (snd (Login env req ip ua st)) = h_tokens st"
  by (simp add: Login_def Login_session_def user_access_token_eq GenerateRefreshToken_def
      alloc_session_def CreateSession_def Let_def case_prod_unfold split: sum.split option.split)

lemma user_ops_tokens:
  "h_tokens (snd (svc_CreateUser env creq actor ip ua st)) = h_tokens st"
  "h_tokens (snd (UpdateUserDetails env uid ureq actor ip ua st)) = h_tokens st"
  "h_tokens (snd (svc_DeleteUser env uid actor ip ua st)) = h_tokens st"
  "h_tokens (snd (ResetPassword env uid pw actor ip ua st)) = h_tokens st"
  "h_tokens (snd (RevokeToken env tok st)) = h_tokens st"
  by (simp_all add: svc_CreateUser_def UpdateUserDetails_def svc_DeleteUser_def ResetPassword_def
      RevokeToken_def RevokeSession_def CreateUser_eq UpdateUser_eq DeleteUser_def alloc_user_def
      write_user_def store_user_def Let_def split: sum.split option.split)

lemma create_hec_tokens:
  "q < sv_next st \<Longrightarrow>
     h_tokens (snd (svc_CreateHECToken env uid cid name ex ip ua st)) q = h_tokens st q"
  by (simp add: svc_CreateHECToken_def alloc_token_def CreateHECToken_def Let_def split: option.split)

lemma revoke_hec_tokens:
  assumes "ht_user_id (h_tokens st q) \<noteq> uid" and "map_of (r_hec_tokens st) tok = Some p"
  shows "h_tokens (snd (revoke_hec_token env p tok uid ip ua st)) q = h_tokens st q"
  using assms by (auto simp: revoke_hec_token_def RevokeHECToken_def Let_def)

lemma handler_tokens:
  assumes "repo_ok st" and "q < sv_next st"
    and "ht_user_id (h_tokens st q) \<noteq> rq_header r ''X-User-ID''"
  shows "h_tokens (snd (handler_of env cd rt r st)) q = h_tokens st q"
proof -
  have keep: "reads_only rt \<Longrightarrow> ?thesis"
    using handler_frame [of rt env cd r st] by (simp add: repo.truncate_def)
  have stored: "map_of (r_hec_tokens st) (ht_token (h_tokens st p)) = Some p"
    if "p \<in> snd ` set (r_hec_tokens st)" for p
  proof -
    from that obtain k where "(k, p) \<in> set (r_hec_tokens st)" by auto
    with assms(1) have "map_of (r_hec_tokens st) k = Some p"
      by (simp add: repo_ok_def keys_ok_def map_of_is_SomeI)
    with assms(1) show ?thesis by (simp add: repo_ok_def keys_ok_def)
  qed
  have by_id: "p \<in> snd ` set (r_hec_tokens st)" if "GetHECTokenByID i st = Inr p" for i p
    using that by (auto simp: GetHECTokenByID_def find_Some_iff split: option.splits)
  show ?thesis
    using keep Login_tokens [of env] user_ops_tokens [of env] create_hec_tokens [OF assms(2)] stored by_id
      revoke_hec_tokens [OF assms(3)]
    by (cases rt)
      (simp_all add: reads_only_def handler_of_def http_Login_def http_RevokeToken_def http_CreateUser_def
        http_UpdateUser_def http_DeleteUser_def http_ResetPassword_def http_CreateHECToken_def
        http_RevokeHECToken_def http_RevokeHECTokenByID_def RevokeHECTokenByUser_def
        RevokeHECTokenByID_def GetHECToken_def Let_def case_prod_unfold
        split: option.split sum.split)
qed

lemma RequireAuth_next: "sv_next (snd (RequireAuth env h st)) = sv_next st"
  by (simp add: RequireAuth_def ValidateToken_def ValidateAccessToken_def case_prod_unfold
      split: list.split sum.split option.split)

lemma RequirePermission_next: "sv_next (snd (RequirePermission p env h st)) = sv_next st"
  by (simp add: RequirePermission_def with_auth_state RequireAuth_next)

lemma NewRouter_tokens:
  assumes "repo_ok st" and "q < sv_next st"
    and "ht_user_id (h_tokens st q) \<noteq> rq_header r ''X-User-ID''"
  shows "h_tokens (snd (NewRouter env cd r st)) q = h_tokens st q"
proof -
  have passed: "h_tokens (snd (after_check v (handler_of env cd rt r))) q = h_tokens st q"
    if "repo.truncate (snd v) = repo.truncate st" and "sv_next (snd v) = sv_next st" for v rt
    using handler_tokens [of "snd v" q r env cd rt] that assms
    by (cases v) (auto simp: after_check_def repo.truncate_def repo_ok_def split: verdict.split prod.split)
  show ?thesis
    using passed [OF RequirePermission_frame RequirePermission_next]
      passed [OF RequireAuth_frame RequireAuth_next] handler_tokens [OF assms]
    by (cases "permission_of (route_of (rq_method r) (rq_path r))")
      (simp_all add: NewRouter_def Let_def case_prod_unfold)
qed

section \<open>The middleware and the service\<close>

lemma decode_validate_doc:
  "decode_validate (Doc (validate_doc v)) =
     Some \<lparr>wv_valid = vt_valid v, wv_user_id = vt_user_id v, wv_roles = vt_roles v\<rparr>"
  by (simp add: validate_doc_def decode_validate_def field_or_def omitempty_def roles_val_def
      as_strings_def list_all_iff comp_def split: option.split gval.split)

lemma client_ValidateToken_valid:
  assumes "client_ValidateToken gw env cd tok st = (Some v, st')" and "wv_valid v"
  shows "\<exists>token resp. ac_token cd (ac_marshal cd (GObj [(''token'', GStr tok)])) = Some token
    \<and> ValidateToken env token st = (Inr resp, st') \<and> vt_valid resp
    \<and> vt_user_id resp = wv_user_id v \<and> vt_roles resp = wv_roles v"
proof -
  let ?r = "post_request gw ''/api/v1/auth/validate'' (ac_marshal cd (GObj [(''token'', GStr tok)]))"
  have "NewRouter env cd ?r st = (case http_ValidateToken env cd ?r st of (resp, s) \<Rightarrow> (Some resp, s))"
    by (simp add: NewRouter_def permission_of_def handler_of_def)
  with assms obtain resp where resp: "http_ValidateToken env cd ?r st = (resp, st')"
      "rs_status resp = 200" "decode_validate (rs_body resp) = Some v"
    by (auto simp: client_ValidateToken_def exchange_with_def
        split: exchange.splits option.splits prod.splits if_splits)
  then obtain token where tok: "Decode (ac_token cd) ?r = Some token"
    by (cases "Decode (ac_token cd) ?r") (auto simp: http_ValidateToken_def bad_body_def http_Error_def)
  then have "ac_token cd (ac_marshal cd (GObj [(''token'', GStr tok)])) = Some token"
    by (simp add: Decode_def)
  with resp tok show ?thesis
    by (auto simp: http_ValidateToken_def http_Error_def WriteJSON_def json_ok_def decode_validate_doc
        split: prod.splits sum.splits if_splits intro!: exI [of _ token])
qed

lemma decode_login_doc:
  "decode_login (Doc (login_doc l)) =
     Some \<lparr>wl_access_token = lr_access_token l, wl_refresh_token = lr_refresh_token l,
           wl_expires_in = lr_expires_in l, wl_token_type = lr_token_type l\<rparr>"
  by (simp add: login_doc_def decode_login_def field_or_def split: gval.split)

lemma client_RefreshToken_issued:
  assumes "client_RefreshToken gw env cd tok st = (Some l, st')"
  shows "\<exists>token resp. ac_refresh cd (ac_marshal cd (GObj [(''refresh_token'', GStr tok)])) = Some token
    \<and> RefreshToken env token st = (Inr resp, st') \<and> lr_access_token resp = wl_access_token l"
proof -
  let ?r = "post_request gw ''/api/v1/auth/refresh'' (ac_marshal cd (GObj [(''refresh_token'', GStr tok)]))"
  have "NewRouter env cd ?r st = (case http_RefreshToken env cd ?r st of (resp, s) \<Rightarrow> (Some resp, s))"
    by (simp add: NewRouter_def permission_of_def handler_of_def)
  with assms obtain resp where resp: "http_RefreshToken env cd ?r st = (resp, st')"
      "rs_status resp = 200" "decode_login (rs_body resp) = Some l"
    by (auto simp: client_RefreshToken_def exchange_with_def
        split: exchange.splits option.splits prod.splits if_splits)
  then obtain token where tok: "Decode (ac_refresh cd) ?r = Some token"
    by (cases "Decode (ac_refresh cd) ?r") (auto simp: http_RefreshToken_def bad_body_def http_Error_def)
  then have "ac_refresh cd (ac_marshal cd (GObj [(''refresh_token'', GStr tok)])) = Some token"
    by (simp add: Decode_def)
  with resp tok show ?thesis
    by (auto simp: http_RefreshToken_def http_Error_def WriteJSON_def json_ok_def decode_login_doc
        split: prod.splits sum.splits if_splits intro!: exI [of _ token])
qed

lemma refresh_session_passed:
  assumes "refresh_session gw env cd r st = ((Some v, ck), st')"
  obtains rt s l where "rq_cookie r ''refresh_token'' = Some rt" and "client_RefreshToken gw env cd rt st = (Some l, s)"
    and "client_ValidateToken gw env cd (wl_access_token l) s = (Some v, st')" and "wv_valid v"
  using assms by (auto simp: refresh_session_def Let_def split: option.splits prod.splits if_splits)

definition presents :: "request \<Rightarrow> string \<Rightarrow> bool" where
  \<comment> \<open>the access token a request carries, in its header or, without one there, in its cookie\<close>
  "presents r tok \<longleftrightarrow>
     (rq_header r ''Authorization'' = ''Bearer '' @ tok \<and> tok \<noteq> [])
     \<or> ((\<forall>t. t \<noteq> [] \<longrightarrow> rq_header r ''Authorization'' \<noteq> ''Bearer '' @ t) \<and> rq_cookie r ''access_token'' = Some tok)"

lemma access_token_of_presents:
  assumes "access_token_of r = Some tok"
  shows "presents r tok"
proof (cases "header_token (rq_header r ''Authorization'') = []")
  case True
  then have "rq_header r ''Authorization'' \<noteq> ''Bearer '' @ t" if "t \<noteq> []" for t
    using that by (auto simp: header_token_def split: if_splits)
  with True assms show ?thesis by (simp add: presents_def access_token_of_def)
next
  case False
  let ?h = "rq_header r ''Authorization''"
  have "take 7 ?h = ''Bearer ''" and tok: "drop 7 ?h = tok" "tok \<noteq> []"
    using False assms by (auto simp: header_token_def access_token_of_def split: if_splits)
  then have "?h = ''Bearer '' @ tok" by (metis append_take_drop_id)
  with tok(2) show ?thesis by (simp add: presents_def)
qed

definition renewed :: "env \<Rightarrow> auth_codec \<Rightarrow> request \<Rightarrow> string \<Rightarrow> svc \<Rightarrow> bool" where
  \<comment> \<open>the access token the service has just issued for the refresh token in the request's cookie\<close>
  "renewed env cd r tok s \<longleftrightarrow>
     (\<exists>rt token s0 resp. rq_cookie r ''refresh_token'' = Some rt
        \<and> ac_refresh cd (ac_marshal cd (GObj [(''refresh_token'', GStr rt)])) = Some token
        \<and> RefreshToken env token s0 = (Inr resp, s) \<and> lr_access_token resp = tok)"

lemma Protect_passed:
  assumes "Protect gw env cd r st = ((Some ctx, ck), st')"
  shows "\<exists>tok token s resp. (presents r tok \<or> renewed env cd r tok s)
    \<and> ac_token cd (ac_marshal cd (GObj [(''token'', GStr tok)])) = Some token
    \<and> repo.truncate s = repo.truncate st \<and> ValidateToken env token s = (Inr resp, st')
    \<and> vt_valid resp \<and> vt_user_id resp = wc_user_id ctx \<and> vt_roles resp = wc_roles ctx"
proof -
  obtain tok v s1 where own: "access_token_of r = Some tok"
    and v: "client_ValidateToken gw env cd tok st = (Some v, s1)"
    and rest: "wv_valid v \<and> ctx = \<lparr>wc_user_id = wv_user_id v, wc_roles = wv_roles v\<rparr> \<and> s1 = st'
      \<or> (\<exists>v'. refresh_session gw env cd r s1 = ((Some v', ck), st')
            \<and> ctx = \<lparr>wc_user_id = wv_user_id v', wc_roles = wv_roles v'\<rparr>)"
    using assms by (auto simp: Protect_def Let_def split: option.splits prod.splits if_splits)
  from rest show ?thesis
  proof (elim disjE conjE exE)
    assume "wv_valid v" and "ctx = \<lparr>wc_user_id = wv_user_id v, wc_roles = wv_roles v\<rparr>" and "s1 = st'"
    with client_ValidateToken_valid [OF v] access_token_of_presents [OF own] show ?thesis
      by (metis web_context.select_convs)
  next
    fix v' assume re: "refresh_session gw env cd r s1 = ((Some v', ck), st')"
      and ctx: "ctx = \<lparr>wc_user_id = wv_user_id v', wc_roles = wv_roles v'\<rparr>"
    from re obtain rt s l where rt: "rq_cookie r ''refresh_token'' = Some rt"
      and l: "client_RefreshToken gw env cd rt s1 = (Some l, s)"
      and v': "client_ValidateToken gw env cd (wl_access_token l) s = (Some v', st')" "wv_valid v'"
      by (rule refresh_session_passed)
    have "repo.truncate s = repo.truncate st"
      using client_RefreshToken_frame [of gw env cd _ s1] client_ValidateToken_frame [of gw env cd tok st] l v
      by (metis snd_conv)
    moreover have "renewed env cd r (wl_access_token l) s"
      using client_RefreshToken_issued [OF l] rt by (auto simp: renewed_def)
    ultimately show ?thesis
      using client_ValidateToken_valid [OF v'] ctx by (metis web_context.select_convs)
  qed
qed

lemma validate_next: "sv_next (snd (ValidateToken env tok st)) = sv_next st"
  by (simp add: ValidateToken_def ValidateAccessToken_def case_prod_unfold split: sum.split option.split)

lemma refresh_next: "sv_next (snd (RefreshToken env tok st)) = sv_next st"
  by (simp add: RefreshToken_def user_access_token_eq case_prod_unfold split: sum.split option.split)

lemma client_next:
  "sv_next (snd (client_ValidateToken gw env cd tok st)) = sv_next st"
  "sv_next (snd (client_RefreshToken gw env cd tok st)) = sv_next st"
  using validate_next refresh_next
  by (simp_all add: client_ValidateToken_def client_RefreshToken_def exchange_with_def NewRouter_def
      permission_of_def handler_of_def http_ValidateToken_def http_RefreshToken_def Let_def case_prod_unfold
      split: exchange.split option.split sum.split)

lemma Protect_next: "sv_next (snd (Protect gw env cd r st)) = sv_next st"
  using client_next
  by (auto simp: Protect_def refresh_session_def Let_def split: option.split prod.split) (metis snd_conv)+

lemma exchange_tokens:
  assumes "repo_ok st" and "q < sv_next st" and "ht_user_id (h_tokens st q) \<noteq> rq_header r ''X-User-ID''"
  shows "h_tokens (snd (exchange_with gw env cd r st)) q = h_tokens st q"
  using NewRouter_tokens [OF assms] by (simp add: exchange_with_def split: exchange.split)

lemma forward_user_id [simp]: "rq_header (forward gw ctx r) ''X-User-ID'' = wc_user_id ctx"
  by (simp add: forward_def forward_header_def allowedHeaders_def)

lemma forward_no_cookie:
  "rq_cookie r ''access_token'' \<in> {None, Some []} \<Longrightarrow> rq_header (forward gw ctx r) ''Authorization'' = []"
  by (auto simp: forward_def forward_header_def allowedHeaders_def)

lemma forward_frame [simp]:
  "rq_method (forward gw ctx r) = rq_method r" "rq_path (forward gw ctx r) = rq_path r"
  by (simp_all add: forward_def)

lemma StripPrefix_simps [simp]:
  "rq_method (StripPrefix p r) = rq_method r" "rq_cookie (StripPrefix p r) = rq_cookie r"
  "rq_path (StripPrefix p r) = trim_prefix (rq_path r) p"
  by (simp_all add: StripPrefix_def)

lemma exchange_no_auth:
  assumes "rq_header r ''Authorization'' = []"
    and "route_of (rq_method r) (rq_path r) = Revoke_route
      \<or> permission_of (route_of (rq_method r) (rq_path r)) \<noteq> None"
  shows "snd (exchange_with gw env cd r st) = st"
    and "fst (exchange_with gw env cd r st) \<in> {None, Some (http_Error ''Missing authorization header'' 401)}"
  using no_auth_refused [OF assms] by (simp_all add: exchange_with_def split: exchange.split)

section \<open>A concrete gateway\<close>

definition sample_gateway :: gateway where
  "sample_gateway =
     \<lparr>gw_net = (\<lambda>n. Answered), gw_address = ''10.0.0.9:80'', gw_url_ok = (\<lambda>r. True), gw_domain = [],
      gw_secure = True, gw_login = (\<lambda>b. None), gw_origin_host = (\<lambda>s. None)\<rparr>"

definition web_request :: "string \<Rightarrow> string \<Rightarrow> string option \<Rightarrow> string option \<Rightarrow> request" where
  "web_request m path access refresh =
     \<lparr>rq_method = m, rq_host = [], rq_path = path,
      rq_header = (\<lambda>h. if h = ''X-User-ID'' then ''v'' else []), rq_query = (\<lambda>q. []),
      rq_cookie = (\<lambda>c. if c = ''access_token'' then access else if c = ''refresh_token'' then refresh else None),
      rq_remote_addr = ''10.0.0.1:5'', rq_body = Some ''t''\<rparr>"

lemma sample_validates:
  "client_ValidateToken sample_gateway sample_env sample_auth_codec tok st =
     (case ValidateToken sample_env tok st of
        (Inl err, st1) \<Rightarrow> (Some \<lparr>wv_valid = False, wv_user_id = [], wv_roles = []\<rparr>, st1)
      | (Inr resp, st1) \<Rightarrow>
          (Some (if vt_valid resp
                 then \<lparr>wv_valid = True, wv_user_id = vt_user_id resp, wv_roles = vt_roles resp\<rparr>
                 else \<lparr>wv_valid = False, wv_user_id = [], wv_roles = []\<rparr>), st1))"
  by (simp add: client_ValidateToken_def exchange_with_def sample_gateway_def NewRouter_def
      permission_of_def handler_of_def http_ValidateToken_def Decode_def sample_auth_codec_def
      http_Error_def json_ok_def WriteJSON_def decode_validate_doc case_prod_unfold
      split: sum.split)

definition sample_shop :: svc where
  \<comment> \<open>ann is logged in; the token at address 2 belongs to user \<open>v\<close>\<close>
  "sample_shop = snd (svc_CreateHECToken sample_env ''v'' ''c'' ''n'' [] [] [] (snd sample_login))"

lemma sample_shop_ok: "svc_ok sample_env sample_shop"
  unfolding sample_shop_def sample_login_def
  by (intro svc_ok_svc_CreateHECToken svc_ok_Login sample_ok sample_fresh)

lemma sample_login_simps:
  "r_users (snd sample_login) = [(''u'', 0)]" "h_users (snd sample_login) 0 = sample_ann"
  "r_sessions (snd sample_login) = [(''cm5k'', 1)]" "r_hec_tokens (snd sample_login) = []"
  "s_access_token (h_sessions (snd sample_login) (Suc 0)) = ''u''"
  "s_revoked_at (h_sessions (snd sample_login) (Suc 0)) = None"
  "s_expires_at (h_sessions (snd sample_login) (Suc 0)) = 1700000000 * second + 7 * 24 * (60 * minute)"
  "sv_next (snd sample_login) = 2"
  by (simp_all add: sample_login_def Login_def GetUserByUsername_def user_access_token_eq sample_ann_token
      GenerateRefreshToken_def Login_session_def sample_base64 Let_def alloc_session_def CreateSession_def
      new_session_def map_put_def)

lemma sample_shop_simps:
  "r_users sample_shop = [(''u'', 0)]" "h_users sample_shop 0 = sample_ann"
  "r_sessions sample_shop = [(''cm5k'', 1)]" "h_sessions sample_shop = h_sessions (snd sample_login)"
  "\<exists>tok. map_of (r_hec_tokens sample_shop) tok = Some 2" "ht_user_id (h_tokens sample_shop 2) = ''v''"
  by (simp_all add: sample_shop_def svc_CreateHECToken_def sample_login_simps alloc_token_def
      CreateHECToken_def new_hec_token_def Let_def)

lemma sample_shop_validates:
  obtains resp s where "ValidateToken sample_env ''u'' sample_shop = (Inr resp, s)"
    and "vt_valid resp" and "vt_user_id resp = ''u''"
proof -
  have active: "Session_IsActive (1700000000 * second) (h_sessions sample_shop 1)"
    by (simp add: Session_IsActive_def sample_shop_simps sample_login_simps is_zero_def zero_time_def
        second_def minute_def)
  have parse: "e_jwt_parse sample_env n (access_key sample_env) ''u'' =
      Some (Some \<lparr>jc_user_id = ''u'', jc_roles = [''viewer''], jc_permissions_version = 0,
        jc_organization_id = [], jc_client_id = [], jc_expires_at = n, jc_issued_at = n,
        jc_not_before = n, jc_issuer = []\<rparr>, True)" for n
    by (simp add: sample_env_def access_key_def)
  have "\<exists>resp s. ValidateToken sample_env ''u'' sample_shop = (Inr resp, s) \<and> vt_valid resp
      \<and> vt_user_id resp = ''u''"
    using active
    by (simp add: ValidateToken_def ValidateAccessToken_def parse GetSessionByAccessToken_def
        sample_shop_simps sample_login_simps GetUserPermissionsVersion_def)
  then show ?thesis using that by blast
qed

lemma sample_protects:
  obtains ctx s where "Protect sample_gateway sample_env sample_auth_codec
      (web_request m path (Some ''u'') refresh) sample_shop = ((Some ctx, []), s)"
    and "wc_user_id ctx = ''u''"
proof -
  obtain resp s where "ValidateToken sample_env ''u'' sample_shop = (Inr resp, s)" "vt_valid resp"
    "vt_user_id resp = ''u''" by (rule sample_shop_validates)
  then have "\<exists>ctx s. Protect sample_gateway sample_env sample_auth_codec
      (web_request m path (Some ''u'') refresh) sample_shop = ((Some ctx, []), s) \<and> wc_user_id ctx = ''u''"
    by (simp add: Protect_def access_token_of_def header_token_def web_request_def sample_validates)
  then show ?thesis using that by blast
qed

section \<open>Properties\<close>

text \<open>C6: What the authenticate service reads as the caller's identity is that of the session the
  request itself carries: when the session middleware lets a request through, it has had the access
  token validated that the request presents in its header or cookie, or the one just issued for the
  refresh token in its cookie, and the request sent on names this token's user and roles, whatever
  headers the client sent; the scope headers and the forwarded address never get through.\<close>

theorem proxied_identity:
  assumes "Protect gw env cd r st = ((Some ctx, ck), st')"
  shows "(\<exists>tok token s resp. (presents r tok \<or> renewed env cd r tok s)
      \<and> ac_token cd (ac_marshal cd (GObj [(''token'', GStr tok)])) = Some token
      \<and> repo.truncate s = repo.truncate st \<and> ValidateToken env token s = (Inr resp, st')
      \<and> vt_valid resp \<and> rq_header (forward gw ctx r) ''X-User-ID'' = vt_user_id resp
      \<and> rq_header (forward gw ctx r) ''X-User-Roles'' = join_with '','' (vt_roles resp))
    \<and> (\<forall>h\<in>{''X-Scope-Type'', ''X-Organization-ID'', ''X-Client-ID'', ''X-Forwarded-For'', ''X-Real-IP''}.
        rq_header (forward gw ctx r) h = [])"
proof
  have sent: "rq_header (forward gw ctx r) ''X-User-ID'' = wc_user_id ctx"
    "rq_header (forward gw ctx r) ''X-User-Roles'' = join_with '','' (wc_roles ctx)"
    by (simp_all add: forward_def forward_header_def allowedHeaders_def Let_def)
  from Protect_passed [OF assms] show "\<exists>tok token s resp. (presents r tok \<or> renewed env cd r tok s)
      \<and> ac_token cd (ac_marshal cd (GObj [(''token'', GStr tok)])) = Some token
      \<and> repo.truncate s = repo.truncate st \<and> ValidateToken env token s = (Inr resp, st')
      \<and> vt_valid resp \<and> rq_header (forward gw ctx r) ''X-User-ID'' = vt_user_id resp
      \<and> rq_header (forward gw ctx r) ''X-User-Roles'' = join_with '','' (vt_roles resp)"
    unfolding sent by metis
qed (simp add: forward_def forward_header_def allowedHeaders_def Let_def)

theorem proxied_identity_witness:
  "\<exists>ctx s. Protect sample_gateway sample_env sample_auth_codec
       (web_request ''GET'' ''/api/auth/api/v1/users'' (Some ''u'') None) sample_shop = ((Some ctx, []), s)
     \<and> rq_header (forward sample_gateway ctx
          (web_request ''GET'' ''/api/auth/api/v1/users'' (Some ''u'') None)) ''X-Client-ID'' = []"
proof -
  obtain ctx s where "Protect sample_gateway sample_env sample_auth_codec
      (web_request ''GET'' ''/api/auth/api/v1/users'' (Some ''u'') None) sample_shop = ((Some ctx, []), s)"
    by (rule sample_protects)
  with proxied_identity [OF this] show ?thesis by blast
qed

text \<open>Through the gateway nobody touches another's ingestion tokens: when the session middleware
  has found the user, no request to the authenticate service, on any route, changes a token that
  belongs to someone else.\<close>

lemma gateway_confines_tokens:
  assumes "svc_ok env st" and "map_of (r_hec_tokens st) tok = Some q"
    and "Protect gw env cd r st = ((Some ctx, ck), s)"
    and "ht_user_id (h_tokens st q) \<noteq> wc_user_id ctx"
  shows "h_tokens (snd (gateway_auth gw env cd r st)) q = h_tokens st q"
proof -
  have same: "repo.truncate s = repo.truncate st" "sv_next s = sv_next st"
    using Protect_frame [of gw env cd r st] Protect_next [of gw env cd r st] assms(3) by simp_all
  then have "repo_ok s" "h_tokens s = h_tokens st"
    using svc_okD(1) [OF assms(1)] by (simp_all add: repo.truncate_def repo_ok_def)
  moreover from svc_okD(5) [OF assms(1,2)] same have "q < sv_next s" by simp
  ultimately show ?thesis
    using exchange_tokens [of s q "forward gw ctx (StripPrefix ''/api/auth'' r)" gw env cd] assms(3,4)
    by (simp add: gateway_auth_def proxy_Handler_def case_prod_unfold split: option.split)
qed

text \<open>Logging out of the web interface ends no session: the gateway asks for the revocation
  without an \<open>Authorization\<close> header, which the route requires, so the authenticate service refuses,
  the handler ignores that, and the service's state is what it was; the client is told that the
  logout succeeded.\<close>

lemma web_logout_keeps_session:
  "snd (web_Logout gw env cd r st) = st
   \<and> rs_body (fst (fst (web_Logout gw env cd r st))) = Doc (success_doc ''Logout successful'' [])"
  using exchange_no_auth(1) [of "post_request gw ''/api/v1/auth/revoke'' b" gw env cd st for b]
  by (simp add: web_Logout_def client_RevokeToken_def json_ok_def WriteJSON_def Let_def case_prod_unfold
      split: option.split)

text \<open>A client that presents its access token in the \<open>Authorization\<close> header, as the command line
  does, gets past the gateway but not past the authenticate service: the proxy does not pass the
  header on and builds one from a cookie only, so without the cookie every route that needs a
  permission, and the revocation, changes nothing and is answered with an error.\<close>

lemma header_clients_refused:
  assumes "rq_cookie r ''access_token'' = None"
    and "route_of (rq_method r) (trim_prefix (rq_path r) ''/api/auth'') = Revoke_route
      \<or> permission_of (route_of (rq_method r) (trim_prefix (rq_path r) ''/api/auth'')) \<noteq> None"
  shows "rs_status (fst (fst (gateway_auth gw env cd r st))) \<in> {401, 500, 503}
    \<and> repo.truncate (snd (gateway_auth gw env cd r st)) = repo.truncate st"
proof -
  have route: "route_of (rq_method r') (rq_path r') = Revoke_route
      \<or> permission_of (route_of (rq_method r') (rq_path r')) \<noteq> None"
    and none: "rq_header r' ''Authorization'' = []"
    if "r' = forward gw ctx (StripPrefix ''/api/auth'' r)" for r' ctx
    using assms that by (simp_all add: forward_no_cookie)
  have same: "snd (exchange_with gw env cd (forward gw ctx (StripPrefix ''/api/auth'' r)) s) = s"
    and answer: "fst (exchange_with gw env cd (forward gw ctx (StripPrefix ''/api/auth'' r)) s)
      \<in> {None, Some (http_Error ''Missing authorization header'' 401)}" for ctx s
    by (rule exchange_no_auth; rule none route; rule refl)+
  have "rs_status (fst (proxy_Handler gw ctx (exchange_with gw env cd) (StripPrefix ''/api/auth'' r) s))
      \<in> {401, 500, 503}
    \<and> snd (proxy_Handler gw ctx (exchange_with gw env cd) (StripPrefix ''/api/auth'' r) s) = s" for ctx s
    using answer [of ctx s] same [of ctx s]
    by (auto simp: proxy_Handler_def http_Error_def case_prod_unfold)
  with Protect_frame [of gw env cd r st] show ?thesis
    by (simp add: gateway_auth_def unauthorized_def http_Error_def case_prod_unfold split: option.split)
qed

text \<open>The session middleware never renews a session: when the presented access token is not
  valid, it fetches a new one with the refresh token and sends it as a cookie, but then validates it,
  and the authenticate service does not accept a refreshed token; so the request is refused, as long
  as tokens survive JSON and the new one differs from those issued at the logins.\<close>

lemma web_session_never_renewed:
  assumes "access_token_of r = Some tok"
    and "client_ValidateToken gw env cd tok st = (Some v, s1)" and "\<not> wv_valid v"
    and "\<And>rt resp s2. RefreshToken env rt s1 = (Inr resp, s2) \<Longrightarrow>
      ac_token cd (ac_marshal cd (GObj [(''token'', GStr (lr_access_token resp))])) = Some (lr_access_token resp)
      \<and> (\<forall>q\<in>snd ` set (r_sessions s1). s_access_token (h_sessions s1 q) \<noteq> lr_access_token resp)"
  shows "fst (fst (Protect gw env cd r st)) = None"
proof (rule ccontr)
  assume "fst (fst (Protect gw env cd r st)) \<noteq> None"
  with assms(1-3) obtain v' ck st' where "refresh_session gw env cd r s1 = ((Some v', ck), st')"
    by (auto simp: Protect_def Let_def split: prod.splits)
  then obtain own s l where l: "client_RefreshToken gw env cd own s1 = (Some l, s)"
    and v': "client_ValidateToken gw env cd (wl_access_token l) s = (Some v', st')" "wv_valid v'"
    by (rule refresh_session_passed)
  from client_RefreshToken_issued [OF l] obtain rt resp
    where resp: "RefreshToken env rt s1 = (Inr resp, s)" "lr_access_token resp = wl_access_token l" by blast
  from assms(4) [OF resp(1)] resp(2)
  have travel: "ac_token cd (ac_marshal cd (GObj [(''token'', GStr (wl_access_token l))])) = Some (wl_access_token l)"
    and other: "\<forall>q\<in>snd ` set (r_sessions s1). s_access_token (h_sessions s1 q) \<noteq> wl_access_token l"
    by simp_all
  have "repo.truncate s = repo.truncate s1" using RefreshToken_frame [of env rt s1] resp(1) by simp
  with other have "fst (ValidateToken env (wl_access_token l) s) = Inr invalid_response"
    by (intro ValidateToken_no_session) (auto simp: repo.truncate_def)
  with client_ValidateToken_valid [OF v'] travel show False
    by (auto simp: invalid_response_def)
qed

lemma web_session_never_renewed_example:
  "fst (fst (Protect sample_gateway sample_env sample_auth_codec
     (web_request ''GET'' ''/api/auth/me'' (Some ''zz'') (Some ''rt'')) sample_stale)) = None"
proof -
  let ?r = "web_request ''GET'' ''/api/auth/me'' (Some ''zz'') (Some ''rt'')"
  have sessions: "s_access_token (new_session ''s'' sample_ann ''old'' ''rt'' t [] []) = ''old''" for t
    by (simp add: new_session_def)
  obtain s1 where s1: "ValidateToken sample_env ''zz'' sample_stale = (Inr invalid_response, s1)"
    using ValidateToken_no_session [of sample_stale "''zz''" sample_env] sessions
    by (cases "ValidateToken sample_env ''zz'' sample_stale") (auto simp: sample_stale_def)
  then have "repo.truncate s1 = repo.truncate sample_stale" using validation_frame by (metis snd_conv)
  then have same: "r_users s1 = [(''u'', 0)]" "h_users s1 0 = sample_ann" "r_sessions s1 = [(''rt'', 1)]"
    "h_sessions s1 = h_sessions sample_stale"
    by (simp_all add: repo.truncate_def sample_stale_def)
  have token: "lr_access_token resp = ''u''" if "RefreshToken sample_env rt s1 = (Inr resp, s2)" for rt resp s2
    using that sample_stale_user
    by (auto simp: RefreshToken_def GetSession_def same sample_stale_def GetUserByID_def user_access_token_eq
        sample_ann_token bearer_def split: sum.splits option.splits if_splits)
  show ?thesis
  proof (rule web_session_never_renewed)
    show "access_token_of ?r = Some ''zz''"
      by (simp add: access_token_of_def header_token_def web_request_def)
    show "client_ValidateToken sample_gateway sample_env sample_auth_codec ''zz'' sample_stale
        = (Some \<lparr>wv_valid = False, wv_user_id = [], wv_roles = []\<rparr>, s1)"
      by (simp add: sample_validates s1 invalid_response_def)
    fix rt resp s2 assume "RefreshToken sample_env rt s1 = (Inr resp, s2)"
    with token have "lr_access_token resp = ''u''" .
    then show "ac_token sample_auth_codec (ac_marshal sample_auth_codec
          (GObj [(''token'', GStr (lr_access_token resp))])) = Some (lr_access_token resp)
        \<and> (\<forall>q\<in>snd ` set (r_sessions s1). s_access_token (h_sessions s1 q) \<noteq> lr_access_token resp)"
      by (simp add: sample_auth_codec_def same sample_stale_def sessions)
  qed simp
qed

end
