(* ===== verification/Ack.thy ===== *)
theory Ack
  imports Prelude
begin

text \<open>
  The acknowledgement manager of the ingest service (\<^verbatim>\<open>ingest/internal/ack/manager.go\<close>): the map
  of acknowledgements, and the two metrics it keeps, the gauge \<open>AcksPending\<close> and the counter
  \<open>AcksCompleted\<close>. Each method runs under the manager's lock, so it is one step; the increment
  that \<open>Create\<close> makes after unlocking is part of its step. An \<open>*Ack\<close> never leaves the manager,
  so the map holds the records themselves.

  The locale \<open>ack_ledger\<close> is what the ingest service relies on. Its client lemmas say that the
  gauge counts the pending acknowledgements as long as each is settled at most once.
\<close>

section \<open>State and operations\<close>

datatype status = StatusPending | StatusSuccess | StatusFailed

record ack =
  a_id :: string
  a_status :: status
  a_timestamp :: time
  a_event_ids :: "string list"

record manager =
  m_acks :: "(string \<times> ack) list"
  m_ttl :: int
  m_pending_gauge :: int       \<comment> \<open>\<open>metrics.AcksPending\<close>\<close>
  m_completed :: int           \<comment> \<open>\<open>metrics.AcksCompleted\<close>\<close>

definition NewManager :: "int \<Rightarrow> manager" where
  "NewManager ttl = \<lparr>m_acks = [], m_ttl = ttl, m_pending_gauge = 0, m_completed = 0\<rparr>"

definition ack_Create :: "string \<Rightarrow> time \<Rightarrow> string list \<Rightarrow> manager \<Rightarrow> manager" where
  \<comment> \<open>\<open>ackID\<close>, which is returned, is \<open>uuid.New().String()\<close>\<close>
  "ack_Create ackID now eventIDs m =
     m\<lparr>m_acks := map_put ackID \<lparr>a_id = ackID, a_status = StatusPending, a_timestamp = now,
                                a_event_ids = eventIDs\<rparr> (m_acks m),
       m_pending_gauge := m_pending_gauge m + 1\<rparr>"

definition ack_Complete :: "time \<Rightarrow> string \<Rightarrow> manager \<Rightarrow> manager" where
  "ack_Complete now ackID m =
     (case map_of (m_acks m) ackID of
        None \<Rightarrow> m
      | Some a \<Rightarrow>
          m\<lparr>m_acks := map_put ackID (a\<lparr>a_status := StatusSuccess, a_timestamp := now\<rparr>) (m_acks m),
            m_pending_gauge := m_pending_gauge m - 1, m_completed := m_completed m + 1\<rparr>)"

definition ack_Fail :: "time \<Rightarrow> string \<Rightarrow> manager \<Rightarrow> manager" where
  "ack_Fail now ackID m =
     (case map_of (m_acks m) ackID of
        None \<Rightarrow> m
      | Some a \<Rightarrow>
          m\<lparr>m_acks := map_put ackID (a\<lparr>a_status := StatusFailed, a_timestamp := now\<rparr>) (m_acks m),
            m_pending_gauge := m_pending_gauge m - 1\<rparr>)"

definition ack_Query :: "string list \<Rightarrow> manager \<Rightarrow> (string \<times> bool) list" where
  "ack_Query ackIDs m =
     fold (\<lambda>ackID result.
             case map_of (m_acks m) ackID of
               None \<Rightarrow> result
             | Some a \<Rightarrow> map_put ackID (a_status a = StatusSuccess) result) ackIDs []"

definition GetPending :: "manager \<Rightarrow> nat" where
  "GetPending m = length (filter (\<lambda>(i, a). a_status a = StatusPending) (m_acks m))"

definition expired :: "time \<Rightarrow> ack \<Rightarrow> bool" where
  "expired cutoff a \<longleftrightarrow> a_timestamp a < cutoff"

definition cleanup :: "time \<Rightarrow> manager \<Rightarrow> manager" where
  \<comment> \<open>the loop over the map, whose order does not matter\<close>
  "cleanup now m =
     (let cutoff = now - m_ttl m in
      m\<lparr>m_acks := filter (\<lambda>(i, a). \<not> expired cutoff a) (m_acks m),
        m_pending_gauge := m_pending_gauge m
          - int (length (filter (\<lambda>(i, a). expired cutoff a \<and> a_status a = StatusPending) (m_acks m)))\<rparr>)"

section \<open>The interface\<close>

locale ack_ledger =
  fixes inv :: "'m \<Rightarrow> bool" and status :: "'m \<Rightarrow> string \<Rightarrow> status option"
    and drift :: "'m \<Rightarrow> int"
    and create :: "string \<Rightarrow> time \<Rightarrow> string list \<Rightarrow> 'm \<Rightarrow> 'm"
    and complete :: "time \<Rightarrow> string \<Rightarrow> 'm \<Rightarrow> 'm" and fail :: "time \<Rightarrow> string \<Rightarrow> 'm \<Rightarrow> 'm"
    and expire :: "time \<Rightarrow> 'm \<Rightarrow> 'm"
  assumes keeps_inv: "inv m \<Longrightarrow> inv (create i now es m)" "inv m \<Longrightarrow> inv (complete now i m)"
      "inv m \<Longrightarrow> inv (fail now i m)" "inv m \<Longrightarrow> inv (expire now m)"
    and create_status: "status (create i now es m) = (status m)(i \<mapsto> StatusPending)"
    and create_drift: "inv m \<Longrightarrow> status m i = None \<Longrightarrow> drift (create i now es m) = drift m"
    and settle_status: "status m i = Some s \<Longrightarrow>
        status (complete now i m) = (status m)(i \<mapsto> StatusSuccess)
        \<and> status (fail now i m) = (status m)(i \<mapsto> StatusFailed)"
    and settle_drift: "inv m \<Longrightarrow> status m i = Some s \<Longrightarrow>
        drift (complete now i m) = drift m - (if s = StatusPending then 0 else 1)
        \<and> drift (fail now i m) = drift m - (if s = StatusPending then 0 else 1)"
    and settle_unknown: "status m i = None \<Longrightarrow> complete now i m = m \<and> fail now i m = m"
    and expire_status: "inv m \<Longrightarrow> status (expire now m) i = Some s \<Longrightarrow> status m i = Some s"
    and expire_drift: "inv m \<Longrightarrow> drift (expire now m) = drift m"
begin

definition owed :: "'m \<Rightarrow> string set \<Rightarrow> bool" where
  \<comment> \<open>the gauge is right, and the acknowledgements still to be settled are pending or gone\<close>
  "owed m A \<longleftrightarrow> inv m \<and> drift m = 0 \<and> (\<forall>i\<in>A. status m i \<in> {None, Some StatusPending})"

lemma owed_create:
  "owed m A \<Longrightarrow> status m i = None \<Longrightarrow> owed (create i now es m) (insert i A)"
  unfolding owed_def using create_status [of i now es m] create_drift [of m i now es] keeps_inv(1) by auto

lemma owed_settle:
  assumes "owed m A" and "i \<in> A"
  shows "owed (complete now i m) (A - {i}) \<and> owed (fail now i m) (A - {i})"
proof (cases "status m i")
  case None
  from settle_unknown [OF this, of now] assms show ?thesis by (simp add: owed_def)
next
  case (Some s)
  with assms have s: "s = StatusPending" by (auto simp: owed_def)
  from assms(1) have "inv m" by (simp add: owed_def)
  from settle_drift [OF this Some, of now] settle_status [OF Some, of now] assms s keeps_inv(2,3) [OF \<open>inv m\<close>]
  show ?thesis by (auto simp: owed_def)
qed

lemma owed_expire:
  assumes "owed m A"
  shows "owed (expire now m) A"
proof -
  from assms have m: "inv m" "drift m = 0" by (simp_all add: owed_def)
  have "status (expire now m) i \<in> {None, Some StatusPending}" if "i \<in> A" for i
    using expire_status [OF m(1), of now i] assms that
    by (cases "status (expire now m) i") (auto simp: owed_def)
  with m expire_drift [OF m(1)] keeps_inv(4) [OF m(1)] show ?thesis by (simp add: owed_def)
qed

lemma settle_twice:
  assumes "owed m {i}" and "status m i = Some StatusPending"
  shows "drift (complete now' i (complete now i m)) = - 1"
    and "drift (fail now' i (complete now i m)) = - 1"
proof -
  from assms(1) have m: "inv m" "drift m = 0" by (simp_all add: owed_def)
  have s: "status (complete now i m) i = Some StatusSuccess"
    using settle_status [OF assms(2), of now] by simp
  have d: "drift (complete now i m) = 0" using settle_drift [OF m(1) assms(2), of now] m(2) by simp
  show "drift (complete now' i (complete now i m)) = - 1"
    "drift (fail now' i (complete now i m)) = - 1"
    using settle_drift [OF keeps_inv(2) [OF m(1)] s, of now'] d by simp_all
qed

end

section \<open>The manager keeps its ledger\<close>

definition ack_status :: "manager \<Rightarrow> string \<Rightarrow> status option" where
  "ack_status m i = map_option a_status (map_of (m_acks m) i)"

definition manager_ok :: "manager \<Rightarrow> bool" where
  "manager_ok m \<longleftrightarrow> distinct (map fst (m_acks m))"

definition gauge_drift :: "manager \<Rightarrow> int" where
  "gauge_drift m = m_pending_gauge m - int (GetPending m)"

abbreviation pendings :: "(string \<times> ack) list \<Rightarrow> nat" where
  "pendings xs \<equiv> length (filter (\<lambda>(i, a). a_status a = StatusPending) xs)"

lemma pendings_put_new:
  "map_of xs i = None \<Longrightarrow>
     pendings (map_put i a xs) = pendings xs + (if a_status a = StatusPending then 1 else 0)"
  unfolding map_put_def by (induction xs) (auto split: if_splits)

lemma pendings_put_old:
  "distinct (map fst xs) \<Longrightarrow> map_of xs i = Some b \<Longrightarrow>
     pendings (map_put i a xs) + (if a_status b = StatusPending then 1 else 0)
       = pendings xs + (if a_status a = StatusPending then 1 else 0)"
  unfolding map_put_def
proof (induction xs)
  case Nil
  then show ?case by simp
next
  case (Cons x xs)
  show ?case
  proof (cases "fst x = i")
    case True
    with Cons.prems show ?thesis by (cases x) auto
  next
    case False
    with Cons.prems have "map_of xs i = Some b" "distinct (map fst xs)" by (cases x; simp)+
    from Cons.IH [OF this(2,1)] False show ?thesis by (cases x) (auto split: if_splits)
  qed
qed

lemma pendings_expired:
  "pendings (filter (\<lambda>(i, a). \<not> expired c a) xs)
     + length (filter (\<lambda>(i, a). expired c a \<and> a_status a = StatusPending) xs) = pendings xs"
  by (induction xs) auto

interpretation ledger: ack_ledger manager_ok ack_status gauge_drift ack_Create ack_Complete ack_Fail
  cleanup
proof (unfold_locales, goal_cases)
  case (1 m i now es)
  then show ?case by (simp add: manager_ok_def ack_Create_def distinct_map_put)
next
  case (2 m now i)
  then show ?case by (simp add: manager_ok_def ack_Complete_def distinct_map_put split: option.split)
next
  case (3 m now i)
  then show ?case by (simp add: manager_ok_def ack_Fail_def distinct_map_put split: option.split)
next
  case (4 m now)
  then show ?case by (simp add: manager_ok_def cleanup_def Let_def distinct_map_filter)
next
  case (5 i now es m)
  show ?case by (auto simp: ack_status_def ack_Create_def fun_eq_iff)
next
  case (6 m i now es)
  then show ?case by (simp add: ack_status_def gauge_drift_def GetPending_def ack_Create_def pendings_put_new)
next
  case (7 m i s now)
  then show ?case
    by (auto simp: ack_status_def ack_Complete_def ack_Fail_def fun_eq_iff split: option.splits)
next
  case (8 m i s now)
  then obtain b where b: "map_of (m_acks m) i = Some b" "a_status b = s" "distinct (map fst (m_acks m))"
    by (auto simp: ack_status_def manager_ok_def)
  have
    "int (pendings (map_put i a (m_acks m))) =
       int (pendings (m_acks m)) + (if a_status a = StatusPending then 1 else 0)
       - (if s = StatusPending then 1 else 0)" for a
    using pendings_put_old [OF b(3,1), of a] b(2) by (auto split: if_splits)
  with b show ?case
    by (simp add: gauge_drift_def GetPending_def ack_Complete_def ack_Fail_def)
next
  case (9 m i now)
  then show ?case by (simp add: ack_status_def ack_Complete_def ack_Fail_def)
next
  case (10 m now i s)
  then show ?case
    by (auto simp: ack_status_def cleanup_def Let_def manager_ok_def distinct_map_filter
        dest!: map_of_SomeD intro!: map_of_is_SomeI)
next
  case (11 m now)
  show ?case
    using arg_cong [OF pendings_expired [of "now - m_ttl m" "m_acks m"], of int]
    by (simp add: gauge_drift_def GetPending_def cleanup_def Let_def)
qed

lemma Query_status:
  "map_of (ack_Query ids m) i = (if i \<in> set ids then map_option (\<lambda>s. s = StatusSuccess) (ack_status m i) else None)"
proof -
  have "map_of (fold (\<lambda>j result. case map_of (m_acks m) j of None \<Rightarrow> result
                         | Some a \<Rightarrow> map_put j (a_status a = StatusSuccess) result) ids r) i
      = (if i \<in> set ids \<and> ack_status m i \<noteq> None
         then map_option (\<lambda>s. s = StatusSuccess) (ack_status m i) else map_of r i)" for r
    by (induction ids arbitrary: r) (auto simp: ack_status_def split: option.splits)
  from this [of "[]"] show ?thesis by (auto simp: ack_Query_def)
qed

end
