(* ===== verification/TokenCache.thy ===== *)
theory TokenCache
  imports Prelude
begin

text \<open>
  The ingest service's client of the authenticate service (\<^verbatim>\<open>ingest/internal/authclient\<close>): a bounded
  cache of the answers about ingestion tokens, in front of an HTTP request. The exchange with the
  service, from building the request to decoding its answer, is the argument \<open>remote\<close>; a map is an
  association list, and the entry a \<open>range\<close> visits first is its head.
\<close>

record token_response =
  tr_valid :: bool
  tr_token_id :: string
  tr_token_name :: string
  tr_user_id :: string
  tr_client_id :: string

record cache_entry =
  ce_valid :: bool
  ce_token_info :: token_response
  ce_expires_at :: time

record token_cache =
  tc_entries :: "(string \<times> cache_entry) list"
  tc_ttl :: int
  tc_max_size :: nat

definition newTokenCache :: "int \<Rightarrow> nat \<Rightarrow> token_cache" where
  "newTokenCache ttl maxSize = \<lparr>tc_entries = [], tc_ttl = ttl, tc_max_size = maxSize\<rparr>"

definition new_client :: "int \<Rightarrow> token_cache" where
  \<comment> \<open>\<open>New\<close>\<close>
  "new_client cacheTTL = newTokenCache cacheTTL 10000"

definition cache_get :: "time \<Rightarrow> string \<Rightarrow> token_cache \<Rightarrow> token_response option" where
  "cache_get now token tc =
     (case map_of (tc_entries tc) token of
        None \<Rightarrow> None
      | Some entry \<Rightarrow> if ce_expires_at entry < now then None else Some (ce_token_info entry))"

definition cache_set :: "time \<Rightarrow> string \<Rightarrow> token_response \<Rightarrow> token_cache \<Rightarrow> token_cache" where
  "cache_set now token info tc =
     (let entries = (if tc_max_size tc \<le> length (tc_entries tc)
                     then (case tc_entries tc of [] \<Rightarrow> [] | (k, _) # _ \<Rightarrow> AList.delete k (tc_entries tc))
                     else tc_entries tc) in
      tc\<lparr>tc_entries := map_put token
           \<lparr>ce_valid = tr_valid info, ce_token_info = info, ce_expires_at = now + tc_ttl tc\<rparr> entries\<rparr>)"

definition cache_cleanup :: "time \<Rightarrow> token_cache \<Rightarrow> token_cache" where
  "cache_cleanup now tc =
     tc\<lparr>tc_entries := filter (\<lambda>(token, entry). \<not> ce_expires_at entry < now) (tc_entries tc)\<rparr>"

definition client_ValidateHECToken ::
  "(string \<Rightarrow> 'e + token_response) \<Rightarrow> time \<Rightarrow> time \<Rightarrow> string \<Rightarrow> token_cache \<Rightarrow>
     ('e + token_response) \<times> token_cache" where
  \<comment> \<open>the clock is read at the lookup and when the answer is stored\<close>
  "client_ValidateHECToken remote now1 now2 token tc =
     (case cache_get now1 token tc of
        Some cached \<Rightarrow> (Inr cached, tc)
      | None \<Rightarrow>
          (case remote token of
             Inl err \<Rightarrow> (Inl err, tc)
           | Inr result \<Rightarrow> (Inr result, cache_set now2 token result tc)))"

section \<open>Laws\<close>

definition cache_ok :: "token_cache \<Rightarrow> bool" where
  "cache_ok tc \<longleftrightarrow> distinct (map fst (tc_entries tc)) \<and> length (tc_entries tc) \<le> tc_max_size tc"

lemma length_map_put: "length (map_put k v m) \<le> Suc (length m)"
  unfolding map_put_def by (induction m) auto

lemma delete_head: "distinct (map fst ((k, v) # m)) \<Longrightarrow> AList.delete k ((k, v) # m) = m"
  by (simp add: delete_id)

lemma cache_ok_set:
  assumes "cache_ok tc" and "0 < tc_max_size tc"
  shows "cache_ok (cache_set now token info tc)"
proof -
  let ?e = "tc_entries tc"
  let ?e' = "if tc_max_size tc \<le> length ?e
    then (case ?e of [] \<Rightarrow> [] | (k, _) # _ \<Rightarrow> AList.delete k ?e) else ?e"
  have "?e' = (if tc_max_size tc \<le> length ?e then tl ?e else ?e)"
  proof (cases ?e)
    case Nil
    then show ?thesis by simp
  next
    case (Cons x xs)
    with assms(1) have "AList.delete (fst x) ?e = xs"
      using delete_head [of "fst x" "snd x" xs] by (simp add: cache_ok_def)
    with Cons show ?thesis by (cases x) simp
  qed
  with assms have e': "distinct (map fst ?e')" "length ?e' < tc_max_size tc"
    by (auto simp: cache_ok_def map_tl distinct_tl)
  from e'(2) length_map_put [of token _ ?e'] have "length (map_put token v ?e') \<le> tc_max_size tc" for v
    by (meson Suc_leI le_trans)
  with e'(1) show ?thesis by (simp add: cache_ok_def cache_set_def Let_def distinct_map_put)
qed

lemma cache_ok_cleanup: "cache_ok tc \<Longrightarrow> cache_ok (cache_cleanup now tc)"
  unfolding cache_ok_def cache_cleanup_def
  by (auto simp: distinct_map_filter intro: le_trans [OF length_filter_le])

lemma client_frame: "tc_max_size (snd (client_ValidateHECToken remote n1 n2 tok tc)) = tc_max_size tc"
  by (simp add: client_ValidateHECToken_def cache_set_def Let_def split: option.split sum.split)

lemma cache_ok_client:
  "cache_ok tc \<Longrightarrow> 0 < tc_max_size tc \<Longrightarrow> cache_ok (snd (client_ValidateHECToken remote n1 n2 tok tc))"
  by (simp add: client_ValidateHECToken_def cache_ok_set split: option.split sum.split)

section \<open>Properties\<close>

text \<open>An answer about a token is used for as long as the cache's time to live, and not longer: once
  the service has answered at time \<open>t\<close>, every request until \<open>t + ttl\<close> gets that answer, whatever the
  service would say by then, so a revoked token is still accepted; later ones ask the service
  again. The cache never exceeds its size.\<close>

lemma cached_answer_window:
  assumes "cache_ok tc" and "0 < tc_max_size tc" and "cache_get n1 token tc = None"
    and "remote token = Inr answer" and "client_ValidateHECToken remote n1 t token tc = (Inr answer, tc')"
  shows "cache_ok tc' \<and> fst (client_ValidateHECToken remote' now n2 token tc') =
    (if now \<le> t + tc_ttl tc then Inr answer else remote' token)"
proof -
  from assms(3-5) have tc': "tc' = cache_set t token answer tc"
    by (simp add: client_ValidateHECToken_def)
  have "cache_get now token tc' = (if now \<le> t + tc_ttl tc then Some answer else None)"
    by (simp add: tc' cache_set_def cache_get_def Let_def)
  with cache_ok_set [OF assms(1,2), of t token answer] show ?thesis
    by (simp add: client_ValidateHECToken_def tc' split: sum.split)
qed

end
