(* ===== verification/Ingest.thy ===== *)
theory Ingest
  imports Ack Pipeline TokenCache
begin

text \<open>
  The ingest service (\<^verbatim>\<open>ingest/internal/service/ingest_service.go\<close>): the bounded event queue between
  the HTTP handlers and the event processor, and the acknowledgement of each event. The handlers
  call \<open>IngestEvent\<close> and \<open>IngestRaw\<close>; the processor is a goroutine of its own, whose round is two
  steps, \<open>take_event\<close> (receive from the channel) and \<open>finish_event\<close> (normalize, store, settle the
  acknowledgement), so that requests and the manager's clean-up interleave with it.

  The environment \<open>ingest_env\<close> holds the identifiers, the clock, JSON, the pipeline, the storage
  client (\<open>None\<close> when there is none) and the auth client; what differs from call to call is a
  function of the counter of its reads. Of the metrics the model keeps those of the manager.
\<close>

section \<open>State\<close>

record hec_event =
  he_time :: "(int \<times> int) option"     \<comment> \<open>a \<open>*float64\<close>\<close>
  he_host :: string
  he_source :: string
  he_source_type :: string
  he_index :: string
  he_event :: gval
  he_fields :: "(string \<times> gval) list"

record token_info =
  ti_token_id :: string
  ti_user_id :: string
  ti_client_id :: string

record ingest_event =
  ie_id :: string
  ie_timestamp :: time
  ie_host :: string
  ie_source :: string
  ie_source_type :: string
  ie_source_ip :: string
  ie_index :: string
  ie_event :: gval
  ie_fields :: "(string \<times> gval) list"
  ie_raw :: string
  ie_hec_token_id :: string
  ie_client_id :: string
  ie_signature :: string
  ie_ack_id :: string

record ingestion_stats =
  st_total_events :: int
  st_total_bytes :: int
  st_successful_events :: int
  st_failed_events :: int
  st_last_event :: time

record storage_response =
  sr_indexed :: int
  sr_failed :: int

datatype ingest_error =
    MarshalFailed
  | QueueFull
  | NormalizationFailed pipeline_error
  | ConversionFailed
  | StorageFailed
  | StorageNilResponse
  | StorageReported int
  | AuthClientNotConfigured
  | TokenValidationFailed
  | InvalidHECToken

record ingest_env =
  ig_uuid :: "nat \<Rightarrow> string"
  ig_now :: "nat \<Rightarrow> time"
  ig_marshal :: "hec_event \<Rightarrow> string option"                      \<comment> \<open>\<open>json.Marshal(event)\<close>\<close>
  ig_event_map :: "ocsf_event \<Rightarrow> (string \<times> gval) list option"       \<comment> \<open>marshal and unmarshal\<close>
  ig_pipeline :: "pipeline option"
  ig_storage :: "(nat \<Rightarrow> (string \<times> gval) list \<Rightarrow> storage_response option option) option"
    \<comment> \<open>\<open>storageClient.Ingest\<close> of one event: None its error, \<open>Some None\<close> a nil response\<close>
  ig_dlq :: bool                                                  \<comment> \<open>a dead-letter queue is configured\<close>

record ingest =
  is_queue :: "ingest_event list"
  is_in_flight :: "ingest_event option"   \<comment> \<open>what the processor has taken from the channel\<close>
  is_acks :: "manager option"
  is_stats :: ingestion_stats
  is_dead_letters :: "(raw_envelope \<times> pipeline_error) list"
  is_stored :: "(string \<times> (string \<times> gval) list) list"   \<comment> \<open>event ids and maps the storage accepted\<close>
  is_tick :: nat

definition queueCap :: nat where "queueCap = 10000"

definition NewIngestService :: "time \<Rightarrow> manager option \<Rightarrow> ingest" where
  \<comment> \<open>with \<open>SetAckManager\<close>\<close>
  "NewIngestService now manager =
     \<lparr>is_queue = [], is_in_flight = None, is_acks = manager,
      is_stats = \<lparr>st_total_events = 0, st_total_bytes = 0, st_successful_events = 0,
                  st_failed_events = 0, st_last_event = now\<rparr>,
      is_dead_letters = [], is_stored = [], is_tick = 0\<rparr>"

definition itick :: "ingest \<Rightarrow> ingest" where
  "itick st = st\<lparr>is_tick := is_tick st + 1\<rparr>"

section \<open>Accepting events\<close>

definition determineSourceType :: "gval \<Rightarrow> string" where
  "determineSourceType event =
     (case as_obj event of
        None \<Rightarrow> ''ocsf:generic''
      | Some eventMap \<Rightarrow>
          (case map_of eventMap ''class_uid'' of
             None \<Rightarrow> ''ocsf:generic''
           | Some v \<Rightarrow>
               (let by_class = (\<lambda>uid :: int.
                  if uid \<in> {3001, 3002, 3003, 3004, 3005, 3006} then ''ocsf:iam''
                  else if uid \<in> {4001, 4002, 4003, 4004, 4005, 4006, 4007, 4008, 4009, 4010, 4011, 4012}
                  then ''ocsf:network''
                  else if uid \<in> {1001, 1002, 1003, 1004, 1005, 1006, 1007} then ''ocsf:system''
                  else if uid \<in> {2001, 2002, 2003, 2004} then ''ocsf:findings''
                  else if uid \<in> {5001, 5002, 5003} then ''ocsf:discovery''
                  else if uid \<in> {6001, 6002, 6003, 6004} then ''ocsf:application''
                  else ''ocsf:generic'') in
                case v of
                  GFloat m e \<Rightarrow> by_class (float_to_int m e)
                | GInt i \<Rightarrow> by_class i
                | _ \<Rightarrow> ''ocsf:generic'')))"

definition parseTime :: "time \<Rightarrow> (int \<times> int) option \<Rightarrow> time" where
  "parseTime now t = (case t of None \<Rightarrow> now | Some (m, e) \<Rightarrow> unix_of_float m e)"

definition getIndex :: "string \<Rightarrow> string" where
  "getIndex index = (if index = [] then ''main'' else index)"

definition updateStats :: "time \<Rightarrow> nat \<Rightarrow> bool \<Rightarrow> ingestion_stats \<Rightarrow> ingestion_stats" where
  "updateStats now bytes success s =
     (let s1 = s\<lparr>st_total_events := st_total_events s + 1,
                 st_total_bytes := st_total_bytes s + int bytes, st_last_event := now\<rparr> in
      if success then s1\<lparr>st_successful_events := st_successful_events s1 + 1\<rparr>
      else s1\<lparr>st_failed_events := st_failed_events s1 + 1\<rparr>)"

definition create_ack :: "ingest_env \<Rightarrow> ingest_event \<Rightarrow> ingest \<Rightarrow> ingest_event \<times> ingest" where
  "create_ack env ev st =
     (case is_acks st of
        None \<Rightarrow> (ev, st)
      | Some m \<Rightarrow>
          (let ackID = ig_uuid env (is_tick st); st1 = itick st in
           (ev\<lparr>ie_ack_id := ackID\<rparr>,
            (itick st1)\<lparr>is_acks := Some (ack_Create ackID (ig_now env (is_tick st1)) [ie_id ev] m)\<rparr>)))"

definition fail_ack :: "ingest_env \<Rightarrow> string \<Rightarrow> ingest \<Rightarrow> ingest" where
  \<comment> \<open>\<open>if s.ackManager != nil && ackID != "" { s.ackManager.Fail(ackID) }\<close>\<close>
  "fail_ack env ackID st =
     (case is_acks st of
        Some m \<Rightarrow> if ackID \<noteq> [] then (itick st)\<lparr>is_acks := Some (ack_Fail (ig_now env (is_tick st)) ackID m)\<rparr>
                  else st
      | None \<Rightarrow> st)"

definition complete_ack :: "ingest_env \<Rightarrow> string \<Rightarrow> ingest \<Rightarrow> ingest" where
  "complete_ack env ackID st =
     (case is_acks st of
        Some m \<Rightarrow> if ackID \<noteq> [] then (itick st)\<lparr>is_acks := Some (ack_Complete (ig_now env (is_tick st)) ackID m)\<rparr>
                  else st
      | None \<Rightarrow> st)"

definition count_event :: "ingest_env \<Rightarrow> nat \<Rightarrow> bool \<Rightarrow> ingest \<Rightarrow> ingest" where
  "count_event env bytes success st =
     (itick st)\<lparr>is_stats := updateStats (ig_now env (is_tick st)) bytes success (is_stats st)\<rparr>"

definition enqueue ::
  \<comment> \<open>the second half of \<open>IngestEvent\<close> and \<open>IngestRaw\<close>: the acknowledgement, and the \<open>select\<close> on the
      channel, whose default is taken when the buffer is full\<close>
  "ingest_env \<Rightarrow> nat \<Rightarrow> ingest_event \<Rightarrow> ingest \<Rightarrow> (ingest_error + string) \<times> ingest" where
  "enqueue env bytes ev st =
     (let (ev1, st1) = create_ack env ev st in
      if length (is_queue st1) < queueCap then
        (Inr (ie_ack_id ev1), count_event env bytes True (st1\<lparr>is_queue := is_queue st1 @ [ev1]\<rparr>))
      else
        (Inl QueueFull, count_event env 0 False (fail_ack env (ie_ack_id ev1) st1)))"

definition token_ids :: "token_info option \<Rightarrow> string \<times> string" where
  "token_ids t = (case t of None \<Rightarrow> ([], []) | Some i \<Rightarrow> (ti_token_id i, ti_client_id i))"

definition IngestEvent ::
  "ingest_env \<Rightarrow> hec_event \<Rightarrow> string \<Rightarrow> token_info option \<Rightarrow> ingest \<Rightarrow> (ingest_error + string) \<times> ingest"
where
  "IngestEvent env event sourceIP tokenInfo st =
     (let sourceType = (if he_source_type event = [] then determineSourceType (he_event event)
                        else he_source_type event);
          (hecTokenID, clientID) = token_ids tokenInfo;
          eventID = ig_uuid env (is_tick st); st1 = itick st;
          timestamp = parseTime (ig_now env (is_tick st1)) (he_time event); st2 = itick st1 in
      case ig_marshal env event of
        None \<Rightarrow> (Inl MarshalFailed, st2)
      | Some raw \<Rightarrow>
          (let internalEvent =
             \<lparr>ie_id = eventID, ie_timestamp = timestamp, ie_host = he_host event,
              ie_source = he_source event, ie_source_type = sourceType, ie_source_ip = sourceIP,
              ie_index = getIndex (he_index event), ie_event = he_event event,
              ie_fields = he_fields event, ie_raw = raw, ie_hec_token_id = hecTokenID,
              ie_client_id = clientID, ie_signature = ig_uuid env (is_tick st2), ie_ack_id = []\<rparr>
           in enqueue env (length raw) internalEvent (itick st2)))"

definition IngestRaw ::
  "ingest_env \<Rightarrow> string \<Rightarrow> string \<Rightarrow> token_info option \<Rightarrow> string \<Rightarrow> string \<Rightarrow> string \<Rightarrow> ingest \<Rightarrow>
     (ingest_error + string) \<times> ingest"
where
  "IngestRaw env data sourceIP tokenInfo source sourceType host st =
     (let (hecTokenID, clientID) = token_ids tokenInfo;
          eventID = ig_uuid env (is_tick st); st1 = itick st;
          timestamp = ig_now env (is_tick st1); st2 = itick st1;
          event =
            \<lparr>ie_id = eventID, ie_timestamp = timestamp, ie_host = host, ie_source = source,
             ie_source_type = sourceType, ie_source_ip = sourceIP, ie_index = ''main'',
             ie_event = GStr data, ie_fields = [], ie_raw = data, ie_hec_token_id = hecTokenID,
             ie_client_id = clientID, ie_signature = ig_uuid env (is_tick st2), ie_ack_id = []\<rparr>
      in enqueue env (length data) event (itick st2))"

section \<open>Processing events\<close>

definition eventToMap :: "ingest_event \<Rightarrow> (string \<times> gval) list" where
  \<comment> \<open>the timestamp stays a \<open>time.Time\<close> value in the map; here its nanoseconds\<close>
  "eventToMap ev =
     [(''id'', GStr (ie_id ev)), (''timestamp'', GInt (ie_timestamp ev)), (''host'', GStr (ie_host ev)),
      (''source'', GStr (ie_source ev)), (''sourcetype'', GStr (ie_source_type ev)),
      (''ingest_source_ip'', GStr (ie_source_ip ev)), (''index'', GStr (ie_index ev)),
      (''event'', ie_event ev), (''fields'', GObj (ie_fields ev)),
      (''hec_token_id'', GStr (ie_hec_token_id ev)), (''client_id'', GStr (ie_client_id ev)),
      (''signature'', GStr (ie_signature ev))]"

definition envelope_of :: "ingest_event \<Rightarrow> raw_envelope" where
  "envelope_of ev =
     \<lparr>en_id = ie_id ev, en_source = ie_source ev, en_source_type = ie_source_type ev,
      en_format = ''json'', en_payload = ie_raw ev,
      en_attributes = [(''host'', ie_host ev), (''index'', ie_index ev), (''source_ip'', ie_source_ip ev)],
      en_received_at = ie_timestamp ev\<rparr>"

definition put_nonempty :: "string \<Rightarrow> string \<Rightarrow> (string \<times> gval) list \<Rightarrow> (string \<times> gval) list" where
  \<comment> \<open>\<open>if x != "" { eventMap[k] = x }\<close>\<close>
  "put_nonempty k x m = (if x \<noteq> [] then map_put k (GStr x) m else m)"

definition normalizeEvent ::
  "ingest_env \<Rightarrow> ingest_event \<Rightarrow> ingest \<Rightarrow> (ingest_error + (string \<times> gval) list) \<times> ingest" where
  "normalizeEvent env ev st =
     (case ig_pipeline env of
        None \<Rightarrow> (Inr (eventToMap ev), st)
      | Some pl \<Rightarrow>
          (let envelope = envelope_of ev in
           case Process (Some pl) envelope of
             Inl err \<Rightarrow>
               (Inl (NormalizationFailed err),
                if ig_dlq env then st\<lparr>is_dead_letters := is_dead_letters st @ [(envelope, err)]\<rparr> else st)
           | Inr normalizedEvent \<Rightarrow>
               (case ig_event_map env normalizedEvent of
                  None \<Rightarrow> (Inl ConversionFailed, st)
                | Some eventMap \<Rightarrow>
                    (Inr (put_nonempty ''ingest_source_ip'' (ie_source_ip ev)
                       (put_nonempty ''hec_token_id'' (ie_hec_token_id ev)
                         (put_nonempty ''client_id'' (ie_client_id ev) eventMap))), st))))"

definition forwardToStorage ::
  "ingest_env \<Rightarrow> string \<Rightarrow> (string \<times> gval) list \<Rightarrow> ingest \<Rightarrow> ingest_error option \<times> ingest" where
  \<comment> \<open>\<open>eventID\<close> only labels the record of what was stored\<close>
  "forwardToStorage env eventID event st =
     (case ig_storage env of
        None \<Rightarrow> (None, st)
      | Some ingest_events \<Rightarrow>
          (case ingest_events (is_tick st) event of
             None \<Rightarrow> (Some StorageFailed, itick st)
           | Some None \<Rightarrow> (Some StorageNilResponse, itick st)
           | Some (Some resp) \<Rightarrow>
               if 0 < sr_failed resp then (Some (StorageReported (sr_failed resp)), itick st)
               else (None, (itick st)\<lparr>is_stored := is_stored st @ [(eventID, event)]\<rparr>)))"

definition take_event :: "ingest \<Rightarrow> ingest" where
  "take_event st =
     (case (is_in_flight st, is_queue st) of
        (None, ev # evs) \<Rightarrow> st\<lparr>is_queue := evs, is_in_flight := Some ev\<rparr>
      | _ \<Rightarrow> st)"

definition finish_event :: "ingest_env \<Rightarrow> ingest \<Rightarrow> ingest" where
  "finish_event env st =
     (case is_in_flight st of
        None \<Rightarrow> st
      | Some ev \<Rightarrow>
          (let idle = st\<lparr>is_in_flight := None\<rparr> in
           case normalizeEvent env ev idle of
             (Inl _, st1) \<Rightarrow> fail_ack env (ie_ack_id ev) st1
           | (Inr m, st1) \<Rightarrow>
               (case forwardToStorage env (ie_id ev) m st1 of
                  (Some _, st2) \<Rightarrow> fail_ack env (ie_ack_id ev) st2
                | (None, st2) \<Rightarrow> complete_ack env (ie_ack_id ev) st2)))"

definition cleanup_acks :: "ingest_env \<Rightarrow> ingest \<Rightarrow> ingest" where
  \<comment> \<open>a tick of the manager's clean-up loop\<close>
  "cleanup_acks env st =
     (case is_acks st of
        None \<Rightarrow> st
      | Some m \<Rightarrow> (itick st)\<lparr>is_acks := Some (cleanup (ig_now env (is_tick st)) m)\<rparr>)"

definition GetStats :: "ingest \<Rightarrow> ingestion_stats" where
  "GetStats st = is_stats st"

definition QueryAcks :: "string list \<Rightarrow> ingest \<Rightarrow> (string \<times> bool) list" where
  "QueryAcks ackIDs st = (case is_acks st of None \<Rightarrow> [] | Some m \<Rightarrow> ack_Query ackIDs m)"

definition ingest_ValidateHECToken ::
  "(string \<Rightarrow> 'e + token_response) option \<Rightarrow> string \<Rightarrow> ingest_error + token_info" where
  \<comment> \<open>the argument is the auth client's method, \<open>None\<close> when there is no client\<close>
  "ingest_ValidateHECToken authClient token =
     (case authClient of
        None \<Rightarrow> Inl AuthClientNotConfigured
      | Some validate \<Rightarrow>
          (case validate token of
             Inl _ \<Rightarrow> Inl TokenValidationFailed
           | Inr resp \<Rightarrow>
               if \<not> tr_valid resp then Inl InvalidHECToken
               else Inr \<lparr>ti_token_id = tr_token_id resp, ti_user_id = tr_user_id resp,
                         ti_client_id = tr_client_id resp\<rparr>))"

inductive ingest_step :: "ingest_env \<Rightarrow> ingest \<Rightarrow> ingest \<Rightarrow> bool" for env where
  event: "ingest_step env st (snd (IngestEvent env hev ip tok st))"
| raw: "ingest_step env st (snd (IngestRaw env data ip tok src sty host st))"
| taken: "ingest_step env st (take_event st)"
| finished: "ingest_step env st (finish_event env st)"
| expiry: "ingest_step env st (cleanup_acks env st)"

inductive ingest_reachable :: "ingest_env \<Rightarrow> ingest \<Rightarrow> bool" for env where
  start: "ingest_reachable env (NewIngestService now (map_option NewManager ttl))"
| step: "ingest_reachable env st \<Longrightarrow> ingest_step env st st' \<Longrightarrow> ingest_reachable env st'"

end
