(* ===== verification/IngestLaws.thy ===== *)
theory IngestLaws
  imports Ingest
begin

text \<open>
  What the ingest service guarantees in every reachable state: the queue is bounded, the counters
  add up, the gauge of the acknowledgement manager counts what is pending, and an acknowledgement
  reported as a success was earned by an event the storage accepted. The invariant rests on the
  client lemmas of the locale \<open>ack_ledger\<close>, through its interpretation \<open>ledger\<close>.
\<close>

section \<open>The invariant\<close>

definition fresh_ids :: "ingest_env \<Rightarrow> bool" where
  \<comment> \<open>\<open>uuid.New\<close> never gives an identifier twice, and none is empty\<close>
  "fresh_ids env \<longleftrightarrow> inj (ig_uuid env) \<and> (\<forall>n. ig_uuid env n \<noteq> [])"

definition waiting :: "ingest \<Rightarrow> ingest_event list" where
  \<comment> \<open>accepted and not yet settled, oldest first\<close>
  "waiting st = (case is_in_flight st of None \<Rightarrow> [] | Some ev \<Rightarrow> [ev]) @ is_queue st"

definition drawn :: "ingest_env \<Rightarrow> nat \<Rightarrow> string \<Rightarrow> bool" where
  "drawn env n i \<longleftrightarrow> (\<exists>k < n. ig_uuid env k = i)"

definition acks_ok ::
  "ingest_env \<Rightarrow> nat \<Rightarrow> ingest_event list \<Rightarrow> string set \<Rightarrow> manager \<Rightarrow> bool" where
  "acks_ok env n evs stored m \<longleftrightarrow>
     ledger.owed m (ie_ack_id ` set evs) \<and> distinct (map ie_ack_id evs)
     \<and> (\<forall>i. ack_status m i \<noteq> None \<longrightarrow> drawn env n i)
     \<and> (\<forall>i. ack_status m i = Some StatusPending \<longrightarrow> i \<in> ie_ack_id ` set evs)
     \<and> (\<forall>ev \<in> set evs. ie_ack_id ev \<noteq> [] \<and> drawn env n (ie_ack_id ev)
          \<and> (\<forall>a. map_of (m_acks m) (ie_ack_id ev) = Some a \<longrightarrow> a_event_ids a = [ie_id ev]))
     \<and> (ig_storage env \<noteq> None \<longrightarrow>
          (\<forall>i a. map_of (m_acks m) i = Some a \<longrightarrow> a_status a = StatusSuccess \<longrightarrow>
             set (a_event_ids a) \<subseteq> stored))"

definition stored_ids :: "ingest \<Rightarrow> string set" where
  "stored_ids st = fst ` set (is_stored st)"

definition stats_ok :: "ingestion_stats \<Rightarrow> bool" where
  "stats_ok s \<longleftrightarrow> st_total_events s = st_successful_events s + st_failed_events s"

definition ingest_ok :: "ingest_env \<Rightarrow> ingest \<Rightarrow> bool" where
  "ingest_ok env st \<longleftrightarrow>
     length (is_queue st) \<le> queueCap \<and> stats_ok (is_stats st)
     \<and> (\<forall>m. is_acks st = Some m \<longrightarrow> acks_ok env (is_tick st) (waiting st) (stored_ids st) m)"

lemma drawn_mono: "drawn env n i \<Longrightarrow> n \<le> n' \<Longrightarrow> drawn env n' i"
  unfolding drawn_def using less_le_trans by blast

lemma drawn_fresh: "fresh_ids env \<Longrightarrow> \<not> drawn env n (ig_uuid env n)"
  by (auto simp: fresh_ids_def drawn_def dest: injD)

lemma acks_ok_mono:
  "acks_ok env n evs S m \<Longrightarrow> n \<le> n' \<Longrightarrow> S \<subseteq> S' \<Longrightarrow> acks_ok env n' evs S' m"
  unfolding acks_ok_def by (meson drawn_mono order_trans)

lemma acks_ok_create:
  assumes ok: "acks_ok env n evs S m" and fresh: "fresh_ids env"
  shows "acks_ok env (Suc n) (evs @ [ev\<lparr>ie_ack_id := ig_uuid env n\<rparr>]) S
    (ack_Create (ig_uuid env n) now [ie_id ev] m)"
proof -
  let ?i = "ig_uuid env n"
  have i: "ack_status m ?i = None" "?i \<notin> ie_ack_id ` set evs" "?i \<noteq> []"
    using ok drawn_fresh [OF fresh, of n] fresh by (auto simp: acks_ok_def fresh_ids_def)
  have "ledger.owed (ack_Create ?i now [ie_id ev] m) (insert ?i (ie_ack_id ` set evs))"
    using ok i(1) by (intro ledger.owed_create) (simp_all add: acks_ok_def)
  moreover have "drawn env (Suc n) ?i" by (auto simp: drawn_def)
  moreover have "drawn env (Suc n) j" if "drawn env n j" for j using that by (rule drawn_mono) simp
  ultimately show ?thesis
    using ok i by (auto simp: acks_ok_def ledger.create_status ack_Create_def ack_status_def image_iff)
qed

lemma acks_ok_settle:
  assumes ok: "acks_ok env n (evs1 @ ev # evs2) S m"
  shows "acks_ok env n (evs1 @ evs2) S (ack_Fail now (ie_ack_id ev) m)"
    and "ie_id ev \<in> S \<or> ig_storage env = None \<Longrightarrow>
      acks_ok env n (evs1 @ evs2) S (ack_Complete now (ie_ack_id ev) m)"
proof -
  let ?i = "ie_ack_id ev" and ?A = "ie_ack_id ` set (evs1 @ ev # evs2)"
  from ok have owed: "ledger.owed m ?A" by (simp add: acks_ok_def)
  from ok have new: "?i \<notin> ie_ack_id ` set (evs1 @ evs2)" by (auto simp: acks_ok_def)
  have "?A = insert ?i (ie_ack_id ` set (evs1 @ evs2))" by (simp add: image_Un)
  with new have eq: "ie_ack_id ` set (evs1 @ evs2) = ?A - {?i}" by (metis Diff_insert_absorb)
  have "?i \<in> ?A" by simp
  note settled = ledger.owed_settle [OF owed this]
  have owed': "ledger.owed (ack_Fail now ?i m) (ie_ack_id ` set (evs1 @ evs2))"
    "ledger.owed (ack_Complete now ?i m) (ie_ack_id ` set (evs1 @ evs2))"
    unfolding eq by (rule settled [THEN conjunct2], rule settled [THEN conjunct1])
  have others: "ie_ack_id e \<noteq> ?i" if "e \<in> set (evs1 @ evs2)" for e
    using new that by (metis imageI)
  show "acks_ok env n (evs1 @ evs2) S (ack_Fail now ?i m)"
    using ok owed'(1) others
    by (auto simp: acks_ok_def ack_Fail_def ack_status_def split: option.splits)
  show "acks_ok env n (evs1 @ evs2) S (ack_Complete now ?i m)" if "ie_id ev \<in> S \<or> ig_storage env = None"
    using ok owed'(2) others that
    by (auto simp: acks_ok_def ack_Complete_def ack_status_def split: option.splits)
qed

lemma acks_ok_cleanup:
  assumes "acks_ok env n evs S m"
  shows "acks_ok env n evs S (cleanup now m)"
proof -
  from assms have inv: "manager_ok m" by (simp add: acks_ok_def ledger.owed_def)
  have old: "map_of (m_acks m) i = Some a" if "map_of (m_acks (cleanup now m)) i = Some a" for i a
    using that inv
    by (auto simp: cleanup_def Let_def manager_ok_def distinct_map_filter
        dest!: map_of_SomeD intro!: map_of_is_SomeI)
  then have kept: "ack_status m i = Some s" if "ack_status (cleanup now m) i = Some s" for i s
    using that by (auto simp: ack_status_def)
  then have "ack_status m i \<noteq> None" if "ack_status (cleanup now m) i \<noteq> None" for i
    using that by (auto simp del: not_None_eq dest: iffD1 [OF not_None_eq])
  with old kept assms ledger.owed_expire [of m _ now] show ?thesis
    unfolding acks_ok_def by blast
qed

section \<open>Every step keeps it\<close>

lemma stats_ok_update [simp]: "stats_ok s \<Longrightarrow> stats_ok (updateStats now b ok s)"
  by (simp add: stats_ok_def updateStats_def Let_def)

lemma itick_simps [simp]:
  "is_queue (itick st) = is_queue st" "is_in_flight (itick st) = is_in_flight st"
  "is_acks (itick st) = is_acks st" "is_stats (itick st) = is_stats st"
  "is_stored (itick st) = is_stored st" "is_tick (itick st) = Suc (is_tick st)"
  "waiting (itick st) = waiting st" "stored_ids (itick st) = stored_ids st"
  by (simp_all add: itick_def waiting_def stored_ids_def)

lemma ingest_ok_itick [simp]: "ingest_ok env st \<Longrightarrow> ingest_ok env (itick st)"
  by (auto simp: ingest_ok_def intro: acks_ok_mono)

lemma count_event_simps [simp]:
  "is_queue (count_event env b ok st) = is_queue st" "is_acks (count_event env b ok st) = is_acks st"
  "waiting (count_event env b ok st) = waiting st" "stored_ids (count_event env b ok st) = stored_ids st"
  "is_tick (count_event env b ok st) = Suc (is_tick st)"
  "is_stats (count_event env b ok st) = updateStats (ig_now env (is_tick st)) b ok (is_stats st)"
  by (simp_all add: count_event_def waiting_def stored_ids_def itick_def)

lemma ingest_ok_count [simp]: "ingest_ok env st \<Longrightarrow> ingest_ok env (count_event env b ok st)"
  by (auto simp: ingest_ok_def intro: acks_ok_mono)

lemma ingest_ok_enqueue:
  assumes ok: "ingest_ok env st" and fresh: "fresh_ids env"
  shows "ingest_ok env (snd (enqueue env b ev st))"
proof (cases "is_acks st")
  case None
  with ok show ?thesis
    by (auto simp: enqueue_def create_ack_def fail_ack_def Let_def ingest_ok_def queueCap_def)
next
  case (Some m)
  let ?n = "is_tick st"
  let ?i = "ig_uuid env ?n"
  let ?m = "ack_Create ?i (ig_now env (Suc ?n)) [ie_id ev] m"
  let ?ev = "ev\<lparr>ie_ack_id := ?i\<rparr>"
  from ok Some have "acks_ok env ?n (waiting st) (stored_ids st) m" by (simp add: ingest_ok_def)
  from acks_ok_create [OF this fresh, of ev "ig_now env (Suc ?n)"]
  have created: "acks_ok env (Suc ?n) (waiting st @ [?ev]) (stored_ids st) ?m" .
  have i: "?i \<noteq> []" using fresh by (simp add: fresh_ids_def)
  show ?thesis
  proof (cases "length (is_queue st) < queueCap")
    case True
    let ?st = "snd (enqueue env b ev st)"
    from True Some have st: "is_queue ?st = is_queue st @ [?ev]" "waiting ?st = waiting st @ [?ev]"
      "is_acks ?st = Some ?m" "stored_ids ?st = stored_ids st" "Suc ?n \<le> is_tick ?st"
      "stats_ok (is_stats ?st)"
      using ok
      by (simp_all add: enqueue_def create_ack_def Let_def waiting_def stored_ids_def count_event_def
          itick_def ingest_ok_def)
    with created True acks_ok_mono [OF created st(5) order_refl] show ?thesis
      by (simp add: ingest_ok_def)
  next
    case False
    let ?st = "snd (enqueue env b ev st)"
    let ?m' = "ack_Fail (ig_now env (Suc (Suc ?n))) ?i ?m"
    from False Some i have st: "is_queue ?st = is_queue st" "waiting ?st = waiting st"
      "is_acks ?st = Some ?m'" "stored_ids ?st = stored_ids st" "Suc ?n \<le> is_tick ?st"
      "stats_ok (is_stats ?st)"
      using ok
      by (simp_all add: enqueue_def create_ack_def fail_ack_def Let_def waiting_def stored_ids_def
          count_event_def itick_def ingest_ok_def)
    from acks_ok_settle(1) [of env "Suc ?n" "waiting st" ?ev "[]", simplified] created
    have "acks_ok env (Suc ?n) (waiting st) (stored_ids st) ?m'" by simp
    from acks_ok_mono [OF this st(5) order_refl] st ok show ?thesis by (simp add: ingest_ok_def)
  qed
qed

lemma ingest_ok_IngestEvent:
  "ingest_ok env st \<Longrightarrow> fresh_ids env \<Longrightarrow> ingest_ok env (snd (IngestEvent env hev ip tok st))"
  by (simp add: IngestEvent_def Let_def case_prod_unfold ingest_ok_enqueue split: option.split)

lemma ingest_ok_IngestRaw:
  "ingest_ok env st \<Longrightarrow> fresh_ids env \<Longrightarrow> ingest_ok env (snd (IngestRaw env data ip tok src sty host st))"
  by (simp add: IngestRaw_def Let_def case_prod_unfold ingest_ok_enqueue)

lemma ingest_ok_take: "ingest_ok env st \<Longrightarrow> ingest_ok env (take_event st)"
  by (auto simp: take_event_def ingest_ok_def waiting_def stored_ids_def split: option.splits list.splits)

lemma ingest_ok_cleanup: "ingest_ok env st \<Longrightarrow> ingest_ok env (cleanup_acks env st)"
  by (auto simp: cleanup_acks_def ingest_ok_def waiting_def stored_ids_def itick_def
      intro!: acks_ok_mono [OF acks_ok_cleanup] split: option.splits)

lemma normalizeEvent_state [simp]:
  "is_queue (snd (normalizeEvent env ev st)) = is_queue st"
  "is_in_flight (snd (normalizeEvent env ev st)) = is_in_flight st"
  "is_acks (snd (normalizeEvent env ev st)) = is_acks st"
  "is_stats (snd (normalizeEvent env ev st)) = is_stats st"
  "is_stored (snd (normalizeEvent env ev st)) = is_stored st"
  "is_tick (snd (normalizeEvent env ev st)) = is_tick st"
  by (simp_all add: normalizeEvent_def Let_def split: option.split sum.split)

lemma forwardToStorage_state [simp]:
  "is_queue (snd (forwardToStorage env i m st)) = is_queue st"
  "is_in_flight (snd (forwardToStorage env i m st)) = is_in_flight st"
  "is_acks (snd (forwardToStorage env i m st)) = is_acks st"
  "is_stats (snd (forwardToStorage env i m st)) = is_stats st"
  by (simp_all add: forwardToStorage_def split: option.split)

lemma forwardToStorage_ids:
  "is_tick st \<le> is_tick (snd (forwardToStorage env i m st))"
  "stored_ids st \<subseteq> stored_ids (snd (forwardToStorage env i m st))"
  "fst (forwardToStorage env i m st) = None \<Longrightarrow>
     i \<in> stored_ids (snd (forwardToStorage env i m st)) \<or> ig_storage env = None"
  by (auto simp: forwardToStorage_def stored_ids_def split: option.splits if_splits)

text \<open>Settling the acknowledgement of the event in flight, in a state \<open>s\<close> that follows \<open>st\<close>.\<close>

lemma ingest_ok_settle:
  assumes ok: "ingest_ok env st" and flight: "is_in_flight st = Some ev"
    and s: "is_queue s = is_queue st" "is_in_flight s = None" "is_acks s = is_acks st"
      "is_stats s = is_stats st" "is_tick st \<le> is_tick s" "stored_ids st \<subseteq> stored_ids s"
  shows "ingest_ok env (fail_ack env (ie_ack_id ev) s)"
    and "ie_id ev \<in> stored_ids s \<or> ig_storage env = None \<Longrightarrow> ingest_ok env (complete_ack env (ie_ack_id ev) s)"
proof -
  have w: "waiting st = ev # is_queue st" "waiting s = is_queue st"
    using flight s by (simp_all add: waiting_def)
  have acks: "ie_ack_id ev \<noteq> [] \<and> acks_ok env (is_tick s) (ev # is_queue st) (stored_ids s) m"
    if "is_acks st = Some m" for m
  proof -
    from ok that w have a: "acks_ok env (is_tick st) (ev # is_queue st) (stored_ids st) m"
      by (simp add: ingest_ok_def)
    from acks_ok_mono [OF this s(5,6)] a show ?thesis by (simp add: acks_ok_def)
  qed
  have settle: "acks_ok env (Suc (is_tick s)) (is_queue st) (stored_ids s) (ack_Fail t (ie_ack_id ev) m)"
    "ie_id ev \<in> stored_ids s \<or> ig_storage env = None \<Longrightarrow>
       acks_ok env (Suc (is_tick s)) (is_queue st) (stored_ids s) (ack_Complete t (ie_ack_id ev) m)"
    if "is_acks st = Some m" for m t
    using acks_ok_settle [of env "is_tick s" "[]" ev "is_queue st" "stored_ids s" m t] acks [OF that]
    by (auto intro: acks_ok_mono)
  have upd: "waiting (s'\<lparr>is_acks := x\<rparr>) = waiting s'" "stored_ids (s'\<lparr>is_acks := x\<rparr>) = stored_ids s'" for s' x
    by (simp_all add: waiting_def stored_ids_def)
  show "ingest_ok env (fail_ack env (ie_ack_id ev) s)"
    using ok s w(2) acks settle(1)
    by (auto simp: ingest_ok_def fail_ack_def upd split: option.split)
  show "ingest_ok env (complete_ack env (ie_ack_id ev) s)"
    if "ie_id ev \<in> stored_ids s \<or> ig_storage env = None"
    using ok s w(2) acks settle(2) that
    by (auto simp: ingest_ok_def complete_ack_def upd split: option.split)
qed

lemma ingest_ok_finish:
  assumes ok: "ingest_ok env st"
  shows "ingest_ok env (finish_event env st)"
proof (cases "is_in_flight st")
  case None
  with ok show ?thesis by (simp add: finish_event_def)
next
  case flight: (Some ev)
  let ?st1 = "snd (normalizeEvent env ev (st\<lparr>is_in_flight := None\<rparr>))"
  have s1: "stored_ids ?st1 = stored_ids st" by (simp add: stored_ids_def)
  show ?thesis
  proof (cases "fst (normalizeEvent env ev (st\<lparr>is_in_flight := None\<rparr>))")
    case (Inl e)
    have "ingest_ok env (fail_ack env (ie_ack_id ev) ?st1)"
      by (rule ingest_ok_settle(1) [OF ok flight]) (simp_all add: s1)
    with flight Inl show ?thesis by (simp add: finish_event_def case_prod_unfold)
  next
    case (Inr m)
    let ?r = "forwardToStorage env (ie_id ev) m ?st1"
    note follows = forwardToStorage_ids(1) [of ?st1 env "ie_id ev" m]
      forwardToStorage_ids(2) [of ?st1 env "ie_id ev" m] forwardToStorage_ids(3) [of env "ie_id ev" m ?st1]
    have "ingest_ok env (case fst ?r of Some _ \<Rightarrow> fail_ack env (ie_ack_id ev) (snd ?r)
        | None \<Rightarrow> complete_ack env (ie_ack_id ev) (snd ?r))"
    proof (cases "fst ?r")
      case None
      have "ingest_ok env (complete_ack env (ie_ack_id ev) (snd ?r))"
        by (rule ingest_ok_settle(2) [OF ok flight]) (use follows s1 None in simp_all)
      with None show ?thesis by simp
    next
      case (Some e)
      have "ingest_ok env (fail_ack env (ie_ack_id ev) (snd ?r))"
        by (rule ingest_ok_settle(1) [OF ok flight]) (use follows s1 in simp_all)
      with Some show ?thesis by simp
    qed
    with flight Inr show ?thesis by (simp add: finish_event_def case_prod_unfold Let_def)
  qed
qed

lemma ingest_ok_step: "ingest_step env st st' \<Longrightarrow> fresh_ids env \<Longrightarrow> ingest_ok env st \<Longrightarrow> ingest_ok env st'"
  by (induction rule: ingest_step.induct)
    (simp_all add: ingest_ok_IngestEvent ingest_ok_IngestRaw ingest_ok_take ingest_ok_finish
      ingest_ok_cleanup)

lemma ingest_ok_start: "ingest_ok env (NewIngestService now (map_option NewManager ttl))"
  by (auto simp: ingest_ok_def NewIngestService_def stats_ok_def waiting_def acks_ok_def
      ledger.owed_def manager_ok_def gauge_drift_def GetPending_def ack_status_def NewManager_def)

lemma ingest_reachable_ok: "ingest_reachable env st \<Longrightarrow> fresh_ids env \<Longrightarrow> ingest_ok env st"
proof (induction rule: ingest_reachable.induct)
  case (start now ttl)
  show ?case by (rule ingest_ok_start)
next
  case (step st st')
  then show ?case using ingest_ok_step by blast
qed


lemma normalized_client:
  "normalizeEvent env ev st = (Inr doc, st') \<Longrightarrow>
     (ie_client_id ev \<noteq> [] \<longrightarrow> map_of doc ''client_id'' = Some (GStr (ie_client_id ev)))
     \<and> (ie_hec_token_id ev \<noteq> [] \<longrightarrow> map_of doc ''hec_token_id'' = Some (GStr (ie_hec_token_id ev)))"
  by (auto simp: normalizeEvent_def eventToMap_def put_nonempty_def Let_def split: option.splits sum.splits)

text \<open>A round of the processor goroutine, undisturbed: it takes the oldest event, or goes on with the
  one it has, and settles it.\<close>

definition processor_round :: "ingest_env \<Rightarrow> ingest \<Rightarrow> ingest" where
  "processor_round env st = finish_event env (take_event st)"

lemma ack_frames [simp]:
  "is_queue (fail_ack env i st) = is_queue st" "is_queue (complete_ack env i st) = is_queue st"
  "is_in_flight (fail_ack env i st) = is_in_flight st"
  "is_in_flight (complete_ack env i st) = is_in_flight st"
  by (simp_all add: fail_ack_def complete_ack_def split: option.split)

lemma finish_event_waits:
  "is_queue (finish_event env st) = is_queue st" "is_in_flight (finish_event env st) = None"
  by (simp_all add: finish_event_def Let_def case_prod_unfold split: option.split sum.split)

lemma processor_round_waiting: "waiting (processor_round env st) = tl (waiting st)"
  by (simp add: processor_round_def waiting_def finish_event_waits)
    (simp add: take_event_def split: option.split list.split)

lemma processor_rounds_waiting: "waiting ((processor_round env ^^ n) st) = drop n (waiting st)"
  by (induction n) (simp_all add: processor_round_waiting drop_Suc tl_drop)

lemma processor_rounds_reachable:
  "ingest_reachable env st \<Longrightarrow> ingest_reachable env ((processor_round env ^^ n) st)"
  by (induction n)
    (auto simp: processor_round_def intro: ingest_reachable.step ingest_step.finished ingest_step.taken)

lemma idle_none_pending:
  assumes "ingest_ok env st" and "waiting st = []" and "is_acks st = Some m"
  shows "GetPending m = 0"
proof -
  from assms have ok: "manager_ok m" "\<forall>i. ack_status m i \<noteq> Some StatusPending"
    by (auto simp: ingest_ok_def acks_ok_def ledger.owed_def)
  have "a_status a \<noteq> StatusPending" if "(i, a) \<in> set (m_acks m)" for i a
    using ok that by (auto simp: manager_ok_def ack_status_def dest: map_of_is_SomeI)
  then show ?thesis by (auto simp: GetPending_def filter_empty_conv)
qed

section \<open>A concrete service\<close>

definition sample_ingest_env :: ingest_env where
  \<comment> \<open>no pipeline: events go to the storage as they came\<close>
  "sample_ingest_env =
     \<lparr>ig_uuid = (\<lambda>n. replicate (Suc n) (CHR ''i'')), ig_now = (\<lambda>n. int n),
      ig_marshal = (\<lambda>e. Some ''{}''), ig_event_map = (\<lambda>e. Some []), ig_pipeline = None,
      ig_storage = Some (\<lambda>n m. Some (Some \<lparr>sr_indexed = 1, sr_failed = 0\<rparr>)), ig_dlq = False\<rparr>"

lemma sample_fresh_ids: "fresh_ids sample_ingest_env"
  by (auto simp: fresh_ids_def sample_ingest_env_def inj_def dest: arg_cong [of _ _ length])

definition sample_ingest_start :: ingest where
  "sample_ingest_start = NewIngestService 0 (map_option NewManager (Some 600))"

definition sample_accepted :: "(ingest_error + string) \<times> ingest" where
  "sample_accepted =
     IngestRaw sample_ingest_env ''hello''  ''10.0.0.1''
       (Some \<lparr>ti_token_id = ''tok'', ti_user_id = ''u'', ti_client_id = ''acme''\<rparr>) ''s'' ''hec'' ''h''
       sample_ingest_start"

definition sample_processed :: ingest where
  "sample_processed = finish_event sample_ingest_env (take_event (snd sample_accepted))"

lemma sample_processed_reachable: "ingest_reachable sample_ingest_env sample_processed"
  unfolding sample_processed_def sample_accepted_def sample_ingest_start_def
  by (intro ingest_reachable.step [OF _ ingest_step.finished]
      ingest_reachable.step [OF _ ingest_step.taken] ingest_reachable.step [OF _ ingest_step.raw]
      ingest_reachable.start)

lemma sample_processed_acks:
  "map_option m_acks (is_acks sample_processed) =
     Some [(''iiii'', \<lparr>a_id = ''iiii'', a_status = StatusSuccess, a_timestamp = 7, a_event_ids = [''i'']\<rparr>)]"
  by (simp add: sample_processed_def sample_accepted_def sample_ingest_start_def IngestRaw_def
      sample_ingest_env_def NewIngestService_def NewManager_def enqueue_def create_ack_def Let_def
      itick_def ack_Create_def map_put_def token_ids_def count_event_def updateStats_def take_event_def
      finish_event_def normalizeEvent_def forwardToStorage_def complete_ack_def ack_Complete_def
      queueCap_def numeral_eq_Suc)

section \<open>Properties\<close>

text \<open>C8: The ingest service keeps its accounts in every reachable state: at most 10000 events are
  queued, every counted event was accepted or refused, and the gauge of pending acknowledgements is
  the number of pending acknowledgements, however requests, processing and clean-up interleave.\<close>

theorem ingest_accounts_balance:
  assumes "fresh_ids env" and "ingest_reachable env st"
  shows "length (is_queue st) \<le> 10000
    \<and> st_total_events (is_stats st) = st_successful_events (is_stats st) + st_failed_events (is_stats st)
    \<and> (case is_acks st of None \<Rightarrow> True | Some m \<Rightarrow> m_pending_gauge m = int (GetPending m))"
  using ingest_reachable_ok [OF assms(2,1)]
  by (auto simp: ingest_ok_def queueCap_def stats_ok_def acks_ok_def ledger.owed_def gauge_drift_def
      split: option.split)

theorem ingest_accounts_balance_witness:
  "length (is_queue sample_processed) \<le> 10000
   \<and> (case is_acks sample_processed of None \<Rightarrow> False | Some m \<Rightarrow> m_pending_gauge m = int (GetPending m))"
proof -
  from sample_processed_acks obtain m where "is_acks sample_processed = Some m" by auto
  with ingest_accounts_balance [OF sample_fresh_ids sample_processed_reachable] show ?thesis by simp
qed

text \<open>C9: A reported success was earned: if a storage client is configured and a query answers \<open>true\<close>
  for an acknowledgement, then the storage client accepted every event of that acknowledgement.\<close>

theorem acked_events_stored:
  assumes "fresh_ids env" and "ingest_reachable env st" and "ig_storage env \<noteq> None"
    and "map_of (QueryAcks ids st) i = Some True" and "is_acks st = Some m"
  shows "\<exists>a. map_of (m_acks m) i = Some a \<and> set (a_event_ids a) \<subseteq> fst ` set (is_stored st)"
proof -
  from assms(4,5) have "ack_status m i = Some StatusSuccess"
    by (auto simp: QueryAcks_def Query_status split: if_splits)
  then obtain a where "map_of (m_acks m) i = Some a" "a_status a = StatusSuccess"
    by (auto simp: ack_status_def)
  with ingest_reachable_ok [OF assms(2,1)] assms(3,5) show ?thesis
    by (auto simp: ingest_ok_def acks_ok_def stored_ids_def)
qed

theorem acked_events_stored_witness:
  "map_of (QueryAcks [''iiii''] sample_processed) ''iiii'' = Some True
   \<and> ''i'' \<in> fst ` set (is_stored sample_processed)"
proof -
  from sample_processed_acks obtain m where m: "is_acks sample_processed = Some m"
    "m_acks m = [(''iiii'', \<lparr>a_id = ''iiii'', a_status = StatusSuccess, a_timestamp = 7, a_event_ids = [''i'']\<rparr>)]"
    by auto
  have q: "map_of (QueryAcks [''iiii''] sample_processed) ''iiii'' = Some True"
    by (simp add: QueryAcks_def m Query_status ack_status_def)
  have "ig_storage sample_ingest_env \<noteq> None" by (simp add: sample_ingest_env_def)
  from acked_events_stored [OF sample_fresh_ids sample_processed_reachable this q m(1)] q m(2)
  show ?thesis by simp
qed

text \<open>Tenants are kept apart: whatever an event's payload says, the document that is stored carries
  the client and the token under which the request was authenticated, when the token has them.\<close>

lemma stored_client_is_tokens:
  assumes "normalizeEvent env ev st = (Inr doc, st')" and "ie_client_id ev \<noteq> []"
    and "ie_hec_token_id ev \<noteq> []"
  shows "map_of doc ''client_id'' = Some (GStr (ie_client_id ev))
    \<and> map_of doc ''hec_token_id'' = Some (GStr (ie_hec_token_id ev))"
  using normalized_client [OF assms(1)] assms(2,3) by blast

text \<open>C17: The processor catches up: from any state the service reaches, as many rounds of the processor
  as there are events waiting, the one in flight included, leave none waiting, and no
  acknowledgement is pending any more: each is settled, or has expired.\<close>

theorem processor_catches_up:
  assumes "fresh_ids env" and "ingest_reachable env st"
    and "st' = (processor_round env ^^ (length (is_queue st) + 1)) st"
  shows "is_queue st' = [] \<and> is_in_flight st' = None
    \<and> (\<forall>m. is_acks st' = Some m \<longrightarrow> GetPending m = 0 \<and> m_pending_gauge m = 0)"
proof -
  have "length (waiting st) \<le> length (is_queue st) + 1"
    by (simp add: waiting_def split: option.split)
  then have idle: "waiting st' = []" by (simp only: assms(3) processor_rounds_waiting drop_all)
  from processor_rounds_reachable [OF assms(2)] have ok: "ingest_ok env st'"
    unfolding assms(3) by (rule ingest_reachable_ok) (rule assms(1))
  have "GetPending m = 0 \<and> m_pending_gauge m = 0" if "is_acks st' = Some m" for m
    using idle_none_pending [OF ok idle that] ok that
    by (auto simp: ingest_ok_def acks_ok_def ledger.owed_def gauge_drift_def)
  with idle show ?thesis by (auto simp: waiting_def split: option.splits)
qed

theorem processor_catches_up_witness:
  "is_queue (snd sample_accepted) \<noteq> []
   \<and> is_queue ((processor_round sample_ingest_env ^^ (length (is_queue (snd sample_accepted)) + 1))
       (snd sample_accepted)) = []"
proof -
  have "ingest_reachable sample_ingest_env (snd sample_accepted)"
    unfolding sample_accepted_def sample_ingest_start_def
    by (intro ingest_reachable.step [OF _ ingest_step.raw] ingest_reachable.start)
  from processor_catches_up [OF sample_fresh_ids this refl] show ?thesis
    by (simp add: sample_accepted_def sample_ingest_start_def IngestRaw_def NewIngestService_def
        enqueue_def create_ack_def Let_def itick_def token_ids_def count_event_def queueCap_def)
qed

end
