(* ===== verification/Hec.thy ===== *)
theory Hec
  imports IngestLaws Http
begin

text \<open>
  The HTTP Event Collector endpoints (\<^verbatim>\<open>ingest/internal/handlers/hec_handler.go\<close>, \<^verbatim>\<open>ingest/pkg/hec\<close>). A handler maps the request and the
  service's state to the response, the usage it reports to the statistics collector, and the new
  state. The rate limiter (Redis) is the argument \<open>allow\<close>: \<open>None\<close> when there is no limiter, else
  its answer for a key, whose \<open>None\<close> is an error; the token check is the service's
  \<open>ValidateHECToken\<close>, and \<open>parse\<close> is \<open>json.Unmarshal\<close> into a \<open>HECEvent\<close>.
\<close>

section \<open>Tokens\<close>

definition ExtractToken :: "string \<Rightarrow> string" where
  "ExtractToken authHeader =
     (if authHeader = [] then []
      else
        (case cut_at (CHR '' '') authHeader of
           (before, None) \<Rightarrow> []
         | (before, Some after) \<Rightarrow>
             (let scheme = to_lower before in
              if scheme = ''splunk'' \<or> scheme = ''telhawk'' \<or> scheme = ''bearer'' then after
              else [])))"

section \<open>Responses\<close>

datatype hec_error = ErrInvalidEvent | ErrNoData | ErrUnauthorized | ErrServerBusy

fun hec_code :: "hec_error \<Rightarrow> int" where
  "hec_code ErrInvalidEvent = 6"
| "hec_code ErrNoData = 5"
| "hec_code ErrUnauthorized = 4"
| "hec_code ErrServerBusy = 9"

fun hec_text :: "hec_error \<Rightarrow> string" where
  "hec_text ErrInvalidEvent = ''Invalid data format''"
| "hec_text ErrNoData = ''No data''"
| "hec_text ErrUnauthorized = ''Invalid authorization''"
| "hec_text ErrServerBusy = ''Server is busy''"

definition ValidateEventFormat :: "gval \<Rightarrow> hec_error option" where
  "ValidateEventFormat event = (if event = GNil then Some ErrInvalidEvent else None)"

record hec_response =
  hp_status :: int
  hp_text :: string
  hp_code :: int
  hp_ack_id :: string      \<comment> \<open>\<open>omitempty\<close>\<close>

definition sendError :: "hec_error \<Rightarrow> int \<Rightarrow> hec_response" where
  "sendError err httpStatus =
     \<lparr>hp_status = httpStatus, hp_text = hec_text err, hp_code = hec_code err, hp_ack_id = []\<rparr>"

definition sendSuccess :: hec_response where
  "sendSuccess = \<lparr>hp_status = 200, hp_text = ''Success'', hp_code = 0, hp_ack_id = []\<rparr>"

definition sendSuccessWithAck :: "string \<Rightarrow> hec_response" where
  "sendSuccessWithAck ackID = \<lparr>hp_status = 200, hp_text = ''Success'', hp_code = 0, hp_ack_id = ackID\<rparr>"

section \<open>Handlers\<close>

type_synonym limiter = "(string \<Rightarrow> bool option) option"

type_synonym usage = "(string \<times> int) option"     \<comment> \<open>token id and number of events\<close>

definition limited :: "limiter \<Rightarrow> string \<Rightarrow> bool option" where
  \<comment> \<open>no limiter allows everything\<close>
  "limited allow key = (case allow of None \<Rightarrow> Some True | Some f \<Rightarrow> f key)"

definition respond :: "request \<Rightarrow> string \<Rightarrow> hec_response" where
  \<comment> \<open>with the acknowledgement if the client gave a channel\<close>
  "respond r ackID =
     (if rq_header r ''X-Splunk-Request-Channel'' \<noteq> [] \<and> ackID \<noteq> [] then sendSuccessWithAck ackID
      else sendSuccess)"

fun parse_lines :: "(string \<Rightarrow> hec_event option) \<Rightarrow> string list \<Rightarrow> hec_event list option" where
  \<comment> \<open>newline-delimited JSON, blank lines skipped; None on a line that does not parse\<close>
  "parse_lines parse [] = Some []"
| "parse_lines parse (l # ls) =
     (let line = trim_space l in
      if line = [] then parse_lines parse ls
      else
        (case parse line of
           None \<Rightarrow> None
         | Some e \<Rightarrow> map_option (\<lambda>es. e # es) (parse_lines parse ls)))"

definition parse_body :: "(string \<Rightarrow> hec_event option) \<Rightarrow> string \<Rightarrow> hec_event list option" where
  "parse_body parse body =
     (case parse body of
        Some e \<Rightarrow> Some [e]
      | None \<Rightarrow> parse_lines parse (split_on (CHR 0x0A) body))"

fun ingest_all ::
  "ingest_env \<Rightarrow> string \<Rightarrow> token_info \<Rightarrow> hec_event list \<Rightarrow> string \<Rightarrow> nat \<Rightarrow> ingest \<Rightarrow> (string \<times> nat) \<times> ingest"
where
  \<comment> \<open>the loop over the events: the first acknowledgement, and how many failed\<close>
  "ingest_all env ip tok [] ackID failedCount st = ((ackID, failedCount), st)"
| "ingest_all env ip tok (e # es) ackID failedCount st =
     (case IngestEvent env e ip (Some tok) st of
        (Inl _, st1) \<Rightarrow> ingest_all env ip tok es ackID (failedCount + 1) st1
      | (Inr eventAckID, st1) \<Rightarrow>
          ingest_all env ip tok es (if ackID = [] then eventAckID else ackID) failedCount st1)"

definition HandleEvent_body ::
  \<comment> \<open>from the reading of the body on\<close>
  "ingest_env \<Rightarrow> (string \<Rightarrow> hec_event option) \<Rightarrow> token_info \<Rightarrow> request \<Rightarrow> ingest \<Rightarrow>
     (hec_response \<times> usage) \<times> ingest"
where
  "HandleEvent_body env parse tokenInfo r st =
     (let sourceIP = GetClientIP r in
      case rq_body r of
        None \<Rightarrow> ((sendError ErrInvalidEvent 400, None), st)
      | Some body \<Rightarrow>
          if body = [] then ((sendError ErrNoData 400, None), st)
          else
            (case parse_body parse body of
               None \<Rightarrow> ((sendError ErrInvalidEvent 400, None), st)
             | Some events \<Rightarrow>
                 (let ((ackID, failedCount), st1) = ingest_all env sourceIP tokenInfo events [] 0 st in
                  if failedCount = length events then ((sendError ErrServerBusy 503, None), st1)
                  else ((respond r ackID, Some (ti_token_id tokenInfo, int (length events))), st1))))"

definition HandleEvent ::
  "ingest_env \<Rightarrow> limiter \<Rightarrow> (string \<Rightarrow> ingest_error + token_info) \<Rightarrow> (string \<Rightarrow> hec_event option) \<Rightarrow>
     request \<Rightarrow> ingest \<Rightarrow> (hec_response \<times> usage) \<times> ingest"
where
  "HandleEvent env allow validate parse r st =
     (if rq_method r \<noteq> ''POST'' then ((sendError ErrInvalidEvent 405, None), st)
      else
        (case limited allow (''ip:'' @ GetClientIP r) of
           None \<Rightarrow> ((sendError ErrServerBusy 503, None), st)
         | Some False \<Rightarrow> ((sendError ErrServerBusy 429, None), st)
         | Some True \<Rightarrow>
             (let token = ExtractToken (rq_header r ''Authorization'') in
              if token = [] then ((sendError ErrUnauthorized 401, None), st)
              else
                (case validate token of
                   Inl _ \<Rightarrow> ((sendError ErrUnauthorized 401, None), st)
                 | Inr tokenInfo \<Rightarrow>
                     (case limited allow (''token:'' @ token) of
                        None \<Rightarrow> ((sendError ErrServerBusy 503, None), st)
                      | Some False \<Rightarrow> ((sendError ErrServerBusy 429, None), st)
                      | Some True \<Rightarrow> HandleEvent_body env parse tokenInfo r st)))))"

definition query_or_header :: "request \<Rightarrow> string \<Rightarrow> string \<Rightarrow> string" where
  "query_or_header r key header = (if rq_query r key = [] then rq_header r header else rq_query r key)"

definition HandleRaw_body ::
  "ingest_env \<Rightarrow> token_info \<Rightarrow> request \<Rightarrow> ingest \<Rightarrow> (hec_response \<times> usage) \<times> ingest"
where
  "HandleRaw_body env tokenInfo r st =
     (let source = query_or_header r ''source'' ''X-Splunk-Request-Source'';
          sourceType = query_or_header r ''sourcetype'' ''X-Splunk-Request-Sourcetype'';
          host = query_or_header r ''host'' ''X-Splunk-Request-Host'' in
      case rq_body r of
        None \<Rightarrow> ((sendError ErrInvalidEvent 400, None), st)
      | Some body \<Rightarrow>
          if body = [] then ((sendError ErrNoData 400, None), st)
          else
            (case IngestRaw env body (GetClientIP r) (Some tokenInfo) source sourceType host st of
               (Inl _, st1) \<Rightarrow> ((sendError ErrServerBusy 503, None), st1)
             | (Inr ackID, st1) \<Rightarrow> ((respond r ackID, Some (ti_token_id tokenInfo, 1)), st1)))"

definition HandleRaw ::
  "ingest_env \<Rightarrow> limiter \<Rightarrow> (string \<Rightarrow> ingest_error + token_info) \<Rightarrow> request \<Rightarrow> ingest \<Rightarrow>
     (hec_response \<times> usage) \<times> ingest"
where
  \<comment> \<open>an error of the limiter is logged and the request goes on\<close>
  "HandleRaw env allow validate r st =
     (if rq_method r \<noteq> ''POST'' then ((sendError ErrInvalidEvent 405, None), st)
      else if limited allow (''ip:'' @ GetClientIP r) = Some False then
        ((sendError ErrServerBusy 429, None), st)
      else
        (let token = ExtractToken (rq_header r ''Authorization'') in
         if token = [] then ((sendError ErrUnauthorized 401, None), st)
         else
           (case validate token of
              Inl _ \<Rightarrow> ((sendError ErrUnauthorized 401, None), st)
            | Inr tokenInfo \<Rightarrow>
                if limited allow (''token:'' @ token) = Some False then
                  ((sendError ErrServerBusy 429, None), st)
                else HandleRaw_body env tokenInfo r st)))"

definition HandleAck ::
  "(string \<Rightarrow> string list option) \<Rightarrow> request \<Rightarrow> ingest \<Rightarrow> hec_response + (string \<times> bool) list" where
  \<comment> \<open>\<open>Ack\<close>; \<open>decode\<close> reads the \<open>acks\<close> of the JSON body\<close>
  "HandleAck decode r st =
     (if rq_method r = ''POST'' then
        (case (case rq_body r of None \<Rightarrow> None | Some b \<Rightarrow> decode b) of
           None \<Rightarrow> Inl (sendError ErrInvalidEvent 400)
         | Some acks \<Rightarrow> Inr (QueryAcks acks st))
      else Inr (QueryAcks [] st))"

definition Ready :: "ingest \<Rightarrow> string \<times> ingestion_stats" where
  "Ready st = (''ready'', GetStats st)"


section \<open>Laws\<close>

lemma ingest_all_state:
  "ingest_all env ip tok es a n st = ((a', n'), st') \<Longrightarrow> n \<le> n' \<and> n' \<le> n + length es"
  by (induction env ip tok es a n st rule: ingest_all.induct) (fastforce split: prod.splits sum.splits)+

lemma ingest_reachable_all:
  "ingest_reachable env st \<Longrightarrow> ingest_reachable env (snd (ingest_all env ip tok es a n st))"
proof (induction env ip tok es a n st rule: ingest_all.induct)
  case (1 env ip tok a n st)
  then show ?case by simp
next
  case (2 env ip tok e es a n st)
  have "ingest_reachable env (snd (IngestEvent env e ip (Some tok) st))"
    by (rule ingest_reachable.step [OF 2(3) ingest_step.event])
  with 2(1,2) show ?case by (cases "IngestEvent env e ip (Some tok) st") (auto split: sum.split)
qed

lemma parse_lines_blank:
  "list_all (\<lambda>l. trim_space l = []) ls \<Longrightarrow> parse_lines parse ls = Some []"
  by (induction ls) simp_all

lemma HandleEvent_reachable:
  "ingest_reachable env st \<Longrightarrow> ingest_reachable env (snd (HandleEvent env allow validate parse r st))"
  using ingest_reachable_all
  by (auto simp: HandleEvent_def HandleEvent_body_def Let_def case_prod_unfold
      split: option.split sum.split bool.split)

lemma HandleRaw_reachable:
  assumes "ingest_reachable env st"
  shows "ingest_reachable env (snd (HandleRaw env allow validate r st))"
  using assms ingest_reachable.step [OF assms ingest_step.raw]
  by (auto simp: HandleRaw_def HandleRaw_body_def Let_def case_prod_unfold
      split: option.split sum.split)

definition sample_request :: request where
  "sample_request =
     \<lparr>rq_method = ''POST'', rq_host = [], rq_path = ''/services/collector'',
      rq_header = (\<lambda>h. if h = ''Authorization'' then ''Splunk abc'' else []),
      rq_query = (\<lambda>q. []), rq_cookie = (\<lambda>n. None), rq_remote_addr = ''10.0.0.1:5000'', rq_body = Some '' ''\<rparr>"

section \<open>Properties\<close>

text \<open>Nothing is ingested without a valid token: if the \<open>Authorization\<close> header carries no token, or
  one the authenticate service does not accept, both endpoints leave the service as it was, report no
  usage and answer an error, whatever the rate limiter says.\<close>

lemma no_ingest_without_token:
  assumes "ExtractToken (rq_header r ''Authorization'') = [] \<or>
    (\<exists>e. validate (ExtractToken (rq_header r ''Authorization'')) = Inl e)"
  shows "snd (HandleEvent env allow validate parse r st) = st
    \<and> snd (HandleRaw env allow validate r st) = st
    \<and> snd (fst (HandleEvent env allow validate parse r st)) = None
    \<and> snd (fst (HandleRaw env allow validate r st)) = None
    \<and> hp_status (fst (fst (HandleEvent env allow validate parse r st))) \<in> {401, 405, 429, 503}
    \<and> hp_status (fst (fst (HandleRaw env allow validate r st))) \<in> {401, 405, 429}"
  using assms
  by (auto simp: HandleEvent_def HandleRaw_def Let_def sendError_def split: option.split bool.split)

lemma no_ingest_without_token_example:
  "hp_status (fst (fst (HandleRaw sample_ingest_env None (\<lambda>t. Inl InvalidHECToken) sample_request
     sample_ingest_start))) = 401"
proof -
  have "(\<exists>e. (\<lambda>t. Inl InvalidHECToken) (ExtractToken (rq_header sample_request ''Authorization'')) = Inl e)"
    by simp
  from no_ingest_without_token [OF disjI2, OF this, where env = sample_ingest_env and allow = None
    and st = sample_ingest_start]
  have "hp_status (fst (fst (HandleRaw sample_ingest_env None (\<lambda>t. Inl InvalidHECToken) sample_request
      sample_ingest_start))) \<in> {401, 405, 429}" by blast
  then show ?thesis
    by (simp add: HandleRaw_def sample_request_def limited_def sendError_def Let_def)
qed

text \<open>A body of blank lines is answered as an overload: with a valid token, a body that is not empty
  but holds only white space is no event at all, so that no failure is taken for every
  event failing, and the client is told the server is busy.\<close>

lemma blank_body_is_busy:
  assumes "rq_body r = Some body" and "body \<noteq> []" and "parse body = None"
    and "list_all (\<lambda>l. trim_space l = []) (split_on (CHR 0x0A) body)"
  shows "HandleEvent_body env parse tok r st = ((sendError ErrServerBusy 503, None), st)"
  using assms by (simp add: HandleEvent_body_def parse_body_def parse_lines_blank Let_def)

text \<open>The two endpoints treat a failing rate limiter in opposite ways: the event endpoint turns the
  request away, the raw endpoint does as if there were no limiter.\<close>

lemma limiter_failure:
  assumes "rq_method r = ''POST''"
  shows "fst (fst (HandleEvent env (Some (\<lambda>k. None)) validate parse r st)) = sendError ErrServerBusy 503
    \<and> HandleRaw env (Some (\<lambda>k. None)) validate r st = HandleRaw env None validate r st"
  using assms by (simp add: HandleEvent_def HandleRaw_def limited_def Let_def split: sum.split)

end
