(* ===== verification/EndToEnd.thy ===== *)
theory EndToEnd
  imports Gateway Hec
begin

text \<open>
  The ingest service and the authenticate service together: the exchange of
  \<^verbatim>\<open>ingest/internal/authclient/client.go\<close>, a parameter in the theory \<open>TokenCache\<close>, is here the
  authenticate service's router answering a request over the network, so that the endpoints of
  \<open>Hec\<close> run on the tokens of \<open>AuthRepo\<close>.
\<close>

section \<open>The exchange\<close>

datatype client_error = Send_request | Decode_response

definition ask_auth ::
  "gateway \<Rightarrow> env \<Rightarrow> auth_codec \<Rightarrow> svc \<Rightarrow> string \<Rightarrow> doc response option \<times> svc" where
  "ask_auth gw env cd auth token =
     exchange_with gw env cd (post_request gw ''/api/v1/auth/validate-hec''
       (ac_marshal cd (GObj [(''token'', GStr token)]))) auth"

definition decode_token_response :: "doc \<Rightarrow> token_response option" where
  "decode_token_response d =
     (case d of Doc (GObj m) \<Rightarrow>
        (case (field_or as_boolean False m ''valid'', field_or as_str [] m ''token_id'',
               field_or as_str [] m ''token_name'', field_or as_str [] m ''user_id'',
               field_or as_str [] m ''client_id'') of
           (Some v, Some i, Some n, Some u, Some c) \<Rightarrow>
             Some \<lparr>tr_valid = v, tr_token_id = i, tr_token_name = n, tr_user_id = u, tr_client_id = c\<rparr>
         | _ \<Rightarrow> None)
      | _ \<Rightarrow> None)"

definition hec_answer ::
  "gateway \<Rightarrow> env \<Rightarrow> auth_codec \<Rightarrow> svc \<Rightarrow> string \<Rightarrow> client_error + token_response" where
  \<comment> \<open>from the request to the decoded answer; the status is not looked at\<close>
  "hec_answer gw env cd auth token =
     (case fst (ask_auth gw env cd auth token) of
        None \<Rightarrow> Inl Send_request
      | Some resp \<Rightarrow>
          (case decode_token_response (rs_body resp) of
             None \<Rightarrow> Inl Decode_response
           | Some result \<Rightarrow> Inr result))"

definition checked_token ::
  "gateway \<Rightarrow> env \<Rightarrow> auth_codec \<Rightarrow> svc \<Rightarrow> time \<Rightarrow> time \<Rightarrow> token_cache \<Rightarrow> string \<Rightarrow> ingest_error + token_info"
where
  \<comment> \<open>what the endpoints are given as \<open>ValidateHECToken\<close>\<close>
  "checked_token gw env cd auth n1 n2 tc token =
     ingest_ValidateHECToken
       (Some (\<lambda>tok. fst (client_ValidateHECToken (hec_answer gw env cd auth) n1 n2 tok tc))) token"

section \<open>What the answer says\<close>

definition live_token :: "svc \<Rightarrow> string \<Rightarrow> hec_token option" where
  \<comment> \<open>registered, and neither disabled nor revoked\<close>
  "live_token auth token =
     (case map_of (r_hec_tokens auth) token of
        None \<Rightarrow> None
      | Some q \<Rightarrow>
          (let t = h_tokens auth q in
           if ht_disabled_at t \<noteq> None \<or> ht_revoked_at t \<noteq> None then None else Some t))"

definition sends_token :: "auth_codec \<Rightarrow> string \<Rightarrow> bool" where
  \<comment> \<open>the body the client writes is the one the handler reads\<close>
  "sends_token cd token \<longleftrightarrow> ac_token cd (ac_marshal cd (GObj [(''token'', GStr token)])) = Some token"

lemma validate_route: "route_of ''POST'' ''/api/v1/auth/validate-hec'' = ValidateHEC_route"
  by (simp add: route_of_def)

lemma NewRouter_validate:
  assumes "sends_token cd token"
  shows "NewRouter env cd (post_request gw ''/api/v1/auth/validate-hec''
      (ac_marshal cd (GObj [(''token'', GStr token)]))) auth =
    (case ValidateHECToken env token (GetClientIP (post_request gw ''/api/v1/auth/validate-hec''
            (ac_marshal cd (GObj [(''token'', GStr token)])))) ''Go-http-client/1.1'' auth of
       (Inl err, st1) \<Rightarrow> (Some (json_ok (validate_hec_doc None)), st1)
     | (Inr q, st1) \<Rightarrow> (Some (json_ok (validate_hec_doc (Some (h_tokens st1 q)))), st1))"
  using assms
  by (simp add: NewRouter_def Let_def post_request_def validate_route permission_of_def handler_of_def
      http_ValidateHECToken_def Decode_def sends_token_def user_agent_def split: prod.split sum.split)

lemma ValidateHECToken_live:
  "fst (ValidateHECToken env token ip ua auth) = Inr q \<Longrightarrow>
     live_token auth token = Some (h_tokens auth q)"
  by (auto simp: ValidateHECToken_def GetHECToken_def live_token_def HECToken_IsActive_def Let_def
      split: option.splits if_splits)

lemma ValidateHECToken_tokens: "h_tokens (snd (ValidateHECToken env token ip ua auth)) = h_tokens auth"
  using ValidateHECToken_frame [of env token ip ua auth] by (simp add: repo.truncate_def)

lemma decode_refused: "decode_token_response (rs_body (json_ok (validate_hec_doc None))) =
    Some \<lparr>tr_valid = False, tr_token_id = [], tr_token_name = [], tr_user_id = [], tr_client_id = []\<rparr>"
  by (simp add: json_ok_def WriteJSON_def validate_hec_doc_def decode_token_response_def field_or_def)

lemma field_omitempty:
  "field_or as_str [] (omitempty k s @ m) k' =
     (if k = k' then if s = [] then field_or as_str [] m k' else Some s else field_or as_str [] m k')"
  "field_or as_str [] (omitempty k s) k' = (if k = k' then Some s else Some [])"
  by (simp_all add: omitempty_def field_or_def)

lemma field_cons_other: "k \<noteq> k' \<Longrightarrow> field_or as z ((k, v) # m) k' = field_or as z m k'"
  by (simp add: field_or_def)

lemma decode_accepted: "decode_token_response (rs_body (json_ok (validate_hec_doc (Some t)))) =
    Some \<lparr>tr_valid = True, tr_token_id = ht_id t, tr_token_name = ht_name t,
      tr_user_id = ht_user_id t, tr_client_id = ht_client_id t\<rparr>"
proof -
  have "field_or as_boolean False ((''valid'', GBool True) # m) ''valid'' = Some True" for m
    by (simp add: field_or_def)
  then show ?thesis
    by (simp add: json_ok_def WriteJSON_def validate_hec_doc_def decode_token_response_def
        field_cons_other field_omitempty)
qed

lemma hec_answer_live:
  assumes "sends_token cd token" and "hec_answer gw env cd auth token = Inr a" and "tr_valid a"
  shows "\<exists>t. live_token auth token = Some t \<and> tr_token_id a = ht_id t \<and> tr_client_id a = ht_client_id t"
proof -
  let ?v = "ValidateHECToken env token (GetClientIP (post_request gw ''/api/v1/auth/validate-hec''
    (ac_marshal cd (GObj [(''token'', GStr token)])))) ''Go-http-client/1.1'' auth"
  from assms(2) have "gw_net gw (sv_tick auth) = Answered"
    by (auto simp: hec_answer_def ask_auth_def exchange_with_def split: exchange.splits)
  with assms(2) NewRouter_validate [OF assms(1), of env gw auth]
  have a: "(case fst ?v of Inl err \<Rightarrow> decode_token_response (rs_body (json_ok (validate_hec_doc None)))
      | Inr q \<Rightarrow> decode_token_response (rs_body (json_ok (validate_hec_doc (Some (h_tokens (snd ?v) q)))))) = Some a"
    by (cases ?v; cases "fst ?v")
      (auto simp: hec_answer_def ask_auth_def exchange_with_def split: option.splits)
  show ?thesis
  proof (cases "fst ?v")
    case (Inl e)
    with a assms(3) show ?thesis by (auto simp: decode_refused)
  next
    case (Inr q)
    with a have "a = \<lparr>tr_valid = True, tr_token_id = ht_id (h_tokens auth q),
        tr_token_name = ht_name (h_tokens auth q), tr_user_id = ht_user_id (h_tokens auth q),
        tr_client_id = ht_client_id (h_tokens auth q)\<rparr>"
      by (simp add: decode_accepted ValidateHECToken_tokens)
    with ValidateHECToken_live [OF Inr] show ?thesis by simp
  qed
qed

lemma checked_token_live:
  assumes "sends_token cd token" and "cache_get n1 token tc = None"
    and "checked_token gw env cd auth n1 n2 tc token = Inr info"
  shows "\<exists>t. live_token auth token = Some t \<and> ti_token_id info = ht_id t \<and> ti_client_id info = ht_client_id t"
proof -
  from assms(2,3) obtain a where "hec_answer gw env cd auth token = Inr a" "tr_valid a"
    "ti_token_id info = tr_token_id a" "ti_client_id info = tr_client_id a"
    by (auto simp: checked_token_def ingest_ValidateHECToken_def client_ValidateHECToken_def
        split: sum.splits if_splits)
  with hec_answer_live [OF assms(1)] show ?thesis by fastforce
qed

lemma dead_token_refused:
  assumes "sends_token cd token" and "cache_get n1 token tc = None" and "live_token auth token = None"
  shows "\<exists>e. checked_token gw env cd auth n1 n2 tc token = Inl e"
proof (cases "checked_token gw env cd auth n1 n2 tc token")
  case (Inr info)
  from checked_token_live [OF assms(1,2) this] assms(3) show ?thesis by simp
qed simp

lemma endpoints_refuse:
  assumes "validate (ExtractToken (rq_header r ''Authorization'')) = Inl e"
  shows "snd (HandleEvent ienv allow validate parse r st) = st \<and> snd (HandleRaw ienv allow validate r st) = st
    \<and> hp_status (fst (fst (HandleEvent ienv allow validate parse r st))) \<noteq> 200
    \<and> hp_status (fst (fst (HandleRaw ienv allow validate r st))) \<noteq> 200"
  using assms
  by (auto simp: HandleEvent_def HandleRaw_def Let_def sendError_def split: option.split bool.split)

text \<open>What a revocation over HTTP leaves: the token of the request's body is dead.\<close>

lemma revoked_over_http:
  assumes "rq_path r = ''/api/v1/hec/tokens/revoke''" and "Decode (ac_token cd) r = Some token"
    and "NewRouter env cd r auth = (Some resp, auth')" and "rs_status resp = 204"
  shows "live_token auth' token = None"
proof -
  let ?v = "RequirePermission ''tokens:revoke'' env (rq_header r ''Authorization'') auth"
  have rt: "route_of (rq_method r) (rq_path r) = RevokeHEC_route"
    by (simp add: assms(1) route_of_def)
  from assms(3) have out: "after_check ?v (http_RevokeHECToken env cd r) = (Some resp, auth')"
    by (simp add: NewRouter_def Let_def rt permission_of_def handler_of_def)
  have no_plain: "status \<noteq> 204" if "fst ?v = Plain status msg" for status msg
    using that by (auto simp: RequirePermission_def with_auth_def RequireAuth_def check_permission_def
        split: list.splits prod.splits verdict.splits sum.splits if_splits option.splits)
  have no_refusal: "pe_status e \<noteq> 204" if "fst ?v = Refused e" for e
    using that by (auto simp: RequirePermission_def with_auth_def RequireAuth_def check_permission_def
        writePermissionError_def split: list.splits prod.splits verdict.splits sum.splits if_splits option.splits)
  from out assms(4) no_plain no_refusal obtain ctx s where "?v = (Passed ctx, s)"
      and h: "http_RevokeHECToken env cd r s = (resp, auth')"
    by (cases ?v; cases "fst ?v")
      (auto simp: after_check_def http_Error_def permission_doc_def WriteJSONAPI_def split: prod.splits)
  from h assms(2,4) have "RevokeHECTokenByUser env token (rq_header r ''X-User-ID'') (GetClientIP r)
      (user_agent r) s = (None, auth')"
    by (auto simp: http_RevokeHECToken_def Let_def bad_method_def bad_body_def http_Error_def
        split: if_splits prod.splits option.splits)
  then show ?thesis
    by (auto simp: RevokeHECTokenByUser_def GetHECToken_def revoke_hec_token_def RevokeHECToken_def
        live_token_def Let_def split: option.splits if_splits)
qed

lemma IngestRaw_queues:
  assumes "IngestRaw env data ip (Some info) src sty host st = (Inr i, st')"
  shows "\<exists>ev. is_queue st' = is_queue st @ [ev] \<and> ie_client_id ev = ti_client_id info
    \<and> ie_hec_token_id ev = ti_token_id info \<and> ie_raw ev = data"
  using assms
  by (auto simp: IngestRaw_def enqueue_def create_ack_def count_event_def token_ids_def Let_def
      case_prod_unfold split: option.splits if_splits)

lemma HandleRaw_accepts:
  assumes "HandleRaw ienv allow validate r st = ((resp, use), st')" and "hp_status resp = 200"
  shows "\<exists>info data. validate (ExtractToken (rq_header r ''Authorization'')) = Inr info
    \<and> rq_body r = Some data
    \<and> (\<exists>ev. is_queue st' = is_queue st @ [ev] \<and> ie_client_id ev = ti_client_id info
         \<and> ie_hec_token_id ev = ti_token_id info \<and> ie_raw ev = data)"
proof -
  from assms obtain info where info: "validate (ExtractToken (rq_header r ''Authorization'')) = Inr info"
    and body: "HandleRaw_body ienv info r st = ((resp, use), st')"
    by (auto simp: HandleRaw_def sendError_def Let_def split: if_splits sum.splits)
  from body assms(2) obtain data src sty host i where "rq_body r = Some data"
    "IngestRaw ienv data (GetClientIP r) (Some info) src sty host st = (Inr i, st')"
    by (auto simp: HandleRaw_body_def sendError_def Let_def split: option.splits if_splits sum.splits prod.splits)
  with info IngestRaw_queues show ?thesis by blast
qed

lemma HandleRaw_success:
  assumes "rq_method r = ''POST''" and "ExtractToken (rq_header r ''Authorization'') \<noteq> []"
    and "validate (ExtractToken (rq_header r ''Authorization'')) = Inr info"
    and "rq_body r = Some data" and "data \<noteq> []" and "length (is_queue st) < queueCap"
  shows "hp_status (fst (fst (HandleRaw ienv None validate r st))) = 200"
proof -
  have "\<exists>i. fst (IngestRaw ienv data ip (Some info) src sty host st) = Inr i" for ip src sty host
    using assms(6)
    by (simp add: IngestRaw_def enqueue_def create_ack_def itick_def Let_def case_prod_unfold
        split: option.split)
  then have "\<exists>i s. IngestRaw ienv data ip (Some info) src sty host st = (Inr i, s)" for ip src sty host
    by (metis prod.collapse)
  then show ?thesis using assms(1-5)
    by (auto simp: HandleRaw_def HandleRaw_body_def limited_def Let_def respond_def sendSuccess_def
        sendSuccessWithAck_def split: sum.split prod.split) (metis Inr_not_Inl prod.inject)
qed

section \<open>A concrete deployment\<close>

definition sample_collect :: request where
  "sample_collect =
     (auth_request ''POST'' ''/services/collector/raw'' ''v'')\<lparr>rq_header :=
        (\<lambda>h. if h = ''Authorization'' then ''Splunk t'' else [])\<rparr>"

lemma sample_sends: "sends_token sample_auth_codec ''t''"
  by (simp add: sends_token_def sample_auth_codec_def)

lemma sample_collect_token: "ExtractToken (rq_header sample_collect ''Authorization'') = ''t''"
  by code_simp

section \<open>Properties\<close>

text \<open>C16: Revoking an ingestion token stops its events: once the authenticate service has answered a
  revocation with 204, neither endpoint of the ingest service takes anything in under that token,
  whatever the network and the limiter do, unless its cache still holds a live answer.\<close>

theorem revoked_token_stops_ingest:
  assumes "rq_path rr = ''/api/v1/hec/tokens/revoke''" and "Decode (ac_token cd) rr = Some token"
    and "NewRouter env cd rr auth = (Some resp, auth')" and "rs_status resp = 204"
    and "sends_token cd token" and "cache_get n1 token tc = None"
    and "ExtractToken (rq_header r ''Authorization'') = token"
    and "check = checked_token gw env' cd auth' n1 n2 tc"
  shows "snd (HandleEvent ienv allow check parse r st) = st \<and> snd (HandleRaw ienv allow check r st) = st
    \<and> hp_status (fst (fst (HandleEvent ienv allow check parse r st))) \<noteq> 200
    \<and> hp_status (fst (fst (HandleRaw ienv allow check r st))) \<noteq> 200"
proof -
  from dead_token_refused [OF assms(5,6) revoked_over_http [OF assms(1-4)], of gw env' n2]
  obtain e where "check (ExtractToken (rq_header r ''Authorization'')) = Inl e"
    by (auto simp: assms(7,8))
  then show ?thesis by (rule endpoints_refuse)
qed

theorem revoked_token_stops_ingest_witness:
  "let auth' = snd (NewRouter sample_env sample_auth_codec
       (auth_request ''POST'' ''/api/v1/hec/tokens/revoke'' ''v'') (sample_office ''tokens'' ''revoke''))
   in snd (HandleRaw sample_ingest_env None
        (checked_token sample_gateway sample_env sample_auth_codec auth' 0 0 (new_client 60))
        sample_collect sample_ingest_start) = sample_ingest_start"
proof -
  let ?r = "auth_request ''POST'' ''/api/v1/hec/tokens/revoke'' ''v''"
  let ?st = "sample_office ''tokens'' ''revoke''"
  let ?out = "NewRouter sample_env sample_auth_codec ?r ?st"
  obtain ctx s where s: "RequireAuth sample_env ''Bearer u'' ?st = (Passed ctx, s)"
    "Can (ax_user ctx) ''tokens:revoke''"
    by (rule sample_office_passes [of "''tokens''" "''revoke''"]) simp_all
  have "route_of (rq_method ?r) (rq_path ?r) = RevokeHEC_route"
    by (simp add: auth_request_def route_of_def)
  then have "fst ?out = Some no_content"
    using NewRouter_passed [where r = ?r and st = ?st and env = sample_env and s = s and cd = sample_auth_codec]
      s RequireAuth_same [OF s(1)]
    by (simp add: permission_of_def handler_of_def http_RevokeHECToken_def RevokeHECTokenByUser_def
        GetHECToken_def revoke_hec_token_def RevokeHECToken_def auth_request_def sample_office_def
        Decode_def sample_auth_codec_def new_hec_token_def Let_def case_prod_unfold)
  then have out: "?out = (Some no_content, snd ?out)" by (metis prod.collapse)
  have decode: "Decode (ac_token sample_auth_codec) ?r = Some ''t''"
    by (simp add: Decode_def auth_request_def sample_auth_codec_def)
  have empty: "cache_get 0 ''t'' (new_client 60) = None"
    by (simp add: cache_get_def new_client_def newTokenCache_def)
  from revoked_token_stops_ingest [OF _ decode out _ sample_sends empty sample_collect_token refl]
  show ?thesis by (simp add: Let_def auth_request_def no_content_def)
qed

text \<open>C15: An accepted event belongs to the owner of its token: when the raw endpoint answers 200 after
  asking the authenticate service, the event it has queued carries the client and the identifier of
  a token that is registered there under the string presented and neither disabled nor revoked, and
  so does every document the processor makes of it, each where it is not empty.\<close>

theorem accepted_event_is_token_owners:
  assumes "HandleRaw ienv allow (checked_token gw env cd auth n1 n2 tc) r st = ((resp, use), st')"
    and "hp_status resp = 200" and "sends_token cd token" and "cache_get n1 token tc = None"
    and "ExtractToken (rq_header r ''Authorization'') = token"
  shows "\<exists>t ev. live_token auth token = Some t \<and> is_queue st' = is_queue st @ [ev]
    \<and> ie_client_id ev = ht_client_id t \<and> ie_hec_token_id ev = ht_id t \<and> Some (ie_raw ev) = rq_body r
    \<and> (\<forall>doc s s'. normalizeEvent ienv ev s = (Inr doc, s') \<longrightarrow> 
         (ht_client_id t \<noteq> [] \<longrightarrow> map_of doc ''client_id'' = Some (GStr (ht_client_id t)))
         \<and> (ht_id t \<noteq> [] \<longrightarrow> map_of doc ''hec_token_id'' = Some (GStr (ht_id t))))"
proof -
  from HandleRaw_accepts [OF assms(1,2)] obtain info data ev where
    info: "checked_token gw env cd auth n1 n2 tc token = Inr info" and
    ev: "rq_body r = Some data" "is_queue st' = is_queue st @ [ev]" "ie_client_id ev = ti_client_id info"
      "ie_hec_token_id ev = ti_token_id info" "ie_raw ev = data"
    by (auto simp: assms(5))
  from checked_token_live [OF assms(3,4) info] obtain t where
    t: "live_token auth token = Some t" "ti_token_id info = ht_id t" "ti_client_id info = ht_client_id t"
    by blast
  show ?thesis using ev t normalized_client [where env = ienv and ev = ev] by fastforce
qed

theorem accepted_event_is_token_owners_witness:
  "let auth = sample_office ''tokens'' ''read'';
       st' = snd (HandleRaw sample_ingest_env None
         (checked_token sample_gateway sample_env sample_auth_codec auth 0 0 (new_client 60))
         sample_collect sample_ingest_start)
   in map ie_client_id (is_queue st') = [''c'']"
proof -
  let ?auth = "sample_office ''tokens'' ''read''"
  let ?check = "checked_token sample_gateway sample_env sample_auth_codec ?auth 0 0 (new_client 60)"
  let ?out = "HandleRaw sample_ingest_env None ?check sample_collect sample_ingest_start"
  have empty: "cache_get 0 ''t'' (new_client 60) = None"
    by (simp add: cache_get_def new_client_def newTokenCache_def)
  have valid: "fst (ValidateHECToken sample_env ''t'' ip ua ?auth) = Inr 7" for ip ua
    by (simp add: ValidateHECToken_def GetHECToken_def sample_office_def HECToken_IsActive_def
        new_hec_token_def Let_def)
  have "hec_answer sample_gateway sample_env sample_auth_codec ?auth ''t'' =
      Inr \<lparr>tr_valid = True, tr_token_id = ''i'', tr_token_name = ''n'', tr_user_id = ''v'', tr_client_id = ''c''\<rparr>"
    using valid
    by (simp add: hec_answer_def ask_auth_def exchange_with_def sample_gateway_def
        NewRouter_validate [OF sample_sends] case_prod_unfold decode_accepted ValidateHECToken_tokens
        split: sum.split)
      (simp add: sample_office_def new_hec_token_def)
  then have check: "?check ''t'' = Inr \<lparr>ti_token_id = ''i'', ti_user_id = ''v'', ti_client_id = ''c''\<rparr>"
    by (simp add: checked_token_def ingest_ValidateHECToken_def client_ValidateHECToken_def empty)
  have ok: "hp_status (fst (fst ?out)) = 200"
    by (rule HandleRaw_success [where data = "''t''"])
      (use check sample_collect_token in \<open>simp_all add: sample_ingest_start_def NewIngestService_def
        queueCap_def sample_collect_def auth_request_def\<close>)
  have "?out = ((fst (fst ?out), snd (fst ?out)), snd ?out)" by simp
  from accepted_event_is_token_owners [OF this ok sample_sends empty sample_collect_token]
  show ?thesis
    by (auto simp: Let_def live_token_def sample_office_def new_hec_token_def sample_ingest_start_def
        NewIngestService_def)
qed

end
