(* ===== verification/RespondRepo.thy ===== *)
theory RespondRepo
  imports Http "HOL-Library.Char_ord" "HOL-Library.List_Lexorder"
begin

text \<open>
  The repository of the respond service (\<^verbatim>\<open>respond/internal/repository/postgres.go\<close>): what its SQL
  statements do to the tables of \<^verbatim>\<open>respond/migrations/001_init.up.sql\<close>. A table is a list of rows; an
  \<open>UPDATE\<close> maps it, a \<open>SELECT\<close> filters and sorts it, and a constraint that is violated refuses the
  statement. A window function counts the rows that its query has left.

  PostgreSQL's reading of texts (\<open>uuid\<close>, \<open>jsonb\<close>, \<open>ILIKE\<close>), \<open>uuid.NewV7\<close> and the clock are in the
  record \<open>respond_env\<close>; so is the fate of each statement, which may run, not run, or run and lose its
  answer. A \<open>uuid\<close> is its canonical text, whose order is the order of the values.
\<close>

section \<open>Tables\<close>

type_synonym fields = "(string \<times> gval) list"

record schema_row =
  dr_id :: string
  dr_version_id :: string
  dr_model :: fields
  dr_view :: fields
  dr_controller :: fields
  dr_active_parameter_set :: "string option"
  dr_disabled_at :: "time option"
  dr_disabled_by :: "string option"
  dr_hidden_at :: "time option"
  dr_hidden_by :: "string option"

record case_row =
  cr_id :: string
  cr_title :: string
  cr_description :: string
  cr_status :: string
  cr_priority :: string
  cr_severity :: string
  cr_created_by :: string
  cr_assignee_id :: "string option"
  cr_detection_schema_id :: "string option"
  cr_detection_schema_version_id :: "string option"
  cr_closed_at :: "time option"
  cr_closed_by :: "string option"

record case_alert_row =
  ca_id :: string
  ca_case_id :: string
  ca_alert_id :: string
  ca_added_by :: string

record respond =
  rp_schemas :: "schema_row list"
  rp_cases :: "case_row list"
  rp_case_alerts :: "case_alert_row list"
  rp_tick :: nat                        \<comment> \<open>statements and identifiers so far\<close>

datatype fate = Runs | Not_run | Answer_lost

record respond_env =
  re_uuid7 :: "nat \<Rightarrow> string option"
  re_now :: "nat \<Rightarrow> time"
  re_fate :: "nat \<Rightarrow> fate"
  re_uuid_in :: "string \<Rightarrow> string option"      \<comment> \<open>a text as a \<open>uuid\<close>\<close>
  re_text_in :: "string \<Rightarrow> bool"               \<comment> \<open>a string as a \<open>text\<close>\<close>
  re_varchar_in :: "string \<Rightarrow> bool"            \<comment> \<open>as a \<open>VARCHAR(255)\<close>\<close>
  re_jsonb_in :: "fields \<Rightarrow> bool"              \<comment> \<open>a document as a \<open>jsonb\<close>\<close>
  re_json_text :: "gval \<Rightarrow> string"             \<comment> \<open>\<open>->>\<close> of a value that is neither null nor a string\<close>
  re_ilike :: "string \<Rightarrow> string \<Rightarrow> bool"       \<comment> \<open>text and pattern\<close>
  re_case_columns :: bool
    \<comment> \<open>whether \<open>cases\<close> has the columns \<open>severity\<close> and \<open>created_by\<close>; the migration makes neither\<close>

datatype resp_error =
    ErrSchemaNotFound | ErrCaseNotFound | Alert_not_in_case | Db_error | Uuid_error | Decode_error
  | Wrapped string resp_error

fun errors_Is :: "resp_error \<Rightarrow> resp_error \<Rightarrow> bool" where
  "errors_Is (Wrapped what e) target = (Wrapped what e = target \<or> errors_Is e target)"
| "errors_Is e target = (e = target)"

definition rtick :: "respond \<Rightarrow> respond" where
  "rtick st = st\<lparr>rp_tick := rp_tick st + 1\<rparr>"

definition NewV7 :: "respond_env \<Rightarrow> respond \<Rightarrow> string option \<times> respond" where
  "NewV7 env st = (re_uuid7 env (rp_tick st), rtick st)"

definition db_exec ::
  "respond_env \<Rightarrow> (respond \<Rightarrow> (nat \<times> respond) option) \<Rightarrow> respond \<Rightarrow> (resp_error + nat) \<times> respond" where
  \<comment> \<open>\<open>pool.Exec\<close>: the rows affected; the statement is \<open>None\<close> where the database refuses it\<close>
  "db_exec env stmt st =
     (case re_fate env (rp_tick st) of
        Not_run \<Rightarrow> (Inl Db_error, rtick st)
      | Runs \<Rightarrow>
          (case stmt st of None \<Rightarrow> (Inl Db_error, rtick st) | Some (n, st1) \<Rightarrow> (Inr n, rtick st1))
      | Answer_lost \<Rightarrow>
          (Inl Db_error, rtick (case stmt st of None \<Rightarrow> st | Some (n, st1) \<Rightarrow> st1)))"

definition db_query ::
  "respond_env \<Rightarrow> (respond \<Rightarrow> 'a option) \<Rightarrow> respond \<Rightarrow> (resp_error + 'a) \<times> respond" where
  "db_query env q st =
     (case re_fate env (rp_tick st) of
        Runs \<Rightarrow> (case q st of None \<Rightarrow> (Inl Db_error, rtick st) | Some x \<Rightarrow> (Inr x, rtick st))
      | _ \<Rightarrow> (Inl Db_error, rtick st))"

section \<open>Detection schemas\<close>

record detection_schema =
  ds_id :: string
  ds_version_id :: string
  ds_model :: "fields option"            \<comment> \<open>None: a nil map\<close>
  ds_view :: "fields option"
  ds_controller :: "fields option"
  ds_created_by :: string
  ds_disabled_at :: "time option"
  ds_disabled_by :: "string option"
  ds_hidden_at :: "time option"
  ds_hidden_by :: "string option"
  ds_version :: int

definition DetectionSchema_IsActive :: "detection_schema \<Rightarrow> bool" where
  "DetectionSchema_IsActive s \<longleftrightarrow> ds_disabled_at s = None \<and> ds_hidden_at s = None"

definition scan_schema :: "schema_row \<Rightarrow> nat \<Rightarrow> detection_schema" where
  \<comment> \<open>\<open>Scan\<close> and the three \<open>json.Unmarshal\<close>, which undo the marshalling\<close>
  "scan_schema r version =
     \<lparr>ds_id = dr_id r, ds_version_id = dr_version_id r, ds_model = Some (dr_model r),
      ds_view = Some (dr_view r), ds_controller = Some (dr_controller r), ds_created_by = [],
      ds_disabled_at = dr_disabled_at r, ds_disabled_by = dr_disabled_by r,
      ds_hidden_at = dr_hidden_at r, ds_hidden_by = dr_hidden_by r, ds_version = int version\<rparr>"

definition insert_schema ::
  "respond_env \<Rightarrow> detection_schema \<Rightarrow> respond \<Rightarrow> (nat \<times> respond) option" where
  \<comment> \<open>a nil map is marshalled as \<open>null\<close>, which the checks of the table refuse\<close>
  "insert_schema env s st =
     (case (re_uuid_in env (ds_id s), re_uuid_in env (ds_version_id s), ds_model s, ds_view s,
            ds_controller s) of
        (Some i, Some v, Some m, Some w, Some c) \<Rightarrow>
          if re_jsonb_in env m \<and> re_jsonb_in env w \<and> re_jsonb_in env c
             \<and> v \<notin> dr_version_id ` set (rp_schemas st)
          then Some (1, st\<lparr>rp_schemas := rp_schemas st @
            [\<lparr>dr_id = i, dr_version_id = v, dr_model = m, dr_view = w, dr_controller = c,
              dr_active_parameter_set = None, dr_disabled_at = None, dr_disabled_by = None,
              dr_hidden_at = None, dr_hidden_by = None\<rparr>]\<rparr>)
          else None
      | _ \<Rightarrow> None)"

definition or_draw ::
  "respond_env \<Rightarrow> string \<Rightarrow> string \<Rightarrow> respond \<Rightarrow> (resp_error + string) \<times> respond" where
  \<comment> \<open>\<open>if x == "" { x = uuid.NewV7() }\<close>\<close>
  "or_draw env what x st =
     (if x \<noteq> [] then (Inr x, st)
      else (case NewV7 env st of
              (None, st1) \<Rightarrow> (Inl (Wrapped what Uuid_error), st1)
            | (Some u, st1) \<Rightarrow> (Inr u, st1)))"

definition repo_CreateSchema ::
  "respond_env \<Rightarrow> detection_schema \<Rightarrow> respond \<Rightarrow> resp_error option \<times> respond" where
  "repo_CreateSchema env schema st =
     (case or_draw env ''failed to generate version UUID: '' (ds_version_id schema) st of
        (Inl err, st1) \<Rightarrow> (Some err, st1)
      | (Inr v, st1) \<Rightarrow>
          (case or_draw env ''failed to generate ID UUID: '' (ds_id schema) st1 of
             (Inl err, st2) \<Rightarrow> (Some err, st2)
           | (Inr i, st2) \<Rightarrow>
               (case db_exec env (insert_schema env (schema\<lparr>ds_id := i, ds_version_id := v\<rparr>)) st2 of
                  (Inl err, st3) \<Rightarrow> (Some (Wrapped ''failed to create detection schema: '' err), st3)
                | (Inr _, st3) \<Rightarrow> (None, st3))))"

definition row_number :: "schema_row list \<Rightarrow> schema_row \<Rightarrow> nat" where
  \<comment> \<open>\<open>ROW_NUMBER() OVER (PARTITION BY id ORDER BY version_id)\<close>\<close>
  "row_number rows r =
     length (filter (\<lambda>q. dr_id q = dr_id r \<and> dr_version_id q \<le> dr_version_id r) rows)"

definition row_number_desc :: "schema_row list \<Rightarrow> schema_row \<Rightarrow> nat" where
  "row_number_desc rows r =
     length (filter (\<lambda>q. dr_id q = dr_id r \<and> dr_version_id r \<le> dr_version_id q) rows)"

definition partition_count :: "schema_row list \<Rightarrow> schema_row \<Rightarrow> nat" where
  "partition_count rows r = length (filter (\<lambda>q. dr_id q = dr_id r) rows)"

definition query_row ::
  \<comment> \<open>\<open>QueryRow(...).Scan\<close>: no row is \<open>pgx.ErrNoRows\<close>\<close>
  "respond_env \<Rightarrow> resp_error \<Rightarrow> string \<Rightarrow> (respond \<Rightarrow> 'a option option) \<Rightarrow> respond \<Rightarrow>
     (resp_error + 'a) \<times> respond"
where
  "query_row env not_found what q st =
     (case db_query env q st of
        (Inl err, st1) \<Rightarrow> (Inl (Wrapped what err), st1)
      | (Inr None, st1) \<Rightarrow> (Inl not_found, st1)
      | (Inr (Some x), st1) \<Rightarrow> (Inr x, st1))"

definition select_version :: "respond_env \<Rightarrow> string \<Rightarrow> respond \<Rightarrow> detection_schema option option" where
  \<comment> \<open>the window function sees what \<open>WHERE version_id = $1\<close> leaves\<close>
  "select_version env versionID st =
     map_option (\<lambda>v.
       (case filter (\<lambda>r. dr_version_id r = v) (rp_schemas st) of
          [] \<Rightarrow> None
        | r # rs \<Rightarrow> Some (scan_schema r (row_number (r # rs) r))))
       (re_uuid_in env versionID)"

definition GetSchemaByVersionID ::
  "respond_env \<Rightarrow> string \<Rightarrow> respond \<Rightarrow> (resp_error + detection_schema) \<times> respond" where
  "GetSchemaByVersionID env versionID =
     query_row env ErrSchemaNotFound ''failed to get detection schema: '' (select_version env versionID)"

definition select_latest :: "respond_env \<Rightarrow> string \<Rightarrow> respond \<Rightarrow> detection_schema option option" where
  "select_latest env i st =
     map_option (\<lambda>u.
       (let rows = filter (\<lambda>r. dr_id r = u) (rp_schemas st) in
        map_option (\<lambda>r. scan_schema r (partition_count rows r))
          (find (\<lambda>r. row_number_desc rows r = 1) rows)))
       (re_uuid_in env i)"

definition GetLatestSchemaByID ::
  "respond_env \<Rightarrow> string \<Rightarrow> respond \<Rightarrow> (resp_error + detection_schema) \<times> respond" where
  "GetLatestSchemaByID env i =
     query_row env ErrSchemaNotFound ''failed to get detection schema: '' (select_latest env i)"

definition json_text :: "respond_env \<Rightarrow> fields \<Rightarrow> string \<Rightarrow> string option" where
  \<comment> \<open>\<open>view->>'key'\<close>; \<open>NULL\<close> is None\<close>
  "json_text env doc key =
     (case map_of doc key of
        None \<Rightarrow> None
      | Some GNil \<Rightarrow> None
      | Some (GStr s) \<Rightarrow> Some s
      | Some v \<Rightarrow> Some (re_json_text env v))"

record schema_version =
  sv_version_id :: string
  sv_version :: int
  sv_title :: string
  sv_disabled_at :: "time option"

definition select_history :: "respond_env \<Rightarrow> string \<Rightarrow> respond \<Rightarrow> schema_version list option" where
  "select_history env i st =
     map_option (\<lambda>u.
       (let rows = filter (\<lambda>r. dr_id r = u) (rp_schemas st) in
        map (\<lambda>r. \<lparr>sv_version_id = dr_version_id r, sv_version = int (row_number rows r),
                  sv_title = (case json_text env (dr_view r) ''title'' of None \<Rightarrow> [] | Some t \<Rightarrow> t),
                  sv_disabled_at = dr_disabled_at r\<rparr>)
          (rev (sort_key dr_version_id rows))))
       (re_uuid_in env i)"

definition GetSchemaVersionHistory ::
  "respond_env \<Rightarrow> string \<Rightarrow> respond \<Rightarrow> (resp_error + schema_version list) \<times> respond" where
  "GetSchemaVersionHistory env i st =
     (case db_query env (select_history env i) st of
        (Inl err, st1) \<Rightarrow> (Inl (Wrapped ''failed to get version history: '' err), st1)
      | (Inr versions, st1) \<Rightarrow>
          if versions = [] then (Inl ErrSchemaNotFound, st1) else (Inr versions, st1))"

record list_schemas_request =
  ls_page :: int
  ls_limit :: int
  ls_severity :: string
  ls_title :: string
  ls_id :: string
  ls_include_disabled :: bool
  ls_include_hidden :: bool

definition schema_where ::
  "respond_env \<Rightarrow> list_schemas_request \<Rightarrow> (schema_row \<Rightarrow> bool) option" where
  \<comment> \<open>the \<open>WHERE\<close> clause; None where an argument is refused\<close>
  "schema_where env req =
     (if ls_id req \<noteq> [] \<and> re_uuid_in env (ls_id req) = None then None
      else if \<not> re_text_in env (ls_severity req) \<or> \<not> re_text_in env (ls_title req) then None
      else Some (\<lambda>r.
        (ls_include_disabled req \<or> dr_disabled_at r = None)
        \<and> (ls_include_hidden req \<or> dr_hidden_at r = None)
        \<and> (ls_id req = [] \<or> Some (dr_id r) = re_uuid_in env (ls_id req))
        \<and> (ls_severity req = [] \<or> json_text env (dr_view r) ''severity'' = Some (ls_severity req))
        \<and> (ls_title req = [] \<or>
             (case json_text env (dr_view r) ''title'' of
                None \<Rightarrow> False
              | Some t \<Rightarrow> re_ilike env t (''%'' @ ls_title req @ ''%'')))))"

definition page_of :: "int \<Rightarrow> int \<Rightarrow> 'a list \<Rightarrow> 'a list option" where
  \<comment> \<open>\<open>LIMIT\<close> and \<open>OFFSET\<close>, which must not be negative\<close>
  "page_of limit offset rows =
     (if limit < 0 \<or> offset < 0 then None else Some (take (nat limit) (drop (nat offset) rows)))"

definition select_schemas ::
  "respond_env \<Rightarrow> list_schemas_request \<Rightarrow> respond \<Rightarrow> detection_schema list option" where
  "select_schemas env req st =
     Option.bind (schema_where env req) (\<lambda>cond.
       (let rows = filter cond (rp_schemas st);
            ranked = filter (\<lambda>r. row_number_desc rows r = 1) rows in
        page_of (ls_limit req) (wrap64 ((ls_page req - 1) * ls_limit req))
          (map (\<lambda>r. scan_schema r (partition_count rows r)) (rev (sort_key dr_version_id ranked)))))"

definition repo_ListSchemas ::
  "respond_env \<Rightarrow> list_schemas_request \<Rightarrow> respond \<Rightarrow> (resp_error + detection_schema list \<times> int) \<times> respond"
where
  "repo_ListSchemas env req st =
     (case db_query env (\<lambda>s. map_option (\<lambda>cond.
               int (length (remdups (map dr_id (filter cond (rp_schemas s)))))) (schema_where env req)) st of
        (Inl err, st1) \<Rightarrow> (Inl (Wrapped ''failed to count schemas: '' err), st1)
      | (Inr n, st1) \<Rightarrow>
          (case db_query env (select_schemas env req) st1 of
             (Inl err, st2) \<Rightarrow> (Inl (Wrapped ''failed to list schemas: '' err), st2)
           | (Inr schemas, st2) \<Rightarrow> (Inr (schemas, n), st2)))"

definition update_schemas ::
  "(schema_row \<Rightarrow> bool) \<Rightarrow> (schema_row \<Rightarrow> schema_row) \<Rightarrow> respond \<Rightarrow> nat \<times> respond" where
  \<comment> \<open>\<open>UPDATE detection_schemas SET ... WHERE ...\<close>\<close>
  "update_schemas cond f st =
     (length (filter cond (rp_schemas st)),
      st\<lparr>rp_schemas := map (\<lambda>r. if cond r then f r else r) (rp_schemas st)\<rparr>)"

definition exec_found ::
  "respond_env \<Rightarrow> resp_error \<Rightarrow> string \<Rightarrow> (respond \<Rightarrow> (nat \<times> respond) option) \<Rightarrow> respond \<Rightarrow>
     resp_error option \<times> respond"
where
  \<comment> \<open>an \<open>Exec\<close> that must affect a row\<close>
  "exec_found env not_found what stmt st =
     (case db_exec env stmt st of
        (Inl err, st1) \<Rightarrow> (Some (Wrapped what err), st1)
      | (Inr n, st1) \<Rightarrow> (if n = 0 then Some not_found else None, st1))"

definition repo_DisableSchema ::
  "respond_env \<Rightarrow> string \<Rightarrow> string \<Rightarrow> respond \<Rightarrow> resp_error option \<times> respond" where
  "repo_DisableSchema env versionID userID =
     exec_found env ErrSchemaNotFound ''failed to disable schema: '' (\<lambda>st.
       (case (re_uuid_in env versionID, re_uuid_in env userID) of
          (Some v, Some u) \<Rightarrow>
            Some (update_schemas (\<lambda>r. dr_version_id r = v \<and> dr_disabled_at r = None)
              (\<lambda>r. r\<lparr>dr_disabled_at := Some (re_now env (rp_tick st)), dr_disabled_by := Some u\<rparr>) st)
        | _ \<Rightarrow> None))"

definition repo_EnableSchema ::
  "respond_env \<Rightarrow> string \<Rightarrow> respond \<Rightarrow> resp_error option \<times> respond" where
  "repo_EnableSchema env versionID =
     exec_found env ErrSchemaNotFound ''failed to enable schema: '' (\<lambda>st.
       map_option (\<lambda>v. update_schemas (\<lambda>r. dr_version_id r = v)
           (\<lambda>r. r\<lparr>dr_disabled_at := None, dr_disabled_by := None\<rparr>) st)
         (re_uuid_in env versionID))"

definition repo_HideSchema ::
  "respond_env \<Rightarrow> string \<Rightarrow> string \<Rightarrow> respond \<Rightarrow> resp_error option \<times> respond" where
  "repo_HideSchema env versionID userID =
     exec_found env ErrSchemaNotFound ''failed to hide schema: '' (\<lambda>st.
       (case (re_uuid_in env versionID, re_uuid_in env userID) of
          (Some v, Some u) \<Rightarrow>
            Some (update_schemas (\<lambda>r. dr_version_id r = v \<and> dr_hidden_at r = None)
              (\<lambda>r. r\<lparr>dr_hidden_at := Some (re_now env (rp_tick st)), dr_hidden_by := Some u\<rparr>) st)
        | _ \<Rightarrow> None))"

definition repo_SetActiveParameterSet ::
  "respond_env \<Rightarrow> string \<Rightarrow> string \<Rightarrow> respond \<Rightarrow> resp_error option \<times> respond" where
  "repo_SetActiveParameterSet env versionID parameterSet =
     exec_found env ErrSchemaNotFound ''failed to set active parameter set: '' (\<lambda>st.
       (case re_uuid_in env versionID of
          None \<Rightarrow> None
        | Some v \<Rightarrow>
            (let active = (\<lambda>r. dr_version_id r = v \<and> dr_disabled_at r = None \<and> dr_hidden_at r = None) in
             if list_ex active (rp_schemas st) \<and> \<not> re_varchar_in env parameterSet
                \<or> \<not> re_text_in env parameterSet
             then None
             else Some (update_schemas active
               (\<lambda>r. r\<lparr>dr_active_parameter_set := Some parameterSet\<rparr>) st))))"

section \<open>Cases\<close>

record case_info =
  cs_id :: string
  cs_title :: string
  cs_description :: string
  cs_severity :: string
  cs_status :: string
  cs_priority :: string
  cs_assignee_id :: "string option"
  cs_created_by :: string
  cs_closed_at :: "time option"
  cs_closed_by :: "string option"
  cs_alert_count :: int
  cs_detection_schema_id :: "string option"
  cs_detection_schema_version_id :: "string option"

record update_case_request =
  uc_title :: "string option"
  uc_description :: "string option"
  uc_severity :: "string option"
  uc_status :: "string option"
  uc_priority :: "string option"
  uc_assignee_id :: "string option"

record list_cases_request =
  lc_page :: int
  lc_limit :: int
  lc_status :: string
  lc_severity :: string
  lc_priority :: string
  lc_assignee_id :: string

definition case_statuses :: "string list" where
  "case_statuses = [''open'', ''in_progress'', ''resolved'', ''closed'']"

definition case_priorities :: "string list" where
  "case_priorities = [''low'', ''medium'', ''high'', ''critical'']"

definition null_uuid :: "respond_env \<Rightarrow> string option \<Rightarrow> string option option" where
  \<comment> \<open>a pointer as a nullable \<open>uuid\<close>; None where it is refused\<close>
  "null_uuid env x =
     (case x of None \<Rightarrow> Some None | Some s \<Rightarrow> map_option Some (re_uuid_in env s))"

definition insert_case :: "respond_env \<Rightarrow> case_info \<Rightarrow> respond \<Rightarrow> (nat \<times> respond) option" where
  "insert_case env c st =
     (case (re_uuid_in env (cs_id c), null_uuid env (cs_assignee_id c),
            null_uuid env (cs_detection_schema_id c), null_uuid env (cs_detection_schema_version_id c)) of
        (Some i, Some a, Some d, Some v) \<Rightarrow>
          if re_case_columns env \<and> re_varchar_in env (cs_title c) \<and> re_text_in env (cs_description c)
             \<and> cs_status c \<in> set case_statuses \<and> cs_priority c \<in> set case_priorities
             \<and> re_text_in env (cs_severity c) \<and> re_text_in env (cs_created_by c)
             \<and> i \<notin> cr_id ` set (rp_cases st)
          then Some (1, st\<lparr>rp_cases := rp_cases st @
            [\<lparr>cr_id = i, cr_title = cs_title c, cr_description = cs_description c,
              cr_status = cs_status c, cr_priority = cs_priority c, cr_severity = cs_severity c,
              cr_created_by = cs_created_by c, cr_assignee_id = a, cr_detection_schema_id = d,
              cr_detection_schema_version_id = v, cr_closed_at = None, cr_closed_by = None\<rparr>]\<rparr>)
          else None
      | _ \<Rightarrow> None)"

definition repo_CreateCase ::
  "respond_env \<Rightarrow> case_info \<Rightarrow> respond \<Rightarrow> resp_error option \<times> respond" where
  "repo_CreateCase env c st =
     (case or_draw env ''failed to generate case UUID: '' (cs_id c) st of
        (Inl err, st1) \<Rightarrow> (Some err, st1)
      | (Inr i, st1) \<Rightarrow>
          (case db_exec env (insert_case env (c\<lparr>cs_id := i\<rparr>)) st1 of
             (Inl err, st2) \<Rightarrow> (Some (Wrapped ''failed to create case: '' err), st2)
           | (Inr _, st2) \<Rightarrow> (None, st2)))"

definition scan_case :: "case_alert_row list \<Rightarrow> case_row \<Rightarrow> case_info" where
  \<comment> \<open>a row of the join, grouped by the case\<close>
  "scan_case alerts r =
     \<lparr>cs_id = cr_id r, cs_title = cr_title r, cs_description = cr_description r,
      cs_severity = cr_severity r, cs_status = cr_status r, cs_priority = cr_priority r,
      cs_assignee_id = cr_assignee_id r, cs_created_by = cr_created_by r,
      cs_closed_at = cr_closed_at r, cs_closed_by = cr_closed_by r,
      cs_alert_count = int (length (filter (\<lambda>a. ca_case_id a = cr_id r) alerts)),
      cs_detection_schema_id = cr_detection_schema_id r,
      cs_detection_schema_version_id = cr_detection_schema_version_id r\<rparr>"

definition select_case :: "respond_env \<Rightarrow> string \<Rightarrow> respond \<Rightarrow> case_info option option" where
  "select_case env i st =
     (if \<not> re_case_columns env then None
      else map_option (\<lambda>u. map_option (scan_case (rp_case_alerts st))
             (find (\<lambda>r. cr_id r = u) (rp_cases st))) (re_uuid_in env i))"

definition GetCaseByID ::
  "respond_env \<Rightarrow> string \<Rightarrow> respond \<Rightarrow> (resp_error + case_info) \<times> respond" where
  "GetCaseByID env i = query_row env ErrCaseNotFound ''failed to get case: '' (select_case env i)"

definition case_where :: "respond_env \<Rightarrow> list_cases_request \<Rightarrow> (case_row \<Rightarrow> bool) option" where
  "case_where env req =
     (if \<not> re_text_in env (lc_status req) \<or> \<not> re_text_in env (lc_priority req)
         \<or> \<not> re_text_in env (lc_severity req) then None
      else if lc_severity req \<noteq> [] \<and> \<not> re_case_columns env then None
      else if lc_assignee_id req \<noteq> [] \<and> re_uuid_in env (lc_assignee_id req) = None then None
      else Some (\<lambda>r.
        (lc_status req = [] \<or> cr_status r = lc_status req)
        \<and> (lc_priority req = [] \<or> cr_priority r = lc_priority req)
        \<and> (lc_severity req = [] \<or> cr_severity r = lc_severity req)
        \<and> (lc_assignee_id req = [] \<or>
             cr_assignee_id r \<noteq> None \<and> cr_assignee_id r = re_uuid_in env (lc_assignee_id req))))"

definition select_cases :: "respond_env \<Rightarrow> list_cases_request \<Rightarrow> respond \<Rightarrow> case_info list option" where
  "select_cases env req st =
     (if \<not> re_case_columns env then None
      else Option.bind (case_where env req) (\<lambda>cond.
        page_of (lc_limit req) (wrap64 ((lc_page req - 1) * lc_limit req))
          (map (scan_case (rp_case_alerts st)) (rev (sort_key cr_id (filter cond (rp_cases st)))))))"

definition repo_ListCases ::
  "respond_env \<Rightarrow> list_cases_request \<Rightarrow> respond \<Rightarrow> (resp_error + case_info list \<times> int) \<times> respond" where
  "repo_ListCases env req st =
     (case db_query env (\<lambda>s. map_option (\<lambda>cond. int (length (filter cond (rp_cases s))))
             (case_where env req)) st of
        (Inl err, st1) \<Rightarrow> (Inl (Wrapped ''failed to count cases: '' err), st1)
      | (Inr n, st1) \<Rightarrow>
          (case db_query env (select_cases env req) st1 of
             (Inl err, st2) \<Rightarrow> (Inl (Wrapped ''failed to list cases: '' err), st2)
           | (Inr cases, st2) \<Rightarrow> (Inr (cases, n), st2)))"

definition update_cases ::
  "(case_row \<Rightarrow> bool) \<Rightarrow> (case_row \<Rightarrow> case_row) \<Rightarrow> respond \<Rightarrow> nat \<times> respond" where
  "update_cases cond f st =
     (length (filter cond (rp_cases st)),
      st\<lparr>rp_cases := map (\<lambda>r. if cond r then f r else r) (rp_cases st)\<rparr>)"

definition or_else :: "'a option \<Rightarrow> 'a \<Rightarrow> 'a" where
  "or_else x y = (case x of None \<Rightarrow> y | Some z \<Rightarrow> z)"

definition update_case_row :: "string option \<Rightarrow> update_case_request \<Rightarrow> case_row \<Rightarrow> case_row" where
  "update_case_row assignee req r =
     r\<lparr>cr_title := or_else (uc_title req) (cr_title r),
       cr_description := or_else (uc_description req) (cr_description r),
       cr_status := or_else (uc_status req) (cr_status r),
       cr_priority := or_else (uc_priority req) (cr_priority r),
       cr_assignee_id := (if assignee = None then cr_assignee_id r else assignee)\<rparr>"

definition repo_UpdateCase ::
  "respond_env \<Rightarrow> string \<Rightarrow> update_case_request \<Rightarrow> respond \<Rightarrow> resp_error option \<times> respond" where
  \<comment> \<open>without a field to set, the statement is \<open>UPDATE cases SET WHERE ...\<close>, which does not parse; the
      checks of the table are looked at where a row is updated\<close>
  "repo_UpdateCase env i req =
     exec_found env ErrCaseNotFound ''failed to update case: '' (\<lambda>st.
       (case (re_uuid_in env i, null_uuid env (uc_assignee_id req)) of
          (Some u, Some a) \<Rightarrow>
            (let texts = [uc_title req, uc_description req, uc_status req, uc_priority req];
                 rows = list_ex (\<lambda>r. cr_id r = u) (rp_cases st);
                 ok = (\<lambda>x p. case x of None \<Rightarrow> True | Some s \<Rightarrow> p s) in
             if texts = [None, None, None, None] \<and> uc_assignee_id req = None then None
             else if \<not> list_all (\<lambda>x. ok x (re_text_in env)) texts then None
             else if rows \<and> \<not> (ok (uc_title req) (re_varchar_in env)
                     \<and> ok (uc_status req) (\<lambda>s. s \<in> set case_statuses)
                     \<and> ok (uc_priority req) (\<lambda>s. s \<in> set case_priorities)) then None
             else Some (update_cases (\<lambda>r. cr_id r = u) (update_case_row a req) st))
        | _ \<Rightarrow> None))"

definition repo_CloseCase ::
  "respond_env \<Rightarrow> string \<Rightarrow> string \<Rightarrow> respond \<Rightarrow> resp_error option \<times> respond" where
  "repo_CloseCase env i userID =
     exec_found env ErrCaseNotFound ''failed to close case: '' (\<lambda>st.
       (case (re_uuid_in env i, re_uuid_in env userID) of
          (Some u, Some by_user) \<Rightarrow>
            Some (update_cases (\<lambda>r. cr_id r = u)
              (\<lambda>r. r\<lparr>cr_status := ''closed'', cr_closed_at := Some (re_now env (rp_tick st)),
                     cr_closed_by := Some by_user\<rparr>) st)
        | _ \<Rightarrow> None))"

definition repo_ReopenCase :: "respond_env \<Rightarrow> string \<Rightarrow> respond \<Rightarrow> resp_error option \<times> respond" where
  "repo_ReopenCase env i =
     exec_found env ErrCaseNotFound ''failed to reopen case: '' (\<lambda>st.
       map_option (\<lambda>u. update_cases (\<lambda>r. cr_id r = u)
           (\<lambda>r. r\<lparr>cr_status := ''open'', cr_closed_at := None, cr_closed_by := None\<rparr>) st)
         (re_uuid_in env i))"

section \<open>The alerts of a case\<close>

definition insert_case_alert ::
  "respond_env \<Rightarrow> string \<Rightarrow> string \<Rightarrow> string \<Rightarrow> string \<Rightarrow> respond \<Rightarrow> (nat \<times> respond) option" where
  \<comment> \<open>\<open>ON CONFLICT (case_id, alert_id) DO NOTHING\<close>\<close>
  "insert_case_alert env i caseID alertID userID st =
     (case (re_uuid_in env i, re_uuid_in env caseID, re_uuid_in env userID) of
        (Some u, Some k, Some by_user) \<Rightarrow>
          if \<not> re_varchar_in env alertID \<or> k \<notin> cr_id ` set (rp_cases st) then None
          else if list_ex (\<lambda>a. ca_case_id a = k \<and> ca_alert_id a = alertID) (rp_case_alerts st)
          then Some (0, st)
          else if u \<in> ca_id ` set (rp_case_alerts st) then None
          else Some (1, st\<lparr>rp_case_alerts := rp_case_alerts st @
            [\<lparr>ca_id = u, ca_case_id = k, ca_alert_id = alertID, ca_added_by = by_user\<rparr>]\<rparr>)
      | _ \<Rightarrow> None)"

fun add_alerts ::
  \<comment> \<open>the loop; what was added before an error stays\<close>
  "respond_env \<Rightarrow> string \<Rightarrow> string list \<Rightarrow> string \<Rightarrow> respond \<Rightarrow> resp_error option \<times> respond" where
  "add_alerts env caseID [] userID st = (None, st)"
| "add_alerts env caseID (alertID # alertIDs) userID st =
     (case NewV7 env st of
        (None, st1) \<Rightarrow> (Some (Wrapped ''failed to generate alert UUID: '' Uuid_error), st1)
      | (Some i, st1) \<Rightarrow>
          (case db_exec env (insert_case_alert env i caseID alertID userID) st1 of
             (Inl err, st2) \<Rightarrow> (Some (Wrapped ''failed to add alert to case: '' err), st2)
           | (Inr _, st2) \<Rightarrow> add_alerts env caseID alertIDs userID st2))"

definition repo_AddAlertsToCase ::
  "respond_env \<Rightarrow> string \<Rightarrow> string list \<Rightarrow> string \<Rightarrow> respond \<Rightarrow> resp_error option \<times> respond" where
  "repo_AddAlertsToCase env caseID alertIDs userID st =
     (case db_query env (\<lambda>s. map_option (\<lambda>k. k \<in> cr_id ` set (rp_cases s)) (re_uuid_in env caseID)) st of
        (Inl err, st1) \<Rightarrow> (Some (Wrapped ''failed to check case existence: '' err), st1)
      | (Inr exists, st1) \<Rightarrow>
          if \<not> exists then (Some ErrCaseNotFound, st1)
          else add_alerts env caseID alertIDs userID st1)"

definition GetCaseAlerts ::
  "respond_env \<Rightarrow> string \<Rightarrow> respond \<Rightarrow> (resp_error + case_alert_row list) \<times> respond" where
  "GetCaseAlerts env caseID st =
     (case db_query env (\<lambda>s. map_option (\<lambda>k.
              rev (sort_key ca_id (filter (\<lambda>a. ca_case_id a = k) (rp_case_alerts s))))
              (re_uuid_in env caseID)) st of
        (Inl err, st1) \<Rightarrow> (Inl (Wrapped ''failed to get case alerts: '' err), st1)
      | (Inr alerts, st1) \<Rightarrow> (Inr alerts, st1))"

definition repo_RemoveAlertFromCase ::
  "respond_env \<Rightarrow> string \<Rightarrow> string \<Rightarrow> respond \<Rightarrow> resp_error option \<times> respond" where
  "repo_RemoveAlertFromCase env caseID alertID =
     exec_found env Alert_not_in_case ''failed to remove alert from case: '' (\<lambda>st.
       (case re_uuid_in env caseID of
          None \<Rightarrow> None
        | Some k \<Rightarrow>
            if \<not> re_text_in env alertID then None
            else (let gone = (\<lambda>a. ca_case_id a = k \<and> ca_alert_id a = alertID) in
              Some (length (filter gone (rp_case_alerts st)),
                    st\<lparr>rp_case_alerts := filter (\<lambda>a. \<not> gone a) (rp_case_alerts st)\<rparr>))))"

end
