(* ===== verification/RespondService.thy ===== *)
theory RespondService
  imports RespondRepo
begin

text \<open>
  The operations of the respond service (\<^verbatim>\<open>respond/internal/service/service.go\<close>) over its repository,
  the correlation scheduler (\<^verbatim>\<open>respond/internal/scheduler/scheduler.go\<close>) and the handler of the
  correlation results (\<^verbatim>\<open>respond/internal/nats/handler.go\<close>). What is published on the message bus is
  returned as a list, in the order of the calls.
\<close>

section \<open>Detection schemas\<close>

record schema_request =
  sq_id :: string                       \<comment> \<open>empty in an update request\<close>
  sq_model :: "fields option"
  sq_view :: "fields option"
  sq_controller :: "fields option"

definition schema_of_request :: "schema_request \<Rightarrow> string \<Rightarrow> string \<Rightarrow> detection_schema" where
  "schema_of_request req i versionID =
     \<lparr>ds_id = i, ds_version_id = versionID, ds_model = sq_model req, ds_view = sq_view req,
      ds_controller = sq_controller req, ds_created_by = [], ds_disabled_at = None,
      ds_disabled_by = None, ds_hidden_at = None, ds_hidden_by = None, ds_version = 0\<rparr>"

definition respond_CreateSchema ::
  "respond_env \<Rightarrow> schema_request \<Rightarrow> respond \<Rightarrow> (resp_error + detection_schema) \<times> respond" where
  "respond_CreateSchema env req st =
     (case or_draw env ''failed to generate schema ID: '' (sq_id req) st of
        (Inl err, st1) \<Rightarrow> (Inl err, st1)
      | (Inr i, st1) \<Rightarrow>
          (case NewV7 env st1 of
             (None, st2) \<Rightarrow> (Inl (Wrapped ''failed to generate version ID: '' Uuid_error), st2)
           | (Some v, st2) \<Rightarrow>
               (case repo_CreateSchema env (schema_of_request req i v) st2 of
                  (Some err, st3) \<Rightarrow> (Inl (Wrapped ''failed to create schema: '' err), st3)
                | (None, st3) \<Rightarrow> GetSchemaByVersionID env v st3)))"

definition respond_GetSchema ::
  "respond_env \<Rightarrow> string \<Rightarrow> respond \<Rightarrow> (resp_error + detection_schema) \<times> respond" where
  "respond_GetSchema env i st =
     (case GetLatestSchemaByID env i st of
        (Inr schema, st1) \<Rightarrow> (Inr schema, st1)
      | (Inl err, st1) \<Rightarrow>
          if errors_Is err ErrSchemaNotFound then GetSchemaByVersionID env i st1 else (Inl err, st1))"

record 'a paged =
  pd_items :: "'a list"
  pd_pagination :: pagination
  pd_total_pages :: int

definition page_defaults :: "int \<Rightarrow> int \<Rightarrow> int \<Rightarrow> int \<times> int" where
  \<comment> \<open>the page and the limit that \<open>ListSchemas\<close> and \<open>ListCases\<close> put in the request\<close>
  "page_defaults preset page limit =
     (if page < 1 then 1 else page, if limit < 1 then preset else if limit > 100 then 100 else limit)"

definition paged_of :: "int \<Rightarrow> int \<Rightarrow> int \<Rightarrow> 'a list \<Rightarrow> 'a paged" where
  "paged_of page limit n items =
     (let p = \<lparr>pg_page = page, pg_limit = limit, pg_total = n\<rparr> in
      \<lparr>pd_items = items, pd_pagination = p, pd_total_pages = total_pages p\<rparr>)"

definition respond_ListSchemas ::
  "respond_env \<Rightarrow> list_schemas_request \<Rightarrow> respond \<Rightarrow> (resp_error + detection_schema paged) \<times> respond"
where
  "respond_ListSchemas env req st =
     (let (page, limit) = page_defaults 50 (ls_page req) (ls_limit req) in
      case repo_ListSchemas env (req\<lparr>ls_page := page, ls_limit := limit\<rparr>) st of
        (Inl err, st1) \<Rightarrow> (Inl (Wrapped ''failed to list schemas: '' err), st1)
      | (Inr (schemas, n), st1) \<Rightarrow> (Inr (paged_of page limit n schemas), st1))"

definition respond_UpdateSchema ::
  "respond_env \<Rightarrow> string \<Rightarrow> schema_request \<Rightarrow> respond \<Rightarrow> (resp_error + detection_schema) \<times> respond"
where
  "respond_UpdateSchema env i req st =
     (case GetLatestSchemaByID env i st of
        (Inl err, st1) \<Rightarrow> (Inl (Wrapped ''failed to get existing schema: '' err), st1)
      | (Inr _, st1) \<Rightarrow>
          (case NewV7 env st1 of
             (None, st2) \<Rightarrow> (Inl (Wrapped ''failed to generate version ID: '' Uuid_error), st2)
           | (Some v, st2) \<Rightarrow>
               (case repo_CreateSchema env (schema_of_request req i v) st2 of
                  (Some err, st3) \<Rightarrow> (Inl (Wrapped ''failed to create new version: '' err), st3)
                | (None, st3) \<Rightarrow> GetSchemaByVersionID env v st3)))"

definition on_latest ::
  "respond_env \<Rightarrow> string \<Rightarrow> string \<Rightarrow> (string \<Rightarrow> respond \<Rightarrow> resp_error option \<times> respond) \<Rightarrow>
     respond \<Rightarrow> (resp_error + detection_schema) \<times> respond"
where
  \<comment> \<open>the latest version, a statement on it, and the version read again\<close>
  "on_latest env what i op st =
     (case GetLatestSchemaByID env i st of
        (Inl err, st1) \<Rightarrow> (Inl err, st1)
      | (Inr schema, st1) \<Rightarrow>
          (case op (ds_version_id schema) st1 of
             (Some err, st2) \<Rightarrow> (Inl (Wrapped what err), st2)
           | (None, st2) \<Rightarrow> GetSchemaByVersionID env (ds_version_id schema) st2))"

definition respond_DisableSchema ::
  "respond_env \<Rightarrow> string \<Rightarrow> string \<Rightarrow> respond \<Rightarrow> (resp_error + detection_schema) \<times> respond" where
  "respond_DisableSchema env i userID =
     on_latest env ''failed to disable schema: '' i (\<lambda>v. repo_DisableSchema env v userID)"

definition respond_EnableSchema ::
  "respond_env \<Rightarrow> string \<Rightarrow> respond \<Rightarrow> (resp_error + detection_schema) \<times> respond" where
  "respond_EnableSchema env i =
     on_latest env ''failed to enable schema: '' i (repo_EnableSchema env)"

definition respond_HideSchema ::
  "respond_env \<Rightarrow> string \<Rightarrow> string \<Rightarrow> respond \<Rightarrow> resp_error option \<times> respond" where
  "respond_HideSchema env i userID st =
     (case GetLatestSchemaByID env i st of
        (Inl err, st1) \<Rightarrow> (Some err, st1)
      | (Inr schema, st1) \<Rightarrow> repo_HideSchema env (ds_version_id schema) userID st1)"

record version_history =
  vh_id :: string
  vh_title :: string
  vh_versions :: "schema_version list"

definition respond_GetVersionHistory ::
  "respond_env \<Rightarrow> string \<Rightarrow> respond \<Rightarrow> (resp_error + version_history) \<times> respond" where
  "respond_GetVersionHistory env i st =
     (case GetSchemaVersionHistory env i st of
        (Inl err, st1) \<Rightarrow> (Inl (Wrapped ''failed to get version history: '' err), st1)
      | (Inr versions, st1) \<Rightarrow>
          (Inr \<lparr>vh_id = i, vh_title = (case versions of [] \<Rightarrow> [] | v # _ \<Rightarrow> sv_title v),
                vh_versions = versions\<rparr>, st1))"

definition respond_SetActiveParameterSet ::
  "respond_env \<Rightarrow> string \<Rightarrow> string \<Rightarrow> respond \<Rightarrow> (resp_error + detection_schema) \<times> respond" where
  "respond_SetActiveParameterSet env i parameterSet =
     on_latest env ''failed to set active parameter set: '' i
       (\<lambda>v. repo_SetActiveParameterSet env v parameterSet)"

section \<open>Cases\<close>

record create_case_request =
  cq_title :: string
  cq_description :: string
  cq_severity :: string
  cq_priority :: string
  cq_assignee_id :: "string option"
  cq_alert_ids :: "string list"

definition case_of_request :: "create_case_request \<Rightarrow> string \<Rightarrow> string \<Rightarrow> case_info" where
  "case_of_request req i userID =
     \<lparr>cs_id = i, cs_title = cq_title req, cs_description = cq_description req,
      cs_severity = (if cq_severity req = [] then ''medium'' else cq_severity req),
      cs_status = ''open'',
      cs_priority = (if cq_priority req = [] then ''medium'' else cq_priority req),
      cs_assignee_id = cq_assignee_id req, cs_created_by = userID, cs_closed_at = None,
      cs_closed_by = None, cs_alert_count = 0, cs_detection_schema_id = None,
      cs_detection_schema_version_id = None\<rparr>"

definition respond_CreateCase ::
  "respond_env \<Rightarrow> create_case_request \<Rightarrow> string \<Rightarrow> respond \<Rightarrow> (resp_error + case_info) \<times> respond" where
  \<comment> \<open>what adding the alerts answers is only logged\<close>
  "respond_CreateCase env req userID st =
     (case NewV7 env st of
        (None, st1) \<Rightarrow> (Inl (Wrapped ''failed to generate case ID: '' Uuid_error), st1)
      | (Some i, st1) \<Rightarrow>
          (case repo_CreateCase env (case_of_request req i userID) st1 of
             (Some err, st2) \<Rightarrow> (Inl (Wrapped ''failed to create case: '' err), st2)
           | (None, st2) \<Rightarrow>
               GetCaseByID env i
                 (if cq_alert_ids req = [] then st2
                  else snd (repo_AddAlertsToCase env i (cq_alert_ids req) userID st2))))"

definition respond_ListCases ::
  "respond_env \<Rightarrow> list_cases_request \<Rightarrow> respond \<Rightarrow> (resp_error + case_info paged) \<times> respond" where
  "respond_ListCases env req st =
     (let (page, limit) = page_defaults 20 (lc_page req) (lc_limit req) in
      case repo_ListCases env (req\<lparr>lc_page := page, lc_limit := limit\<rparr>) st of
        (Inl err, st1) \<Rightarrow> (Inl (Wrapped ''failed to list cases: '' err), st1)
      | (Inr (cases, n), st1) \<Rightarrow> (Inr (paged_of page limit n cases), st1))"

definition on_case ::
  "respond_env \<Rightarrow> string \<Rightarrow> string \<Rightarrow> (respond \<Rightarrow> resp_error option \<times> respond) \<Rightarrow> respond \<Rightarrow>
     (resp_error + case_info) \<times> respond"
where
  \<comment> \<open>a statement on a case, and the case read again\<close>
  "on_case env what i op st =
     (case op st of
        (Some err, st1) \<Rightarrow> (Inl (Wrapped what err), st1)
      | (None, st1) \<Rightarrow> GetCaseByID env i st1)"

definition respond_UpdateCase ::
  "respond_env \<Rightarrow> string \<Rightarrow> update_case_request \<Rightarrow> respond \<Rightarrow> (resp_error + case_info) \<times> respond" where
  "respond_UpdateCase env i req =
     on_case env ''failed to update case: '' i (repo_UpdateCase env i req)"

definition respond_CloseCase ::
  "respond_env \<Rightarrow> string \<Rightarrow> string \<Rightarrow> respond \<Rightarrow> (resp_error + case_info) \<times> respond" where
  "respond_CloseCase env i userID =
     on_case env ''failed to close case: '' i (repo_CloseCase env i userID)"

definition respond_ReopenCase ::
  "respond_env \<Rightarrow> string \<Rightarrow> respond \<Rightarrow> (resp_error + case_info) \<times> respond" where
  "respond_ReopenCase env i =
     on_case env ''failed to reopen case: '' i (repo_ReopenCase env i)"

section \<open>The scheduler\<close>

record correlation_job =
  cj_job_id :: string
  cj_schema_id :: string
  cj_schema_version_id :: string
  cj_query :: string
  cj_from :: time
  cj_to :: time
  cj_aggregation_key :: string
  cj_threshold :: int

definition getStringFromMap :: "fields \<Rightarrow> string \<Rightarrow> string" where
  "getStringFromMap m key = (case map_of m key of Some (GStr s) \<Rightarrow> s | _ \<Rightarrow> [])"

definition runSchemaCorrelation ::
  "respond_env \<Rightarrow> (string \<Rightarrow> int option) \<Rightarrow> detection_schema \<Rightarrow> respond \<Rightarrow>
     correlation_job option \<times> respond"
where
  \<comment> \<open>the job it publishes; \<open>parse_duration\<close> is \<open>time.ParseDuration\<close>\<close>
  "runSchemaCorrelation env parse_duration schema st =
     (case ds_controller schema of
        None \<Rightarrow> (None, st)
      | Some controller \<Rightarrow>
          let query = getStringFromMap controller ''query'';
              window = (case parse_duration (getStringFromMap controller ''time_window'') of
                          None \<Rightarrow> 5 * 60 * second | Some d \<Rightarrow> d);
              threshold = (case map_of controller ''threshold'' of
                             Some (GFloat m e) \<Rightarrow> float_to_int m e | _ \<Rightarrow> 1) in
          if query = [] then (None, st)
          else
            (case NewV7 env st of
               (None, st1) \<Rightarrow> (None, st1)
             | (Some jobID, st1) \<Rightarrow>
                 let now = re_now env (rp_tick st1) in
                 (Some \<lparr>cj_job_id = jobID, cj_schema_id = ds_id schema,
                        cj_schema_version_id = ds_version_id schema, cj_query = query,
                        cj_from = now - window, cj_to = now,
                        cj_aggregation_key = getStringFromMap controller ''aggregation_key'',
                        cj_threshold = threshold\<rparr>, st1)))"

fun run_each ::
  "respond_env \<Rightarrow> (string \<Rightarrow> int option) \<Rightarrow> detection_schema list \<Rightarrow> respond \<Rightarrow>
     correlation_job list \<times> respond"
where
  "run_each env parse_duration [] st = ([], st)"
| "run_each env parse_duration (schema # schemas) st =
     (case runSchemaCorrelation env parse_duration schema st of
        (job, st1) \<Rightarrow>
          (case run_each env parse_duration schemas st1 of
             (jobs, st2) \<Rightarrow> ((case job of None \<Rightarrow> jobs | Some j \<Rightarrow> j # jobs), st2)))"

definition active_schemas_request :: list_schemas_request where
  "active_schemas_request =
     \<lparr>ls_page = 1, ls_limit = 1000, ls_severity = [], ls_title = [], ls_id = [],
      ls_include_disabled = False, ls_include_hidden = False\<rparr>"

definition runCorrelations ::
  "respond_env \<Rightarrow> (string \<Rightarrow> int option) \<Rightarrow> respond \<Rightarrow> correlation_job list \<times> respond" where
  "runCorrelations env parse_duration st =
     (case repo_ListSchemas env active_schemas_request st of
        (Inl err, st1) \<Rightarrow> ([], st1)
      | (Inr (schemas, _), st1) \<Rightarrow> run_each env parse_duration schemas st1)"

section \<open>Correlation results\<close>

record correlation_result =
  co_schema_id :: string
  co_schema_version_id :: string
  co_success :: bool
  co_triggered :: bool
  co_matches :: "(string \<times> int) list"   \<comment> \<open>aggregation key and number of events\<close>

record alert_created =
  al_alert_id :: string
  al_schema_id :: string
  al_schema_version_id :: string
  al_title :: string
  al_description :: string
  al_severity :: string
  al_triggered_at :: time
  al_event_count :: int
  al_aggregation_key :: string

definition extractString :: "fields option \<Rightarrow> string \<Rightarrow> string \<Rightarrow> string" where
  "extractString m key defaultVal =
     (case m of
        None \<Rightarrow> defaultVal
      | Some doc \<Rightarrow> (case map_of doc key of Some (GStr s) \<Rightarrow> s | _ \<Rightarrow> defaultVal))"

fun create_alerts ::
  "respond_env \<Rightarrow> correlation_result \<Rightarrow> detection_schema \<Rightarrow> (string \<times> int) list \<Rightarrow> respond \<Rightarrow>
     alert_created list \<times> respond"
where
  \<comment> \<open>the loop over the matches; one without an identifier is skipped\<close>
  "create_alerts env result schema [] st = ([], st)"
| "create_alerts env result schema ((key, n) # matches) st =
     (case NewV7 env st of
        (None, st1) \<Rightarrow> create_alerts env result schema matches st1
      | (Some i, st1) \<Rightarrow>
          (case create_alerts env result schema matches st1 of
             (alerts, st2) \<Rightarrow>
               (\<lparr>al_alert_id = i, al_schema_id = co_schema_id result,
                 al_schema_version_id = co_schema_version_id result,
                 al_title = extractString (ds_view schema) ''title'' ''Detection Alert'',
                 al_description = extractString (ds_view schema) ''description'' [],
                 al_severity = extractString (ds_view schema) ''severity'' ''medium'',
                 al_triggered_at = re_now env (rp_tick st1),
                 al_event_count = n, al_aggregation_key = key\<rparr> # alerts, st2)))"

definition handleCorrelationResult ::
  "respond_env \<Rightarrow> correlation_result option \<Rightarrow> respond \<Rightarrow>
     (resp_error option \<times> alert_created list) \<times> respond"
where
  \<comment> \<open>the message as \<open>json.Unmarshal\<close> decodes it; the error sends the message back to the bus\<close>
  "handleCorrelationResult env msg st =
     (case msg of
        None \<Rightarrow> ((Some Decode_error, []), st)
      | Some result \<Rightarrow>
          if \<not> co_success result \<or> \<not> co_triggered result then ((None, []), st)
          else
            (case GetSchemaByVersionID env (co_schema_version_id result) st of
               (Inl err, st1) \<Rightarrow> ((Some err, []), st1)
             | (Inr schema, st1) \<Rightarrow>
                 (case create_alerts env result schema (co_matches result) st1 of
                    (alerts, st2) \<Rightarrow> ((None, alerts), st2))))"

end
