(* ===== verification/JsonApi.thy ===== *)
theory JsonApi
  imports Http
begin

text \<open>
  The JSON:API helpers of \<^verbatim>\<open>common/httputil/jsonapi.go\<close> and \<^verbatim>\<open>common/httputil/response.go\<close>: resources,
  collections with their pagination, and the error documents. What a handler marshals is a \<open>gval\<close>.
\<close>

record jsonapi_resource =
  ja_type :: string
  ja_id :: string
  ja_attributes :: gval

definition resource_val :: "jsonapi_resource \<Rightarrow> gval" where
  \<comment> \<open>without relationships and links, which \<open>omitempty\<close> drops\<close>
  "resource_val x =
     GObj [(''type'', GStr (ja_type x)), (''id'', GStr (ja_id x)), (''attributes'', ja_attributes x)]"

definition WriteJSONAPIResource :: "int \<Rightarrow> string \<Rightarrow> string \<Rightarrow> gval \<Rightarrow> doc response" where
  "WriteJSONAPIResource status resourceType i attributes =
     WriteJSONAPI status (GObj [(''data'',
       resource_val \<lparr>ja_type = resourceType, ja_id = i, ja_attributes = attributes\<rparr>)])"

definition collection_item :: "string \<Rightarrow> (string \<times> gval) list \<Rightarrow> jsonapi_resource" where
  \<comment> \<open>a missing or nil \<open>attributes\<close> is replaced by the whole item\<close>
  "collection_item resourceType item =
     \<lparr>ja_type = resourceType,
      ja_id = (case map_of item ''id'' of Some (GStr s) \<Rightarrow> s | _ \<Rightarrow> []),
      ja_attributes = (case map_of item ''attributes'' of
                         None \<Rightarrow> GObj item | Some GNil \<Rightarrow> GObj item | Some a \<Rightarrow> a)\<rparr>"

definition WriteJSONAPICollection ::
  "int \<Rightarrow> string \<Rightarrow> (string \<times> gval) list list \<Rightarrow> pagination option \<Rightarrow> doc response" where
  "WriteJSONAPICollection status resourceType items p =
     WriteJSONAPI status (GObj
       ([(''data'', GArr (map (\<lambda>item. resource_val (collection_item resourceType item)) items))]
        @ (case p of None \<Rightarrow> [] | Some q \<Rightarrow> [(''meta'', collection_meta q)])))"

definition WriteJSONAPIError :: "int \<Rightarrow> string \<Rightarrow> string \<Rightarrow> string \<Rightarrow> doc response" where
  "WriteJSONAPIError status code title detail =
     WriteJSONAPI status (GObj [(''errors'', GArr [GObj
       [(''status'', GInt status), (''code'', GStr code), (''title'', GStr title),
        (''detail'', GStr detail)]])])"

record jsonapi_error_object =
  je_status :: int
  je_code :: string
  je_title :: string
  je_detail :: string
  je_source :: "(string \<times> string) list"

definition NewJSONAPIError :: "int \<Rightarrow> string \<Rightarrow> string \<Rightarrow> string \<Rightarrow> jsonapi_error_object" where
  "NewJSONAPIError status code title detail =
     \<lparr>je_status = status, je_code = code, je_title = title, je_detail = detail, je_source = []\<rparr>"

definition error_object_val :: "jsonapi_error_object \<Rightarrow> gval" where
  \<comment> \<open>every field is \<open>omitempty\<close>\<close>
  "error_object_val e =
     (let text = (\<lambda>k s. if s = [] then [] else [(k, GStr s)]) in
      GObj ((if je_status e = 0 then [] else [(''status'', GInt (je_status e))])
        @ text ''code'' (je_code e) @ text ''title'' (je_title e) @ text ''detail'' (je_detail e)
        @ (if je_source e = [] then []
           else [(''source'', GObj (map (\<lambda>(k, s). (k, GStr s)) (je_source e)))])))"

definition WriteJSONAPIErrorResponse :: "int \<Rightarrow> jsonapi_error_object list \<Rightarrow> doc response" where
  "WriteJSONAPIErrorResponse status errors =
     WriteJSONAPI status (GObj [(''errors'', GArr (map error_object_val errors))])"

definition WriteJSONAPIValidationError :: "string \<Rightarrow> doc response" where
  "WriteJSONAPIValidationError detail =
     WriteJSONAPIError 400 ''validation_failed'' ''Validation Failed'' detail"

definition WriteJSONAPINotFoundError :: "string \<Rightarrow> string \<Rightarrow> doc response" where
  "WriteJSONAPINotFoundError resourceType i =
     WriteJSONAPIError 404 ''not_found'' ''Resource Not Found''
       (''The requested '' @ resourceType @ '' with ID '' @ [CHR 39] @ i @ [CHR 39] @ '' was not found'')"

definition WriteJSONAPIUnauthorizedError :: "string \<Rightarrow> doc response" where
  "WriteJSONAPIUnauthorizedError detail =
     WriteJSONAPIError 401 ''unauthorized'' ''Unauthorized'' detail"

definition WriteJSONAPIForbiddenError :: "string \<Rightarrow> doc response" where
  "WriteJSONAPIForbiddenError detail = WriteJSONAPIError 403 ''forbidden'' ''Forbidden'' detail"

definition WriteJSONAPIInternalError :: "string \<Rightarrow> doc response" where
  "WriteJSONAPIInternalError detail =
     WriteJSONAPIError 500 ''internal_error'' ''Internal Server Error'' detail"

definition BuildJSONAPIResponse :: "gval \<Rightarrow> jsonapi_resource list \<Rightarrow> gval" where
  "BuildJSONAPIResponse v included =
     GObj ([(''data'', v)]
       @ (if included = [] then [] else [(''included'', GArr (map resource_val included))]))"

end
