(* ===== verification/RespondHandler.thy ===== *)
theory RespondHandler
  imports RespondService JsonApi
begin

text \<open>
  The HTTP layer of the respond service: the client of the authenticate service
  (\<^verbatim>\<open>respond/internal/auth/client.go\<close>), the handlers of the detection schemas and the cases
  (\<^verbatim>\<open>respond/internal/handlers/handlers.go\<close>) and their routes (\<^verbatim>\<open>respond/internal/server/router.go\<close>).

  What the authenticate service answers is a parameter, as is what \<open>encoding/json\<close> makes of a body and
  the texts of the errors of the database (\<open>respond_http\<close>). A path is one the multiplexer does not
  redirect; the header \<open>X-Request-ID\<close> is left out.
\<close>

section \<open>The caller\<close>

record validate_answer =
  va_valid :: bool
  va_user_id :: string
  va_roles :: "string list"
  va_organization_id :: string
  va_client_id :: string

record user_context =
  uc_user_id :: string
  uc_roles :: "string list"
  uc_organization_id :: string
  uc_client_id :: string

record respond_http =
  rh_ask :: "string \<Rightarrow> (int \<times> validate_answer option) option"
    \<comment> \<open>the answer to a token: nothing, or a status and the decoded body\<close>
  rh_schema :: "string \<Rightarrow> schema_request option"            \<comment> \<open>\<open>Decode\<close> into each request type\<close>
  rh_parameter_set :: "string \<Rightarrow> string option"
  rh_create_case :: "string \<Rightarrow> create_case_request option"
  rh_update_case :: "string \<Rightarrow> update_case_request option"
  rh_alert_ids :: "string \<Rightarrow> string list option option"  \<comment> \<open>the inner None is a nil slice\<close>
  rh_error :: "resp_error \<Rightarrow> string"                          \<comment> \<open>texts of the libraries' errors\<close>
  rh_time :: "time \<Rightarrow> string"

definition respond_Validate :: "respond_http \<Rightarrow> string \<Rightarrow> user_context option" where
  "respond_Validate h bearerToken =
     (if bearerToken = [] then None
      else (case rh_ask h bearerToken of
              None \<Rightarrow> None
            | Some (status, body) \<Rightarrow>
                if status \<noteq> 200 then None
                else (case body of
                        None \<Rightarrow> None
                      | Some vr \<Rightarrow>
                          if \<not> va_valid vr \<or> va_user_id vr = [] then None
                          else Some \<lparr>uc_user_id = va_user_id vr, uc_roles = va_roles vr,
                                 uc_organization_id = va_organization_id vr,
                                 uc_client_id = va_client_id vr\<rparr>)))"

definition requireUserContext :: "respond_http \<Rightarrow> request \<Rightarrow> user_context option" where
  "requireUserContext h r =
     (let authz = rq_header r ''Authorization'' in
      if \<not> has_prefix (to_lower authz) ''bearer '' then None
      else respond_Validate h (trim_space (drop 7 authz)))"

definition getUserIDFromRequest :: "respond_http \<Rightarrow> request \<Rightarrow> string option" where
  "getUserIDFromRequest h r =
     (case requireUserContext h r of
        None \<Rightarrow> None
      | Some uc \<Rightarrow> if uc_user_id uc = [] then None else Some (uc_user_id uc))"

section \<open>Documents\<close>

fun resp_error_text :: "respond_http \<Rightarrow> resp_error \<Rightarrow> string" where
  "resp_error_text h (Wrapped what e) = what @ resp_error_text h e"
| "resp_error_text h ErrSchemaNotFound = ''detection schema not found''"
| "resp_error_text h ErrCaseNotFound = ''case not found''"
| "resp_error_text h Alert_not_in_case = ''alert not found in case''"
| "resp_error_text h e = rh_error h e"

definition if_set :: "string \<Rightarrow> gval option \<Rightarrow> (string \<times> gval) list" where
  \<comment> \<open>a pointer with \<open>omitempty\<close>\<close>
  "if_set key v = (case v of None \<Rightarrow> [] | Some x \<Rightarrow> [(key, x)])"

definition if_text :: "string \<Rightarrow> string \<Rightarrow> (string \<times> gval) list" where
  "if_text key s = (if s = [] then [] else [(key, GStr s)])"

definition if_int :: "string \<Rightarrow> int \<Rightarrow> (string \<times> gval) list" where
  "if_int key n = (if n = 0 then [] else [(key, GInt n)])"

definition map_val :: "fields option \<Rightarrow> gval" where
  "map_val m = (case m of None \<Rightarrow> GNil | Some doc \<Rightarrow> GObj doc)"

definition schema_doc :: "respond_http \<Rightarrow> detection_schema \<Rightarrow> gval" where
  "schema_doc h s =
     (let at = (\<lambda>t. map_option (\<lambda>x. GStr (rh_time h x)) t) in
      GObj ([(''id'', GStr (ds_id s)), (''version_id'', GStr (ds_version_id s)),
        (''model'', map_val (ds_model s)), (''view'', map_val (ds_view s)),
        (''controller'', map_val (ds_controller s))]
      @ if_text ''created_by'' (ds_created_by s)
      @ if_set ''disabled_at'' (at (ds_disabled_at s))
      @ if_set ''disabled_by'' (map_option GStr (ds_disabled_by s))
      @ if_set ''hidden_at'' (at (ds_hidden_at s))
      @ if_set ''hidden_by'' (map_option GStr (ds_hidden_by s))
      @ if_int ''version'' (ds_version s)))"

definition version_doc :: "respond_http \<Rightarrow> schema_version \<Rightarrow> gval" where
  "version_doc h v =
     GObj ([(''version_id'', GStr (sv_version_id v)), (''version'', GInt (sv_version v)),
       (''title'', GStr (sv_title v))]
     @ if_set ''disabled_at'' (map_option (\<lambda>x. GStr (rh_time h x)) (sv_disabled_at v)))"

definition history_doc :: "respond_http \<Rightarrow> version_history \<Rightarrow> gval" where
  "history_doc h v =
     GObj [(''id'', GStr (vh_id v)), (''title'', GStr (vh_title v)),
       (''versions'', GArr (map (version_doc h) (vh_versions v)))]"

definition case_doc :: "respond_http \<Rightarrow> case_info \<Rightarrow> gval" where
  "case_doc h c =
     GObj ([(''id'', GStr (cs_id c)), (''title'', GStr (cs_title c))]
       @ if_text ''description'' (cs_description c)
       @ [(''severity'', GStr (cs_severity c)), (''status'', GStr (cs_status c)),
          (''priority'', GStr (cs_priority c))]
       @ if_set ''assignee_id'' (map_option GStr (cs_assignee_id c))
       @ if_text ''created_by'' (cs_created_by c)
       @ if_set ''closed_at'' (map_option (\<lambda>x. GStr (rh_time h x)) (cs_closed_at c))
       @ if_set ''closed_by'' (map_option GStr (cs_closed_by c))
       @ if_int ''alert_count'' (cs_alert_count c)
       @ if_set ''detection_schema_id'' (map_option GStr (cs_detection_schema_id c))
       @ if_set ''detection_schema_version_id''
           (map_option GStr (cs_detection_schema_version_id c)))"

definition pagination_doc :: "'a paged \<Rightarrow> gval" where
  "pagination_doc p =
     GObj [(''page'', GInt (pg_page (pd_pagination p))), (''limit'', GInt (pg_limit (pd_pagination p))),
       (''total'', GInt (pg_total (pd_pagination p))), (''total_pages'', GInt (pd_total_pages p))]"

definition case_alert_doc :: "case_alert_row \<Rightarrow> gval" where
  "case_alert_doc a =
     GObj ([(''id'', GStr (ca_id a)), (''case_id'', GStr (ca_case_id a)),
       (''alert_id'', GStr (ca_alert_id a))] @ if_text ''added_by'' (ca_added_by a))"

section \<open>Answers the handlers share\<close>

type_synonym resp_handler = "request \<Rightarrow> respond \<Rightarrow> doc response \<times> respond"

definition method_not_allowed :: "doc response" where
  "method_not_allowed = WriteJSONAPIError 405 ''method_not_allowed'' ''Method Not Allowed'' []"

definition auth_required :: "doc response" where
  "auth_required =
     WriteJSONAPIError 401 ''auth_required'' ''Authentication required'' ''User ID not found in context''"

definition invalid_body :: "doc response" where
  "invalid_body = WriteJSONAPIValidationError ''Invalid request body''"

definition read_body :: "(string \<Rightarrow> 'a option) \<Rightarrow> request \<Rightarrow> 'a option" where
  "read_body dec r = (case rq_body r of None \<Rightarrow> None | Some b \<Rightarrow> dec b)"

definition failure_answer ::
  "respond_http \<Rightarrow> resp_error \<Rightarrow> string \<Rightarrow> string \<Rightarrow> resp_error \<Rightarrow> doc response" where
  \<comment> \<open>not found, or an internal error with its text\<close>
  "failure_answer h not_found kind i err =
     (if errors_Is err not_found then WriteJSONAPINotFoundError kind i
      else WriteJSONAPIInternalError (resp_error_text h err))"

definition answer_with ::
  "int \<Rightarrow> ('a \<Rightarrow> gval) \<Rightarrow> (resp_error \<Rightarrow> doc response) \<Rightarrow> (resp_error + 'a) \<times> respond \<Rightarrow>
     doc response \<times> respond"
where
  "answer_with status to_doc fail res =
     (case res of
        (Inl err, st) \<Rightarrow> (fail err, st)
      | (Inr x, st) \<Rightarrow> (WriteJSONAPI status (to_doc x), st))"

definition extractIDFromPath :: "string \<Rightarrow> string \<Rightarrow> string" where
  "extractIDFromPath path prefix =
     (let trim = (\<lambda>s p. if has_prefix s p then drop (length p) s else s) in
      hd (split_on (CHR ''/'') (trim (trim path prefix) ''/'')))"

section \<open>Detection schemas\<close>

definition schema_failure :: "respond_http \<Rightarrow> string \<Rightarrow> resp_error \<Rightarrow> doc response" where
  "schema_failure h i = failure_answer h ErrSchemaNotFound ''detection_schema'' i"

definition internal_failure :: "respond_http \<Rightarrow> resp_error \<Rightarrow> doc response" where
  "internal_failure h err = WriteJSONAPIInternalError (resp_error_text h err)"

definition h_CreateSchema :: "respond_env \<Rightarrow> respond_http \<Rightarrow> resp_handler" where
  "h_CreateSchema env h r st =
     (case read_body (rh_schema h) r of
        None \<Rightarrow> (invalid_body, st)
      | Some req \<Rightarrow>
          answer_with 201 (schema_doc h) (internal_failure h) (respond_CreateSchema env req st))"

definition h_GetSchema :: "respond_env \<Rightarrow> respond_http \<Rightarrow> string \<Rightarrow> resp_handler" where
  "h_GetSchema env h i r st =
     answer_with 200 (schema_doc h) (schema_failure h i) (respond_GetSchema env i st)"

fun saturating :: "int \<Rightarrow> string \<Rightarrow> int option" where
  \<comment> \<open>\<open>strconv.ParseUint\<close>, which stops at the first digit that leaves the range\<close>
  "saturating acc [] = Some acc"
| "saturating acc (c # cs) =
     (case digit c of
        None \<Rightarrow> None
      | Some d \<Rightarrow>
          if 10 * acc + d > 2 ^ 64 - 1 then Some (2 ^ 64 - 1) else saturating (10 * acc + d) cs)"

definition int_param :: "request \<Rightarrow> string \<Rightarrow> int" where
  \<comment> \<open>\<open>strconv.Atoi\<close> with its error ignored: 0 for what is no number, the nearest value for a number
      out of range\<close>
  "int_param r key =
     (let s = rq_query r key;
          neg = (s \<noteq> [] \<and> hd s = CHR ''-'');
          ds = (if s \<noteq> [] \<and> (hd s = CHR ''-'' \<or> hd s = CHR ''+'') then tl s else s) in
      if ds = [] then 0
      else (case saturating 0 ds of
              None \<Rightarrow> 0
            | Some n \<Rightarrow> if neg then max (- n) (- (2 ^ 63)) else min n (2 ^ 63 - 1)))"

definition schemas_request :: "request \<Rightarrow> list_schemas_request" where
  "schemas_request r =
     \<lparr>ls_page = int_param r ''page'', ls_limit = int_param r ''limit'',
      ls_severity = rq_query r ''severity'', ls_title = rq_query r ''title'', ls_id = rq_query r ''id'',
      ls_include_disabled = (rq_query r ''include_disabled'' = ''true''),
      ls_include_hidden = (rq_query r ''include_hidden'' = ''true'')\<rparr>"

definition h_ListSchemas :: "respond_env \<Rightarrow> respond_http \<Rightarrow> resp_handler" where
  "h_ListSchemas env h r st =
     (case respond_ListSchemas env (schemas_request r) st of
        (Inl err, st1) \<Rightarrow> (internal_failure h err, st1)
      | (Inr resp, st1) \<Rightarrow>
          (WriteJSONAPICollection 200 ''detection_schema''
             (map (\<lambda>s. [(''id'', GStr (ds_id s)), (''attributes'', schema_doc h s)]) (pd_items resp))
             (Some (pd_pagination resp)), st1))"

definition h_UpdateSchema :: "respond_env \<Rightarrow> respond_http \<Rightarrow> string \<Rightarrow> resp_handler" where
  \<comment> \<open>\<open>UpdateSchemaRequest\<close> has no identifier, and the operation does not read it\<close>
  "h_UpdateSchema env h i r st =
     (case read_body (rh_schema h) r of
        None \<Rightarrow> (invalid_body, st)
      | Some req \<Rightarrow>
          answer_with 200 (schema_doc h) (schema_failure h i) (respond_UpdateSchema env i req st))"

definition with_user ::
  "respond_http \<Rightarrow> request \<Rightarrow> respond \<Rightarrow> (string \<Rightarrow> doc response \<times> respond) \<Rightarrow> doc response \<times> respond"
where
  "with_user h r st act =
     (case getUserIDFromRequest h r of None \<Rightarrow> (auth_required, st) | Some userID \<Rightarrow> act userID)"

definition h_HideSchema :: "respond_env \<Rightarrow> respond_http \<Rightarrow> string \<Rightarrow> resp_handler" where
  "h_HideSchema env h i r st =
     with_user h r st (\<lambda>userID.
       (case respond_HideSchema env i userID st of
          (Some err, st1) \<Rightarrow> (schema_failure h i err, st1)
        | (None, st1) \<Rightarrow>
            (WriteJSONAPI 200 (GObj [(''id'', GStr i), (''hidden_at'', GStr ''now'')]), st1)))"

definition SchemasHandler :: "respond_env \<Rightarrow> respond_http \<Rightarrow> resp_handler" where
  "SchemasHandler env h r st =
     (if rq_method r = ''GET'' then h_ListSchemas env h r st
      else if rq_method r = ''POST'' then h_CreateSchema env h r st
      else (method_not_allowed, st))"

definition SchemaHandler :: "respond_env \<Rightarrow> respond_http \<Rightarrow> resp_handler" where
  "SchemaHandler env h r st =
     (let i = extractIDFromPath (rq_path r) ''/schemas'' in
      if i = [] then (WriteJSONAPIValidationError ''Schema ID required'', st)
      else if rq_method r = ''GET'' then h_GetSchema env h i r st
      else if rq_method r = ''PUT'' then h_UpdateSchema env h i r st
      else if rq_method r = ''DELETE'' then h_HideSchema env h i r st
      else (method_not_allowed, st))"

definition DisableSchemaHandler :: "respond_env \<Rightarrow> respond_http \<Rightarrow> resp_handler" where
  "DisableSchemaHandler env h r st =
     (let i = extractIDFromPath (rq_path r) ''/schemas'' in
      if rq_method r \<noteq> ''PUT'' then (method_not_allowed, st)
      else with_user h r st (\<lambda>userID.
        answer_with 200 (schema_doc h) (schema_failure h i) (respond_DisableSchema env i userID st)))"

definition EnableSchemaHandler :: "respond_env \<Rightarrow> respond_http \<Rightarrow> resp_handler" where
  "EnableSchemaHandler env h r st =
     (let i = extractIDFromPath (rq_path r) ''/schemas'' in
      if rq_method r \<noteq> ''PUT'' then (method_not_allowed, st)
      else answer_with 200 (schema_doc h) (schema_failure h i) (respond_EnableSchema env i st))"

definition VersionHistoryHandler :: "respond_env \<Rightarrow> respond_http \<Rightarrow> resp_handler" where
  "VersionHistoryHandler env h r st =
     (let i = extractIDFromPath (rq_path r) ''/schemas'' in
      if rq_method r \<noteq> ''GET'' then (method_not_allowed, st)
      else answer_with 200 (history_doc h) (schema_failure h i) (respond_GetVersionHistory env i st))"

definition SetParameterSetHandler :: "respond_env \<Rightarrow> respond_http \<Rightarrow> resp_handler" where
  "SetParameterSetHandler env h r st =
     (let i = extractIDFromPath (rq_path r) ''/schemas'' in
      if rq_method r \<noteq> ''PUT'' then (method_not_allowed, st)
      else
        (case read_body (rh_parameter_set h) r of
           None \<Rightarrow> (invalid_body, st)
         | Some parameterSet \<Rightarrow>
             answer_with 200 (schema_doc h) (schema_failure h i)
               (respond_SetActiveParameterSet env i parameterSet st)))"

section \<open>Cases\<close>

definition case_failure :: "respond_http \<Rightarrow> string \<Rightarrow> resp_error \<Rightarrow> doc response" where
  "case_failure h i = failure_answer h ErrCaseNotFound ''case'' i"

definition h_CreateCase :: "respond_env \<Rightarrow> respond_http \<Rightarrow> resp_handler" where
  "h_CreateCase env h r st =
     (case read_body (rh_create_case h) r of
        None \<Rightarrow> (invalid_body, st)
      | Some req \<Rightarrow>
          with_user h r st (\<lambda>userID.
            answer_with 201 (case_doc h) (internal_failure h) (respond_CreateCase env req userID st)))"

definition h_GetCase :: "respond_env \<Rightarrow> respond_http \<Rightarrow> string \<Rightarrow> resp_handler" where
  "h_GetCase env h i r st = answer_with 200 (case_doc h) (case_failure h i) (GetCaseByID env i st)"

definition cases_request :: "request \<Rightarrow> list_cases_request" where
  "cases_request r =
     \<lparr>lc_page = int_param r ''page'', lc_limit = int_param r ''limit'', lc_status = rq_query r ''status'',
      lc_severity = rq_query r ''severity'', lc_priority = rq_query r ''priority'',
      lc_assignee_id = rq_query r ''assignee_id''\<rparr>"

definition h_ListCases :: "respond_env \<Rightarrow> respond_http \<Rightarrow> resp_handler" where
  "h_ListCases env h r st =
     answer_with 200
       (\<lambda>resp. GObj [(''cases'', GArr (map (case_doc h) (pd_items resp))),
                     (''pagination'', pagination_doc resp)])
       (internal_failure h) (respond_ListCases env (cases_request r) st)"

definition h_UpdateCase :: "respond_env \<Rightarrow> respond_http \<Rightarrow> string \<Rightarrow> resp_handler" where
  "h_UpdateCase env h i r st =
     (case read_body (rh_update_case h) r of
        None \<Rightarrow> (invalid_body, st)
      | Some req \<Rightarrow>
          with_user h r st (\<lambda>_.
            answer_with 200 (case_doc h) (case_failure h i) (respond_UpdateCase env i req st)))"

definition CasesHandler :: "respond_env \<Rightarrow> respond_http \<Rightarrow> resp_handler" where
  "CasesHandler env h r st =
     (if rq_method r = ''GET'' then h_ListCases env h r st
      else if rq_method r = ''POST'' then h_CreateCase env h r st
      else (method_not_allowed, st))"

definition CaseHandler :: "respond_env \<Rightarrow> respond_http \<Rightarrow> resp_handler" where
  "CaseHandler env h r st =
     (let i = extractIDFromPath (rq_path r) ''/api/v1/cases'' in
      if i = [] then (WriteJSONAPIValidationError ''Case ID required'', st)
      else if rq_method r = ''GET'' then h_GetCase env h i r st
      else if rq_method r = ''PUT'' then h_UpdateCase env h i r st
      else (method_not_allowed, st))"

definition CloseCaseHandler :: "respond_env \<Rightarrow> respond_http \<Rightarrow> resp_handler" where
  "CloseCaseHandler env h r st =
     (let i = extractIDFromPath (rq_path r) ''/api/v1/cases'' in
      if rq_method r \<noteq> ''PUT'' then (method_not_allowed, st)
      else with_user h r st (\<lambda>userID.
        answer_with 200 (case_doc h) (case_failure h i) (respond_CloseCase env i userID st)))"

definition ReopenCaseHandler :: "respond_env \<Rightarrow> respond_http \<Rightarrow> resp_handler" where
  "ReopenCaseHandler env h r st =
     (let i = extractIDFromPath (rq_path r) ''/api/v1/cases'' in
      if rq_method r \<noteq> ''PUT'' then (method_not_allowed, st)
      else answer_with 200 (case_doc h) (case_failure h i) (respond_ReopenCase env i st))"

definition h_GetCaseAlerts :: "respond_env \<Rightarrow> respond_http \<Rightarrow> string \<Rightarrow> resp_handler" where
  "h_GetCaseAlerts env h caseID r st =
     answer_with 200
       (\<lambda>alerts. GObj [(''case_id'', GStr caseID), (''alerts'', GArr (map case_alert_doc alerts))])
       (internal_failure h) (GetCaseAlerts env caseID st)"

definition h_AddAlertsToCase :: "respond_env \<Rightarrow> respond_http \<Rightarrow> string \<Rightarrow> resp_handler" where
  "h_AddAlertsToCase env h caseID r st =
     (case read_body (rh_alert_ids h) r of
        None \<Rightarrow> (invalid_body, st)
      | Some ids \<Rightarrow>
          with_user h r st (\<lambda>userID.
            (let alertIDs = (case ids of None \<Rightarrow> [] | Some xs \<Rightarrow> xs) in
             case repo_AddAlertsToCase env caseID alertIDs userID st of
               (Some err, st1) \<Rightarrow> (case_failure h caseID err, st1)
             | (None, st1) \<Rightarrow>
                 (WriteJSONAPI 200 (GObj [(''case_id'', GStr caseID),
                    (''added'', GInt (int (length alertIDs))),
                    (''alert_ids'', case ids of None \<Rightarrow> GNil | Some xs \<Rightarrow> GArr (map GStr xs))]), st1))))"

definition CaseAlertsHandler :: "respond_env \<Rightarrow> respond_http \<Rightarrow> resp_handler" where
  "CaseAlertsHandler env h r st =
     (let i = extractIDFromPath (rq_path r) ''/api/v1/cases'' in
      if rq_method r = ''GET'' then h_GetCaseAlerts env h i r st
      else if rq_method r = ''POST'' then h_AddAlertsToCase env h i r st
      else (method_not_allowed, st))"

section \<open>Routes\<close>

definition HealthCheck :: "string \<Rightarrow> resp_handler" where
  "HealthCheck status r st =
     (WriteJSONAPI 200 (GObj [(''status'', GStr status), (''service'', GStr ''respond'')]), st)"

definition schemaRouteHandler :: "respond_env \<Rightarrow> respond_http \<Rightarrow> resp_handler" where
  "schemaRouteHandler env h r st =
     (let path = rq_path r in
      if has_suffix path ''/disable'' then DisableSchemaHandler env h r st
      else if has_suffix path ''/enable'' then EnableSchemaHandler env h r st
      else if has_suffix path ''/versions'' then VersionHistoryHandler env h r st
      else if has_suffix path ''/parameters'' then SetParameterSetHandler env h r st
      else SchemaHandler env h r st)"

definition caseRouteHandler :: "respond_env \<Rightarrow> respond_http \<Rightarrow> resp_handler" where
  "caseRouteHandler env h r st =
     (let path = rq_path r in
      if has_suffix path ''/close'' then CloseCaseHandler env h r st
      else if has_suffix path ''/reopen'' then ReopenCaseHandler env h r st
      else if has_suffix path ''/alerts'' then CaseAlertsHandler env h r st
      else CaseHandler env h r st)"

definition respond_NewRouter ::
  "respond_env \<Rightarrow> respond_http \<Rightarrow> (request \<Rightarrow> doc response) \<Rightarrow> resp_handler" where
  \<comment> \<open>\<open>alerts\<close> is the handler of the alerts, which changes nothing\<close>
  "respond_NewRouter env h alerts r st =
     (let path = rq_path r in
      if path = ''/healthz'' then HealthCheck ''ok'' r st
      else if path = ''/readyz'' then HealthCheck ''ready'' r st
      else if path = ''/schemas'' then SchemasHandler env h r st
      else if has_prefix path ''/schemas/'' then schemaRouteHandler env h r st
      else if path = ''/api/v1/cases'' then CasesHandler env h r st
      else if has_prefix path ''/api/v1/cases/'' then caseRouteHandler env h r st
      else if path = ''/api/v1/alerts'' \<or> has_prefix path ''/api/v1/alerts/'' then (alerts r, st)
      else (http_Error ''404 page not found'' 404, st))"

end
