(* ===== verification/RespondLaws.thy ===== *)
theory RespondLaws
  imports RespondHandler
begin

text \<open>
  What a request to the respond service can change. The locale \<open>respond_change\<close> lists the statements
  the handlers run on the tables, those that need an accepted token apart; a relation between the
  state before and after that every one of them keeps holds across the whole router. Its
  interpretations show that no version of a detection rule is ever altered or removed, and what
  a request without a token can do.
\<close>

section \<open>From statements to the router\<close>

locale respond_change =
  fixes R :: "respond \<Rightarrow> respond \<Rightarrow> bool"
    and env :: respond_env
    and with_token :: bool
  assumes refl: "R st st"
    and trans: "R st1 st2 \<Longrightarrow> R st2 st3 \<Longrightarrow> R st1 st3"
    and tick: "R st (rtick st)"
    and insert_schema: "pred_option (\<lambda>p. R st (snd p)) (insert_schema env s st)"
    and enable: "R st (snd (update_schemas c (\<lambda>r. r\<lparr>dr_disabled_at := None, dr_disabled_by := None\<rparr>) st))"
    and parameter: "R st (snd (update_schemas c (\<lambda>r. r\<lparr>dr_active_parameter_set := Some x\<rparr>) st))"
    and reopen: "R st (snd (update_cases d
          (\<lambda>r. r\<lparr>cr_status := ''open'', cr_closed_at := None, cr_closed_by := None\<rparr>) st))"
    and disable: "with_token \<Longrightarrow> R st (snd (update_schemas c
          (\<lambda>r. r\<lparr>dr_disabled_at := Some t, dr_disabled_by := Some u\<rparr>) st))"
    and hide: "with_token \<Longrightarrow> R st (snd (update_schemas c
          (\<lambda>r. r\<lparr>dr_hidden_at := Some t, dr_hidden_by := Some u\<rparr>) st))"
    and insert_case: "with_token \<Longrightarrow> pred_option (\<lambda>p. R st (snd p)) (insert_case env k st)"
    and update_case: "with_token \<Longrightarrow> R st (snd (update_cases d (update_case_row a req) st))"
    and close: "with_token \<Longrightarrow> R st (snd (update_cases d
          (\<lambda>r. r\<lparr>cr_status := ''closed'', cr_closed_at := Some t, cr_closed_by := Some u\<rparr>) st))"
    and add_alert: "with_token \<Longrightarrow>
      pred_option (\<lambda>p. R st (snd p)) (insert_case_alert env i caseID al u st)"
begin

lemma bind:
  assumes "R st (snd m)" and "\<And>a s. R s (snd (f a s))"
  shows "R st (snd (case m of (a, s) \<Rightarrow> f a s))"
  using assms trans by (cases m) auto

lemma exec:
  assumes "pred_option (\<lambda>p. R st (snd p)) (stmt st)"
  shows "R st (snd (db_exec env stmt st))"
proof (cases "stmt st")
  case None
  then show ?thesis by (simp add: db_exec_def tick split: fate.split)
next
  case (Some res)
  then obtain n st' where res: "stmt st = Some (n, st')" by (cases res) auto
  with assms have "R st (rtick st')" using trans tick by auto
  with res show ?thesis by (simp add: db_exec_def tick split: fate.split)
qed

lemma query: "R st (snd (db_query env q st))"
  by (simp add: db_query_def tick split: fate.split option.split)

lemma row: "R st (snd (query_row env e what q st))"
  using query [of st q] by (auto simp: query_row_def split: prod.split sum.split option.split)

lemma drawn: "R st (snd (or_draw env what x st))"
  by (simp add: or_draw_def NewV7_def tick refl split: option.split)

lemma found:
  assumes "pred_option (\<lambda>p. R st (snd p)) (stmt st)"
  shows "R st (snd (exec_found env e what stmt st))"
  unfolding exec_found_def
  by (rule bind, rule exec) (auto simp: assms split: sum.split intro: refl)

lemma create_schema: "R st (snd (repo_CreateSchema env s st))"
  unfolding repo_CreateSchema_def
  by (intro bind drawn) (auto split: sum.split intro!: bind drawn refl exec intro: insert_schema)

lemma reads:
  "R st (snd (GetSchemaByVersionID env v st))" "R st (snd (GetLatestSchemaByID env i st))"
  "R st (snd (GetCaseByID env i st))"
  by (simp_all add: GetSchemaByVersionID_def GetLatestSchemaByID_def GetCaseByID_def row)

lemma lists:
  "R st (snd (GetSchemaVersionHistory env i st))" "R st (snd (repo_ListSchemas env lreq st))"
  "R st (snd (repo_ListCases env creq st))" "R st (snd (GetCaseAlerts env i st))"
  unfolding GetSchemaVersionHistory_def GetCaseAlerts_def repo_ListSchemas_def repo_ListCases_def
  by (rule bind, rule query, auto split: sum.split intro!: bind query refl)+

lemma statements:
  "R st (snd (repo_EnableSchema env v st))" "R st (snd (repo_SetActiveParameterSet env v x st))"
  "R st (snd (repo_ReopenCase env i st))"
  unfolding repo_EnableSchema_def repo_SetActiveParameterSet_def repo_ReopenCase_def
  by (rule found, auto simp: Let_def enable parameter reopen option.pred_map o_def option.pred_True split: option.split)+

lemma token_statements:
  assumes with_token
  shows "R st (snd (repo_DisableSchema env v u st))" "R st (snd (repo_HideSchema env v u st))"
    "R st (snd (repo_UpdateCase env i creq st))" "R st (snd (repo_CloseCase env i u st))"
  unfolding repo_DisableSchema_def repo_HideSchema_def repo_UpdateCase_def repo_CloseCase_def
  by (rule found, auto simp: Let_def disable hide update_case close assms split: option.split)+

lemma create_case: "with_token \<Longrightarrow> R st (snd (repo_CreateCase env k st))"
  unfolding repo_CreateCase_def
  by (intro bind drawn) (auto split: sum.split intro!: bind refl exec intro: insert_case)

lemma add_alerts: "with_token \<Longrightarrow> R st (snd (add_alerts env caseID alertIDs u st))"
proof (induction alertIDs arbitrary: st)
  case Nil
  then show ?case by (simp add: refl)
next
  case (Cons a alertIDs)
  have "R x (snd (NewV7 env x))" for x by (simp add: NewV7_def tick)
  with Cons show ?case
    by (auto split: sum.split option.split intro!: bind refl exec intro: add_alert)
qed

lemma add_alerts_to_case: "with_token \<Longrightarrow> R st (snd (repo_AddAlertsToCase env caseID alertIDs u st))"
  unfolding repo_AddAlertsToCase_def
  by (intro bind query) (auto split: sum.split intro: refl add_alerts)

section \<open>Operations and handlers\<close>

lemmas statement_rules =
  bind refl drawn create_schema reads lists statements create_case add_alerts_to_case
  token_statements

lemma answered: "R st (snd res) \<Longrightarrow> R st (snd (answer_with n to_doc fail res))"
  by (cases res) (simp add: answer_with_def split: sum.split)

lemma latest:
  assumes "\<And>v x. R x (snd (op v x))"
  shows "R st (snd (on_latest env what i op st))"
  unfolding on_latest_def
  by (intro bind reads) (auto split: sum.split option.split intro!: bind reads refl assms)

lemma schema_operations:
  "R st (snd (respond_CreateSchema env req st))" "R st (snd (respond_GetSchema env i st))"
  "R st (snd (respond_ListSchemas env lreq st))" "R st (snd (respond_UpdateSchema env i req st))"
  "R st (snd (respond_EnableSchema env i st))" "R st (snd (respond_GetVersionHistory env i st))"
  "R st (snd (respond_SetActiveParameterSet env i x st))"
proof -
  have NewV7: "R x (snd (NewV7 env x))" for x by (simp add: NewV7_def tick)
  show "R st (snd (respond_CreateSchema env req st))" "R st (snd (respond_UpdateSchema env i req st))"
    unfolding respond_CreateSchema_def respond_UpdateSchema_def
    by (rule bind, rule drawn reads,
        auto split: sum.split option.split intro!: bind NewV7 create_schema reads refl)+
  show "R st (snd (respond_GetSchema env i st))" "R st (snd (respond_GetVersionHistory env i st))"
    unfolding respond_GetSchema_def respond_GetVersionHistory_def
    by (rule bind, rule reads lists, auto split: sum.split intro: reads refl)+
  show "R st (snd (respond_ListSchemas env lreq st))"
    unfolding respond_ListSchemas_def Let_def case_prod_beta [of _ "page_defaults _ _ _"]
    by (rule bind, rule lists) (auto split: sum.split intro: refl)
  show "R st (snd (respond_EnableSchema env i st))" "R st (snd (respond_SetActiveParameterSet env i x st))"
    unfolding respond_EnableSchema_def respond_SetActiveParameterSet_def
    by (intro latest statements)+
qed

lemma token_operations:
  assumes with_token
  shows "R st (snd (respond_DisableSchema env i u st))" "R st (snd (respond_HideSchema env i u st))"
    "R st (snd (respond_CreateCase env kreq u st))" "R st (snd (respond_UpdateCase env i creq st))"
    "R st (snd (respond_CloseCase env i u st))"
proof -
  have NewV7: "R x (snd (NewV7 env x))" for x by (simp add: NewV7_def tick)
  have read: "R x y \<Longrightarrow> R x (snd (GetCaseByID env i y))" for x y i
    using trans reads(3) by blast
  show "R st (snd (respond_DisableSchema env i u st))"
    unfolding respond_DisableSchema_def by (intro latest token_statements assms)
  show "R st (snd (respond_HideSchema env i u st))"
    unfolding respond_HideSchema_def
    by (rule bind, rule reads) (auto split: sum.split intro: refl token_statements assms)
  show "R st (snd (respond_CreateCase env kreq u st))"
    unfolding respond_CreateCase_def
    by (rule bind, rule NewV7)
      (auto split: option.split intro!: bind create_case assms refl read add_alerts_to_case)
  show "R st (snd (respond_UpdateCase env i creq st))" "R st (snd (respond_CloseCase env i u st))"
    unfolding respond_UpdateCase_def respond_CloseCase_def on_case_def
    by (rule bind, rule token_statements [OF assms], auto split: option.split intro: reads refl)+
qed

lemma case_operations:
  "R st (snd (respond_ReopenCase env i st))" "R st (snd (respond_ListCases env lreq st))"
proof -
  show "R st (snd (respond_ReopenCase env i st))"
    unfolding respond_ReopenCase_def on_case_def
    by (rule bind, rule statements) (auto split: option.split intro: reads refl)
  show "R st (snd (respond_ListCases env lreq st))"
    unfolding respond_ListCases_def Let_def case_prod_beta [of _ "page_defaults _ _ _"]
    by (rule bind, rule lists) (auto split: sum.split intro: refl)
qed

lemma user:
  assumes "with_token \<or> getUserIDFromRequest h r = None"
    and "\<And>u. with_token \<Longrightarrow> R st (snd (act u))"
  shows "R st (snd (with_user h r st act))"
  using assms by (auto simp: with_user_def refl split: option.split)

lemma schema_handlers:
  assumes "with_token \<or> getUserIDFromRequest h r = None"
  shows "R st (snd (SchemasHandler env h r st))" "R st (snd (schemaRouteHandler env h r st))"
proof -
  note ops = schema_operations answered refl
  show "R st (snd (SchemasHandler env h r st))"
    unfolding SchemasHandler_def h_CreateSchema_def h_ListSchemas_def
    by (auto split: option.split sum.split intro!: bind ops)
  have "R st (snd (h_HideSchema env h i r st))" for i
    unfolding h_HideSchema_def
    by (rule user [OF assms])
      (auto intro!: bind token_operations split: option.split intro: refl)
  then have "R st (snd (SchemaHandler env h r st))"
    by (auto simp: SchemaHandler_def Let_def h_GetSchema_def h_UpdateSchema_def
        split: option.split intro: ops)
  moreover have "R st (snd (DisableSchemaHandler env h r st))"
    by (auto simp: DisableSchemaHandler_def Let_def
        intro!: user [OF assms] answered token_operations intro: refl)
  moreover have "R st (snd (EnableSchemaHandler env h r st))"
    "R st (snd (VersionHistoryHandler env h r st))" "R st (snd (SetParameterSetHandler env h r st))"
    by (auto simp: EnableSchemaHandler_def VersionHistoryHandler_def SetParameterSetHandler_def Let_def
        split: option.split intro: ops)
  ultimately show "R st (snd (schemaRouteHandler env h r st))"
    by (simp add: schemaRouteHandler_def Let_def)
qed

lemma case_handlers:
  assumes "with_token \<or> getUserIDFromRequest h r = None"
  shows "R st (snd (CasesHandler env h r st))" "R st (snd (caseRouteHandler env h r st))"
proof -
  note ops = case_operations reads lists answered refl
  show "R st (snd (CasesHandler env h r st))"
    by (auto simp: CasesHandler_def h_CreateCase_def h_ListCases_def split: option.split
        intro!: user [OF assms] answered token_operations intro: ops)
  have "R st (snd (CaseHandler env h r st))"
    by (auto simp: CaseHandler_def Let_def h_GetCase_def h_UpdateCase_def split: option.split
        intro!: user [OF assms] answered token_operations intro: ops)
  moreover have "R st (snd (CloseCaseHandler env h r st))" "R st (snd (ReopenCaseHandler env h r st))"
    by (auto simp: CloseCaseHandler_def ReopenCaseHandler_def Let_def
        intro!: user [OF assms] answered token_operations intro: ops)
  moreover have "R st (snd (h_AddAlertsToCase env h i r st))" for i
    unfolding h_AddAlertsToCase_def Let_def
    by (auto split: option.split intro!: user [OF assms] bind add_alerts_to_case intro: refl)
  then have "R st (snd (CaseAlertsHandler env h r st))"
    by (auto simp: CaseAlertsHandler_def Let_def h_GetCaseAlerts_def intro: ops)
  ultimately show "R st (snd (caseRouteHandler env h r st))"
    by (simp add: caseRouteHandler_def Let_def)
qed

lemma router:
  assumes "with_token \<or> getUserIDFromRequest h r = None"
  shows "R st (snd (respond_NewRouter env h alerts r st))"
  using schema_handlers [OF assms] case_handlers [OF assms]
  by (simp add: respond_NewRouter_def HealthCheck_def Let_def refl)

end

section \<open>Runs\<close>

inductive respond_run :: "respond_env \<Rightarrow> respond \<Rightarrow> respond \<Rightarrow> bool" for env where
  \<comment> \<open>requests, runs of the scheduler and results of the search service, in any order; what the
      authenticate service answers may change from one to the next\<close>
  start: "respond_run env st st"
| request: "respond_run env st st1 \<Longrightarrow>
     respond_run env st (snd (respond_NewRouter env h alerts r st1))"
| schedule: "respond_run env st st1 \<Longrightarrow> respond_run env st (snd (runCorrelations env dur st1))"
| correlated: "respond_run env st st1 \<Longrightarrow>
     respond_run env st (snd (handleCorrelationResult env msg st1))"

context respond_change begin

lemma run_each: "R st (snd (run_each env dur schemas st))"
proof (induction schemas arbitrary: st)
  case Nil
  then show ?case by (simp add: refl)
next
  case (Cons s schemas)
  have "R x (snd (runSchemaCorrelation env dur s x))" for x
    by (auto simp: runSchemaCorrelation_def NewV7_def Let_def tick refl split: option.split)
  with Cons show ?case by (auto intro!: bind refl)
qed

lemma scheduler: "R st (snd (runCorrelations env dur st))"
  unfolding runCorrelations_def
  by (rule bind, rule lists) (auto split: sum.split intro: refl run_each)

lemma create_alerts: "R st (snd (create_alerts env result schema matches st))"
proof (induction matches arbitrary: st)
  case Nil
  then show ?case by (simp add: refl)
next
  case (Cons m matches)
  have "R x (snd (NewV7 env x))" for x by (simp add: NewV7_def tick)
  with Cons show ?case by (cases m) (auto intro!: bind refl split: option.split)
qed

lemma results: "R st (snd (handleCorrelationResult env msg st))"
  by (auto simp: handleCorrelationResult_def intro!: bind reads refl create_alerts
      split: option.split sum.split)

lemma run: "respond_run env st st' \<Longrightarrow> with_token \<Longrightarrow> R st st'"
  by (induction rule: respond_run.induct) (auto intro: refl trans router scheduler results)

end

end
