(* ===== verification/RespondProps.thy ===== *)
theory RespondProps
  imports RespondLaws
begin

text \<open>
  Properties of the respond service: the versions of detection rules, what a request without a
  token can do, and which version of a rule the scheduler runs.
\<close>

section \<open>Rows are kept\<close>

definition row_content :: "schema_row \<Rightarrow> string \<times> string \<times> fields \<times> fields \<times> fields" where
  "row_content r = (dr_id r, dr_version_id r, dr_model r, dr_view r, dr_controller r)"

definition versions_kept :: "respond \<Rightarrow> respond \<Rightarrow> bool" where
  "versions_kept st st' \<longleftrightarrow>
     (\<exists>new. map row_content (rp_schemas st') = map row_content (rp_schemas st) @ new)
     \<and> (distinct (map dr_version_id (rp_schemas st)) \<longrightarrow> distinct (map dr_version_id (rp_schemas st')))"

lemma map_if_same: "(\<And>r. f (g r) = f r) \<Longrightarrow> map f (map (\<lambda>r. if c r then g r else r) rows) = map f rows"
  by simp

lemma other_tables [simp]:
  "rp_schemas (rtick st) = rp_schemas st" "rp_cases (rtick st) = rp_cases st"
  "rp_case_alerts (rtick st) = rp_case_alerts st"
  "rp_schemas (snd (update_cases d g st)) = rp_schemas st"
  "rp_case_alerts (snd (update_cases d g st)) = rp_case_alerts st"
  "rp_cases (snd (update_schemas c f st)) = rp_cases st"
  "rp_case_alerts (snd (update_schemas c f st)) = rp_case_alerts st"
  by (simp_all add: rtick_def update_cases_def update_schemas_def)

lemma updated_tables:
  "rp_schemas (snd (update_schemas c f st)) = map (\<lambda>r. if c r then f r else r) (rp_schemas st)"
  "rp_cases (snd (update_cases d g st)) = map (\<lambda>r. if d r then g r else r) (rp_cases st)"
  by (simp_all add: update_cases_def update_schemas_def)

lemma versions_kept_update:
  assumes "\<And>r. row_content (f r) = row_content r"
  shows "versions_kept st (snd (update_schemas c f st))"
proof -
  have "dr_version_id (f r) = dr_version_id r" for r
    using assms [of r] by (simp add: row_content_def)
  with assms show ?thesis
    unfolding versions_kept_def updated_tables by (simp only: map_if_same) simp
qed

interpretation versions: respond_change versions_kept env with_token for env with_token
proof (unfold_locales, goal_cases)
  case (2 st1 st2 st3)
  then show ?case by (auto simp: versions_kept_def)
next
  case (4 st s)
  show ?case by (auto simp: insert_schema_def versions_kept_def split: option.split)
next
  case (10 st k)
  then show ?case by (auto simp: insert_case_def versions_kept_def split: option.split)
next
  case (13 st i k al u)
  then show ?case by (auto simp: insert_case_alert_def versions_kept_def split: option.split)
qed (simp_all add: versions_kept_update row_content_def, simp_all add: versions_kept_def)

text \<open>A rule with two versions, an authenticate service that accepts one token, and requests.\<close>

definition sample_renv :: respond_env where
  "sample_renv =
     \<lparr>re_uuid7 = (\<lambda>n. Some (replicate (Suc n) (CHR ''v''))), re_now = (\<lambda>n. int n),
      re_fate = (\<lambda>_. Runs), re_uuid_in = (\<lambda>s. if s = [] then None else Some s),
      re_text_in = (\<lambda>_. True), re_varchar_in = (\<lambda>_. True), re_jsonb_in = (\<lambda>_. True),
      re_json_text = (\<lambda>_. []), re_ilike = (\<lambda>_ _. True), re_case_columns = False\<rparr>"

definition sample_row :: "string \<Rightarrow> schema_row" where
  "sample_row v =
     \<lparr>dr_id = ''r'', dr_version_id = v, dr_model = [], dr_view = [],
      dr_controller = [(''query'', GStr ''q'')], dr_active_parameter_set = None, dr_disabled_at = None,
      dr_disabled_by = None, dr_hidden_at = None, dr_hidden_by = None\<rparr>"

definition sample_respond :: respond where
  "sample_respond =
     \<lparr>rp_schemas = [sample_row ''a'', sample_row ''b''], rp_cases = [], rp_case_alerts = [], rp_tick = 0\<rparr>"

definition sample_update :: schema_request where
  "sample_update =
     \<lparr>sq_id = [], sq_model = Some [], sq_view = Some [], sq_controller = Some [(''query'', GStr ''z'')]\<rparr>"

definition sample_http :: respond_http where
  "sample_http =
     \<lparr>rh_ask = (\<lambda>t. Some (200, Some \<lparr>va_valid = (t = ''t''), va_user_id = ''u'', va_roles = [],
        va_organization_id = [], va_client_id = ''c''\<rparr>)),
      rh_schema = (\<lambda>_. Some sample_update), rh_parameter_set = (\<lambda>_. None),
      rh_create_case = (\<lambda>_. Some \<lparr>cq_title = ''x'', cq_description = [], cq_severity = [],
        cq_priority = [], cq_assignee_id = None, cq_alert_ids = []\<rparr>),
      rh_update_case = (\<lambda>_. None), rh_alert_ids = (\<lambda>_. None), rh_error = (\<lambda>_. []),
      rh_time = (\<lambda>_. [])\<rparr>"

definition sample_call :: "string \<Rightarrow> string \<Rightarrow> string \<Rightarrow> request" where
  "sample_call method path auth =
     \<lparr>rq_method = method, rq_host = [], rq_path = path,
      rq_header = (\<lambda>k. if k = ''Authorization'' then auth else []), rq_query = (\<lambda>_. []),
      rq_cookie = (\<lambda>_. None), rq_remote_addr = [], rq_body = Some []\<rparr>"

text \<open>C27: no run of the respond service alters or removes a stored version of a detection rule: the
  contents of the rows it started with are kept in their order, new rows follow them, and version
  identifiers stay distinct.\<close>

theorem versions_immutable:
  assumes "respond_run env st st'" and "distinct (map dr_version_id (rp_schemas st))"
  shows "(\<exists>new. map row_content (rp_schemas st') = map row_content (rp_schemas st) @ new)
    \<and> distinct (map dr_version_id (rp_schemas st'))"
  using versions.run [OF assms(1), of True] assms(2) by (simp add: versions_kept_def)

theorem versions_immutable_witness:
  "distinct (map dr_version_id (rp_schemas (snd (respond_NewRouter sample_renv sample_http
     (\<lambda>_. no_content) (sample_call ''PUT'' ''/schemas/r'' []) sample_respond))))"
  using versions_immutable [OF respond_run.request [OF respond_run.start], of sample_respond sample_renv
      sample_http "\<lambda>_. no_content" "sample_call ''PUT'' ''/schemas/r'' []"]
  by (simp add: sample_respond_def sample_row_def)

section \<open>Requests without a token\<close>

definition reopened :: "case_row \<Rightarrow> case_row \<Rightarrow> bool" where
  "reopened r r' \<longleftrightarrow>
     r' = r \<or> r' = r\<lparr>cr_status := ''open'', cr_closed_at := None, cr_closed_by := None\<rparr>"

definition not_switched_off :: "schema_row \<Rightarrow> schema_row \<Rightarrow> bool" where
  "not_switched_off r r' \<longleftrightarrow>
     row_content r' = row_content r \<and> dr_hidden_at r' = dr_hidden_at r
     \<and> (dr_disabled_at r' = dr_disabled_at r \<or> dr_disabled_at r' = None)"

definition anonymous_change :: "respond \<Rightarrow> respond \<Rightarrow> bool" where
  "anonymous_change st st' \<longleftrightarrow>
     rp_case_alerts st' = rp_case_alerts st
     \<and> list_all2 reopened (rp_cases st) (rp_cases st')
     \<and> list_all2 not_switched_off (rp_schemas st)
          (take (length (rp_schemas st)) (rp_schemas st'))"

lemma reopened_refl [simp]: "reopened r r" "list_all2 reopened rows rows"
  by (simp_all add: reopened_def list_all2_refl)

lemma not_switched_off_refl [simp]: "not_switched_off r r" "list_all2 not_switched_off rows rows"
  by (simp_all add: not_switched_off_def list_all2_refl)

lemma list_all2_update:
  "(\<And>r. P r r) \<Longrightarrow> (\<And>r. P r (f r)) \<Longrightarrow> list_all2 P rows (map (\<lambda>r. if c r then f r else r) rows)"
  by (induction rows) auto

lemma anonymous_change_trans:
  assumes "anonymous_change st1 st2" and "anonymous_change st2 st3"
  shows "anonymous_change st1 st3"
proof -
  have r: "reopened a c" if "reopened a b" "reopened b c" for a b c
    using that by (auto simp: reopened_def)
  have "list_all2 reopened (rp_cases st1) (rp_cases st2)"
    "list_all2 reopened (rp_cases st2) (rp_cases st3)"
    using assms by (simp_all add: anonymous_change_def)
  from list_all2_trans [OF r this] have cases: "list_all2 reopened (rp_cases st1) (rp_cases st3)" .
  have t: "not_switched_off a c" if "not_switched_off a b" "not_switched_off b c" for a b c
    using that by (auto simp: not_switched_off_def)
  let ?n = "length (rp_schemas st1)" and ?m = "length (rp_schemas st2)"
  have 1: "list_all2 not_switched_off (rp_schemas st1) (take ?n (rp_schemas st2))"
    and 2: "list_all2 not_switched_off (rp_schemas st2) (take ?m (rp_schemas st3))"
    using assms by (simp_all add: anonymous_change_def)
  have "?n \<le> ?m" using list_all2_lengthD [OF 1] by simp
  with list_all2_takeI [OF 2, of ?n]
  have "list_all2 not_switched_off (take ?n (rp_schemas st2)) (take ?n (rp_schemas st3))"
    by (simp add: min.absorb1)
  from list_all2_trans [OF t 1 this]
  have "list_all2 not_switched_off (rp_schemas st1) (take ?n (rp_schemas st3))" .
  with cases assms show ?thesis by (simp add: anonymous_change_def)
qed

interpretation anonymous: respond_change anonymous_change env False for env
proof (unfold_locales, goal_cases)
  case (2 st1 st2 st3)
  then show ?case by (rule anonymous_change_trans)
next
  case (4 st s)
  show ?case by (auto simp: insert_schema_def anonymous_change_def split: option.split)
next
  case (5 st c)
  show ?case
    by (simp add: anonymous_change_def updated_tables list_all2_update not_switched_off_def
        row_content_def)
next
  case (6 st c x)
  show ?case
    by (simp add: anonymous_change_def updated_tables list_all2_update not_switched_off_def
        row_content_def)
next
  case (7 st d)
  show ?case by (simp add: anonymous_change_def updated_tables list_all2_update reopened_def)
qed (simp_all add: anonymous_change_def)

text \<open>C30: a request without a token the authenticate service accepts adds no alert to a case, changes
  a case only by reopening it, and neither hides nor disables a version of a rule.\<close>

theorem no_token_effects:
  assumes "getUserIDFromRequest h r = None"
    and "respond_NewRouter env h alerts r st = (resp, st')"
  shows "rp_case_alerts st' = rp_case_alerts st
    \<and> list_all2 reopened (rp_cases st) (rp_cases st')
    \<and> list_all2 not_switched_off (rp_schemas st) (take (length (rp_schemas st)) (rp_schemas st'))"
  using anonymous.router [of h r st env alerts] assms by (simp add: anonymous_change_def)

theorem no_token_effects_witness:
  "list_all2 not_switched_off (rp_schemas sample_respond) (take 2 (rp_schemas (snd (respond_NewRouter
     sample_renv sample_http (\<lambda>_. no_content) (sample_call ''PUT'' ''/schemas/r/disable'' [])
     sample_respond))))"
proof -
  have "getUserIDFromRequest sample_http (sample_call ''PUT'' ''/schemas/r/disable'' []) = None"
    by (simp add: getUserIDFromRequest_def requireUserContext_def sample_call_def has_prefix_def)
  from no_token_effects [OF this surjective_pairing, of sample_renv "\<lambda>_. no_content" sample_respond]
  have "list_all2 not_switched_off (rp_schemas sample_respond) (take (length (rp_schemas sample_respond))
      (rp_schemas (snd (respond_NewRouter sample_renv sample_http (\<lambda>_. no_content)
         (sample_call ''PUT'' ''/schemas/r/disable'' []) sample_respond))))"
    by blast
  moreover have "length (rp_schemas sample_respond) = 2" by (simp add: sample_respond_def)
  ultimately show ?thesis by simp
qed

end
