(* ===== verification/RespondVersions.thy ===== *)
theory RespondVersions
  imports RespondProps
begin

text \<open>
  Which version of a detection rule a caller and the scheduler see: the numbers of the history, the
  latest version, and what is left when it is disabled.
\<close>

section \<open>Ranks\<close>

lemma rank_sorted:
  fixes f :: "'r \<Rightarrow> 'k::linorder"
  assumes "sorted_wrt (<) (map f xs)"
  shows "map (\<lambda>r. length (filter (\<lambda>q. f q \<le> f r) xs)) xs = [1..<Suc (length xs)]"
  using assms
proof (induction xs)
  case Nil
  then show ?case by simp
next
  case (Cons x xs)
  let ?g = "\<lambda>ys r. length (filter (\<lambda>q. f q \<le> f r) ys)"
  have x: "?g (x # xs) x = 1"
    using Cons.prems by (auto simp: filter_empty_conv)
  have "map (?g (x # xs)) xs = map (\<lambda>r. Suc (?g xs r)) xs"
    by (rule map_cong) (use Cons.prems in \<open>auto simp: less_imp_le\<close>)
  also have "... = map Suc (map (?g xs) xs)" by simp
  also have "... = map Suc [1..<Suc (length xs)]"
    using Cons.IH Cons.prems by (simp only: list.map sorted_wrt.simps)
  finally have "map (?g (x # xs)) xs = [2..<Suc (Suc (length xs))]"
    by (simp only: map_Suc_upt) (simp add: numeral_2_eq_2)
  with x show ?case by (simp only: list.map list.size upt_conv_Cons) (simp add: upt_conv_Cons numeral_2_eq_2)
qed

lemma length_filter_sort: "length (filter P (sort_key f xs)) = length (filter P xs)"
  by (simp add: filter_sort)

lemma card_1_member: "x \<in> A \<Longrightarrow> card A = 1 \<longleftrightarrow> A = {x}"
  by (auto simp: card_1_singleton_iff)

lemma strictly_sorted:
  assumes "distinct (map f xs)"
  shows "sorted_wrt (<) (map f (sort_key f xs))"
proof -
  have "distinct (map f (sort_key f xs))"
    using assms by (simp add: distinct_map)
  then show ?thesis by (simp add: strict_sorted_iff)
qed

lemma ranks_of_history:
  assumes "distinct (map dr_version_id rows)" and "\<forall>r \<in> set rows. dr_id r = u"
  shows "map (row_number rows) (sort_key dr_version_id rows) = [1..<Suc (length rows)]"
proof -
  let ?s = "sort_key dr_version_id rows"
  have "row_number rows r = length (filter (\<lambda>q. dr_version_id q \<le> dr_version_id r) ?s)"
    if "r \<in> set ?s" for r
  proof -
    have "filter (\<lambda>q. dr_id q = dr_id r \<and> dr_version_id q \<le> dr_version_id r) rows
        = filter (\<lambda>q. dr_version_id q \<le> dr_version_id r) rows"
      using assms(2) that by (auto intro!: filter_cong)
    then show ?thesis
      unfolding row_number_def by (simp add: length_filter_sort)
  qed
  then have "map (row_number rows) ?s
      = map (\<lambda>r. length (filter (\<lambda>q. dr_version_id q \<le> dr_version_id r) ?s)) ?s"
    by (rule map_cong [OF refl])
  also have "... = [1..<Suc (length rows)]"
    by (simp only: rank_sorted [OF strictly_sorted [OF assms(1)]] length_sort)
  finally show ?thesis .
qed

definition rows_of :: "respond_env \<Rightarrow> string \<Rightarrow> respond \<Rightarrow> schema_row list" where
  "rows_of env i st = filter (\<lambda>r. Some (dr_id r) = re_uuid_in env i) (rp_schemas st)"

lemma rows_of_uuid: "re_uuid_in env i = Some u \<Longrightarrow> rows_of env i st = filter (\<lambda>r. dr_id r = u) (rp_schemas st)"
  by (simp add: rows_of_def)

text \<open>the history of a rule lists every version of it once, from the newest to the oldest, and
  numbers them from their count down to 1.\<close>

lemma history_numbers_versions:
  assumes "GetSchemaVersionHistory env i st = (Inr versions, st')"
    and "distinct (map dr_version_id (rp_schemas st))"
  shows "map sv_version versions = rev (map int [1..<Suc (length (rows_of env i st))])
    \<and> sorted_wrt (>) (map sv_version_id versions)
    \<and> set (map sv_version_id versions) = dr_version_id ` set (rows_of env i st)"
proof -
  from assms(1) obtain u where u: "re_uuid_in env i = Some u"
    and v: "select_history env i st = Some versions"
    by (auto simp: GetSchemaVersionHistory_def db_query_def select_history_def
        split: fate.splits option.splits if_splits)
  let ?rows = "rows_of env i st"
  have d: "distinct (map dr_version_id ?rows)"
    using assms(2) by (simp add: rows_of_def distinct_map_filter)
  have "\<forall>r \<in> set ?rows. dr_id r = u" using u by (auto simp: rows_of_def)
  note ranks = ranks_of_history [OF d this]
  from v u have "map sv_version versions = rev (map int (map (row_number ?rows) (sort_key dr_version_id ?rows)))"
    and "map sv_version_id versions = rev (map dr_version_id (sort_key dr_version_id ?rows))"
    by (auto simp: select_history_def rows_of_uuid Let_def rev_map)
  with ranks strictly_sorted [OF d] show ?thesis
    by (simp add: sorted_wrt_rev)
qed

section \<open>The latest version\<close>

lemma row_number_desc_1:
  assumes "distinct (map dr_version_id rows)" and "r \<in> set rows"
  shows "row_number_desc rows r = 1 \<longleftrightarrow>
    (\<forall>q \<in> set rows. dr_id q = dr_id r \<longrightarrow> dr_version_id q \<le> dr_version_id r)"
proof -
  let ?P = "\<lambda>q. dr_id q = dr_id r \<and> dr_version_id r \<le> dr_version_id q"
  have d: "distinct (filter ?P rows)" using assms(1) by (simp add: distinct_map)
  have "row_number_desc rows r = card {q \<in> set rows. ?P q}"
    using distinct_card [OF d] by (simp add: row_number_desc_def)
  moreover have "r \<in> {q \<in> set rows. ?P q}" using assms(2) by simp
  ultimately have "row_number_desc rows r = 1 \<longleftrightarrow> {q \<in> set rows. ?P q} = {r}"
    by (simp only: card_1_member)
  also have "... \<longleftrightarrow> (\<forall>q \<in> set rows. dr_id q = dr_id r \<longrightarrow> dr_version_id q \<le> dr_version_id r)"
  proof
    assume *: "{q \<in> set rows. ?P q} = {r}"
    show "\<forall>q \<in> set rows. dr_id q = dr_id r \<longrightarrow> dr_version_id q \<le> dr_version_id r"
    proof (intro ballI impI)
      fix q assume "q \<in> set rows" "dr_id q = dr_id r"
      with * show "dr_version_id q \<le> dr_version_id r"
        by (cases "dr_version_id r \<le> dr_version_id q") auto
    qed
  next
    assume *: "\<forall>q \<in> set rows. dr_id q = dr_id r \<longrightarrow> dr_version_id q \<le> dr_version_id r"
    have "q = r" if "q \<in> set rows" "?P q" for q
    proof -
      from * that have "dr_version_id q = dr_version_id r" by auto
      with assms that show ?thesis by (auto simp: distinct_map dest: inj_onD)
    qed
    with assms(2) show "{q \<in> set rows. ?P q} = {r}" by auto
  qed
  finally show ?thesis .
qed

lemma find_Some_set: "find P xs = Some x \<Longrightarrow> x \<in> set xs \<and> P x"
  by (induction xs) (auto split: if_splits)

lemma select_latest_max:
  assumes "distinct (map dr_version_id (rp_schemas st))" and "r \<in> set (rp_schemas st)"
    and "re_uuid_in env i = Some (dr_id r)"
    and "\<And>q. q \<in> set (rp_schemas st) \<Longrightarrow> dr_id q = dr_id r \<Longrightarrow> dr_version_id q \<le> dr_version_id r"
  shows "select_latest env i st = Some (Some (scan_schema r (length (rows_of env i st))))"
proof -
  let ?rows = "filter (\<lambda>q. dr_id q = dr_id r) (rp_schemas st)"
  have d: "distinct (map dr_version_id ?rows)" using assms(1) by (simp add: distinct_map_filter)
  have r: "r \<in> set ?rows" using assms(2) by simp
  have max: "row_number_desc ?rows r = 1"
    using row_number_desc_1 [OF d r] assms(4) by auto
  have "find (\<lambda>q. row_number_desc ?rows q = 1) ?rows = Some r"
  proof (cases "find (\<lambda>q. row_number_desc ?rows q = 1) ?rows")
    case None
    with r max show ?thesis by (auto simp: find_None_iff)
  next
    case (Some q)
    then have q: "q \<in> set ?rows" "row_number_desc ?rows q = 1"
      using find_Some_set [OF Some] by auto
    with row_number_desc_1 [OF d q(1)] row_number_desc_1 [OF d r] r max
    have "dr_version_id q = dr_version_id r" by (auto intro: antisym)
    with assms(1,2) q(1) have "q = r" by (auto simp: distinct_map dest: inj_onD)
    with Some show ?thesis by simp
  qed
  moreover have "partition_count ?rows r = length ?rows"
    by (simp add: partition_count_def)
  ultimately show ?thesis
    using assms(3) by (simp add: select_latest_def Let_def rows_of_uuid)
qed

lemma update_appends:
  assumes "respond_UpdateSchema env i req st = (Inr s, st')" and "i \<noteq> []"
    and "re_uuid7 env (rp_tick st + 1) = Some v" and "v \<noteq> []" and "re_uuid_in env v = Some v"
  shows "\<exists>u m w c. re_uuid_in env i = Some u \<and> sq_model req = Some m \<and> sq_view req = Some w
    \<and> sq_controller req = Some c \<and> v \<notin> dr_version_id ` set (rp_schemas st)
    \<and> rp_schemas st' = rp_schemas st @ [\<lparr>dr_id = u, dr_version_id = v, dr_model = m, dr_view = w,
         dr_controller = c, dr_active_parameter_set = None, dr_disabled_at = None,
         dr_disabled_by = None, dr_hidden_at = None, dr_hidden_by = None\<rparr>]
    \<and> s = scan_schema (last (rp_schemas st')) 1"
proof -
  from assms(1) obtain s0 st1 where 1: "GetLatestSchemaByID env i st = (Inr s0, st1)"
    by (auto simp: respond_UpdateSchema_def split: prod.splits sum.splits)
  then have st1: "st1 = rtick st"
    by (auto simp: GetLatestSchemaByID_def query_row_def db_query_def
        split: fate.splits option.splits prod.splits sum.splits)
  let ?st2 = "rtick st1" and ?new = "schema_of_request req i v"
  have "NewV7 env st1 = (Some v, ?st2)"
    using assms(3) st1 by (simp add: NewV7_def rtick_def)
  with assms(1) 1 obtain st3 where 2: "repo_CreateSchema env ?new ?st2 = (None, st3)"
    and 3: "GetSchemaByVersionID env v st3 = (Inr s, st')"
    by (auto simp: respond_UpdateSchema_def split: prod.splits option.splits)
  from 2 obtain n where "db_exec env (insert_schema env ?new) ?st2 = (Inr n, st3)"
    using assms(2,4)
    by (auto simp: repo_CreateSchema_def or_draw_def schema_of_request_def split: prod.splits sum.splits)
  then obtain st2 where ins: "insert_schema env ?new ?st2 = Some (n, st2)" and st3: "st3 = rtick st2"
    by (auto simp: db_exec_def split: fate.splits option.splits)
  from 3 st3 have st': "rp_schemas st' = rp_schemas st2"
    by (auto simp: GetSchemaByVersionID_def query_row_def db_query_def
        split: fate.splits option.splits prod.splits sum.splits)
  from 3 obtain x where x: "select_version env v st3 = Some (Some x)" "s = x"
    by (auto simp: GetSchemaByVersionID_def query_row_def db_query_def
        split: fate.splits option.splits prod.splits sum.splits)
  from ins assms(5) st1 obtain u m w c where row: "re_uuid_in env i = Some u" "sq_model req = Some m"
      "sq_view req = Some w" "sq_controller req = Some c" "v \<notin> dr_version_id ` set (rp_schemas st)"
      "rp_schemas st2 = rp_schemas st @ [\<lparr>dr_id = u, dr_version_id = v, dr_model = m, dr_view = w,
         dr_controller = c, dr_active_parameter_set = None, dr_disabled_at = None,
         dr_disabled_by = None, dr_hidden_at = None, dr_hidden_by = None\<rparr>]"
    by (auto simp: insert_schema_def schema_of_request_def split: option.splits if_splits)
  have "filter (\<lambda>r. dr_version_id r = v) (rp_schemas st) = []"
    using row(5) by (auto simp: filter_empty_conv)
  with x row st3 assms(5) have "s = scan_schema (last (rp_schemas st2)) 1"
    by (simp add: select_version_def row_number_def)
  with row st' show ?thesis by auto
qed

text \<open>when version identifiers grow with time, as UUIDs of version 7 do, the version an update has
  stored is the latest one, with the documents of the request. The update itself answers with version
  number 1 for every version, since the row number is counted after the selection.\<close>

lemma updated_version_is_latest:
  assumes "respond_UpdateSchema env i req st = (Inr s, st')" and "i \<noteq> []"
    and "re_uuid7 env (rp_tick st + 1) = Some v" and "v \<noteq> []" and "re_uuid_in env v = Some v"
    and "\<forall>r \<in> set (rp_schemas st). dr_version_id r < v"
    and "distinct (map dr_version_id (rp_schemas st))" and "re_fate env (rp_tick st') = Runs"
  shows "fst (GetLatestSchemaByID env i st')
      = Inr (s\<lparr>ds_version := int (length (rows_of env i st)) + 1\<rparr>)
    \<and> ds_version s = 1 \<and> ds_version_id s = v \<and> ds_model s = sq_model req
    \<and> ds_view s = sq_view req \<and> ds_controller s = sq_controller req"
proof -
  obtain u m w c where u: "re_uuid_in env i = Some u"
    and req: "sq_model req = Some m" "sq_view req = Some w" "sq_controller req = Some c"
    and v: "v \<notin> dr_version_id ` set (rp_schemas st)"
    and rows: "rp_schemas st' = rp_schemas st @ [\<lparr>dr_id = u, dr_version_id = v, dr_model = m,
        dr_view = w, dr_controller = c, dr_active_parameter_set = None, dr_disabled_at = None,
        dr_disabled_by = None, dr_hidden_at = None, dr_hidden_by = None\<rparr>]"
    and s: "s = scan_schema (last (rp_schemas st')) 1"
    using update_appends [OF assms(1-5)] by blast
  let ?r = "last (rp_schemas st')"
  have r: "?r \<in> set (rp_schemas st')" "dr_version_id ?r = v" "dr_id ?r = u"
    by (simp_all add: rows)
  have "dr_version_id q \<le> dr_version_id ?r" if "q \<in> set (rp_schemas st')" for q
  proof -
    from that rows have "q \<in> set (rp_schemas st) \<or> q = ?r" by simp blast
    with assms(6) r(2) show ?thesis by (auto simp: less_imp_le)
  qed
  moreover have "distinct (map dr_version_id (rp_schemas st'))"
    using rows v assms(7) by simp
  ultimately have "select_latest env i st' = Some (Some (scan_schema ?r (length (rows_of env i st'))))"
    using r u by (intro select_latest_max) auto
  moreover have "length (rows_of env i st') = length (rows_of env i st) + 1"
    using rows u by (simp add: rows_of_def)
  ultimately have "fst (GetLatestSchemaByID env i st')
      = Inr (scan_schema ?r (length (rows_of env i st) + 1))"
    using assms(8) by (simp add: GetLatestSchemaByID_def query_row_def db_query_def)
  with s rows req show ?thesis by (simp add: scan_schema_def)
qed

lemma accepted_result: "\<not> isl (fst x) \<Longrightarrow> x = (Inr (projr (fst x)), snd x)"
  by (cases x) auto

lemma sample_update_runs:
  "\<exists>s. respond_UpdateSchema sample_renv ''r'' sample_update sample_respond
     = (Inr s, snd (respond_UpdateSchema sample_renv ''r'' sample_update sample_respond))"
proof -
  have "\<not> isl (fst (respond_UpdateSchema sample_renv ''r'' sample_update sample_respond))"
    by code_simp
  from accepted_result [OF this] show ?thesis by blast
qed

section \<open>Disabling a version\<close>

lemma run_each_job:
  assumes "\<forall>n. re_uuid7 env n \<noteq> None" and "s \<in> set schemas" and "ds_controller s = Some doc"
    and "getStringFromMap doc ''query'' \<noteq> []"
  shows "\<exists>j \<in> set (fst (run_each env dur schemas st)).
    cj_schema_id j = ds_id s \<and> cj_schema_version_id j = ds_version_id s"
  using assms(2)
proof (induction schemas arbitrary: st)
  case Nil
  then show ?case by simp
next
  case (Cons x schemas)
  obtain job st1 where job: "runSchemaCorrelation env dur x st = (job, st1)" by fastforce
  obtain jobs st2 where jobs: "run_each env dur schemas st1 = (jobs, st2)" by fastforce
  show ?case
  proof (cases "x = s")
    case True
    obtain i where "re_uuid7 env (rp_tick st) = Some i" using assms(1) by blast
    with True job assms(3,4) obtain j where "job = Some j" "cj_schema_id j = ds_id s"
        "cj_schema_version_id j = ds_version_id s"
      by (auto simp: runSchemaCorrelation_def NewV7_def Let_def)
    with job jobs show ?thesis by auto
  next
    case False
    with Cons.IH [of st1] Cons.prems jobs have "\<exists>j \<in> set jobs.
        cj_schema_id j = ds_id s \<and> cj_schema_version_id j = ds_version_id s"
      by auto
    with job jobs show ?thesis by (auto split: option.split)
  qed
qed

definition is_active :: "schema_row \<Rightarrow> bool" where
  "is_active r \<longleftrightarrow> dr_disabled_at r = None \<and> dr_hidden_at r = None"

lemma active_where: "re_text_in env [] \<Longrightarrow> schema_where env active_schemas_request = Some is_active"
  by (auto simp: schema_where_def active_schemas_request_def is_active_def)

lemma scheduled:
  assumes "re_text_in env []" and "\<forall>n. re_uuid7 env n \<noteq> None"
    and "re_fate env (rp_tick st) = Runs" and "re_fate env (rp_tick st + 1) = Runs"
    and "length (rp_schemas st) \<le> 1000" and "distinct (map dr_version_id (rp_schemas st))"
    and "q \<in> set (rp_schemas st)" and "is_active q"
    and "\<forall>r \<in> set (rp_schemas st). dr_id r = dr_id q \<longrightarrow> getStringFromMap (dr_controller r) ''query'' \<noteq> []"
  shows "\<exists>j \<in> set (fst (runCorrelations env dur st)). cj_schema_id j = dr_id q
    \<and> (\<exists>r \<in> set (rp_schemas st). is_active r \<and> cj_schema_version_id j = dr_version_id r)"
proof -
  let ?rows = "filter is_active (rp_schemas st)"
  let ?own = "filter (\<lambda>r. dr_id r = dr_id q) ?rows"
  have d: "distinct (map dr_version_id ?rows)" using assms(6) by (simp add: distinct_map_filter)
  have "?own \<noteq> []" using assms(7,8) by (auto simp: filter_empty_conv)
  then obtain m where m: "m \<in> set ?own" "\<forall>r \<in> set ?own. dr_version_id r \<le> dr_version_id m"
    using Max_in [of "dr_version_id ` set ?own"] Max_ge [of "dr_version_id ` set ?own"] by fastforce
  then have top: "row_number_desc ?rows m = 1" "m \<in> set ?rows"
    using row_number_desc_1 [OF d, of m] by auto
  let ?ranked = "filter (\<lambda>r. row_number_desc ?rows r = 1) ?rows"
  have "length ?ranked \<le> 1000"
    using assms(5) length_filter_le [of "\<lambda>r. row_number_desc ?rows r = 1" ?rows]
      length_filter_le [of is_active "rp_schemas st"] by linarith
  moreover have "wrap64 ((ls_page active_schemas_request - 1) * ls_limit active_schemas_request) = 0"
    by (simp add: active_schemas_request_def wrap64_def)
  ultimately have sel: "select_schemas env active_schemas_request (rtick st)
      = Some (map (\<lambda>r. scan_schema r (partition_count ?rows r)) (rev (sort_key dr_version_id ?ranked)))"
    using active_where [OF assms(1)]
    by (simp add: select_schemas_def Let_def page_of_def) (simp add: active_schemas_request_def)
  obtain n where "repo_ListSchemas env active_schemas_request st
      = (Inr (map (\<lambda>r. scan_schema r (partition_count ?rows r)) (rev (sort_key dr_version_id ?ranked)), n),
         rtick (rtick st))"
    using assms(3,4) sel active_where [OF assms(1)]
    by (simp add: repo_ListSchemas_def db_query_def) (simp add: rtick_def)
  then have run: "runCorrelations env dur st = run_each env dur
      (map (\<lambda>r. scan_schema r (partition_count ?rows r)) (rev (sort_key dr_version_id ?ranked)))
      (rtick (rtick st))"
    by (simp add: runCorrelations_def)
  have "scan_schema m (partition_count ?rows m)
      \<in> set (map (\<lambda>r. scan_schema r (partition_count ?rows r)) (rev (sort_key dr_version_id ?ranked)))"
    using top by auto
  from run_each_job [OF assms(2) this, of "dr_controller m" dur "rtick (rtick st)"]
  have "\<exists>j \<in> set (fst (runCorrelations env dur st)).
      cj_schema_id j = dr_id m \<and> cj_schema_version_id j = dr_version_id m"
    using m(1) assms(9) by (simp add: run scan_schema_def)
  with m(1) show ?thesis by auto
qed

lemma query_row_rows: "rp_schemas (snd (query_row env e what q st)) = rp_schemas st"
  by (simp add: query_row_def db_query_def split: fate.split option.split prod.split sum.split)

lemma query_row_Inr: "query_row env e what q st = (Inr x, st') \<Longrightarrow> q st = Some (Some x)"
  by (auto simp: query_row_def db_query_def split: fate.splits option.splits prod.splits sum.splits)

lemma exec_found_None:
  "exec_found env e what stmt st = (None, st') \<Longrightarrow> \<exists>p. stmt st = Some p \<and> st' = rtick (snd p)"
  by (auto simp: exec_found_def db_exec_def split: fate.splits option.splits prod.splits if_splits)

lemma disabled_rows:
  assumes "respond_DisableSchema env i u st = (Inr s, st')"
    and "\<forall>r \<in> set (rp_schemas st). re_uuid_in env (dr_version_id r) = Some (dr_version_id r)"
  shows "\<exists>t by_user. rp_schemas st' = map (\<lambda>r. if dr_version_id r = ds_version_id s \<and> dr_disabled_at r = None
      then r\<lparr>dr_disabled_at := Some t, dr_disabled_by := Some by_user\<rparr> else r) (rp_schemas st)"
proof -
  from assms(1) obtain s0 st1 st2 where 1: "GetLatestSchemaByID env i st = (Inr s0, st1)"
    and 2: "repo_DisableSchema env (ds_version_id s0) u st1 = (None, st2)"
    and 3: "GetSchemaByVersionID env (ds_version_id s0) st2 = (Inr s, st')"
    by (auto simp: respond_DisableSchema_def on_latest_def split: prod.splits sum.splits option.splits)
  have rows1: "rp_schemas st1 = rp_schemas st"
    using query_row_rows [of env ErrSchemaNotFound "''failed to get detection schema: ''"
        "select_latest env i" st] 1
    by (simp add: GetLatestSchemaByID_def)
  have "select_latest env i st = Some (Some s0)"
    using 1 query_row_Inr unfolding GetLatestSchemaByID_def by metis
  then have "ds_version_id s0 \<in> dr_version_id ` set (rp_schemas st)"
    by (auto simp: select_latest_def scan_schema_def Let_def dest!: find_Some_set)
  with assms(2) have v: "re_uuid_in env (ds_version_id s0) = Some (ds_version_id s0)" by auto
  have rows3: "rp_schemas st' = rp_schemas st2"
    using query_row_rows [of env ErrSchemaNotFound "''failed to get detection schema: ''"
        "select_version env (ds_version_id s0)" st2] 3
    by (simp add: GetSchemaByVersionID_def)
  have "select_version env (ds_version_id s0) st2 = Some (Some s)"
    using 3 query_row_Inr unfolding GetSchemaByVersionID_def by metis
  with v have same: "ds_version_id s = ds_version_id s0"
    by (auto simp: select_version_def scan_schema_def filter_eq_Cons_iff split: list.splits)
  obtain by_user where "st2 = rtick (snd (update_schemas
      (\<lambda>r. dr_version_id r = ds_version_id s0 \<and> dr_disabled_at r = None)
      (\<lambda>r. r\<lparr>dr_disabled_at := Some (re_now env (rp_tick st1)), dr_disabled_by := Some by_user\<rparr>) st1))"
  proof (cases "re_uuid_in env u")
    case None
    with exec_found_None [OF 2 [unfolded repo_DisableSchema_def]] v show ?thesis by simp
  next
    case (Some by_user)
    with exec_found_None [OF 2 [unfolded repo_DisableSchema_def]] v show ?thesis
      by (intro that [of by_user]) simp
  qed
  then have "rp_schemas st2 = map (\<lambda>r. if dr_version_id r = ds_version_id s0 \<and> dr_disabled_at r = None
      then r\<lparr>dr_disabled_at := Some (re_now env (rp_tick st1)), dr_disabled_by := Some by_user\<rparr>
      else r) (rp_schemas st1)"
    by (simp only: other_tables updated_tables)
  then have "rp_schemas st' = map (\<lambda>r. if dr_version_id r = ds_version_id s \<and> dr_disabled_at r = None
      then r\<lparr>dr_disabled_at := Some (re_now env (rp_tick st1)), dr_disabled_by := Some by_user\<rparr>
      else r) (rp_schemas st)"
    by (simp only: rows1 rows3 same)
  then show ?thesis by blast
qed

text \<open>C29: disabling a rule does not stop its evaluation when an older version of it is active: the
  scheduler, which ranks the versions that are left after the selection, publishes a job for an
  older version.\<close>

theorem disabled_rule_runs_on:
  assumes "respond_DisableSchema env i u st = (Inr s, st')"
    and "\<forall>r \<in> set (rp_schemas st). re_uuid_in env (dr_version_id r) = Some (dr_version_id r)"
    and "distinct (map dr_version_id (rp_schemas st))" and "length (rp_schemas st) \<le> 1000"
    and "q \<in> set (rp_schemas st)" and "is_active q" and "dr_id q = ds_id s"
    and "dr_version_id q \<noteq> ds_version_id s"
    and "\<forall>r \<in> set (rp_schemas st). getStringFromMap (dr_controller r) ''query'' \<noteq> []"
    and "re_text_in env []" and "\<forall>n. re_uuid7 env n \<noteq> None"
    and "re_fate env (rp_tick st') = Runs" and "re_fate env (rp_tick st' + 1) = Runs"
  shows "\<exists>j \<in> set (fst (runCorrelations env dur st')).
    cj_schema_id j = ds_id s \<and> cj_schema_version_id j \<noteq> ds_version_id s"
proof -
  obtain t by_user where rows: "rp_schemas st' = map (\<lambda>r.
      if dr_version_id r = ds_version_id s \<and> dr_disabled_at r = None
      then r\<lparr>dr_disabled_at := Some t, dr_disabled_by := Some by_user\<rparr> else r) (rp_schemas st)"
    using disabled_rows [OF assms(1,2)] by blast
  have "distinct (map dr_version_id (rp_schemas st'))"
    using assms(3) unfolding rows by (subst map_if_same) simp_all
  moreover have "q \<in> set (rp_schemas st')"
    using assms(5,8) unfolding rows by (auto intro!: rev_image_eqI [of q])
  moreover have "\<forall>r \<in> set (rp_schemas st'). dr_id r = dr_id q \<longrightarrow>
      getStringFromMap (dr_controller r) ''query'' \<noteq> []"
    using assms(9) unfolding rows by auto
  moreover have "length (rp_schemas st') \<le> 1000"
    using assms(4) unfolding rows by simp
  ultimately obtain j r where j: "j \<in> set (fst (runCorrelations env dur st'))" "cj_schema_id j = dr_id q"
      and r: "r \<in> set (rp_schemas st')" "is_active r" "cj_schema_version_id j = dr_version_id r"
    using scheduled [OF assms(10,11,12,13), of q dur] assms(6) by blast
  from r(1,2) have "dr_version_id r \<noteq> ds_version_id s"
    unfolding rows by (auto simp: is_active_def split: if_splits)
  with j r assms(7) show ?thesis by auto
qed

theorem disabled_rule_runs_on_witness:
  "\<exists>j \<in> set (fst (runCorrelations sample_renv (\<lambda>_. None)
      (snd (respond_DisableSchema sample_renv ''r'' ''u'' sample_respond)))).
     cj_schema_id j = ''r'' \<and> cj_schema_version_id j \<noteq> ''b''"
proof -
  let ?x = "respond_DisableSchema sample_renv ''r'' ''u'' sample_respond"
  have "\<not> isl (fst ?x)" by code_simp
  note s = accepted_result [OF this]
  have "ds_id (projr (fst ?x)) = ''r''" "ds_version_id (projr (fst ?x)) = ''b''" by code_simp+
  with disabled_rule_runs_on [OF s, of "sample_row ''a''" "\<lambda>_. None"] show ?thesis
    by (simp add: sample_renv_def sample_respond_def sample_row_def is_active_def getStringFromMap_def)
qed

section \<open>Rules change without a token\<close>

lemma last_segment:
  assumes "CHR ''/'' \<notin> set i"
  shows "takeWhile (\<lambda>c. c \<noteq> CHR ''/'') (rev (p @ CHR ''/'' # i)) = rev i"
proof -
  have "takeWhile (\<lambda>c. c \<noteq> CHR ''/'') (rev i @ CHR ''/'' # rev p)
      = rev i @ takeWhile (\<lambda>c. c \<noteq> CHR ''/'') (CHR ''/'' # rev p)"
    by (rule takeWhile_append2) (use assms in auto)
  then show ?thesis by simp
qed

lemma suffix_after:
  assumes "CHR ''/'' \<notin> set w" and "CHR ''/'' \<notin> set i"
  shows "has_suffix (p @ CHR ''/'' # i) (CHR ''/'' # w) \<longleftrightarrow> i = w"
proof
  assume "has_suffix (p @ CHR ''/'' # i) (CHR ''/'' # w)"
  then obtain q where "p @ CHR ''/'' # i = q @ CHR ''/'' # w"
    by (metis append_take_drop_id has_suffix_def)
  with last_segment [OF assms(1), of q] last_segment [OF assms(2), of p] show "i = w"
    by simp
qed (simp add: has_suffix_def)

lemma split_on_whole: "d \<notin> set s \<Longrightarrow> split_on d s = [s]"
  by (induction s) auto

definition schema_path :: "string \<Rightarrow> string" where
  "schema_path i = ''/schemas'' @ CHR ''/'' # i"

lemma schema_path_route:
  assumes "CHR ''/'' \<notin> set i" and "i \<notin> {[], ''disable'', ''enable'', ''versions'', ''parameters''}"
    and "rq_path r = schema_path i"
  shows "respond_NewRouter env h alerts r st = SchemaHandler env h r st"
    and "extractIDFromPath (rq_path r) ''/schemas'' = i"
proof -
  have suffix: "has_suffix (schema_path i) (CHR ''/'' # w) \<longleftrightarrow> i = w" if "CHR ''/'' \<notin> set w" for w
    unfolding schema_path_def by (rule suffix_after [OF that assms(1)])
  from suffix [of "''disable''"] suffix [of "''enable''"] suffix [of "''versions''"]
    suffix [of "''parameters''"] assms(2)
  have "schemaRouteHandler env h r st = SchemaHandler env h r st"
    by (simp add: schemaRouteHandler_def assms(3))
  then show "respond_NewRouter env h alerts r st = SchemaHandler env h r st"
    using assms by (simp add: respond_NewRouter_def schema_path_def has_prefix_def)
  show "extractIDFromPath (rq_path r) ''/schemas'' = i"
    using assms by (simp add: extractIDFromPath_def schema_path_def has_prefix_def split_on_whole)
qed

text \<open>replacing a rule takes no token. A \<open>PUT\<close> of a decodable body to a rule that exists appends
  a version with the documents of the request, whatever the \<open>Authorization\<close> header is, when the
  operation itself succeeds.\<close>

lemma rule_replaced_by_anybody:
  assumes "rq_method r = ''PUT''" and "rq_path r = schema_path i" and "CHR ''/'' \<notin> set i"
    and "i \<notin> {[], ''disable'', ''enable'', ''versions'', ''parameters''}"
    and "read_body (rh_schema h) r = Some req"
    and "respond_UpdateSchema env i req st = (Inr s, st')"
    and "re_uuid7 env (rp_tick st + 1) = Some v" and "v \<noteq> []" and "re_uuid_in env v = Some v"
  shows "respond_NewRouter env h alerts r st = (WriteJSONAPI 200 (schema_doc h s), st')
    \<and> (\<exists>new. rp_schemas st' = rp_schemas st @ [new] \<and> Some (dr_id new) = re_uuid_in env i
         \<and> Some (dr_model new) = sq_model req \<and> Some (dr_view new) = sq_view req
         \<and> Some (dr_controller new) = sq_controller req \<and> is_active new)"
proof -
  have "i \<noteq> []" using assms(4) by blast
  from update_appends [OF assms(6) this assms(7-9)] have "\<exists>new. rp_schemas st' = rp_schemas st @ [new]
      \<and> Some (dr_id new) = re_uuid_in env i
      \<and> Some (dr_model new) = sq_model req \<and> Some (dr_view new) = sq_view req
      \<and> Some (dr_controller new) = sq_controller req \<and> is_active new"
    by (auto simp: is_active_def)
  with schema_path_route(1) [OF assms(3,4,2), of env h alerts st] schema_path_route(2) [OF assms(3,4,2)]
    assms(1,5,6) \<open>i \<noteq> []\<close>
  show ?thesis
    by (simp add: SchemaHandler_def h_UpdateSchema_def answer_with_def)
qed

lemma rule_replaced_by_anybody_example:
  "rs_status (fst (respond_NewRouter sample_renv sample_http (\<lambda>_. no_content)
     (sample_call ''PUT'' ''/schemas/r'' []) sample_respond)) = 200"
proof -
  obtain s where s: "respond_UpdateSchema sample_renv ''r'' sample_update sample_respond
      = (Inr s, snd (respond_UpdateSchema sample_renv ''r'' sample_update sample_respond))"
    using sample_update_runs by blast
  have "read_body (rh_schema sample_http) (sample_call ''PUT'' ''/schemas/r'' []) = Some sample_update"
    by (simp add: read_body_def sample_http_def sample_call_def)
  from rule_replaced_by_anybody [OF _ _ _ _ this s, of "''vv''" "\<lambda>_. no_content"] show ?thesis
    by (simp add: sample_call_def schema_path_def sample_renv_def sample_respond_def WriteJSONAPI_def)
qed

end
