(* ===== verification/RespondAlerts.thy ===== *)
theory RespondAlerts
  imports Gateway RespondHandler
begin

text \<open>
  The alerts of the respond service: the queries on the alert indices and the conversion of a
  document (\<^verbatim>\<open>respond/internal/storage/opensearch.go\<close>), and the handlers
  (\<^verbatim>\<open>respond/internal/handlers/alerts.go\<close>). OpenSearch is the parameter \<open>ra_search\<close>, from the query of
  the search body, the offset and the size to the hits. The caller is asked for at the authenticate
  service's router.
\<close>

section \<open>Requests and documents\<close>

record list_alerts_request =
  la_page :: int
  la_limit :: int
  la_severity :: string
  la_status :: string
  la_priority :: string
  la_from :: "time option"
  la_to :: "time option"
  la_schema_id :: string
  la_schema_version_id :: string
  la_case_id :: string
  la_client_id :: string

record alert =
  at_alert_id :: string
  at_schema_id :: string
  at_schema_version_id :: string
  at_schema_title :: string
  at_title :: string
  at_description :: string
  at_severity :: string
  at_status :: string
  at_triggered_at :: time
  at_event_count :: int
  at_fields :: "fields option"

datatype search_answer = Search_failed string | Search_hits int "(string \<times> gval) list"

record alert_storage =
  ra_search :: "gval \<Rightarrow> int option \<Rightarrow> int option \<Rightarrow> search_answer"
  ra_int_field :: "int \<times> int \<Rightarrow> int option"    \<comment> \<open>a number with mantissa and exponent into an \<open>int\<close> field:
      None for a literal with a fraction or an exponent, or out of range\<close>
  ra_parse_time :: "string \<Rightarrow> time option"      \<comment> \<open>\<open>time.Parse(time.RFC3339, s)\<close>\<close>
  ra_format_time :: "time \<Rightarrow> string"            \<comment> \<open>\<open>t.Format(time.RFC3339)\<close>\<close>
  ra_now :: time

definition term_query :: "string \<Rightarrow> gval \<Rightarrow> gval" where
  "term_query key v = GObj [(''term'', GObj [(key, v)])]"

definition term_if_set :: "string \<Rightarrow> string \<Rightarrow> gval list" where
  "term_if_set key s = (if s = [] then [] else [term_query key (GStr s)])"

definition bool_must :: "gval list \<Rightarrow> gval" where
  "bool_must must = GObj [(''bool'', GObj [(''must'', GArr must)])]"

definition buildAlertsQuery :: "alert_storage \<Rightarrow> list_alerts_request \<Rightarrow> gval" where
  "buildAlertsQuery sto req =
     (let limit = (\<lambda>key t. case t of None \<Rightarrow> [] | Some x \<Rightarrow> [(key, GStr (ra_format_time sto x))]);
          range_filter = limit ''gte'' (la_from req) @ limit ''lte'' (la_to req) in
      bool_must
        ([term_query ''class_uid'' (GInt 2001)]
         @ term_if_set ''client_id'' (la_client_id req)
         @ term_if_set ''severity'' (to_lower (la_severity req))
         @ term_if_set ''detection_schema_id'' (la_schema_id req)
         @ term_if_set ''detection_schema_version_id'' (la_schema_version_id req)
         @ term_if_set ''case_id'' (la_case_id req)
         @ (if range_filter = [] then []
            else [GObj [(''range'', GObj [(''time'', GObj range_filter)])]])))"

definition as_object :: "gval \<Rightarrow> fields option" where
  "as_object v = (case v of GObj m \<Rightarrow> Some m | _ \<Rightarrow> None)"

definition map_opt :: "('a \<Rightarrow> 'b option) \<Rightarrow> 'a list \<Rightarrow> 'b list option" where
  "map_opt f xs = (if list_all (\<lambda>x. f x \<noteq> None) xs then Some (map (the \<circ> f) xs) else None)"

definition resource_name :: "gval \<Rightarrow> string option" where
  \<comment> \<open>an element of \<open>resources\<close>, of which only the name is used\<close>
  "resource_name v =
     (case v of
        GNil \<Rightarrow> Some []
      | GObj m \<Rightarrow>
          (case (field_or as_str [] m ''name'', field_or as_str [] m ''type'') of
             (Some n, Some _) \<Rightarrow> Some n | _ \<Rightarrow> None)
      | _ \<Rightarrow> None)"

definition as_int_number :: "alert_storage \<Rightarrow> gval \<Rightarrow> int option" where
  \<comment> \<open>a JSON number into an \<open>int\<close> field, which depends on how it was written\<close>
  "as_int_number sto v =
     (case v of GInt n \<Rightarrow> Some n
      | GFloat m e \<Rightarrow> ra_int_field sto (m, e)
      | _ \<Rightarrow> None)"

definition parseAlertFromOCSF :: "alert_storage \<Rightarrow> string \<Rightarrow> gval \<Rightarrow> alert option" where
  \<comment> \<open>None where \<open>Unmarshal\<close> refuses the document\<close>
  "parseAlertFromOCSF sto i source =
     (case source of
        GObj m \<Rightarrow>
          (case (field_or as_str [] m ''time'', field_or as_str [] m ''severity'',
                 field_or (as_int_number sto) 0 m ''severity_id'', field_or as_str [] m ''status'',
                 field_or as_str [] m ''detection_schema_id'',
                 field_or as_str [] m ''detection_schema_version_id'') of
             (Some time, Some severity, Some _, Some status, Some schema_id, Some version_id) \<Rightarrow>
               Option.bind (field_or as_object [] m ''finding_info'') (\<lambda>info.
                 (case (field_or as_str [] info ''uid'', field_or as_str [] info ''title'',
                        field_or as_str [] info ''desc'') of
                    (Some _, Some title, Some desc) \<Rightarrow>
                      Option.bind (Option.bind (field_or as_arr [] m ''resources'') (map_opt resource_name))
                        (\<lambda>resources.
                      Option.bind (field_or (\<lambda>v. map_option Some (as_object v)) None m ''raw_data'')
                        (\<lambda>raw.
                      map_option (\<lambda>events.
                        \<lparr>at_alert_id = i, at_schema_id = schema_id, at_schema_version_id = version_id,
                         at_schema_title = (case resources of [] \<Rightarrow> ''Unknown Rule'' | n # _ \<Rightarrow> n),
                         at_title = title, at_description = desc, at_severity = severity,
                         at_status = (if status = [] then ''open'' else status),
                         at_triggered_at =
                           (case ra_parse_time sto time of
                              None \<Rightarrow> ra_now sto | Some t \<Rightarrow> if is_zero t then ra_now sto else t),
                         at_event_count =
                           (case raw of
                              None \<Rightarrow> int (length events)
                            | Some fs \<Rightarrow>
                                (case map_of fs ''event_count'' of
                                   Some (GFloat x e) \<Rightarrow> float_to_int x e
                                 | Some (GInt x) \<Rightarrow> x
                                 | _ \<Rightarrow> int (length events))),
                         at_fields = raw\<rparr>) (field_or as_arr [] m ''matched_events'')))
                  | _ \<Rightarrow> None))
           | _ \<Rightarrow> None)
      | _ \<Rightarrow> None)"

definition sto_ListAlerts ::
  "alert_storage \<Rightarrow> list_alerts_request \<Rightarrow> string + alert paged" where
  \<comment> \<open>a document that cannot be parsed is skipped\<close>
  "sto_ListAlerts sto req =
     (let from = wrap64 ((la_page req - 1) * la_limit req) in
      case ra_search sto (buildAlertsQuery sto req) (Some (if from < 0 then 0 else from))
             (Some (la_limit req)) of
        Search_failed err \<Rightarrow> Inl err
      | Search_hits n hits \<Rightarrow>
          let p = \<lparr>pg_page = la_page req, pg_limit = la_limit req, pg_total = n\<rparr> in
          Inr \<lparr>pd_items = List.map_filter (\<lambda>(i, source). parseAlertFromOCSF sto i source) hits,
               pd_pagination = p, pd_total_pages = max 1 (total_pages p)\<rparr>)"

definition alert_by_id_query :: "string \<Rightarrow> string \<Rightarrow> gval" where
  "alert_by_id_query i clientID =
     bool_must
       ([GObj [(''ids'', GObj [(''values'', GArr [GStr i])])]] @ term_if_set ''client_id'' clientID)"

definition GetAlertByID :: "alert_storage \<Rightarrow> string \<Rightarrow> string \<Rightarrow> string + alert" where
  "GetAlertByID sto i clientID =
     (case ra_search sto (alert_by_id_query i clientID) None None of
        Search_failed err \<Rightarrow> Inl err
      | Search_hits n [] \<Rightarrow> Inl (''alert not found: '' @ i)
      | Search_hits n ((hit, source) # hits) \<Rightarrow>
          (case parseAlertFromOCSF sto hit source of
             None \<Rightarrow> Inl ''failed to parse OCSF alert'' | Some a \<Rightarrow> Inr a))"

section \<open>Handlers\<close>

definition writeAlertsError :: "int \<Rightarrow> string \<Rightarrow> string \<Rightarrow> doc response" where
  "writeAlertsError status errCode message =
     WriteJSON status (GObj [(''error'', GStr errCode), (''message'', GStr message)])"

definition alert_doc :: "respond_http \<Rightarrow> alert \<Rightarrow> gval" where
  "alert_doc h a =
     GObj ([(''alert_id'', GStr (at_alert_id a)), (''detection_schema_id'', GStr (at_schema_id a)),
       (''detection_schema_version_id'', GStr (at_schema_version_id a)),
       (''detection_schema_title'', GStr (at_schema_title a)), (''title'', GStr (at_title a)),
       (''description'', GStr (at_description a)), (''severity'', GStr (at_severity a)),
       (''priority'', GStr []), (''status'', GStr (at_status a)),
       (''triggered_at'', GStr (rh_time h (at_triggered_at a))),
       (''event_count'', GInt (at_event_count a))]
     @ (case at_fields a of None \<Rightarrow> [] | Some [] \<Rightarrow> [] | Some m \<Rightarrow> [(''fields'', GObj m)]))"

definition alerts_request :: "alert_storage \<Rightarrow> string \<Rightarrow> request \<Rightarrow> list_alerts_request" where
  "alerts_request sto clientID r =
     (let q = rq_query r;
          time = (\<lambda>key. if q key = [] then None else ra_parse_time sto (q key)) in
      \<lparr>la_page = (case atoi (q ''page'') of Some p \<Rightarrow> if p > 0 then p else 1 | None \<Rightarrow> 1),
       la_limit = (case atoi (q ''limit'') of
                     Some l \<Rightarrow> if l > 0 \<and> l \<le> 100 then l else 20 | None \<Rightarrow> 20),
       la_severity = q ''severity'', la_status = q ''status'', la_priority = q ''priority'',
       la_from = time ''from'', la_to = time ''to'', la_schema_id = q ''detection_schema_id'',
       la_schema_version_id = [], la_case_id = q ''case_id'', la_client_id = clientID\<rparr>)"

definition with_context ::
  "respond_http \<Rightarrow> alert_storage option \<Rightarrow> request \<Rightarrow>
     (alert_storage \<Rightarrow> user_context \<Rightarrow> doc response) \<Rightarrow> doc response"
where
  \<comment> \<open>the checks both handlers start with; no storage means OpenSearch was not reachable\<close>
  "with_context h storage r act =
     (if rq_method r \<noteq> ''GET''
      then writeAlertsError 405 ''method_not_allowed'' ''Method not allowed''
      else
        (case storage of
           None \<Rightarrow> writeAlertsError 503 ''service_unavailable''
                     ''Alerts service temporarily unavailable: OpenSearch connection failed''
         | Some sto \<Rightarrow>
             (case requireUserContext h r of
                None \<Rightarrow> writeAlertsError 401 ''unauthorized'' ''Valid authentication required''
              | Some uc \<Rightarrow> act sto uc)))"

definition h_ListAlerts :: "respond_http \<Rightarrow> alert_storage option \<Rightarrow> request \<Rightarrow> doc response" where
  "h_ListAlerts h storage r =
     with_context h storage r (\<lambda>sto uc.
       (case sto_ListAlerts sto (alerts_request sto (uc_client_id uc) r) of
          Inl err \<Rightarrow> writeAlertsError 500 ''storage_error'' err
        | Inr resp \<Rightarrow>
            WriteJSON 200 (GObj
              [(''alerts'', GArr (map (alert_doc h) (pd_items resp))),
               (''page'', GInt (pg_page (pd_pagination resp))),
               (''limit'', GInt (pg_limit (pd_pagination resp))),
               (''total'', GInt (pg_total (pd_pagination resp))),
               (''total_pages'', GInt (pd_total_pages resp))])))"

definition h_GetAlert :: "respond_http \<Rightarrow> alert_storage option \<Rightarrow> request \<Rightarrow> doc response" where
  "h_GetAlert h storage r =
     with_context h storage r (\<lambda>sto uc.
       (let path = rq_path r; prefix = ''/api/v1/alerts/'';
            i = (if has_prefix path prefix then drop (length prefix) path else path) in
        if i = [] then writeAlertsError 400 ''missing_id'' ''Alert ID is required''
        else
          (case GetAlertByID sto i (uc_client_id uc) of
             Inl err \<Rightarrow>
               if contains_str err ''not found'' then writeAlertsError 404 ''not_found'' ''Alert not found''
               else writeAlertsError 500 ''storage_error'' err
           | Inr a \<Rightarrow> WriteJSON 200 (alert_doc h a))))"

definition AlertsRoute :: "respond_http \<Rightarrow> alert_storage option \<Rightarrow> request \<Rightarrow> doc response" where
  "AlertsRoute h storage r =
     (let path = rq_path r in
      if path = ''/api/v1/alerts'' \<or> path = ''/api/v1/alerts/'' then h_ListAlerts h storage r
      else if has_prefix path ''/api/v1/alerts/'' then h_GetAlert h storage r
      else writeAlertsError 404 ''not_found'' ''Endpoint not found'')"

end
