(* ===== verification/RespondAnswers.thy ===== *)
theory RespondAnswers
  imports RespondVersions RespondAlerts
begin

text \<open>
  What the respond service answers: the shape of its responses, the cases it can never store, and
  whose alerts it shows.
\<close>

section \<open>Shape of the answers\<close>

definition error_document :: "int \<Rightarrow> doc \<Rightarrow> bool" where
  \<comment> \<open>one error, which repeats the status and has a code and a title\<close>
  "error_document status body \<longleftrightarrow>
     (\<exists>code title detail. code \<noteq> [] \<and> title \<noteq> []
        \<and> body = Doc (GObj [(''errors'', GArr [GObj
            [(''status'', GInt status), (''code'', GStr code), (''title'', GStr title),
             (''detail'', GStr detail)]])]))"

definition rule_resource :: "gval \<Rightarrow> bool" where
  "rule_resource v \<longleftrightarrow>
     (\<exists>i attributes. v = GObj [(''type'', GStr ''detection_schema''), (''id'', GStr i),
        (''attributes'', GObj attributes)])"

definition collection_document :: "doc \<Rightarrow> bool" where
  "collection_document body \<longleftrightarrow>
     (\<exists>items meta. body = Doc (GObj [(''data'', GArr items), (''meta'', meta)]) \<and> list_all rule_resource items)"

definition bare_document :: "doc \<Rightarrow> bool" where
  \<comment> \<open>an object that is no JSON:API document: it has members, and none of the top level of JSON:API\<close>
  "bare_document body \<longleftrightarrow>
     (\<exists>m. body = Doc (GObj m) \<and> m \<noteq> []
        \<and> list_all (\<lambda>k. map_of m k = None) [''data'', ''errors'', ''meta'', ''links'', ''included''])"

definition answer_typed :: "bool \<Rightarrow> bool \<Rightarrow> doc response \<Rightarrow> bool" where
  \<comment> \<open>whether the request lists the rules, and whether it creates something\<close>
  "answer_typed listing creates a \<longleftrightarrow>
     rs_content_type a = ''application/vnd.api+json''
     \<and> (if rs_status a \<in> {200, 201}
        then (rs_status a = 201 \<longleftrightarrow> creates)
          \<and> (if listing then collection_document (rs_body a) else bare_document (rs_body a))
        else rs_status a \<in> {400, 401, 404, 405, 500} \<and> error_document (rs_status a) (rs_body a))"

lemma error_answer:
  "status \<in> {400, 401, 404, 405, 500} \<Longrightarrow> code \<noteq> [] \<Longrightarrow> title \<noteq> [] \<Longrightarrow>
     answer_typed l c (WriteJSONAPIError status code title detail)"
  by (auto simp: answer_typed_def WriteJSONAPIError_def WriteJSONAPI_def error_document_def)

lemma error_answers [intro, simp]:
  "answer_typed l c method_not_allowed" "answer_typed l c auth_required" "answer_typed l c invalid_body"
  "answer_typed l c (WriteJSONAPIValidationError s)" "answer_typed l c (internal_failure h err)"
  "answer_typed l c (schema_failure h i err)" "answer_typed l c (case_failure h i err)"
  unfolding method_not_allowed_def auth_required_def invalid_body_def internal_failure_def
    schema_failure_def case_failure_def failure_answer_def WriteJSONAPIValidationError_def
    WriteJSONAPIInternalError_def WriteJSONAPINotFoundError_def
  by (simp_all add: error_answer split del: if_split split: if_split)

lemma ok_answers:
  "bare_document (Doc v) \<Longrightarrow> status = (if c then 201 else 200) \<Longrightarrow> answer_typed False c (WriteJSONAPI status v)"
  by (simp add: answer_typed_def WriteJSONAPI_def)

lemma optional_key:
  "k \<noteq> k' \<Longrightarrow> map_of (if_text k s) k' = None" "k \<noteq> k' \<Longrightarrow> map_of (if_set k v) k' = None"
  "k \<noteq> k' \<Longrightarrow> map_of (if_int k n) k' = None"
  by (simp_all add: if_text_def if_set_def if_int_def split: option.split)

lemma bare_docs [simp]:
  "bare_document (Doc (schema_doc h s))" "bare_document (Doc (case_doc h c))"
  "bare_document (Doc (history_doc h v))"
  "bare_document (Doc (GObj [(''id'', a), (''hidden_at'', b)]))"
  "bare_document (Doc (GObj [(''status'', a), (''service'', b)]))"
  "bare_document (Doc (GObj [(''cases'', a), (''pagination'', b)]))"
  "bare_document (Doc (GObj [(''case_id'', a), (''alerts'', b)]))"
  "bare_document (Doc (GObj [(''case_id'', a), (''added'', b), (''alert_ids'', c')]))"
  by (simp_all add: bare_document_def schema_doc_def case_doc_def history_doc_def Let_def optional_key
      map_add_def)

lemma answered_typed:
  "(\<And>x. bare_document (Doc (to_doc x))) \<Longrightarrow> (\<And>err. answer_typed False c (fail err)) \<Longrightarrow>
     status = (if c then 201 else 200) \<Longrightarrow> answer_typed False c (fst (answer_with status to_doc fail res))"
  by (cases res) (auto simp: answer_with_def ok_answers split: sum.split)

lemma user_answer:
  "(\<And>u. answer_typed l c (fst (act u))) \<Longrightarrow> answer_typed l c (fst (with_user h r st act))"
  by (simp add: with_user_def split: option.split)

lemma collection_answer:
  "answer_typed True False (WriteJSONAPICollection 200 ''detection_schema''
     (map (\<lambda>s. [(''id'', GStr (ds_id s)), (''attributes'', schema_doc h s)]) ss) (Some p))"
  by (auto simp: WriteJSONAPICollection_def answer_typed_def WriteJSONAPI_def collection_document_def
      collection_item_def resource_val_def rule_resource_def list_all_iff schema_doc_def Let_def)

lemma schema_answers:
  "answer_typed (rq_method r = ''GET'') (rq_method r = ''POST'') (fst (SchemasHandler env h r st))"
  "answer_typed False False (fst (schemaRouteHandler env h r st))"
proof -
  show "answer_typed (rq_method r = ''GET'') (rq_method r = ''POST'') (fst (SchemasHandler env h r st))"
    by (auto simp: SchemasHandler_def h_ListSchemas_def h_CreateSchema_def
        intro!: answered_typed collection_answer split: option.split prod.split sum.split)
  have "answer_typed False False (fst (SchemaHandler env h r st))"
    by (auto simp: SchemaHandler_def Let_def h_GetSchema_def h_UpdateSchema_def h_HideSchema_def
        intro!: answered_typed user_answer ok_answers split: option.split prod.split)
  moreover have "answer_typed False False (fst (DisableSchemaHandler env h r st))"
    "answer_typed False False (fst (EnableSchemaHandler env h r st))"
    "answer_typed False False (fst (VersionHistoryHandler env h r st))"
    "answer_typed False False (fst (SetParameterSetHandler env h r st))"
    by (auto simp: DisableSchemaHandler_def EnableSchemaHandler_def VersionHistoryHandler_def
        SetParameterSetHandler_def Let_def intro!: answered_typed user_answer split: option.split)
  ultimately show "answer_typed False False (fst (schemaRouteHandler env h r st))"
    by (simp add: schemaRouteHandler_def Let_def)
qed

lemma case_answers:
  "answer_typed False (rq_method r = ''POST'') (fst (CasesHandler env h r st))"
  "answer_typed False False (fst (caseRouteHandler env h r st))"
proof -
  show "answer_typed False (rq_method r = ''POST'') (fst (CasesHandler env h r st))"
    by (auto simp: CasesHandler_def h_ListCases_def h_CreateCase_def
        intro!: answered_typed user_answer split: option.split)
  have "answer_typed False False (fst (CaseHandler env h r st))"
    "answer_typed False False (fst (CloseCaseHandler env h r st))"
    "answer_typed False False (fst (ReopenCaseHandler env h r st))"
    by (auto simp: CaseHandler_def CloseCaseHandler_def ReopenCaseHandler_def Let_def h_GetCase_def
        h_UpdateCase_def intro!: answered_typed user_answer split: option.split)
  moreover have "answer_typed False False (fst (CaseAlertsHandler env h r st))"
    by (auto simp: CaseAlertsHandler_def Let_def h_GetCaseAlerts_def h_AddAlertsToCase_def
        intro!: answered_typed user_answer ok_answers split: option.split prod.split)
  ultimately show "answer_typed False False (fst (caseRouteHandler env h r st))"
    by (simp add: caseRouteHandler_def Let_def)
qed

definition json_api_path :: "string \<Rightarrow> bool" where
  "json_api_path path \<longleftrightarrow>
     path \<in> {''/healthz'', ''/readyz'', ''/schemas'', ''/api/v1/cases''}
     \<or> has_prefix path ''/schemas/'' \<or> has_prefix path ''/api/v1/cases/''"

definition lists_rules :: "request \<Rightarrow> bool" where
  "lists_rules r \<longleftrightarrow> rq_path r = ''/schemas'' \<and> rq_method r = ''GET''"

definition creates_resource :: "request \<Rightarrow> bool" where
  "creates_resource r \<longleftrightarrow> rq_path r \<in> {''/schemas'', ''/api/v1/cases''} \<and> rq_method r = ''POST''"

text \<open>C31: Every answer of the routes of rules, cases and health checks has the content type of JSON:API
  and one of seven statuses. A failure is a JSON:API document with one error, which repeats the status
  and has a code and a title; 201 is the status of what creates a rule or a case, and of nothing else;
  the list of rules is a JSON:API document of resources. Every other success is a bare object without
  any member of the top level of JSON:API, though its content type and the documentation say otherwise.\<close>

theorem respond_answers_typed:
  assumes "json_api_path (rq_path r)"
  shows "answer_typed (lists_rules r) (creates_resource r) (fst (respond_NewRouter env h alerts r st))"
proof -
  consider "rq_path r \<in> {''/healthz'', ''/readyz''}" | "rq_path r = ''/schemas''" | "rq_path r = ''/api/v1/cases''"
    | "has_prefix (rq_path r) ''/schemas/''" | "has_prefix (rq_path r) ''/api/v1/cases/''"
    using assms by (auto simp: json_api_path_def)
  moreover have "rq_path r \<noteq> ''/api/v1/cases''" if "has_prefix (rq_path r) ''/schemas/''"
    using that by (auto simp: has_prefix_def)
  ultimately show ?thesis
    using schema_answers [where r = r] case_answers [where r = r]
    by cases (auto simp: respond_NewRouter_def HealthCheck_def lists_rules_def creates_resource_def Let_def
        ok_answers has_prefix_def)
qed

theorem respond_answers_typed_witness:
  "answer_typed False False (fst (respond_NewRouter sample_renv sample_http (\<lambda>_. no_content)
     (sample_call ''PUT'' ''/schemas/r/disable'' []) sample_respond))"
proof -
  let ?r = "sample_call ''PUT'' ''/schemas/r/disable'' []"
  have "answer_typed (lists_rules ?r) (creates_resource ?r)
      (fst (respond_NewRouter sample_renv sample_http (\<lambda>_. no_content) ?r sample_respond))"
    by (rule respond_answers_typed) (simp add: json_api_path_def sample_call_def has_prefix_def)
  then show ?thesis by (simp add: lists_rules_def creates_resource_def sample_call_def)
qed

section \<open>Cases\<close>

definition no_case :: "respond_env \<Rightarrow> respond \<Rightarrow> respond \<Rightarrow> bool" where
  "no_case env st st' \<longleftrightarrow> re_case_columns env \<or> rp_cases st \<noteq> [] \<or> rp_cases st' = []"

interpretation no_case: respond_change "no_case env" env with_token for env with_token
  by unfold_locales
    (auto simp: no_case_def updated_tables insert_schema_def insert_case_def insert_case_alert_def
      split: option.split)

lemma create_case_fails:
  assumes "\<not> re_case_columns env"
  shows "\<exists>err. fst (respond_CreateCase env req u st) = Inl err"
proof -
  have "insert_case env c st = None" for c st
    using assms by (simp add: insert_case_def split: option.split)
  then have "\<exists>err. fst (db_exec env (insert_case env c) st) = Inl err" for c st
    by (simp add: db_exec_def split: fate.split)
  then have "repo_CreateCase env c st \<noteq> (None, st')" for c st st'
    by (auto simp: repo_CreateCase_def split: prod.split sum.split) (metis fst_conv sum.distinct(1))
  then show ?thesis
    by (auto simp: respond_CreateCase_def split: prod.split option.split)
qed

text \<open>on the tables the migration creates, which lack the columns \<open>severity\<close> and \<open>created_by\<close> of
  \<open>cases\<close>, no case is ever stored, and every attempt to create one is answered by status 500.\<close>

lemma cases_never_stored:
  assumes "\<not> re_case_columns env" and "respond_run env st st'" and "rp_cases st = []"
    and "rq_method r = ''POST''" and "rq_path r = ''/api/v1/cases''"
    and "read_body (rh_create_case h) r = Some req" and "getUserIDFromRequest h r = Some u"
  shows "rp_cases st' = [] \<and> rs_status (fst (respond_NewRouter env h alerts r st')) = 500"
proof -
  have "rp_cases st' = []"
    using no_case.run [OF assms(2), of True] assms(1,3) by (simp add: no_case_def)
  moreover obtain err where "fst (respond_CreateCase env req u st') = Inl err"
    using create_case_fails [OF assms(1)] by blast
  ultimately show ?thesis
    using assms(4-7)
    by (cases "respond_CreateCase env req u st'")
      (simp add: respond_NewRouter_def has_prefix_def CasesHandler_def h_CreateCase_def with_user_def
        answer_with_def internal_failure_def WriteJSONAPIInternalError_def WriteJSONAPIError_def
        WriteJSONAPI_def)
qed

lemma cases_never_stored_example:
  "rs_status (fst (respond_NewRouter sample_renv sample_http (\<lambda>_. no_content)
     (sample_call ''POST'' ''/api/v1/cases'' ''Bearer t'') sample_respond)) = 500"
proof -
  let ?r = "sample_call ''POST'' ''/api/v1/cases'' ''Bearer t''"
  have "getUserIDFromRequest sample_http ?r = Some ''u''" by code_simp
  moreover obtain req where "read_body (rh_create_case sample_http) ?r = Some req"
    by (simp add: read_body_def sample_http_def sample_call_def)
  ultimately show ?thesis
    using cases_never_stored [OF _ respond_run.start, of sample_renv sample_respond ?r sample_http req "''u''"]
    by (simp add: sample_renv_def sample_respond_def sample_call_def)
qed

section \<open>Alerts\<close>

definition has_term :: "string \<Rightarrow> string \<Rightarrow> gval \<Rightarrow> bool" where
  "has_term key v source \<longleftrightarrow> (case source of GObj m \<Rightarrow> map_of m key = Some (GStr v) | _ \<Rightarrow> False)"

definition respects_terms :: "alert_storage \<Rightarrow> bool" where
  \<comment> \<open>what OpenSearch promises of a \<open>must\<close> clause with a \<open>term\<close> query on \<open>client_id\<close>, a keyword\<close>
  "respects_terms sto \<longleftrightarrow>
     (\<forall>must start limit n hits v.
        ra_search sto (bool_must must) start limit = Search_hits n hits
        \<longrightarrow> term_query ''client_id'' (GStr v) \<in> set must
        \<longrightarrow> (\<forall>hit \<in> set hits. has_term ''client_id'' v (snd hit)))"

definition from_client :: "alert_storage \<Rightarrow> string \<Rightarrow> alert \<Rightarrow> bool" where
  \<comment> \<open>the alert was read from a document of the client\<close>
  "from_client sto client a \<longleftrightarrow>
     (\<exists>i source. parseAlertFromOCSF sto i source = Some a \<and> has_term ''client_id'' client source)"

lemma searched_client:
  assumes "respects_terms sto" and "ra_search sto (bool_must must) start limit = Search_hits n hits"
    and "term_query ''client_id'' (GStr client) \<in> set must"
    and "(i, source) \<in> set hits" and "parseAlertFromOCSF sto i source = Some a"
  shows "from_client sto client a"
  using assms unfolding respects_terms_def from_client_def by (metis snd_conv)

lemma listed_from_client:
  assumes "respects_terms sto" and "la_client_id req = client" and "client \<noteq> []"
    and "sto_ListAlerts sto req = Inr resp" and "a \<in> set (pd_items resp)"
  shows "from_client sto client a"
proof -
  let ?q = "buildAlertsQuery sto req"
  obtain must where must: "?q = bool_must must" "term_query ''client_id'' (GStr client) \<in> set must"
    using assms(2,3) by (simp add: buildAlertsQuery_def Let_def term_if_set_def)
  from assms(4) obtain start limit n hits where hits: "ra_search sto (bool_must must) start limit = Search_hits n hits"
    and items: "pd_items resp = List.map_filter (\<lambda>(i, source). parseAlertFromOCSF sto i source) hits"
    unfolding must(1) [symmetric]
    by (auto simp: sto_ListAlerts_def Let_def split: search_answer.splits)
  from items assms(5) obtain i source where "(i, source) \<in> set hits" "parseAlertFromOCSF sto i source = Some a"
    by (auto simp: List.map_filter_def)
  with searched_client [OF assms(1) hits must(2)] show ?thesis by blast
qed

lemma found_from_client:
  assumes "respects_terms sto" and "client \<noteq> []" and "GetAlertByID sto i client = Inr a"
  shows "from_client sto client a"
proof -
  from assms(3) obtain n hit source hits
    where hits: "ra_search sto (alert_by_id_query i client) None None = Search_hits n ((hit, source) # hits)"
    and a: "parseAlertFromOCSF sto hit source = Some a"
    by (auto simp: GetAlertByID_def split: search_answer.splits list.splits option.splits)
  from searched_client [OF assms(1) hits [unfolded alert_by_id_query_def] _ _ a, of client] assms(2)
  show ?thesis by (simp add: term_if_set_def)
qed

text \<open>C28: a caller who belongs to a client is shown only alerts read from documents of that client,
  by the list and by the route of a single alert.\<close>

theorem alerts_stay_with_client:
  assumes "requireUserContext h r = Some uc" and "uc_client_id uc \<noteq> []" and "respects_terms sto"
    and "rs_status (AlertsRoute h (Some sto) r) = 200"
  shows "\<exists>alerts. (\<forall>a \<in> set alerts. from_client sto (uc_client_id uc) a)
    \<and> (case rs_body (AlertsRoute h (Some sto) r) of
         Doc (GObj m) \<Rightarrow> map_of m ''alerts'' = Some (GArr (map (alert_doc h) alerts))
           \<or> (\<exists>a. alerts = [a] \<and> GObj m = alert_doc h a)
       | _ \<Rightarrow> False)"
proof (cases "rq_path r = ''/api/v1/alerts'' \<or> rq_path r = ''/api/v1/alerts/''")
  case True
  with assms(1,4) obtain resp
    where resp: "sto_ListAlerts sto (alerts_request sto (uc_client_id uc) r) = Inr resp"
    and body: "rs_body (AlertsRoute h (Some sto) r) = Doc (GObj
        [(''alerts'', GArr (map (alert_doc h) (pd_items resp))),
         (''page'', GInt (pg_page (pd_pagination resp))), (''limit'', GInt (pg_limit (pd_pagination resp))),
         (''total'', GInt (pg_total (pd_pagination resp))), (''total_pages'', GInt (pd_total_pages resp))])"
    by (auto simp: AlertsRoute_def h_ListAlerts_def with_context_def writeAlertsError_def WriteJSON_def
        split: if_splits sum.splits)
  have "from_client sto (uc_client_id uc) a" if "a \<in> set (pd_items resp)" for a
    by (rule listed_from_client [OF assms(3) _ assms(2) resp that]) (simp add: alerts_request_def Let_def)
  with body show ?thesis by (intro exI [of _ "pd_items resp"]) simp
next
  case False
  with assms(1,4) obtain i a where a: "GetAlertByID sto i (uc_client_id uc) = Inr a"
    and body: "rs_body (AlertsRoute h (Some sto) r) = Doc (alert_doc h a)"
    by (auto simp: AlertsRoute_def h_GetAlert_def with_context_def writeAlertsError_def WriteJSON_def Let_def
        split: if_splits sum.splits)
  from found_from_client [OF assms(3,2) a] body show ?thesis
    by (intro exI [of _ "[a]"]) (simp add: alert_doc_def)
qed

definition sample_alerts :: "(string \<times> gval) list" where
  "sample_alerts =
     [(''1'', GObj [(''client_id'', GStr ''d'')]),
      (''2'', GObj [(''client_id'', GStr ''c''), (''severity'', GStr ''low'')])]"

definition meets :: "gval \<Rightarrow> gval \<Rightarrow> bool" where
  "meets clause source \<longleftrightarrow>
     (case clause of
        GObj [(k, GObj [(key, GStr v)])] \<Rightarrow> k = ''term'' \<longrightarrow> has_term key v source
      | _ \<Rightarrow> True)"

definition sample_storage :: alert_storage where
  "sample_storage =
     \<lparr>ra_search = (\<lambda>q _ _.
        (case q of
           GObj [(_, GObj [(_, GArr must)])] \<Rightarrow>
             Search_hits 1 (filter (\<lambda>(i, source). list_all (\<lambda>clause. meets clause source) must) sample_alerts)
         | _ \<Rightarrow> Search_failed [])),
      ra_int_field = (\<lambda>_. Some 0), ra_parse_time = (\<lambda>_. None), ra_format_time = (\<lambda>_. []), ra_now = 0\<rparr>"

lemma sample_storage_terms: "respects_terms sample_storage"
proof -
  have "meets (term_query key (GStr v)) source \<longleftrightarrow> has_term key v source" for key v source
    by (simp add: meets_def term_query_def)
  then show ?thesis
    by (auto simp: respects_terms_def sample_storage_def bool_must_def list_all_iff)
qed

theorem alerts_stay_with_client_witness:
  "\<exists>a. from_client sample_storage ''c'' a
     \<and> rs_body (AlertsRoute sample_http (Some sample_storage)
          (sample_call ''GET'' ''/api/v1/alerts/2'' ''Bearer t'')) = Doc (alert_doc sample_http a)"
proof -
  let ?r = "sample_call ''GET'' ''/api/v1/alerts/2'' ''Bearer t''"
  let ?a = "AlertsRoute sample_http (Some sample_storage) ?r"
  have uc: "requireUserContext sample_http ?r
      = Some \<lparr>uc_user_id = ''u'', uc_roles = [], uc_organization_id = [], uc_client_id = ''c''\<rparr>"
    by code_simp
  have "rs_status ?a = 200" by code_simp
  from alerts_stay_with_client [OF uc _ sample_storage_terms this] obtain alerts
    where 1: "\<forall>a \<in> set alerts. from_client sample_storage ''c'' a"
    and 2: "case rs_body ?a of
        Doc (GObj m) \<Rightarrow> map_of m ''alerts'' = Some (GArr (map (alert_doc sample_http) alerts))
          \<or> (\<exists>a. alerts = [a] \<and> GObj m = alert_doc sample_http a)
      | _ \<Rightarrow> False"
    by auto
  have "(case rs_body ?a of Doc (GObj m) \<Rightarrow> map_of m ''alerts'' = None | _ \<Rightarrow> True)" by code_simp
  with 2 obtain a where "alerts = [a]" "rs_body ?a = Doc (alert_doc sample_http a)"
    by (auto split: doc.splits gval.splits)
  with 1 show ?thesis by auto
qed

lemma clientless_caller_unfiltered:
  \<comment> \<open>without a client, neither query mentions one\<close>
  "\<exists>must. buildAlertsQuery sto (alerts_request sto [] r) = bool_must must
     \<and> (\<forall>v. term_query ''client_id'' v \<notin> set must)"
  "alert_by_id_query i [] = bool_must [GObj [(''ids'', GObj [(''values'', GArr [GStr i])])]]"
  by (auto simp: buildAlertsQuery_def alerts_request_def Let_def term_if_set_def term_query_def
      alert_by_id_query_def intro!: exI split: option.split)

end
