(* ===== verification/AuthPg.thy ===== *)
theory AuthPg
  imports AuditLog "HOL-Library.Char_ord" "HOL-Library.List_Lexorder"
begin

text \<open>
  The PostgreSQL repository of the authenticate service
  (\<^verbatim>\<open>authenticate/internal/repository/postgres.go\<close>) over the tables of
  \<^verbatim>\<open>authenticate/dist/migrations\<close>. A table is the list of its rows; an \<open>INSERT\<close> is refused by a check
  or by a unique index, an \<open>UPDATE\<close> maps the table, a \<open>SELECT\<close> filters and sorts it and fills the
  fields it names, the others staying at their zero value.

  A statement is one step. Whether values fit the columns, how a text is read as a \<open>uuid\<close>, the clock and the fate of each
  statement are in the record \<open>pg_env\<close>. A \<open>uuid\<close> is its canonical text.
\<close>

section \<open>Tables and statements\<close>

record pg_tables =
  pt_users :: "user list"
  pt_sessions :: "session list"
  pt_tokens :: "hec_token list"
  pt_user_roles :: "user_role list"
  pt_roles :: "role list"
  pt_role_permissions :: "(string \<times> string) list"   \<comment> \<open>role and permission\<close>
  pt_permissions :: "permission list"
  pt_organizations :: "organization list"
  pt_clients :: "client list"
  pt_audit :: "audit_log_entry list"
  pt_tick :: nat

datatype stmt_fate = Executed | Not_executed | Reply_lost

record pg_env =
  pe_fate :: "nat \<Rightarrow> stmt_fate"
  pe_now :: "nat \<Rightarrow> time"
  pe_uuid :: "string \<Rightarrow> string option"
  pe_text :: "string \<Rightarrow> bool"
  pe_user_columns :: "user \<Rightarrow> bool"          \<comment> \<open>the values fit the columns of the table\<close>
  pe_session_columns :: "session \<Rightarrow> bool"
  pe_token_columns :: "hec_token \<Rightarrow> bool"
  pe_audit_columns :: "audit_log_entry \<Rightarrow> bool"

datatype refusal = Unique_violation | Refused

datatype pg_error = Sentinel repo_error | Failed string   \<comment> \<open>the wrapped text is left out\<close>

definition pg_tick :: "pg_tables \<Rightarrow> pg_tables" where
  "pg_tick st = st\<lparr>pt_tick := pt_tick st + 1\<rparr>"

definition pg_exec ::
  "pg_env \<Rightarrow> (pg_tables \<Rightarrow> refusal + nat \<times> pg_tables) \<Rightarrow> pg_tables \<Rightarrow> (refusal + nat) \<times> pg_tables"
where
  "pg_exec env stmt st =
     (case pe_fate env (pt_tick st) of
        Not_executed \<Rightarrow> (Inl Refused, pg_tick st)
      | Executed \<Rightarrow>
          (case stmt st of Inl e \<Rightarrow> (Inl e, pg_tick st) | Inr (n, st1) \<Rightarrow> (Inr n, pg_tick st1))
      | Reply_lost \<Rightarrow>
          (Inl Refused, pg_tick (case stmt st of Inl e \<Rightarrow> st | Inr (n, st1) \<Rightarrow> st1)))"

definition pg_query ::
  "pg_env \<Rightarrow> string \<Rightarrow> (pg_tables \<Rightarrow> 'a option) \<Rightarrow> pg_tables \<Rightarrow> (pg_error + 'a) \<times> pg_tables" where
  "pg_query env what q st =
     (case pe_fate env (pt_tick st) of
        Executed \<Rightarrow> (case q st of None \<Rightarrow> Inl (Failed what) | Some x \<Rightarrow> Inr x)
      | _ \<Rightarrow> Inl (Failed what), pg_tick st)"

definition pg_row ::
  "pg_env \<Rightarrow> repo_error \<Rightarrow> string \<Rightarrow> (pg_tables \<Rightarrow> 'a option option) \<Rightarrow> pg_tables \<Rightarrow>
     (pg_error + 'a) \<times> pg_tables"
where
  \<comment> \<open>\<open>QueryRow(...).Scan\<close>: \<open>pgx.ErrNoRows\<close> becomes the sentinel\<close>
  "pg_row env not_found what q st =
     (case pg_query env what q st of
        (Inl e, st1) \<Rightarrow> (Inl e, st1)
      | (Inr None, st1) \<Rightarrow> (Inl (Sentinel not_found), st1)
      | (Inr (Some x), st1) \<Rightarrow> (Inr x, st1))"

definition pg_affect ::
  "pg_env \<Rightarrow> repo_error \<Rightarrow> string \<Rightarrow> (pg_tables \<Rightarrow> refusal + nat \<times> pg_tables) \<Rightarrow> pg_tables \<Rightarrow>
     pg_error option \<times> pg_tables"
where
  \<comment> \<open>an \<open>Exec\<close> that must affect a row\<close>
  "pg_affect env not_found what stmt st =
     (case pg_exec env stmt st of
        (Inl _, st1) \<Rightarrow> (Some (Failed what), st1)
      | (Inr n, st1) \<Rightarrow> (if n = 0 then Some (Sentinel not_found) else None, st1))"

definition latest_first :: "('r \<Rightarrow> string) \<Rightarrow> 'r list \<Rightarrow> 'r list" where
  \<comment> \<open>\<open>ORDER BY key DESC\<close>\<close>
  "latest_first key rows = rev (sort_key key rows)"

fun distinct_on :: "('r \<Rightarrow> string) \<Rightarrow> 'r list \<Rightarrow> 'r list" where
  \<comment> \<open>\<open>DISTINCT ON\<close>: the first row of each key\<close>
  "distinct_on key [] = []"
| "distinct_on key (r # rows) = r # distinct_on key (filter (\<lambda>q. key q \<noteq> key r) rows)"

section \<open>Users\<close>

definition client_requires_org :: "user \<Rightarrow> bool" where
  "client_requires_org u \<longleftrightarrow> u_primary_client_id u \<noteq> None \<longrightarrow> u_primary_organization_id u \<noteq> None"

definition clashes :: "user \<Rightarrow> user \<Rightarrow> bool" where
  \<comment> \<open>the primary key, and the unique indexes over the rows that are not deleted\<close>
  "clashes u r \<longleftrightarrow>
     u_version_id r = u_version_id u
     \<or> u_deleted_at r = None \<and> u_deleted_at u = None
       \<and> (u_username r = u_username u \<or> u_email r = u_email u)"

definition user_row :: "user \<Rightarrow> user" where
  \<comment> \<open>the row of the \<open>INSERT\<close>: ten columns, and the defaults of the others\<close>
  "user_row u =
     u\<lparr>u_created_by := None, u_updated_by := None, u_disabled_at := None, u_disabled_by := None,
       u_deleted_at := None, u_deleted_by := None, u_permissions_version := 1, u_user_roles := [],
       u_disabled_from_ip := None, u_disabled_source_type := 0, u_deleted_from_ip := None,
       u_deleted_source_type := 0\<rparr>"

definition uuid_or_null :: "pg_env \<Rightarrow> string option \<Rightarrow> string option option" where
  "uuid_or_null env x = (case x of None \<Rightarrow> Some None | Some t \<Rightarrow> map_option Some (pe_uuid env t))"

definition insert_user :: "pg_env \<Rightarrow> user \<Rightarrow> pg_tables \<Rightarrow> refusal + nat \<times> pg_tables" where
  "insert_user env u st =
     (case (pe_uuid env (u_id u), pe_uuid env (u_version_id u),
            uuid_or_null env (u_primary_organization_id u), uuid_or_null env (u_primary_client_id u)) of
        (Some i, Some v, Some o', Some c) \<Rightarrow>
          let r = user_row (u\<lparr>u_id := i, u_version_id := v, u_primary_organization_id := o',
                              u_primary_client_id := c\<rparr>) in
          if \<not> pe_user_columns env r \<or> \<not> client_requires_org r then Inl Refused
          else if list_ex (clashes r) (pt_users st) then Inl Unique_violation
          else Inr (1, st\<lparr>pt_users := pt_users st @ [r]\<rparr>)
      | _ \<Rightarrow> Inl Refused)"

definition pg_CreateUser :: "pg_env \<Rightarrow> user \<Rightarrow> pg_tables \<Rightarrow> pg_error option \<times> pg_tables" where
  "pg_CreateUser env user st =
     (case pg_exec env (insert_user env user) st of
        (Inl Unique_violation, st1) \<Rightarrow> (Some (Sentinel ErrUserExists), st1)
      | (Inl Refused, st1) \<Rightarrow> (Some (Failed ''failed to create user: ''), st1)
      | (Inr _, st1) \<Rightarrow> (None, st1))"

definition scan_user :: "user \<Rightarrow> user" where
  \<comment> \<open>the thirteen columns of the queries; the rest is zero\<close>
  "scan_user r =
     r\<lparr>u_created_by := None, u_updated_by := None, u_user_roles := [], u_created_from_ip := None,
       u_created_source_type := 0, u_disabled_from_ip := None, u_disabled_source_type := 0,
       u_deleted_from_ip := None, u_deleted_source_type := 0\<rparr>"

definition live_user :: "(user \<Rightarrow> bool) \<Rightarrow> pg_tables \<Rightarrow> user option" where
  \<comment> \<open>\<open>WHERE ... AND deleted_at IS NULL ORDER BY version_id DESC LIMIT 1\<close>\<close>
  "live_user cond st =
     (case latest_first u_version_id (filter (\<lambda>r. cond r \<and> u_deleted_at r = None) (pt_users st)) of
        [] \<Rightarrow> None
      | r # _ \<Rightarrow> Some (scan_user r))"

definition user_named :: "pg_env \<Rightarrow> string \<Rightarrow> pg_tables \<Rightarrow> user option option" where
  "user_named env username st =
     (if pe_text env username then Some (live_user (\<lambda>r. u_username r = username) st) else None)"

definition user_with_id :: "pg_env \<Rightarrow> string \<Rightarrow> pg_tables \<Rightarrow> user option option" where
  "user_with_id env i st = map_option (\<lambda>u. live_user (\<lambda>r. u_id r = u) st) (pe_uuid env i)"

definition pg_GetUserByUsername :: "pg_env \<Rightarrow> string \<Rightarrow> pg_tables \<Rightarrow> (pg_error + user) \<times> pg_tables" where
  "pg_GetUserByUsername env username =
     pg_row env ErrUserNotFound ''failed to get user: '' (user_named env username)"

definition pg_GetUserByID :: "pg_env \<Rightarrow> string \<Rightarrow> pg_tables \<Rightarrow> (pg_error + user) \<times> pg_tables" where
  "pg_GetUserByID env i =
     pg_row env ErrUserNotFound ''failed to get user: '' (user_with_id env i)"

definition permissions_of :: "string \<Rightarrow> pg_tables \<Rightarrow> permission option list" where
  \<comment> \<open>the two left joins, in the order of the permissions\<close>
  "permissions_of roleID st =
     (let links = map (\<lambda>(_, pid). find (\<lambda>p. perm_id p = pid) (pt_permissions st))
                    (filter (\<lambda>(r, _). r = roleID) (pt_role_permissions st)) in
      if links = [] then [None]
      else map Some (sort_key perm_id (List.map_filter id links)) @ filter (\<lambda>p. p = None) links)"

definition assignment_rows :: "user_role \<Rightarrow> pg_tables \<Rightarrow> (role \<times> permission option) list" where
  "assignment_rows ur st =
     (let versions = filter (\<lambda>r. role_id r = ur_role_id ur \<and> role_deleted_at r = None) (pt_roles st) in
      concat (map (\<lambda>p. map (\<lambda>r. (r, p)) versions) (permissions_of (ur_role_id ur) st)))"

definition loaded_role :: "user_role \<Rightarrow> pg_tables \<Rightarrow> user_role option" where
  \<comment> \<open>the first row makes the role, every row may add a permission\<close>
  "loaded_role ur st =
     (case assignment_rows ur st of
        [] \<Rightarrow> None
      | (r, p) # rows \<Rightarrow>
          Some (ur\<lparr>ur_role := Some (r\<lparr>role_permissions := List.map_filter snd ((r, p) # rows)\<rparr>),
                   ur_organization := None, ur_client := None\<rparr>))"

definition user_roles_of :: "pg_env \<Rightarrow> string \<Rightarrow> pg_tables \<Rightarrow> user_role list option" where
  "user_roles_of env i st =
     map_option (\<lambda>u. List.map_filter (\<lambda>ur. loaded_role ur st)
         (sort_key ur_id (filter (\<lambda>ur. ur_user_id ur = u \<and> ur_revoked_at ur = None) (pt_user_roles st))))
       (pe_uuid env i)"

definition pg_GetUserWithRoles :: "pg_env \<Rightarrow> string \<Rightarrow> pg_tables \<Rightarrow> (pg_error + user) \<times> pg_tables" where
  "pg_GetUserWithRoles env i st =
     (case pg_GetUserByID env i st of
        (Inl e, st1) \<Rightarrow> (Inl e, st1)
      | (Inr user, st1) \<Rightarrow>
          (case pg_query env ''failed to load user roles: '' (user_roles_of env i) st1 of
             (Inl e, st2) \<Rightarrow> (Inl e, st2)
           | (Inr roles, st2) \<Rightarrow> (Inr (user\<lparr>u_user_roles := roles\<rparr>), st2)))"

definition pg_GetUserPermissionsVersion ::
  "pg_env \<Rightarrow> string \<Rightarrow> pg_tables \<Rightarrow> (pg_error + int) \<times> pg_tables" where
  "pg_GetUserPermissionsVersion env i =
     pg_row env ErrUserNotFound ''failed to get permissions version: ''
       (\<lambda>st. map_option (map_option u_permissions_version) (user_with_id env i st))"

definition rewritten :: "user \<Rightarrow> user \<Rightarrow> user" where
  \<comment> \<open>the six columns of the \<open>UPDATE\<close>\<close>
  "rewritten u r =
     r\<lparr>u_username := u_username u, u_email := u_email u, u_password_hash := u_password_hash u,
       u_roles := u_roles u, u_primary_organization_id := u_primary_organization_id u,
       u_primary_client_id := u_primary_client_id u\<rparr>"

definition update_user :: "pg_env \<Rightarrow> user \<Rightarrow> pg_tables \<Rightarrow> refusal + nat \<times> pg_tables" where
  \<comment> \<open>the parameters are read first; \<open>version_id\<close> is the primary key, so one row at most is affected\<close>
  "update_user env u st =
     (case (pe_uuid env (u_version_id u), uuid_or_null env (u_primary_organization_id u),
            uuid_or_null env (u_primary_client_id u)) of
        (Some v, Some o', Some c) \<Rightarrow>
          let new = u\<lparr>u_primary_organization_id := o', u_primary_client_id := c\<rparr>;
              hit = (\<lambda>q. u_version_id q = v) in
          if \<not> list_all (pe_text env) ([u_username u, u_email u, u_password_hash u] @ u_roles u)
          then Inl Refused
          else
            (case find hit (pt_users st) of
               None \<Rightarrow> Inr (0, st)
             | Some old \<Rightarrow>
                 let r = rewritten new old in
                 if \<not> pe_user_columns env r \<or> \<not> client_requires_org r then Inl Refused
                 else if list_ex (\<lambda>q. \<not> hit q \<and> clashes r q) (pt_users st) then Inl Unique_violation
                 else Inr (1, st\<lparr>pt_users :=
                   map (\<lambda>q. if hit q then rewritten new q else q) (pt_users st)\<rparr>))
      | _ \<Rightarrow> Inl Refused)"

definition pg_UpdateUser :: "pg_env \<Rightarrow> user \<Rightarrow> pg_tables \<Rightarrow> pg_error option \<times> pg_tables" where
  "pg_UpdateUser env user st =
     (case pg_exec env (update_user env user) st of
        (Inl _, st1) \<Rightarrow> (Some (Failed ''failed to update user: ''), st1)
      | (Inr n, st1) \<Rightarrow>
          if n \<noteq> 0 then (None, st1)
          else
            (case pg_query env [] (\<lambda>s. map_option (\<lambda>i.
                    list_ex (\<lambda>r. u_id r = i \<and> u_deleted_at r = None) (pt_users s))
                    (pe_uuid env (u_id user))) st1 of
               (Inr True, st2) \<Rightarrow> (Some (Sentinel ErrConflict), st2)
             | (_, st2) \<Rightarrow> (Some (Sentinel ErrUserNotFound), st2)))"

definition live_users :: "(user \<Rightarrow> bool) \<Rightarrow> pg_tables \<Rightarrow> user list" where
  \<comment> \<open>\<open>DISTINCT ON (id) ... ORDER BY id DESC, version_id DESC\<close>\<close>
  "live_users cond st =
     map scan_user (distinct_on u_id (latest_first u_id (sort_key u_version_id
       (filter (\<lambda>r. u_deleted_at r = None \<and> cond r) (pt_users st)))))"

definition pg_ListUsers :: "pg_env \<Rightarrow> pg_tables \<Rightarrow> (pg_error + user list) \<times> pg_tables" where
  "pg_ListUsers env =
     pg_query env ''failed to list users: '' (\<lambda>st. Some (live_users (\<lambda>_. True) st))"

definition pg_ListUsersByScope ::
  "pg_env \<Rightarrow> string \<Rightarrow> string option \<Rightarrow> string option \<Rightarrow> pg_tables \<Rightarrow>
     (pg_error + user list) \<times> pg_tables"
where
  "pg_ListUsersByScope env scopeType orgID clientID st =
     (let list = (\<lambda>q. pg_query env ''failed to list users by scope: '' q st) in
      if scopeType = ''platform'' then
        list (\<lambda>s. Some (live_users
          (\<lambda>r. u_primary_organization_id r = None \<and> u_primary_client_id r = None) s))
      else if scopeType = ''organization'' then
        (case orgID of
           None \<Rightarrow> (Inl (Failed ''organization_id required for organization scope''), st)
         | Some oid \<Rightarrow> list (\<lambda>s. map_option (\<lambda>i. live_users
             (\<lambda>r. u_primary_organization_id r = Some i) s) (pe_uuid env oid)))
      else if scopeType = ''client'' then
        (case clientID of
           None \<Rightarrow> (Inl (Failed ''client_id required for client scope''), st)
         | Some cid \<Rightarrow> list (\<lambda>s. map_option (\<lambda>i. live_users
             (\<lambda>r. u_primary_client_id r = Some i) s) (pe_uuid env cid)))
      else pg_ListUsers env st)"

definition delete_user :: "pg_env \<Rightarrow> string \<Rightarrow> pg_tables \<Rightarrow> refusal + nat \<times> pg_tables" where
  \<comment> \<open>all versions that are not deleted\<close>
  "delete_user env i st =
     (case pe_uuid env i of
        None \<Rightarrow> Inl Refused
      | Some u \<Rightarrow>
          let hit = (\<lambda>r. u_id r = u \<and> u_deleted_at r = None) in
          Inr (length (filter hit (pt_users st)),
               st\<lparr>pt_users := map (\<lambda>r. if hit r
                   then r\<lparr>u_deleted_at := Some (pe_now env (pt_tick st))\<rparr> else r) (pt_users st)\<rparr>))"

definition pg_DeleteUser :: "pg_env \<Rightarrow> string \<Rightarrow> pg_tables \<Rightarrow> pg_error option \<times> pg_tables" where
  "pg_DeleteUser env i = pg_affect env ErrUserNotFound ''failed to delete user: '' (delete_user env i)"

section \<open>Sessions\<close>

definition same_session :: "session \<Rightarrow> session \<Rightarrow> bool" where
  \<comment> \<open>the primary key, and the unique refresh token\<close>
  "same_session s q \<longleftrightarrow> s_id q = s_id s \<or> s_refresh_token q = s_refresh_token s"

definition insert_session :: "pg_env \<Rightarrow> session \<Rightarrow> pg_tables \<Rightarrow> refusal + nat \<times> pg_tables" where
  "insert_session env s st =
     (case (pe_uuid env (s_id s), pe_uuid env (s_user_id s)) of
        (Some i, Some u) \<Rightarrow>
          let r = s\<lparr>s_id := i, s_user_id := u, s_revoked_at := None, s_revoked_by := None,
                    s_revoked_from_ip := None, s_revoked_source_type := 0\<rparr> in
          if \<not> pe_session_columns env r then Inl Refused
          else if list_ex (same_session r) (pt_sessions st) then Inl Unique_violation
          else Inr (1, st\<lparr>pt_sessions := pt_sessions st @ [r]\<rparr>)
      | _ \<Rightarrow> Inl Refused)"

definition pg_CreateSession :: "pg_env \<Rightarrow> session \<Rightarrow> pg_tables \<Rightarrow> pg_error option \<times> pg_tables" where
  "pg_CreateSession env session st =
     (case pg_exec env (insert_session env session) st of
        (Inl _, st1) \<Rightarrow> (Some (Failed ''failed to create session: ''), st1)
      | (Inr _, st1) \<Rightarrow> (None, st1))"

definition scan_session :: "session \<Rightarrow> session" where
  "scan_session r =
     r\<lparr>s_ip_address := None, s_user_agent := None, s_source_type := 0, s_revoked_from_ip := None,
       s_revoked_source_type := 0\<rparr>"

definition session_where ::
  "pg_env \<Rightarrow> string \<Rightarrow> (session \<Rightarrow> string) \<Rightarrow> pg_tables \<Rightarrow> session option option" where
  \<comment> \<open>without \<open>ORDER BY\<close>, the first row that is found\<close>
  "session_where env token key st =
     (if pe_text env token
      then Some (map_option scan_session (find (\<lambda>r. key r = token) (pt_sessions st)))
      else None)"

definition pg_GetSession :: "pg_env \<Rightarrow> string \<Rightarrow> pg_tables \<Rightarrow> (pg_error + session) \<times> pg_tables" where
  "pg_GetSession env refreshToken =
     pg_row env ErrSessionNotFound ''failed to get session: ''
       (session_where env refreshToken s_refresh_token)"

definition pg_GetSessionByAccessToken ::
  "pg_env \<Rightarrow> string \<Rightarrow> pg_tables \<Rightarrow> (pg_error + session) \<times> pg_tables" where
  "pg_GetSessionByAccessToken env accessToken =
     pg_row env ErrSessionNotFound ''failed to get session by access token: ''
       (session_where env accessToken s_access_token)"

definition revoke_session :: "pg_env \<Rightarrow> string \<Rightarrow> pg_tables \<Rightarrow> refusal + nat \<times> pg_tables" where
  "revoke_session env refreshToken st =
     (if \<not> pe_text env refreshToken then Inl Refused
      else
        let hit = (\<lambda>r. s_refresh_token r = refreshToken) in
        Inr (length (filter hit (pt_sessions st)),
             st\<lparr>pt_sessions := map (\<lambda>r. if hit r
                 then r\<lparr>s_revoked_at := Some (pe_now env (pt_tick st))\<rparr> else r) (pt_sessions st)\<rparr>))"

definition pg_RevokeSession :: "pg_env \<Rightarrow> string \<Rightarrow> pg_tables \<Rightarrow> pg_error option \<times> pg_tables" where
  "pg_RevokeSession env refreshToken =
     pg_affect env ErrSessionNotFound ''failed to revoke session: '' (revoke_session env refreshToken)"

section \<open>Ingestion tokens\<close>

definition same_token :: "hec_token \<Rightarrow> hec_token \<Rightarrow> bool" where
  \<comment> \<open>the primary key, and the unique token\<close>
  "same_token t q \<longleftrightarrow> ht_id q = ht_id t \<or> ht_token q = ht_token t"

definition insert_token :: "pg_env \<Rightarrow> hec_token \<Rightarrow> pg_tables \<Rightarrow> refusal + nat \<times> pg_tables" where
  "insert_token env t st =
     (case (pe_uuid env (ht_id t), pe_uuid env (ht_user_id t), pe_uuid env (ht_client_id t),
            pe_uuid env (ht_created_by t)) of
        (Some i, Some u, Some c, Some b) \<Rightarrow>
          let r = t\<lparr>ht_id := i, ht_user_id := u, ht_client_id := c, ht_created_by := b,
                    ht_disabled_at := None, ht_disabled_by := None, ht_revoked_at := None,
                    ht_revoked_by := None, ht_disabled_from_ip := None, ht_disabled_source_type := 0,
                    ht_revoked_from_ip := None, ht_revoked_source_type := 0\<rparr> in
          if \<not> pe_token_columns env r then Inl Refused
          else if list_ex (same_token r) (pt_tokens st) then Inl Unique_violation
          else Inr (1, st\<lparr>pt_tokens := pt_tokens st @ [r]\<rparr>)
      | _ \<Rightarrow> Inl Refused)"

definition pg_CreateHECToken :: "pg_env \<Rightarrow> hec_token \<Rightarrow> pg_tables \<Rightarrow> pg_error option \<times> pg_tables" where
  "pg_CreateHECToken env token st =
     (case pg_exec env (insert_token env token) st of
        (Inl _, st1) \<Rightarrow> (Some (Failed ''failed to create HEC token: ''), st1)
      | (Inr _, st1) \<Rightarrow> (None, st1))"

definition scan_token :: "hec_token \<Rightarrow> hec_token" where
  "scan_token r =
     r\<lparr>ht_created_from_ip := None, ht_created_source_type := 0, ht_disabled_from_ip := None,
       ht_disabled_source_type := 0, ht_revoked_from_ip := None, ht_revoked_source_type := 0\<rparr>"

definition pg_GetHECToken :: "pg_env \<Rightarrow> string \<Rightarrow> pg_tables \<Rightarrow> (pg_error + hec_token) \<times> pg_tables" where
  "pg_GetHECToken env token =
     pg_row env ErrHECTokenNotFound ''failed to get HEC token: '' (\<lambda>st.
       if pe_text env token
       then Some (map_option scan_token (find (\<lambda>r. ht_token r = token) (pt_tokens st)))
       else None)"

definition pg_GetHECTokenByID :: "pg_env \<Rightarrow> string \<Rightarrow> pg_tables \<Rightarrow> (pg_error + hec_token) \<times> pg_tables" where
  "pg_GetHECTokenByID env i =
     pg_row env ErrHECTokenNotFound ''failed to get HEC token: '' (\<lambda>st.
       map_option (\<lambda>u. map_option scan_token (find (\<lambda>r. ht_id r = u) (pt_tokens st))) (pe_uuid env i))"

definition pg_ListHECTokensByUser ::
  "pg_env \<Rightarrow> string \<Rightarrow> pg_tables \<Rightarrow> (pg_error + hec_token list) \<times> pg_tables" where
  "pg_ListHECTokensByUser env userID =
     pg_query env ''failed to list HEC tokens: '' (\<lambda>st.
       map_option (\<lambda>u. map scan_token (latest_first ht_id
         (filter (\<lambda>r. ht_user_id r = u) (pt_tokens st)))) (pe_uuid env userID))"

definition pg_ListAllHECTokens :: "pg_env \<Rightarrow> pg_tables \<Rightarrow> (pg_error + hec_token list) \<times> pg_tables" where
  "pg_ListAllHECTokens env =
     pg_query env ''failed to list all HEC tokens: ''
       (\<lambda>st. Some (map scan_token (latest_first ht_id (pt_tokens st))))"

definition revoke_token :: "pg_env \<Rightarrow> string \<Rightarrow> pg_tables \<Rightarrow> refusal + nat \<times> pg_tables" where
  "revoke_token env token st =
     (if \<not> pe_text env token then Inl Refused
      else
        let hit = (\<lambda>r. ht_token r = token) in
        Inr (length (filter hit (pt_tokens st)),
             st\<lparr>pt_tokens := map (\<lambda>r. if hit r
                 then r\<lparr>ht_revoked_at := Some (pe_now env (pt_tick st))\<rparr> else r) (pt_tokens st)\<rparr>))"

definition pg_RevokeHECToken :: "pg_env \<Rightarrow> string \<Rightarrow> pg_tables \<Rightarrow> pg_error option \<times> pg_tables" where
  "pg_RevokeHECToken env token =
     pg_affect env ErrHECTokenNotFound ''failed to revoke HEC token: '' (revoke_token env token)"

section \<open>Audit log\<close>

definition insert_audit :: "pg_env \<Rightarrow> audit_log_entry \<Rightarrow> pg_tables \<Rightarrow> refusal + nat \<times> pg_tables" where
  "insert_audit env entry st =
     (if pe_audit_columns env entry then Inr (1, st\<lparr>pt_audit := pt_audit st @ [entry]\<rparr>)
      else Inl Refused)"

definition pg_LogAudit :: "pg_env \<Rightarrow> audit_log_entry \<Rightarrow> pg_tables \<Rightarrow> pg_error option \<times> pg_tables" where
  "pg_LogAudit env entry st =
     (case pg_exec env (insert_audit env entry) st of
        (Inl _, st1) \<Rightarrow> (Some (Failed ''failed to log audit entry: ''), st1)
      | (Inr _, st1) \<Rightarrow> (None, st1))"

section \<open>Organizations and clients\<close>

definition newest :: "('r \<Rightarrow> string) \<Rightarrow> ('r \<Rightarrow> string) \<Rightarrow> 'r list \<Rightarrow> 'r list" where
  \<comment> \<open>\<open>DISTINCT ON (id) ... ORDER BY id, version_id DESC\<close>\<close>
  "newest ident version rows = distinct_on ident (sort_key ident (latest_first version rows))"

definition first_row :: "'r list \<Rightarrow> 'r option" where
  "first_row rows = (case rows of [] \<Rightarrow> None | r # _ \<Rightarrow> Some r)"

definition pg_GetOrganization ::
  "pg_env \<Rightarrow> string \<Rightarrow> pg_tables \<Rightarrow> (pg_error + organization) \<times> pg_tables" where
  "pg_GetOrganization env i =
     pg_row env ErrOrganizationNotFound ''failed to get organization: '' (\<lambda>st.
       map_option (\<lambda>u. first_row (newest org_id org_version_id
         (filter (\<lambda>r. org_id r = u \<and> org_deleted_at r = None) (pt_organizations st)))) (pe_uuid env i))"

definition pg_ListOrganizations ::
  "pg_env \<Rightarrow> pg_tables \<Rightarrow> (pg_error + organization list) \<times> pg_tables" where
  "pg_ListOrganizations env =
     pg_query env ''failed to list organizations: '' (\<lambda>st.
       Some (newest org_id org_version_id
         (filter (\<lambda>r. org_deleted_at r = None \<and> org_disabled_at r = None) (pt_organizations st))))"

definition pg_GetClient :: "pg_env \<Rightarrow> string \<Rightarrow> pg_tables \<Rightarrow> (pg_error + client) \<times> pg_tables" where
  "pg_GetClient env i =
     pg_row env ErrClientNotFound ''failed to get client: '' (\<lambda>st.
       map_option (\<lambda>u. first_row (newest cl_id cl_version_id
         (filter (\<lambda>r. cl_id r = u \<and> cl_deleted_at r = None) (pt_clients st)))) (pe_uuid env i))"

definition pg_ListClients :: "pg_env \<Rightarrow> pg_tables \<Rightarrow> (pg_error + client list) \<times> pg_tables" where
  "pg_ListClients env =
     pg_query env ''failed to list clients: '' (\<lambda>st.
       Some (newest cl_id cl_version_id
         (filter (\<lambda>r. cl_deleted_at r = None \<and> cl_disabled_at r = None) (pt_clients st))))"

definition pg_ListClientsByOrganization ::
  "pg_env \<Rightarrow> string \<Rightarrow> pg_tables \<Rightarrow> (pg_error + client list) \<times> pg_tables" where
  "pg_ListClientsByOrganization env orgID =
     pg_query env ''failed to list clients: '' (\<lambda>st.
       map_option (\<lambda>o'. newest cl_id cl_version_id
         (filter (\<lambda>r. cl_organization_id r = o' \<and> cl_deleted_at r = None \<and> cl_disabled_at r = None)
            (pt_clients st))) (pe_uuid env orgID))"

end
