(* ===== verification/AuthPgLaws.thy ===== *)
theory AuthPgLaws
  imports AuthPg
begin

text \<open>
  What the statements of \<open>AuthPg\<close> keep, whatever becomes of each of them: the unique keys of the
  tables, and the history of every row. The locale \<open>unique_rows\<close> is a table under a unique
  constraint; it is interpreted on users, sessions and ingestion tokens.
\<close>

section \<open>Tables under a unique constraint\<close>

definition rows_ok :: "('r \<Rightarrow> 'r \<Rightarrow> bool) \<Rightarrow> 'r list \<Rightarrow> bool" where
  "rows_ok clash rows \<longleftrightarrow> sorted_wrt (\<lambda>a b. \<not> clash a b) rows"

locale unique_rows =
  fixes clash :: "'r \<Rightarrow> 'r \<Rightarrow> bool"
  assumes clash_sym: "clash a b \<Longrightarrow> clash b a"
begin

lemma insert_row:
  assumes "rows_ok clash rows" and "\<not> list_ex (clash r) rows"
  shows "rows_ok clash (rows @ [r])"
  using assms clash_sym by (auto simp: rows_ok_def sorted_wrt_append list_ex_iff)

lemma map_rows:
  assumes "rows_ok clash rows" and "\<And>a b. clash (f a) (f b) \<Longrightarrow> clash a b"
  shows "rows_ok clash (map f rows)"
  using assms by (auto simp: rows_ok_def sorted_wrt_map intro: sorted_wrt_mono_rel [rotated])

lemma replace_row:
  assumes "rows_ok clash rows"
    and "\<And>a b. hit a \<Longrightarrow> hit b \<Longrightarrow> clash a b"
    and "\<And>a b. a \<in> set rows \<Longrightarrow> b \<in> set rows \<Longrightarrow> hit a \<Longrightarrow> \<not> hit b \<Longrightarrow> \<not> clash (f a) b"
  shows "rows_ok clash (map (\<lambda>q. if hit q then f q else q) rows)"
proof -
  have "\<not> clash (if hit a then f a else a) (if hit b then f b else b)"
    if "a \<in> set rows" "b \<in> set rows" "\<not> clash a b" for a b
    using that assms(2) [of a b] assms(3) [of a b] assms(3) [of b a] clash_sym
    by (cases "hit a"; cases "hit b") auto
  with assms(1) show ?thesis
    unfolding rows_ok_def sorted_wrt_map by (rule sorted_wrt_mono_rel [rotated])
qed

lemma filter_single:
  assumes "rows_ok clash rows" and "\<And>a b. P a \<Longrightarrow> P b \<Longrightarrow> clash a b"
  shows "filter P rows = (case find P rows of None \<Rightarrow> [] | Some r \<Rightarrow> [r])"
  using assms(1)
proof (induction rows)
  case (Cons r rows)
  have "filter P rows = []" if "P r"
    using that Cons.prems assms(2) by (auto simp: rows_ok_def filter_empty_conv)
  with Cons show ?case by (cases "P r") (auto simp: rows_ok_def)
qed simp

lemma found_is_the_one:
  assumes "rows_ok clash rows" and "r \<in> set rows" and "P r" and "\<And>a b. P a \<Longrightarrow> P b \<Longrightarrow> clash a b"
  shows "find P rows = Some r"
proof -
  have "r \<in> set (filter P rows)" using assms(2,3) by simp
  moreover have "filter P rows = (case find P rows of None \<Rightarrow> [] | Some q \<Rightarrow> [q])"
    using assms(1,4) by (rule filter_single)
  ultimately show ?thesis by (cases "find P rows") simp_all
qed

end

interpretation user_rows: unique_rows clashes
  by unfold_locales (auto simp: clashes_def)

interpretation session_rows: unique_rows same_session
  by unfold_locales (auto simp: same_session_def)

interpretation token_rows: unique_rows same_token
  by unfold_locales (auto simp: same_token_def)

section \<open>Operations\<close>

datatype pg_op =
    Do_CreateUser user | Do_UpdateUser user | Do_DeleteUser string
  | Do_GetUserByUsername string | Do_GetUserByID string | Do_GetUserWithRoles string
  | Do_GetUserPermissionsVersion string | Do_ListUsers
  | Do_ListUsersByScope string "string option" "string option"
  | Do_CreateSession session | Do_RevokeSession string
  | Do_GetSession string | Do_GetSessionByAccessToken string
  | Do_CreateHECToken hec_token | Do_RevokeHECToken string
  | Do_GetHECToken string | Do_GetHECTokenByID string
  | Do_ListHECTokensByUser string | Do_ListAllHECTokens
  | Do_LogAudit audit_log_entry
  | Do_GetOrganization string | Do_ListOrganizations
  | Do_GetClient string | Do_ListClients | Do_ListClientsByOrganization string

fun pg_step :: "pg_env \<Rightarrow> pg_op \<Rightarrow> pg_tables \<Rightarrow> pg_tables" where
  "pg_step env (Do_CreateUser u) st = snd (pg_CreateUser env u st)"
| "pg_step env (Do_UpdateUser u) st = snd (pg_UpdateUser env u st)"
| "pg_step env (Do_DeleteUser i) st = snd (pg_DeleteUser env i st)"
| "pg_step env (Do_GetUserByUsername n) st = snd (pg_GetUserByUsername env n st)"
| "pg_step env (Do_GetUserByID i) st = snd (pg_GetUserByID env i st)"
| "pg_step env (Do_GetUserWithRoles i) st = snd (pg_GetUserWithRoles env i st)"
| "pg_step env (Do_GetUserPermissionsVersion i) st = snd (pg_GetUserPermissionsVersion env i st)"
| "pg_step env Do_ListUsers st = snd (pg_ListUsers env st)"
| "pg_step env (Do_ListUsersByScope t oid cid) st = snd (pg_ListUsersByScope env t oid cid st)"
| "pg_step env (Do_CreateSession s) st = snd (pg_CreateSession env s st)"
| "pg_step env (Do_RevokeSession t) st = snd (pg_RevokeSession env t st)"
| "pg_step env (Do_GetSession t) st = snd (pg_GetSession env t st)"
| "pg_step env (Do_GetSessionByAccessToken t) st = snd (pg_GetSessionByAccessToken env t st)"
| "pg_step env (Do_CreateHECToken t) st = snd (pg_CreateHECToken env t st)"
| "pg_step env (Do_RevokeHECToken t) st = snd (pg_RevokeHECToken env t st)"
| "pg_step env (Do_GetHECToken t) st = snd (pg_GetHECToken env t st)"
| "pg_step env (Do_GetHECTokenByID i) st = snd (pg_GetHECTokenByID env i st)"
| "pg_step env (Do_ListHECTokensByUser i) st = snd (pg_ListHECTokensByUser env i st)"
| "pg_step env Do_ListAllHECTokens st = snd (pg_ListAllHECTokens env st)"
| "pg_step env (Do_LogAudit e) st = snd (pg_LogAudit env e st)"
| "pg_step env (Do_GetOrganization i) st = snd (pg_GetOrganization env i st)"
| "pg_step env Do_ListOrganizations st = snd (pg_ListOrganizations env st)"
| "pg_step env (Do_GetClient i) st = snd (pg_GetClient env i st)"
| "pg_step env Do_ListClients st = snd (pg_ListClients env st)"
| "pg_step env (Do_ListClientsByOrganization i) st = snd (pg_ListClientsByOrganization env i st)"

definition pg_run :: "pg_env \<Rightarrow> pg_op list \<Rightarrow> pg_tables \<Rightarrow> pg_tables" where
  "pg_run env ops st = fold (pg_step env) ops st"

lemma pg_run_simps [simp]:
  "pg_run env [] st = st"
  "pg_run env (x # ops) st = pg_run env ops (pg_step env x st)"
  by (simp_all add: pg_run_def)

section \<open>What a statement changes\<close>

lemma pg_tick_fields [simp]:
  "pt_users (pg_tick st) = pt_users st" "pt_sessions (pg_tick st) = pt_sessions st"
  "pt_tokens (pg_tick st) = pt_tokens st" "pt_audit (pg_tick st) = pt_audit st"
  "pt_user_roles (pg_tick st) = pt_user_roles st" "pt_roles (pg_tick st) = pt_roles st"
  "pt_tick (pg_tick st) = Suc (pt_tick st)"
  by (simp_all add: pg_tick_def)

lemma snd_pg_query [simp]: "snd (pg_query env what q st) = pg_tick st"
  by (simp add: pg_query_def)

lemma snd_pg_row [simp]: "snd (pg_row env nf what q st) = pg_tick st"
  using snd_pg_query [of env what q st]
  by (auto simp: pg_row_def split: prod.splits sum.splits option.splits simp del: snd_pg_query)

lemma pg_exec_cases:
  obtains "snd (pg_exec env stmt st) = pg_tick st"
  | n st1 where "stmt st = Inr (n, st1)" and "snd (pg_exec env stmt st) = pg_tick st1"
  by (cases "pe_fate env (pt_tick st)"; cases "stmt st")
    (auto simp: pg_exec_def)

lemma snd_pg_affect [simp]: "snd (pg_affect env nf what stmt st) = snd (pg_exec env stmt st)"
  by (simp add: pg_affect_def split: prod.splits sum.splits)

lemma pg_read_tables:
  "snd (pg_GetUserByUsername env n st) = pg_tick st" "snd (pg_GetUserByID env i st) = pg_tick st"
  "snd (pg_GetUserPermissionsVersion env i st) = pg_tick st" "snd (pg_ListUsers env st) = pg_tick st"
  "snd (pg_GetSession env t st) = pg_tick st" "snd (pg_GetSessionByAccessToken env t st) = pg_tick st"
  "snd (pg_GetHECToken env t st) = pg_tick st" "snd (pg_GetHECTokenByID env i st) = pg_tick st"
  "snd (pg_ListHECTokensByUser env i st) = pg_tick st" "snd (pg_ListAllHECTokens env st) = pg_tick st"
  "snd (pg_GetOrganization env i st) = pg_tick st" "snd (pg_ListOrganizations env st) = pg_tick st"
  "snd (pg_GetClient env i st) = pg_tick st" "snd (pg_ListClients env st) = pg_tick st"
  "snd (pg_ListClientsByOrganization env i st) = pg_tick st"
  by (simp_all add: pg_GetUserByUsername_def pg_GetUserByID_def pg_GetUserPermissionsVersion_def
      pg_ListUsers_def pg_GetSession_def pg_GetSessionByAccessToken_def pg_GetHECToken_def
      pg_GetHECTokenByID_def pg_ListHECTokensByUser_def pg_ListAllHECTokens_def pg_GetOrganization_def
      pg_ListOrganizations_def pg_GetClient_def pg_ListClients_def pg_ListClientsByOrganization_def)

lemma pg_ListUsersByScope_tables:
  "snd (pg_ListUsersByScope env t oid cid st) \<in> {st, pg_tick st}"
  by (auto simp: pg_ListUsersByScope_def pg_read_tables Let_def split: option.splits)

lemma pg_GetUserWithRoles_tables:
  "snd (pg_GetUserWithRoles env i st) \<in> {pg_tick st, pg_tick (pg_tick st)}"
proof -
  have "snd (pg_GetUserByID env i st) = pg_tick st" by (rule pg_read_tables)
  moreover have "snd (pg_query env what (user_roles_of env i) (pg_tick st)) = pg_tick (pg_tick st)" for what
    by simp
  ultimately show ?thesis
    by (auto simp: pg_GetUserWithRoles_def split: prod.splits sum.splits simp del: snd_pg_query)
      (metis snd_conv)+
qed

section \<open>Consistent tables, and the history of their rows\<close>

definition pg_ok :: "pg_tables \<Rightarrow> bool" where
  "pg_ok st \<longleftrightarrow>
     rows_ok clashes (pt_users st) \<and> list_all client_requires_org (pt_users st)
     \<and> rows_ok same_session (pt_sessions st) \<and> rows_ok same_token (pt_tokens st)"

definition extends_by :: "('r \<Rightarrow> 'r \<Rightarrow> bool) \<Rightarrow> 'r list \<Rightarrow> 'r list \<Rightarrow> bool" where
  \<comment> \<open>the rows are still there, in their order, each related to what it was\<close>
  "extends_by kept rows rows' \<longleftrightarrow> list_all2 kept rows (take (length rows) rows')"

definition user_kept :: "user \<Rightarrow> user \<Rightarrow> bool" where
  "user_kept r q \<longleftrightarrow>
     u_id q = u_id r \<and> u_version_id q = u_version_id r
     \<and> u_permissions_version q = u_permissions_version r
     \<and> u_disabled_at q = u_disabled_at r \<and> u_disabled_by q = u_disabled_by r
     \<and> (u_deleted_at r \<noteq> None \<longrightarrow> u_deleted_at q = u_deleted_at r)"

definition session_kept :: "session \<Rightarrow> session \<Rightarrow> bool" where
  "session_kept s q \<longleftrightarrow>
     q\<lparr>s_revoked_at := s_revoked_at s\<rparr> = s \<and> (s_revoked_at s \<noteq> None \<longrightarrow> s_revoked_at q \<noteq> None)"

definition token_kept :: "hec_token \<Rightarrow> hec_token \<Rightarrow> bool" where
  "token_kept t q \<longleftrightarrow>
     q\<lparr>ht_revoked_at := ht_revoked_at t\<rparr> = t \<and> (ht_revoked_at t \<noteq> None \<longrightarrow> ht_revoked_at q \<noteq> None)"

definition pg_history :: "pg_tables \<Rightarrow> pg_tables \<Rightarrow> bool" where
  "pg_history st st' \<longleftrightarrow>
     extends_by user_kept (pt_users st) (pt_users st')
     \<and> extends_by session_kept (pt_sessions st) (pt_sessions st')
     \<and> extends_by token_kept (pt_tokens st) (pt_tokens st')
     \<and> extends_by (=) (pt_audit st) (pt_audit st')"

lemma extends_by_map: "(\<And>r. kept r (f r)) \<Longrightarrow> extends_by kept rows (map f rows)"
  by (simp add: extends_by_def list_all2_map2 list.rel_refl)

lemma extends_by_append: "(\<And>r. kept r r) \<Longrightarrow> extends_by kept rows (rows @ new_rows)"
  by (simp add: extends_by_def list.rel_refl)

lemma extends_by_refl: "(\<And>r. kept r r) \<Longrightarrow> extends_by kept rows rows"
  using extends_by_append [of kept rows "[]"] by simp

lemma extends_by_trans:
  assumes "extends_by kept a b" and "extends_by kept b c"
    and "\<And>x y z. kept x y \<Longrightarrow> kept y z \<Longrightarrow> kept x z"
  shows "extends_by kept a c"
proof -
  have len: "length a \<le> length b" "length b \<le> length c"
    using list_all2_lengthD [OF assms(1) [unfolded extends_by_def]]
      list_all2_lengthD [OF assms(2) [unfolded extends_by_def]] by simp_all
  have "kept (a ! i) (c ! i)" if "i < length a" for i
    using that len assms(3) [of "a ! i" "b ! i" "c ! i"] assms(1,2)
    by (simp add: extends_by_def list_all2_conv_all_nth)
  with len show ?thesis by (simp add: extends_by_def list_all2_conv_all_nth)
qed

lemma kept_refl [simp]: "user_kept r r" "session_kept s s" "token_kept t t"
  by (simp_all add: user_kept_def session_kept_def token_kept_def)

lemma user_kept_trans: "user_kept a b \<Longrightarrow> user_kept b c \<Longrightarrow> user_kept a c"
  by (auto simp: user_kept_def)

lemma session_kept_trans: "session_kept a b \<Longrightarrow> session_kept b c \<Longrightarrow> session_kept a c"
  by (cases a; cases b; cases c) (auto simp: session_kept_def)

lemma token_kept_trans: "token_kept a b \<Longrightarrow> token_kept b c \<Longrightarrow> token_kept a c"
  by (cases a; cases b; cases c) (auto simp: token_kept_def)

lemmas kept_trans = user_kept_trans session_kept_trans token_kept_trans

lemma pg_history_refl [simp]: "pg_history st st"
  by (simp add: pg_history_def extends_by_refl)

lemma pg_history_trans: "pg_history a b \<Longrightarrow> pg_history b c \<Longrightarrow> pg_history a c"
  unfolding pg_history_def by (blast intro: extends_by_trans kept_trans trans)

definition evolves :: "pg_tables \<Rightarrow> pg_tables \<Rightarrow> bool" where
  "evolves st st' \<longleftrightarrow> (pg_ok st \<longrightarrow> pg_ok st') \<and> pg_history st st'"

lemma evolves_trans: "evolves a b \<Longrightarrow> evolves b c \<Longrightarrow> evolves a c"
  by (auto simp: evolves_def intro: pg_history_trans)

lemma evolves_refl [simp]: "evolves st st"
  by (simp add: evolves_def)

lemma evolves_tick [simp]: "evolves st (pg_tick st)"
  by (simp add: evolves_def pg_ok_def pg_history_def extends_by_refl)

lemma pg_exec_evolves:
  assumes "\<And>n st1. stmt st = Inr (n, st1) \<Longrightarrow> evolves st st1"
  shows "evolves st (snd (pg_exec env stmt st))"
  using assms evolves_trans [OF _ evolves_tick] by (rule_tac pg_exec_cases [of env stmt st]) auto

lemma insert_user_evolves: "insert_user env u st = Inr (n, st1) \<Longrightarrow> evolves st st1"
  by (auto simp: insert_user_def Let_def evolves_def pg_ok_def pg_history_def extends_by_refl
      extends_by_append user_rows.insert_row split: option.splits if_splits)

lemma insert_session_evolves: "insert_session env s st = Inr (n, st1) \<Longrightarrow> evolves st st1"
  by (auto simp: insert_session_def Let_def evolves_def pg_ok_def pg_history_def extends_by_refl
      extends_by_append session_rows.insert_row split: option.splits if_splits)

lemma insert_token_evolves: "insert_token env t st = Inr (n, st1) \<Longrightarrow> evolves st st1"
  by (auto simp: insert_token_def Let_def evolves_def pg_ok_def pg_history_def extends_by_refl
      extends_by_append token_rows.insert_row split: option.splits if_splits)

lemma update_user_evolves:
  assumes "update_user env u st = Inr (n, st1)"
  shows "evolves st st1"
proof -
  obtain v new hit where hit: "hit = (\<lambda>q. u_version_id q = v)"
    and st1: "st1 = st \<or>
      (\<exists>old. find hit (pt_users st) = Some old \<and> client_requires_org (rewritten new old)
        \<and> \<not> list_ex (\<lambda>q. \<not> hit q \<and> clashes (rewritten new old) q) (pt_users st)
        \<and> st1 = st\<lparr>pt_users := map (\<lambda>q. if hit q then rewritten new q else q) (pt_users st)\<rparr>)"
    using assms by (auto simp: update_user_def Let_def split: option.splits if_splits)
  have kept: "user_kept q (if hit q then rewritten new q else q)" for q
    by (simp add: user_kept_def rewritten_def)
  from st1 show ?thesis
  proof (elim disjE exE conjE)
    fix old assume old: "find hit (pt_users st) = Some old" and req: "client_requires_org (rewritten new old)"
      and free: "\<not> list_ex (\<lambda>q. \<not> hit q \<and> clashes (rewritten new old) q) (pt_users st)"
      and upd: "st1 = st\<lparr>pt_users := map (\<lambda>q. if hit q then rewritten new q else q) (pt_users st)\<rparr>"
    have "pg_ok st1" if ok: "pg_ok st"
    proof -
      have rows: "rows_ok clashes (pt_users st)" using ok by (simp add: pg_ok_def)
      have one: "q = old" if "q \<in> set (pt_users st)" "hit q" for q
        using user_rows.found_is_the_one [OF rows that(1), of hit] that(2) old hit by (simp add: clashes_def)
      then have "rows_ok clashes (pt_users st1)"
        unfolding upd using free
        by (auto simp: hit clashes_def list_ex_iff intro!: user_rows.replace_row [OF rows])
      moreover have "list_all client_requires_org (pt_users st1)"
        using ok req one unfolding upd by (auto simp: pg_ok_def list_all_iff)
      ultimately show ?thesis using ok by (simp add: pg_ok_def upd)
    qed
    then show ?thesis
      using kept by (simp add: evolves_def pg_history_def upd extends_by_refl extends_by_map)
  qed (simp add: evolves_def)
qed

lemma revoked_rows:
  "rows_ok same_session ss \<Longrightarrow>
     rows_ok same_session (map (\<lambda>r. if P r then r\<lparr>s_revoked_at := t\<rparr> else r) ss)"
  "rows_ok same_token ts \<Longrightarrow>
     rows_ok same_token (map (\<lambda>r. if Q r then r\<lparr>ht_revoked_at := t\<rparr> else r) ts)"
  by (auto intro!: session_rows.map_rows token_rows.map_rows
      simp: same_session_def same_token_def split: if_splits)

lemma deleted_rows:
  "rows_ok clashes us \<Longrightarrow>
     rows_ok clashes (map (\<lambda>r. if P r \<and> u_deleted_at r = None then r\<lparr>u_deleted_at := Some t\<rparr> else r) us)"
  by (auto intro!: user_rows.map_rows simp: clashes_def split: if_splits)

lemma delete_user_evolves: "delete_user env i st = Inr (n, st1) \<Longrightarrow> evolves st st1"
  by (auto simp: delete_user_def Let_def evolves_def pg_ok_def pg_history_def extends_by_refl
      user_kept_def deleted_rows list_all_iff client_requires_org_def
      intro!: extends_by_map split: option.splits)

lemma revoke_session_evolves: "revoke_session env t st = Inr (n, st1) \<Longrightarrow> evolves st st1"
  by (auto simp: revoke_session_def Let_def evolves_def pg_ok_def pg_history_def extends_by_refl
      session_kept_def revoked_rows intro!: extends_by_map split: if_splits)

lemma revoke_token_evolves: "revoke_token env t st = Inr (n, st1) \<Longrightarrow> evolves st st1"
  by (auto simp: revoke_token_def Let_def evolves_def pg_ok_def pg_history_def extends_by_refl
      token_kept_def revoked_rows intro!: extends_by_map split: if_splits)

lemma insert_audit_evolves: "insert_audit env e st = Inr (n, st1) \<Longrightarrow> evolves st st1"
  by (auto simp: insert_audit_def evolves_def pg_ok_def pg_history_def extends_by_refl
      extends_by_append split: if_splits)

lemma snd_pg_write:
  "snd (pg_CreateUser env u st) = snd (pg_exec env (insert_user env u) st)"
  "snd (pg_CreateSession env s st) = snd (pg_exec env (insert_session env s) st)"
  "snd (pg_CreateHECToken env t st) = snd (pg_exec env (insert_token env t) st)"
  "snd (pg_DeleteUser env i st) = snd (pg_exec env (delete_user env i) st)"
  "snd (pg_RevokeSession env i st) = snd (pg_exec env (revoke_session env i) st)"
  "snd (pg_RevokeHECToken env i st) = snd (pg_exec env (revoke_token env i) st)"
  "snd (pg_LogAudit env e st) = snd (pg_exec env (insert_audit env e) st)"
  by (simp_all add: pg_CreateUser_def pg_CreateSession_def pg_CreateHECToken_def pg_DeleteUser_def
      pg_RevokeSession_def pg_RevokeHECToken_def pg_LogAudit_def
      split: prod.splits sum.splits refusal.splits)

lemmas statement_evolves =
  insert_user_evolves insert_session_evolves insert_token_evolves delete_user_evolves
  revoke_session_evolves revoke_token_evolves insert_audit_evolves update_user_evolves

lemma pg_write_evolves:
  "evolves st (snd (pg_CreateUser env u st))" "evolves st (snd (pg_CreateSession env s st))"
  "evolves st (snd (pg_CreateHECToken env t st))" "evolves st (snd (pg_DeleteUser env i st))"
  "evolves st (snd (pg_RevokeSession env i st))" "evolves st (snd (pg_RevokeHECToken env i st))"
  "evolves st (snd (pg_LogAudit env e st))"
  unfolding snd_pg_write by (rule pg_exec_evolves, erule statement_evolves)+

lemma pg_UpdateUser_evolves: "evolves st (snd (pg_UpdateUser env u st))"
proof -
  obtain r st1 where r: "pg_exec env (update_user env u) st = (r, st1)" by fastforce
  then have "evolves st st1"
    using pg_exec_evolves [of "update_user env u" st env] update_user_evolves by simp
  moreover have "snd (pg_UpdateUser env u st) \<in> {st1, pg_tick st1}"
    using r snd_pg_query [of env "[]" "\<lambda>s. map_option (\<lambda>i. list_ex (\<lambda>r. u_id r = i \<and> u_deleted_at r = None) (pt_users s)) (pe_uuid env (u_id u))" st1]
    by (auto simp: pg_UpdateUser_def split: sum.splits prod.splits bool.splits simp del: snd_pg_query)
  ultimately show ?thesis using evolves_trans [OF _ evolves_tick] by auto
qed

lemma pg_step_evolves: "evolves st (pg_step env x st)"
proof (cases x)
  case (Do_GetUserWithRoles i)
  then show ?thesis
    using pg_GetUserWithRoles_tables [of env i st] evolves_trans [OF evolves_tick evolves_tick] by auto
next
  case (Do_ListUsersByScope t oid cid)
  then have "pg_step env x st \<in> {st, pg_tick st}" by (simp add: pg_ListUsersByScope_tables [simplified])
  then show ?thesis using evolves_refl by auto
qed (simp_all add: pg_read_tables pg_write_evolves pg_UpdateUser_evolves)

lemma pg_run_evolves: "evolves st (pg_run env ops st)"
proof (induction ops arbitrary: st)
  case (Cons x ops)
  then show ?case using evolves_trans [OF pg_step_evolves [of st env x]] by simp
qed simp

end
