(* ===== verification/AuthPgProps.thy ===== *)
theory AuthPgProps
  imports AuthPgLaws AuthService
begin

text \<open>
  What the PostgreSQL repository promises to the service: its tables stay consistent, and a
  deletion or a revocation it has confirmed is final.
\<close>

section \<open>Confirmed statements\<close>

lemma pg_affect_done:
  assumes "pg_affect env nf what stmt st = (None, st')"
  obtains n st1 where "stmt st = Inr (n, st1)" and "n \<noteq> 0" and "st' = pg_tick st1"
  using assms
  by (cases "pe_fate env (pt_tick st)"; cases "stmt st")
    (auto simp: pg_affect_def pg_exec_def split: if_splits)

lemma pg_row_found:
  assumes "pg_row env nf what q st = (Inr x, st')"
  shows "q st = Some (Some x)"
  using assms
  by (cases "pe_fate env (pt_tick st)"; cases "q st")
    (auto simp: pg_row_def pg_query_def split: option.splits)

lemma extends_by_row:
  assumes "extends_by kept rows rows'" and "r \<in> set rows"
  obtains q where "q \<in> set rows'" and "kept r q"
proof -
  from assms(2) obtain i where i: "i < length rows" "r = rows ! i" by (auto simp: in_set_conv_nth)
  with assms(1) have "i < length rows'" and "kept r (rows' ! i)"
    by (auto simp: extends_by_def list_all2_conv_all_nth)
  then show ?thesis by (intro that [of "rows' ! i"] nth_mem)
qed

lemma pg_run_history: "pg_history st (pg_run env ops st)"
  using pg_run_evolves [of st env ops] by (simp add: evolves_def)

lemma pg_run_ok: "pg_ok st \<Longrightarrow> pg_ok (pg_run env ops st)"
  using pg_run_evolves [of st env ops] by (simp add: evolves_def)

section \<open>Live users\<close>

definition live_ids :: "pg_tables \<Rightarrow> string set" where
  "live_ids st = u_id ` {r \<in> set (pt_users st). u_deleted_at r = None}"

fun created_ids :: "pg_env \<Rightarrow> pg_op \<Rightarrow> string set" where
  "created_ids env (Do_CreateUser u) = set_option (pe_uuid env (u_id u))"
| "created_ids env _ = {}"

lemma live_ids_tick [simp]: "live_ids (pg_tick st) = live_ids st"
  by (simp add: live_ids_def)

lemma pg_exec_live:
  assumes "\<And>n st1. stmt st = Inr (n, st1) \<Longrightarrow> live_ids st1 \<subseteq> live_ids st \<union> X"
  shows "live_ids (snd (pg_exec env stmt st)) \<subseteq> live_ids st \<union> X"
  using assms by (rule_tac pg_exec_cases [of env stmt st]) auto

lemma insert_user_live:
  "insert_user env u st = Inr (n, st1) \<Longrightarrow> live_ids st1 \<subseteq> live_ids st \<union> set_option (pe_uuid env (u_id u))"
  by (auto simp: insert_user_def Let_def live_ids_def user_row_def split: option.splits if_splits)

lemma update_user_live: "update_user env u st = Inr (n, st1) \<Longrightarrow> live_ids st1 \<subseteq> live_ids st \<union> {}"
  by (auto simp: update_user_def Let_def live_ids_def rewritten_def split: option.splits if_splits)

lemma other_statements_live:
  "delete_user env i st = Inr (n, st1) \<Longrightarrow> live_ids st1 \<subseteq> live_ids st \<union> {}"
  "insert_session env s st = Inr (n, st1) \<Longrightarrow> live_ids st1 \<subseteq> live_ids st \<union> {}"
  "revoke_session env t st = Inr (n, st1) \<Longrightarrow> live_ids st1 \<subseteq> live_ids st \<union> {}"
  "insert_token env k st = Inr (n, st1) \<Longrightarrow> live_ids st1 \<subseteq> live_ids st \<union> {}"
  "revoke_token env t st = Inr (n, st1) \<Longrightarrow> live_ids st1 \<subseteq> live_ids st \<union> {}"
  "insert_audit env e st = Inr (n, st1) \<Longrightarrow> live_ids st1 \<subseteq> live_ids st \<union> {}"
  by (auto simp: delete_user_def insert_session_def revoke_session_def insert_token_def
      revoke_token_def insert_audit_def Let_def live_ids_def split: option.splits if_splits)

lemma snd_pg_UpdateUser:
  "snd (pg_UpdateUser env u st) \<in>
     {snd (pg_exec env (update_user env u) st), pg_tick (snd (pg_exec env (update_user env u) st))}"
  using snd_pg_query [of env "[]" "\<lambda>s. map_option (\<lambda>i. list_ex (\<lambda>r. u_id r = i \<and> u_deleted_at r = None)
      (pt_users s)) (pe_uuid env (u_id u))" "snd (pg_exec env (update_user env u) st)"]
  by (auto simp: pg_UpdateUser_def split: sum.splits prod.splits bool.splits simp del: snd_pg_query)

lemma pg_step_live: "live_ids (pg_step env x st) \<subseteq> live_ids st \<union> created_ids env x"
proof (cases x)
  case (Do_UpdateUser u)
  have "live_ids (snd (pg_exec env (update_user env u) st)) \<subseteq> live_ids st \<union> {}"
    by (rule pg_exec_live) (rule update_user_live)
  with Do_UpdateUser snd_pg_UpdateUser [of env u st] show ?thesis by auto
next
  case (Do_GetUserWithRoles i)
  then show ?thesis using pg_GetUserWithRoles_tables [of env i st] by auto
next
  case (Do_ListUsersByScope t oid cid)
  then show ?thesis using pg_ListUsersByScope_tables [of env t oid cid st] by auto
qed (simp_all add: pg_read_tables, unfold snd_pg_write,
    (rule pg_exec_live insert_user_live
          pg_exec_live [where X = "{}", simplified] other_statements_live [simplified], assumption?)+)

lemma pg_run_live:
  "live_ids (pg_run env ops st) \<subseteq> live_ids st \<union> (\<Union>x\<in>set ops. created_ids env x)"
proof (induction ops arbitrary: st)
  case (Cons x ops)
  then show ?case using pg_step_live [of env x st] by fastforce
qed simp

section \<open>A small database\<close>

definition sample_pg :: pg_env where
  "sample_pg =
     \<lparr>pe_fate = (\<lambda>_. Executed), pe_now = int, pe_uuid = Some, pe_text = (\<lambda>_. True),
      pe_user_columns = (\<lambda>_. True), pe_session_columns = (\<lambda>_. True), pe_token_columns = (\<lambda>_. True),
      pe_audit_columns = (\<lambda>_. True)\<rparr>"

definition sample_tables :: pg_tables where
  "sample_tables =
     \<lparr>pt_users = [], pt_sessions = [], pt_tokens = [], pt_user_roles = [], pt_roles = [],
      pt_role_permissions = [], pt_permissions = [], pt_organizations = [], pt_clients = [],
      pt_audit = [], pt_tick = 0\<rparr>"

definition sample_pg_user :: "string \<Rightarrow> string \<Rightarrow> string \<Rightarrow> user" where
  "sample_pg_user i name email =
     new_user i \<lparr>cu_username = name, cu_email = email, cu_password = [], cu_roles = []\<rparr> ''hash''
       ''10.0.0.1'' ''curl''"

definition sample_db :: pg_tables where
  \<comment> \<open>a user with a session and an ingestion token\<close>
  "sample_db =
     pg_run sample_pg
       [Do_CreateUser (sample_pg_user ''i1'' ''ann'' ''a@b''),
        Do_CreateSession (new_session ''s1'' (sample_pg_user ''i1'' ''ann'' ''a@b'') ''at'' ''rt'' 0 [] []),
        Do_CreateHECToken (new_hec_token ''h1'' ''tok'' ''i1'' ''c1'' ''feed'' [] [])]
       sample_tables"

lemma sample_db_ok: "pg_ok sample_db"
  unfolding sample_db_def by (rule pg_run_ok) (simp add: pg_ok_def rows_ok_def sample_tables_def)

section \<open>Consistent tables\<close>

text \<open>C35: Whatever becomes of the statements, no run of the repository leaves two rows with one
  version identifier, two live users with one name or one e-mail address, two sessions with one
  identifier or one refresh token, or two tokens with one identifier or one value. Rows are never
  removed, a deletion or a revocation is never undone, the identifiers, the disabling and the
  permissions version of a user never change, and audit entries stay as they were written.\<close>
theorem tables_stay_consistent:
  assumes "pg_ok st"
  shows "pg_ok (pg_run env ops st) \<and> pg_history st (pg_run env ops st)"
  using assms pg_run_ok pg_run_history by blast

text \<open>A second user takes the name of the first: the insertion is refused, and the run goes on.\<close>
theorem tables_stay_consistent_witness:
  "let end_db = pg_run sample_pg [Do_CreateUser (sample_pg_user ''i2'' ''ann'' ''c@d''), Do_DeleteUser ''i1'',
        Do_CreateUser (sample_pg_user ''i3'' ''ann'' ''c@d'')] sample_db
   in pg_ok end_db \<and> pg_history sample_db end_db \<and> map u_id (pt_users end_db) = [''i1'', ''i3'']"
proof -
  have "map u_id (pt_users (pg_run sample_pg [Do_CreateUser (sample_pg_user ''i2'' ''ann'' ''c@d''),
      Do_DeleteUser ''i1'', Do_CreateUser (sample_pg_user ''i3'' ''ann'' ''c@d'')] sample_db)) = [''i1'', ''i3'']"
    by code_simp
  with tables_stay_consistent [OF sample_db_ok] show ?thesis unfolding Let_def by blast
qed

section \<open>Deletions and revocations are final\<close>

lemma deleted_not_live:
  assumes "pg_DeleteUser env i st = (None, st')" and "pe_uuid env i = Some u"
  shows "u \<notin> live_ids st'"
proof -
  from assms(1) obtain n st1 where "delete_user env i st = Inr (n, st1)" and "st' = pg_tick st1"
    unfolding pg_DeleteUser_def by (rule pg_affect_done)
  with assms(2) have rows: "pt_users st' = map (\<lambda>r. if u_id r = u \<and> u_deleted_at r = None
      then r\<lparr>u_deleted_at := Some (pe_now env (pt_tick st))\<rparr> else r) (pt_users st)"
    by (auto simp: delete_user_def Let_def)
  have "u_id r \<noteq> u \<or> u_deleted_at r \<noteq> None" if "r \<in> set (pt_users st')" for r
    using that unfolding rows set_map by (rule imageE) simp
  then show ?thesis unfolding live_ids_def by blast
qed

lemma live_user_row:
  assumes "live_user P st = Some x"
  obtains r where "r \<in> set (pt_users st)" and "P r" and "u_deleted_at r = None" and "x = scan_user r"
proof -
  let ?rows = "latest_first u_version_id (filter (\<lambda>r. P r \<and> u_deleted_at r = None) (pt_users st))"
  from assms obtain r rs where "?rows = r # rs" and x: "x = scan_user r"
    by (cases ?rows) (simp_all add: live_user_def)
  then have "r \<in> set ?rows" by simp
  then show ?thesis using that [of r] x by (simp add: latest_first_def)
qed

lemma found_user_live:
  assumes "pg_GetUserByID env i st = (Inr x, st')"
  obtains u where "pe_uuid env i = Some u" and "u \<in> live_ids st"
proof -
  from assms have "user_with_id env i st = Some (Some x)"
    unfolding pg_GetUserByID_def by (rule pg_row_found)
  then obtain u where u: "pe_uuid env i = Some u" and "live_user (\<lambda>r. u_id r = u) st = Some x"
    by (auto simp: user_with_id_def)
  from this(2) have "u \<in> live_ids st" by (rule live_user_row) (auto simp: live_ids_def)
  with u show ?thesis by (rule that)
qed

context unique_rows
begin

lemma later_row:
  assumes "rows_ok clash rows'" and "extends_by kept rows rows'" and "r \<in> set rows" and "P r"
    and "\<And>q. kept r q \<Longrightarrow> P q" and "\<And>a b. P a \<Longrightarrow> P b \<Longrightarrow> clash a b"
  shows "\<exists>q. find P rows' = Some q \<and> kept r q"
proof -
  from assms(2,3) obtain q where q: "q \<in> set rows'" "kept r q" by (rule extends_by_row)
  then have "find P rows' = Some q"
    using assms(5) by (intro found_is_the_one [OF assms(1)] assms(6)) simp_all
  with q(2) show ?thesis by blast
qed

end

lemma marked_row:
  assumes "length (filter P rows) \<noteq> 0"
  obtains r where "P r" and "f r \<in> set (map (\<lambda>r. if P r then f r else r) rows)"
proof -
  from assms obtain r where "r \<in> set rows" "P r" by (auto simp: filter_empty_conv)
  then have "f r \<in> set (map (\<lambda>r. if P r then f r else r) rows)" by force
  with \<open>P r\<close> show ?thesis by (rule that)
qed

lemma session_kept_token:
  assumes "session_kept r q"
  shows "s_refresh_token q = s_refresh_token r" and "s_revoked_at r \<noteq> None \<Longrightarrow> s_revoked_at q \<noteq> None"
proof -
  from assms have "s_refresh_token (q\<lparr>s_revoked_at := s_revoked_at r\<rparr>) = s_refresh_token r"
    unfolding session_kept_def by metis
  then show "s_refresh_token q = s_refresh_token r" by simp
  from assms show "s_revoked_at r \<noteq> None \<Longrightarrow> s_revoked_at q \<noteq> None" unfolding session_kept_def by blast
qed

lemma token_kept_token:
  assumes "token_kept r q"
  shows "ht_token q = ht_token r" and "ht_revoked_at r \<noteq> None \<Longrightarrow> ht_revoked_at q \<noteq> None"
proof -
  from assms have "ht_token (q\<lparr>ht_revoked_at := ht_revoked_at r\<rparr>) = ht_token r"
    unfolding token_kept_def by metis
  then show "ht_token q = ht_token r" by simp
  from assms show "ht_revoked_at r \<noteq> None \<Longrightarrow> ht_revoked_at q \<noteq> None" unfolding token_kept_def by blast
qed

lemma revoked_session_row:
  assumes "pg_ok st" and "pg_RevokeSession env t st = (None, st')"
  obtains q where "find (\<lambda>r. s_refresh_token r = t) (pt_sessions (pg_run env' ops st')) = Some q"
    and "s_revoked_at q \<noteq> None"
proof -
  let ?mark = "\<lambda>r. r\<lparr>s_revoked_at := Some (pe_now env (pt_tick st))\<rparr>"
  from assms(2) obtain n st1 where st1: "revoke_session env t st = Inr (n, st1)" "n \<noteq> 0"
    and st': "st' = pg_tick st1"
    unfolding pg_RevokeSession_def by (rule pg_affect_done)
  then have n: "length (filter (\<lambda>r. s_refresh_token r = t) (pt_sessions st)) \<noteq> 0"
    and rows: "pt_sessions st' = map (\<lambda>r. if s_refresh_token r = t then ?mark r else r) (pt_sessions st)"
    by (auto simp: revoke_session_def Let_def split: if_splits)
  from n obtain r where r: "s_refresh_token r = t" and "?mark r \<in> set (pt_sessions st')"
    unfolding rows by (rule marked_row)
  moreover from statement_evolves(5) [OF st1(1)] assms(1) have "pg_ok st'"
    unfolding st' by (simp add: evolves_def pg_ok_def)
  then have "rows_ok same_session (pt_sessions (pg_run env' ops st'))"
    using pg_run_ok by (simp add: pg_ok_def)
  moreover have "extends_by session_kept (pt_sessions st') (pt_sessions (pg_run env' ops st'))"
    using pg_run_history by (simp add: pg_history_def)
  ultimately have "\<exists>q. find (\<lambda>r. s_refresh_token r = t) (pt_sessions (pg_run env' ops st')) = Some q
      \<and> session_kept (?mark r) q"
    using session_kept_token(1) r
    by (intro session_rows.later_row [of _ "session_kept" "pt_sessions st'" "?mark r"])
      (auto simp: same_session_def)
  then show ?thesis using that session_kept_token(2) by fastforce
qed

lemma revoked_token_row:
  assumes "pg_ok st" and "pg_RevokeHECToken env t st = (None, st')"
  obtains q where "find (\<lambda>r. ht_token r = t) (pt_tokens (pg_run env' ops st')) = Some q"
    and "ht_revoked_at q \<noteq> None"
proof -
  let ?mark = "\<lambda>r. r\<lparr>ht_revoked_at := Some (pe_now env (pt_tick st))\<rparr>"
  from assms(2) obtain n st1 where st1: "revoke_token env t st = Inr (n, st1)" "n \<noteq> 0"
    and st': "st' = pg_tick st1"
    unfolding pg_RevokeHECToken_def by (rule pg_affect_done)
  then have n: "length (filter (\<lambda>r. ht_token r = t) (pt_tokens st)) \<noteq> 0"
    and rows: "pt_tokens st' = map (\<lambda>r. if ht_token r = t then ?mark r else r) (pt_tokens st)"
    by (auto simp: revoke_token_def Let_def split: if_splits)
  from n obtain r where r: "ht_token r = t" and "?mark r \<in> set (pt_tokens st')"
    unfolding rows by (rule marked_row)
  moreover from statement_evolves(6) [OF st1(1)] assms(1) have "pg_ok st'"
    unfolding st' by (simp add: evolves_def pg_ok_def)
  then have "rows_ok same_token (pt_tokens (pg_run env' ops st'))"
    using pg_run_ok by (simp add: pg_ok_def)
  moreover have "extends_by token_kept (pt_tokens st') (pt_tokens (pg_run env' ops st'))"
    using pg_run_history by (simp add: pg_history_def)
  ultimately have "\<exists>q. find (\<lambda>r. ht_token r = t) (pt_tokens (pg_run env' ops st')) = Some q
      \<and> token_kept (?mark r) q"
    using token_kept_token(1) r
    by (intro token_rows.later_row [of _ "token_kept" "pt_tokens st'" "?mark r"])
      (auto simp: same_token_def)
  then show ?thesis using that token_kept_token(2) by fastforce
qed

text \<open>C39: What the PostgreSQL repository has removed stays removed, whatever runs afterwards and
  whatever becomes of the statements. A deleted user is not found by identifier again unless a user
  with that identifier is created; a revoked session and a revoked ingestion token are found, and
  found revoked, unless the statement itself fails.\<close>
theorem removals_are_final:
  assumes "pg_ok st"
  shows "(pg_DeleteUser env i st = (None, st')
        \<and> (\<forall>u. Do_CreateUser u \<in> set ops \<longrightarrow> pe_uuid env (u_id u) \<noteq> pe_uuid env i)
        \<longrightarrow> isl (fst (pg_GetUserByID env i (pg_run env ops st'))))
    \<and> (pg_RevokeSession env t st = (None, st')
        \<longrightarrow> (case fst (pg_GetSession env t (pg_run env ops st')) of
              Inl e \<Rightarrow> \<exists>what. e = Failed what | Inr s \<Rightarrow> s_revoked_at s \<noteq> None))
    \<and> (pg_RevokeHECToken env t st = (None, st')
        \<longrightarrow> (case fst (pg_GetHECToken env t (pg_run env ops st')) of
              Inl e \<Rightarrow> \<exists>what. e = Failed what | Inr k \<Rightarrow> ht_revoked_at k \<noteq> None))"
proof (intro conjI impI)
  assume deleted: "pg_DeleteUser env i st = (None, st')
    \<and> (\<forall>u. Do_CreateUser u \<in> set ops \<longrightarrow> pe_uuid env (u_id u) \<noteq> pe_uuid env i)"
  show "isl (fst (pg_GetUserByID env i (pg_run env ops st')))"
  proof (rule ccontr)
    assume "\<not> isl (fst (pg_GetUserByID env i (pg_run env ops st')))"
    then obtain x st'' where "pg_GetUserByID env i (pg_run env ops st') = (Inr x, st'')"
      by (metis isl_def prod.collapse sum.exhaust_sel)
    then obtain u where u: "pe_uuid env i = Some u" and "u \<in> live_ids (pg_run env ops st')"
      by (rule found_user_live)
    with pg_run_live [of env ops st'] deleted_not_live [OF conjunct1 [OF deleted] u]
    obtain x where "x \<in> set ops" "u \<in> created_ids env x" by blast
    with deleted u show False by (cases x) auto
  qed
next
  assume "pg_RevokeSession env t st = (None, st')"
  with assms obtain q where "find (\<lambda>r. s_refresh_token r = t) (pt_sessions (pg_run env ops st')) = Some q"
    and "s_revoked_at q \<noteq> None" by (rule revoked_session_row)
  then show "case fst (pg_GetSession env t (pg_run env ops st')) of
      Inl e \<Rightarrow> \<exists>what. e = Failed what | Inr s \<Rightarrow> s_revoked_at s \<noteq> None"
    by (cases "pe_fate env (pt_tick (pg_run env ops st'))")
      (auto simp: pg_GetSession_def pg_row_def pg_query_def session_where_def scan_session_def)
next
  assume "pg_RevokeHECToken env t st = (None, st')"
  with assms obtain q where "find (\<lambda>r. ht_token r = t) (pt_tokens (pg_run env ops st')) = Some q"
    and "ht_revoked_at q \<noteq> None" by (rule revoked_token_row)
  then show "case fst (pg_GetHECToken env t (pg_run env ops st')) of
      Inl e \<Rightarrow> \<exists>what. e = Failed what | Inr k \<Rightarrow> ht_revoked_at k \<noteq> None"
    by (cases "pe_fate env (pt_tick (pg_run env ops st'))")
      (auto simp: pg_GetHECToken_def pg_row_def pg_query_def scan_token_def)
qed

theorem removals_are_final_witness:
  "let db = snd (pg_DeleteUser sample_pg ''i1'' sample_db);
       db' = snd (pg_RevokeSession sample_pg ''rt'' sample_db);
       db'' = snd (pg_RevokeHECToken sample_pg ''tok'' sample_db)
   in isl (fst (pg_GetUserByID sample_pg ''i1''
        (pg_run sample_pg [Do_UpdateUser (sample_pg_user ''i1'' ''ann'' ''a@b'')] db)))
    \<and> (case fst (pg_GetSession sample_pg ''rt'' (pg_run sample_pg [Do_RevokeSession ''rt''] db')) of
         Inl _ \<Rightarrow> False | Inr s \<Rightarrow> s_revoked_at s \<noteq> None)
    \<and> (case fst (pg_GetHECToken sample_pg ''tok'' (pg_run sample_pg [Do_ListUsers] db'')) of
         Inl _ \<Rightarrow> False | Inr k \<Rightarrow> ht_revoked_at k \<noteq> None)"
proof -
  have confirmed: "pg_DeleteUser sample_pg ''i1'' sample_db = (None, snd (pg_DeleteUser sample_pg ''i1'' sample_db))"
    "pg_RevokeSession sample_pg ''rt'' sample_db = (None, snd (pg_RevokeSession sample_pg ''rt'' sample_db))"
    "pg_RevokeHECToken sample_pg ''tok'' sample_db = (None, snd (pg_RevokeHECToken sample_pg ''tok'' sample_db))"
    by (rule prod_eqI, code_simp, simp)+
  have found: "\<not> isl (fst (pg_GetSession sample_pg ''rt'' (pg_run sample_pg [Do_RevokeSession ''rt'']
        (snd (pg_RevokeSession sample_pg ''rt'' sample_db)))))"
    "\<not> isl (fst (pg_GetHECToken sample_pg ''tok'' (pg_run sample_pg [Do_ListUsers]
        (snd (pg_RevokeHECToken sample_pg ''tok'' sample_db)))))"
    by code_simp+
  note final = removals_are_final [OF sample_db_ok]
  have "isl (fst (pg_GetUserByID sample_pg ''i1''
      (pg_run sample_pg [Do_UpdateUser (sample_pg_user ''i1'' ''ann'' ''a@b'')]
        (snd (pg_DeleteUser sample_pg ''i1'' sample_db)))))"
    by (rule final [THEN conjunct1, THEN mp]) (intro conjI confirmed, simp)
  moreover note final [THEN conjunct2, THEN conjunct1, THEN mp, OF confirmed(2), of "[Do_RevokeSession ''rt'']"]
    final [THEN conjunct2, THEN conjunct2, THEN mp, OF confirmed(3), of "[Do_ListUsers]"]
  ultimately show ?thesis using found unfolding Let_def by (simp split: sum.splits)
qed

end
