(* ===== verification/AuthPgRefine.thy ===== *)
theory AuthPgRefine
  imports AuthPgProps "HOL-Library.Multiset"
begin

text \<open>
  The two repositories of the authenticate service side by side. On every run of their nine
  operations on users whose values the tables can hold, whose statements are executed and in which
  no live user takes the e-mail address of another, the tables answer what the maps answer, read
  back through the columns: \<open>in_table\<close> says which values of a user the columns do not carry.
\<close>

section \<open>Operations on users, as the service issues them\<close>

datatype account_op =
    Acc_Create user | Acc_Update string string "string list" | Acc_Delete string
  | Acc_ByName string | Acc_ByID string | Acc_WithRoles string | Acc_VersionOf string
  | Acc_List | Acc_ListIn string "string option" "string option"

datatype account_result =
    Acc_Done | Acc_Error repo_error | Acc_Failed | Acc_User user | Acc_Version int
  | Acc_Users "user multiset"   \<comment> \<open>a list whose order the maps leave open\<close>

definition acc_outcome :: "repo_error option \<Rightarrow> account_result" where
  "acc_outcome e = (case e of None \<Rightarrow> Acc_Done | Some x \<Rightarrow> Acc_Error x)"

definition acc_found :: "repo \<Rightarrow> repo_error + addr \<Rightarrow> account_result" where
  "acc_found rp r = (case r of Inl e \<Rightarrow> Acc_Error e | Inr p \<Rightarrow> Acc_User (h_users rp p))"

definition acc_listed :: "repo \<Rightarrow> addr list \<Rightarrow> account_result" where
  "acc_listed rp ps = Acc_Users (mset (map (h_users rp) ps))"

fun mem_do :: "account_op \<Rightarrow> addr \<times> repo \<Rightarrow> account_result \<times> (addr \<times> repo)" where
  \<comment> \<open>the first component is the next free address\<close>
  "mem_do (Acc_Create u) (n, rp) =
     (let (e, rp1) = CreateUser n (rp\<lparr>h_users := (h_users rp)(n := u)\<rparr>) in
      (acc_outcome e, (n + 1, rp1)))"
| "mem_do (Acc_Update i email roles) (n, rp) =
     (case GetUserByID i rp of
        Inl e \<Rightarrow> (Acc_Error e, (n, rp))
      | Inr p \<Rightarrow>
          let (e, rp1) = UpdateUser p
            (rp\<lparr>h_users := (h_users rp)(p := (h_users rp p)\<lparr>u_email := email, u_roles := roles\<rparr>)\<rparr>) in
          (acc_outcome e, (n, rp1)))"
| "mem_do (Acc_Delete i) (n, rp) = (let (e, rp1) = DeleteUser i rp in (acc_outcome e, (n, rp1)))"
| "mem_do (Acc_ByName name) (n, rp) = (acc_found rp (GetUserByUsername name rp), (n, rp))"
| "mem_do (Acc_ByID i) (n, rp) = (acc_found rp (GetUserByID i rp), (n, rp))"
| "mem_do (Acc_WithRoles i) (n, rp) = (acc_found rp (GetUserWithRoles i rp), (n, rp))"
| "mem_do (Acc_VersionOf i) (n, rp) =
     (case GetUserPermissionsVersion i rp of Inl e \<Rightarrow> Acc_Error e | Inr v \<Rightarrow> Acc_Version v, (n, rp))"
| "mem_do Acc_List (n, rp) = (acc_listed rp (ListUsers rp), (n, rp))"
| "mem_do (Acc_ListIn scope org cl) (n, rp) =
     (acc_listed rp (ListUsersByScope scope org cl rp), (n, rp))"

definition pg_outcome :: "pg_error option \<Rightarrow> account_result" where
  "pg_outcome e =
     (case e of None \<Rightarrow> Acc_Done | Some (Sentinel x) \<Rightarrow> Acc_Error x | Some (Failed _) \<Rightarrow> Acc_Failed)"

definition pg_found :: "('a \<Rightarrow> account_result) \<Rightarrow> pg_error + 'a \<Rightarrow> account_result" where
  "pg_found result r = (case r of Inr x \<Rightarrow> result x | Inl e \<Rightarrow> pg_outcome (Some e))"

definition listed_rows :: "user list \<Rightarrow> account_result" where
  "listed_rows us = Acc_Users (mset us)"

fun pg_do :: "pg_env \<Rightarrow> account_op \<Rightarrow> pg_tables \<Rightarrow> account_result \<times> pg_tables" where
  "pg_do env (Acc_Create u) st = apfst pg_outcome (pg_CreateUser env u st)"
| "pg_do env (Acc_Update i email roles) st =
     (case pg_GetUserByID env i st of
        (Inl e, st1) \<Rightarrow> (pg_outcome (Some e), st1)
      | (Inr u, st1) \<Rightarrow>
          apfst pg_outcome (pg_UpdateUser env (u\<lparr>u_email := email, u_roles := roles\<rparr>) st1))"
| "pg_do env (Acc_Delete i) st = apfst pg_outcome (pg_DeleteUser env i st)"
| "pg_do env (Acc_ByName name) st = apfst (pg_found Acc_User) (pg_GetUserByUsername env name st)"
| "pg_do env (Acc_ByID i) st = apfst (pg_found Acc_User) (pg_GetUserByID env i st)"
| "pg_do env (Acc_WithRoles i) st = apfst (pg_found Acc_User) (pg_GetUserWithRoles env i st)"
| "pg_do env (Acc_VersionOf i) st =
     apfst (pg_found Acc_Version) (pg_GetUserPermissionsVersion env i st)"
| "pg_do env Acc_List st = apfst (pg_found listed_rows) (pg_ListUsers env st)"
| "pg_do env (Acc_ListIn scope org cl) st =
     apfst (pg_found listed_rows) (pg_ListUsersByScope env scope org cl st)"

text \<open>
  What the tables give back of a user the maps hold. The queries do not name the two columns with
  the origin of a user, and the column \<open>permissions_version\<close> starts at 1 where the maps keep the
  0 the service builds a user with.
\<close>

definition read_back :: "user \<Rightarrow> user" where
  "read_back u =
     u\<lparr>u_created_from_ip := None, u_created_source_type := 0,
       u_permissions_version := u_permissions_version u + 1\<rparr>"

fun in_table :: "account_result \<Rightarrow> account_result" where
  "in_table (Acc_User u) = Acc_User (read_back u)"
| "in_table (Acc_Version v) = Acc_Version (v + 1)"
| "in_table (Acc_Users us) = Acc_Users (image_mset read_back us)"
| "in_table r = r"

fun answers :: "('op \<Rightarrow> 's \<Rightarrow> 'r \<times> 's) \<Rightarrow> 'op list \<Rightarrow> 's \<Rightarrow> 'r list" where
  "answers step [] s = []"
| "answers step (x # xs) s = fst (step x s) # answers step xs (snd (step x s))"

section \<open>The runs compared\<close>

definition live :: "user \<Rightarrow> bool" where "live r \<longleftrightarrow> u_deleted_at r = None"

definition canonical :: "pg_env \<Rightarrow> user \<Rightarrow> bool" where
  "canonical env u \<longleftrightarrow>
     pe_uuid env (u_id u) = Some (u_id u) \<and> pe_uuid env (u_version_id u) = Some (u_version_id u)
     \<and> uuid_or_null env (u_primary_organization_id u) = Some (u_primary_organization_id u)
     \<and> uuid_or_null env (u_primary_client_id u) = Some (u_primary_client_id u)"

definition as_built :: "user \<Rightarrow> bool" where
  \<comment> \<open>a user the service has just built: what \<open>INSERT\<close> does not write is at its zero value\<close>
  "as_built u \<longleftrightarrow>
     u_created_by u = None \<and> u_updated_by u = None \<and> u_disabled_at u = None \<and> u_disabled_by u = None
     \<and> u_deleted_at u = None \<and> u_deleted_by u = None \<and> u_permissions_version u = 0
     \<and> u_user_roles u = [] \<and> u_disabled_from_ip u = None \<and> u_disabled_source_type u = 0
     \<and> u_deleted_from_ip u = None \<and> u_deleted_source_type u = 0"

definition given :: "pg_env \<Rightarrow> string option \<Rightarrow> bool" where
  "given env x = (case x of None \<Rightarrow> False | Some i \<Rightarrow> pe_uuid env i = Some i)"

fun fits :: "pg_env \<Rightarrow> account_op \<Rightarrow> pg_tables \<Rightarrow> bool" where
  "fits env (Acc_Create u) st \<longleftrightarrow>
     as_built u \<and> canonical env u \<and> client_requires_org u \<and> pe_user_columns env (user_row u)
     \<and> list_all (pe_text env) [u_username u, u_email u, u_password_hash u]
     \<and> list_all (\<lambda>r. u_id r \<noteq> u_id u \<and> u_version_id r \<noteq> u_version_id u
          \<and> (live r \<and> u_email r = u_email u \<longrightarrow> u_username r = u_username u)) (pt_users st)"
| "fits env (Acc_Update i email roles) st \<longleftrightarrow>
     pe_uuid env i = Some i \<and> list_all (pe_text env) (email # roles)
     \<and> list_all (\<lambda>r. live r \<longrightarrow>
          (if u_id r = i then pe_user_columns env (r\<lparr>u_email := email, u_roles := roles\<rparr>)
           else u_email r \<noteq> email)) (pt_users st)"
| "fits env (Acc_Delete i) st \<longleftrightarrow> pe_uuid env i = Some i"
| "fits env (Acc_ByName name) st \<longleftrightarrow> pe_text env name"
| "fits env (Acc_ByID i) st \<longleftrightarrow> pe_uuid env i = Some i"
| "fits env (Acc_WithRoles i) st \<longleftrightarrow> pe_uuid env i = Some i"
| "fits env (Acc_VersionOf i) st \<longleftrightarrow> pe_uuid env i = Some i"
| "fits env Acc_List st \<longleftrightarrow> True"
| "fits env (Acc_ListIn scope org cl) st \<longleftrightarrow>
     (scope = ''organization'' \<longrightarrow> given env org) \<and> (scope = ''client'' \<longrightarrow> given env cl)"

fun all_fit :: "pg_env \<Rightarrow> account_op list \<Rightarrow> pg_tables \<Rightarrow> bool" where
  "all_fit env [] st \<longleftrightarrow> True"
| "all_fit env (x # ops) st \<longleftrightarrow> fits env x st \<and> all_fit env ops (snd (pg_do env x st))"

definition same_live :: "user \<Rightarrow> user \<Rightarrow> bool" where
  "same_live a b \<longleftrightarrow> live a \<and> live b \<and> u_id a = u_id b"

interpretation live_rows: unique_rows same_live
  by unfold_locales (auto simp: same_live_def)

definition live_row :: "pg_tables \<Rightarrow> string \<Rightarrow> user option" where
  "live_row st i = find (\<lambda>r. u_id r = i \<and> live r) (pt_users st)"

definition stored_text :: "pg_env \<Rightarrow> user \<Rightarrow> bool" where
  "stored_text env r \<longleftrightarrow> canonical env r \<and> list_all (pe_text env) [u_username r, u_password_hash r]"

definition mirrors :: "pg_env \<Rightarrow> addr \<times> repo \<Rightarrow> pg_tables \<Rightarrow> bool" where
  "mirrors env m st \<longleftrightarrow>
     (case m of (n, rp) \<Rightarrow>
        repo_ok rp \<and> pg_ok st \<and> rows_ok same_live (pt_users st) \<and> pt_user_roles st = []
        \<and> list_all (stored_text env) (pt_users st)
        \<and> (\<forall>i p. map_of (r_users rp) i = Some p \<longrightarrow> p < n)
        \<and> (\<forall>i. map_option (\<lambda>p. read_back (h_users rp p)) (map_of (r_users rp) i)
             = map_option scan_user (live_row st i)))"

section \<open>Lookups\<close>

lemma read_back_fields [simp]:
  "u_id (read_back u) = u_id u" "u_username (read_back u) = u_username u"
  "u_primary_organization_id (read_back u) = u_primary_organization_id u"
  "u_primary_client_id (read_back u) = u_primary_client_id u"
  "u_permissions_version (read_back u) = u_permissions_version u + 1"
  by (simp_all add: read_back_def)

lemma scan_user_fields [simp]:
  "u_id (scan_user u) = u_id u" "u_username (scan_user u) = u_username u"
  "u_primary_organization_id (scan_user u) = u_primary_organization_id u"
  "u_primary_client_id (scan_user u) = u_primary_client_id u"
  "u_permissions_version (scan_user u) = u_permissions_version u"
  "(scan_user u)\<lparr>u_user_roles := []\<rparr> = scan_user u"
  by (simp_all add: scan_user_def)

lemma read_back_row: "as_built u \<Longrightarrow> scan_user (user_row u) = read_back u"
  by (simp add: as_built_def scan_user_def user_row_def read_back_def)

lemma same_ident: "read_back u = scan_user r \<Longrightarrow> u_username u = u_username r"
  by (metis read_back_fields(2) scan_user_fields(2))

lemma latest_first_one [simp]: "latest_first key [r] = [r]" "latest_first key [] = []"
  by (simp_all add: latest_first_def)

lemma live_user_find:
  assumes "filter (\<lambda>r. P r \<and> live r) (pt_users st) =
    (case find (\<lambda>r. P r \<and> live r) (pt_users st) of None \<Rightarrow> [] | Some r \<Rightarrow> [r])"
  shows "live_user P st = map_option scan_user (find (\<lambda>r. P r \<and> live r) (pt_users st))"
  using assms by (cases "find (\<lambda>r. P r \<and> live r) (pt_users st)") (simp_all add: live_user_def live_def)

lemma live_user_id:
  assumes "rows_ok same_live (pt_users st)"
  shows "live_user (\<lambda>r. u_id r = i) st = map_option scan_user (live_row st i)"
  unfolding live_row_def
  by (rule live_user_find, rule live_rows.filter_single [OF assms]) (simp add: same_live_def)

lemma live_user_name:
  assumes "rows_ok clashes (pt_users st)"
  shows "live_user (\<lambda>r. u_username r = nm) st =
    map_option scan_user (find (\<lambda>r. u_username r = nm \<and> live r) (pt_users st))"
  by (rule live_user_find, rule user_rows.filter_single [OF assms]) (simp add: clashes_def live_def)

lemma live_row_snoc:
  "live_row (st\<lparr>pt_users := pt_users st @ [r]\<rparr>) i =
     (case live_row st i of None \<Rightarrow> if u_id r = i \<and> live r then Some r else None | Some q \<Rightarrow> Some q)"
proof -
  have "find P (xs @ [r]) = (case find P xs of None \<Rightarrow> if P r then Some r else None | Some q \<Rightarrow> Some q)"
    for P and xs :: "user list" by (induction xs) simp_all
  then show ?thesis by (simp add: live_row_def)
qed

lemma live_row_map:
  assumes "\<And>r. u_id (f r) = u_id r" and "\<And>r. u_id r = i \<Longrightarrow> live (f r) = live r"
  shows "live_row (st\<lparr>pt_users := map f (pt_users st)\<rparr>) i = map_option f (live_row st i)"
proof -
  have "find (\<lambda>r. u_id r = i \<and> live r) (map f xs) = map_option f (find (\<lambda>r. u_id r = i \<and> live r) xs)"
    for xs using assms by (induction xs) auto
  then show ?thesis by (simp add: live_row_def)
qed

lemma live_row_Some: "live_row st i = Some r \<Longrightarrow> r \<in> set (pt_users st) \<and> u_id r = i \<and> live r"
  by (auto simp: live_row_def find_Some_iff)

lemma live_rowI:
  assumes "rows_ok same_live (pt_users st)" and "r \<in> set (pt_users st)" and "live r"
  shows "live_row st (u_id r) = Some r"
  unfolding live_row_def
  by (rule live_rows.found_is_the_one [OF assms(1,2)]) (use assms(3) in \<open>simp_all add: same_live_def\<close>)

lemma mirrors_id:
  assumes "mirrors env (n, rp) st"
  shows "(map_of (r_users rp) i = None \<and> live_row st i = None)
    \<or> (\<exists>p r. map_of (r_users rp) i = Some p \<and> live_row st i = Some r \<and> read_back (h_users rp p) = scan_user r)"
proof -
  from assms have "map_option (\<lambda>p. read_back (h_users rp p)) (map_of (r_users rp) i)
      = map_option scan_user (live_row st i)" by (simp add: mirrors_def)
  then show ?thesis by (cases "map_of (r_users rp) i"; cases "live_row st i") auto
qed

lemma mirrors_name:
  assumes "mirrors env (n, rp) st"
  shows "map_option (\<lambda>p. read_back (h_users rp p)) (map_of (r_users_by_name rp) nm)
    = map_option scan_user (find (\<lambda>r. u_username r = nm \<and> live r) (pt_users st))"
proof (cases "map_of (r_users_by_name rp) nm")
  case (Some p)
  from assms have ok: "repo_ok rp" and rows: "rows_ok clashes (pt_users st)"
    by (simp_all add: mirrors_def pg_ok_def)
  from repo_ok_named [OF ok Some] mirrors_id [OF assms, of "u_id (h_users rp p)"]
  obtain r where r: "live_row st (u_id (h_users rp p)) = Some r" and eq: "read_back (h_users rp p) = scan_user r"
    and "u_username (h_users rp p) = nm" by auto
  then have "u_username r = nm" using same_ident by metis
  with live_row_Some [OF r] have "find (\<lambda>r. u_username r = nm \<and> live r) (pt_users st) = Some r"
    by (intro user_rows.found_is_the_one [OF rows]) (auto simp: clashes_def live_def)
  with Some eq show ?thesis by simp
next
  case None
  have "find (\<lambda>r. u_username r = nm \<and> live r) (pt_users st) = None"
  proof (rule ccontr)
    assume "find (\<lambda>r. u_username r = nm \<and> live r) (pt_users st) \<noteq> None"
    then obtain r where r: "r \<in> set (pt_users st)" "live r" "u_username r = nm"
      by (auto simp: find_None_iff)
    from assms have ok: "repo_ok rp" and rows: "rows_ok same_live (pt_users st)"
      by (simp_all add: mirrors_def)
    from live_rowI [OF rows r(1,2)] mirrors_id [OF assms, of "u_id r"]
    obtain p where p: "map_of (r_users rp) (u_id r) = Some p" "read_back (h_users rp p) = scan_user r" by auto
    then have "u_username (h_users rp p) = nm" using r(3) using same_ident by metis
    with repo_ok_stored(2) [OF ok p(1)] None show False by simp
  qed
  with None show ?thesis by simp
qed

section \<open>One operation\<close>

lemma executed_exec:
  assumes "\<forall>n. pe_fate env n = Executed"
  shows "pg_exec env stmt st =
    (case stmt st of Inl e \<Rightarrow> (Inl e, pg_tick st) | Inr (n, st1) \<Rightarrow> (Inr n, pg_tick st1))"
  using assms by (simp add: pg_exec_def)

lemma executed_row:
  assumes "\<forall>n. pe_fate env n = Executed" and "q st = Some r"
  shows "pg_row env nf what q st =
    ((case r of None \<Rightarrow> Inl (Sentinel nf) | Some x \<Rightarrow> Inr x), pg_tick st)"
  using assms by (simp add: pg_row_def pg_query_def split: option.splits)

lemma mirrors_tick [simp]: "mirrors env m (pg_tick st) = mirrors env m st"
  by (simp add: mirrors_def pg_ok_def live_row_def split: prod.splits)

lemma keys_ok_fresh:
  "\<forall>k. map_of m k \<noteq> Some n \<Longrightarrow> keys_ok m (\<lambda>p. f ((h(n := u)) p)) = keys_ok m (\<lambda>p. f (h p))"
  unfolding keys_ok_def by (metis fun_upd_other)

lemma repo_ok_fresh:
  assumes "repo_ok rp" and "\<forall>i. map_of (r_users rp) i \<noteq> Some n"
    and "\<forall>i. map_of (r_users_by_name rp) i \<noteq> Some n"
  shows "repo_ok (rp\<lparr>h_users := (h_users rp)(n := u)\<rparr>)"
proof -
  have "map_of (r_users rp) (u_id (((h_users rp)(n := u)) p)) = Some p \<longleftrightarrow>
      map_of (r_users_by_name rp) (u_username (((h_users rp)(n := u)) p)) = Some p" for p
    using assms by (cases "p = n") (simp_all add: repo_ok_def)
  moreover have "keys_ok (r_users rp) (\<lambda>p. u_id (((h_users rp)(n := u)) p))"
    "keys_ok (r_users_by_name rp) (\<lambda>p. u_username (((h_users rp)(n := u)) p))"
    using assms keys_ok_fresh [of "r_users rp" n u_id "h_users rp" u]
      keys_ok_fresh [of "r_users_by_name rp" n u_username "h_users rp" u]
    by (simp_all add: repo_ok_def)
  ultimately show ?thesis using assms(1) unfolding repo_ok_def by simp
qed

lemma mirrors_alloc:
  assumes "mirrors env (n, rp) st"
  shows "mirrors env (n + 1, rp\<lparr>h_users := (h_users rp)(n := u)\<rparr>) st"
proof -
  from assms have ok: "repo_ok rp" and old: "\<And>i p. map_of (r_users rp) i = Some p \<Longrightarrow> p < n"
    by (auto simp: mirrors_def)
  then have old_name: "\<And>i p. map_of (r_users_by_name rp) i = Some p \<Longrightarrow> p < n"
    using repo_ok_named by blast
  have fresh: "map_of (r_users rp) i \<noteq> Some n" "map_of (r_users_by_name rp) i \<noteq> Some n" for i
    using old old_name by blast+
  have "repo_ok (rp\<lparr>h_users := (h_users rp)(n := u)\<rparr>)"
    using ok fresh by (intro repo_ok_fresh) simp_all
  moreover have "map_option (\<lambda>p. read_back (((h_users rp)(n := u)) p)) (map_of (r_users rp) i)
      = map_option (\<lambda>p. read_back (h_users rp p)) (map_of (r_users rp) i)" for i
    using fresh(1) by (cases "map_of (r_users rp) i") auto
  ultimately show ?thesis using assms old by (auto simp: mirrors_def less_SucI)
qed

lemma create_agrees:
  assumes env: "\<forall>n. pe_fate env n = Executed" and m: "mirrors env (n, rp) st"
    and fit: "fits env (Acc_Create u) st"
  shows "in_table (fst (mem_do (Acc_Create u) (n, rp))) = fst (pg_do env (Acc_Create u) st)
    \<and> mirrors env (snd (mem_do (Acc_Create u) (n, rp))) (snd (pg_do env (Acc_Create u) st))"
proof -
  let ?rp = "rp\<lparr>h_users := (h_users rp)(n := u)\<rparr>" and ?r = "user_row u"
  have u: "u\<lparr>u_id := u_id u, u_version_id := u_version_id u,
      u_primary_organization_id := u_primary_organization_id u,
      u_primary_client_id := u_primary_client_id u\<rparr> = u" by simp
  have r: "u_version_id ?r = u_version_id u" "u_id ?r = u_id u" "u_username ?r = u_username u"
    "u_email ?r = u_email u" "live ?r" "client_requires_org ?r = client_requires_org u"
    "stored_text env ?r = stored_text env u"
    by (simp_all add: user_row_def live_def client_requires_org_def stored_text_def canonical_def)
  have ins: "insert_user env u st = (if list_ex (clashes ?r) (pt_users st) then Inl Unique_violation
      else Inr (1, st\<lparr>pt_users := pt_users st @ [?r]\<rparr>))"
    using fit r(6) by (simp add: insert_user_def canonical_def u Let_def)
  have other: "u_version_id q \<noteq> u_version_id u" "u_id q \<noteq> u_id u"
    "live q \<Longrightarrow> u_email q = u_email u \<Longrightarrow> u_username q = u_username u"
    if "q \<in> set (pt_users st)" for q
    using fit that by (auto simp: list_all_iff)
  have m': "mirrors env (n + 1, ?rp) st" using m by (rule mirrors_alloc)
  note named = mirrors_name [OF m', of "u_username u"]
  show ?thesis
  proof (cases "find (\<lambda>q. u_username q = u_username u \<and> live q) (pt_users st)")
    case (Some q)
    then have "clashes ?r q" "q \<in> set (pt_users st)"
      using r by (auto simp: find_Some_iff clashes_def live_def)
    then have "list_ex (clashes ?r) (pt_users st)" by (auto simp: list_ex_iff)
    moreover from named Some have "map_of (r_users_by_name ?rp) (u_username (h_users ?rp n)) \<noteq> None"
      by auto
    ultimately show ?thesis using m'
      by (simp add: pg_CreateUser_def executed_exec [OF env] ins CreateUser_eq acc_outcome_def
          pg_outcome_def)
  next
    case None
    have "\<not> clashes ?r q" if "q \<in> set (pt_users st)" for q
      using other [OF that] that None r by (auto simp: find_None_iff clashes_def live_def)
    then have free: "\<not> list_ex (clashes ?r) (pt_users st)" by (auto simp: list_ex_iff)
    let ?st = "st\<lparr>pt_users := pt_users st @ [?r]\<rparr>"
    from named None have no_name: "map_of (r_users_by_name ?rp) (u_username (h_users ?rp n)) = None"
      by auto
    have no_id_row: "\<forall>q\<in>set (pt_users st). u_id u \<noteq> u_id q" using other(2) by metis
    have no_row: "live_row st (u_id u) = None" using other(2) by (auto simp: live_row_def find_None_iff)
    with mirrors_id [OF m', of "u_id u"] have no_id: "map_of (r_users ?rp) (u_id (h_users ?rp n)) = None"
      by auto
    have "insert_user env u st = Inr (1, ?st)" using ins free by simp
    then have "pg_ok ?st" using insert_user_evolves m by (auto simp: evolves_def mirrors_def)
    moreover have "repo_ok (store_user n ?rp)"
      using repo_ok_CreateUser [OF _ no_id] m' no_name by (simp add: CreateUser_eq mirrors_def)
    moreover have "rows_ok same_live (pt_users st @ [?r])"
      using m no_id_row r(2) by (intro live_rows.insert_row) (simp_all add: mirrors_def list_ex_iff same_live_def)
    moreover have "live_row ?st i = (if i = u_id u then Some ?r else live_row st i)" for i
      using no_row r by (cases "live_row st i") (auto simp: live_row_snoc)
    ultimately have "mirrors env (n + 1, store_user n ?rp) ?st"
      using m' fit r(7) read_back_row [of u] by (auto simp: mirrors_def stored_text_def)
    then show ?thesis using free no_name
      by (simp add: pg_CreateUser_def executed_exec [OF env] ins CreateUser_eq acc_outcome_def
          pg_outcome_def)
  qed
qed

lemma row_kept_fields:
  "live_row (st\<lparr>pt_users := us\<rparr>) i = find (\<lambda>r. u_id r = i \<and> live r) us"
  by (simp add: live_row_def)

lemma delete_agrees:
  assumes env: "\<forall>n. pe_fate env n = Executed" and m: "mirrors env (n, rp) st"
    and fit: "fits env (Acc_Delete i) st"
  shows "in_table (fst (mem_do (Acc_Delete i) (n, rp))) = fst (pg_do env (Acc_Delete i) st)
    \<and> mirrors env (snd (mem_do (Acc_Delete i) (n, rp))) (snd (pg_do env (Acc_Delete i) st))"
proof -
  let ?hit = "\<lambda>r. u_id r = i \<and> u_deleted_at r = None"
  let ?f = "\<lambda>r. if ?hit r then r\<lparr>u_deleted_at := Some (pe_now env (pt_tick st))\<rparr> else r"
  let ?st = "st\<lparr>pt_users := map ?f (pt_users st)\<rparr>"
  have del: "delete_user env i st = Inr (length (filter ?hit (pt_users st)), ?st)"
    using fit by (simp add: delete_user_def Let_def)
  from mirrors_id [OF m, of i] show ?thesis
  proof (elim disjE conjE exE)
    assume none: "map_of (r_users rp) i = None" "live_row st i = None"
    then have no_hit: "\<not> ?hit r" if "r \<in> set (pt_users st)" for r
      using that by (auto simp: live_row_def find_None_iff live_def)
    then have "map ?f (pt_users st) = pt_users st" by (intro map_idI) simp
    then have "?st = st" by simp
    moreover have "filter ?hit (pt_users st) = []" using no_hit by (simp add: filter_empty_conv)
    ultimately show ?thesis using m none(1)
      by (simp add: DeleteUser_def pg_DeleteUser_def pg_affect_def executed_exec [OF env] del
          acc_outcome_def pg_outcome_def)
  next
    fix p r assume p: "map_of (r_users rp) i = Some p" and r: "live_row st i = Some r"
    let ?rp = "snd (DeleteUser i rp)"
    have "filter ?hit (pt_users st) \<noteq> []"
      using live_row_Some [OF r] by (auto simp: filter_empty_conv live_def)
    moreover have "live_row ?st j = (if j = i then None else live_row st j)" for j
    proof (cases "j = i")
      case True
      have "find (\<lambda>r. u_id r = i \<and> live r) (map ?f xs) = None" for xs
        by (induction xs) (auto simp: live_def)
      with True show ?thesis by (simp add: row_kept_fields)
    next
      case False
      then have "live_row ?st j = map_option ?f (live_row st j)"
        by (intro live_row_map) (auto simp: live_def)
      with False show ?thesis using live_row_Some [of st j] by (cases "live_row st j") auto
    qed
    moreover have "pg_ok ?st" using delete_user_evolves [OF del] m by (simp add: evolves_def mirrors_def)
    moreover have "repo_ok ?rp" using m by (intro repo_ok_DeleteUser) (simp add: mirrors_def)
    moreover have "rows_ok same_live (map ?f (pt_users st))"
      using m by (intro live_rows.map_rows)
        (auto simp: mirrors_def same_live_def live_def split: if_splits)
    moreover have "list_all (stored_text env) (map ?f (pt_users st))"
      using m by (auto simp: mirrors_def list_all_iff stored_text_def canonical_def)
    moreover have "map_of (r_users ?rp) = (map_of (r_users rp))(i := None)" "h_users ?rp = h_users rp"
      using p by (simp_all add: DeleteUser_def map_of_delete)
    ultimately have "mirrors env (n, ?rp) ?st" using m by (simp add: mirrors_def)
    then show ?thesis using p \<open>filter ?hit (pt_users st) \<noteq> []\<close>
      by (simp add: DeleteUser_def pg_DeleteUser_def pg_affect_def executed_exec [OF env] del
          acc_outcome_def pg_outcome_def)
  qed
qed

lemma lookup_agrees:
  assumes env: "\<forall>n. pe_fate env n = Executed" and m: "mirrors env (n, rp) st" and fit: "fits env x st"
    and x: "x = Acc_ByName nm \<or> x = Acc_ByID i \<or> x = Acc_WithRoles i \<or> x = Acc_VersionOf i"
  shows "in_table (fst (mem_do x (n, rp))) = fst (pg_do env x st)
    \<and> mirrors env (snd (mem_do x (n, rp))) (snd (pg_do env x st))"
proof -
  have by_id: "user_with_id env i st = Some (map_option scan_user (live_row st i))"
    if "pe_uuid env i = Some i"
    using that m by (simp add: user_with_id_def live_user_id mirrors_def)
  from x show ?thesis
  proof (elim disjE)
    assume x: "x = Acc_ByName nm"
    have "rows_ok clashes (pt_users st)" using m by (simp add: mirrors_def pg_ok_def)
    then have "user_named env nm st =
        Some (map_option scan_user (find (\<lambda>r. u_username r = nm \<and> live r) (pt_users st)))"
      using fit x by (simp add: user_named_def live_user_name)
    with mirrors_name [OF m, of nm] m show ?thesis
      by (cases "find (\<lambda>r. u_username r = nm \<and> live r) (pt_users st)"; cases "map_of (r_users_by_name rp) nm")
        (simp_all add: x pg_GetUserByUsername_def executed_row [OF env] GetUserByUsername_def acc_found_def
          pg_found_def pg_outcome_def)
  next
    assume x: "x = Acc_ByID i"
    with by_id mirrors_id [OF m, of i] m fit show ?thesis
      by (auto simp: pg_GetUserByID_def executed_row [OF env] GetUserByID_def acc_found_def
          pg_found_def pg_outcome_def)
  next
    assume x: "x = Acc_WithRoles i"
    have "user_roles_of env i (pg_tick st) = Some []" if "pe_uuid env i = Some i"
      using that m by (simp add: user_roles_of_def mirrors_def pg_tick_def map_filter_simps)
    with x by_id mirrors_id [OF m, of i] m fit show ?thesis
      by (auto simp: pg_GetUserWithRoles_def pg_GetUserByID_def executed_row [OF env] GetUserWithRoles_def
          GetUserByID_def acc_found_def pg_found_def pg_outcome_def pg_query_def env)
  next
    assume x: "x = Acc_VersionOf i"
    have "u_permissions_version (read_back u) = u_permissions_version (scan_user r)"
      if "read_back u = scan_user r" for u r using that by metis
    with x by_id mirrors_id [OF m, of i] m fit show ?thesis
      by (fastforce simp: pg_GetUserPermissionsVersion_def executed_row [OF env]
          GetUserPermissionsVersion_def pg_found_def pg_outcome_def)
  qed
qed

section \<open>Lists of users\<close>

lemma distinct_on_keys: "distinct (map key rows) \<Longrightarrow> distinct_on key rows = rows"
proof (induction rows)
  case (Cons r rows)
  then have "\<forall>q \<in> set rows. key q \<noteq> key r" by (metis distinct.simps(2) image_eqI list.set_map list.simps(9))
  then have "filter (\<lambda>q. key q \<noteq> key r) rows = rows" by simp
  with Cons show ?case by simp
qed simp

lemma live_ids_distinct:
  "rows_ok same_live rows \<Longrightarrow> distinct (map u_id (filter (\<lambda>r. u_deleted_at r = None \<and> cond r) rows))"
  by (induction rows) (auto simp: rows_ok_def same_live_def live_def)

lemma live_users_rows:
  assumes "rows_ok same_live (pt_users st)"
  shows "mset (live_users cond st) =
    image_mset scan_user (mset (filter (\<lambda>r. u_deleted_at r = None \<and> cond r) (pt_users st)))"
    (is "_ = image_mset scan_user (mset ?rows)")
proof -
  let ?sorted = "latest_first u_id (sort_key u_version_id ?rows)"
  have same: "mset ?sorted = mset ?rows" by (simp add: latest_first_def)
  then have "mset (map u_id ?sorted) = mset (map u_id ?rows)" by simp
  with live_ids_distinct [OF assms, of cond] have "distinct (map u_id ?sorted)"
    using mset_eq_imp_distinct_iff by blast
  with same show ?thesis by (simp add: live_users_def distinct_on_keys)
qed

lemma stored_ids:
  assumes "repo_ok rp"
  shows "map (\<lambda>p. u_id (h_users rp p)) (map snd (r_users rp)) = map fst (r_users rp)"
proof -
  have keys: "distinct (map fst (r_users rp))" using assms by (simp add: repo_ok_def keys_ok_def)
  have "u_id (h_users rp p) = i" if "(i, p) \<in> set (r_users rp)" for i p
    using repo_ok_stored(1) [OF assms] map_of_is_SomeI [OF keys that] by blast
  then show ?thesis by (auto simp: map_eq_conv)
qed

lemma lists_agree:
  assumes m: "mirrors env (n, rp) st"
    and C: "\<And>u. C (read_back u) = C u" "\<And>r. C (scan_user r) = cond r"
  shows "image_mset read_back (mset (map (h_users rp) (filter (\<lambda>p. C (h_users rp p)) (map snd (r_users rp)))))
    = mset (live_users cond st)"
proof -
  let ?rows = "filter (\<lambda>r. u_deleted_at r = None \<and> cond r) (pt_users st)"
  let ?ps = "filter (\<lambda>p. C (h_users rp p)) (map snd (r_users rp))"
  let ?L = "map (\<lambda>p. read_back (h_users rp p)) ?ps" and ?R = "map scan_user ?rows"
  from m have ok: "repo_ok rp" and rows: "rows_ok same_live (pt_users st)" by (simp_all add: mirrors_def)
  have keys: "distinct (map fst (r_users rp))" using ok by (simp add: repo_ok_def keys_ok_def)
  have "distinct (map (\<lambda>p. u_id (h_users rp p)) (map snd (r_users rp)))"
    using keys unfolding stored_ids [OF ok] .
  then have "distinct (map (\<lambda>p. u_id (h_users rp p)) ?ps)" by (rule distinct_map_filter)
  then have "distinct (map u_id ?L)" by (simp add: comp_def)
  then have dL: "distinct ?L" by (simp only: distinct_map)
  have "distinct (map u_id ?R)" using live_ids_distinct [OF rows, of cond] by (simp add: comp_def)
  then have dR: "distinct ?R" by (simp only: distinct_map)
  have "x \<in> set ?L \<longleftrightarrow> x \<in> set ?R" for x
  proof
    assume "x \<in> set ?L"
    then obtain i p where "(i, p) \<in> set (r_users rp)" and p: "C (h_users rp p)" "x = read_back (h_users rp p)"
      by auto
    then have "map_of (r_users rp) i = Some p" using keys by (simp add: map_of_is_SomeI)
    with mirrors_id [OF m, of i] obtain r where r: "live_row st i = Some r"
      and eq: "read_back (h_users rp p) = scan_user r" by auto
    then have "cond r" using p(1) C by metis
    with live_row_Some [OF r] p(2) eq show "x \<in> set ?R" by (auto simp: live_def)
  next
    assume "x \<in> set ?R"
    then obtain r where r: "r \<in> set (pt_users st)" "live r" "cond r" "x = scan_user r"
      by (auto simp: live_def)
    with mirrors_id [OF m, of "u_id r"] live_rowI [OF rows r(1,2)]
    obtain p where p: "map_of (r_users rp) (u_id r) = Some p" "read_back (h_users rp p) = scan_user r" by auto
    then have "C (h_users rp p)" using r(3) C by metis
    moreover have "p \<in> set (map snd (r_users rp))" using map_of_SomeD [OF p(1)] by force
    ultimately show "x \<in> set ?L" using r(4) p(2) by force
  qed
  then have "mset ?L = mset ?R" using dL dR set_eq_iff_mset_eq_distinct by blast
  then show ?thesis by (simp add: live_users_rows [OF rows] image_mset.compositionality comp_def)
qed

lemma list_agrees:
  assumes env: "\<forall>n. pe_fate env n = Executed" and m: "mirrors env (n, rp) st" and fit: "fits env x st"
    and x: "x = Acc_List \<or> x = Acc_ListIn scope org cl"
  shows "in_table (fst (mem_do x (n, rp))) = fst (pg_do env x st)
    \<and> mirrors env (snd (mem_do x (n, rp))) (snd (pg_do env x st))"
proof -
  have all: "image_mset read_back (mset (map (h_users rp) (map snd (r_users rp))))
      = mset (live_users (\<lambda>_. True) st)"
    using lists_agree [OF m, of "\<lambda>_. True" "\<lambda>_. True"] by simp
  from x show ?thesis
  proof
    assume "x = Acc_List"
    with all m show ?thesis
      by (simp add: acc_listed_def ListUsers_def pg_ListUsers_def pg_query_def env pg_found_def
          listed_rows_def)
  next
    assume x: "x = Acc_ListIn scope org cl"
    have platform: "image_mset read_back (mset (map (h_users rp)
        (filter (\<lambda>p. u_primary_organization_id (h_users rp p) = None
           \<and> u_primary_client_id (h_users rp p) = None) (map snd (r_users rp)))))
      = mset (live_users (\<lambda>r. u_primary_organization_id r = None \<and> u_primary_client_id r = None) st)"
      by (rule lists_agree [OF m, of "\<lambda>u. u_primary_organization_id u = None
           \<and> u_primary_client_id u = None"]) simp_all
    have in_org: "image_mset read_back (mset (map (h_users rp)
        (filter (\<lambda>p. u_primary_organization_id (h_users rp p) = Some i) (map snd (r_users rp)))))
      = mset (live_users (\<lambda>r. u_primary_organization_id r = Some i) st)" for i
      by (rule lists_agree [OF m, of "\<lambda>u. u_primary_organization_id u = Some i"]) simp_all
    have in_client: "image_mset read_back (mset (map (h_users rp)
        (filter (\<lambda>p. u_primary_client_id (h_users rp p) = Some i) (map snd (r_users rp)))))
      = mset (live_users (\<lambda>r. u_primary_client_id r = Some i) st)" for i
      by (rule lists_agree [OF m, of "\<lambda>u. u_primary_client_id u = Some i"]) simp_all
    note steps = acc_listed_def ListUsersByScope_def in_list_scope_def pg_ListUsersByScope_def
      pg_ListUsers_def pg_query_def pg_found_def listed_rows_def Let_def
    have some: "((\<exists>y. z = Some y) \<and> z = Some i) = (z = Some i)" for z and i :: string by auto
    consider "scope = ''platform''" | i where "scope = ''organization''" "org = Some i" "pe_uuid env i = Some i"
      | i where "scope = ''client''" "cl = Some i" "pe_uuid env i = Some i"
      | "scope \<notin> {''platform'', ''organization'', ''client''}"
      using fit x by (fastforce simp: given_def split: option.splits)
    then show ?thesis
    proof cases
      case 1 then show ?thesis using m platform by (simp add: x steps env some)
    next
      case 2 then show ?thesis using m in_org by (simp add: x steps env some)
    next
      case 3 then show ?thesis using m in_client by (simp add: x steps env some)
    next
      case 4 then show ?thesis using m all by (simp add: x steps env some)
    qed
  qed
qed

section \<open>Updates\<close>

lemma update_row:
  assumes m: "mirrors env (n, rp) st" and fit: "fits env (Acc_Update i email roles) st"
    and row: "live_row st i = Some r"
  shows "update_user env ((scan_user r)\<lparr>u_email := email, u_roles := roles\<rparr>) st =
    Inr (1, st\<lparr>pt_users := map (\<lambda>q. if u_version_id q = u_version_id r
       then q\<lparr>u_email := email, u_roles := roles\<rparr> else q) (pt_users st)\<rparr>)"
proof -
  let ?u = "(scan_user r)\<lparr>u_email := email, u_roles := roles\<rparr>"
  let ?new = "r\<lparr>u_email := email, u_roles := roles\<rparr>"
  from live_row_Some [OF row] have r: "r \<in> set (pt_users st)" "u_id r = i" "live r" by simp_all
  from m have rows: "rows_ok clashes (pt_users st)" and lives: "rows_ok same_live (pt_users st)"
    by (simp_all add: mirrors_def pg_ok_def)
  have txt_ok: "stored_text env r" "client_requires_org r" "pe_user_columns env ?new"
    using m fit r by (auto simp: mirrors_def pg_ok_def list_all_iff)
  have scan: "u_version_id ?u = u_version_id r" "u_username ?u = u_username r" "u_email ?u = email"
    "u_password_hash ?u = u_password_hash r" "u_roles ?u = roles"
    "u_primary_organization_id ?u = u_primary_organization_id r"
    "u_primary_client_id ?u = u_primary_client_id r"
    by (simp_all add: scan_user_def)
  have this_one: "find (\<lambda>q. u_version_id q = u_version_id r) (pt_users st) = Some r"
    by (rule user_rows.found_is_the_one [OF rows r(1)]) (simp_all add: clashes_def)
  have version: "q = r" if "q \<in> set (pt_users st)" "u_version_id q = u_version_id r" for q
  proof -
    have "find (\<lambda>x. u_version_id x = u_version_id r) (pt_users st) = Some q"
      by (rule user_rows.found_is_the_one [OF rows that(1)]) (simp_all add: clashes_def that(2))
    with this_one show ?thesis by simp
  qed
  have free: "\<not> clashes ?new q" if q: "q \<in> set (pt_users st)" "u_version_id q \<noteq> u_version_id r" for q
  proof
    assume "clashes ?new q"
    with q(2) have live_q: "live q" and same: "u_username q = u_username r \<or> u_email q = email"
      by (auto simp: clashes_def live_def)
    from same show False
    proof
      assume "u_username q = u_username r"
      then have "find (\<lambda>x. u_username x = u_username r \<and> live x) (pt_users st) = Some x" if "x = q \<or> x = r" for x
        using that q(1) r live_q
        by (intro user_rows.found_is_the_one [OF rows]) (auto simp: clashes_def live_def)
      from this [of q] this [of r] q(2) show False by simp
    next
      assume "u_email q = email"
      moreover from fit q(1) have "live q \<longrightarrow> u_id q \<noteq> i \<longrightarrow> u_email q \<noteq> email"
        by (simp add: list_all_iff split: if_splits)
      ultimately have "u_id q = i" using live_q by blast
      with live_rowI [OF lives q(1) live_q] row q(2) show False by simp
    qed
  qed
  have again: "rewritten (?u\<lparr>u_primary_organization_id := u_primary_organization_id r,
      u_primary_client_id := u_primary_client_id r\<rparr>) q = q\<lparr>u_email := email, u_roles := roles\<rparr>"
    if "q = r" for q
    unfolding that rewritten_def by (simp add: scan_user_def)
  have "map (\<lambda>q. if u_version_id q = u_version_id r
        then rewritten (?u\<lparr>u_primary_organization_id := u_primary_organization_id r,
          u_primary_client_id := u_primary_client_id r\<rparr>) q else q) (pt_users st)
      = map (\<lambda>q. if u_version_id q = u_version_id r
        then q\<lparr>u_email := email, u_roles := roles\<rparr> else q) (pt_users st)"
    by (intro map_cong if_cong again version refl)
  moreover have "\<not> list_ex (\<lambda>q. u_version_id q \<noteq> u_version_id r \<and> clashes ?new q) (pt_users st)"
    using free by (auto simp: list_ex_iff)
  moreover have "client_requires_org ?new" using txt_ok(2) by (simp add: client_requires_org_def)
  ultimately show ?thesis
    using txt_ok(1,3) fit again [OF refl]
    by (simp add: update_user_def scan this_one Let_def stored_text_def canonical_def)
qed

lemma projected_update:
  "read_back (u\<lparr>u_email := email, u_roles := roles\<rparr>) = (read_back u)\<lparr>u_email := email, u_roles := roles\<rparr>"
  "scan_user (u\<lparr>u_email := email, u_roles := roles\<rparr>) = (scan_user u)\<lparr>u_email := email, u_roles := roles\<rparr>"
  by (simp_all add: read_back_def scan_user_def)

lemma update_agrees:
  assumes env: "\<forall>n. pe_fate env n = Executed" and m: "mirrors env (n, rp) st"
    and fit: "fits env (Acc_Update i email roles) st"
  shows "in_table (fst (mem_do (Acc_Update i email roles) (n, rp))) = fst (pg_do env (Acc_Update i email roles) st)
    \<and> mirrors env (snd (mem_do (Acc_Update i email roles) (n, rp)))
        (snd (pg_do env (Acc_Update i email roles) st))"
proof -
  have lives: "rows_ok same_live (pt_users st)" and ok: "repo_ok rp" using m by (simp_all add: mirrors_def)
  then have get: "user_with_id env i st = Some (map_option scan_user (live_row st i))"
    using fit by (simp add: user_with_id_def live_user_id)
  from mirrors_id [OF m, of i] show ?thesis
  proof (elim disjE conjE exE)
    assume "map_of (r_users rp) i = None" "live_row st i = None"
    with m get show ?thesis
      by (simp add: GetUserByID_def pg_GetUserByID_def executed_row [OF env] pg_found_def pg_outcome_def)
  next
    fix p r assume p: "map_of (r_users rp) i = Some p" and r: "live_row st i = Some r"
      and eq: "read_back (h_users rp p) = scan_user r"
    let ?new = "(h_users rp p)\<lparr>u_email := email, u_roles := roles\<rparr>"
    let ?rp = "rp\<lparr>h_users := (h_users rp)(p := ?new)\<rparr>"
    let ?f = "\<lambda>q. if u_version_id q = u_version_id r then q\<lparr>u_email := email, u_roles := roles\<rparr> else q"
    let ?st = "st\<lparr>pt_users := map ?f (pt_users st)\<rparr>"
    have m1: "mirrors env (n, rp) (pg_tick st)" using m by simp
    have upd: "update_user env ((scan_user r)\<lparr>u_email := email, u_roles := roles\<rparr>) (pg_tick st) =
        Inr (1, (pg_tick st)\<lparr>pt_users := map ?f (pt_users st)\<rparr>)"
      using update_row [OF m1, of i email roles r] fit r by (simp add: live_row_def)
    have ident: "u_id (h_users rp p) = i" using repo_ok_stored(1) [OF ok p] .
    have p1: "map_of (r_users ?rp) (u_id (h_users ?rp p)) = Some p" using p ident by simp
    have ok1: "repo_ok ?rp" using ok by (intro repo_ok_write_user) simp_all
    have ok2: "repo_ok (store_user p ?rp)"
      using repo_ok_UpdateUser [OF ok1 p1] p1 by (simp add: UpdateUser_eq)
    have mem: "map_option (\<lambda>q. read_back (h_users ?rp q)) (map_of (r_users (store_user p ?rp)) j) =
        (if j = i then Some (read_back ?new)
         else map_option (\<lambda>q. read_back (h_users rp q)) (map_of (r_users rp) j))" for j
    proof (cases "map_of (r_users rp) j")
      case (Some q)
      then show ?thesis using repo_ok_stored(1) [OF ok Some] ident by auto
    qed (use ident in simp)
    have row: "live_row ?st j = map_option ?f (live_row st j)" for j
      by (rule live_row_map) (simp_all add: live_def)
    have "map_option scan_user (live_row ?st j) =
        (if j = i then Some (read_back ?new) else map_option scan_user (live_row st j))" for j
    proof (cases "live_row st j")
      case (Some q)
      have "u_version_id q = u_version_id r \<Longrightarrow> j = i"
      proof -
        assume same: "u_version_id q = u_version_id r"
        have rows: "rows_ok clashes (pt_users st)" using m by (simp add: mirrors_def pg_ok_def)
        have "find (\<lambda>x. u_version_id x = u_version_id r) (pt_users st) = Some x" if "x = q \<or> x = r" for x
          using that same live_row_Some [OF Some] live_row_Some [OF r]
          by (intro user_rows.found_is_the_one [OF rows]) (auto simp: clashes_def)
        from this [of q] this [of r] have "q = r" by simp
        then show "j = i" using live_row_Some [OF Some] live_row_Some [OF r] by simp
      qed
      then show ?thesis using Some r eq by (auto simp: row projected_update)
    next
      case None
      then show ?thesis using r by (auto simp: row)
    qed
    moreover have "evolves (pg_tick st) ((pg_tick st)\<lparr>pt_users := map ?f (pt_users st)\<rparr>)"
      using upd by (rule update_user_evolves)
    then have "pg_ok ?st" using m by (simp add: evolves_def mirrors_def pg_ok_def)
    moreover have "rows_ok same_live (map ?f (pt_users st))"
      using lives by (rule live_rows.map_rows) (auto simp: same_live_def live_def split: if_splits)
    moreover have "list_all (stored_text env) (map ?f (pt_users st))"
      using m by (auto simp: mirrors_def list_all_iff stored_text_def canonical_def)
    moreover have "\<forall>j q. map_of (r_users (store_user p ?rp)) j = Some q \<longrightarrow> q < n"
      using m p by (auto simp: mirrors_def)
    ultimately have "mirrors env (n, store_user p ?rp) ?st"
      using ok2 mem m by (simp add: mirrors_def)
    moreover have "mirrors env (n, store_user p ?rp) ((pg_tick st)\<lparr>pt_users := map ?f (pt_users st)\<rparr>)
        = mirrors env (n, store_user p ?rp) ?st"
      by (simp add: mirrors_def pg_ok_def live_row_def)
    ultimately show ?thesis using p p1 get r
      by (simp add: GetUserByID_def pg_GetUserByID_def executed_row [OF env] UpdateUser_eq acc_outcome_def
          pg_UpdateUser_def executed_exec [OF env] upd pg_outcome_def)
  qed
qed

section \<open>Whole runs\<close>

lemma one_agrees:
  assumes "\<forall>n. pe_fate env n = Executed" and "mirrors env m st" and "fits env x st"
  shows "in_table (fst (mem_do x m)) = fst (pg_do env x st) \<and> mirrors env (snd (mem_do x m)) (snd (pg_do env x st))"
proof -
  obtain n rp where m: "m = (n, rp)" by fastforce
  show ?thesis
  proof (cases x)
    case (Acc_Create u)
    then show ?thesis using create_agrees assms unfolding m by blast
  next
    case (Acc_Update i email roles)
    then show ?thesis using update_agrees assms unfolding m by blast
  next
    case (Acc_Delete i)
    then show ?thesis using delete_agrees assms unfolding m by blast
  next
    case (Acc_ByName nm)
    then show ?thesis using lookup_agrees [OF assms(1) _ assms(3)] assms(2) unfolding m by blast
  next
    case (Acc_ByID i)
    then show ?thesis using lookup_agrees [OF assms(1) _ assms(3)] assms(2) unfolding m by blast
  next
    case (Acc_WithRoles i)
    then show ?thesis using lookup_agrees [OF assms(1) _ assms(3)] assms(2) unfolding m by blast
  next
    case (Acc_VersionOf i)
    then show ?thesis using lookup_agrees [OF assms(1) _ assms(3)] assms(2) unfolding m by blast
  next
    case Acc_List
    then show ?thesis using list_agrees [OF assms(1) _ assms(3)] assms(2) unfolding m by blast
  next
    case (Acc_ListIn scope org cl)
    then show ?thesis using list_agrees [OF assms(1) _ assms(3)] assms(2) unfolding m by blast
  qed
qed

lemma runs_agree:
  assumes "\<forall>n. pe_fate env n = Executed" and "mirrors env m st" and "all_fit env ops st"
  shows "map in_table (answers mem_do ops m) = answers (pg_do env) ops st"
  using assms(2,3)
proof (induction ops arbitrary: m st)
  case (Cons x ops)
  then show ?case using one_agrees [OF assms(1), of m st x] by simp
qed simp

lemma mirrors_empty:
  assumes "pg_ok st" and "pt_users st = []" and "pt_user_roles st = []"
  shows "mirrors env (n, NewInMemoryRepository rp) st"
  using assms repo_ok_new
  by (simp add: mirrors_def live_row_def rows_ok_def NewInMemoryRepository_def)

text \<open>C36: The two repositories are interchangeable for their nine operations on users:
  \<open>CreateUser\<close>, \<open>UpdateUser\<close> as the service calls it, \<open>DeleteUser\<close>, the lookups by name, by
  identifier and with roles, \<open>GetUserPermissionsVersion\<close>, \<open>ListUsers\<close> and \<open>ListUsersByScope\<close>. From
  empty tables without role assignments, on every run whose statements are executed, whose users
  are as the service builds them, whose values the tables can hold, whose organization and client
  lists name one, and in which no live user is given the e-mail address of another, the tables give
  each answer of the maps: the same success or error, and the same users up to what \<open>read_back\<close>
  names. The origin of a user is not read back, and every permissions version is one higher in the
  tables, whose column starts at 1, than in the maps, which keep 0.\<close>
theorem repositories_agree:
  assumes "\<forall>n. pe_fate env n = Executed" and "pg_ok st" and "pt_users st = []"
    and "pt_user_roles st = []" and "all_fit env ops st"
  shows "map in_table (answers mem_do ops (n, NewInMemoryRepository rp)) = answers (pg_do env) ops st"
  using assms mirrors_empty by (intro runs_agree)

definition sample_repo :: repo where
  "sample_repo =
     \<lparr>r_users = [], r_users_by_name = [], r_sessions = [], r_hec_tokens = [],
      h_users = (\<lambda>_. client_admin), h_sessions = (\<lambda>_. new_session [] client_admin [] [] 0 [] []),
      h_tokens = (\<lambda>_. new_hec_token [] [] [] [] [] [] [])\<rparr>"

definition sample_account_ops :: "account_op list" where
  "sample_account_ops =
     [Acc_Create (sample_pg_user ''i1'' ''ann'' ''a@b''), Acc_Create (sample_pg_user ''i2'' ''ann'' ''c@d''),
      Acc_VersionOf ''i1'', Acc_Update ''i1'' ''e@f'' [''admin''], Acc_ByName ''ann'', Acc_WithRoles ''i1'',
      Acc_List, Acc_ListIn ''organization'' (Some ''o1'') None, Acc_Delete ''i1'', Acc_ByID ''i1'',
      Acc_Create (sample_pg_user ''i3'' ''ann'' ''e@f''), Acc_Delete ''i1'']"

theorem repositories_agree_witness:
  "map in_table (answers mem_do sample_account_ops (0, NewInMemoryRepository sample_repo))
     = answers (pg_do sample_pg) sample_account_ops sample_tables
   \<and> answers (pg_do sample_pg) sample_account_ops sample_tables ! 1 = Acc_Error ErrUserExists
   \<and> answers (pg_do sample_pg) sample_account_ops sample_tables ! 2 = Acc_Version 1"
proof (intro conjI)
  have "all_fit sample_pg sample_account_ops sample_tables" by code_simp
  then show "map in_table (answers mem_do sample_account_ops (0, NewInMemoryRepository sample_repo))
      = answers (pg_do sample_pg) sample_account_ops sample_tables"
    by (intro repositories_agree) (simp_all add: sample_pg_def pg_ok_def rows_ok_def sample_tables_def)
  show "answers (pg_do sample_pg) sample_account_ops sample_tables ! 1 = Acc_Error ErrUserExists"
    "answers (pg_do sample_pg) sample_account_ops sample_tables ! 2 = Acc_Version 1"
    by code_simp+
qed

end
