(* ===== verification/Numerals.thy ===== *)
theory Numerals
  imports Http
begin

text \<open>
  Decimal numerals, as \<open>%d\<close> writes them and \<open>strconv.Atoi\<close> reads them.
\<close>

lemma digits_value_append:
  "digits_value acc (xs @ ys) = Option.bind (digits_value acc xs) (\<lambda>a. digits_value a ys)"
  by (induction xs arbitrary: acc) (auto split: option.split)

lemma digit_char: "d < 10 \<Longrightarrow> digit (char_of (48 + d)) = Some (int d)"
  by (simp add: digit_def Let_def)

lemma digits_value_nat_string: "digits_value 0 (nat_string n) = Some (int n)"
proof (induction n rule: nat_string.induct)
  case (1 n)
  show ?case
  proof (cases "n < 10")
    case False
    then have "nat_string n = nat_string (n div 10) @ [char_of (48 + n mod 10)]"
      by (simp add: nat_string.simps [of n])
    with 1 [OF False] show ?thesis
      by (simp add: digits_value_append digit_char) presburger
  qed (simp add: nat_string.simps [of n] digit_char)
qed

lemma nat_string_digits: "c \<in> set (nat_string n) \<Longrightarrow> 48 \<le> (of_char c :: nat) \<and> (of_char c :: nat) < 58"
proof (induction n rule: nat_string.induct)
  case (1 n)
  then show ?case
    by (cases "n < 10") (auto simp: nat_string.simps [of n])
qed

lemma nat_string_first: "\<exists>c cs. nat_string n = c # cs \<and> c \<noteq> CHR ''-'' \<and> c \<noteq> CHR ''+''"
proof -
  have "nat_string n \<noteq> []" by (subst nat_string.simps) simp
  then obtain c cs where "nat_string n = c # cs" by (cases "nat_string n") auto
  with nat_string_digits [of c n] show ?thesis by auto
qed

lemma atoi_int_string:
  "atoi (int_string i) = (if - (2 ^ 63) \<le> i \<and> i < 2 ^ 63 then Some i else None)"
proof -
  have digits: "digits_value 0 (nat_string n) = Some (int n)" "nat_string n \<noteq> []" for n
    using nat_string_first [of n] by (auto simp: digits_value_nat_string)
  have "atoi (nat_string n) = (if int n < 2 ^ 63 then Some (int n) else None)" for n
  proof -
    obtain c cs where n: "nat_string n = c # cs" "c \<noteq> CHR ''-''" "c \<noteq> CHR ''+''"
      using nat_string_first [of n] by blast
    with digits [of n] show ?thesis by (simp add: atoi_def Let_def del: digits_value.simps)
  qed
  then show ?thesis
    using digits by (auto simp: int_string_def atoi_def [of "CHR ''-'' # _"] Let_def nat_less_iff)
qed

lemma nat_string_inj:
  assumes "nat_string m = nat_string n"
  shows "m = n"
proof -
  have "Some (int m) = Some (int n)"
    unfolding digits_value_nat_string [symmetric] assms ..
  then show ?thesis by simp
qed

lemma int_string_inj:
  assumes "int_string i = int_string j"
  shows "i = j"
proof -
  have minus: "CHR ''-'' # nat_string m \<noteq> nat_string n" for m n
    using nat_string_first [of n] by auto
  show ?thesis
  proof (cases "i < 0"; cases "j < 0")
    assume "i < 0" "j < 0"
    then have "nat (- i) = nat (- j)" using assms nat_string_inj by (simp add: int_string_def)
    with \<open>i < 0\<close> \<open>j < 0\<close> show ?thesis by simp
  next
    assume "\<not> i < 0" "\<not> j < 0"
    then have "nat i = nat j" using assms nat_string_inj by (simp add: int_string_def)
    with \<open>\<not> i < 0\<close> \<open>\<not> j < 0\<close> show ?thesis by simp
  qed (use assms minus in \<open>auto simp: int_string_def dest: sym\<close>)
qed

lemma no_separator:
  "CHR ''_'' \<notin> set (int_string i)" "CHR ''|'' \<notin> set (int_string i)" "CHR ''.'' \<notin> set (nat_string n)"
  using nat_string_digits [of "CHR ''_''" "nat i"] nat_string_digits [of "CHR ''_''" "nat (- i)"]
    nat_string_digits [of "CHR ''|''" "nat i"] nat_string_digits [of "CHR ''|''" "nat (- i)"]
    nat_string_digits [of "CHR ''.''" n]
  by (auto simp: int_string_def)

end
