(* ===== verification/SearchRepo.thy ===== *)
theory SearchRepo
  imports AuthPg QueryRefinement Http "HOL-Library.Product_Lexorder" "HOL-Library.Word"
begin

text \<open>
  The saved searches of the search service as its repository keeps them
  (\<^verbatim>\<open>search/internal/repository/postgres.go\<close>, over the table of \<^verbatim>\<open>search/migrations\<close>): a search is a
  sequence of versions, each an inserted row, of which the latest counts. A version identifier is
  random, so the order is that of the creation times, and among equal times that of the identifiers.

  What the columns make of a text, a time and a document, the clock, the random source, the fate of
  each statement, the reading of a stored query and OpenSearch are in the record \<open>search_env\<close>.
\<close>

section \<open>Searches and their table\<close>

type_synonym json_map = "(string \<times> gval) list"

record saved_search =
  ss_id :: string
  ss_version_id :: string
  ss_owner_id :: "string option"
  ss_created_by :: string
  ss_name :: string
  ss_query :: "json_map option"          \<comment> \<open>None: a nil map\<close>
  ss_filters :: "json_map option"
  ss_is_global :: bool
  ss_created_at :: time
  ss_disabled_at :: "time option"
  ss_hidden_at :: "time option"

record saved_row =
  sr_search :: saved_search
  sr_disabled_by :: "string option"
  sr_hidden_by :: "string option"

record alert_definition =
  ad_id :: string
  ad_name :: string
  ad_description :: string
  ad_query :: string
  ad_severity :: string
  ad_interval_minutes :: int
  ad_lookback_minutes :: int
  ad_status :: string
  ad_last_triggered_at :: "time option"
  ad_owner :: string

record dashboard =
  db_id :: string
  db_name :: string
  db_description :: string
  db_widgets :: "json_map list"

record search_state =
  sx_saved :: "saved_row list"
  sx_alerts :: "(string \<times> alert_definition) list"
  sx_dashboards :: "(string \<times> dashboard) list"
  sx_started_at :: time
  sx_version :: string
  sx_tick :: nat                         \<comment> \<open>statements, clock readings and identifiers so far\<close>

datatype os_answer =
    Os_failed string
  | Os_hits int "(json_map \<times> gval list) list" "json_map option"
    \<comment> \<open>the matches, the hits with their sort values, the aggregations\<close>

record search_env =
  se_repo :: bool                                    \<comment> \<open>whether a repository is configured\<close>
  se_fate :: "nat \<Rightarrow> stmt_fate"
  se_received :: "nat \<Rightarrow> nat"                       \<comment> \<open>rows that arrive before a reply is lost\<close>
  se_now :: "nat \<Rightarrow> time"
  se_random :: "nat \<Rightarrow> 8 word list option"        \<comment> \<open>sixteen bytes\<close>
  se_clock_text :: "nat \<Rightarrow> string"
  se_uuid :: "string \<Rightarrow> string option"
  se_text :: "string \<Rightarrow> bool"
  se_timestamp :: "time \<Rightarrow> time"                    \<comment> \<open>what a \<open>TIMESTAMP\<close> keeps of a time\<close>
  se_query_column :: "json_map option \<Rightarrow> json_map option option"
    \<comment> \<open>what a later read of the column gives; None where it refuses the value\<close>
  se_filters_column :: "json_map option \<Rightarrow> json_map option option"
  se_decode_query :: "json_map option \<Rightarrow> query option"
    \<comment> \<open>\<open>Marshal\<close> of the map and \<open>Unmarshal\<close> into a query\<close>
  se_regexp :: "string \<Rightarrow> bool"
  se_format_float :: "int \<Rightarrow> int \<Rightarrow> string"
  se_json_text :: "json_map \<Rightarrow> string"
  se_opensearch :: "nat \<Rightarrow> json_map \<Rightarrow> int option \<Rightarrow> os_answer"
    \<comment> \<open>search body and size parameter\<close>

datatype search_error =
    Repository_not_configured | Saved_not_found | Database_failed | ErrValidationFailed string
  | ErrSearchDisabled | Nil_query | Invalid_query | Translate_failed translate_error
  | Search_request_failed string | ErrAlertNotFound | ErrDashboardNotFound

definition sx_step :: "search_state \<Rightarrow> search_state" where
  "sx_step st = st\<lparr>sx_tick := sx_tick st + 1\<rparr>"

section \<open>Statements\<close>

definition sv_uuid_or_null :: "search_env \<Rightarrow> string option \<Rightarrow> string option option" where
  "sv_uuid_or_null env x = (case x of None \<Rightarrow> Some None | Some t \<Rightarrow> map_option Some (se_uuid env t))"

definition lifecycle_by :: "time option \<Rightarrow> string \<Rightarrow> string option" where
  \<comment> \<open>whoever made the version is recorded as who disabled or hid it\<close>
  "lifecycle_by at' by' = (case at' of None \<Rightarrow> None | Some _ \<Rightarrow> Some by')"

definition saved_row_of :: "search_env \<Rightarrow> saved_search \<Rightarrow> saved_row option" where
  "saved_row_of env s =
     (case (se_uuid env (ss_id s), se_uuid env (ss_version_id s), sv_uuid_or_null env (ss_owner_id s),
            se_uuid env (ss_created_by s), se_query_column env (ss_query s),
            se_filters_column env (ss_filters s)) of
        (Some i, Some v, Some owner, Some by', Some q, Some f) \<Rightarrow>
          if \<not> se_text env (ss_name s) then None
          else Some
            \<lparr>sr_search = \<lparr>ss_id = i, ss_version_id = v, ss_owner_id = owner, ss_created_by = by',
               ss_name = ss_name s, ss_query = q, ss_filters = f, ss_is_global = ss_is_global s,
               ss_created_at = se_timestamp env (ss_created_at s),
               ss_disabled_at = map_option (se_timestamp env) (ss_disabled_at s),
               ss_hidden_at = map_option (se_timestamp env) (ss_hidden_at s)\<rparr>,
             sr_disabled_by = lifecycle_by (ss_disabled_at s) by',
             sr_hidden_by = lifecycle_by (ss_hidden_at s) by'\<rparr>
      | _ \<Rightarrow> None)"

definition insert_saved :: "search_env \<Rightarrow> saved_search \<Rightarrow> search_state \<Rightarrow> search_state option" where
  "insert_saved env s st =
     (case saved_row_of env s of
        None \<Rightarrow> None
      | Some r \<Rightarrow>
          if list_ex (\<lambda>q. ss_version_id (sr_search q) = ss_version_id (sr_search r)) (sx_saved st)
          then None
          else Some (st\<lparr>sx_saved := sx_saved st @ [r]\<rparr>))"

definition InsertVersion ::
  "search_env \<Rightarrow> saved_search \<Rightarrow> search_state \<Rightarrow> search_error option \<times> search_state" where
  "InsertVersion env s st =
     (case se_fate env (sx_tick st) of
        Not_executed \<Rightarrow> (Some Database_failed, sx_step st)
      | Executed \<Rightarrow>
          (case insert_saved env s st of
             None \<Rightarrow> (Some Database_failed, sx_step st)
           | Some st1 \<Rightarrow> (None, sx_step st1))
      | Reply_lost \<Rightarrow>
          (Some Database_failed,
           sx_step (case insert_saved env s st of None \<Rightarrow> st | Some st1 \<Rightarrow> st1)))"

definition read_saved ::
  "search_env \<Rightarrow> (search_state \<Rightarrow> 'a option) \<Rightarrow> search_state \<Rightarrow> (search_error + 'a) \<times> search_state" where
  "read_saved env q st =
     (case se_fate env (sx_tick st) of
        Executed \<Rightarrow> (case q st of None \<Rightarrow> Inl Database_failed | Some x \<Rightarrow> Inr x)
      | _ \<Rightarrow> Inl Database_failed, sx_step st)"

definition read_rows ::
  "search_env \<Rightarrow> (search_state \<Rightarrow> 'a list option) \<Rightarrow> search_state \<Rightarrow>
     (search_error + 'a list) \<times> search_state"
where
  \<comment> \<open>None: the statement is refused before it runs. An error while the rows are read ends the loop
     over them, and nobody asks for it: the rows read so far are the answer.\<close>
  "read_rows env q st =
     (case se_fate env (sx_tick st) of
        Not_executed \<Rightarrow> Inl Database_failed
      | Executed \<Rightarrow> (case q st of None \<Rightarrow> Inl Database_failed | Some xs \<Rightarrow> Inr xs)
      | Reply_lost \<Rightarrow>
          (case q st of
             None \<Rightarrow> Inl Database_failed
           | Some xs \<Rightarrow> Inr (take (se_received env (sx_tick st)) xs)), sx_step st)"

definition newest_versions :: "saved_row list \<Rightarrow> saved_search list" where
  \<comment> \<open>\<open>ORDER BY created_at DESC, version_id DESC\<close>\<close>
  "newest_versions rows =
     rev (sort_key (\<lambda>s. (ss_created_at s, ss_version_id s)) (map sr_search rows))"

definition GetLatest ::
  "search_env \<Rightarrow> string \<Rightarrow> search_state \<Rightarrow> (search_error + saved_search) \<times> search_state" where
  "GetLatest env i st =
     (case read_saved env (\<lambda>s. map_option (\<lambda>u.
             first_row (filter (\<lambda>v. ss_id v = u) (newest_versions (sx_saved s)))) (se_uuid env i)) st of
        (Inl e, st1) \<Rightarrow> (Inl e, st1)
      | (Inr None, st1) \<Rightarrow> (Inl Saved_not_found, st1)
      | (Inr (Some s), st1) \<Rightarrow> (Inr s, st1))"

definition latest_versions :: "saved_row list \<Rightarrow> saved_search list" where
  \<comment> \<open>\<open>DISTINCT ON (id) ... ORDER BY id, created_at DESC, version_id DESC\<close>\<close>
  "latest_versions rows = distinct_on ss_id (sort_key ss_id (newest_versions rows))"

definition listed :: "bool \<Rightarrow> saved_row list \<Rightarrow> saved_search list" where
  \<comment> \<open>\<open>WHERE hidden_at IS NULL\<close>, unless all are asked for\<close>
  "listed showAll rows = filter (\<lambda>s. showAll \<or> ss_hidden_at s = None) (latest_versions rows)"

definition active_first :: "saved_search list \<Rightarrow> saved_search list" where
  \<comment> \<open>\<open>ORDER BY (disabled_at IS NOT NULL), created_at DESC\<close>\<close>
  "active_first = sort_key (\<lambda>s. (ss_disabled_at s \<noteq> None, - ss_created_at s))"

definition ListLatest ::
  "search_env \<Rightarrow> bool \<Rightarrow> search_state \<Rightarrow> (search_error + saved_search list) \<times> search_state" where
  "ListLatest env showAll =
     read_rows env (\<lambda>st. Some (active_first (listed showAll (sx_saved st))))"

definition page_of_list :: "int \<Rightarrow> int \<Rightarrow> 'a list \<Rightarrow> 'a list" where
  \<comment> \<open>\<open>LIMIT\<close> and \<open>OFFSET\<close>; a negative offset fails when the rows are read, which leaves none\<close>
  "page_of_list limit offset xs =
     (if offset < 0 then [] else take (nat limit) (drop (nat offset) xs))"

definition ListLatestPaged ::
  "search_env \<Rightarrow> bool \<Rightarrow> int \<Rightarrow> int \<Rightarrow> search_state \<Rightarrow>
     (search_error + saved_search list \<times> int) \<times> search_state"
where
  \<comment> \<open>the count, then the page\<close>
  "ListLatestPaged env showAll page psize st =
     (let page = (if page < 1 then 1 else page);
          psize = (if psize \<le> 0 then 20 else psize);
          offset = wrap64 ((page - 1) * psize) in
      case read_saved env (\<lambda>s. Some (int (length (listed showAll (sx_saved s))))) st of
        (Inl e, st1) \<Rightarrow> (Inl e, st1)
      | (Inr n, st1) \<Rightarrow>
          (case read_rows env (\<lambda>s. Some (page_of_list psize offset
                  (active_first (listed showAll (sx_saved s))))) st1 of
             (Inl e, st2) \<Rightarrow> (Inl e, st2)
           | (Inr out, st2) \<Rightarrow> (Inr (out, n), st2)))"

definition after_cursor :: "time \<Rightarrow> string \<Rightarrow> saved_search \<Rightarrow> bool" where
  \<comment> \<open>\<open>(created_at, version_id) < ($1, $2)\<close>\<close>
  "after_cursor t v s \<longleftrightarrow> (ss_created_at s, ss_version_id s) < (t, v)"

definition select_after ::
  "search_env \<Rightarrow> bool \<Rightarrow> (time \<times> string) option \<Rightarrow> int \<Rightarrow> search_state \<Rightarrow> saved_search list option"
where
  \<comment> \<open>without a cursor the statement has the parameter \<open>$3\<close> alone and is refused; a cursor whose
     identifier is not a UUID fails when the rows are read\<close>
  "select_after env showAll cursor psize st =
     (case cursor of
        None \<Rightarrow> None
      | Some (t, v) \<Rightarrow>
          Some (case se_uuid env v of
                  None \<Rightarrow> []
                | Some u \<Rightarrow> take (nat psize) (active_first (rev (sort_key ss_version_id
                    (filter (after_cursor (se_timestamp env t) u) (listed showAll (sx_saved st))))))))"

definition ListLatestAfter ::
  "search_env \<Rightarrow> bool \<Rightarrow> time option \<Rightarrow> string \<Rightarrow> int \<Rightarrow> search_state \<Rightarrow>
     (search_error + saved_search list) \<times> search_state"
where
  "ListLatestAfter env showAll cursorCreatedAt cursorVersionID psize =
     (let psize = (if psize \<le> 0 then 20 else psize);
          cursor = (case cursorCreatedAt of
                      None \<Rightarrow> None
                    | Some t \<Rightarrow> if is_zero t \<or> cursorVersionID = [] then None
                                else Some (t, cursorVersionID)) in
      read_rows env (select_after env showAll cursor psize))"

end
