(* ===== verification/SearchService.thy ===== *)
theory SearchService
  imports SearchRepo
begin

text \<open>
  The operations of the search service (\<^verbatim>\<open>search/internal/service\<close>): the life of a saved search, the
  execution of free-text and canonical queries on OpenSearch, the alert definitions and the
  dashboards, which are kept in memory. A clock reading, an identifier and a request to OpenSearch
  each count as one step of \<open>sx_tick\<close>. Durations are left unrounded until they are reported.
\<close>

section \<open>Identifiers\<close>

definition hex_digit :: "nat \<Rightarrow> char" where
  "hex_digit n = (if n < 10 then char_of (48 + n) else char_of (87 + n))"

definition hex_bytes :: "8 word list \<Rightarrow> string" where
  "hex_bytes bs = concat (map (\<lambda>b. [hex_digit (unat (drop_bit 4 b)), hex_digit (unat (take_bit 4 b))]) bs)"

definition formatUUID :: "8 word list \<Rightarrow> string" where
  \<comment> \<open>of sixteen bytes; the version and the variant are written over two of them\<close>
  "formatUUID b =
     (let b = b[6 := or (and (b ! 6) 0x0f) 0x40, 8 := or (and (b ! 8) 0x3f) 0x80] in
      hex_bytes (take 4 b) @ ''-'' @ hex_bytes (take 2 (drop 4 b)) @ ''-''
      @ hex_bytes (take 2 (drop 6 b)) @ ''-'' @ hex_bytes (take 2 (drop 8 b)) @ ''-''
      @ hex_bytes (drop 10 b))"

definition bytes_of :: "string \<Rightarrow> 8 word list" where
  "bytes_of s = map (\<lambda>c. word_of_nat (of_char c)) s"

definition generateID :: "search_env \<Rightarrow> search_state \<Rightarrow> string \<times> search_state" where
  \<comment> \<open>without random bytes, the text of the clock in hexadecimal\<close>
  "generateID env st =
     ((case se_random env (sx_tick st) of
         None \<Rightarrow> hex_bytes (bytes_of (se_clock_text env (sx_tick st)))
       | Some b \<Rightarrow> formatUUID b), sx_step st)"

definition sx_Now :: "search_env \<Rightarrow> search_state \<Rightarrow> time \<times> search_state" where
  "sx_Now env st = (se_now env (sx_tick st), sx_step st)"

section \<open>Saved searches\<close>

definition validateSavedSearchInput :: "search_env \<Rightarrow> string \<Rightarrow> json_map option \<Rightarrow> search_error option" where
  \<comment> \<open>the text of the error says which of the three checks failed\<close>
  "validateSavedSearchInput env nm queryMap =
     (if trim_space nm = []
      then Some (ErrValidationFailed ''saved search name cannot be empty or whitespace'')
      else
        (case se_decode_query env queryMap of
           None \<Rightarrow> Some (ErrValidationFailed ''invalid query structure'')
         | Some q \<Rightarrow>
             (case Validate (se_regexp env) NewQueryValidator (Some q) of
                Some _ \<Rightarrow> Some (ErrValidationFailed ''query'')
              | None \<Rightarrow> None)))"

definition with_repo ::
  "search_env \<Rightarrow> (search_state \<Rightarrow> (search_error + 'a) \<times> search_state) \<Rightarrow> search_state \<Rightarrow>
     (search_error + 'a) \<times> search_state"
where
  "with_repo env act st = (if \<not> se_repo env then (Inl Repository_not_configured, st) else act st)"

definition ListSavedSearches ::
  "search_env \<Rightarrow> search_state \<Rightarrow> (search_error + saved_search list) \<times> search_state" where
  "ListSavedSearches env = with_repo env (ListLatest env False)"

definition ListSavedSearchesWithOptions ::
  "search_env \<Rightarrow> bool \<Rightarrow> search_state \<Rightarrow> (search_error + saved_search list) \<times> search_state" where
  "ListSavedSearchesWithOptions env showAll = with_repo env (ListLatest env showAll)"

definition ListSavedSearchesPaged ::
  "search_env \<Rightarrow> bool \<Rightarrow> int \<Rightarrow> int \<Rightarrow> search_state \<Rightarrow>
     (search_error + saved_search list \<times> int) \<times> search_state" where
  "ListSavedSearchesPaged env showAll page psize = with_repo env (ListLatestPaged env showAll page psize)"

definition ListSavedSearchesAfter ::
  "search_env \<Rightarrow> bool \<Rightarrow> time option \<Rightarrow> string \<Rightarrow> int \<Rightarrow> search_state \<Rightarrow>
     (search_error + saved_search list) \<times> search_state" where
  "ListSavedSearchesAfter env showAll cursorCreatedAt cursorVersionID psize =
     with_repo env (ListLatestAfter env showAll cursorCreatedAt cursorVersionID psize)"

record saved_create_request =
  sc_name :: string
  sc_query :: "json_map option"
  sc_filters :: "json_map option"
  sc_is_global :: bool
  sc_created_by :: string

definition insert_and_return ::
  "search_env \<Rightarrow> saved_search \<Rightarrow> search_state \<Rightarrow> (search_error + saved_search) \<times> search_state" where
  "insert_and_return env s st =
     (case InsertVersion env s st of
        (Some e, st1) \<Rightarrow> (Inl e, st1)
      | (None, st1) \<Rightarrow> (Inr s, st1))"

definition CreateSavedSearch ::
  "search_env \<Rightarrow> saved_create_request \<Rightarrow> search_state \<Rightarrow> (search_error + saved_search) \<times> search_state"
where
  "CreateSavedSearch env req = with_repo env (\<lambda>st.
     (case validateSavedSearchInput env (sc_name req) (sc_query req) of
        Some e \<Rightarrow> (Inl e, st)
      | None \<Rightarrow>
          let (i, st1) = generateID env st; (v, st2) = generateID env st1; (now, st3) = sx_Now env st2 in
          insert_and_return env
            \<lparr>ss_id = i, ss_version_id = v,
             ss_owner_id = (if sc_is_global req then None else Some (sc_created_by req)),
             ss_created_by = sc_created_by req, ss_name = sc_name req, ss_query = sc_query req,
             ss_filters = sc_filters req, ss_is_global = sc_is_global req, ss_created_at = now,
             ss_disabled_at = None, ss_hidden_at = None\<rparr> st3))"

definition GetSavedSearch ::
  "search_env \<Rightarrow> string \<Rightarrow> search_state \<Rightarrow> (search_error + saved_search) \<times> search_state" where
  "GetSavedSearch env i = with_repo env (GetLatest env i)"

record saved_update_request =
  su_name :: "string option"
  su_query :: "json_map option"
  su_filters :: "json_map option"
  su_created_by :: string

definition or_old :: "'a option \<Rightarrow> 'a \<Rightarrow> 'a" where
  "or_old x old = (case x of None \<Rightarrow> old | Some y \<Rightarrow> y)"

definition UpdateSavedSearch ::
  "search_env \<Rightarrow> string \<Rightarrow> saved_update_request \<Rightarrow> search_state \<Rightarrow>
     (search_error + saved_search) \<times> search_state"
where
  \<comment> \<open>a version with the new values, enabled, and hidden if the latest one is\<close>
  "UpdateSavedSearch env i req = with_repo env (\<lambda>st.
     (case GetLatest env i st of
        (Inl e, st1) \<Rightarrow> (Inl e, st1)
      | (Inr latest, st1) \<Rightarrow>
          let finalName = or_old (su_name req) (ss_name latest);
              finalQuery = (if su_query req = None then ss_query latest else su_query req) in
          (case validateSavedSearchInput env finalName finalQuery of
             Some e \<Rightarrow> (Inl e, st1)
           | None \<Rightarrow>
               let (v, st2) = generateID env st1; (now, st3) = sx_Now env st2 in
               insert_and_return env
                 (latest\<lparr>ss_name := finalName, ss_query := finalQuery,
                    ss_filters := (if su_filters req = None then ss_filters latest else su_filters req),
                    ss_version_id := v, ss_created_by := su_created_by req, ss_created_at := now,
                    ss_disabled_at := None\<rparr>) st3)))"

definition DeleteSavedSearch ::
  "search_env \<Rightarrow> string \<Rightarrow> search_state \<Rightarrow> search_error option \<times> search_state" where
  \<comment> \<open>the clock is read before the identifier is drawn; the author of the version stays\<close>
  "DeleteSavedSearch env i st =
     (if \<not> se_repo env then (Some Repository_not_configured, st)
      else
        (case GetLatest env i st of
           (Inl e, st1) \<Rightarrow> (Some e, st1)
         | (Inr latest, st1) \<Rightarrow>
             let (now, st2) = sx_Now env st1; (v, st3) = generateID env st2 in
             InsertVersion env (latest\<lparr>ss_version_id := v, ss_hidden_at := Some now,
               ss_created_at := now\<rparr>) st3))"

definition new_lifecycle ::
  "search_env \<Rightarrow> string \<Rightarrow> string \<Rightarrow> (time \<Rightarrow> saved_search \<Rightarrow> saved_search) \<Rightarrow> search_state \<Rightarrow>
     (search_error + saved_search) \<times> search_state"
where
  \<comment> \<open>the body that the four lifecycle operations share\<close>
  "new_lifecycle env i userID change = with_repo env (\<lambda>st.
     (case GetLatest env i st of
        (Inl e, st1) \<Rightarrow> (Inl e, st1)
      | (Inr latest, st1) \<Rightarrow>
          let (now, st2) = sx_Now env st1; (v, st3) = generateID env st2 in
          insert_and_return env
            (change now (latest\<lparr>ss_version_id := v, ss_created_by := userID, ss_created_at := now\<rparr>)) st3))"

definition DisableSavedSearch ::
  "search_env \<Rightarrow> string \<Rightarrow> string \<Rightarrow> search_state \<Rightarrow> (search_error + saved_search) \<times> search_state" where
  "DisableSavedSearch env i userID =
     new_lifecycle env i userID (\<lambda>now s. s\<lparr>ss_disabled_at := Some now\<rparr>)"

definition EnableSavedSearch ::
  "search_env \<Rightarrow> string \<Rightarrow> string \<Rightarrow> search_state \<Rightarrow> (search_error + saved_search) \<times> search_state" where
  "EnableSavedSearch env i userID = new_lifecycle env i userID (\<lambda>now s. s\<lparr>ss_disabled_at := None\<rparr>)"

definition HideSavedSearch ::
  "search_env \<Rightarrow> string \<Rightarrow> string \<Rightarrow> search_state \<Rightarrow> (search_error + saved_search) \<times> search_state" where
  "HideSavedSearch env i userID =
     new_lifecycle env i userID (\<lambda>now s. s\<lparr>ss_hidden_at := Some now\<rparr>)"

definition UnhideSavedSearch ::
  "search_env \<Rightarrow> string \<Rightarrow> string \<Rightarrow> search_state \<Rightarrow> (search_error + saved_search) \<times> search_state" where
  "UnhideSavedSearch env i userID = new_lifecycle env i userID (\<lambda>now s. s\<lparr>ss_hidden_at := None\<rparr>)"

end
