(* ===== verification/SearchExec.thy ===== *)
theory SearchExec
  imports SearchService
begin

text \<open>
  The execution of queries by the search service (\<^verbatim>\<open>search/internal/service/search.go\<close> and
  \<open>RunSavedSearch\<close> of \<^verbatim>\<open>saved_searches.go\<close>): a free-text request becomes a \<open>bool\<close> query, a canonical
  query is validated and translated, a saved search is translated with the client's filter. What
  OpenSearch answers to a body is \<open>se_opensearch\<close>; a hit is its source and its sort values.
\<close>

section \<open>Requests and responses\<close>

record sort_options =
  so_field :: string
  so_order :: string

record aggregation_request =
  ar_type :: string
  ar_field :: string
  ar_size :: int
  ar_opts :: json_map

record search_request =
  sq_query :: string
  sq_time_range :: "(time \<times> time) option"
  sq_limit :: int
  sq_sort :: "sort_options option"
  sq_include_fields :: "string list"
  sq_search_after :: "gval list"
  sq_aggregations :: "(string \<times> aggregation_request) list"
  sq_client_id :: string

record search_response =
  sp_request_id :: string
  sp_latency_ms :: int
  sp_result_count :: int
  sp_total_matches :: int
  sp_results :: "json_map list"
  sp_search_after :: "gval list option"       \<comment> \<open>None: nil\<close>
  sp_aggregations :: "json_map option"
  sp_opensearch_query :: string

section \<open>Building a query\<close>

definition addSortAndSearchAfter :: "json_map \<Rightarrow> search_request \<Rightarrow> json_map" where
  "addSortAndSearchAfter query req =
     (let query = (case sq_sort req of
            None \<Rightarrow> query
          | Some s \<Rightarrow> map_put ''sort''
              (GArr [obj1 (so_field s) (obj1 ''order'' (GStr (so_order s)))]) query) in
      if sq_search_after req = [] then query
      else map_put ''search_after'' (GArr (sq_search_after req)) query)"

definition put_all :: "json_map \<Rightarrow> json_map \<Rightarrow> json_map" where
  "put_all opts m = fold (\<lambda>(k, v). map_put k v) opts m"

definition search_agg_body :: "aggregation_request \<Rightarrow> gval option" where
  \<comment> \<open>None: a type the switch does not know, which is left out\<close>
  "search_agg_body a =
     (let field = (''field'', GStr (ar_field a)) in
      if ar_type a = ''terms'' then
        Some (obj1 ''terms'' (GObj (put_all (ar_opts a)
          [field, (''size'', GInt (if ar_size a > 0 then ar_size a else 10))])))
      else if ar_type a = ''date_histogram'' then
        Some (obj1 ''date_histogram'' (GObj (put_all (filter (\<lambda>(k, _). k \<noteq> ''interval'') (ar_opts a))
          [field, (''fixed_interval'',
             case map_of (ar_opts a) ''interval'' of Some i \<Rightarrow> i | None \<Rightarrow> GStr ''1h'')])))
      else if ar_type a \<in> {''avg'', ''sum'', ''min'', ''max'', ''cardinality''} then
        Some (obj1 (ar_type a) (GObj [field]))
      else if ar_type a = ''stats'' then Some (obj1 ''stats'' (GObj [field]))
      else None)"

definition addAggregations :: "json_map \<Rightarrow> search_request \<Rightarrow> json_map" where
  "addAggregations query req =
     (let aggs = fold (\<lambda>(name, a) m. case search_agg_body a of
                          None \<Rightarrow> m | Some b \<Rightarrow> map_put name b m) (sq_aggregations req) [] in
      if aggs = [] then query else map_put ''aggs'' (GObj aggs) query)"

definition client_term :: "string \<Rightarrow> gval" where
  "client_term c = obj1 ''term'' (obj1 ''client_id'' (GStr c))"

definition search_filters :: "search_request \<Rightarrow> gval list" where
  "search_filters req =
     (if sq_client_id req = [] then [] else [client_term (sq_client_id req)])
     @ (case sq_time_range req of
          None \<Rightarrow> []
        | Some (t, u) \<Rightarrow> [obj1 ''range'' (obj1 ''time''
            (GObj [(''gte'', GInt (unix t)), (''lte'', GInt (unix u))]))])"

definition search_must :: "search_request \<Rightarrow> gval list" where
  "search_must req =
     (if sq_query req = [] \<or> sq_query req = ''*'' then []
      else [obj1 ''query_string''
              (GObj [(''query'', GStr (sq_query req)), (''default_operator'', GStr ''AND'')])])"

definition buildOpenSearchQuery :: "search_request \<Rightarrow> json_map" where
  "buildOpenSearchQuery req =
     (let must = search_must req; flt = search_filters req;
          boolQuery = (if must = [] then [] else [(''must'', GArr must)])
                    @ (if flt = [] then [] else [(''filter'', GArr flt)]);
          query = [(''query'', if must = [] \<and> flt = [] then obj1 ''match_all'' (GObj [])
                               else obj1 ''bool'' (GObj boolQuery))] in
      addAggregations (addSortAndSearchAfter query req) req)"

section \<open>Executing\<close>

definition os_search ::
  "search_env \<Rightarrow> json_map \<Rightarrow> int option \<Rightarrow> search_state \<Rightarrow>
     (search_error + int \<times> (json_map \<times> gval list) list \<times> json_map option) \<times> search_state"
where
  "os_search env body limit st =
     (case se_opensearch env (sx_tick st) body limit of
        Os_failed e \<Rightarrow> Inl (Search_request_failed e)
      | Os_hits found hits aggs \<Rightarrow> Inr (found, hits, aggs), sx_step st)"

definition Milliseconds :: "int \<Rightarrow> int" where
  "Milliseconds d = sgn d * (\<bar>d\<bar> div 1000000)"

definition included :: "string list \<Rightarrow> json_map \<Rightarrow> json_map" where
  "included flds event =
     (if flds = [] then event
      else fold (\<lambda>f m. case map_of event f of None \<Rightarrow> m | Some v \<Rightarrow> map_put f v m) flds [])"

definition nonempty_map :: "json_map option \<Rightarrow> json_map option" where
  "nonempty_map aggs = (if aggs = Some [] then None else aggs)"

definition clamp_limit :: "int \<Rightarrow> int" where
  "clamp_limit n = (let n = (if n \<le> 0 then 100 else n) in if n > 10000 then 10000 else n)"

definition ExecuteSearch ::
  "search_env \<Rightarrow> search_request \<Rightarrow> search_state \<Rightarrow> (search_error + search_response) \<times> search_state"
where
  "ExecuteSearch env req st =
     (let (startTime, st1) = sx_Now env st; limit = clamp_limit (sq_limit req) in
      case os_search env (buildOpenSearchQuery req) (Some limit) st1 of
        (Inl e, st2) \<Rightarrow> (Inl e, st2)
      | (Inr (found, hits, aggs), st2) \<Rightarrow>
          let results = map (\<lambda>(event, _). included (sq_include_fields req) event) hits;
              searchAfter = (if hits = [] then [] else snd (last hits));
              (now, st3) = sx_Now env st2; (i, st4) = generateID env st3 in
          (Inr \<lparr>sp_request_id = i, sp_latency_ms = Milliseconds (now - startTime),
             sp_result_count = int (length results), sp_total_matches = found, sp_results = results,
             sp_search_after = (if searchAfter \<noteq> [] \<and> int (length results) = limit
                                then Some searchAfter else None),
             sp_aggregations = nonempty_map aggs, sp_opensearch_query = []\<rparr>, st4))"

definition ExecuteQuery ::
  "search_env \<Rightarrow> query \<Rightarrow> search_state \<Rightarrow> (search_error + search_response) \<times> search_state"
where
  "ExecuteQuery env q st =
     (let (startTime, st1) = sx_Now env st in
      case Validate (se_regexp env) NewQueryValidator (Some q) of
        Some _ \<Rightarrow> (Inl (ErrValidationFailed ''query''), st1)
      | None \<Rightarrow>
          (case Translate (se_format_float env) (se_now env (sx_tick st1)) q of
             Inl e \<Rightarrow> (Inl (Translate_failed e), sx_step st1)
           | Inr osQuery \<Rightarrow>
               (case os_search env osQuery None (sx_step st1) of
                  (Inl e, st2) \<Rightarrow> (Inl e, st2)
                | (Inr (found, hits, aggs), st2) \<Rightarrow>
                    let results = map fst hits; (now, st3) = sx_Now env st2;
                        (i, st4) = generateID env st3 in
                    (Inr \<lparr>sp_request_id = i, sp_latency_ms = Milliseconds (now - startTime),
                       sp_result_count = int (length results), sp_total_matches = found,
                       sp_results = results,
                       sp_search_after = (if int (length results) = q_limit q \<and> hits \<noteq> []
                                            \<and> snd (last hits) \<noteq> []   \<comment> \<open>an absent sort is nil\<close>
                                          then Some (snd (last hits)) else None),
                       sp_aggregations = nonempty_map aggs,
                       sp_opensearch_query = se_json_text env osQuery\<rparr>, st4))))"

definition client_filter :: "string \<Rightarrow> filter_expr" where
  "client_filter clientID = FilterExpr ''.client_id'' ''eq'' (GStr clientID) [] [] None"

definition with_client :: "string \<Rightarrow> query \<Rightarrow> query" where
  \<comment> \<open>the client's filter, in conjunction with the query's own\<close>
  "with_client clientID q =
     (if clientID = [] then q
      else q\<lparr>q_filter := Some (case q_filter q of
                 None \<Rightarrow> client_filter clientID
               | Some f \<Rightarrow> FilterExpr [] [] GNil ''and'' [f, client_filter clientID] None)\<rparr>)"

definition RunSavedSearch ::
  "search_env \<Rightarrow> string \<Rightarrow> string \<Rightarrow> search_state \<Rightarrow> (search_error + search_response) \<times> search_state"
where
  "RunSavedSearch env i clientID st =
     (let (startTime, st1) = sx_Now env st in
      case GetSavedSearch env i st1 of
        (Inl e, st2) \<Rightarrow> (Inl e, st2)
      | (Inr saved, st2) \<Rightarrow>
          if ss_disabled_at saved \<noteq> None then (Inl ErrSearchDisabled, st2)
          else if ss_query saved = None then (Inl Nil_query, st2)
          else
            (case se_decode_query env (ss_query saved) of
               None \<Rightarrow> (Inl Invalid_query, st2)
             | Some query \<Rightarrow>
                 (case Translate (se_format_float env) (se_now env (sx_tick st2))
                         (with_client clientID query) of
                    Inl e \<Rightarrow> (Inl (Translate_failed e), sx_step st2)
                  | Inr osQuery \<Rightarrow>
                      (case os_search env osQuery None (sx_step st2) of
                         (Inl e, st3) \<Rightarrow> (Inl e, st3)
                       | (Inr (found, hits, aggs), st3) \<Rightarrow>
                           let (i, st4) = generateID env st3; (now, st5) = sx_Now env st4 in
                           (Inr \<lparr>sp_request_id = i, sp_latency_ms = Milliseconds (now - startTime),
                              sp_result_count = int (length hits), sp_total_matches = found,
                              sp_results = map fst hits, sp_search_after = None,
                              sp_aggregations = aggs, sp_opensearch_query = []\<rparr>, st5)))))"

section \<open>Alert definitions, dashboards and exports\<close>

definition at_name :: "(string \<times> 'a) list \<Rightarrow> ('a \<Rightarrow> string) \<Rightarrow> 'a list" where
  \<comment> \<open>the values of a map sorted by name; values of equal names come in any order\<close>
  "at_name m nm = sort_key nm (map snd m)"

definition ListAlerts :: "search_state \<Rightarrow> alert_definition list" where
  "ListAlerts st = at_name (sx_alerts st) ad_name"

record alert_request =
  aq_id :: "string option"
  aq_name :: string
  aq_description :: string
  aq_query :: string
  aq_severity :: string
  aq_interval_minutes :: int
  aq_lookback_minutes :: int
  aq_status :: string
  aq_owner :: string

definition UpsertAlert ::
  "search_env \<Rightarrow> alert_request \<Rightarrow> search_state \<Rightarrow> (alert_definition \<times> bool) \<times> search_state" where
  \<comment> \<open>the time of the last trigger survives; an identifier that is given need not exist\<close>
  "UpsertAlert env req st =
     (let (i, created, st1) =
            (case aq_id req of
               Some j \<Rightarrow> if j \<noteq> [] then (j, False, st)
                          else (let (k, st1) = generateID env st in (k, True, st1))
             | None \<Rightarrow> (let (k, st1) = generateID env st in (k, True, st1)));
          alert = \<lparr>ad_id = i, ad_name = aq_name req, ad_description = aq_description req,
            ad_query = aq_query req, ad_severity = aq_severity req,
            ad_interval_minutes = aq_interval_minutes req, ad_lookback_minutes = aq_lookback_minutes req,
            ad_status = (if aq_status req = [] then ''active'' else aq_status req),
            ad_last_triggered_at = (case map_of (sx_alerts st1) i of
                                      None \<Rightarrow> None | Some old \<Rightarrow> ad_last_triggered_at old),
            ad_owner = aq_owner req\<rparr> in
      ((alert, created), st1\<lparr>sx_alerts := map_put i alert (sx_alerts st1)\<rparr>))"

definition GetAlert :: "string \<Rightarrow> search_state \<Rightarrow> search_error + alert_definition" where
  "GetAlert i st = (case map_of (sx_alerts st) i of None \<Rightarrow> Inl ErrAlertNotFound | Some a \<Rightarrow> Inr a)"

definition set_unless_empty :: "string \<Rightarrow> string \<Rightarrow> string" where
  "set_unless_empty new old = (if new = [] then old else new)"

definition PatchAlert ::
  "string \<Rightarrow> string \<Rightarrow> string \<Rightarrow> search_state \<Rightarrow> (search_error + alert_definition) \<times> search_state" where
  \<comment> \<open>the status and the owner of the request\<close>
  "PatchAlert i status owner st =
     (case map_of (sx_alerts st) i of
        None \<Rightarrow> (Inl ErrAlertNotFound, st)
      | Some a \<Rightarrow>
          let a = a\<lparr>ad_status := set_unless_empty status (ad_status a),
                    ad_owner := set_unless_empty owner (ad_owner a)\<rparr> in
          (Inr a, st\<lparr>sx_alerts := map_put i a (sx_alerts st)\<rparr>))"

definition UpdateLastTriggered ::
  "string \<Rightarrow> time \<Rightarrow> search_state \<Rightarrow> search_error option \<times> search_state" where
  "UpdateLastTriggered i timestamp st =
     (case map_of (sx_alerts st) i of
        None \<Rightarrow> (Some ErrAlertNotFound, st)
      | Some a \<Rightarrow>
          (None, st\<lparr>sx_alerts := map_put i (a\<lparr>ad_last_triggered_at := Some timestamp\<rparr>) (sx_alerts st)\<rparr>))"

definition ListDashboards :: "search_state \<Rightarrow> dashboard list" where
  "ListDashboards st = at_name (sx_dashboards st) db_name"

definition GetDashboard :: "string \<Rightarrow> search_state \<Rightarrow> search_error + dashboard" where
  "GetDashboard i st =
     (case map_of (sx_dashboards st) i of None \<Rightarrow> Inl ErrDashboardNotFound | Some d \<Rightarrow> Inr d)"

record export_response =
  ex_export_id :: string
  ex_status :: string
  ex_expires_at :: time

definition RequestExport :: "search_env \<Rightarrow> search_state \<Rightarrow> export_response \<times> search_state" where
  \<comment> \<open>nothing of the request is used\<close>
  "RequestExport env st =
     (let (now, st1) = sx_Now env st; (i, st2) = generateID env st1 in
      (\<lparr>ex_export_id = i, ex_status = ''pending'', ex_expires_at = now + 3600 * 1000000000\<rparr>, st2))"

definition seed_alert :: "time \<Rightarrow> alert_definition" where
  "seed_alert now =
     \<lparr>ad_id = ''a1b6e360-3c35-4d63-87fd-03b27ef77d1f'', ad_name = ''Suspicious admin logins'',
      ad_description = ''Detects admin logins from unusual geographies'',
      ad_query = ''index=ocsf authentication where user_role='' @ [CHR 0x22] @ ''admin'' @ [CHR 0x22]
        @ '' and geoip.confidence < 30'',
      ad_severity = ''high'', ad_interval_minutes = 5, ad_lookback_minutes = 15,
      ad_status = ''active'', ad_last_triggered_at = Some (now - 2 * 3600 * 1000000000),
      ad_owner = ''soc@telhawk.local''\<rparr>"

definition seed_dashboard :: dashboard where
  "seed_dashboard =
     \<lparr>db_id = ''threat-overview'', db_name = ''Threat Overview'',
      db_description = ''Executive summary of threat detections over the last 24 hours'',
      db_widgets =
        [[(''id'', GStr ''detections-by-severity''), (''type'', GStr ''bar''),
          (''title'', GStr ''Detections by severity''), (''query'', GStr ''index=ocsf stats count by severity''),
          (''display'', obj1 ''palette'' (GStr ''risk''))],
         [(''id'', GStr ''top-alerts''), (''type'', GStr ''table''), (''title'', GStr ''Top firing alerts''),
          (''query'', GStr ''index=alerts sort -trigger_count | head 10''),
          (''columns'', GArr [GStr ''alert'', GStr ''trigger_count'', GStr ''severity''])]]\<rparr>"

definition NewSearchService :: "search_env \<Rightarrow> string \<Rightarrow> saved_row list \<Rightarrow> search_state" where
  \<comment> \<open>with the rows that the table of saved searches already has\<close>
  "NewSearchService env ver rows =
     (let now = se_now env 0 in
      \<lparr>sx_saved = rows, sx_alerts = [(ad_id (seed_alert now), seed_alert now)],
       sx_dashboards = [(db_id seed_dashboard, seed_dashboard)],
       sx_started_at = now, sx_version = ver, sx_tick = 1\<rparr>)"

end
