(* ===== verification/SearchHandler.thy ===== *)
theory SearchHandler
  imports SearchExec RespondHandler
begin

text \<open>
  The HTTP layer of the search service (\<^verbatim>\<open>search/internal/handlers\<close>, \<^verbatim>\<open>search/internal/auth/client.go\<close>,
  \<^verbatim>\<open>search/internal/server/router.go\<close>). What the authenticate service answers, what \<open>encoding/json\<close> makes of
  a body and the texts of errors and times are in \<open>search_http\<close>; the answer to a token and the user
  context have the shape of the respond service's. The headers \<open>Allow\<close>, \<open>Location\<close> and
  \<open>X-Request-ID\<close> and the logs are left out.
\<close>

section \<open>The caller\<close>

record search_http =
  sh_auth :: bool                                     \<comment> \<open>whether an auth client is configured\<close>
  sh_ask :: "string \<Rightarrow> (int \<times> validate_answer option) option"
  sh_payload :: "string \<Rightarrow> (string \<times> string \<times> string) option"
    \<comment> \<open>type, identifier and raw attributes of a JSON:API document; absent ones are empty\<close>
  sh_search :: "string \<Rightarrow> search_request option"        \<comment> \<open>\<open>Unmarshal\<close> of the attributes\<close>
  sh_query :: "string \<Rightarrow> query option"
  sh_saved_create :: "string \<Rightarrow> saved_create_request option"
  sh_saved_update :: "string \<Rightarrow> saved_update_request option"
  sh_alert :: "string \<Rightarrow> alert_request option"
  sh_export :: "string \<Rightarrow> bool"
  sh_patch :: "string \<Rightarrow> (string \<times> string) option"     \<comment> \<open>status and owner; no other field\<close>
  sh_body_error :: "string option \<Rightarrow> string"
  sh_error :: "search_error \<Rightarrow> string"
  sh_time :: "time \<Rightarrow> string"
  sh_request_uri :: "request \<Rightarrow> string"

definition search_Validate :: "search_http \<Rightarrow> string \<Rightarrow> user_context option" where
  "search_Validate h bearerToken =
     (if bearerToken = [] then None
      else (case sh_ask h bearerToken of
              None \<Rightarrow> None
            | Some (status, body) \<Rightarrow>
                if status \<noteq> 200 then None
                else (case body of
                        None \<Rightarrow> None
                      | Some vr \<Rightarrow>
                          if \<not> va_valid vr \<or> va_user_id vr = [] then None
                          else Some \<lparr>uc_user_id = va_user_id vr, uc_roles = va_roles vr,
                                 uc_organization_id = va_organization_id vr,
                                 uc_client_id = va_client_id vr\<rparr>)))"

definition ValidateTokenFull :: "search_http \<Rightarrow> string \<Rightarrow> user_context option" where
  "ValidateTokenFull h token = (if \<not> sh_auth h then None else search_Validate h token)"

definition search_requireUserContext :: "search_http \<Rightarrow> request \<Rightarrow> user_context option" where
  "search_requireUserContext h r =
     (let authz = rq_header r ''Authorization'' in
      if \<not> has_prefix (to_lower authz) ''bearer '' then None
      else ValidateTokenFull h (trim_space (drop 7 authz)))"

definition search_requireUser :: "search_http \<Rightarrow> request \<Rightarrow> string option" where
  "search_requireUser h r = map_option uc_user_id (search_requireUserContext h r)"

section \<open>Query parameters\<close>

definition parseShowAll :: "request \<Rightarrow> bool" where
  "parseShowAll r = (let v = to_lower (rq_query r ''filter[show_all]'') in v = ''true'' \<or> v = ''1'')"

definition page_size :: "request \<Rightarrow> int" where
  "page_size r =
     (case atoi (rq_query r ''page[size]'') of
        None \<Rightarrow> 20
      | Some n \<Rightarrow> if n > 0 \<and> n \<le> 200 then n else 20)"

definition parsePage :: "request \<Rightarrow> int \<times> int" where
  "parsePage r =
     (case atoi (rq_query r ''page[number]'') of
        None \<Rightarrow> 1
      | Some n \<Rightarrow> if n > 0 then n else 1, page_size r)"

definition cursor_of :: "string \<Rightarrow> (time \<times> string) option" where
  "cursor_of cur =
     (case cut_at (CHR ''|'') cur of
        (_, None) \<Rightarrow> None
      | (ns, Some v) \<Rightarrow> (case atoi ns of None \<Rightarrow> None | Some t \<Rightarrow> Some (t, v)))"

definition parseCursor :: "request \<Rightarrow> time option \<times> string \<times> int" where
  "parseCursor r =
     (case cursor_of (rq_query r ''page[cursor]'') of
        None \<Rightarrow> (None, [], page_size r)
      | Some (t, v) \<Rightarrow> (Some t, v, page_size r))"

definition buildCursor :: "saved_search \<Rightarrow> string" where
  "buildCursor s = int_string (ss_created_at s) @ ''|'' @ ss_version_id s"

definition buildNextLink :: "string \<Rightarrow> string \<Rightarrow> string" where
  "buildNextLink path cursor = path @ ''?page[cursor]='' @ cursor"

definition svcIDFallback :: "search_env \<Rightarrow> search_state \<Rightarrow> string \<times> search_state" where
  "svcIDFallback env st = (let (now, st1) = sx_Now env st in (''evt-'' @ int_string now, st1))"

section \<open>Documents\<close>

definition containsJSONAPI :: "string \<Rightarrow> bool" where
  "containsJSONAPI s = contains_str s ''application/vnd.api+json''"

definition acceptJSONAPI :: "request \<Rightarrow> bool" where
  "acceptJSONAPI r =
     (let accept = rq_header r ''Accept'' in
      accept = [] \<or> accept = ''*/*'' \<or> containsJSONAPI accept)"

definition writeJSONAPIError :: "int \<Rightarrow> string \<Rightarrow> string \<Rightarrow> doc response" where
  "writeJSONAPIError status code title =
     WriteJSONAPI status (GObj [(''errors'', GArr [GObj
       [(''status'', GStr (int_string status)), (''code'', GStr code), (''title'', GStr title)]])])"

definition writeJSONAPIUnauthorized :: "doc response" where
  "writeJSONAPIUnauthorized = writeJSONAPIError 401 ''unauthorized'' ''Authentication required''"

definition writeJSONAPIConflict :: "string \<Rightarrow> string \<Rightarrow> doc response" where
  "writeJSONAPIConflict code title = writeJSONAPIError 409 code title"

definition methodNotAllowedJSONAPI :: "doc response" where
  "methodNotAllowedJSONAPI = writeJSONAPIError 405 ''method_not_allowed'' ''method is not allowed''"

definition search_resource :: "string \<Rightarrow> string \<Rightarrow> json_map \<Rightarrow> json_map \<Rightarrow> gval" where
  \<comment> \<open>\<open>omitempty\<close> drops an empty map of relationships\<close>
  "search_resource typ i attrs rels =
     GObj ([(''type'', GStr typ), (''id'', GStr i), (''attributes'', GObj attrs)]
       @ (if rels = [] then [] else [(''relationships'', GObj rels)]))"

definition writeJSONAPIResourceGeneric :: "int \<Rightarrow> string \<Rightarrow> string \<Rightarrow> json_map \<Rightarrow> doc response" where
  "writeJSONAPIResourceGeneric status typ i attrs =
     WriteJSONAPI status (GObj [(''data'', search_resource typ i attrs [])])"

definition user_relation :: "string \<Rightarrow> string \<Rightarrow> json_map" where
  "user_relation key i =
     [(key, GObj [(''data'', GObj [(''type'', GStr ''user''), (''id'', GStr i)])])]"

definition time_val :: "search_http \<Rightarrow> time option \<Rightarrow> gval" where
  "time_val h t = (case t of None \<Rightarrow> GNil | Some x \<Rightarrow> GStr (sh_time h x))"

definition toJSONAPI :: "search_http \<Rightarrow> saved_search \<Rightarrow> gval" where
  "toJSONAPI h s =
     search_resource ''saved-search'' (ss_id s)
       [(''version_id'', GStr (ss_version_id s)), (''name'', GStr (ss_name s)),
        (''query'', map_val (ss_query s)), (''filters'', map_val (ss_filters s)),
        (''is_global'', GBool (ss_is_global s)), (''created_at'', GStr (sh_time h (ss_created_at s))),
        (''disabled_at'', time_val h (ss_disabled_at s)), (''hidden_at'', time_val h (ss_hidden_at s))]
       ((case ss_owner_id s of None \<Rightarrow> [] | Some o' \<Rightarrow> user_relation ''owner'' o')
        @ (if ss_created_by s = [] then [] else user_relation ''created_by'' (ss_created_by s)))"

definition writeJSONAPIList :: "search_http \<Rightarrow> int \<Rightarrow> saved_search list \<Rightarrow> doc response" where
  "writeJSONAPIList h status searches =
     WriteJSONAPI status (GObj [(''data'', GArr (map (toJSONAPI h) searches))])"

definition writeJSONAPIListWithMeta ::
  "search_http \<Rightarrow> int \<Rightarrow> saved_search list \<Rightarrow> json_map option \<Rightarrow> json_map option \<Rightarrow> doc response" where
  "writeJSONAPIListWithMeta h status searches meta links =
     (let part = (\<lambda>key m. case m of None \<Rightarrow> [] | Some x \<Rightarrow> [(key, GObj x)]) in
      WriteJSONAPI status (GObj ([(''data'', GArr (map (toJSONAPI h) searches))]
        @ part ''meta'' meta @ part ''links'' links)))"

definition writeJSONAPIResourceWithLinks ::
  "search_http \<Rightarrow> int \<Rightarrow> saved_search \<Rightarrow> json_map option \<Rightarrow> doc response" where
  "writeJSONAPIResourceWithLinks h status s links =
     WriteJSONAPI status (GObj ([(''data'', toJSONAPI h s)]
       @ (case links of None \<Rightarrow> [] | Some l \<Rightarrow> [(''links'', GObj l)])))"

definition writeJSONAPIResource :: "search_http \<Rightarrow> int \<Rightarrow> saved_search \<Rightarrow> doc response" where
  "writeJSONAPIResource h status s = writeJSONAPIResourceWithLinks h status s None"

fun search_error_text :: "search_http \<Rightarrow> search_error \<Rightarrow> string" where
  "search_error_text h Repository_not_configured = ''repository not configured''"
| "search_error_text h Saved_not_found = ''not found''"
| "search_error_text h ErrSearchDisabled = ''search_disabled''"
| "search_error_text h ErrAlertNotFound = ''alert not found''"
| "search_error_text h ErrDashboardNotFound = ''dashboard not found''"
| "search_error_text h e = sh_error h e"

definition decodeJSONAPIResource ::
  "search_http \<Rightarrow> (string \<Rightarrow> 'a option) \<Rightarrow> request \<Rightarrow> (string \<times> string \<times> 'a) option" where
  \<comment> \<open>without attributes there is nothing to unmarshal, which is an error\<close>
  "decodeJSONAPIResource h dec r =
     (case Option.bind (rq_body r) (sh_payload h) of
        None \<Rightarrow> None
      | Some (typ, i, raw) \<Rightarrow>
          if raw = [] then None
          else map_option (\<lambda>x. (typ, i, x)) (dec raw))"

section \<open>Guards the handlers share\<close>

type_synonym search_handler = "request \<Rightarrow> search_state \<Rightarrow> doc response \<times> search_state"

definition search_not_allowed :: "doc response" where
  "search_not_allowed = WriteJSONAPIError 405 ''method_not_allowed'' ''Method Not Allowed'' []"

definition accepting :: "search_handler \<Rightarrow> search_handler" where
  "accepting act r st =
     (if \<not> acceptJSONAPI r
      then (writeJSONAPIError 406 ''not_acceptable'' ''Accept must allow application/vnd.api+json'', st)
      else act r st)"

definition typed_body :: "search_handler \<Rightarrow> search_handler" where
  "typed_body act r st =
     (if \<not> containsJSONAPI (rq_header r ''Content-Type'')
      then (writeJSONAPIError 415 ''unsupported_media_type''
              ''Content-Type must be application/vnd.api+json'', st)
      else act r st)"

definition as_user :: "search_http \<Rightarrow> (user_context \<Rightarrow> search_handler) \<Rightarrow> search_handler" where
  "as_user h act r st =
     (case search_requireUserContext h r of
        None \<Rightarrow> (writeJSONAPIUnauthorized, st)
      | Some uc \<Rightarrow> act uc r st)"

definition with_resource ::
  "search_http \<Rightarrow> (string \<Rightarrow> 'a option) \<Rightarrow> string \<Rightarrow> (string \<Rightarrow> 'a \<Rightarrow> search_handler) \<Rightarrow> search_handler"
where
  "with_resource h dec typ act r st =
     (case decodeJSONAPIResource h dec r of
        None \<Rightarrow> (writeJSONAPIError 400 ''invalid_request'' (sh_body_error h (rq_body r)), st)
      | Some (t, i, x) \<Rightarrow>
          if t \<noteq> typ
          then (writeJSONAPIError 400 ''invalid_type''
                  (''data.type must be '' @ [CHR 0x27] @ typ @ [CHR 0x27]), st)
          else act i x r st)"

definition with_id :: "string \<Rightarrow> search_handler \<Rightarrow> search_handler" where
  "with_id i act r st =
     (if i = [] \<or> CHR ''/'' \<in> set i
      then (writeJSONAPIError 400 ''invalid_saved_search_id'' ''id required'', st)
      else act r st)"

definition self_link :: "search_http \<Rightarrow> request \<Rightarrow> json_map" where
  "self_link h r = [(''self'', GStr (sh_request_uri h r))]"

end
