(* ===== verification/SearchRoutes.thy ===== *)
theory SearchRoutes
  imports SearchHandler
begin

text \<open>
  The handlers of the search service, one definition per endpoint
  (\<^verbatim>\<open>search/internal/handlers\<close>: \<open>saved_searches.go\<close>, \<open>events.go\<close>, \<open>search.go\<close>, \<open>alerts.go\<close>,
  \<open>dashboards.go\<close>, \<open>handlers.go\<close>), and their routes. A path is one the multiplexer does not redirect.
\<close>

section \<open>Saved searches\<close>

definition list_failed :: "doc response" where
  "list_failed = writeJSONAPIError 500 ''saved_search_list_failed'' ''Failed to list saved searches''"

definition list_by_cursor :: "search_env \<Rightarrow> search_http \<Rightarrow> search_handler" where
  "list_by_cursor env h r st =
     (let (ca, cv, n) = parseCursor r in
      case ListSavedSearchesAfter env (parseShowAll r) ca cv n st of
        (Inl _, st1) \<Rightarrow> (list_failed, st1)
      | (Inr results, st1) \<Rightarrow>
          let next_cursor = (if int (length results) = n then Some (buildCursor (last results)) else None);
              meta = [(''page'', GObj [(''size'', GInt n)])]
                @ (case next_cursor of None \<Rightarrow> [] | Some c \<Rightarrow> [(''next_cursor'', GStr c)]);
              links = self_link h r
                @ (case next_cursor of
                     None \<Rightarrow> [] | Some c \<Rightarrow> [(''next'', GStr (buildNextLink (rq_path r) c))]) in
          (writeJSONAPIListWithMeta h 200 results (Some meta) (Some links), st1))"

definition page_meta :: "int \<Rightarrow> int \<Rightarrow> string \<times> gval" where
  "page_meta page n = (''page'', GObj [(''number'', GInt page), (''size'', GInt n)])"

definition list_by_page :: "search_env \<Rightarrow> search_http \<Rightarrow> search_handler" where
  "list_by_page env h r st =
     (let (page, n) = parsePage r in
      case ListSavedSearchesPaged env (parseShowAll r) page n st of
        (Inl _, st1) \<Rightarrow> (list_failed, st1)
      | (Inr (searches, found), st1) \<Rightarrow>
          (writeJSONAPIListWithMeta h 200 searches
             (Some [page_meta page n, (''total'', GInt found)]) (Some (self_link h r)), st1))"

definition save_failure :: "search_http \<Rightarrow> string \<Rightarrow> search_error \<Rightarrow> doc response" where
  "save_failure h code e =
     (case e of
        ErrValidationFailed _ \<Rightarrow> writeJSONAPIError 400 ''validation_failed'' (search_error_text h e)
      | _ \<Rightarrow> writeJSONAPIError 500 code (search_error_text h e))"

definition saved_link :: "saved_search \<Rightarrow> json_map option" where
  "saved_link s = Some [(''self'', GStr (''/api/v1/saved-searches/'' @ ss_id s))]"

definition create_saved :: "search_env \<Rightarrow> search_http \<Rightarrow> search_handler" where
  "create_saved env h =
     accepting (typed_body (as_user h (\<lambda>uc.
       with_resource h (sh_saved_create h) ''saved-search'' (\<lambda>_ req r st.
         (case CreateSavedSearch env (req\<lparr>sc_created_by := uc_user_id uc\<rparr>) st of
            (Inl e, st1) \<Rightarrow> (save_failure h ''saved_search_create_failed'' e, st1)
          | (Inr saved, st1) \<Rightarrow> (writeJSONAPIResourceWithLinks h 201 saved (saved_link saved), st1))))))"

definition SavedSearches :: "search_env \<Rightarrow> search_http \<Rightarrow> search_handler" where
  "SavedSearches env h r st =
     (if rq_method r = ''GET'' then
        accepting (if rq_query r ''page[cursor]'' \<noteq> [] then list_by_cursor env h
                   else list_by_page env h) r st
      else if rq_method r = ''POST'' then create_saved env h r st
      else (methodNotAllowedJSONAPI, st))"

definition result_attrs :: "search_response \<Rightarrow> json_map" where
  "result_attrs resp =
     [(''request_id'', GStr (sp_request_id resp)), (''latency_ms'', GInt (sp_latency_ms resp)),
      (''result_count'', GInt (sp_result_count resp)), (''total_matches'', GInt (sp_total_matches resp)),
      (''results'', GArr (map GObj (sp_results resp)))]"

definition search_after_attr :: "search_response \<Rightarrow> json_map" where
  "search_after_attr resp =
     (case sp_search_after resp of None \<Rightarrow> [] | Some s \<Rightarrow> [(''search_after'', GArr s)])"

definition run_failure :: "search_http \<Rightarrow> string \<Rightarrow> search_error \<Rightarrow> doc response" where
  "run_failure h code e =
     (if e = ErrSearchDisabled then writeJSONAPIConflict ''search_disabled'' ''Saved search is disabled''
      else writeJSONAPIError 500 code (search_error_text h e))"

definition run_saved :: "search_env \<Rightarrow> search_http \<Rightarrow> string \<Rightarrow> search_handler" where
  "run_saved env h i =
     with_id i (\<lambda>r st.
       if rq_method r \<noteq> ''POST'' then (methodNotAllowedJSONAPI, st)
       else accepting (as_user h (\<lambda>uc r st.
         (case RunSavedSearch env i (uc_client_id uc) st of
            (Inl e, st1) \<Rightarrow> (run_failure h ''saved_search_run_failed'' e, st1)
          | (Inr resp, st1) \<Rightarrow>
              (writeJSONAPIResourceGeneric 200 ''search-result'' (sp_request_id resp)
                 (result_attrs resp @ search_after_attr resp), st1)))) r st)"

definition answer_lifecycle ::
  "search_http \<Rightarrow> string \<Rightarrow> string \<Rightarrow>
     (search_error + saved_search) \<times> search_state \<Rightarrow> doc response \<times> search_state" where
  "answer_lifecycle h code title res =
     (case res of
        (Inl _, st1) \<Rightarrow> (writeJSONAPIError 500 code title, st1)
      | (Inr saved, st1) \<Rightarrow> (writeJSONAPIResource h 200 saved, st1))"

definition post_only :: "search_handler \<Rightarrow> search_handler" where
  "post_only act r st = (if rq_method r \<noteq> ''POST'' then (search_not_allowed, st) else act r st)"

definition disable_saved :: "search_env \<Rightarrow> search_http \<Rightarrow> string \<Rightarrow> search_handler" where
  "disable_saved env h i =
     post_only (as_user h (\<lambda>uc r st.
       answer_lifecycle h ''saved_search_disable_failed'' ''Failed to disable''
         (DisableSavedSearch env i (uc_user_id uc) st)))"

definition enable_saved :: "search_env \<Rightarrow> search_http \<Rightarrow> string \<Rightarrow> search_handler" where
  "enable_saved env h i =
     post_only (as_user h (\<lambda>uc r st.
       answer_lifecycle h ''saved_search_enable_failed'' ''Failed to enable''
         (EnableSavedSearch env i (uc_user_id uc) st)))"

definition hide_saved :: "search_env \<Rightarrow> search_http \<Rightarrow> string \<Rightarrow> search_handler" where
  "hide_saved env h i =
     post_only (as_user h (\<lambda>uc r st.
       answer_lifecycle h ''saved_search_hide_failed'' ''Failed to hide''
         (HideSavedSearch env i (uc_user_id uc) st)))"

definition unhide_saved :: "search_env \<Rightarrow> search_http \<Rightarrow> string \<Rightarrow> search_handler" where
  "unhide_saved env h i =
     post_only (as_user h (\<lambda>uc r st.
       answer_lifecycle h ''saved_search_unhide_failed'' ''Failed to unhide''
         (UnhideSavedSearch env i (uc_user_id uc) st)))"

definition get_saved :: "search_env \<Rightarrow> search_http \<Rightarrow> string \<Rightarrow> search_handler" where
  \<comment> \<open>every error is a 404\<close>
  "get_saved env h i =
     accepting (\<lambda>r st.
       (case GetSavedSearch env i st of
          (Inl _, st1) \<Rightarrow> (writeJSONAPIError 404 ''saved_search_not_found'' ''Saved search not found'', st1)
        | (Inr saved, st1) \<Rightarrow> (writeJSONAPIResource h 200 saved, st1)))"

definition update_saved :: "search_env \<Rightarrow> search_http \<Rightarrow> string \<Rightarrow> search_handler" where
  "update_saved env h i =
     accepting (typed_body (as_user h (\<lambda>uc.
       with_resource h (sh_saved_update h) ''saved-search'' (\<lambda>rid req r st.
         if rid \<noteq> [] \<and> rid \<noteq> i
         then (writeJSONAPIError 409 ''id_mismatch'' ''data.id must match URL id'', st)
         else
           (case UpdateSavedSearch env i (req\<lparr>su_created_by := uc_user_id uc\<rparr>) st of
              (Inl e, st1) \<Rightarrow> (save_failure h ''saved_search_update_failed'' e, st1)
            | (Inr saved, st1) \<Rightarrow>
                (writeJSONAPIResourceWithLinks h 200 saved (saved_link saved), st1))))))"

definition delete_saved :: "search_env \<Rightarrow> search_http \<Rightarrow> string \<Rightarrow> search_handler" where
  "delete_saved env h i =
     accepting (as_user h (\<lambda>_ r st.
       (case DeleteSavedSearch env i st of
          (Some _, st1) \<Rightarrow>
            (writeJSONAPIError 500 ''saved_search_delete_failed'' ''Failed to delete saved search'', st1)
        | (None, st1) \<Rightarrow> (no_content, st1))))"

definition after_prefix :: "string \<Rightarrow> string \<Rightarrow> string" where
  \<comment> \<open>\<open>strings.TrimPrefix\<close>\<close>
  "after_prefix p s = (if has_prefix s p then drop (length p) s else s)"

definition SavedSearchByID :: "search_env \<Rightarrow> search_http \<Rightarrow> search_handler" where
  "SavedSearchByID env h r st =
     (let path = after_prefix ''/api/v1/saved-searches/'' (rq_path r);
          before = (\<lambda>suffix. take (length path - length suffix) path) in
      if path = [] then (writeJSONAPIError 400 ''invalid_saved_search_id'' ''id required'', st)
      else if has_suffix path ''/run'' then run_saved env h (before ''/run'') r st
      else if has_suffix path ''/disable''
      then with_id (before ''/disable'') (disable_saved env h (before ''/disable'')) r st
      else if has_suffix path ''/enable''
      then with_id (before ''/enable'') (enable_saved env h (before ''/enable'')) r st
      else if has_suffix path ''/hide''
      then with_id (before ''/hide'') (hide_saved env h (before ''/hide'')) r st
      else if has_suffix path ''/unhide''
      then with_id (before ''/unhide'') (unhide_saved env h (before ''/unhide'')) r st
      else if rq_method r = ''GET'' then get_saved env h path r st
      else if rq_method r = ''PATCH'' then update_saved env h path r st
      else if rq_method r = ''DELETE'' then delete_saved env h path r st
      else (methodNotAllowedJSONAPI, st))"

section \<open>The lifecycle handlers without a route\<close>

definition path_id :: "string \<Rightarrow> request \<Rightarrow> string" where
  "path_id suffix r =
     (let i = after_prefix ''/api/v1/saved-searches/'' (rq_path r) in
      if has_suffix i suffix then take (length i - length suffix) i else i)"

definition SavedSearchDisable :: "search_env \<Rightarrow> search_http \<Rightarrow> search_handler" where
  "SavedSearchDisable env h r st = disable_saved env h (path_id ''/disable'' r) r st"

definition SavedSearchEnable :: "search_env \<Rightarrow> search_http \<Rightarrow> search_handler" where
  "SavedSearchEnable env h r st = enable_saved env h (path_id ''/enable'' r) r st"

definition SavedSearchHide :: "search_env \<Rightarrow> search_http \<Rightarrow> search_handler" where
  "SavedSearchHide env h r st = hide_saved env h (path_id ''/hide'' r) r st"

definition SavedSearchUnhide :: "search_env \<Rightarrow> search_http \<Rightarrow> search_handler" where
  "SavedSearchUnhide env h r st = unhide_saved env h (path_id ''/unhide'' r) r st"

section \<open>Events\<close>

definition event_id :: "search_env \<Rightarrow> json_map \<Rightarrow> search_state \<Rightarrow> string \<times> search_state" where
  "event_id env ev st =
     (case field_as as_str ev ''_id'' of
        Some (c # v) \<Rightarrow> (c # v, st)
      | _ \<Rightarrow> (case field_as as_str ev ''id'' of
                Some v \<Rightarrow> (v, st)
              | None \<Rightarrow> svcIDFallback env st))"

fun event_docs :: "search_env \<Rightarrow> json_map list \<Rightarrow> search_state \<Rightarrow> gval list \<times> search_state" where
  "event_docs env [] st = ([], st)"
| "event_docs env (ev # evs) st =
     (let (i, st1) = event_id env ev st; (docs, st2) = event_docs env evs st1 in
      (search_resource ''event'' i ev [] # docs, st2))"

definition event_list ::
  "search_env \<Rightarrow> search_http \<Rightarrow> request \<Rightarrow> search_response \<Rightarrow> json_map \<Rightarrow> search_state \<Rightarrow>
     doc response \<times> search_state" where
  "event_list env h r resp extra st =
     (let (docs, st1) = event_docs env (sp_results resp) st in
      (WriteJSONAPI 200 (GObj [(''data'', GArr docs),
         (''meta'', GObj ([(''total'', GInt (sp_total_matches resp)),
            (''latency_ms'', GInt (sp_latency_ms resp))] @ extra)),
         (''links'', GObj (self_link h r))]), st1))"

definition events_sort :: "string \<Rightarrow> sort_options option" where
  "events_sort f =
     (if f = [] then None
      else if has_prefix f ''-'' then Some \<lparr>so_field = drop 1 f, so_order = ''desc''\<rparr>
      else Some \<lparr>so_field = f, so_order = ''asc''\<rparr>)"

definition events_request :: "request \<Rightarrow> user_context \<Rightarrow> search_request" where
  "events_request r uc =
     \<lparr>sq_query = rq_query r ''filter[query]'', sq_time_range = None, sq_limit = snd (parsePage r),
      sq_sort = events_sort (rq_query r ''sort''), sq_include_fields = [], sq_search_after = [],
      sq_aggregations = [], sq_client_id = uc_client_id uc\<rparr>"

definition Events :: "search_env \<Rightarrow> search_http \<Rightarrow> search_handler" where
  "Events env h r st =
     (if rq_method r = ''GET'' then
        accepting (as_user h (\<lambda>uc r st.
          if uc_client_id uc = [] then (http_Error ''missing client scope'' 403, st)
          else
            (case ExecuteSearch env (events_request r uc) st of
               (Inl e, st1) \<Rightarrow>
                 (writeJSONAPIError 500 ''events_query_failed'' (search_error_text h e), st1)
             | (Inr resp, st1) \<Rightarrow>
                 event_list env h r resp [case parsePage r of (page, n) \<Rightarrow> page_meta page n] st1))) r st
      else (methodNotAllowedJSONAPI, st))"

definition events_query :: "search_env \<Rightarrow> search_http \<Rightarrow> search_handler" where
  "events_query env h r st =
     (if rq_method r \<noteq> ''POST'' then (methodNotAllowedJSONAPI, st)
      else accepting (typed_body (as_user h (\<lambda>uc.
        with_resource h (sh_query h) ''event-query'' (\<lambda>_ q r st.
          (case ExecuteQuery env (with_client (uc_client_id uc) q) st of
             (Inl e, st1) \<Rightarrow>
               (writeJSONAPIError 500 ''events_query_failed'' (search_error_text h e), st1)
           | (Inr resp, st1) \<Rightarrow>
               event_list env h r resp
                 ((case sp_aggregations resp of None \<Rightarrow> [] | Some a \<Rightarrow> [(''aggregations'', GObj a)])
                  @ (case sp_search_after resp of
                       None \<Rightarrow> []
                     | Some s \<Rightarrow> if sp_results resp = [] then [] else [(''next_cursor'', GArr s)]))
                 st1))))) r st)"

definition events_run :: "search_env \<Rightarrow> search_http \<Rightarrow> string \<Rightarrow> search_handler" where
  "events_run env h i r st =
     (if rq_method r \<noteq> ''POST'' then (methodNotAllowedJSONAPI, st)
      else accepting (as_user h (\<lambda>uc. with_id i (\<lambda>r st.
        (case RunSavedSearch env i (uc_client_id uc) st of
           (Inl e, st1) \<Rightarrow> (run_failure h ''events_run_failed'' e, st1)
         | (Inr resp, st1) \<Rightarrow> event_list env h r resp [] st1)))) r st)"

definition EventsByAction :: "search_env \<Rightarrow> search_http \<Rightarrow> search_handler" where
  "EventsByAction env h r st =
     (let path = after_prefix ''/api/v1/events/'' (rq_path r) in
      if has_prefix path ''query'' then events_query env h r st
      else if has_prefix path ''run/'' then events_run env h (drop 4 path) r st
      else (writeJSONAPIError 404 ''not_found'' ''unknown events action'', st))"

section \<open>Searches, queries and exports\<close>

definition Search :: "search_env \<Rightarrow> search_http \<Rightarrow> search_handler" where
  \<comment> \<open>the client of the request is not taken from the body, and set by nobody\<close>
  "Search env h r st =
     (if rq_method r \<noteq> ''POST'' then (methodNotAllowedJSONAPI, st)
      else accepting (typed_body (as_user h (\<lambda>_.
        with_resource h (sh_search h) ''search'' (\<lambda>_ req r st.
          (case ExecuteSearch env (req\<lparr>sq_client_id := []\<rparr>) st of
             (Inl e, st1) \<Rightarrow> (writeJSONAPIError 500 ''search_failed'' (search_error_text h e), st1)
           | (Inr resp, st1) \<Rightarrow>
               (writeJSONAPIResourceGeneric 200 ''search-result'' (sp_request_id resp)
                  (result_attrs resp @ search_after_attr resp), st1)))))) r st)"

definition h_Query :: "search_env \<Rightarrow> search_http \<Rightarrow> search_handler" where
  "h_Query env h r st =
     (if rq_method r \<noteq> ''POST'' then (methodNotAllowedJSONAPI, st)
      else accepting (typed_body (as_user h (\<lambda>_.
        with_resource h (sh_query h) ''query'' (\<lambda>_ q r st.
          (case ExecuteQuery env q st of
             (Inl e, st1) \<Rightarrow> (writeJSONAPIError 500 ''query_failed'' (search_error_text h e), st1)
           | (Inr resp, st1) \<Rightarrow>
               (writeJSONAPIResourceGeneric 200 ''search-result'' (sp_request_id resp)
                  (result_attrs resp @ [(''opensearch_query'', GStr (sp_opensearch_query resp))]
                   @ search_after_attr resp), st1)))))) r st)"

definition Export :: "search_env \<Rightarrow> search_http \<Rightarrow> search_handler" where
  "Export env h r st =
     (if rq_method r \<noteq> ''POST'' then (methodNotAllowedJSONAPI, st)
      else accepting (typed_body
        (with_resource h (\<lambda>b. if sh_export h b then Some () else None) ''export'' (\<lambda>_ _ r st.
          (let (e, st1) = RequestExport env st in
           (writeJSONAPIResourceGeneric 202 ''export-job'' (ex_export_id e)
              [(''status'', GStr (ex_status e)), (''expires_at'', GStr (sh_time h (ex_expires_at e)))],
            st1))))) r st)"

section \<open>Alert definitions and dashboards\<close>

definition alert_attrs :: "search_http \<Rightarrow> alert_definition \<Rightarrow> json_map" where
  "alert_attrs h a =
     [(''name'', GStr (ad_name a)), (''description'', GStr (ad_description a)),
      (''query'', GStr (ad_query a)), (''severity'', GStr (ad_severity a)),
      (''schedule'', GObj [(''interval_minutes'', GInt (ad_interval_minutes a)),
         (''lookback_minutes'', GInt (ad_lookback_minutes a))]),
      (''status'', GStr (ad_status a)), (''last_triggered_at'', time_val h (ad_last_triggered_at a)),
      (''owner'', GStr (ad_owner a))]"

definition handleListAlerts :: "search_http \<Rightarrow> search_handler" where
  "handleListAlerts h = accepting (\<lambda>r st.
     (WriteJSONAPI 200 (GObj [(''data'', GArr (map (\<lambda>a. search_resource ''alert'' (ad_id a) (alert_attrs h a) [])
        (ListAlerts st))), (''links'', GObj (self_link h r))]), st))"

definition handleUpsertAlert :: "search_env \<Rightarrow> search_http \<Rightarrow> search_handler" where
  \<comment> \<open>no caller is asked for\<close>
  "handleUpsertAlert env h =
     accepting (typed_body (with_resource h (sh_alert h) ''alert'' (\<lambda>_ req r st.
       (let ((a, created), st1) = UpsertAlert env req st in
        (writeJSONAPIResourceGeneric (if created then 201 else 200) ''alert'' (ad_id a) (alert_attrs h a),
         st1)))))"

definition Alerts :: "search_env \<Rightarrow> search_http \<Rightarrow> search_handler" where
  "Alerts env h r st =
     (if rq_method r = ''GET'' then handleListAlerts h r st
      else if rq_method r = ''POST'' then handleUpsertAlert env h r st
      else (search_not_allowed, st))"

definition alert_answer :: "search_http \<Rightarrow> string \<Rightarrow> search_error + alert_definition \<Rightarrow> doc response" where
  "alert_answer h code res =
     (case res of
        Inl ErrAlertNotFound \<Rightarrow> writeJSONAPIError 404 ''alert_not_found'' ''alert not found''
      | Inl e \<Rightarrow> writeJSONAPIError 500 code (search_error_text h e)
      | Inr a \<Rightarrow> writeJSONAPIResourceGeneric 200 ''alert'' (ad_id a) (alert_attrs h a))"

definition get_alert :: "search_http \<Rightarrow> string \<Rightarrow> search_handler" where
  "get_alert h i = accepting (\<lambda>r st. (alert_answer h ''alert_lookup_failed'' (GetAlert i st), st))"

definition patch_alert :: "search_http \<Rightarrow> string \<Rightarrow> search_handler" where
  \<comment> \<open>the body is read as plain JSON\<close>
  "patch_alert h i =
     accepting (typed_body (\<lambda>r st.
       (case Option.bind (rq_body r) (sh_patch h) of
          None \<Rightarrow> (writeJSONAPIError 400 ''invalid_request'' (sh_body_error h (rq_body r)), st)
        | Some (status, owner) \<Rightarrow>
            (case PatchAlert i status owner st of
               (res, st1) \<Rightarrow> (alert_answer h ''alert_patch_failed'' res, st1)))))"

definition AlertByID :: "search_http \<Rightarrow> search_handler" where
  "AlertByID h r st =
     (let i = after_prefix ''/api/v1/alerts/'' (rq_path r) in
      if i = [] \<or> CHR ''/'' \<in> set i
      then (WriteJSONAPIValidationError ''alert id must be provided'', st)
      else if rq_method r = ''GET'' then get_alert h i r st
      else if rq_method r = ''PATCH'' then patch_alert h i r st
      else (search_not_allowed, st))"

definition dashboard_attrs :: "dashboard \<Rightarrow> json_map" where
  "dashboard_attrs d =
     [(''name'', GStr (db_name d)), (''description'', GStr (db_description d)),
      (''widgets'', GArr (map GObj (db_widgets d)))]"

definition Dashboards :: "search_http \<Rightarrow> search_handler" where
  "Dashboards h r st =
     (if rq_method r \<noteq> ''GET'' then (methodNotAllowedJSONAPI, st)
      else accepting (\<lambda>r st.
        (WriteJSONAPI 200 (GObj [(''data'', GArr (map (\<lambda>d. search_resource ''dashboard'' (db_id d)
           (dashboard_attrs d) []) (ListDashboards st))), (''links'', GObj (self_link h r))]), st)) r st)"

definition DashboardByID :: "search_http \<Rightarrow> search_handler" where
  "DashboardByID h r st =
     (if rq_method r \<noteq> ''GET'' then (methodNotAllowedJSONAPI, st)
      else accepting (\<lambda>r st.
        (let i = after_prefix ''/api/v1/dashboards/'' (rq_path r) in
         if i = [] \<or> CHR ''/'' \<in> set i
         then (writeJSONAPIError 400 ''invalid_dashboard_id'' ''dashboard id must be provided'', st)
         else
           (case GetDashboard i st of
              Inl ErrDashboardNotFound \<Rightarrow>
                (writeJSONAPIError 404 ''dashboard_not_found'' ''dashboard not found'', st)
            | Inl e \<Rightarrow>
                (writeJSONAPIError 500 ''dashboard_lookup_failed'' (search_error_text h e), st)
            | Inr d \<Rightarrow>
                (writeJSONAPIResourceGeneric 200 ''dashboard'' (db_id d) (dashboard_attrs d), st)))) r st)"

section \<open>Health and routes\<close>

definition search_Health ::
  "search_env \<Rightarrow> json_map option \<Rightarrow> (bool \<times> int \<times> string) option \<Rightarrow> search_handler" where
  \<comment> \<open>the metrics of the scheduler and the state of the NATS connection, where there is one\<close>
  "search_Health env metrics nats r st =
     (if rq_method r \<noteq> ''GET'' then (search_not_allowed, st)
      else
        (let (now, st1) = sx_Now env st; up = now - sx_started_at st in
         (WriteJSON 200 (GObj ([(''status'', GStr ''healthy''), (''version'', GStr (sx_version st)),
            (''uptime_seconds'', GInt (sgn up * (\<bar>up\<bar> div second)))]
          @ (case metrics of None \<Rightarrow> [] | Some m \<Rightarrow> if m = [] then [] else [(''scheduler'', GObj m)])
          @ (case nats of
               None \<Rightarrow> []
             | Some (connected, latency, err) \<Rightarrow>
                 [(''nats'', GObj ([(''connected'', GBool connected), (''latency_ms'', GInt latency)]
                    @ if_text ''error'' err))]))), st1)))"

definition search_NewRouter ::
  "search_env \<Rightarrow> search_http \<Rightarrow> json_map option \<Rightarrow> (bool \<times> int \<times> string) option \<Rightarrow> search_handler" where
  "search_NewRouter env h metrics nats r st =
     (let path = rq_path r in
      if path = ''/api/v1/search'' then Search env h r st
      else if path = ''/api/v1/query'' then h_Query env h r st
      else if path = ''/api/v1/events'' then Events env h r st
      else if has_prefix path ''/api/v1/events/'' then EventsByAction env h r st
      else if path = ''/api/v1/alerts'' then Alerts env h r st
      else if has_prefix path ''/api/v1/alerts/'' then AlertByID h r st
      else if path = ''/api/v1/dashboards'' then Dashboards h r st
      else if has_prefix path ''/api/v1/dashboards/'' then DashboardByID h r st
      else if path = ''/api/v1/saved-searches'' then SavedSearches env h r st
      else if has_prefix path ''/api/v1/saved-searches/'' then SavedSearchByID env h r st
      else if path = ''/api/v1/export'' then Export env h r st
      else if path = ''/healthz'' then search_Health env metrics nats r st
      else (http_Error ''404 page not found'' 404, st))"

end
