(* ===== verification/SearchJobs.thy ===== *)
theory SearchJobs
  imports SearchExec
begin

text \<open>
  The work the search service does without an HTTP request: the jobs that arrive on the message bus
  (\<^verbatim>\<open>search/internal/nats/handler.go\<close>), the notification channels
  (\<^verbatim>\<open>search/internal/notification/notification.go\<close>), and the scheduler of alert definitions
  (\<^verbatim>\<open>search/internal/scheduler/scheduler.go\<close>), whose loop and whose timers are steps. A handler of the
  bus returns what it publishes, with the subjects; whether the bus takes it is left out, as are the
  logs.
\<close>

section \<open>Search jobs\<close>

record search_job =
  jb_job_id :: string
  jb_query :: string
  jb_from :: time
  jb_to :: time
  jb_limit :: int

record job_response =
  jr_job_id :: string
  jr_success :: bool
  jr_error :: string
  jr_total_hits :: int
  jr_events :: "json_map list option"       \<comment> \<open>None: nil\<close>
  jr_took_ms :: int

record correlation_request =
  cr_job_id :: string
  cr_schema_id :: string
  cr_schema_version_id :: string
  cr_query :: string
  cr_from :: time
  cr_to :: time
  cr_aggregation_key :: string
  cr_threshold :: int

record correlation_match =
  cm_aggregation_key :: string
  cm_event_count :: int
  cm_events :: "json_map list"
  cm_first_seen :: time
  cm_last_seen :: time

record correlation_response =
  cp_job_id :: string
  cp_schema_id :: string
  cp_schema_version_id :: string
  cp_success :: bool
  cp_error :: string
  cp_triggered :: bool
  cp_match_count :: int
  cp_matches :: "correlation_match list"
  cp_took_ms :: int

record job_env =
  je_search :: search_env
  je_parse_time :: "string \<Rightarrow> time option"      \<comment> \<open>\<open>time.Parse(time.RFC3339, s)\<close>\<close>
  je_error :: "search_error \<Rightarrow> string"

definition job_range :: "time \<Rightarrow> time \<Rightarrow> (time \<times> time) option" where
  "job_range t u = (if is_zero t \<and> is_zero u then None else Some (t, u))"

definition job_search :: "string \<Rightarrow> int \<Rightarrow> (time \<times> time) option \<Rightarrow> search_request" where
  \<comment> \<open>a request of which nothing else is set\<close>
  "job_search q limit tr =
     \<lparr>sq_query = q, sq_time_range = tr, sq_limit = limit, sq_sort = None, sq_include_fields = [],
      sq_search_after = [], sq_aggregations = [], sq_client_id = []\<rparr>"

definition search_replyError :: "string \<Rightarrow> string \<Rightarrow> (string \<times> job_response) list" where
  "search_replyError subject err =
     (if subject = [] then []
      else [(subject, \<lparr>jr_job_id = [], jr_success = False, jr_error = err, jr_total_hits = 0,
               jr_events = None, jr_took_ms = 0\<rparr>)])"

definition reply_and :: "string \<Rightarrow> string \<Rightarrow> 'a \<Rightarrow> (string \<times> 'a) list" where
  "reply_and reply subject resp = (if reply = [] then [] else [(reply, resp)]) @ [(subject, resp)]"

definition handleSearchJob ::
  "job_env \<Rightarrow> string + search_job \<Rightarrow> string \<Rightarrow> search_state \<Rightarrow>
     (string \<times> job_response) list \<times> search_state"
where
  \<comment> \<open>the message as \<open>json.Unmarshal\<close> decodes it or the text of its error, and the reply subject\<close>
  "handleSearchJob je msg reply st =
     (case msg of
        Inl err \<Rightarrow> (search_replyError reply err, st)
      | Inr req \<Rightarrow>
          let env = je_search je; (start, st1) = sx_Now env st;
              (result, st2) = ExecuteSearch env (job_search (jb_query req) (jb_limit req)
                (job_range (jb_from req) (jb_to req))) st1;
              (now, st3) = sx_Now env st2;
              resp = \<lparr>jr_job_id = jb_job_id req, jr_success = False, jr_error = [], jr_total_hits = 0,
                jr_events = None, jr_took_ms = Milliseconds (now - start)\<rparr> in
          (reply_and reply (''search.results.query.'' @ jb_job_id req)
             (case result of
                Inl e \<Rightarrow> resp\<lparr>jr_error := je_error je e\<rparr>
              | Inr x \<Rightarrow> resp\<lparr>jr_success := True, jr_total_hits := sp_total_matches x,
                          jr_events := Some (sp_results x)\<rparr>), st3))"

section \<open>Correlation jobs\<close>

definition extractStringField :: "json_map \<Rightarrow> string \<Rightarrow> string" where
  "extractStringField event field = (case field_as as_str event field of Some s \<Rightarrow> s | None \<Rightarrow> [])"

definition time_of_value :: "job_env \<Rightarrow> gval \<Rightarrow> time option" where
  \<comment> \<open>the type switch, on what a JSON document holds\<close>
  "time_of_value je v =
     (case v of
        GStr s \<Rightarrow> je_parse_time je s
      | GFloat m e \<Rightarrow> Some (float_to_int m e * second)
      | _ \<Rightarrow> None)"

fun first_time :: "job_env \<Rightarrow> json_map \<Rightarrow> string list \<Rightarrow> time" where
  "first_time je event [] = zero_time"
| "first_time je event (f # fs) =
     (case Option.bind (map_of event f) (time_of_value je) of
        Some t \<Rightarrow> t
      | None \<Rightarrow> first_time je event fs)"

definition extractTime :: "job_env \<Rightarrow> json_map \<Rightarrow> time" where
  "extractTime je event = first_time je event [''time'', ''timestamp'', ''@timestamp'', ''time_dt'']"

definition correlation_match_of :: "job_env \<Rightarrow> string \<Rightarrow> json_map list \<Rightarrow> correlation_match" where
  "correlation_match_of je key events =
     \<lparr>cm_aggregation_key = key, cm_event_count = int (length events), cm_events = events,
      cm_first_seen = (if events = [] then zero_time else extractTime je (last events)),
      cm_last_seen = (if events = [] then zero_time else extractTime je (hd events))\<rparr>"

definition group_key :: "string \<Rightarrow> json_map \<Rightarrow> string" where
  "group_key aggKey event =
     (let key = extractStringField event aggKey in if key = [] then ''_unknown'' else key)"

definition add_to_group ::
  "string \<Rightarrow> json_map \<Rightarrow> (string \<times> json_map list) list \<Rightarrow> (string \<times> json_map list) list" where
  "add_to_group key event groups =
     map_put key ((case map_of groups key of None \<Rightarrow> [] | Some es \<Rightarrow> es) @ [event]) groups"

definition group_events :: "string \<Rightarrow> json_map list \<Rightarrow> (string \<times> json_map list) list" where
  "group_events aggKey events = fold (\<lambda>event. add_to_group (group_key aggKey event) event) events []"

definition aggregateResults :: "job_env \<Rightarrow> json_map list \<Rightarrow> string \<Rightarrow> int \<Rightarrow> correlation_match list" where
  \<comment> \<open>the groups in the order a \<open>range\<close> over them visits\<close>
  "aggregateResults je events aggKey threshold =
     (if aggKey = [] then
        (if int (length events) \<ge> threshold then [correlation_match_of je ''_all'' events] else [])
      else map (\<lambda>(key, es). correlation_match_of je key es)
             (filter (\<lambda>(_, es). int (length es) \<ge> threshold) (group_events aggKey events)))"

definition handleCorrelationJob ::
  "job_env \<Rightarrow> string + correlation_request \<Rightarrow> string \<Rightarrow> search_state \<Rightarrow>
     ((string \<times> job_response) list + (string \<times> correlation_response) list) \<times> search_state"
where
  \<comment> \<open>on the left, the answer to a message that cannot be decoded\<close>
  "handleCorrelationJob je msg reply st =
     (case msg of
        Inl err \<Rightarrow> (Inl (search_replyError reply err), st)
      | Inr req \<Rightarrow>
          let env = je_search je; (start, st1) = sx_Now env st;
              (result, st2) = ExecuteSearch env
                (job_search (cr_query req) 10000 (job_range (cr_from req) (cr_to req))) st1;
              (now, st3) = sx_Now env st2;
              resp = \<lparr>cp_job_id = cr_job_id req, cp_schema_id = cr_schema_id req,
                cp_schema_version_id = cr_schema_version_id req, cp_success = False, cp_error = [],
                cp_triggered = False, cp_match_count = 0, cp_matches = [],
                cp_took_ms = Milliseconds (now - start)\<rparr> in
          (Inr (reply_and reply ''search.results.correlate''
             (case result of
                Inl e \<Rightarrow> resp\<lparr>cp_error := je_error je e\<rparr>
              | Inr x \<Rightarrow>
                  let matches = aggregateResults je (sp_results x) (cr_aggregation_key req)
                        (cr_threshold req) in
                  resp\<lparr>cp_success := True, cp_triggered := (matches \<noteq> []),
                    cp_match_count := int (length matches), cp_matches := matches\<rparr>)), st3))"

section \<open>Notification channels\<close>

datatype channel =
    WebhookChannel string
  | SlackChannel string
  | LogChannel
  | MultiChannel "channel list"

datatype notify_error =
    Send_failed string
  | Bad_status string int
  | All_channels_failed string notify_error     \<comment> \<open>the type of the last channel that failed\<close>

record notify_env =
  nt_post :: "string \<Rightarrow> gval \<Rightarrow> int option"       \<comment> \<open>the status a \<open>POST\<close> is answered with, if any\<close>
  nt_now_text :: string
  nt_now :: time

fun channel_Type :: "channel \<Rightarrow> string" where
  "channel_Type (WebhookChannel _) = ''webhook''"
| "channel_Type (SlackChannel _) = ''slack''"
| "channel_Type LogChannel = ''log''"
| "channel_Type (MultiChannel _) = ''multi''"

definition webhook_payload :: "notify_env \<Rightarrow> alert_definition \<Rightarrow> json_map list \<Rightarrow> gval" where
  "webhook_payload nv a results =
     GObj [(''alert_id'', GStr (ad_id a)), (''alert_name'', GStr (ad_name a)),
       (''severity'', GStr (ad_severity a)), (''description'', GStr (ad_description a)),
       (''query'', GStr (ad_query a)), (''result_count'', GInt (int (length results))),
       (''results'', GArr (map GObj results)), (''timestamp'', GStr (nt_now_text nv))]"

definition severityColor :: "string \<Rightarrow> string" where
  "severityColor severity =
     (if severity = ''critical'' then ''#8B0000''
      else if severity = ''high'' then ''#FF0000''
      else if severity = ''medium'' then ''#FFA500''
      else if severity = ''low'' then ''#FFFF00''
      else if severity = ''info'' then ''#0000FF''
      else ''#808080'')"

definition slack_field :: "string \<Rightarrow> string \<Rightarrow> bool \<Rightarrow> gval" where
  "slack_field title v short =
     GObj [(''title'', GStr title), (''value'', GStr v), (''short'', GBool short)]"

definition slack_payload :: "notify_env \<Rightarrow> alert_definition \<Rightarrow> json_map list \<Rightarrow> gval" where
  "slack_payload nv a results =
     GObj [(''text'', GStr ([CHR 0xF0, CHR 0x9F, CHR 0x9A, CHR 0xA8] @ '' Alert: '' @ ad_name a)),
       (''attachments'', GArr [GObj ([(''color'', GStr (severityColor (ad_severity a))),
          (''fields'', GArr [slack_field ''Alert Name'' (ad_name a) True,
             slack_field ''Severity'' (ad_severity a) True,
             slack_field ''Results'' (int_string (int (length results)) @ '' events matched'') True,
             slack_field ''Query'' (replicate 3 (CHR 0x60) @ ad_query a @ replicate 3 (CHR 0x60)) False]),
          (''footer'', GStr ''TelHawk Alert''), (''ts'', GInt (unix (nt_now nv)))]
         @ (if ad_description a = [] then [] else [(''text'', GStr (ad_description a))]))])]"

definition post_to :: "notify_env \<Rightarrow> string \<Rightarrow> string \<Rightarrow> gval \<Rightarrow> notify_error option" where
  "post_to nv kind url payload =
     (case nt_post nv url payload of
        None \<Rightarrow> Some (Send_failed kind)
      | Some status \<Rightarrow> if status < 200 \<or> status \<ge> 300 then Some (Bad_status kind status) else None)"

fun channel_Send ::
  "notify_env \<Rightarrow> channel \<Rightarrow> alert_definition \<Rightarrow> json_map list \<Rightarrow> notify_error option" where
  "channel_Send nv (WebhookChannel url) a results =
     post_to nv ''webhook'' url (webhook_payload nv a results)"
| "channel_Send nv (SlackChannel url) a results =
     post_to nv ''slack'' url (slack_payload nv a results)"
| "channel_Send nv LogChannel a results = None"
| "channel_Send nv (MultiChannel chs) a results =
     (let outcomes = map (\<lambda>ch. (channel_Type ch, channel_Send nv ch a results)) chs;
          failed = [(t, e). (t, Some e) \<leftarrow> outcomes] in
      if length failed = length chs \<and> chs \<noteq> []
      then Some (All_channels_failed (fst (last failed)) (snd (last failed)))
      else None)"

record alerting_config =
  ac_webhook_url :: string
  ac_slack_url :: string

definition buildNotificationChannel :: "alerting_config \<Rightarrow> channel" where
  "buildNotificationChannel cfg =
     (let channels = [LogChannel]
            @ (if ac_webhook_url cfg = [] then [] else [WebhookChannel (ac_webhook_url cfg)])
            @ (if ac_slack_url cfg = [] then [] else [SlackChannel (ac_slack_url cfg)]) in
      if length channels = 1 then hd channels else MultiChannel channels)"

section \<open>The scheduler of alert definitions\<close>

record scheduler =
  sd_running :: bool
  sd_check_interval :: int
  sd_timers :: "(string \<times> int) list"        \<comment> \<open>the running timers with their intervals\<close>
  sd_triggered :: int
  sd_executions :: int
  sd_errors :: int
  sd_sent :: int
  sd_notification_errors :: int
  sd_last_check :: time

definition minute_ns :: int where "minute_ns = 60 * second"

definition NewScheduler :: "int \<Rightarrow> scheduler" where
  "NewScheduler interval =
     \<lparr>sd_running = False, sd_check_interval = (if interval = 0 then 30 * second else interval),
      sd_timers = [], sd_triggered = 0, sd_executions = 0, sd_errors = 0, sd_sent = 0,
      sd_notification_errors = 0, sd_last_check = zero_time\<rparr>"

definition alert_interval :: "scheduler \<Rightarrow> alert_definition \<Rightarrow> int" where
  "alert_interval s a =
     (let interval = wrap64 (ad_interval_minutes a * minute_ns) in
      if interval < minute_ns then
        (if ad_interval_minutes a = 0 \<and> sd_check_interval s < minute_ns then 5 * second
         else 5 * minute_ns)
      else interval)"

definition scheduleAlert :: "alert_definition \<Rightarrow> scheduler \<Rightarrow> scheduler" where
  "scheduleAlert a s =
     (if ad_id a \<in> fst ` set (sd_timers s) then s
      else s\<lparr>sd_timers := sd_timers s @ [(ad_id a, alert_interval s a)]\<rparr>)"

definition alert_active :: "alert_definition \<Rightarrow> bool" where
  "alert_active a \<longleftrightarrow> ad_status a = ''active''"

definition syncAlerts ::
  "search_env \<Rightarrow> scheduler \<times> search_state \<Rightarrow> scheduler \<times> search_state" where
  "syncAlerts env ss =
     (let (s, st) = ss; (now, st1) = sx_Now env st; s = s\<lparr>sd_last_check := now\<rparr>;
          active = filter alert_active (ListAlerts st1);
          s = fold scheduleAlert active s in
      (s\<lparr>sd_timers := filter (\<lambda>(i, _). i \<in> ad_id ` set active) (sd_timers s)\<rparr>, st1))"

definition alert_lookback :: "alert_definition \<Rightarrow> int" where
  "alert_lookback a =
     (let lookback = wrap64 (ad_lookback_minutes a * minute_ns) in
      if lookback = 0 then wrap64 (ad_interval_minutes a * minute_ns) else lookback)"

definition executeAlert ::
  "search_env \<Rightarrow> notify_env \<Rightarrow> channel \<Rightarrow> string \<Rightarrow> scheduler \<times> search_state \<Rightarrow>
     scheduler \<times> search_state"
where
  "executeAlert env nv ch alertID ss =
     (let (s, st) = ss; s = s\<lparr>sd_executions := sd_executions s + 1\<rparr> in
      case find (\<lambda>a. ad_id a = alertID) (ListAlerts st) of
        None \<Rightarrow> (s\<lparr>sd_errors := sd_errors s + 1\<rparr>, st)
      | Some a \<Rightarrow>
          if \<not> alert_active a then (s, st)
          else
            (let (now, st1) = sx_Now env st in
             case ExecuteSearch env
                 (job_search (ad_query a) 100 (Some (now - alert_lookback a, now))) st1 of
               (Inl _, st2) \<Rightarrow> (s\<lparr>sd_errors := sd_errors s + 1\<rparr>, st2)
             | (Inr resp, st2) \<Rightarrow>
                 if sp_result_count resp = 0 then (s, st2)
                 else
                   (let s = s\<lparr>sd_triggered := sd_triggered s + 1\<rparr> in
                    case channel_Send nv ch a (sp_results resp) of
                      Some _ \<Rightarrow> (s\<lparr>sd_notification_errors := sd_notification_errors s + 1\<rparr>, st2)
                    | None \<Rightarrow>
                        (s\<lparr>sd_sent := sd_sent s + 1\<rparr>, snd (UpdateLastTriggered (ad_id a) now st2)))))"

definition sched_Start ::
  "search_env \<Rightarrow> scheduler \<times> search_state \<Rightarrow> (scheduler \<times> search_state) option" where
  \<comment> \<open>None: already running; the loop begins with a check\<close>
  "sched_Start env ss =
     (case ss of (s, st) \<Rightarrow>
        if sd_running s then None else Some (syncAlerts env (s\<lparr>sd_running := True\<rparr>, st)))"

definition sched_Stop :: "scheduler \<Rightarrow> scheduler option" where
  "sched_Stop s = (if sd_running s then Some (s\<lparr>sd_running := False, sd_timers := []\<rparr>) else None)"

definition GetMetrics :: "(time \<Rightarrow> string) \<Rightarrow> scheduler \<Rightarrow> json_map" where
  "GetMetrics format s =
     [(''alerts_triggered'', GInt (sd_triggered s)), (''alert_executions'', GInt (sd_executions s)),
      (''alert_errors'', GInt (sd_errors s)), (''notifications_sent'', GInt (sd_sent s)),
      (''notification_errors'', GInt (sd_notification_errors s)),
      (''last_check_time'', GStr (format (sd_last_check s))),
      (''active_alert_count'', GInt (int (length (sd_timers s))))]"

datatype sched_event = Check | Tick string | Client "search_state \<Rightarrow> search_state"

definition sched_step ::
  "search_env \<Rightarrow> notify_env \<Rightarrow> channel \<Rightarrow> sched_event \<Rightarrow> scheduler \<times> search_state \<Rightarrow>
     scheduler \<times> search_state"
where
  \<comment> \<open>a check of the loop, a tick of a running timer, a change of the state by another part\<close>
  "sched_step env nv ch ev ss =
     (case ev of
        Check \<Rightarrow> if sd_running (fst ss) then syncAlerts env ss else ss
      | Tick i \<Rightarrow> if i \<in> fst ` set (sd_timers (fst ss)) then executeAlert env nv ch i ss else ss
      | Client f \<Rightarrow> (fst ss, f (snd ss)))"

end
