(* ===== verification/SearchLaws.thy ===== *)
theory SearchLaws
  imports SearchRoutes SearchJobs
begin

text \<open>
  What the search service can change. The locale \<open>search_change\<close> lists the changes of its state, the
  insertion of a saved search apart, which takes an accepted token; a relation between the state
  before and after that each of them keeps holds across every route, every job and every step of the
  scheduler. The interpretations show that the rows of saved searches only grow, and that without a
  token they do not change.
\<close>

section \<open>From statements to the router\<close>

locale search_change =
  fixes R :: "search_state \<Rightarrow> search_state \<Rightarrow> bool"
    and env :: search_env
    and with_token :: bool
  assumes refl: "R st st"
    and trans: "R st1 st2 \<Longrightarrow> R st2 st3 \<Longrightarrow> R st1 st3"
    and step: "R st (sx_step st)"
    and alerts: "R st (st\<lparr>sx_alerts := m\<rparr>)"
    and saved: "with_token \<Longrightarrow> insert_saved env s st = Some st' \<Longrightarrow> R st st'"
begin

lemma bind:
  assumes "R st (snd m)" and "\<And>a s. R s (snd (f a s))"
  shows "R st (snd (case m of (a, s) \<Rightarrow> f a s))"
  using assms trans by (cases m) auto

lemma clock: "R st (snd (sx_Now env st))"
  by (simp add: sx_Now_def step)

lemma drawn: "R st (snd (generateID env st))"
  by (simp add: generateID_def step)

lemma request: "R st (snd (os_search env body limit st))"
  by (simp add: os_search_def step)

lemma stepped: "R st (snd (os_search env body limit (sx_step st)))"
  using step request by (rule trans)

lemma reads: "R st (snd (read_saved env q st))" "R st (snd (read_rows env p st))"
  by (simp_all add: read_saved_def read_rows_def step)

lemma insert:
  assumes with_token
  shows "R st (snd (InsertVersion env s st))"
  using assms saved trans step
  by (auto simp: InsertVersion_def split: stmt_fate.split option.split) blast+

lemma returned: "with_token \<Longrightarrow> R st (snd (insert_and_return env s st))"
  unfolding insert_and_return_def
  by (rule bind, erule insert) (auto split: option.split intro: refl)

lemma latest: "R st (snd (GetLatest env i st))"
  unfolding GetLatest_def
  by (rule bind, rule reads) (auto split: sum.split option.split intro: refl)

lemma guarded: "R st (snd (act st)) \<Longrightarrow> R st (snd (with_repo env act st))"
  by (simp add: with_repo_def refl)

lemma found: "R st (snd (GetSavedSearch env i st))"
  unfolding GetSavedSearch_def by (intro guarded latest)

lemma listings:
  "R st (snd (ListSavedSearches env st))" "R st (snd (ListSavedSearchesWithOptions env b st))"
  "R st (snd (ListSavedSearchesPaged env b page n st))"
  "R st (snd (ListSavedSearchesAfter env b t v n st))"
  unfolding ListSavedSearches_def ListSavedSearchesWithOptions_def ListSavedSearchesPaged_def
    ListSavedSearchesAfter_def ListLatest_def ListLatestPaged_def ListLatestAfter_def Let_def
  by (intro guarded reads, intro guarded reads,
      intro guarded, rule bind, rule reads, auto split: sum.split intro!: bind reads refl guarded)

lemmas search_rules = bind refl clock drawn request reads returned latest guarded found

lemma with_latest:
  assumes "\<And>s x. R x (snd (act s x))"
  shows "R st (snd (case GetLatest env i st of (Inl e, st1) \<Rightarrow> (Inl e, st1) | (Inr s, st1) \<Rightarrow> act s st1))"
  by (rule bind, rule latest) (auto split: sum.split intro: refl assms)

lemma lifecycle: "with_token \<Longrightarrow> R st (snd (new_lifecycle env i u change st))"
  unfolding new_lifecycle_def Let_def by (intro guarded with_latest bind clock drawn returned)

lemma saved_operations:
  assumes with_token
  shows "R st (snd (CreateSavedSearch env creq st))" "R st (snd (UpdateSavedSearch env i ureq st))"
    "R st (snd (DeleteSavedSearch env i st))" "R st (snd (DisableSavedSearch env i u st))"
    "R st (snd (EnableSavedSearch env i u st))" "R st (snd (HideSavedSearch env i u st))"
    "R st (snd (UnhideSavedSearch env i u st))"
proof -
  show "R st (snd (CreateSavedSearch env creq st))"
    unfolding CreateSavedSearch_def Let_def
    by (rule guarded) (auto split: option.split intro!: bind clock drawn returned refl assms)
  show "R st (snd (UpdateSavedSearch env i ureq st))"
    unfolding UpdateSavedSearch_def Let_def
    by (intro guarded with_latest)
      (auto split: option.split intro!: bind clock drawn returned refl assms)
  show "R st (snd (DeleteSavedSearch env i st))"
    unfolding DeleteSavedSearch_def Let_def
    by (auto split: sum.split intro!: bind latest clock drawn insert refl assms)
qed (simp_all add: DisableSavedSearch_def EnableSavedSearch_def HideSavedSearch_def
  UnhideSavedSearch_def lifecycle assms)

lemma executions:
  "R st (snd (ExecuteSearch env req st))" "R st (snd (ExecuteQuery env q st))"
  "R st (snd (RunSavedSearch env i c st))"
proof -
  show "R st (snd (ExecuteSearch env req st))"
    unfolding ExecuteSearch_def Let_def
    by (auto split: sum.split intro!: bind clock drawn request refl)
  show "R st (snd (ExecuteQuery env q st))"
    unfolding ExecuteQuery_def Let_def
    by (rule bind, rule clock)
      (auto split: sum.split option.split intro!: bind clock drawn refl step stepped)
  show "R st (snd (RunSavedSearch env i c st))"
    unfolding RunSavedSearch_def Let_def
    by (rule bind, rule clock)
      (auto split: sum.split option.split intro!: bind found clock drawn refl step stepped)
qed

lemma definitions:
  "R st (snd (UpsertAlert env areq st))" "R st (snd (PatchAlert i a b st))"
  "R st (snd (UpdateLastTriggered i t st))" "R st (snd (RequestExport env st))"
proof -
  have ids: "R st ((snd (generateID env st))\<lparr>sx_alerts := m\<rparr>)" for m
    using drawn alerts by (rule trans)
  show "R st (snd (UpsertAlert env areq st))"
    by (auto simp: UpsertAlert_def Let_def alerts split: option.split prod.split)
      (metis ids snd_conv)+
  show "R st (snd (RequestExport env st))"
    unfolding RequestExport_def Let_def by (intro bind clock drawn) (simp add: refl)
qed (auto simp: PatchAlert_def UpdateLastTriggered_def Let_def refl alerts split: option.split)

section \<open>Handlers\<close>

lemma guards:
  "R st (snd (act r st)) \<Longrightarrow> R st (snd (accepting act r st))"
  "R st (snd (act r st)) \<Longrightarrow> R st (snd (typed_body act r st))"
  "R st (snd (act r st)) \<Longrightarrow> R st (snd (with_id i act r st))"
  "R st (snd (act r st)) \<Longrightarrow> R st (snd (post_only act r st))"
  by (simp_all add: accepting_def typed_body_def with_id_def post_only_def refl)

lemma body:
  "(\<And>i x. R st (snd (act i x r st))) \<Longrightarrow> R st (snd (with_resource h dec typ act r st))"
  by (auto simp: with_resource_def refl split: option.split)

lemma user:
  assumes "search_requireUserContext h r \<noteq> None \<Longrightarrow> with_token"
    and "\<And>uc. with_token \<Longrightarrow> R st (snd (act uc r st))"
  shows "R st (snd (as_user h act r st))"
  using assms by (auto simp: as_user_def refl split: option.split)

lemma answered:
  assumes "R st (snd res)"
  shows "R st (snd (answer_lifecycle h code title res))"
  using assms by (auto simp: answer_lifecycle_def split: prod.split sum.split)

lemma documents: "R st (snd (event_docs env evs st))"
proof (induction evs arbitrary: st)
  case (Cons ev evs)
  have "R st (snd (event_id env ev st))" for st
    unfolding event_id_def svcIDFallback_def Let_def
    by (auto split: option.split list.split intro!: bind clock refl)
  with Cons show ?case by (auto intro!: bind refl)
qed (simp add: refl)

lemma listed_events: "R st (snd (event_list env h r resp extra st))"
  unfolding event_list_def Let_def by (rule bind, rule documents) (simp add: refl)

lemmas handler_rules = guards body user answered listed_events bind refl clock executions
  saved_operations found listings definitions

lemma saved_collection:
  assumes "search_requireUserContext h r \<noteq> None \<Longrightarrow> with_token"
  shows "R st (snd (SavedSearches env h r st))"
proof -
  obtain page n ca cv k where "parsePage r = (page, n)" "parseCursor r = (ca, cv, k)"
    by (metis prod.exhaust)
  then have "R st (snd (list_by_cursor env h r st))" "R st (snd (list_by_page env h r st))"
    by (simp_all add: list_by_cursor_def list_by_page_def)
      ((rule bind, rule listings, auto split: sum.split simp: Let_def intro: refl)+)
  moreover have "R st (snd (create_saved env h r st))"
    unfolding create_saved_def
    by (intro guards user body assms) (auto split: sum.split intro!: bind saved_operations refl)
  ultimately show ?thesis
    by (simp add: SavedSearches_def refl guards)
qed

lemma runs:
  assumes "search_requireUserContext h r \<noteq> None \<Longrightarrow> with_token"
  shows "R st (snd (run_saved env h i r st))" "R st (snd (events_run env h i r st))"
  unfolding run_saved_def events_run_def
  by (auto intro!: guards user assms bind executions listed_events refl split: sum.split)

lemma saved_item:
  assumes "search_requireUserContext h r \<noteq> None \<Longrightarrow> with_token"
  shows "R st (snd (SavedSearchByID env h r st))"
proof -
  have life: "R st (snd (disable_saved env h i r st))" "R st (snd (enable_saved env h i r st))"
    "R st (snd (hide_saved env h i r st))" "R st (snd (unhide_saved env h i r st))" for i
    unfolding disable_saved_def enable_saved_def hide_saved_def unhide_saved_def
    by (rule guards, rule user, erule assms, rule answered, erule saved_operations)+
  have "R st (snd (get_saved env h i r st))" "R st (snd (update_saved env h i r st))"
    "R st (snd (delete_saved env h i r st))" for i
    unfolding get_saved_def update_saved_def delete_saved_def
    by (intro guards user body assms; auto split: sum.split option.split
        intro!: bind found saved_operations refl)+
  with life show ?thesis
    by (simp add: SavedSearchByID_def Let_def refl guards runs assms)
qed

lemma event_routes:
  assumes "search_requireUserContext h r \<noteq> None \<Longrightarrow> with_token"
  shows "R st (snd (Events env h r st))" "R st (snd (EventsByAction env h r st))"
proof -
  show "R st (snd (Events env h r st))"
    unfolding Events_def
    by (auto intro!: guards user assms bind executions listed_events refl split: sum.split)
  have "R st (snd (events_query env h r st))"
    unfolding events_query_def
    by (auto intro!: guards user body assms bind executions listed_events refl split: sum.split)
  then show "R st (snd (EventsByAction env h r st))"
    by (simp add: EventsByAction_def Let_def refl runs assms)
qed

lemma query_routes:
  assumes "search_requireUserContext h r \<noteq> None \<Longrightarrow> with_token"
  shows "R st (snd (Search env h r st))" "R st (snd (h_Query env h r st))" "R st (snd (Export env h r st))"
  unfolding Search_def h_Query_def Export_def Let_def
  by (auto intro!: guards user body assms bind executions definitions refl split: sum.split)

lemma alert_routes:
  "R st (snd (Alerts env h r st))" "R st (snd (AlertByID h r st))"
proof -
  have "R st (snd (handleListAlerts h r st))" "R st (snd (handleUpsertAlert env h r st))"
    unfolding handleListAlerts_def handleUpsertAlert_def Let_def
    by (auto intro!: guards body bind definitions refl split: prod.split)
  then show "R st (snd (Alerts env h r st))" by (simp add: Alerts_def refl)
  have "R st (snd (get_alert h i r st))" "R st (snd (patch_alert h i r st))" for i
    unfolding get_alert_def patch_alert_def
    by (auto intro!: guards bind definitions refl split: option.split)
  then show "R st (snd (AlertByID h r st))" by (simp add: AlertByID_def Let_def refl)
qed

lemma dashboard_routes:
  "R st (snd (Dashboards h r st))" "R st (snd (DashboardByID h r st))"
  unfolding Dashboards_def DashboardByID_def Let_def
  by (auto intro!: guards refl split: sum.split search_error.split)

lemma router:
  assumes "search_requireUserContext h r \<noteq> None \<Longrightarrow> with_token"
  shows "R st (snd (search_NewRouter env h metrics nats r st))"
proof -
  have "R st (snd (search_Health env metrics nats r st))"
    unfolding search_Health_def Let_def by (auto intro!: bind clock refl)
  then show ?thesis
    unfolding search_NewRouter_def Let_def
    by (simp add: refl saved_collection saved_item event_routes query_routes alert_routes
        dashboard_routes assms)
qed

section \<open>Jobs and the scheduler\<close>

lemma jobs:
  assumes "je_search je = env"
  shows "R st (snd (handleSearchJob je jmsg reply st))" "R st (snd (handleCorrelationJob je cmsg reply st))"
  unfolding handleSearchJob_def handleCorrelationJob_def Let_def assms
  by (auto split: sum.split intro!: bind clock executions refl)

lemma sync: "R st (snd (syncAlerts env (s, st)))"
  unfolding syncAlerts_def Let_def prod.case by (rule bind, rule clock) (simp add: refl)

lemma execute: "R st (snd (executeAlert env nv ch i (s, st)))"
  unfolding executeAlert_def Let_def prod.case
  by (auto split: option.split sum.split intro!: bind clock executions definitions refl)

end

section \<open>Runs of the service\<close>

datatype search_event =
    Http_request request
  | Search_message "string + search_job" string
  | Correlation_message "string + correlation_request" string
  | Scheduler_check
  | Scheduler_tick string

definition search_event_step ::
  "job_env \<Rightarrow> search_http \<Rightarrow> notify_env \<Rightarrow> channel \<Rightarrow> search_event \<Rightarrow> scheduler \<times> search_state \<Rightarrow>
     scheduler \<times> search_state"
where
  "search_event_step je h nv ch ev ss =
     (let change = (\<lambda>f. sched_step (je_search je) nv ch (Client f) ss) in
      case ev of
        Http_request r \<Rightarrow> change (\<lambda>st. snd (search_NewRouter (je_search je) h
          (Some (GetMetrics (sh_time h) (fst ss))) None r st))
      | Search_message msg reply \<Rightarrow> change (\<lambda>st. snd (handleSearchJob je msg reply st))
      | Correlation_message msg reply \<Rightarrow> change (\<lambda>st. snd (handleCorrelationJob je msg reply st))
      | Scheduler_check \<Rightarrow> sched_step (je_search je) nv ch Check ss
      | Scheduler_tick i \<Rightarrow> sched_step (je_search je) nv ch (Tick i) ss)"

definition search_run ::
  "job_env \<Rightarrow> search_http \<Rightarrow> notify_env \<Rightarrow> channel \<Rightarrow> search_event list \<Rightarrow> scheduler \<times> search_state \<Rightarrow>
     scheduler \<times> search_state"
where
  "search_run je h nv ch = fold (search_event_step je h nv ch)"

definition has_token :: "search_http \<Rightarrow> search_event \<Rightarrow> bool" where
  "has_token h ev =
     (case ev of Http_request r \<Rightarrow> search_requireUserContext h r \<noteq> None | _ \<Rightarrow> False)"

context search_change
begin

lemma event_step:
  assumes "je_search je = env" and "has_token h ev \<Longrightarrow> with_token"
  shows "R (snd ss) (snd (search_event_step je h nv ch ev ss))"
proof (cases ss)
  case (Pair s st)
  have "R st (snd (search_NewRouter env h m n r st))" if "ev = Http_request r" for m n r
    using that assms(2) by (intro router) (simp add: has_token_def)
  then show ?thesis
    by (auto simp: Pair search_event_step_def sched_step_def Let_def assms(1) refl
        intro!: jobs sync execute assms(1) split: search_event.split)
qed

lemma whole_run:
  assumes "je_search je = env" and "\<exists>ev\<in>set evs. has_token h ev \<Longrightarrow> with_token"
  shows "R (snd ss) (snd (search_run je h nv ch evs ss))"
  using assms(2)
proof (induction evs arbitrary: ss)
  case (Cons ev evs)
  have "R (snd ss) (snd (search_event_step je h nv ch ev ss))"
    using Cons.prems by (intro event_step assms(1)) auto
  moreover have "R (snd (search_event_step je h nv ch ev ss))
      (snd (search_run je h nv ch evs (search_event_step je h nv ch ev ss)))"
    using Cons.prems by (intro Cons.IH) auto
  ultimately show ?case using trans by (auto simp: search_run_def)
qed (simp add: search_run_def refl)

end

section \<open>Rows only grow\<close>

definition version_ids :: "search_state \<Rightarrow> string list" where
  "version_ids st = map (\<lambda>r. ss_version_id (sr_search r)) (sx_saved st)"

definition rows_grow :: "search_state \<Rightarrow> search_state \<Rightarrow> bool" where
  "rows_grow st st' \<longleftrightarrow>
     (\<exists>new. sx_saved st' = sx_saved st @ new) \<and> (distinct (version_ids st) \<longrightarrow> distinct (version_ids st'))"

lemma insert_saved_grows: "insert_saved env s st = Some st' \<Longrightarrow> rows_grow st st'"
  by (auto simp: insert_saved_def rows_grow_def version_ids_def list_ex_iff
      split: option.splits if_splits) metis

interpretation grow: search_change rows_grow env with_token for env with_token
proof unfold_locales
  show "rows_grow st1 st2 \<Longrightarrow> rows_grow st2 st3 \<Longrightarrow> rows_grow st1 st3" for st1 st2 st3
    by (auto simp: rows_grow_def)
qed (auto simp: rows_grow_def version_ids_def sx_step_def dest: insert_saved_grows [unfolded rows_grow_def version_ids_def])

interpretation keep: search_change "\<lambda>st st'. with_token \<or> sx_saved st' = sx_saved st" env with_token
  for env with_token
  by unfold_locales (auto simp: sx_step_def)

text \<open>C24: Saved searches are only ever added to. Whatever requests, messages and timers the service
  handles, every stored version stays as it was stored, in its place, version identifiers stay
  distinct, and without a request that carries an accepted token no version is added at all.\<close>

theorem saved_versions_append_only:
  "\<exists>new. sx_saved (snd (search_run je h nv ch evs ss)) = sx_saved (snd ss) @ new
     \<and> (distinct (version_ids (snd ss)) \<longrightarrow> distinct (version_ids (snd (search_run je h nv ch evs ss))))
     \<and> ((\<forall>ev\<in>set evs. \<not> has_token h ev) \<longrightarrow> new = [])"
proof -
  have "rows_grow (snd ss) (snd (search_run je h nv ch evs ss))"
    by (rule grow.whole_run [where with_token = True]) simp_all
  moreover have "(\<forall>ev\<in>set evs. \<not> has_token h ev) \<longrightarrow>
      sx_saved (snd (search_run je h nv ch evs ss)) = sx_saved (snd ss)"
    using keep.whole_run [where je = je and env = "je_search je" and evs = evs and h = h
        and with_token = "\<exists>ev\<in>set evs. has_token h ev" and ss = ss and nv = nv and ch = ch] by auto
  ultimately show ?thesis by (auto simp: rows_grow_def)
qed

end
