(* ===== verification/SearchScope.thy ===== *)
theory SearchScope
  imports SearchLaws
begin

text \<open>
  Whose events the search service shows. The documents of a saved search that is run for a client, and
  of the list of events, belong to the client; the endpoint for canonical events queries refuses
  every caller who has a client, since the field it adds is not in the catalogue; the endpoints for
  free-text and canonical queries do not look at the client; and anybody can have an alert definition
  run over the events of all clients.
\<close>

section \<open>The client's filter in a translated query\<close>

lemma translate_client_filter: "translateFilter ff (client_filter c) = Inr (client_term c)"
  by (simp add: client_filter_def client_term_def translateFilter.simps IsSimpleCondition_def
      translateSimpleCondition_def translateFieldPath_def shouldUseTermQuery_def has_prefix_def
      has_suffix_def Let_def)

lemma Translate_query:
  assumes "Translate ff now q = Inr body" and "q_filter q = Some f"
  obtains p ps where "translateFilter ff f = Inr p"
    and "map_of body ''query'' = Some (obj1 ''bool'' (obj1 ''must'' (GArr (p # ps))))"
  using assms
  by (auto simp: Translate_def buildBoolQuery_def Let_def split: sum.splits if_splits)

context bool_query
begin

lemma with_client_scoped:
  assumes "Translate ff now (with_client c q) = Inr body" and "c \<noteq> []"
  obtains p where "map_of body ''query'' = Some p" and "\<And>d. matches p d \<Longrightarrow> matches (client_term c) d"
proof -
  obtain f where f: "q_filter (with_client c q) = Some f"
    and cases: "f = client_filter c
      \<or> (\<exists>g. f = FilterExpr [] [] GNil ''and'' [g, client_filter c] None)"
    using assms(2) by (cases "q_filter q") (auto simp: with_client_def)
  from Translate_query [OF assms(1) f] obtain p ps where p: "translateFilter ff f = Inr p"
    and body: "map_of body ''query'' = Some (obj1 ''bool'' (obj1 ''must'' (GArr (p # ps))))" .
  have scoped: "matches p d \<Longrightarrow> matches (client_term c) d" for d
    using cases p
    by (auto simp: translate_client_filter translateFilter.simps [of ff "FilterExpr _ _ _ _ _ _"]
        translateCompoundCondition.simps [of ff "FilterExpr _ _ _ _ _ _"] IsSimpleCondition_def
        IsCompoundCondition_def must split: sum.splits)
  show thesis
  proof (rule that [OF body])
    fix d assume "matches (obj1 ''bool'' (obj1 ''must'' (GArr (p # ps)))) d"
    then show "matches (client_term c) d" using scoped by (simp add: must)
  qed
qed

end

context filtered_query
begin

lemma build_scoped:
  assumes "sq_client_id req \<noteq> []"
  obtains p where "map_of (buildOpenSearchQuery req) ''query'' = Some p"
    and "\<And>d. matches p d \<Longrightarrow> matches (client_term (sq_client_id req)) d"
proof -
  let ?c = "client_term (sq_client_id req)"
  obtain fs where fs: "search_filters req = ?c # fs"
    using assms by (simp add: search_filters_def)
  let ?p = "obj1 ''bool'' (if search_must req = [] then obj1 ''filter'' (GArr (?c # fs))
    else GObj [(''must'', GArr (search_must req)), (''filter'', GArr (?c # fs))])"
  have "map_of (buildOpenSearchQuery req) ''query'' = Some ?p"
    by (auto simp: buildOpenSearchQuery_def addAggregations_def addSortAndSearchAfter_def Let_def fs
        split: option.split)
  moreover have "matches ?p d \<Longrightarrow> matches ?c d" for d
    by (auto simp: filtered must_filtered split: if_splits)
  ultimately show thesis by (rule that)
qed

end

section \<open>What a search answers\<close>

text \<open>The hits of the engine match the query of the body.\<close>

definition honest :: "(gval \<Rightarrow> json_map \<Rightarrow> bool) \<Rightarrow> search_env \<Rightarrow> bool" where
  "honest matches env \<longleftrightarrow>
     (\<forall>n body limit found hits aggs p. se_opensearch env n body limit = Os_hits found hits aggs
        \<longrightarrow> map_of body ''query'' = Some p \<longrightarrow> (\<forall>hit\<in>set hits. matches p (fst hit)))"

lemma honestD:
  "honest matches env \<Longrightarrow> os_search env body limit st = (Inr (found, hits, aggs), st') \<Longrightarrow>
     map_of body ''query'' = Some p \<Longrightarrow> hit \<in> set hits \<Longrightarrow> matches p (fst hit)"
  unfolding honest_def os_search_def by (auto split: os_answer.splits) blast

lemma RunSavedSearch_answer:
  assumes "RunSavedSearch env i c st = (Inr resp, st')"
  obtains q now body hits st1 st2 found aggs
  where "Translate (se_format_float env) now (with_client c q) = Inr body"
    and "os_search env body None st1 = (Inr (found, hits, aggs), st2)"
    and "sp_results resp = map fst hits"
  using assms
  by (auto simp: RunSavedSearch_def Let_def split: prod.splits sum.splits option.splits if_splits)

lemma ExecuteSearch_answer:
  assumes "ExecuteSearch env req st = (Inr resp, st')"
  obtains hits st1 st2 found aggs
  where "os_search env (buildOpenSearchQuery req) (Some (clamp_limit (sq_limit req))) st1
      = (Inr (found, hits, aggs), st2)"
    and "sp_results resp = map (\<lambda>(event, _). included (sq_include_fields req) event) hits"
    and "sp_result_count resp = int (length hits)"
  using assms by (auto simp: ExecuteSearch_def Let_def split: prod.splits sum.splits)

lemma events_request_fields:
  "sq_client_id (events_request r uc) = uc_client_id uc" "sq_include_fields (events_request r uc) = []"
  by (simp_all add: events_request_def)

lemma events_answer:
  assumes "ExecuteSearch env (events_request r uc) st = (Inr resp, st')"
  obtains limit hits st1 st2 found aggs
  where "os_search env (buildOpenSearchQuery (events_request r uc)) limit st1 = (Inr (found, hits, aggs), st2)"
    and "sp_results resp = map fst hits"
proof -
  have whole: "map (\<lambda>(event, _). included (sq_include_fields (events_request r uc)) event) hits = map fst hits"
    for hits :: "(json_map \<times> gval list) list"
    by (auto simp: events_request_fields included_def)
  show thesis
    by (rule ExecuteSearch_answer [OF assms], erule that) (simp only: whole)
qed

definition doc_attributes :: "gval \<Rightarrow> json_map" where
  "doc_attributes d =
     (case as_obj d of None \<Rightarrow> [] | Some m \<Rightarrow> (case field_as as_obj m ''attributes'' of None \<Rightarrow> [] | Some a \<Rightarrow> a))"

definition shown_events :: "doc response \<Rightarrow> json_map list" where
  \<comment> \<open>the attributes of a list of resources, or the results of a single one\<close>
  "shown_events resp =
     (case rs_body resp of
        Doc (GObj m) \<Rightarrow>
          (case map_of m ''data'' of
             Some (GArr ds) \<Rightarrow> map doc_attributes ds
           | Some d \<Rightarrow>
               (case field_as as_arr (doc_attributes d) ''results'' of
                  None \<Rightarrow> [] | Some es \<Rightarrow> map (\<lambda>e. case as_obj e of None \<Rightarrow> [] | Some ev \<Rightarrow> ev) es)
           | None \<Rightarrow> [])
      | _ \<Rightarrow> [])"

lemma event_docs_attributes: "map doc_attributes (fst (event_docs env evs st)) = evs"
proof (induction evs arbitrary: st)
  case (Cons ev evs)
  have "doc_attributes (search_resource ''event'' i ev []) = ev" for i
    by (simp add: doc_attributes_def search_resource_def field_as_def)
  moreover have "map doc_attributes docs = evs" if "event_docs env evs st1 = (docs, st2)" for docs st1 st2
    using Cons [of st1] that by simp
  ultimately show ?case by (simp add: Let_def split: prod.split)
qed simp

lemma shown_error: "shown_events (writeJSONAPIError n code title) = []"
  by (simp add: shown_events_def writeJSONAPIError_def WriteJSONAPI_def)

lemma shown_list: "shown_events (fst (event_list env h r resp extra st)) = sp_results resp"
  using event_docs_attributes [of env "sp_results resp" st]
  by (auto simp: event_list_def shown_events_def WriteJSONAPI_def Let_def split: prod.split)

lemma shown_result:
  "shown_events (writeJSONAPIResourceGeneric 200 t i (result_attrs resp @ more')) = sp_results resp"
  by (simp add: shown_events_def writeJSONAPIResourceGeneric_def WriteJSONAPI_def doc_attributes_def
      search_resource_def field_as_def result_attrs_def o_def)

lemma shown_guards:
  assumes "search_requireUserContext h r = Some uc"
  shows "shown_events (fst (as_user h act r st)) = shown_events (fst (act uc r st))"
    and "shown_events (fst (accepting hd' r st)) \<in> {[], shown_events (fst (hd' r st))}"
    and "shown_events (fst (with_id i hd' r st)) \<in> {[], shown_events (fst (hd' r st))}"
  by (simp_all add: assms as_user_def accepting_def with_id_def shown_error)

lemma shown_events_route:
  assumes "search_requireUserContext h r = Some uc" and "uc_client_id uc \<noteq> []"
    and "ev \<in> set (shown_events (fst (Events env h r st)))"
  obtains resp st' where "ExecuteSearch env (events_request r uc) st = (Inr resp, st')"
    and "ev \<in> set (sp_results resp)"
  using assms
  by (auto simp: Events_def accepting_def as_user_def shown_error methodNotAllowedJSONAPI_def shown_list
      split: if_splits prod.splits sum.splits)

lemma shown_run_routes:
  assumes "search_requireUserContext h r = Some uc"
    and "ev \<in> set (shown_events (fst (events_run env h i r st)))
      \<or> ev \<in> set (shown_events (fst (run_saved env h i r st)))"
  obtains resp st' where "RunSavedSearch env i (uc_client_id uc) st = (Inr resp, st')"
    and "ev \<in> set (sp_results resp)"
  using assms
  by (auto simp: events_run_def run_saved_def accepting_def as_user_def with_id_def run_failure_def
      writeJSONAPIConflict_def shown_error methodNotAllowedJSONAPI_def shown_list shown_result
      split: if_splits prod.splits sum.splits)

text \<open>C18: What the list of events, the run of a saved search and the run through the events route show
  a caller who belongs to a client are documents of this client, for every engine that gives \<open>bool\<close>
  queries their documented meaning and answers with matching documents.\<close>

theorem client_sees_own_events:
  assumes "filtered_query matches" and "honest matches env"
    and "search_requireUserContext h r = Some uc" and "uc_client_id uc \<noteq> []"
    and "resp \<in> {fst (Events env h r st), fst (events_run env h i r st), fst (run_saved env h i r st)}"
    and "ev \<in> set (shown_events resp)"
  shows "matches (client_term (uc_client_id uc)) ev"
proof -
  note scoped = filtered_query.build_scoped [OF assms(1), of "events_request r uc"]
    bool_query.with_client_scoped [OF filtered_query.axioms(1) [OF assms(1)] _ assms(4)]
  consider "ev \<in> set (shown_events (fst (Events env h r st)))"
    | "ev \<in> set (shown_events (fst (events_run env h i r st)))
      \<or> ev \<in> set (shown_events (fst (run_saved env h i r st)))"
    using assms(5,6) by auto
  then show ?thesis
  proof cases
    case 1
    from shown_events_route [OF assms(3,4) 1] obtain x st' where
      "ExecuteSearch env (events_request r uc) st = (Inr x, st')" "ev \<in> set (sp_results x)" .
    with events_answer [OF this(1)] obtain limit hits found aggs st1 st2
      where os: "os_search env (buildOpenSearchQuery (events_request r uc)) limit st1
          = (Inr (found, hits, aggs), st2)"
        and "ev \<in> set (map fst hits)"
      by metis
    then obtain hit where hit: "hit \<in> set hits" "ev = fst hit" by auto
    from scoped(1) obtain p where "map_of (buildOpenSearchQuery (events_request r uc)) ''query'' = Some p"
      and p: "\<And>d. matches p d \<Longrightarrow> matches (client_term (uc_client_id uc)) d"
      using assms(4) unfolding events_request_fields by blast
    from honestD [OF assms(2) os this(1) hit(1)] p show ?thesis by (simp add: hit(2))
  next
    case 2
    from shown_run_routes [OF assms(3) 2] obtain x st' where
      "RunSavedSearch env i (uc_client_id uc) st = (Inr x, st')" "ev \<in> set (sp_results x)" .
    with RunSavedSearch_answer [OF this(1)] obtain q now body hits found aggs st1 st2
      where tr: "Translate (se_format_float env) now (with_client (uc_client_id uc) q) = Inr body"
        and os: "os_search env body None st1 = (Inr (found, hits, aggs), st2)"
        and "ev \<in> set (map fst hits)"
      by metis
    then obtain hit where hit: "hit \<in> set hits" "ev = fst hit" by auto
    from scoped(2) [OF tr] obtain p where "map_of body ''query'' = Some p"
      and p: "\<And>d. matches p d \<Longrightarrow> matches (client_term (uc_client_id uc)) d"
      by blast
    from honestD [OF assms(2) os this(1) hit(1)] p show ?thesis by (simp add: hit(2))
  qed
qed

section \<open>Canonical events queries\<close>

lemma client_id_unknown: "\<not> IsValidField ''.client_id''"
  by code_simp

lemma with_client_rejected:
  assumes "c \<noteq> []"
  shows "Validate re_ok NewQueryValidator (Some (with_client c q)) \<noteq> None"
proof
  assume valid: "Validate re_ok NewQueryValidator (Some (with_client c q)) = None"
  have mappings: "validateFieldMappings NewQueryValidator" by code_simp
  have "client_filter c \<in> set (leaves (client_filter c))"
    by (subst leaves.simps) (simp add: client_filter_def)
  then obtain f where f: "q_filter (with_client c q) = Some f" and "client_filter c \<in> set (leaves f)"
    using assms by (cases "q_filter q")
      (auto simp: with_client_def leaves.simps [of "FilterExpr [] [] GNil ''and'' _ None"])
  from validated_conditions_use_catalogue [OF valid mappings this] client_id_unknown show False
    by (simp add: client_filter_def)
qed

lemma error_status: "rs_status (writeJSONAPIError n code title) = n"
  by (simp add: writeJSONAPIError_def WriteJSONAPI_def)

lemma events_query_rejected:
  assumes "search_requireUserContext h r = Some uc" and "uc_client_id uc \<noteq> []"
  shows "rs_status (fst (events_query env h r st)) \<in> {400, 405, 406, 415, 500}"
proof -
  have "ExecuteQuery env (with_client (uc_client_id uc) q) st
      = (Inl (ErrValidationFailed ''query''), snd (sx_Now env st))" for q
    using with_client_rejected [OF assms(2), of "se_regexp env" q]
    by (auto simp: ExecuteQuery_def Let_def split: prod.split option.split)
  then show ?thesis
    by (auto simp: events_query_def methodNotAllowedJSONAPI_def accepting_def typed_body_def as_user_def
        assms(1) with_resource_def error_status split: option.split)
qed

lemma events_query_route:
  "rq_path r = ''/api/v1/events/query'' \<Longrightarrow>
     search_NewRouter env h metrics nats r st = events_query env h r st"
  by (simp add: search_NewRouter_def EventsByAction_def after_prefix_def has_prefix_def)

text \<open>C19: Every canonical events query of a caller who belongs to a client is refused, whatever the body
  and whatever OpenSearch would answer: the field \<open>.client_id\<close> that the handler adds for the sake of
  isolation is not in the field catalogue the validator consults.\<close>

theorem events_query_refused:
  assumes "search_requireUserContext h r = Some uc" and "uc_client_id uc \<noteq> []"
    and "rq_path r = ''/api/v1/events/query''"
  shows "rs_status (fst (search_NewRouter env h metrics nats r st)) \<in> {400, 405, 406, 415, 500}"
  unfolding events_query_route [OF assms(3)] by (rule events_query_rejected) fact+

section \<open>Queries without a client\<close>

lemma search_error_text_ask [simp]:
  "search_error_text (h\<lparr>sh_ask := ask\<rparr>) e = search_error_text h e"
  by (cases e) simp_all

lemma with_resource_ask [simp]:
  "with_resource (h\<lparr>sh_ask := ask\<rparr>) dec typ act = with_resource h dec typ act"
  by (intro ext) (simp add: with_resource_def decodeJSONAPIResource_def split: option.split)

text \<open>The endpoints for free-text and canonical queries answer two accepted callers alike, whatever
  clients they belong to: nothing in the query sent to OpenSearch depends on the caller.\<close>

lemma search_ignores_caller:
  assumes "search_requireUserContext (h\<lparr>sh_ask := ask1\<rparr>) r = Some uc1"
    and "search_requireUserContext (h\<lparr>sh_ask := ask2\<rparr>) r = Some uc2"
  shows "Search env (h\<lparr>sh_ask := ask1\<rparr>) r st = Search env (h\<lparr>sh_ask := ask2\<rparr>) r st
    \<and> h_Query env (h\<lparr>sh_ask := ask1\<rparr>) r st = h_Query env (h\<lparr>sh_ask := ask2\<rparr>) r st"
  using assms by (simp add: Search_def h_Query_def accepting_def typed_body_def as_user_def
      cong: prod.case_cong sum.case_cong)

section \<open>Anybody's alert definitions\<close>

definition hits_of :: "os_answer \<Rightarrow> (json_map \<times> gval list) list" where
  "hits_of a = (case a of Os_failed _ \<Rightarrow> [] | Os_hits _ hits _ \<Rightarrow> hits)"

lemma ExecuteSearch_count:
  "case fst (ExecuteSearch env req st) of
     Inl _ \<Rightarrow> hits_of (se_opensearch env (Suc (sx_tick st)) (buildOpenSearchQuery req)
       (Some (clamp_limit (sq_limit req)))) = []
   | Inr x \<Rightarrow> sp_result_count x = int (length (hits_of (se_opensearch env (Suc (sx_tick st))
       (buildOpenSearchQuery req) (Some (clamp_limit (sq_limit req))))))"
  by (simp add: ExecuteSearch_def os_search_def sx_Now_def sx_step_def hits_of_def Let_def
      split: os_answer.split prod.split)

lemma executeAlert_triggered:
  assumes "find (\<lambda>a. ad_id a = i) (ListAlerts st) = Some a" and "alert_active a"
  obtains now where "sd_triggered (fst (executeAlert env nv ch i (s, st))) = sd_triggered s
    + (if hits_of (se_opensearch env (sx_tick st + 2) (buildOpenSearchQuery
          (job_search (ad_query a) 100 (Some (now - alert_lookback a, now)))) (Some 100)) = [] then 0 else 1)"
proof -
  let ?now = "se_now env (sx_tick st)"
  let ?req = "job_search (ad_query a) 100 (Some (?now - alert_lookback a, ?now))"
  obtain res st2 where ex: "ExecuteSearch env ?req (sx_step st) = (res, st2)" by fastforce
  have "clamp_limit (sq_limit ?req) = 100"
    by (simp add: clamp_limit_def job_search_def)
  then have "sd_triggered (fst (executeAlert env nv ch i (s, st))) = sd_triggered s
    + (if hits_of (se_opensearch env (sx_tick st + 2) (buildOpenSearchQuery ?req) (Some 100)) = []
       then 0 else 1)"
    using assms ex ExecuteSearch_count [where env = env and req = ?req and st = "sx_step st"]
    by (cases res) (simp_all add: executeAlert_def sx_Now_def sx_step_def Let_def split: option.split)
  then show thesis by (rule that)
qed

definition alerts_keyed :: "search_state \<Rightarrow> bool" where
  \<comment> \<open>the definitions are kept under their own identifiers\<close>
  "alerts_keyed st \<longleftrightarrow> distinct (map fst (sx_alerts st)) \<and> (\<forall>i a. map_of (sx_alerts st) i = Some a \<longrightarrow> ad_id a = i)"

lemma set_ListAlerts: "set (ListAlerts st) = snd ` set (sx_alerts st)"
  by (simp add: ListAlerts_def at_name_def)

lemma find_alert:
  assumes "alerts_keyed st" and "map_of (sx_alerts st) i = Some a"
  shows "find (\<lambda>a. ad_id a = i) (ListAlerts st) = Some a"
proof -
  have unique: "b = a" if b: "b \<in> set (ListAlerts st)" "ad_id b = i" for b
  proof -
    from b(1) obtain j where "(j, b) \<in> set (sx_alerts st)" by (auto simp: set_ListAlerts)
    then have j: "map_of (sx_alerts st) j = Some b"
      using assms(1) by (simp add: alerts_keyed_def)
    then have "j = i" using assms(1) b(2) unfolding alerts_keyed_def by blast
    with j assms(2) show ?thesis by simp
  qed
  have "a \<in> set (ListAlerts st)"
    using map_of_SomeD [OF assms(2)] by (force simp: set_ListAlerts)
  moreover have "ad_id a = i" using assms by (simp add: alerts_keyed_def)
  ultimately have "find (\<lambda>a. ad_id a = i) (ListAlerts st) \<noteq> None" by (auto simp: find_None_iff)
  then obtain b where b: "find (\<lambda>a. ad_id a = i) (ListAlerts st) = Some b" by blast
  then have "b \<in> set (ListAlerts st)" "ad_id b = i" by (auto simp: find_Some_iff)
  with b unique show ?thesis by simp
qed

lemma UpsertAlert_put:
  assumes "aq_id req = Some i" and "i \<noteq> []" and "UpsertAlert env req st = ((a, created), st')"
  shows "ad_id a = i" and "ad_query a = aq_query req"
    and "ad_status a = (if aq_status req = [] then ''active'' else aq_status req)"
    and "sx_alerts st' = map_put i a (sx_alerts st)" and "sx_tick st' = sx_tick st"
  using assms by (auto simp: UpsertAlert_def Let_def)

lemma keyed_put:
  "alerts_keyed st \<Longrightarrow> ad_id a = i \<Longrightarrow> sx_alerts st' = map_put i a (sx_alerts st) \<Longrightarrow> alerts_keyed st'"
  by (auto simp: alerts_keyed_def distinct_map_put)

lemma alert_scheduled:
  "fst ` set (sd_timers (fold scheduleAlert as s)) = fst ` set (sd_timers s) \<union> ad_id ` set as"
  by (induction as arbitrary: s) (auto simp: scheduleAlert_def image_iff)

lemma fst_filter: "fst ` set (filter (\<lambda>(i, _). i \<in> A) xs) = fst ` set xs \<inter> A"
  by force

definition active_alerts :: "search_state \<Rightarrow> alert_definition list" where
  "active_alerts st = filter alert_active (ListAlerts st)"

lemma syncAlerts_eq:
  defines "s' \<equiv> \<lambda>env s st. fold scheduleAlert (active_alerts st) (s\<lparr>sd_last_check := se_now env (sx_tick st)\<rparr>)"
  shows "syncAlerts env (s, st) = ((s' env s st)\<lparr>sd_timers :=
    filter (\<lambda>(i, _). i \<in> ad_id ` set (active_alerts st)) (sd_timers (s' env s st))\<rparr>, sx_step st)"
proof -
  have "ListAlerts (sx_step st) = ListAlerts st" by (simp add: ListAlerts_def sx_step_def)
  then show ?thesis by (simp add: syncAlerts_def sx_Now_def Let_def s'_def active_alerts_def)
qed

lemma sync_timers:
  "fst ` set (sd_timers (fst (syncAlerts env (s, st)))) = ad_id ` set (active_alerts st)"
  by (simp add: syncAlerts_eq fst_filter alert_scheduled del: set_filter)

lemma schedule_counts:
  "sd_triggered (fold scheduleAlert as s) = sd_triggered s"
  "sd_running (fold scheduleAlert as s) = sd_running s"
  by (induction as arbitrary: s) (simp_all add: scheduleAlert_def)

text \<open>Whoever can reach the service has a query run over the events of every client: an alert
  definition is accepted without a token, the next check of a running scheduler starts its timer, and
  at the timer's tick the query of the request, with no term for a client, decides whether the alert
  is triggered.\<close>

lemma anonymous_query_executed:
  assumes "rq_path r = ''/api/v1/alerts''" and "rq_method r = ''POST''" and "acceptJSONAPI r"
    and "containsJSONAPI (rq_header r ''Content-Type'')"
    and "decodeJSONAPIResource h (sh_alert h) r = Some (''alert'', rid, req)"
    and "aq_id req = Some i" and "i \<noteq> []" and "aq_status req = []"
    and "sd_running s" and "alerts_keyed st"
  shows "\<exists>now lookback n.
     sd_triggered (fst (search_run je h nv ch [Http_request r, Scheduler_check, Scheduler_tick i] (s, st)))
     = sd_triggered s + (if hits_of (se_opensearch (je_search je) n (buildOpenSearchQuery
          (job_search (aq_query req) 100 (Some (now - lookback, now)))) (Some 100)) = [] then 0 else 1)"
proof -
  let ?env = "je_search je"
  obtain a created st1 where up: "UpsertAlert ?env req st = ((a, created), st1)"
    by (metis prod.exhaust)
  note put = UpsertAlert_put [OF assms(6,7) up]
  have "snd (search_NewRouter ?env h m n r st) = st1" for m n
    using assms(1-5)
    by (simp add: search_NewRouter_def Let_def has_prefix_def Alerts_def handleUpsertAlert_def accepting_def
        typed_body_def with_resource_def up)
  then have one: "search_event_step je h nv ch (Http_request r) (s, st) = (s, st1)"
    by (simp add: search_event_step_def sched_step_def Let_def)
  have keyed: "alerts_keyed st1" by (rule keyed_put [OF assms(10) put(1,4)])
  have found: "find (\<lambda>a. ad_id a = i) (ListAlerts st1) = Some a"
    by (rule find_alert [OF keyed]) (simp add: put(4))
  have active: "alert_active a" using put(3) assms(8) by (simp add: alert_active_def)
  have alerts: "ListAlerts (sx_step st1) = ListAlerts st1" by (simp add: ListAlerts_def sx_step_def)
  let ?s2 = "fst (syncAlerts ?env (s, st1))"
  have two: "search_event_step je h nv ch Scheduler_check (s, st1) = (?s2, sx_step st1)"
    using assms(9) by (simp add: search_event_step_def sched_step_def syncAlerts_eq)
  have trig: "sd_triggered ?s2 = sd_triggered s"
    by (simp add: syncAlerts_eq schedule_counts)
  have "a \<in> set (active_alerts st1)"
    using found active by (auto simp: active_alerts_def find_Some_iff)
  then have "i \<in> fst ` set (sd_timers ?s2)"
    using put(1) by (auto simp: sync_timers)
  then have three: "search_event_step je h nv ch (Scheduler_tick i) (?s2, sx_step st1)
      = executeAlert ?env nv ch i (?s2, sx_step st1)"
    by (simp add: search_event_step_def sched_step_def)
  have "find (\<lambda>a. ad_id a = i) (ListAlerts (sx_step st1)) = Some a" using found alerts by simp
  from executeAlert_triggered [OF this active] obtain now where
    "sd_triggered (fst (executeAlert ?env nv ch i (?s2, sx_step st1))) = sd_triggered ?s2
     + (if hits_of (se_opensearch ?env (sx_tick (sx_step st1) + 2) (buildOpenSearchQuery
          (job_search (ad_query a) 100 (Some (now - alert_lookback a, now)))) (Some 100)) = [] then 0 else 1)" .
  moreover have "search_run je h nv ch [Http_request r, Scheduler_check, Scheduler_tick i] (s, st)
      = executeAlert ?env nv ch i (?s2, sx_step st1)"
    by (simp add: search_run_def one two three)
  ultimately show ?thesis using trig put(2) by metis
qed

end
