(* ===== verification/SearchSamples.thy ===== *)
theory SearchSamples
  imports SearchScope
begin

text \<open>
  A search service small enough to evaluate: an engine that answers with the documents that match, a
  store that takes every value as it is, and callers of two clients. The properties of \<open>SearchScope\<close>
  and of the theories that follow are applied to it.
\<close>

definition sample_event :: "string \<Rightarrow> json_map" where
  "sample_event c = [(''id'', GStr (''e-'' @ c)), (''client_id'', GStr c), (''user'', GStr ''eve'')]"

definition leaf_query :: "gval \<Rightarrow> json_map \<Rightarrow> bool" where
  "leaf_query q d =
     (case q of
        GObj [(k, GObj [(f, v)])] \<Rightarrow> if k = ''term'' then map_of d f = Some v else True
      | _ \<Rightarrow> True)"

definition sample_engine :: "json_map list \<Rightarrow> json_map \<Rightarrow> os_answer" where
  "sample_engine docs body =
     (let hits = filter (\<lambda>d. case map_of body ''query'' of
                    None \<Rightarrow> True | Some q \<Rightarrow> eval_bool leaf_query q d) docs in
      Os_hits (int (length hits)) (map (\<lambda>d. (d, [])) hits) None)"

definition sample_search_env :: search_env where
  "sample_search_env =
     \<lparr>se_repo = True, se_fate = (\<lambda>_. Executed), se_received = (\<lambda>_. 0),
      se_now = (\<lambda>n. (1700000000 + int n) * second), se_random = (\<lambda>n. Some (replicate 16 (word_of_nat n))),
      se_clock_text = (\<lambda>_. []), se_uuid = Some, se_text = (\<lambda>_. True), se_timestamp = (\<lambda>t. t),
      se_query_column = Some, se_filters_column = Some, se_decode_query = (\<lambda>_. Some sample_query),
      se_regexp = (\<lambda>_. True), se_format_float = (\<lambda>_ _. []), se_json_text = (\<lambda>_. []),
      se_opensearch = (\<lambda>_ body _. sample_engine [sample_event ''c1'', sample_event ''c2''] body)\<rparr>"

definition sample_search_http :: search_http where
  "sample_search_http =
     \<lparr>sh_auth = True,
      sh_ask = (\<lambda>t. Some (200, Some \<lparr>va_valid = True, va_user_id = ''u-'' @ t, va_roles = [],
        va_organization_id = [], va_client_id = t\<rparr>)),
      sh_payload = (\<lambda>b. Some (b, [], b)),
      sh_search = (\<lambda>_. Some (job_search ''*'' 10 None)), sh_query = (\<lambda>_. Some sample_query),
      sh_saved_create = (\<lambda>_. Some \<lparr>sc_name = ''mine'', sc_query = Some [], sc_filters = None,
        sc_is_global = False, sc_created_by = []\<rparr>),
      sh_saved_update = (\<lambda>_. None),
      sh_alert = (\<lambda>_. Some \<lparr>aq_id = Some ''a1'', aq_name = ''all'', aq_description = [], aq_query = ''*'',
        aq_severity = ''low'', aq_interval_minutes = 1, aq_lookback_minutes = 60, aq_status = [],
        aq_owner = []\<rparr>),
      sh_export = (\<lambda>_. True), sh_patch = (\<lambda>_. None), sh_body_error = (\<lambda>_. []), sh_error = (\<lambda>_. []),
      sh_time = (\<lambda>_. []), sh_request_uri = rq_path\<rparr>"

definition search_call :: "string \<Rightarrow> string \<Rightarrow> string \<Rightarrow> string \<Rightarrow> request" where
  "search_call meth path token body =
     \<lparr>rq_method = meth, rq_host = [], rq_path = path,
      rq_header = (\<lambda>k. if k = ''Authorization'' then (if token = [] then [] else ''Bearer '' @ token)
        else if k = ''Content-Type'' then ''application/vnd.api+json'' else []),
      rq_query = (\<lambda>_. []), rq_cookie = (\<lambda>_. None), rq_remote_addr = [], rq_body = Some body\<rparr>"

definition empty_search :: search_state where
  "empty_search = NewSearchService sample_search_env ''0.1.0'' []"

definition sample_system :: job_env where
  "sample_system = \<lparr>je_search = sample_search_env, je_parse_time = (\<lambda>_. None), je_error = (\<lambda>_. [])\<rparr>"

definition sample_notify :: notify_env where
  "sample_notify = \<lparr>nt_post = (\<lambda>_ _. None), nt_now_text = [], nt_now = 0\<rparr>"

lemma sample_honest: "honest (eval_bool leaf_query) sample_search_env"
  by (auto simp: honest_def sample_search_env_def sample_engine_def Let_def)

definition caller :: "string \<Rightarrow> user_context" where
  "caller c = \<lparr>uc_user_id = ''u-'' @ c, uc_roles = [], uc_organization_id = [], uc_client_id = c\<rparr>"

lemma sample_caller:
  "search_requireUserContext sample_search_http (search_call ''GET'' ''/api/v1/events'' ''c1'' [])
    = Some (caller ''c1'')"
  by code_simp

lemma sample_shown:
  "shown_events (fst (Events sample_search_env sample_search_http
      (search_call ''GET'' ''/api/v1/events'' ''c1'' []) empty_search)) = [sample_event ''c1'']"
  by code_simp

section \<open>The properties at the sample\<close>

theorem client_sees_own_events_witness:
  "shown_events (fst (Events sample_search_env sample_search_http
      (search_call ''GET'' ''/api/v1/events'' ''c1'' []) empty_search)) = [sample_event ''c1'']
   \<and> eval_bool leaf_query (client_term ''c1'') (sample_event ''c1'')"
proof
  show "eval_bool leaf_query (client_term ''c1'') (sample_event ''c1'')"
    using client_sees_own_events [OF engine.filtered_query_axioms sample_honest sample_caller,
        of "fst (Events sample_search_env sample_search_http
          (search_call ''GET'' ''/api/v1/events'' ''c1'' []) empty_search)" empty_search _ "sample_event ''c1''"]
    by (simp add: sample_shown caller_def)
qed (rule sample_shown)

definition query_call :: request where
  "query_call = search_call ''POST'' ''/api/v1/events/query'' ''c1'' ''event-query''"

theorem events_query_refused_witness:
  "rs_status (fst (search_NewRouter sample_search_env sample_search_http None None query_call empty_search))
     \<in> {400, 405, 406, 415, 500}"
proof (rule events_query_refused)
  show "search_requireUserContext sample_search_http query_call = Some (caller ''c1'')" by code_simp
qed (simp_all add: caller_def query_call_def search_call_def)

lemma search_shows_everything:
  "shown_events (fst (Search sample_search_env sample_search_http
      (search_call ''POST'' ''/api/v1/search'' ''c1'' ''search'') empty_search))
   = [sample_event ''c1'', sample_event ''c2'']"
  by code_simp

definition alert_call :: request where
  "alert_call = search_call ''POST'' ''/api/v1/alerts'' [] ''alert''"

lemma anonymous_query_executed_example:
  "\<exists>now lookback n.
     sd_triggered (fst (search_run sample_system sample_search_http sample_notify LogChannel
       [Http_request alert_call, Scheduler_check, Scheduler_tick ''a1'']
       ((NewScheduler 0)\<lparr>sd_running := True\<rparr>, empty_search)))
     = sd_triggered ((NewScheduler 0)\<lparr>sd_running := True\<rparr>)
       + (if hits_of (se_opensearch (je_search sample_system) n (buildOpenSearchQuery
            (job_search (aq_query (the (sh_alert sample_search_http ''alert''))) 100 (Some (now - lookback, now))))
            (Some 100)) = [] then 0 else 1)"
proof (rule anonymous_query_executed)
  show "decodeJSONAPIResource sample_search_http (sh_alert sample_search_http) alert_call
      = Some (''alert'', [], the (sh_alert sample_search_http ''alert''))"
    by code_simp
  show "containsJSONAPI (rq_header alert_call ''Content-Type'')" by code_simp
  show "acceptJSONAPI alert_call" by code_simp
  show "alerts_keyed empty_search"
    by (simp add: alerts_keyed_def empty_search_def NewSearchService_def Let_def)
qed (simp_all add: alert_call_def search_call_def sample_search_http_def)

definition create_call :: request where
  "create_call = search_call ''POST'' ''/api/v1/saved-searches'' ''c1'' ''saved-search''"

definition after_create :: "scheduler \<times> search_state" where
  "after_create = search_run sample_system sample_search_http sample_notify LogChannel
     [Http_request create_call, Http_request alert_call] (NewScheduler 0, empty_search)"

theorem saved_versions_append_only_witness:
  "map (ss_name \<circ> sr_search) (sx_saved (snd after_create)) = [''mine'']
   \<and> sx_saved (snd (search_run sample_system sample_search_http sample_notify LogChannel
        [Http_request alert_call] after_create)) = sx_saved (snd after_create)"
proof
  show "map (ss_name \<circ> sr_search) (sx_saved (snd after_create)) = [''mine'']" by code_simp
  have "\<not> has_token sample_search_http (Http_request alert_call)" by code_simp
  then show "sx_saved (snd (search_run sample_system sample_search_http sample_notify LogChannel
        [Http_request alert_call] after_create)) = sx_saved (snd after_create)"
    using saved_versions_append_only [of sample_system sample_search_http sample_notify LogChannel
        "[Http_request alert_call]" after_create] by auto
qed

end
