(* ===== verification/SearchPaging.thy ===== *)
theory SearchPaging
  imports Numerals SearchSamples "HOL-Library.Multiset"
begin

text \<open>
  Following the cursor through the pages of saved searches. A cursor is the creation time and the
  version of the last search of a page, and the next page starts strictly below it, so the pages end,
  whatever becomes of the statements; where no listed search is disabled they hold every search below
  the cursor, newest first. A disabled search is sorted behind the others and not below their cursors,
  and can be lost.
\<close>

section \<open>Cursors\<close>

lemma cursor_of_buildCursor:
  "cursor_of (buildCursor s) =
     (if - (2 ^ 63) \<le> ss_created_at s \<and> ss_created_at s < 2 ^ 63
      then Some (ss_created_at s, ss_version_id s) else None)"
proof -
  have "cut_at (CHR ''|'') (buildCursor s) = (int_string (ss_created_at s), Some (ss_version_id s))"
    using cut_at_append [OF no_separator(2)] by (simp add: buildCursor_def)
  then show ?thesis by (simp add: cursor_of_def atoi_int_string)
qed

section \<open>The order of a page\<close>

definition page_key :: "saved_search \<Rightarrow> time \<times> string" where
  "page_key s = (ss_created_at s, ss_version_id s)"

definition page_rows ::
  "search_env \<Rightarrow> bool \<Rightarrow> time \<Rightarrow> string \<Rightarrow> search_state \<Rightarrow> saved_search list" where
  \<comment> \<open>the listed searches below a cursor\<close>
  "page_rows env showAll t v st =
     (case se_uuid env v of
        None \<Rightarrow> []
      | Some u \<Rightarrow> filter (after_cursor (se_timestamp env t) u) (listed showAll (sx_saved st)))"

definition page_order :: "saved_search list \<Rightarrow> saved_search list" where
  "page_order xs = active_first (rev (sort_key ss_version_id xs))"

lemma set_page_order [simp]: "set (page_order xs) = set xs"
  by (simp add: page_order_def active_first_def)

lemma ListLatestAfter_page:
  assumes "ListLatestAfter env showAll (Some t) v n st = (Inr rs, st')" and "0 < n"
  shows "\<exists>k. rs = take k (page_order (page_rows env showAll t v st))"
    and "se_fate env (sx_tick st) = Executed \<Longrightarrow> rs = take (nat n) (page_order (page_rows env showAll t v st))"
    and "sx_saved st' = sx_saved st" and "\<not> is_zero t \<and> v \<noteq> []"
proof -
  let ?c = "if is_zero t \<or> v = [] then None else Some (t, v)"
  have "read_rows env (select_after env showAll ?c n) st = (Inr rs, st')"
    using assms by (simp add: ListLatestAfter_def Let_def)
  then have "\<exists>ys k. select_after env showAll ?c n st = Some ys \<and> rs = take k ys
      \<and> (se_fate env (sx_tick st) = Executed \<longrightarrow> rs = ys) \<and> sx_saved st' = sx_saved st"
    by (auto simp: read_rows_def sx_step_def split: stmt_fate.splits option.splits) (metis order_refl take_all)+
  then obtain ys k where ys: "select_after env showAll ?c n st = Some ys" "rs = take k ys"
    and ex: "se_fate env (sx_tick st) = Executed \<Longrightarrow> rs = ys" and st': "sx_saved st' = sx_saved st"
    by blast
  show "sx_saved st' = sx_saved st" by (rule st')
  show set: "\<not> is_zero t \<and> v \<noteq> []"
    using ys(1) by (auto simp: select_after_def split: if_splits)
  with ys(1) have "ys = take (nat n) (page_order (page_rows env showAll t v st))"
    by (auto simp: select_after_def page_rows_def page_order_def active_first_def split: option.splits)
  then show "\<exists>k. rs = take k (page_order (page_rows env showAll t v st))"
    and "se_fate env (sx_tick st) = Executed \<Longrightarrow> rs = take (nat n) (page_order (page_rows env showAll t v st))"
    using ys(2) ex by auto
qed

section \<open>Following the cursor\<close>

fun follow ::
  "nat \<Rightarrow> search_env \<Rightarrow> bool \<Rightarrow> int \<Rightarrow> string \<Rightarrow> search_state \<Rightarrow> saved_search list option" where
  \<comment> \<open>what a client collects that asks for page after page until none is announced; None: not yet done.
     A page that cannot be read ends it.\<close>
  "follow 0 env showAll n cur st = None"
| "follow (Suc k) env showAll n cur st =
     (let (ca, cv) = (case cursor_of cur of None \<Rightarrow> (None, []) | Some (t, v) \<Rightarrow> (Some t, v)) in
      case ListSavedSearchesAfter env showAll ca cv n st of
        (Inl _, st1) \<Rightarrow> Some []
      | (Inr results, st1) \<Rightarrow>
          if int (length results) = n
          then map_option ((@) results) (follow k env showAll n (buildCursor (last results)) st1)
          else Some results)"

definition rows_canonical :: "search_env \<Rightarrow> search_state \<Rightarrow> bool" where
  \<comment> \<open>what the columns hold is read back unchanged\<close>
  "rows_canonical env st \<longleftrightarrow>
     (\<forall>r\<in>set (sx_saved st). se_timestamp env (ss_created_at (sr_search r)) = ss_created_at (sr_search r)
        \<and> se_uuid env (ss_version_id (sr_search r)) = Some (ss_version_id (sr_search r)))"

lemma insert_keeps_canonical:
  assumes "rows_canonical env st" and "insert_saved env s st = Some st'"
    and "\<And>t. se_timestamp env (se_timestamp env t) = se_timestamp env t"
    and "\<And>v u. se_uuid env v = Some u \<Longrightarrow> se_uuid env u = Some u"
  shows "rows_canonical env st'"
  using assms
  by (auto simp: rows_canonical_def insert_saved_def saved_row_of_def split: option.splits if_splits)

lemma distinct_on_subset: "set (distinct_on f xs) \<subseteq> set xs"
  by (induction f xs rule: distinct_on.induct) auto

lemma listed_subset: "set (listed showAll rows) \<subseteq> sr_search ` set rows"
  using distinct_on_subset [of ss_id "sort_key ss_id (newest_versions rows)"]
  by (auto simp: listed_def latest_versions_def newest_versions_def)

lemma length_distinct_on: "length (distinct_on f xs) \<le> length xs"
proof (induction f xs rule: distinct_on.induct)
  case (2 f r rows)
  have "length (filter (\<lambda>q. f q \<noteq> f r) rows) \<le> length rows" by (rule length_filter_le)
  with 2 show ?case by (auto intro: le_trans)
qed simp

lemma length_listed: "length (listed showAll rows) \<le> length rows"
proof -
  have "length (latest_versions rows) \<le> length rows"
    using length_distinct_on [of ss_id "sort_key ss_id (newest_versions rows)"]
    by (simp add: latest_versions_def newest_versions_def)
  from order_trans [OF length_filter_le this] show ?thesis by (simp add: listed_def)
qed

lemma page_rows_below:
  assumes "rows_canonical env st" and "s \<in> set (page_rows env showAll t v st)"
  shows "page_rows env showAll (ss_created_at s) (ss_version_id s) st =
      filter (\<lambda>x. page_key x < page_key s) (listed showAll (sx_saved st))"
    and "page_rows env showAll (ss_created_at s) (ss_version_id s) st =
      filter (\<lambda>x. page_key x < page_key s) (page_rows env showAll t v st)"
proof -
  from assms(2) obtain u where u: "se_uuid env v = Some u"
    and s: "s \<in> set (listed showAll (sx_saved st))" "after_cursor (se_timestamp env t) u s"
    by (cases "se_uuid env v") (auto simp: page_rows_def)
  from s(1) obtain r where "r \<in> set (sx_saved st)" "s = sr_search r" using listed_subset by blast
  with assms(1) have "se_timestamp env (ss_created_at s) = ss_created_at s"
    "se_uuid env (ss_version_id s) = Some (ss_version_id s)"
    by (auto simp: rows_canonical_def)
  then show below: "page_rows env showAll (ss_created_at s) (ss_version_id s) st =
      filter (\<lambda>x. page_key x < page_key s) (listed showAll (sx_saved st))"
    by (simp add: page_rows_def after_cursor_def [abs_def] page_key_def)
  have "after_cursor (se_timestamp env t) u x" if "page_key x < page_key s" for x
    using that s(2) by (auto simp: after_cursor_def page_key_def less_prod_def' split: if_splits intro: less_trans)
  then show "page_rows env showAll (ss_created_at s) (ss_version_id s) st =
      filter (\<lambda>x. page_key x < page_key s) (page_rows env showAll t v st)"
    unfolding below by (auto simp: page_rows_def u intro: filter_cong)
qed

lemma page_rows_shrink:
  assumes "rows_canonical env st" and "s \<in> set (page_rows env showAll t v st)"
  shows "length (page_rows env showAll (ss_created_at s) (ss_version_id s) st)
    < length (page_rows env showAll t v st)"
  unfolding page_rows_below(2) [OF assms]
  by (rule length_filter_less [OF assms(2)]) simp

lemma follow_ends:
  assumes "rows_canonical env st" and "0 < n"
    and "\<And>t v. cursor_of cur = Some (t, v) \<Longrightarrow> length (page_rows env showAll t v st) < k"
    and "0 < k"
  shows "follow k env showAll n cur st \<noteq> None"
  using assms
proof (induction k arbitrary: cur st)
  case (Suc k)
  show ?case
  proof (cases "cursor_of cur")
    case None
    then show ?thesis
      by (auto simp: ListSavedSearchesAfter_def with_repo_def ListLatestAfter_def read_rows_def
          select_after_def Let_def split: stmt_fate.split)
  next
    case (Some c)
    then obtain t v where c: "cursor_of cur = Some (t, v)" by (cases c) auto
    show ?thesis
    proof (cases "ListSavedSearchesAfter env showAll (Some t) v n st")
      case (Pair res st1)
      show ?thesis
      proof (cases "\<exists>rs. res = Inr rs \<and> int (length rs) = n")
        case True
        then obtain rs where rs: "res = Inr rs" "int (length rs) = n" by blast
        then have page: "ListLatestAfter env showAll (Some t) v n st = (Inr rs, st1)"
          using Pair by (auto simp: ListSavedSearchesAfter_def with_repo_def split: if_splits)
        note facts = ListLatestAfter_page [OF page Suc.prems(2)]
        have "rs \<noteq> []" using rs(2) Suc.prems(2) by auto
        then have "last rs \<in> set (page_rows env showAll t v st)"
          using facts(1) by (metis last_in_set set_page_order in_set_takeD)
        from page_rows_shrink [OF Suc.prems(1) this]
        have less: "length (page_rows env showAll (ss_created_at (last rs)) (ss_version_id (last rs)) st) < k"
          and "0 < k"
          using Suc.prems(3) [OF c] by linarith+
        moreover have same: "page_rows env showAll a b st1 = page_rows env showAll a b st" for a b
          using facts(3) by (simp add: page_rows_def split: option.split)
        moreover have "rows_canonical env st1" using Suc.prems(1) facts(3) by (simp add: rows_canonical_def)
        ultimately have "follow k env showAll n (buildCursor (last rs)) st1 \<noteq> None"
          using Suc.prems(2) by (intro Suc.IH) (auto simp: cursor_of_buildCursor split: if_splits)
        then show ?thesis by (simp add: c Pair rs)
      next
        case False
        then show ?thesis by (auto simp: c Pair split: sum.split)
      qed
    qed
  qed
qed simp

text \<open>C25: Following the cursors of the saved searches ends: as many requests as there are stored versions,
  and one more, reach a page that announces no next one, from any cursor a client sends, at any page
  size, and whatever becomes of the statements.\<close>

theorem paging_ends:
  assumes "rows_canonical env st" and "0 < n"
  shows "\<exists>found. follow (Suc (length (sx_saved st))) env showAll n cur st = Some found"
proof -
  have "length (page_rows env showAll t v st) \<le> length (sx_saved st)" for t v
    using length_listed [of showAll "sx_saved st"]
    by (auto simp: page_rows_def split: option.split intro: order_trans [OF length_filter_le])
  then show ?thesis
    using follow_ends [OF assms, of cur showAll "Suc (length (sx_saved st))"]
    by (auto simp: less_Suc_eq_le)
qed

section \<open>Pages without disabled searches\<close>

lemma insort_key_lexicographic:
  assumes "sorted_wrt (\<lambda>a b. f a < f b \<or> f a = f b \<and> P a b) zs" and "\<forall>z\<in>set zs. P y z"
    and "sorted (map f zs)"
  shows "sorted_wrt (\<lambda>a b. f a < f b \<or> f a = f b \<and> P a b) (insort_key f y zs)"
  using assms
proof (induction zs)
  case (Cons z zs)
  show ?case
  proof (cases "f y \<le> f z")
    case True
    with Cons.prems have "\<forall>w\<in>set (z # zs). f y < f w \<or> f y = f w \<and> P y w"
      by (auto simp: order.order_iff_strict)
    with True Cons.prems(1) show ?thesis by simp
  next
    case False
    with Cons show ?thesis by (auto simp: set_insort_key)
  qed
qed simp

lemma sort_key_lexicographic:
  "sorted_wrt P ys \<Longrightarrow> sorted_wrt (\<lambda>a b. f a < f b \<or> f a = f b \<and> P a b) (sort_key f ys)"
  by (induction ys) (auto intro!: insort_key_lexicographic)

definition newest_first :: "saved_search list \<Rightarrow> saved_search list" where
  "newest_first xs = rev (sort_key page_key xs)"

lemma page_order_newest_first:
  assumes "\<forall>s\<in>set xs. ss_disabled_at s = None" and "inj_on page_key (set xs)"
  shows "page_order xs = newest_first xs"
proof -
  let ?f = "\<lambda>s. (ss_disabled_at s \<noteq> None, - ss_created_at s)"
  have "sorted (map ss_version_id (sort_key ss_version_id xs))" by simp
  then have "sorted_wrt (\<lambda>a b. ss_version_id b \<le> ss_version_id a) (rev (sort_key ss_version_id xs))"
    by (simp add: sorted_wrt_rev sorted_wrt_map)
  from sort_key_lexicographic [OF this, of ?f]
  have "sorted_wrt (\<lambda>a b. ?f a < ?f b \<or> ?f a = ?f b \<and> ss_version_id b \<le> ss_version_id a) (page_order xs)"
    by (simp add: page_order_def active_first_def)
  then have "sorted_wrt (\<lambda>a b. page_key b \<le> page_key a) (page_order xs)"
    by (rule sorted_wrt_mono_rel [rotated])
      (use assms(1) in \<open>auto simp: page_key_def less_eq_prod_def less_prod_def\<close>)
  then have "sorted (map page_key (rev (page_order xs)))"
    by (simp add: sorted_wrt_rev sorted_wrt_map)
  moreover have "mset (rev (page_order xs)) = mset xs"
    by (simp add: page_order_def active_first_def)
  ultimately have "sort_key page_key xs = rev (page_order xs)"
    by (intro sort_key_inj_key_eq) (use assms(2) in simp_all)
  then show ?thesis by (simp add: newest_first_def)
qed

lemma newest_first_facts:
  assumes "inj_on page_key (set xs)" and "distinct xs"
  shows "sorted_wrt (\<lambda>a b. page_key b < page_key a) (newest_first xs)"
proof -
  have "sorted_wrt (<) (map page_key (sort_key page_key xs))"
    using assms by (auto simp: strict_sorted_iff distinct_map)
  then show ?thesis by (simp add: newest_first_def sorted_wrt_rev sorted_wrt_map)
qed

lemma filter_newest_first: "filter P (newest_first xs) = newest_first (filter P xs)"
  by (simp add: newest_first_def rev_filter [symmetric] filter_sort)

lemma below_last_of_page:
  assumes "sorted_wrt (\<lambda>a b. page_key b < page_key a) ys" and "0 < m" and "m \<le> length ys"
  shows "filter (\<lambda>x. page_key x < page_key (last (take m ys))) ys = drop m ys"
proof -
  obtain as a bs where ys: "ys = as @ a # bs" "take m ys = as @ [a]"
    using assms(2,3) by (metis Suc_pred id_take_nth_drop less_eq_Suc_le take_Suc_conv_app_nth)
  then have "drop m ys = bs"
    by (metis append.assoc append_Cons append_Nil append_take_drop_id same_append_eq)
  moreover have "filter (\<lambda>x. page_key x < page_key a) ys = bs"
    using assms(1) unfolding ys(1)
    by (auto simp: sorted_wrt_append filter_empty_conv intro: filter_True dest: less_asym)
  ultimately show ?thesis by (simp add: ys(2))
qed

lemma distinct_versions_listed:
  assumes "distinct (version_ids st)"
  shows "distinct (map ss_version_id (listed showAll (sx_saved st)))"
proof -
  have on: "distinct (map g xs) \<Longrightarrow> distinct (map g (distinct_on f xs))" for f xs
    and g :: "saved_search \<Rightarrow> string"
    by (induction f xs rule: distinct_on.induct)
      (use distinct_on_subset in \<open>fastforce simp: distinct_map_filter\<close>)+
  have sort: "distinct (map g (sort_key f xs)) = distinct (map g xs)" for g :: "saved_search \<Rightarrow> string"
    and f :: "saved_search \<Rightarrow> 'k::linorder" and xs
    by (metis distinct_map distinct_sort set_sort)
  have "distinct (map ss_version_id (newest_versions (sx_saved st)))"
    using assms by (simp add: newest_versions_def rev_map [symmetric] sort version_ids_def o_def)
  then show ?thesis
    by (simp add: listed_def latest_versions_def distinct_map_filter on sort)
qed

definition cursors_valid :: "search_env \<Rightarrow> search_state \<Rightarrow> bool" where
  \<comment> \<open>times of 64 bits, not the zero time, and identifiers that are not empty\<close>
  "cursors_valid env st \<longleftrightarrow> rows_canonical env st \<and> distinct (version_ids st) \<and>
     (\<forall>r\<in>set (sx_saved st). let s = sr_search r in \<not> is_zero (ss_created_at s) \<and> ss_version_id s \<noteq> []
        \<and> - (2 ^ 63) \<le> ss_created_at s \<and> ss_created_at s < 2 ^ 63)"

lemma page_rows_subset: "set (page_rows env showAll t v st) \<subseteq> sr_search ` set (sx_saved st)"
  using listed_subset [of showAll "sx_saved st"] by (auto simp: page_rows_def split: option.split)

lemma page_rows_distinct:
  assumes "distinct (version_ids st)"
  shows "inj_on page_key (set (page_rows env showAll t v st))" "distinct (page_rows env showAll t v st)"
proof -
  have "distinct (map ss_version_id (page_rows env showAll t v st))"
    using distinct_versions_listed [OF assms, of showAll]
    by (auto simp: page_rows_def distinct_map_filter split: option.split)
  then show "inj_on page_key (set (page_rows env showAll t v st))" "distinct (page_rows env showAll t v st)"
    by (auto simp: distinct_map inj_on_def page_key_def)
qed

lemma ListLatestAfter_executed:
  assumes "se_fate env (sx_tick st) = Executed" and "\<not> is_zero t" and "v \<noteq> []" and "0 < n"
  shows "ListLatestAfter env showAll (Some t) v n st
    = (Inr (take (nat n) (page_order (page_rows env showAll t v st))), sx_step st)"
  using assms
  by (auto simp: ListLatestAfter_def read_rows_def select_after_def page_rows_def page_order_def
      active_first_def Let_def split: option.split)

lemma follow_complete:
  assumes "\<And>m. se_fate env m = Executed" and "se_repo env" and "0 < n"
    and "cursors_valid env st" and "cursor_of cur = Some (t, v)" and "\<not> is_zero t" and "v \<noteq> []"
    and "\<forall>s\<in>set (page_rows env showAll t v st). ss_disabled_at s = None"
    and "length (page_rows env showAll t v st) < k"
  shows "follow k env showAll n cur st = Some (newest_first (page_rows env showAll t v st))"
  using assms(4-)
proof (induction k arbitrary: cur t v st)
  case (Suc k)
  let ?ys = "newest_first (page_rows env showAll t v st)"
  let ?page = "take (nat n) ?ys"
  note distinct = page_rows_distinct [of st env showAll t v]
  have canonical: "rows_canonical env st" and versions: "distinct (version_ids st)"
    using Suc.prems(1) by (simp_all add: cursors_valid_def)
  have page: "ListSavedSearchesAfter env showAll (Some t) v n st = (Inr ?page, sx_step st)"
    using ListLatestAfter_executed [OF assms(1) Suc.prems(3,4) assms(3)]
      page_order_newest_first [OF Suc.prems(5) distinct(1) [OF versions]] assms(2)
    by (simp add: ListSavedSearchesAfter_def with_repo_def)
  show ?case
  proof (cases "int (length ?page) = n")
    case True
    let ?l = "last ?page"
    have m: "0 < nat n" "nat n \<le> length ?ys" using True assms(3) by auto
    then have "?l \<in> set ?page" by (intro last_in_set) (auto simp: take_eq_Nil)
    then have l: "?l \<in> set (page_rows env showAll t v st)"
      by (auto simp: newest_first_def dest: in_set_takeD)
    have same: "page_rows env showAll a b (sx_step st) = page_rows env showAll a b st" for a b
      by (simp add: page_rows_def sx_step_def split: option.split)
    let ?rest = "page_rows env showAll (ss_created_at ?l) (ss_version_id ?l) st"
    have rest: "newest_first ?rest = drop (nat n) ?ys"
      unfolding page_rows_below(2) [OF canonical l] filter_newest_first [symmetric]
      by (rule below_last_of_page [OF newest_first_facts [OF distinct [OF versions]] m])
    from l page_rows_subset have "?l \<in> sr_search ` set (sx_saved st)" by blast
    with Suc.prems(1) have valid: "\<not> is_zero (ss_created_at ?l)" "ss_version_id ?l \<noteq> []"
      "cursor_of (buildCursor ?l) = Some (ss_created_at ?l, ss_version_id ?l)"
      by (auto simp: cursors_valid_def Let_def cursor_of_buildCursor)
    have "cursors_valid env (sx_step st)"
      using Suc.prems(1) by (simp add: cursors_valid_def rows_canonical_def version_ids_def sx_step_def)
    moreover have "length ?rest < k"
      using page_rows_shrink [OF canonical l] Suc.prems(6) by linarith
    moreover have "\<forall>s\<in>set ?rest. ss_disabled_at s = None"
      using Suc.prems(5) unfolding page_rows_below(2) [OF canonical l] by simp
    ultimately have "follow k env showAll n (buildCursor ?l) (sx_step st) = Some (drop (nat n) ?ys)"
      using Suc.IH [OF _ valid(3,1,2), of "sx_step st"] by (simp add: same rest)
    then show ?thesis by (simp only: follow.simps Suc.prems(2) option.case prod.case Let_def page
        sum.case True simp_thms if_True option.map append_take_drop_id)
  next
    case False
    then have "?page = ?ys" using assms(3) by (auto simp: min_def split: if_splits)
    with False show ?thesis
      by (simp only: follow.simps Suc.prems(2) option.case prod.case Let_def page sum.case if_False)
  qed
qed simp

text \<open>C26: Where no listed search is disabled, the pages that follow a cursor hold exactly the listed
  searches below it, each once, newest first.\<close>

theorem pages_complete:
  assumes "\<And>m. se_fate env m = Executed" and "se_repo env" and "0 < n"
    and "cursors_valid env st" and "cursor_of cur = Some (t, v)" and "\<not> is_zero t" and "v \<noteq> []"
    and "\<forall>s\<in>set (page_rows env showAll t v st). ss_disabled_at s = None"
  shows "follow (Suc (length (sx_saved st))) env showAll n cur st
    = Some (newest_first (page_rows env showAll t v st))"
proof (rule follow_complete [OF assms])
  show "length (page_rows env showAll t v st) < Suc (length (sx_saved st))"
    using length_listed [of showAll "sx_saved st"]
    by (auto simp: page_rows_def less_Suc_eq_le split: option.split intro: order_trans [OF length_filter_le])
qed

definition sample_saved_row :: "string \<Rightarrow> int \<Rightarrow> bool \<Rightarrow> saved_row" where
  "sample_saved_row i t disabled =
     \<lparr>sr_search = \<lparr>ss_id = i, ss_version_id = ''v-'' @ i, ss_owner_id = None, ss_created_by = ''u'',
        ss_name = i, ss_query = Some [], ss_filters = None, ss_is_global = True,
        ss_created_at = t, ss_disabled_at = (if disabled then Some (t) else None),
        ss_hidden_at = None\<rparr>, sr_disabled_by = None, sr_hidden_by = None\<rparr>"

definition sample_listing :: "bool \<Rightarrow> search_state" where
  "sample_listing disabled =
     NewSearchService sample_search_env [] [sample_saved_row ''a'' 1 False, sample_saved_row ''b'' 2 False,
       sample_saved_row ''c'' 3 disabled]"

definition top_cursor :: string where "top_cursor = int_string (4) @ ''|v''"

theorem paging_ends_witness:
  "\<exists>found. follow 4 sample_search_env False 1 top_cursor (sample_listing True) = Some found"
proof -
  have "rows_canonical sample_search_env (sample_listing True)"
    by (simp add: rows_canonical_def sample_listing_def NewSearchService_def sample_search_env_def Let_def)
  from paging_ends [OF this, of 1 False top_cursor] show ?thesis
    by (simp add: sample_listing_def NewSearchService_def Let_def eval_nat_numeral)
qed

theorem pages_complete_witness:
  "map_option (map ss_id) (follow 4 sample_search_env False 1 top_cursor (sample_listing False))
    = Some [''c'', ''b'', ''a'']"
proof -
  have "follow (Suc (length (sx_saved (sample_listing False)))) sample_search_env False 1 top_cursor
      (sample_listing False)
    = Some (newest_first (page_rows sample_search_env False (4) ''v'' (sample_listing False)))"
  proof (rule pages_complete)
    show "cursors_valid sample_search_env (sample_listing False)" by code_simp
    show "cursor_of top_cursor = Some (4, ''v'')" by code_simp
    show "\<forall>s\<in>set (page_rows sample_search_env False (4) ''v'' (sample_listing False)).
        ss_disabled_at s = None"
      by code_simp
  qed (simp_all add: sample_search_env_def is_zero_def zero_time_def second_def)
  moreover have "length (sx_saved (sample_listing False)) = 3" by code_simp
  moreover have "map ss_id (newest_first (page_rows sample_search_env False (4) ''v''
      (sample_listing False))) = [''c'', ''b'', ''a'']"
    by code_simp
  ultimately show ?thesis by (simp add: eval_nat_numeral)
qed

lemma disabled_search_lost:
  \<comment> \<open>the newest search, disabled, is sorted behind the page whose cursor then excludes it\<close>
  "map_option (map ss_id) (follow 4 sample_search_env False 1 top_cursor (sample_listing True))
    = Some [''b'', ''a'']"
  by code_simp

end
