(* ===== verification/SearchCorrelation.thy ===== *)
theory SearchCorrelation
  imports SearchSamples RespondProps
begin

text \<open>
  Detection rules across the two services: the respond service's scheduler publishes a job, the search
  service evaluates it and publishes its matches, the respond service turns them into alerts. And what
  becomes of the notifications of an alert definition.
\<close>

section \<open>Groups of events\<close>

definition in_group :: "string \<Rightarrow> string \<Rightarrow> json_map \<Rightarrow> bool" where
  \<comment> \<open>the event has this text as its field, or is one of those without a text there\<close>
  "in_group aggKey key event \<longleftrightarrow>
     (key \<noteq> [] \<and> map_of event aggKey = Some (GStr key))
     \<or> (key = ''_unknown'' \<and> (\<forall>s. s \<noteq> [] \<longrightarrow> map_of event aggKey \<noteq> Some (GStr s)))"

lemma group_key_in_group: "group_key aggKey e = key \<longleftrightarrow> in_group aggKey key e"
  by (cases "map_of e aggKey")
    (auto simp: group_key_def extractStringField_def in_group_def field_as_def Let_def
      split: option.splits gval.split)

definition events_with_key :: "string \<Rightarrow> string \<Rightarrow> json_map list \<Rightarrow> json_map list" where
  "events_with_key aggKey key events = filter (\<lambda>e. group_key aggKey e = key) events"

lemma group_events_append:
  "group_events aggKey (es @ [e]) = add_to_group (group_key aggKey e) e (group_events aggKey es)"
  by (simp add: group_events_def)

lemma group_events_distinct: "distinct (map fst (group_events aggKey events))"
  by (induction events rule: rev_induct)
    (simp_all add: group_events_append add_to_group_def distinct_map_put, simp add: group_events_def)

lemma group_events_lookup:
  "map_of (group_events aggKey events) key =
     (if events_with_key aggKey key events = [] then None else Some (events_with_key aggKey key events))"
proof (induction events rule: rev_induct)
  case (snoc e es)
  then show ?case
    by (auto simp: group_events_append add_to_group_def events_with_key_def)
qed (simp add: group_events_def events_with_key_def)

lemma group_events_set:
  "(key, es) \<in> set (group_events aggKey events)
     \<longleftrightarrow> es \<noteq> [] \<and> es = events_with_key aggKey key events"
  using group_events_lookup [of aggKey events key]
    map_of_eq_Some_iff [OF group_events_distinct, of aggKey events key es]
  by (auto split: if_splits)

text \<open>The matches that are due: the groups that reach the threshold, or the whole result. They are
  described by the documents alone.\<close>

definition matches_due :: "json_map list \<Rightarrow> string \<Rightarrow> int \<Rightarrow> (string \<times> int) set" where
  "matches_due events aggKey threshold =
     (if aggKey = [] then {(''_all'', n) | n. n = int (length events) \<and> threshold \<le> n}
      else {(key, n) | key n. n = int (length (filter (in_group aggKey key) events))
              \<and> 0 < n \<and> threshold \<le> n})"

lemma aggregateResults_due:
  "(\<lambda>m. (cm_aggregation_key m, cm_event_count m)) ` set (aggregateResults je events aggKey threshold)
     = matches_due events aggKey threshold"
proof (cases "aggKey = []")
  case False
  have "events_with_key aggKey key events = filter (in_group aggKey key) events" for key
    by (simp add: events_with_key_def group_key_in_group)
  with False show ?thesis
    by (auto simp: aggregateResults_def matches_due_def correlation_match_of_def group_events_set image_iff
        split: prod.splits)
qed (auto simp: aggregateResults_def matches_due_def correlation_match_of_def)

lemma aggregateResults_distinct:
  "distinct (map cm_aggregation_key (aggregateResults je events aggKey threshold))"
proof -
  have "cm_aggregation_key \<circ> (\<lambda>(key, es). correlation_match_of je key es) = fst"
    by (auto simp: correlation_match_of_def)
  then show ?thesis
    using group_events_distinct [of aggKey events]
    by (simp add: aggregateResults_def distinct_map_filter)
qed

section \<open>From a rule to its alerts\<close>

definition job_message :: "correlation_job \<Rightarrow> correlation_request" where
  \<comment> \<open>the document the respond service publishes, as the search service reads it\<close>
  "job_message j =
     \<lparr>cr_job_id = cj_job_id j, cr_schema_id = cj_schema_id j,
      cr_schema_version_id = cj_schema_version_id j, cr_query = cj_query j, cr_from = cj_from j,
      cr_to = cj_to j, cr_aggregation_key = cj_aggregation_key j, cr_threshold = cj_threshold j\<rparr>"

definition result_message :: "correlation_response \<Rightarrow> correlation_result" where
  "result_message p =
     \<lparr>co_schema_id = cp_schema_id p, co_schema_version_id = cp_schema_version_id p,
      co_success = cp_success p, co_triggered = cp_triggered p,
      co_matches = map (\<lambda>m. (cm_aggregation_key m, cm_event_count m)) (cp_matches p)\<rparr>"

lemma correlation_answer:
  assumes "handleCorrelationJob je (Inr req) reply st = (Inr msgs, st')"
    and "(''search.results.correlate'', resp) \<in> set msgs" and "cp_success resp"
  obtains n found hits aggs
  where "se_opensearch (je_search je) n (buildOpenSearchQuery
      (job_search (cr_query req) 10000 (job_range (cr_from req) (cr_to req)))) (Some 10000)
    = Os_hits found hits aggs"
    and "cp_matches resp = aggregateResults je (map fst hits) (cr_aggregation_key req) (cr_threshold req)"
    and "cp_triggered resp \<longleftrightarrow> cp_matches resp \<noteq> []"
    and "cp_schema_id resp = cr_schema_id req" "cp_schema_version_id resp = cr_schema_version_id req"
proof -
  let ?env = "je_search je"
  let ?req = "job_search (cr_query req) 10000 (job_range (cr_from req) (cr_to req))"
  obtain t st1 where clock: "sx_Now ?env st = (t, st1)" by fastforce
  obtain result st2 where ex: "ExecuteSearch ?env ?req st1 = (result, st2)" by fastforce
  obtain t' st3 where clock': "sx_Now ?env st2 = (t', st3)" by fastforce
  have limit: "clamp_limit (sq_limit ?req) = 10000" and fields: "sq_include_fields ?req = []"
    by (simp_all add: clamp_limit_def job_search_def)
  show thesis
  proof (cases result)
    case (Inl e)
    with assms show thesis
      by (auto simp: handleCorrelationJob_def clock ex clock' reply_and_def Let_def split: if_splits)
  next
    case (Inr x)
    with assms(1,2) have resp: "cp_matches resp = aggregateResults je (sp_results x)
        (cr_aggregation_key req) (cr_threshold req)"
      "cp_triggered resp \<longleftrightarrow> cp_matches resp \<noteq> []"
      "cp_schema_id resp = cr_schema_id req" "cp_schema_version_id resp = cr_schema_version_id req"
      by (auto simp: handleCorrelationJob_def clock ex clock' reply_and_def Let_def split: if_splits)
    from ExecuteSearch_answer [OF ex [unfolded Inr]] obtain hits st4 st5 found aggs
      where "os_search ?env (buildOpenSearchQuery ?req) (Some (clamp_limit (sq_limit ?req))) st4
          = (Inr (found, hits, aggs), st5)"
        and "sp_results x = map (\<lambda>(event, _). included (sq_include_fields ?req) event) hits"
      by metis
    then have "se_opensearch ?env (sx_tick st4) (buildOpenSearchQuery ?req) (Some 10000)
        = Os_hits found hits aggs" and "sp_results x = map fst hits"
      by (auto simp: os_search_def limit fields included_def split: os_answer.splits)
    with resp that show thesis by simp
  qed
qed

lemma create_alerts_all:
  assumes "\<And>x. re_uuid7 env x \<noteq> None" and "create_alerts env result schema ms st = (alerts, st')"
  shows "map (\<lambda>a. (al_aggregation_key a, al_event_count a)) alerts = ms
    \<and> (\<forall>a\<in>set alerts. al_schema_id a = co_schema_id result
      \<and> al_schema_version_id a = co_schema_version_id result
      \<and> al_title a = extractString (ds_view schema) ''title'' ''Detection Alert''
      \<and> al_severity a = extractString (ds_view schema) ''severity'' ''medium'')"
proof -
  have "\<exists>u. re_uuid7 env = (\<lambda>x. Some (u x))"
    by (rule exI [of _ "\<lambda>x. the (re_uuid7 env x)"]) (use assms(1) in auto)
  then obtain u where "re_uuid7 env = (\<lambda>x. Some (u x))" by blast
  with assms(2) show ?thesis
    by (induction env result schema ms st arbitrary: alerts st' rule: create_alerts.induct)
      (auto simp: NewV7_def split: prod.splits)
qed

lemma correlation_result_alerts:
  \<comment> \<open>what the respond service makes of a successful answer: one alert per match\<close>
  assumes "cp_success resp" and "cp_triggered resp \<longleftrightarrow> cp_matches resp \<noteq> []"
    and "cp_schema_id resp = ds_id schema" "cp_schema_version_id resp = ds_version_id schema"
    and "GetSchemaByVersionID renv (ds_version_id schema) st2 = (Inr stored, st3)"
    and "handleCorrelationResult renv (Some (result_message resp)) st2 = ((err, alerts), st4)"
    and "\<And>x. re_uuid7 renv x \<noteq> None"
  shows "err = None"
    and "map (\<lambda>a. (al_aggregation_key a, al_event_count a)) alerts
         = map (\<lambda>m. (cm_aggregation_key m, cm_event_count m)) (cp_matches resp)"
    and "\<forall>a\<in>set alerts. al_schema_id a = ds_id schema \<and> al_schema_version_id a = ds_version_id schema
        \<and> al_title a = extractString (ds_view stored) ''title'' ''Detection Alert''
        \<and> al_severity a = extractString (ds_view stored) ''severity'' ''medium''"
proof -
  let ?co = "result_message resp"
  let ?pairs = "map (\<lambda>m. (cm_aggregation_key m, cm_event_count m)) (cp_matches resp)"
  have co: "co_success ?co" "co_triggered ?co \<longleftrightarrow> ?pairs \<noteq> []" "co_matches ?co = ?pairs"
    "co_schema_id ?co = ds_id schema" "co_schema_version_id ?co = ds_version_id schema"
    using assms(1-4) by (auto simp: result_message_def)
  show "err = None" "map (\<lambda>a. (al_aggregation_key a, al_event_count a)) alerts = ?pairs"
    "\<forall>a\<in>set alerts. al_schema_id a = ds_id schema \<and> al_schema_version_id a = ds_version_id schema
        \<and> al_title a = extractString (ds_view stored) ''title'' ''Detection Alert''
        \<and> al_severity a = extractString (ds_view stored) ''severity'' ''medium''"
    using assms(5,6) co create_alerts_all [OF assms(7), where result = ?co and schema = stored and st = st3]
    by (auto simp: handleCorrelationResult_def split: prod.splits if_splits)
qed

definition is_text :: "fields option \<Rightarrow> string \<Rightarrow> string \<Rightarrow> string \<Rightarrow> bool" where
  \<comment> \<open>the text of a field of a document, or else the default\<close>
  "is_text doc key dflt s \<longleftrightarrow>
     (\<exists>m. doc = Some m \<and> map_of m key = Some (GStr s))
     \<or> ((\<forall>m t. doc = Some m \<longrightarrow> map_of m key \<noteq> Some (GStr t)) \<and> s = dflt)"

lemma is_text_extractString: "is_text doc key dflt (extractString doc key dflt)"
  by (auto simp: is_text_def extractString_def split: option.splits gval.splits)

text \<open>C20: A detection rule raises exactly the alerts that are due. For a job the scheduler publishes for a
  rule, evaluated by the search service on whatever events OpenSearch answers with, the alerts that
  the respond service makes of the result are one for each group of events that reaches the rule's
  threshold (without an aggregation key, one for all events), with the number of its events, and carry
  the rule's identifier, version, title and severity. A group are the events with one text in the field
  the key names; it is a field of the top level of the event, so the path of a nested field groups
  nothing: all events without a text there, hence all events then, are the one group \<open>_unknown\<close>.\<close>

theorem rule_raises_due_alerts:
  assumes "runSchemaCorrelation renv parse_duration schema st0 = (Some job, st1)"
    and "handleCorrelationJob je (Inr (job_message job)) reply ss = (Inr msgs, ss')"
    and "(''search.results.correlate'', resp) \<in> set msgs" and "cp_success resp"
    and "GetSchemaByVersionID renv (ds_version_id schema) st2 = (Inr stored, st3)"
    and "handleCorrelationResult renv (Some (result_message resp)) st2 = ((err, alerts), st4)"
    and "\<And>x. re_uuid7 renv x \<noteq> None"
  shows "err = None \<and> (\<exists>n found hits aggs.
      se_opensearch (je_search je) n (buildOpenSearchQuery (job_search (cj_query job) 10000
        (job_range (cj_from job) (cj_to job)))) (Some 10000) = Os_hits found hits aggs
      \<and> (\<lambda>a. (al_aggregation_key a, al_event_count a)) ` set alerts
          = matches_due (map fst hits) (cj_aggregation_key job) (cj_threshold job)
      \<and> distinct (map al_aggregation_key alerts))
    \<and> (\<forall>a\<in>set alerts. al_schema_id a = ds_id schema \<and> al_schema_version_id a = ds_version_id schema
        \<and> is_text (ds_view stored) ''title'' ''Detection Alert'' (al_title a)
        \<and> is_text (ds_view stored) ''severity'' ''medium'' (al_severity a))"
proof -
  have job: "cj_schema_id job = ds_id schema" "cj_schema_version_id job = ds_version_id schema"
    using assms(1) by (auto simp: runSchemaCorrelation_def Let_def split: option.splits prod.splits if_splits)
  let ?req = "job_message job"
  obtain n found hits aggs where answer: "se_opensearch (je_search je) n (buildOpenSearchQuery
      (job_search (cr_query ?req) 10000 (job_range (cr_from ?req) (cr_to ?req)))) (Some 10000)
        = Os_hits found hits aggs"
    and matches: "cp_matches resp = aggregateResults je (map fst hits) (cr_aggregation_key ?req) (cr_threshold ?req)"
      "cp_triggered resp \<longleftrightarrow> cp_matches resp \<noteq> []" "cp_schema_id resp = cr_schema_id ?req"
      "cp_schema_version_id resp = cr_schema_version_id ?req"
    using correlation_answer [OF assms(2-4)] by metis
  then have os: "se_opensearch (je_search je) n (buildOpenSearchQuery
      (job_search (cj_query job) 10000 (job_range (cj_from job) (cj_to job)))) (Some 10000)
        = Os_hits found hits aggs"
    and resp: "cp_matches resp = aggregateResults je (map fst hits) (cj_aggregation_key job) (cj_threshold job)"
      "cp_triggered resp \<longleftrightarrow> cp_matches resp \<noteq> []" "cp_schema_id resp = ds_id schema"
      "cp_schema_version_id resp = ds_version_id schema"
    by (simp_all add: job_message_def job)
  let ?pairs = "map (\<lambda>m. (cm_aggregation_key m, cm_event_count m)) (cp_matches resp)"
  note alerts = correlation_result_alerts [OF assms(4) resp(2-4) assms(5-7)]
  have "(\<lambda>a. (al_aggregation_key a, al_event_count a)) ` set alerts = set ?pairs"
    using alerts(2) by (metis list.set_map)
  moreover have "map al_aggregation_key alerts = map cm_aggregation_key (cp_matches resp)"
    using arg_cong [OF alerts(2), of "map fst"] by (simp add: o_def)
  ultimately show ?thesis
    using os alerts aggregateResults_due [of je "map fst hits"] aggregateResults_distinct [of je "map fst hits"]
    by (auto simp: resp(1) image_image is_text_extractString)
qed

definition stored_rule :: detection_schema where
  "stored_rule = projr (fst (GetSchemaByVersionID sample_renv ''b'' sample_respond))"

definition rule_job :: correlation_job where
  "rule_job = the (fst (runSchemaCorrelation sample_renv (\<lambda>_. None) stored_rule sample_respond))"

definition rule_answer :: "(string \<times> correlation_response) list" where
  "rule_answer = projr (fst (handleCorrelationJob sample_system (Inr (job_message rule_job)) [] empty_search))"

definition rule_alerts :: "alert_created list" where
  "rule_alerts = snd (fst (handleCorrelationResult sample_renv
     (Some (result_message (snd (hd rule_answer)))) sample_respond))"

theorem rule_raises_due_alerts_witness:
  "map (\<lambda>a. (al_aggregation_key a, al_event_count a)) rule_alerts = [(''_all'', 2)]
   \<and> list_all (\<lambda>a. al_schema_id a = ''r'' \<and> al_schema_version_id a = ''b'') rule_alerts"
proof
  show "map (\<lambda>a. (al_aggregation_key a, al_event_count a)) rule_alerts = [(''_all'', 2)]"
    by code_simp
  have ids: "ds_id stored_rule = ''r''" "ds_version_id stored_rule = ''b''" by code_simp+
  let ?job = "runSchemaCorrelation sample_renv (\<lambda>_. None) stored_rule sample_respond"
  let ?res = "handleCorrelationJob sample_system (Inr (job_message rule_job)) [] empty_search"
  let ?get = "GetSchemaByVersionID sample_renv ''b'' sample_respond"
  let ?raise = "handleCorrelationResult sample_renv
    (Some (result_message (snd (hd rule_answer)))) sample_respond"
  have "fst ?job \<noteq> None" by code_simp
  then have job: "?job = (Some rule_job, snd ?job)" by (simp add: rule_job_def prod_eq_iff)
  have "\<not> isl (fst ?res)" by code_simp
  then have res: "?res = (Inr rule_answer, snd ?res)"
    by (cases ?res) (auto simp: rule_answer_def isl_def split: sum.splits)
  have "rule_answer \<noteq> [] \<and> fst (hd rule_answer) = ''search.results.correlate''" by code_simp
  then have msg: "(''search.results.correlate'', snd (hd rule_answer)) \<in> set rule_answer"
    by (metis list.set_sel(1) prod.collapse)
  have ok: "cp_success (snd (hd rule_answer))" by code_simp
  have "\<not> isl (fst ?get)" by code_simp
  then have get: "GetSchemaByVersionID sample_renv (ds_version_id stored_rule) sample_respond
      = (Inr stored_rule, snd ?get)"
    unfolding ids by (cases ?get) (auto simp: stored_rule_def isl_def split: sum.splits)
  have raise: "?raise = ((fst (fst ?raise), rule_alerts), snd ?raise)"
    by (simp add: rule_alerts_def)
  have draws: "re_uuid7 sample_renv x \<noteq> None" for x by (simp add: sample_renv_def)
  show "list_all (\<lambda>a. al_schema_id a = ''r'' \<and> al_schema_version_id a = ''b'') rule_alerts"
    using rule_raises_due_alerts [OF job res msg ok get raise draws] by (auto simp: ids list_all_iff)
qed

lemma idle_rule_raises_alert:
  \<comment> \<open>with a threshold of zero and no aggregation key, a rule raises an alert on no event at all\<close>
  "threshold \<le> 0 \<Longrightarrow> matches_due [] [] threshold = {(''_all'', 0)}"
  by (auto simp: matches_due_def)

section \<open>Failed notifications\<close>

lemma configured_channel_never_fails:
  "channel_Send nv (buildNotificationChannel cfg) a results = None"
  by (auto simp: buildNotificationChannel_def Let_def split: option.splits)

text \<open>A notification that fails is never noticed. Whatever webhooks the service is configured with
  and whatever they answer, sending an alert's notification reports no error, because the channel
  that writes the log is always among the channels and one success suffices; so no run of the service
  ever counts a notification error.\<close>

lemma failed_notifications_unnoticed:
  "channel_Send nv (buildNotificationChannel cfg) a results = None
   \<and> sd_notification_errors (fst (search_run je h nv (buildNotificationChannel cfg) evs ss))
      = sd_notification_errors (fst ss)"
proof
  have fold: "sd_notification_errors (fold scheduleAlert as s) = sd_notification_errors s" for as s
    by (induction as arbitrary: s) (simp_all add: scheduleAlert_def)
  have sync: "sd_notification_errors (fst (syncAlerts env ss)) = sd_notification_errors (fst ss)" for env ss
    by (cases ss) (simp add: syncAlerts_eq fold)
  have tick: "sd_notification_errors (fst (executeAlert env nv (buildNotificationChannel cfg) i ss))
      = sd_notification_errors (fst ss)" for env i ss
    by (cases ss) (auto simp: executeAlert_def configured_channel_never_fails Let_def
        split: option.split prod.split sum.split)
  have "sd_notification_errors (fst (search_event_step je h nv (buildNotificationChannel cfg) ev ss))
      = sd_notification_errors (fst ss)" for ev ss
    by (cases ev) (simp_all add: search_event_step_def sched_step_def sync tick Let_def)
  then show "sd_notification_errors (fst (search_run je h nv (buildNotificationChannel cfg) evs ss))
      = sd_notification_errors (fst ss)"
    by (induction evs arbitrary: ss) (simp_all add: search_run_def)
qed (rule configured_channel_never_fails)

lemma MultiChannel_fails_only_if_all_do:
  "channel_Send nv (MultiChannel chs) a results = None
     \<longleftrightarrow> chs = [] \<or> (\<exists>ch\<in>set chs. channel_Send nv ch a results = None)"
proof -
  have "length [(t, e). (t, Some e) \<leftarrow> map (\<lambda>ch. (channel_Type ch, channel_Send nv ch a results)) chs]
      = length (filter (\<lambda>ch. channel_Send nv ch a results \<noteq> None) chs)" for chs
    by (induction chs) auto
  moreover have "length (filter P xs) = length xs \<longleftrightarrow> (\<forall>x\<in>set xs. P x)" for P and xs :: "channel list"
    by (metis filter_id_conv length_filter_less less_irrefl_nat)
  ultimately show ?thesis by (simp add: Let_def)
qed

end
