(* ===== verification/EventMapping.thy ===== *)
theory EventMapping
  imports Prelude
begin

text \<open>
  The mapping the ingest service gives its OpenSearch indices: \<open>getOCSFMappings\<close> of
  \<^verbatim>\<open>ingest/internal/storage/opensearch.go\<close>, in the groups of its comments.
\<close>

section \<open>The mapping of OCSF fields\<close>

definition mapped :: "string \<Rightarrow> gval" where
  "mapped t = GObj [(''type'', GStr t)]"

definition mapped_all :: "string \<Rightarrow> string list \<Rightarrow> (string \<times> gval) list" where
  "mapped_all t = map (\<lambda>f. (f, mapped t))"

definition mapped_object :: "(string \<times> gval) list \<Rightarrow> gval" where
  "mapped_object ps = GObj [(''type'', GStr ''object''), (''properties'', GObj ps)]"

definition context_properties :: "(string \<times> gval) list" where
  "context_properties =
     [(''client_id'', mapped ''keyword''), (''hec_token_id'', mapped ''keyword''),
      (''ingest_source_ip'', mapped ''ip''), (''time'', mapped ''date''), (''@timestamp'', mapped ''date'')]"

definition metadata_properties :: "(string \<times> gval) list" where
  "metadata_properties =
     [(''metadata'', GObj [(''properties'', GObj
        ([(''version'', mapped ''keyword''),
          (''product'', GObj [(''properties'', GObj
             (mapped_all ''keyword'' [''name'', ''vendor_name'', ''version'']))])]
         @ mapped_all ''keyword'' [''log_name'', ''log_provider'']))])]"

definition class_properties :: "(string \<times> gval) list" where
  "class_properties =
     [(''class_uid'', mapped ''integer''), (''class_name'', mapped ''keyword''),
      (''category_uid'', mapped ''integer''), (''category_name'', mapped ''keyword''),
      (''activity_id'', mapped ''integer''), (''activity_name'', mapped ''keyword''),
      (''type_uid'', mapped ''long''), (''severity'', mapped ''keyword''),
      (''severity_id'', mapped ''integer''), (''status'', mapped ''keyword''),
      (''status_id'', mapped ''integer''), (''status_detail'', mapped ''text''),
      (''message'', mapped ''text'')]"

definition actor_properties :: "(string \<times> gval) list" where
  "actor_properties =
     [(''user'', mapped_object (mapped_all ''keyword'' [''name'', ''uid'', ''email'', ''domain''])),
      (''actor'', mapped_object (mapped_all ''object'' [''user'', ''process'']))]"

definition process_properties :: "(string \<times> gval) list" where
  "process_properties =
     [(''process'', mapped_object
        [(''pid'', mapped ''integer''), (''name'', mapped ''keyword''), (''cmd_line'', mapped ''text''),
         (''uid'', mapped ''keyword''), (''parent_process'', mapped ''object'')]),
      (''file'', mapped_object
        (mapped_all ''keyword'' [''path'', ''name'', ''type''] @
         [(''size'', mapped ''long''),
          (''modified_time'', GObj
             [(''type'', GStr ''date''),
              (''format'', GStr ''epoch_second||strict_date_optional_time||yyyy-MM-dd HH:mm:ss'')])]))]"

definition endpoint_mapping :: gval where
  "endpoint_mapping = mapped_object
     [(''ip'', mapped ''ip''), (''port'', mapped ''integer''), (''hostname'', mapped ''keyword'')]"

definition network_properties :: "(string \<times> gval) list" where
  "network_properties =
     [(''src_endpoint'', endpoint_mapping), (''dst_endpoint'', endpoint_mapping),
      (''connection_info'', mapped_object
         (mapped_all ''keyword'' [''protocol_name'', ''direction'', ''boundary''])),
      (''traffic'', mapped_object (mapped_all ''long'' [''bytes'', ''packets''])),
      (''query'', mapped_object (mapped_all ''keyword'' [''hostname'', ''type'', ''class''])),
      (''answers'', mapped ''nested''), (''response_code'', mapped ''keyword''),
      (''http_request'', mapped ''object''), (''http_response'', mapped ''object'')]"

definition detection_properties :: "(string \<times> gval) list" where
  "detection_properties =
     [(''finding'', mapped ''object''), (''attacks'', mapped ''nested''), (''resources'', mapped ''nested'')]
     @ mapped_all ''keyword''
         [''attack_tactic'', ''attack_tactic_uid'', ''attack_technique'', ''attack_technique_uid'']
     @ [(''risk_score'', mapped ''integer''), (''auth_protocol'', mapped ''keyword''),
        (''properties'', mapped ''object''),
        (''raw'', GObj [(''type'', GStr ''object''), (''enabled'', GBool False)]),
        (''raw_data'', GObj [(''type'', GStr ''text''), (''index'', GBool False)])]"

definition ocsf_properties :: "(string \<times> gval) list" where
  "ocsf_properties =
     context_properties @ metadata_properties @ class_properties @ actor_properties
     @ process_properties @ network_properties @ detection_properties"

definition strings_as_keywords :: gval where
  "strings_as_keywords =
     GObj [(''strings_as_keywords'', GObj
       [(''match_mapping_type'', GStr ''string''),
        (''mapping'', GObj
           [(''type'', GStr ''text''),
            (''fields'', GObj [(''keyword'', GObj
               [(''type'', GStr ''keyword''), (''ignore_above'', GInt 256)])])])])]"

definition getOCSFMappings :: gval where
  "getOCSFMappings =
     GObj [(''dynamic'', GBool True), (''dynamic_templates'', GArr [strings_as_keywords]),
           (''properties'', GObj ocsf_properties)]"

end
