(* ===== verification/StorageMapping.thy ===== *)
theory StorageMapping
  imports EventMapping FieldCatalog Translator
begin

text \<open>
  The mapping the ingest service gives its indices, read beside the field catalogue that queries and
  rules are checked against (\<^verbatim>\<open>common/fields/fields.go\<close>, which calls itself derived from this mapping)
  and beside the field names the translator puts into aggregations
  (\<^verbatim>\<open>search/internal/translator/opensearch.go\<close>).
\<close>

section \<open>Reading a mapping\<close>

definition mapping_children :: "gval \<Rightarrow> (string \<times> gval) list" where
  \<comment> \<open>the fields of an object and the sub-fields of a leaf\<close>
  "mapping_children m =
     (case m of
        GObj kvs \<Rightarrow>
          (case map_of kvs ''properties'' of Some (GObj ps) \<Rightarrow> ps | _ \<Rightarrow> [])
          @ (case map_of kvs ''fields'' of Some (GObj fs) \<Rightarrow> fs | _ \<Rightarrow> [])
      | _ \<Rightarrow> [])"

definition type_of_mapping :: "gval \<Rightarrow> string" where
  "type_of_mapping m =
     (case m of GObj kvs \<Rightarrow> (case map_of kvs ''type'' of Some (GStr t) \<Rightarrow> t | _ \<Rightarrow> ''object'') | _ \<Rightarrow> ''object'')"

fun mapping_at :: "gval \<Rightarrow> string list \<Rightarrow> gval option" where
  "mapping_at m [] = Some m"
| "mapping_at m (p # ps) =
     (case map_of (mapping_children m) p of None \<Rightarrow> None | Some c \<Rightarrow> mapping_at c ps)"

definition opens_objects :: "gval \<Rightarrow> bool" where
  "opens_objects m \<longleftrightarrow> type_of_mapping m \<in> {''object'', ''nested''}"

fun can_hold :: "gval \<Rightarrow> string list \<Rightarrow> bool" where
  \<comment> \<open>a document may have a value there: the path is mapped, or leaves the mapping at an object, where
     the mapping of new fields is dynamic\<close>
  "can_hold m [] = True"
| "can_hold m (p # ps) =
     (case map_of (mapping_children m) p of None \<Rightarrow> opens_objects m | Some c \<Rightarrow> can_hold c ps)"

definition mapped_type :: "string \<Rightarrow> string option" where
  "mapped_type field =
     map_option type_of_mapping (mapping_at getOCSFMappings (split_on CHR ''.'' field))"

definition holds_values :: "string \<Rightarrow> bool" where
  "holds_values field = can_hold getOCSFMappings (split_on CHR ''.'' field)"

definition leaf :: "gval \<Rightarrow> bool" where
  "leaf m \<longleftrightarrow> mapping_children m = [] \<and> \<not> opens_objects m"

definition leaf_field :: "string \<Rightarrow> bool" where
  "leaf_field field =
     (case mapping_at getOCSFMappings (split_on CHR ''.'' field) of None \<Rightarrow> False | Some m \<Rightarrow> leaf m)"

fun leaf_paths :: "nat \<Rightarrow> string \<Rightarrow> (string \<times> gval) list \<Rightarrow> string list" where
  \<comment> \<open>down to a depth\<close>
  "leaf_paths 0 _ _ = []"
| "leaf_paths (Suc n) prefix ps =
     concat (map (\<lambda>(f, m). if leaf m then [prefix @ ''.'' @ f]
                           else leaf_paths n (prefix @ ''.'' @ f) (mapping_children m)) ps)"

lemma mapping_at_append:
  "mapping_at m (ps @ qs) = (case mapping_at m ps of None \<Rightarrow> None | Some c \<Rightarrow> mapping_at c qs)"
  by (induction m ps rule: mapping_at.induct) (auto split: option.splits)

lemma can_hold_below:
  assumes "mapping_at m ps = Some c"
  shows "can_hold m (ps @ qs) = can_hold c qs"
  using assms by (induction m ps rule: mapping_at.induct) (auto split: option.splits)

lemma nothing_below_leaf:
  assumes "mapping_at m ps = Some c" and "leaf c" and "qs \<noteq> []"
  shows "mapping_at m (ps @ qs) = None" and "\<not> can_hold m (ps @ qs)"
  using assms by (cases qs; simp add: mapping_at_append can_hold_below leaf_def)+

lemma split_on_keyword:
  "split_on CHR ''.'' (field @ ''.keyword'') = split_on CHR ''.'' field @ [''keyword'']"
  by (induction field) (auto simp: split_on_notin neq_Nil_conv split: list.splits)

section \<open>The catalogue and the mapping\<close>

definition outside_mapping :: "string list" where
  \<comment> \<open>what the catalogue types and the mapping does not\<close>
  "outside_mapping =
     [''.class'', ''.category'', ''.activity'', ''.process.file'', ''.process.file.path'',
      ''.process.file.name'', ''.device.hostname'', ''.device.ip'', ''.device.type'',
      ''.device.type_id'', ''.device.os.name'', ''.device.os.type'']"

definition outside_catalogue :: "string list" where
  \<comment> \<open>what the mapping types and the catalogue rejects\<close>
  "outside_catalogue = [''.client_id'', ''.hec_token_id'', ''.ingest_source_ip'', ''.raw_data'']"

text \<open>The catalogue and the mapping type the same fields alike, with exactly twelve fields only the
  catalogue knows and four only the mapping knows: a field of the catalogue has its type from the mapping
  unless it is one of the twelve, which the mapping leaves untyped, and a leaf of the mapping that holds
  no objects (\<open>raw\<close> and \<open>properties\<close> do) is accepted by the catalogue unless it is one of the four. The client identifier, on which the isolation of tenants
  rests, is among the four.\<close>

lemma catalogue_follows_mapping:
  "map (\<lambda>(f, info). mapped_type (translateFieldPath f)) ValidFields
     = map (\<lambda>(f, info). if f \<in> set outside_mapping then None else Some (fi_type info)) ValidFields
   \<and> filter (\<lambda>f. \<not> IsValidField f) (leaf_paths 4 [] ocsf_properties) = outside_catalogue
   \<and> filter (\<lambda>f. f \<in> set outside_mapping) (map fst ValidFields) = outside_mapping"
proof (intro conjI)
  have "map (\<lambda>p. mapped_type (translateFieldPath (fst p))) ValidFields
     = map (\<lambda>p. if fst p \<in> set outside_mapping then None else Some (fi_type (snd p))) ValidFields"
    by code_simp
  then show "map (\<lambda>(f, info). mapped_type (translateFieldPath f)) ValidFields
     = map (\<lambda>(f, info). if f \<in> set outside_mapping then None else Some (fi_type info)) ValidFields"
    by (simp add: case_prod_unfold)
  show "filter (\<lambda>f. \<not> IsValidField f) (leaf_paths 4 [] ocsf_properties) = outside_catalogue"
    by code_simp
  show "filter (\<lambda>f. f \<in> set outside_mapping) (map fst ValidFields) = outside_mapping"
    by code_simp
qed

section \<open>Aggregations\<close>

definition read_as_is :: "string \<Rightarrow> bool" where
  \<comment> \<open>the names the translator does not extend\<close>
  "read_as_is field \<longleftrightarrow> ensureKeywordField field = field"

lemma read_as_is_iff:
  "read_as_is field \<longleftrightarrow> has_suffix field ''.keyword'' \<or> field \<in> set numericFields
     \<or> (\<exists>s\<in>{''_id'', ''_uid'', ''_code'', ''.port'', ''.ip'', ''_ip''}. has_suffix field s)"
  by (auto simp: read_as_is_def ensureKeywordField_def)

definition aggregated_field :: "gval \<Rightarrow> string option" where
  \<comment> \<open>the field an aggregation of the translated query reads\<close>
  "aggregated_field body =
     (case body of GObj kvs \<Rightarrow> (case map_of kvs ''field'' of Some (GStr f) \<Rightarrow> Some f | _ \<Rightarrow> None) | _ \<Rightarrow> None)"

text \<open>A terms or cardinality aggregation over a field that the mapping types reads, unless the field's
  name has one of the endings the translator leaves alone, a sub-field that is neither mapped nor able to
  hold a value: it counts nothing, whatever events are stored.\<close>

lemma aggregation_reads_nothing:
  assumes "agg_type agg \<in> {''terms'', ''cardinality''}"
    and "leaf_field (translateFieldPath (agg_field agg))"
    and "\<not> read_as_is (translateFieldPath (agg_field agg))"
  shows "\<exists>kind body f. agg_body agg = Inr (kind, body) \<and> aggregated_field body = Some f
      \<and> mapped_type f = None \<and> \<not> holds_values f"
proof -
  let ?f = "translateFieldPath (agg_field agg)"
  obtain m where m: "mapping_at getOCSFMappings (split_on CHR ''.'' ?f) = Some m" "leaf m"
    using assms(2) by (auto simp: leaf_field_def split: option.splits)
  have ext: "ensureKeywordField ?f = ?f @ ''.keyword''"
    using assms(3) by (auto simp: read_as_is_def ensureKeywordField_def split: if_splits)
  have "mapped_type (?f @ ''.keyword'') = None" "\<not> holds_values (?f @ ''.keyword'')"
    using nothing_below_leaf [OF m, of "[''keyword'']"]
    by (simp_all add: mapped_type_def holds_values_def split_on_keyword)
  moreover obtain kind body where "agg_body agg = Inr (kind, body)"
    and "aggregated_field body = Some (?f @ ''.keyword'')"
    using assms(1) ext by (auto simp: agg_body_def aggregated_field_def)
  ultimately show ?thesis by blast
qed

definition severity_count :: aggregation where
  \<comment> \<open>of the dashboard\<close>
  "severity_count = Aggregation ''terms'' ''.severity'' ''severity_count'' 10 [] [] [] 0 []"

lemma aggregation_reads_nothing_example:
  "\<exists>kind body f. agg_body severity_count = Inr (kind, body) \<and> aggregated_field body = Some f
     \<and> mapped_type f = None \<and> \<not> holds_values f"
proof (rule aggregation_reads_nothing)
  show "agg_type severity_count \<in> {''terms'', ''cardinality''}" by code_simp
  show "leaf_field (translateFieldPath (agg_field severity_count))" by code_simp
  show "\<not> read_as_is (translateFieldPath (agg_field severity_count))" by code_simp
qed

end
