(* ===== verification/Storage.thy ===== *)
theory Storage
  imports EventMapping Ingest
begin

text \<open>
  The client through which the ingest service stores events
  (\<^verbatim>\<open>ingest/internal/storage/opensearch.go\<close>): the index template with the mapping of \<open>EventMapping\<close>, the
  life-cycle policy, the first index and its write alias, and the bulk indexer events are added to.
  The cluster answers requests through the parameter \<open>so_perform\<close>; \<open>None\<close> is an answer that never
  arrives. The bulk indexer of the client library buffers documents and sends them later: its buffer is
  part of the state, and sending it is the step \<open>bulk_flush\<close>.
\<close>

section \<open>Configuration and names\<close>

record storage_config =
  sc_url :: string
  sc_username :: string
  sc_password :: string
  sc_tls_skip_verify :: bool
  sc_index_prefix :: string
  sc_shard_count :: int
  sc_replica_count :: int
  sc_refresh_interval :: string
  sc_retention_days :: int
  sc_rollover_size_gb :: int
  sc_rollover_age :: int            \<comment> \<open>nanoseconds\<close>

definition hour_ns :: int where "hour_ns = 3600 * 10 ^ 9"

definition DefaultConfig :: storage_config where
  "DefaultConfig =
     \<lparr>sc_url = ''https://localhost:9200'', sc_username = ''admin'', sc_password = ''admin'',
      sc_tls_skip_verify = True, sc_index_prefix = ''telhawk-events'', sc_shard_count = 1,
      sc_replica_count = 0, sc_refresh_interval = ''5s'', sc_retention_days = 30,
      sc_rollover_size_gb = 50, sc_rollover_age = 24 * hour_ns\<rparr>"

definition GetWriteAlias :: "storage_config \<Rightarrow> string" where
  "GetWriteAlias cfg = sc_index_prefix cfg @ ''-write''"

definition GetCurrentWriteIndex :: "(time \<Rightarrow> string) \<Rightarrow> storage_config \<Rightarrow> time \<Rightarrow> string" where
  \<comment> \<open>\<open>format_day\<close> is \<open>Format\<close> with year, month and day\<close>
  "GetCurrentWriteIndex format_day cfg now =
     sc_index_prefix cfg @ ''-'' @ format_day now @ ''-000001''"

definition formatDurationForOpenSearch :: "int \<Rightarrow> string" where
  \<comment> \<open>\<open>int(d.Hours())\<close> drops the fraction of an hour; the rounding of the float quotient to a full
     hour a few nanoseconds early, beyond 4096 hours, is left out\<close>
  "formatDurationForOpenSearch d =
     (let hours = sgn d * (\<bar>d\<bar> div hour_ns) in
      if \<bar>hours\<bar> mod 24 = 0 then int_string (sgn hours * (\<bar>hours\<bar> div 24)) @ ''d''
      else int_string hours @ ''h'')"

section \<open>Documents of the set-up\<close>

definition index_template :: "storage_config \<Rightarrow> gval" where
  "index_template cfg =
     GObj [(''index_patterns'', GArr [GStr (sc_index_prefix cfg @ ''-*'')]),
           (''template'', GObj
              [(''settings'', GObj
                  [(''number_of_shards'', GInt (sc_shard_count cfg)),
                   (''number_of_replicas'', GInt (sc_replica_count cfg)),
                   (''refresh_interval'', GStr (sc_refresh_interval cfg)),
                   (''codec'', GStr ''best_compression'')]),
               (''mappings'', getOCSFMappings)]),
           (''priority'', GInt 100)]"

definition ism_policy :: "storage_config \<Rightarrow> gval" where
  "ism_policy cfg =
     GObj [(''policy'', GObj
       [(''description'', GStr ''TelHawk events index lifecycle policy''),
        (''default_state'', GStr ''hot''),
        (''states'', GArr
          [GObj [(''name'', GStr ''hot''),
                 (''actions'', GArr [GObj [(''rollover'', GObj
                    [(''min_size'', GStr (int_string (sc_rollover_size_gb cfg) @ ''GB'')),
                     (''min_index_age'', GStr (formatDurationForOpenSearch (sc_rollover_age cfg)))])]]),
                 (''transitions'', GArr [GObj
                    [(''state_name'', GStr ''delete''),
                     (''conditions'', GObj [(''min_index_age'',
                        GStr (int_string (sc_retention_days cfg) @ ''d''))])]])],
           GObj [(''name'', GStr ''delete''),
                 (''actions'', GArr [GObj [(''delete'', GObj [])]])]])])]"

definition alias_actions :: "storage_config \<Rightarrow> string \<Rightarrow> gval" where
  "alias_actions cfg indexName =
     GObj [(''actions'', GArr
       [GObj [(''remove'', GObj
          [(''index'', GStr (sc_index_prefix cfg @ ''-*'')), (''alias'', GStr (GetWriteAlias cfg))])],
        GObj [(''add'', GObj
          [(''index'', GStr indexName), (''alias'', GStr (GetWriteAlias cfg)),
           (''is_write_index'', GBool True)])]])]"

section \<open>Requests to the cluster\<close>

datatype es_request =
    Info
  | PutIndexTemplate string gval
  | Get string
  | Put string gval
  | IndexExists string
  | IndexCreate string
  | Post string gval

record es_answer =
  ea_status :: int
  ea_body :: "string option"                         \<comment> \<open>None: it cannot be read to its end\<close>
  ea_decoded :: "(string \<times> gval) list option"         \<comment> \<open>the body as a JSON object\<close>

record 'c storage_env =
  so_perform :: "es_request \<Rightarrow> 'c \<Rightarrow> es_answer option \<times> 'c"
  so_now :: "nat \<Rightarrow> time"
  so_format_day :: "time \<Rightarrow> string"
  so_show :: "gval option \<Rightarrow> string"                          \<comment> \<open>\<open>%v\<close> of an entry of a JSON object\<close>
  so_marshal :: "(string \<times> gval) list \<Rightarrow> string option"       \<comment> \<open>\<open>json.Marshal\<close> of an event\<close>
  so_new_indexer :: "nat \<Rightarrow> string option"                   \<comment> \<open>the error of \<open>NewBulkIndexer\<close>\<close>
  so_add :: "nat \<Rightarrow> string option"                           \<comment> \<open>the error of \<open>Add\<close>\<close>
  so_item :: "nat \<Rightarrow> string option"                          \<comment> \<open>why the cluster refuses a document\<close>
  so_early :: "nat \<Rightarrow> bool"                          \<comment> \<open>the indexer sends before the answer is read\<close>

type_synonym document = "(string \<times> gval) list"

record 'c storage =
  os_config :: storage_config
  os_client :: bool                                  \<comment> \<open>\<open>osClient\<close> is there\<close>
  os_initialized :: bool
  os_indexer :: "document list option"               \<comment> \<open>the bulk indexer with its buffer\<close>
  os_cluster :: 'c
  os_requests :: "es_request list"
  os_indexed :: "document list"                      \<comment> \<open>what the cluster has taken\<close>
  os_refused :: "(document \<times> string) list"           \<comment> \<open>what it has refused\<close>
  os_step :: nat

definition NewClient :: "storage_config \<Rightarrow> 'c \<Rightarrow> 'c storage" where
  "NewClient cfg cluster =
     \<lparr>os_config = cfg, os_client = True, os_initialized = False, os_indexer = None,
      os_cluster = cluster, os_requests = [], os_indexed = [], os_refused = [], os_step = 0\<rparr>"

definition send :: "'c storage_env \<Rightarrow> es_request \<Rightarrow> 'c storage \<Rightarrow> es_answer option \<times> 'c storage" where
  "send env rq st =
     (let (a, c) = so_perform env rq (os_cluster st) in
      (a, st\<lparr>os_cluster := c, os_requests := os_requests st @ [rq], os_step := os_step st + 1\<rparr>))"

definition IsError :: "es_answer \<Rightarrow> bool" where
  "IsError a \<longleftrightarrow> ea_status a > 299"

section \<open>Initialisation\<close>

datatype request_failure =
    Unreachable
  | Unparsable
  | Unreadable int
  | Answered int string

datatype init_error =
    ConnectFailed
  | ReturnedError int
  | TemplateFailed request_failure
  | PolicyFailed request_failure
  | IndexFailed request_failure

definition answered :: "es_answer \<Rightarrow> request_failure" where
  \<comment> \<open>with the body as far as it can be read\<close>
  "answered a = Answered (ea_status a) (case ea_body a of None \<Rightarrow> [] | Some b \<Rightarrow> b)"

definition createIndexTemplate ::
  "'c storage_env \<Rightarrow> 'c storage \<Rightarrow> request_failure option \<times> 'c storage" where
  "createIndexTemplate env st =
     (let cfg = os_config st in
      case send env (PutIndexTemplate (sc_index_prefix cfg @ ''-template'') (index_template cfg)) st of
        (None, st1) \<Rightarrow> (Some Unreachable, st1)
      | (Some a, st1) \<Rightarrow> (if IsError a then Some (answered a) else None, st1))"

definition policy_url :: "'c storage_env \<Rightarrow> string \<Rightarrow> es_answer \<Rightarrow> string option" where
  \<comment> \<open>where the policy exists, with the sequence number and the primary term of its answer\<close>
  "policy_url env url a =
     (if ea_status a = 200 then
        (case ea_decoded a of
           None \<Rightarrow> None
         | Some existing \<Rightarrow> Some (url @ ''?if_seq_no='' @ so_show env (map_of existing ''_seq_no'')
             @ ''&if_primary_term='' @ so_show env (map_of existing ''_primary_term'')))
      else Some url)"

definition createISMPolicy ::
  "'c storage_env \<Rightarrow> 'c storage \<Rightarrow> request_failure option \<times> 'c storage" where
  "createISMPolicy env st =
     (let cfg = os_config st;
          path = ''/_plugins/_ism/policies/'' @ sc_index_prefix cfg @ ''-policy'' in
      case send env (Get path) st of
        (None, st1) \<Rightarrow> (Some Unreachable, st1)
      | (Some check, st1) \<Rightarrow>
          if ea_body check = None then (Some (Unreadable (ea_status check)), st1)
          else (case policy_url env path check of
                  None \<Rightarrow> (Some Unparsable, st1)
                | Some url \<Rightarrow>
                    (case send env (Put url (ism_policy cfg)) st1 of
                       (None, st2) \<Rightarrow> (Some Unreachable, st2)
                     | (Some a, st2) \<Rightarrow>
                         (if ea_status a \<ge> 400 \<and> ea_status a \<noteq> 409
                          then Some (if ea_body a = None then Unreadable (ea_status a) else answered a)
                          else None, st2))))"

definition createInitialIndex ::
  "'c storage_env \<Rightarrow> 'c storage \<Rightarrow> request_failure option \<times> 'c storage" where
  "createInitialIndex env st =
     (let cfg = os_config st;
          indexName = GetCurrentWriteIndex (so_format_day env) cfg (so_now env (os_step st)) in
      case send env (IndexExists indexName) st of
        (None, st1) \<Rightarrow> (Some Unreachable, st1)
      | (Some ex, st1) \<Rightarrow>
          if ea_status ex = 200 then (None, st1)
          else (case send env (IndexCreate indexName) st1 of
                  (None, st2) \<Rightarrow> (Some Unreachable, st2)
                | (Some a, st2) \<Rightarrow>
                    if IsError a then (Some (answered a), st2)
                    else (case send env (Post ''/_aliases'' (alias_actions cfg indexName)) st2 of
                            (None, st3) \<Rightarrow> (Some Unreachable, st3)
                          | (Some b, st3) \<Rightarrow>
                              (if ea_status b \<ge> 400 then Some (answered b) else None, st3))))"

definition Initialize :: "'c storage_env \<Rightarrow> 'c storage \<Rightarrow> init_error option \<times> 'c storage" where
  "Initialize env st =
     (if os_initialized st then (None, st)
      else case send env Info st of
        (None, st1) \<Rightarrow> (Some ConnectFailed, st1)
      | (Some a, st1) \<Rightarrow>
          if IsError a then (Some (ReturnedError (ea_status a)), st1)
          else (case createIndexTemplate env st1 of
                  (Some e, st2) \<Rightarrow> (Some (TemplateFailed e), st2)
                | (None, st2) \<Rightarrow>
                    (case createISMPolicy env st2 of
                       (Some e, st3) \<Rightarrow> (Some (PolicyFailed e), st3)
                     | (None, st3) \<Rightarrow>
                         (case createInitialIndex env st3 of
                            (Some e, st4) \<Rightarrow> (Some (IndexFailed e), st4)
                          | (None, st4) \<Rightarrow> (None, st4\<lparr>os_initialized := True\<rparr>)))))"

section \<open>The bulk indexer\<close>

definition getBulkIndexer :: "'c storage_env \<Rightarrow> 'c storage \<Rightarrow> string option \<times> 'c storage" where
  "getBulkIndexer env st =
     (if os_indexer st \<noteq> None then (None, st)
      else case so_new_indexer env (os_step st) of
        Some e \<Rightarrow> (Some (''failed to create bulk indexer: '' @ e), st)
      | None \<Rightarrow> (None, st\<lparr>os_indexer := Some []\<rparr>))"

definition send_document :: "'c storage_env \<Rightarrow> document \<Rightarrow> 'c storage \<Rightarrow> 'c storage" where
  "send_document env d st =
     (case so_item env (os_step st) of
        None \<Rightarrow> st\<lparr>os_indexed := os_indexed st @ [d], os_step := os_step st + 1\<rparr>
      | Some e \<Rightarrow> st\<lparr>os_refused := os_refused st @ [(d, e)], os_step := os_step st + 1\<rparr>)"

definition bulk_flush :: "'c storage_env \<Rightarrow> 'c storage \<Rightarrow> 'c storage" where
  \<comment> \<open>what the workers of the indexer do once the buffer is full or the interval is over\<close>
  "bulk_flush env st =
     (case os_indexer st of
        None \<Rightarrow> st
      | Some ds \<Rightarrow> fold (send_document env) ds (st\<lparr>os_indexer := Some []\<rparr>))"

record bulk_response = storage_response +
  br_errors :: "string list"

definition failed_with :: "string \<Rightarrow> bulk_response \<Rightarrow> bulk_response" where
  "failed_with e r = r\<lparr>sr_failed := sr_failed r + 1, br_errors := br_errors r @ [e]\<rparr>"

definition add_event ::
  "'c storage_env \<Rightarrow> document \<Rightarrow> bulk_response \<times> 'c storage \<Rightarrow> bulk_response \<times> 'c storage" where
  "add_event env ev = (\<lambda>(r, st).
     case so_marshal env ev of
       None \<Rightarrow> (failed_with ''Failed to marshal event'' r, st)
     | Some _ \<Rightarrow>
         (case so_add env (os_step st) of
            Some e \<Rightarrow> (failed_with (''Failed to add to bulk indexer: '' @ e) r,
                       st\<lparr>os_step := os_step st + 1\<rparr>)
          | None \<Rightarrow> (r, st\<lparr>os_indexer := map_option (\<lambda>ds. ds @ [ev]) (os_indexer st),
                             os_step := os_step st + 1\<rparr>)))"

definition report_item :: "'c storage_env \<Rightarrow> nat \<Rightarrow> bulk_response \<Rightarrow> bulk_response" where
  \<comment> \<open>the call-backs of one document\<close>
  "report_item env n r =
     (case so_item env n of
        None \<Rightarrow> r\<lparr>sr_indexed := sr_indexed r + 1\<rparr>
      | Some e \<Rightarrow> failed_with e r)"

definition store_Ingest ::
  "'c storage_env \<Rightarrow> document list \<Rightarrow> 'c storage \<Rightarrow> (string + bulk_response) \<times> 'c storage" where
  \<comment> \<open>the call-backs count towards the answer only where the indexer sends before it is read\<close>
  "store_Ingest env events st =
     (if \<not> os_client st then (Inl ''opensearch client not initialized'', st)
      else case getBulkIndexer env st of
        (Some e, st1) \<Rightarrow>
          (Inr \<lparr>sr_indexed = 0, sr_failed = int (length events), br_errors = [e]\<rparr>, st1)
      | (None, st1) \<Rightarrow>
          (let (r, st2) = fold (add_event env) events
                 (\<lparr>sr_indexed = 0, sr_failed = 0, br_errors = []\<rparr>, st1);
               old = (case os_indexer st1 of None \<Rightarrow> 0 | Some ds \<Rightarrow> length ds);
               all = (case os_indexer st2 of None \<Rightarrow> 0 | Some ds \<Rightarrow> length ds) in
           if so_early env (os_step st2)
           then (Inr (fold (report_item env) [os_step st2 + old..<os_step st2 + all] r), bulk_flush env st2)
           else (Inr r, st2)))"

definition store_Close :: "'c storage_env \<Rightarrow> bool \<Rightarrow> 'c storage \<Rightarrow> string option \<times> 'c storage" where
  \<comment> \<open>the flag: the indexer sends its buffer within thirty seconds\<close>
  "store_Close env in_time st =
     (case os_indexer st of
        None \<Rightarrow> (None, st)
      | Some _ \<Rightarrow>
          if in_time then (None, (bulk_flush env st)\<lparr>os_indexer := None\<rparr>)
          else (Some ''failed to close bulk indexer'', st))"

end
