(* ===== verification/StorageRun.thy ===== *)
theory StorageRun
  imports Storage IngestLaws "HOL-Library.Multiset"
begin

text \<open>
  The ingest service with its storage client (\<^verbatim>\<open>ingest/cmd/ingest/main.go\<close> puts them together): the
  step relation of the two, what an acknowledgement says about a document, and what a set-up that broke
  off leaves to the next one.
\<close>

section \<open>The documents of the client\<close>

definition buffered :: "'c storage \<Rightarrow> document list" where
  "buffered sc = (case os_indexer sc of None \<Rightarrow> [] | Some ds \<Rightarrow> ds)"

definition handed :: "'c storage \<Rightarrow> document multiset" where
  \<comment> \<open>indexed, refused, or still in the buffer\<close>
  "handed sc = mset (os_indexed sc) + mset (map fst (os_refused sc)) + mset (buffered sc)"

lemma send_document_handed [simp]:
  "handed (send_document env d sc) = add_mset d (handed sc)"
  "os_indexer (send_document env d sc) = os_indexer sc"
  by (auto simp: send_document_def handed_def buffered_def split: option.split)

lemma send_documents_handed:
  "handed (fold (send_document env) ds sc) = mset ds + handed sc"
  "os_indexer (fold (send_document env) ds sc) = os_indexer sc"
  by (induction ds arbitrary: sc) simp_all

lemma handed_flush [simp]: "handed (bulk_flush env sc) = handed sc"
  by (auto simp: bulk_flush_def send_documents_handed split: option.split)
    (simp add: handed_def buffered_def)

lemma handed_getBulkIndexer [simp]: "handed (snd (getBulkIndexer env sc)) = handed sc"
  by (auto simp: getBulkIndexer_def handed_def buffered_def split: option.split)

lemma getBulkIndexer_ready: "getBulkIndexer env sc = (None, sc1) \<Longrightarrow> \<exists>ds. os_indexer sc1 = Some ds"
  by (auto simp: getBulkIndexer_def split: if_splits option.splits)

lemma handed_add_event:
  assumes "os_indexer sc = Some ds"
  shows "handed sc \<subseteq># handed (snd (add_event env d (r, sc)))"
    and "sr_failed (fst (add_event env d (r, sc))) = sr_failed r
         \<Longrightarrow> handed (snd (add_event env d (r, sc))) = add_mset d (handed sc)"
  using assms by (auto simp: add_event_def handed_def buffered_def failed_with_def split: option.splits)

lemma report_item_failed: "sr_failed r \<le> sr_failed (report_item env n r)"
  by (simp add: report_item_def failed_with_def split: option.split)

lemma report_items_failed: "sr_failed r \<le> sr_failed (fold (report_item env) ns r)"
  by (induction ns arbitrary: r) (auto intro: order_trans [OF report_item_failed])

lemma handed_Ingest_one:
  shows "handed sc \<subseteq># handed (snd (store_Ingest env [d] sc))"
    and "fst (store_Ingest env [d] sc) = Inr r \<Longrightarrow> sr_failed r \<le> 0
         \<Longrightarrow> handed (snd (store_Ingest env [d] sc)) = add_mset d (handed sc)"
proof -
  obtain err sc1 where g: "getBulkIndexer env sc = (err, sc1)" by force
  then have same: "handed sc1 = handed sc" using handed_getBulkIndexer [of env sc] by simp
  obtain ds where "err = None \<Longrightarrow> os_indexer sc1 = Some ds" using g getBulkIndexer_ready by blast
  note added = handed_add_event [OF this, unfolded same]
  show "handed sc \<subseteq># handed (snd (store_Ingest env [d] sc))"
    using g added(1) same by (auto simp: store_Ingest_def Let_def case_prod_unfold split: option.split)
  assume r: "fst (store_Ingest env [d] sc) = Inr r" "sr_failed r \<le> 0"
  obtain r2 sc2 where a: "add_event env d (\<lparr>sr_indexed = 0, sr_failed = 0, br_errors = []\<rparr>, sc1) = (r2, sc2)"
    by force
  have "0 \<le> sr_failed r2"
    using a by (auto simp: add_event_def failed_with_def split: option.splits)
  moreover have "err = None" "sr_failed r2 \<le> sr_failed r" "os_client sc"
    using r g a report_items_failed [of r2 env]
    by (auto simp: store_Ingest_def Let_def split: option.splits if_splits)
  ultimately show "handed (snd (store_Ingest env [d] sc)) = add_mset d (handed sc)"
    using r(2) g a added(2) [of env d "\<lparr>sr_indexed = 0, sr_failed = 0, br_errors = []\<rparr>"]
    by (auto simp: store_Ingest_def Let_def)
qed

section \<open>The two together\<close>

definition stored_env :: "'c storage_env \<Rightarrow> 'c storage \<Rightarrow> ingest_env \<Rightarrow> ingest_env" where
  \<comment> \<open>\<open>NewIngestService\<close> with this client\<close>
  "stored_env senv sc env =
     env\<lparr>ig_storage := Some (\<lambda>_ ev.
       case fst (store_Ingest senv [ev] sc) of
         Inl _ \<Rightarrow> None
       | Inr r \<Rightarrow> Some (Some (storage_response.truncate r)))\<rparr>"

definition process_event ::
  "'c storage_env \<Rightarrow> ingest_env \<Rightarrow> ingest \<times> 'c storage \<Rightarrow> ingest \<times> 'c storage" where
  "process_event senv env = (\<lambda>(st, sc).
     (finish_event (stored_env senv sc env) st,
      case is_in_flight st of
        None \<Rightarrow> sc
      | Some ev \<Rightarrow>
          (case fst (normalizeEvent env ev (st\<lparr>is_in_flight := None\<rparr>)) of
             Inl _ \<Rightarrow> sc
           | Inr doc \<Rightarrow> snd (store_Ingest senv [doc] sc))))"

inductive tandem_reachable :: "'c storage_env \<Rightarrow> ingest_env \<Rightarrow> ingest \<times> 'c storage \<Rightarrow> bool" for senv env where
  start: "tandem_reachable senv env (NewIngestService now (map_option NewManager ttl), NewClient cfg cluster)"
| initialize: "tandem_reachable senv env (st, sc) \<Longrightarrow> tandem_reachable senv env (st, snd (Initialize senv sc))"
| event: "tandem_reachable senv env (st, sc) \<Longrightarrow>
    tandem_reachable senv env (snd (IngestEvent env hev ip tok st), sc)"
| raw: "tandem_reachable senv env (st, sc) \<Longrightarrow>
    tandem_reachable senv env (snd (IngestRaw env data ip tok src sty host st), sc)"
| taken: "tandem_reachable senv env (st, sc) \<Longrightarrow> tandem_reachable senv env (take_event st, sc)"
| finished: "tandem_reachable senv env x \<Longrightarrow> tandem_reachable senv env (process_event senv env x)"
| expiry: "tandem_reachable senv env (st, sc) \<Longrightarrow> tandem_reachable senv env (cleanup_acks env st, sc)"
| flushed: "tandem_reachable senv env (st, sc) \<Longrightarrow> tandem_reachable senv env (st, bulk_flush senv sc)"
| closed: "tandem_reachable senv env (st, sc) \<Longrightarrow>
    tandem_reachable senv env (st, snd (store_Close senv in_time sc))"

lemma stored_env_simps [simp]:
  "ig_uuid (stored_env senv sc env) = ig_uuid env" "ig_now (stored_env senv sc env) = ig_now env"
  "normalizeEvent (stored_env senv sc env) ev st = normalizeEvent env ev st"
  "cleanup_acks (stored_env senv sc env) st = cleanup_acks env st"
  "fresh_ids (stored_env senv sc env) = fresh_ids env"
  by (simp_all add: stored_env_def normalizeEvent_def cleanup_acks_def fresh_ids_def Let_def
      split: option.split sum.split)

definition tandem_ok :: "ingest_env \<Rightarrow> ingest \<times> 'c storage \<Rightarrow> bool" where
  "tandem_ok env x \<longleftrightarrow>
     ingest_ok (env\<lparr>ig_storage := Some (\<lambda>_ _. None)\<rparr>) (fst x)
     \<and> mset (map snd (is_stored (fst x))) \<subseteq># handed (snd x)"

lemma ingest_ok_stored [simp]:
  "ingest_ok (stored_env senv sc env) st = ingest_ok (env\<lparr>ig_storage := Some (\<lambda>_ _. None)\<rparr>) st"
  by (simp add: ingest_ok_def acks_ok_def drawn_def stored_env_def)

lemma finish_event_stored:
  assumes "is_in_flight st = Some ev"
  shows "is_stored (finish_event env st) = is_stored st \<or>
    (\<exists>doc. fst (normalizeEvent env ev (st\<lparr>is_in_flight := None\<rparr>)) = Inr doc
       \<and> is_stored (finish_event env st) = is_stored st @ [(ie_id ev, doc)]
       \<and> (\<forall>g. ig_storage env = Some g \<longrightarrow>
             (\<exists>resp. g (is_tick st) doc = Some (Some resp) \<and> sr_failed resp \<le> 0)))"
proof -
  obtain res s1 where n: "normalizeEvent env ev (st\<lparr>is_in_flight := None\<rparr>) = (res, s1)" by force
  then have s1: "is_stored s1 = is_stored st" "is_tick s1 = is_tick st"
    using normalizeEvent_state(5,6) [of env ev "st\<lparr>is_in_flight := None\<rparr>"] by simp_all
  show ?thesis
    using assms n s1
    by (auto simp: finish_event_def forwardToStorage_def complete_ack_def fail_ack_def
        split: sum.splits option.splits)
qed

lemma handed_requests [simp]:
  "handed (snd (send env rq sc)) = handed sc"
  by (simp add: send_def handed_def buffered_def Let_def case_prod_unfold)

lemma handed_sent: "send env rq sc = (a, sc') \<Longrightarrow> handed sc' = handed sc"
  using handed_requests [of env rq sc] by simp

lemma handed_setup:
  "createIndexTemplate env sc = (e, sc') \<Longrightarrow> handed sc' = handed sc"
  "createISMPolicy env sc = (e, sc') \<Longrightarrow> handed sc' = handed sc"
  "createInitialIndex env sc = (e, sc') \<Longrightarrow> handed sc' = handed sc"
  by (auto simp: createIndexTemplate_def createISMPolicy_def createInitialIndex_def Let_def
      dest!: handed_sent split: option.splits prod.splits if_splits)

lemma handed_initialized [simp]: "handed (sc\<lparr>os_initialized := b\<rparr>) = handed sc"
  by (simp add: handed_def buffered_def)

lemma handed_Initialize [simp]: "handed (snd (Initialize env sc)) = handed sc"
  by (auto simp: Initialize_def dest!: handed_sent handed_setup split: option.split prod.split)

lemma handed_Close [simp]: "handed (snd (store_Close env in_time sc)) = handed sc"
proof -
  have "handed (sc\<lparr>os_indexer := None\<rparr>) = handed sc" if "os_indexer sc = Some []" for sc :: "'a storage"
    using that by (simp add: handed_def buffered_def)
  moreover have "os_indexer (bulk_flush env sc) = Some []" if "os_indexer sc \<noteq> None"
    using that by (auto simp: bulk_flush_def send_documents_handed)
  ultimately show ?thesis by (auto simp: store_Close_def split: option.split)
qed

lemma enqueue_stored [simp]: "is_stored (snd (enqueue env n ev st)) = is_stored st"
  by (simp add: enqueue_def create_ack_def fail_ack_def count_event_def itick_def Let_def
      split: option.split)

lemma other_steps_stored [simp]:
  "is_stored (snd (IngestEvent env hev ip tok st)) = is_stored st"
  "is_stored (snd (IngestRaw env data ip tok src sty host st)) = is_stored st"
  "is_stored (take_event st) = is_stored st" "is_stored (cleanup_acks env st) = is_stored st"
  by (simp_all add: IngestEvent_def IngestRaw_def take_event_def cleanup_acks_def itick_def Let_def
      case_prod_unfold split: option.split list.split)

lemma stored_answer:
  assumes "ig_storage (stored_env senv sc env) = Some g" "g n doc = Some (Some resp)" "sr_failed resp \<le> 0"
  shows "handed (snd (store_Ingest senv [doc] sc)) = add_mset doc (handed sc)"
proof -
  obtain r where "fst (store_Ingest senv [doc] sc) = Inr r" "resp = storage_response.truncate r"
    using assms(1,2) by (auto simp: stored_env_def split: sum.splits)
  moreover from this(2) have "sr_failed r = sr_failed resp" by (simp add: storage_response.defs)
  ultimately show ?thesis using handed_Ingest_one(2) [of senv doc sc r] assms(3) by simp
qed

lemma process_event_handed:
  assumes "mset (map snd (is_stored st)) \<subseteq># handed sc"
  shows "mset (map snd (is_stored (fst (process_event senv env (st, sc)))))
         \<subseteq># handed (snd (process_event senv env (st, sc)))"
proof (cases "is_in_flight st")
  case None
  then show ?thesis using assms by (simp add: process_event_def finish_event_def)
next
  case (Some ev)
  let ?env = "stored_env senv sc env" and ?st = "finish_event (stored_env senv sc env) st"
  have grown: "handed sc \<subseteq># handed (snd (process_event senv env (st, sc)))"
    using Some by (simp add: process_event_def handed_Ingest_one(1) split: sum.split)
  from finish_event_stored [OF Some, of ?env] show ?thesis
  proof
    assume "is_stored ?st = is_stored st"
    with grown assms show ?thesis by (auto simp: process_event_def intro: subset_mset.order_trans)
  next
    assume "\<exists>doc. fst (normalizeEvent ?env ev (st\<lparr>is_in_flight := None\<rparr>)) = Inr doc
      \<and> is_stored ?st = is_stored st @ [(ie_id ev, doc)]
      \<and> (\<forall>g. ig_storage ?env = Some g \<longrightarrow>
           (\<exists>resp. g (is_tick st) doc = Some (Some resp) \<and> sr_failed resp \<le> 0))"
    moreover obtain g where g: "ig_storage ?env = Some g" by (simp add: stored_env_def)
    ultimately obtain doc resp where doc: "fst (normalizeEvent env ev (st\<lparr>is_in_flight := None\<rparr>)) = Inr doc"
      "is_stored ?st = is_stored st @ [(ie_id ev, doc)]"
      "g (is_tick st) doc = Some (Some resp)" "sr_failed resp \<le> 0"
      by auto
    with stored_answer [OF g doc(3,4)] assms Some show ?thesis by (simp add: process_event_def)
  qed
qed

lemma tandem_ok_reachable:
  assumes "tandem_reachable senv env x" and "fresh_ids env"
  shows "tandem_ok env x"
  using assms
proof (induction rule: tandem_reachable.induct)
  case (start now ttl cfg cluster)
  show ?case by (simp add: tandem_ok_def ingest_ok_start) (simp add: NewIngestService_def)
next
  case (finished x)
  then have ok: "tandem_ok env x" by simp
  obtain st sc where x: "x = (st, sc)" by force
  have fresh: "fresh_ids (stored_env senv sc env)" using finished by simp
  have "ingest_ok (stored_env senv sc env) st" using ok by (simp add: tandem_ok_def x)
  from ingest_ok_step [OF ingest_step.finished fresh this] process_event_handed [of st sc senv env] ok
  show ?case by (simp add: tandem_ok_def x) (simp add: process_event_def)
next
  case (event st sc hev ip tok)
  let ?env = "env\<lparr>ig_storage := Some (\<lambda>_ _. None)\<rparr>"
  have "IngestEvent ?env hev ip tok st = IngestEvent env hev ip tok st"
    by (simp add: IngestEvent_def enqueue_def create_ack_def fail_ack_def count_event_def Let_def
        case_prod_unfold split: option.split)
  then show ?case
    using event ingest_ok_step [OF ingest_step.event [of ?env st hev ip tok]]
    by (simp add: tandem_ok_def fresh_ids_def)
next
  case (raw st sc data ip tok src sty host)
  let ?env = "env\<lparr>ig_storage := Some (\<lambda>_ _. None)\<rparr>"
  have "IngestRaw ?env data ip tok src sty host st = IngestRaw env data ip tok src sty host st"
    by (simp add: IngestRaw_def enqueue_def create_ack_def fail_ack_def count_event_def Let_def
        case_prod_unfold split: option.split)
  then show ?case
    using raw ingest_ok_step [OF ingest_step.raw [of ?env st data ip tok src sty host]]
    by (simp add: tandem_ok_def fresh_ids_def)
next
  case (expiry st sc)
  let ?env = "env\<lparr>ig_storage := Some (\<lambda>_ _. None)\<rparr>"
  have "cleanup_acks ?env st = cleanup_acks env st"
    by (simp add: cleanup_acks_def split: option.split)
  then show ?case
    using expiry ingest_ok_step [OF ingest_step.expiry [of ?env st]]
    by (simp add: tandem_ok_def fresh_ids_def)
qed (simp_all add: tandem_ok_def ingest_ok_take)

end
