(* ===== verification/StorageProps.thy ===== *)
theory StorageProps
  imports StorageRun
begin

text \<open>
  What the acknowledgements of the ingest service say about the documents its storage client has taken,
  and what a set-up that broke off leaves behind.
\<close>

section \<open>A sample cluster\<close>

definition sample_perform :: "bool \<Rightarrow> es_request \<Rightarrow> string list \<Rightarrow> es_answer option \<times> string list" where
  \<comment> \<open>the names of its indices; the flag: it answers requests for aliases\<close>
  "sample_perform aliases rq c =
     (let ok = \<lparr>ea_status = 200, ea_body = Some [], ea_decoded = None\<rparr> in
      case rq of
        Get _ \<Rightarrow> (Some (ok\<lparr>ea_status := 404\<rparr>), c)
      | IndexExists i \<Rightarrow> (Some (if i \<in> set c then ok else ok\<lparr>ea_status := 404\<rparr>), c)
      | IndexCreate i \<Rightarrow> (Some ok, i # c)
      | Post _ _ \<Rightarrow> (if aliases then Some ok else None, c)
      | _ \<Rightarrow> (Some ok, c))"

definition sample_storage_env :: "bool \<Rightarrow> string list storage_env" where
  \<comment> \<open>every document is refused\<close>
  "sample_storage_env aliases =
     \<lparr>so_perform = sample_perform aliases, so_now = int, so_format_day = (\<lambda>_. ''2026.01.01''),
      so_show = (\<lambda>_. ''0''), so_marshal = (\<lambda>_. Some ''{}''), so_new_indexer = (\<lambda>_. None),
      so_add = (\<lambda>_. None), so_item = (\<lambda>_. Some ''mapper_parsing_exception''), so_early = (\<lambda>_. False)\<rparr>"

definition sample_client :: "string list storage" where
  "sample_client = NewClient DefaultConfig []"

definition sample_taken :: ingest where
  "sample_taken = take_event (snd sample_accepted)"

definition sample_tandem :: "ingest \<times> string list storage" where
  "sample_tandem = process_event (sample_storage_env True) sample_ingest_env (sample_taken, sample_client)"

lemma sample_tandem_reachable: "tandem_reachable (sample_storage_env True) sample_ingest_env sample_tandem"
  unfolding sample_tandem_def sample_taken_def sample_accepted_def sample_ingest_start_def sample_client_def
  by (intro tandem_reachable.intros)

section \<open>Acknowledgements and documents\<close>

text \<open>C10: However requests, processing, flushes and set-ups interleave, no document is lost between the
  service and its client, and none is counted twice: each one that went to the storage is indexed, refused
  by the cluster, or still in the buffer; and that is all an acknowledgement answered true says.\<close>

theorem acknowledged_documents_kept:
  assumes "fresh_ids env" and "tandem_reachable senv env (st, sc)"
    and "map_of (QueryAcks ids st) i = Some True" and "is_acks st = Some m"
  shows "mset (map snd (is_stored st)) \<subseteq># handed sc
    \<and> (\<exists>a. map_of (m_acks m) i = Some a \<and>
         (\<forall>e\<in>set (a_event_ids a). \<exists>doc. (e, doc) \<in> set (is_stored st) \<and> doc \<in># handed sc))"
proof -
  have ok: "tandem_ok env (st, sc)" using tandem_ok_reachable [OF assms(2,1)] .
  then have sub: "mset (map snd (is_stored st)) \<subseteq># handed sc" by (simp add: tandem_ok_def)
  from assms(3,4) have "ack_status m i = Some StatusSuccess"
    by (auto simp: QueryAcks_def Query_status split: if_splits)
  then obtain a where a: "map_of (m_acks m) i = Some a" "a_status a = StatusSuccess"
    by (auto simp: ack_status_def)
  with ok assms(4) have "set (a_event_ids a) \<subseteq> fst ` set (is_stored st)"
    by (auto simp: tandem_ok_def ingest_ok_def acks_ok_def stored_ids_def)
  moreover have "doc \<in># handed sc" if "(e, doc) \<in> set (is_stored st)" for e doc
    using that mset_subset_eqD [OF sub] by force
  ultimately show ?thesis using sub a(1) by force
qed

theorem acknowledged_documents_kept_witness:
  "map_of (QueryAcks [''iiii''] (fst sample_tandem)) ''iiii'' = Some True
   \<and> mset (map snd (is_stored (fst sample_tandem))) \<subseteq># handed (snd sample_tandem)"
proof -
  have true: "map_of (QueryAcks [''iiii''] (fst sample_tandem)) ''iiii'' = Some True" by code_simp
  then obtain m where "is_acks (fst sample_tandem) = Some m"
    by (auto simp: QueryAcks_def split: option.splits)
  with acknowledged_documents_kept [OF sample_fresh_ids _ true, of "sample_storage_env True"
      "snd sample_tandem"] sample_tandem_reachable true
  show ?thesis by simp
qed

lemma send_documents_step: "os_step (fold (send_document env) ds sc) = os_step sc + length ds"
  by (induction ds arbitrary: sc) (simp_all add: send_document_def split: option.split)

lemma send_documents_indexed:
  "set (os_indexed (fold (send_document env) ds sc)) \<subseteq> set (os_indexed sc) \<union> set ds"
proof (induction ds arbitrary: sc)
  case (Cons d ds)
  from Cons [of "send_document env d sc"] show ?case
    by (auto simp: send_document_def split: option.splits)
qed simp

lemma Ingest_buffers:
  assumes "os_client sc" "os_indexer sc = Some ds" "so_marshal env doc \<noteq> None"
    and "so_add env (os_step sc) = None" "\<not> so_early env (os_step sc + 1)"
  shows "store_Ingest env [doc] sc
    = (Inr \<lparr>sr_indexed = 0, sr_failed = 0, br_errors = []\<rparr>,
       sc\<lparr>os_indexer := Some (ds @ [doc]), os_step := os_step sc + 1\<rparr>)"
  using assms by (auto simp: store_Ingest_def getBulkIndexer_def add_event_def)

lemma flush_refuses:
  assumes "os_indexer sc = Some (ds @ [doc])" "so_item env (os_step sc + length ds) = Some e"
    and "doc \<notin> set (os_indexed sc) \<union> set ds"
  shows "(doc, e) \<in> set (os_refused (bulk_flush env sc)) \<and> doc \<notin> set (os_indexed (bulk_flush env sc))"
  using assms send_documents_indexed [of env ds "sc\<lparr>os_indexer := Some []\<rparr>"]
  by (auto simp: bulk_flush_def send_document_def send_documents_step)

lemma normalizeEvent_dead_letters:
  "normalizeEvent env ev st = (Inr doc, st') \<Longrightarrow> st' = st"
  by (auto simp: normalizeEvent_def Let_def split: option.splits sum.splits)

lemma finish_acknowledges:
  assumes "is_in_flight st = Some ev" "is_acks st = Some m" "map_of (m_acks m) (ie_ack_id ev) \<noteq> None"
    and "ie_ack_id ev \<noteq> []" "fst (normalizeEvent env ev (st\<lparr>is_in_flight := None\<rparr>)) = Inr doc"
    and "ig_storage env = Some g" "g (is_tick st) doc = Some (Some resp)" "sr_failed resp \<le> 0"
  shows "QueryAcks [ie_ack_id ev] (finish_event env st) = [(ie_ack_id ev, True)]
    \<and> is_dead_letters (finish_event env st) = is_dead_letters st"
proof -
  have "normalizeEvent env ev (st\<lparr>is_in_flight := None\<rparr>) = (Inr doc, st\<lparr>is_in_flight := None\<rparr>)"
    using assms(5) normalizeEvent_dead_letters by (metis prod.collapse)
  moreover have "map_put i True [] = [(i, True)]" for i :: string by (simp add: map_put_def)
  ultimately show ?thesis using assms
    by (auto simp: finish_event_def forwardToStorage_def complete_ack_def QueryAcks_def ack_Query_def
        ack_Complete_def itick_def)
qed

text \<open>C11: A success is acknowledged before the cluster has seen the document: where the cluster then
  refuses it, the acknowledgement stays true, the document is in no index, and no dead letter is written.\<close>

theorem acknowledged_then_refused:
  assumes "is_in_flight st = Some ev" and "is_acks st = Some m"
    and "map_of (m_acks m) (ie_ack_id ev) \<noteq> None" and "ie_ack_id ev \<noteq> []"
    and "fst (normalizeEvent env ev (st\<lparr>is_in_flight := None\<rparr>)) = Inr doc"
    and "os_client sc" and "os_indexer sc = Some ds" and "so_marshal senv doc \<noteq> None"
    and "so_add senv (os_step sc) = None" and "\<not> so_early senv (os_step sc + 1)"
    and "so_item senv (os_step sc + 1 + length ds) = Some e"
    and "doc \<notin> set (os_indexed sc) \<union> set ds"
    and "process_event senv env (st, sc) = (st', sc')"
  shows "QueryAcks [ie_ack_id ev] st' = [(ie_ack_id ev, True)]
    \<and> is_dead_letters st' = is_dead_letters st
    \<and> (doc, e) \<in> set (os_refused (bulk_flush senv sc')) \<and> doc \<notin> set (os_indexed (bulk_flush senv sc'))"
proof -
  note answer = Ingest_buffers [OF assms(6-10)]
  obtain g where g: "ig_storage (stored_env senv sc env) = Some g" by (simp add: stored_env_def)
  then have "g (is_tick st) doc = Some (Some \<lparr>sr_indexed = 0, sr_failed = 0\<rparr>)"
    using answer by (auto simp: stored_env_def storage_response.defs)
  from finish_acknowledges [OF assms(1-4) _ g this, unfolded stored_env_simps, OF assms(5)]
  have "QueryAcks [ie_ack_id ev] st' = [(ie_ack_id ev, True)] \<and> is_dead_letters st' = is_dead_letters st"
    using assms(13) by (auto simp: process_event_def)
  moreover have "sc' = sc\<lparr>os_indexer := Some (ds @ [doc]), os_step := os_step sc + 1\<rparr>"
    using assms(1,5,13) answer by (auto simp: process_event_def)
  ultimately show ?thesis using flush_refuses [of sc' ds doc senv e] assms(11,12) by simp
qed

definition sample_event :: ingest_event where
  "sample_event = the (is_in_flight sample_taken)"

theorem acknowledged_then_refused_witness:
  "let (st, sc) = process_event (sample_storage_env True) sample_ingest_env
         (sample_taken, sample_client\<lparr>os_indexer := Some []\<rparr>) in
   QueryAcks [ie_ack_id sample_event] st = [(ie_ack_id sample_event, True)]
   \<and> eventToMap sample_event \<notin> set (os_indexed (bulk_flush (sample_storage_env True) sc))"
proof -
  let ?senv = "sample_storage_env True" and ?sc = "sample_client\<lparr>os_indexer := Some []\<rparr>"
  obtain st sc where p: "process_event ?senv sample_ingest_env (sample_taken, ?sc) = (st, sc)" by force
  obtain m where m: "is_acks sample_taken = Some m" "map_of (m_acks m) (ie_ack_id sample_event) \<noteq> None"
  proof -
    have "case is_acks sample_taken of None \<Rightarrow> False
        | Some m \<Rightarrow> map_of (m_acks m) (ie_ack_id sample_event) \<noteq> None" by code_simp
    then show thesis using that by (auto split: option.splits)
  qed
  have "is_in_flight sample_taken \<noteq> None" by code_simp
  then have ev: "is_in_flight sample_taken = Some sample_event" by (simp add: sample_event_def)
  have id: "ie_ack_id sample_event \<noteq> []" by code_simp
  have doc: "fst (normalizeEvent sample_ingest_env sample_event (sample_taken\<lparr>is_in_flight := None\<rparr>))
      = Inr (eventToMap sample_event)"
    by (simp add: normalizeEvent_def sample_ingest_env_def)
  have sc: "os_client ?sc" "os_indexer ?sc = Some []" "os_indexed ?sc = []"
    by (simp_all add: sample_client_def NewClient_def)
  from acknowledged_then_refused [OF ev m id doc sc(1,2), of ?senv "''mapper_parsing_exception''" st sc] sc(3) p
  show ?thesis by (simp add: sample_storage_env_def)
qed

section \<open>Set-ups\<close>

definition keeps_indices :: "'c storage_env \<Rightarrow> (string \<Rightarrow> 'c \<Rightarrow> bool) \<Rightarrow> bool" where
  \<comment> \<open>the documented behaviour of the cluster: an index whose creation was acknowledged is there, stays
     there as long as nobody deletes it, and is found\<close>
  "keeps_indices env there \<longleftrightarrow>
     (\<forall>i c a c'. so_perform env (IndexCreate i) c = (Some a, c') \<and> \<not> IsError a \<longrightarrow> there i c')
     \<and> (\<forall>i c rq. there i c \<longrightarrow> there i (snd (so_perform env rq c)))
     \<and> (\<forall>i c a. there i c \<and> fst (so_perform env (IndexExists i) c) = Some a \<longrightarrow> ea_status a = 200)"

definition alias_request :: "es_request \<Rightarrow> bool" where
  "alias_request rq \<longleftrightarrow> (case rq of Post _ _ \<Rightarrow> True | _ \<Rightarrow> False)"

lemma send_cluster:
  assumes "send env rq st = (a, st')"
  shows "os_cluster st' = snd (so_perform env rq (os_cluster st))" "os_requests st' = os_requests st @ [rq]"
    "a = fst (so_perform env rq (os_cluster st))" "os_config st' = os_config st"
    "os_initialized st' = os_initialized st"
  using assms by (auto simp: send_def Let_def case_prod_unfold)

definition quietly :: "(string \<Rightarrow> 'c \<Rightarrow> bool) \<Rightarrow> 'c storage \<Rightarrow> 'c storage \<Rightarrow> bool" where
  \<comment> \<open>requests other than for aliases, after which every index is still there\<close>
  "quietly there st st' \<longleftrightarrow>
     (\<exists>rqs. os_requests st' = os_requests st @ rqs \<and> list_all (\<lambda>rq. \<not> alias_request rq) rqs)
     \<and> os_config st' = os_config st \<and> os_initialized st' = os_initialized st
     \<and> (\<forall>i. there i (os_cluster st) \<longrightarrow> there i (os_cluster st'))"

lemma quietly_trans: "quietly there st st1 \<Longrightarrow> quietly there st1 st2 \<Longrightarrow> quietly there st st2"
  by (auto simp: quietly_def)

lemma quietly_send:
  assumes "keeps_indices env there" "send env rq st = (a, st')" "\<not> alias_request rq"
  shows "quietly there st st'"
  using assms by (auto simp: quietly_def send_cluster [OF assms(2)] keeps_indices_def)

lemma quietly_template:
  assumes "keeps_indices env there" and "createIndexTemplate env st = (r, st')"
  shows "quietly there st st'"
  using assms(2) by (auto simp: createIndexTemplate_def Let_def alias_request_def
      intro: quietly_send [OF assms(1)] split: option.splits prod.splits)

lemma quietly_policy:
  assumes "keeps_indices env there" and "createISMPolicy env st = (r, st')"
  shows "quietly there st st'"
proof -
  let ?path = "''/_plugins/_ism/policies/'' @ sc_index_prefix (os_config st) @ ''-policy''"
  obtain a st1 where get: "send env (Get ?path) st = (a, st1)" by force
  then have q: "quietly there st st1"
    by (rule quietly_send [OF assms(1)]) (simp add: alias_request_def)
  show ?thesis
  proof (cases "st' = st1")
    case False
    then obtain url b where "send env (Put url (ism_policy (os_config st))) st1 = (b, st')"
      using assms(2) get
      by (auto simp: createISMPolicy_def Let_def split: option.splits prod.splits if_splits)
    then have "quietly there st1 st'"
      by (rule quietly_send [OF assms(1)]) (simp add: alias_request_def)
    with q show ?thesis by (rule quietly_trans)
  qed (use q in simp)
qed

definition first_index :: "storage_config \<Rightarrow> string \<Rightarrow> string" where
  "first_index cfg day = sc_index_prefix cfg @ ''-'' @ day @ ''-000001''"

lemma alias_failed:
  assumes "keeps_indices env there" and "\<And>n. so_format_day env (so_now env n) = day"
    and "createInitialIndex env st = (Some e, st')" and "alias_request (last (os_requests st'))"
  shows "there (first_index (os_config st) day) (os_cluster st')
    \<and> os_config st' = os_config st \<and> os_initialized st' = os_initialized st"
proof -
  let ?i = "first_index (os_config st) day"
  obtain a1 s1 where s1: "send env (IndexExists ?i) st = (a1, s1)" by force
  obtain a2 s2 where s2: "send env (IndexCreate ?i) s1 = (a2, s2)" by force
  obtain a3 s3 where s3: "send env (Post ''/_aliases'' (alias_actions (os_config st) ?i)) s2 = (a3, s3)"
    by force
  note c1 = send_cluster [OF s1] and c2 = send_cluster [OF s2] and c3 = send_cluster [OF s3]
  have "st' = s1 \<or> st' = s2 \<or> st' = s3 \<and> (\<exists>a. a2 = Some a \<and> \<not> IsError a)"
    using assms(2,3) s1 s2 s3
    by (auto simp: createInitialIndex_def GetCurrentWriteIndex_def first_index_def Let_def
        split: option.splits if_splits)
  then obtain a where a: "st' = s3" "a2 = Some a" "\<not> IsError a"
    using assms(4) c1(2) c2(2) by (auto simp: alias_request_def)
  then have "so_perform env (IndexCreate ?i) (os_cluster s1) = (Some a, os_cluster s2)"
    using c2(1,3) by (simp add: prod_eq_iff)
  then have "there ?i (os_cluster s2)"
    using assms(1) a(3) unfolding keeps_indices_def by blast
  then show ?thesis
    using assms(1) a(1) c1 c2 c3 unfolding keeps_indices_def by simp
qed

lemma index_found:
  assumes "keeps_indices env there" and "\<And>n. so_format_day env (so_now env n) = day"
    and "there (first_index (os_config st) day) (os_cluster st)"
    and "createInitialIndex env st = (None, st')"
  shows "quietly there st st'"
proof -
  let ?rq = "IndexExists (first_index (os_config st) day)"
  obtain a st1 where s: "send env ?rq st = (a, st1)" by force
  have "quietly there st st1" using quietly_send [OF assms(1) s] by (simp add: alias_request_def)
  moreover have "ea_status x = 200" if "a = Some x" for x
    using that assms(1,3) send_cluster(3) [OF s] unfolding keeps_indices_def by metis
  ultimately show ?thesis
    using assms(2,4) s by (auto simp: createInitialIndex_def GetCurrentWriteIndex_def first_index_def
        Let_def split: option.splits)
qed

lemma Initialize_reaches_index:
  assumes "keeps_indices env there" and "Initialize env st = (r, st')" and "\<not> os_initialized st"
    and "r = None \<or> (\<exists>e. r = Some (IndexFailed e))"
  obtains st3 st4 where "quietly there st st3"
    and "createInitialIndex env st3 = (case r of Some (IndexFailed e) \<Rightarrow> Some e | _ \<Rightarrow> None, st4)"
    and "st' = (if r = None then st4\<lparr>os_initialized := True\<rparr> else st4)"
proof -
  obtain a st1 where s1: "send env Info st = (a, st1)" by force
  obtain e2 st2 where s2: "createIndexTemplate env st1 = (e2, st2)" by force
  obtain e3 st3 where s3: "createISMPolicy env st2 = (e3, st3)" by force
  obtain e4 st4 where s4: "createInitialIndex env st3 = (e4, st4)" by force
  have "quietly there st st3"
    using quietly_send [OF assms(1) s1] quietly_template [OF assms(1) s2] quietly_policy [OF assms(1) s3]
    by (simp add: alias_request_def) (meson quietly_trans)
  with assms(2-4) s1 s2 s3 s4 show thesis
    by (intro that [of st3 st4]) (auto simp: Initialize_def split: option.splits if_splits)
qed

text \<open>A set-up that broke off at the write alias is never completed: the next one on the same day finds
  the index, asks for no alias, and reports success.\<close>

lemma write_alias_never_set:
  assumes "keeps_indices env there" and "\<And>n. so_format_day env (so_now env n) = day"
    and "Initialize env st = (Some (IndexFailed e), st1)" and "alias_request (last (os_requests st1))"
    and "Initialize env st1 = (None, st2)"
  shows "os_initialized st2 \<and>
    list_all (\<lambda>rq. \<not> alias_request rq) (drop (length (os_requests st1)) (os_requests st2))"
proof -
  have "\<not> os_initialized st" using assms(3) by (auto simp: Initialize_def split: if_splits)
  from Initialize_reaches_index [OF assms(1,3) this] obtain s3
    where "quietly there st s3" and "createInitialIndex env s3 = (Some e, st1)" by auto
  with alias_failed [OF assms(1,2) this(2) assms(4)] \<open>\<not> os_initialized st\<close>
  have there: "there (first_index (os_config st1) day) (os_cluster st1)" and "\<not> os_initialized st1"
    by (auto simp: quietly_def)
  from Initialize_reaches_index [OF assms(1,5) this(2)] obtain s4 s5
    where q: "quietly there st1 s4" and i: "createInitialIndex env s4 = (None, s5)"
      and st2: "st2 = s5\<lparr>os_initialized := True\<rparr>" by auto
  have "quietly there s4 s5"
    using index_found [OF assms(1,2) _ i] q there by (simp add: quietly_def)
  with q have "quietly there st1 s5" by (rule quietly_trans)
  then show ?thesis by (auto simp: quietly_def st2)
qed


lemmas run_setup = Initialize_def createIndexTemplate_def createISMPolicy_def createInitialIndex_def
  policy_url_def send_def sample_storage_env_def sample_perform_def IsError_def NewClient_def Let_def

lemma write_alias_never_set_example:
  "let st1 = snd (Initialize (sample_storage_env False) (NewClient DefaultConfig []));
       st2 = snd (Initialize (sample_storage_env False) st1) in
   os_initialized st2
   \<and> list_all (\<lambda>rq. \<not> alias_request rq) (drop (length (os_requests st1)) (os_requests st2))"
proof -
  let ?env = "sample_storage_env False"
  obtain e st1 where i1: "Initialize ?env (NewClient DefaultConfig []) = (e, st1)" by force
  obtain r st2 where i2: "Initialize ?env st1 = (r, st2)" by force
  have e: "e = Some (IndexFailed Unreachable)" and l: "alias_request (last (os_requests st1))"
    using i1 by (auto simp: run_setup alias_request_def)
  have r: "r = None" using i1 i2 by (auto simp: run_setup GetCurrentWriteIndex_def)
  have keeps: "keeps_indices ?env (\<lambda>i c. i \<in> set c)"
    by (auto simp: keeps_indices_def sample_storage_env_def sample_perform_def Let_def split: es_request.split)
  have day: "so_format_day ?env (so_now ?env n) = ''2026.01.01''" for n
    by (simp add: sample_storage_env_def)
  from write_alias_never_set [OF keeps day i1 [unfolded e] l i2 [unfolded r]] show ?thesis
    by (simp add: i1 i2)
qed

end
