(* ===== verification/RateLimit.thy ===== *)
theory RateLimit
  imports Prelude
begin

text \<open>
  The rate limiter of the ingest endpoints (\<^verbatim>\<open>ingest/internal/ratelimit/ratelimit.go\<close>): the script it
  has Redis run on a sorted set per key, and the answer of \<open>Allow\<close>. The reference is the window it is
  meant to be: the history of all allowed requests, of which the recent ones are counted.

  Redis keeps for each key the members of its sorted set and the time the key expires. A member is its
  own score here, as the script adds \<open>now\<close> under the score \<open>now\<close>. Lua has one kind of number, so the
  script's \<open>tonumber\<close> rounds nanoseconds: \<open>rl_number\<close>.
\<close>

section \<open>The limiter\<close>

datatype redis_fate = Answered_by_redis | Unanswered bool    \<comment> \<open>the flag: the script ran all the same\<close>

record rate_env =
  rl_number :: "int \<Rightarrow> int"                  \<comment> \<open>\<open>tonumber\<close> of a decimal numeral\<close>
  rl_fate :: "nat \<Rightarrow> redis_fate"

record redis_set =
  rs_members :: "int list"
  rs_expires :: "int option"

type_synonym redis_sets = "(string \<times> redis_set) list"

record rate_limiter =
  rl_limit :: int
  rl_window :: int                           \<comment> \<open>nanoseconds\<close>
  rl_disabled :: bool

definition second_ns :: int where "second_ns = 10 ^ 9"

definition live_set :: "int \<Rightarrow> redis_set option \<Rightarrow> int list" where
  \<comment> \<open>what Redis finds under a key, by its own clock\<close>
  "live_set clock entry =
     (case entry of
        None \<Rightarrow> []
      | Some s \<Rightarrow> (case rs_expires s of
                     Some t \<Rightarrow> if t \<le> clock then [] else rs_members s
                   | None \<Rightarrow> rs_members s))"

definition remaining :: "redis_set option \<Rightarrow> int option" where
  "remaining entry = (case entry of None \<Rightarrow> None | Some s \<Rightarrow> rs_expires s)"

definition rate_script ::
  "(int \<Rightarrow> int) \<Rightarrow> int \<Rightarrow> int \<Rightarrow> int \<Rightarrow> int \<Rightarrow> redis_set option \<Rightarrow> bool \<times> redis_set option" where
  \<comment> \<open>\<open>ZREMRANGEBYSCORE\<close>, \<open>ZCARD\<close>, and below the limit \<open>ZADD\<close> and \<open>EXPIRE\<close>; an empty set is no key\<close>
  "rate_script number clock now window_start limit entry =
     (let zs = filter (\<lambda>z. \<not> (0 \<le> z \<and> z \<le> number window_start)) (live_set clock entry) in
      if int (length zs) < limit
      then (True, Some \<lparr>rs_members = List.insert (number now) zs, rs_expires = Some (clock + 60 * second_ns)\<rparr>)
      else (False, if zs = [] then None else Some \<lparr>rs_members = zs, rs_expires = remaining entry\<rparr>))"

definition rate_key :: "string \<Rightarrow> string" where
  "rate_key key = ''ratelimit:'' @ key"

definition Allow ::
  "rate_env \<Rightarrow> rate_limiter \<Rightarrow> string \<Rightarrow> int \<Rightarrow> int \<Rightarrow> nat \<Rightarrow> redis_sets \<Rightarrow> bool option \<times> redis_sets" where
  \<comment> \<open>\<open>now\<close> is the caller's clock, \<open>clock\<close> the server's, None an error\<close>
  "Allow env r key now clock n sets =
     (if rl_disabled r then (Some True, sets)
      else let k = rate_key key;
               (ok, entry) = rate_script (rl_number env) clock now (now - rl_window r) (rl_limit r)
                               (map_of sets k);
               sets' = (case entry of None \<Rightarrow> AList.delete k sets | Some s \<Rightarrow> AList.update k s sets) in
           case rl_fate env n of
             Answered_by_redis \<Rightarrow> (Some ok, sets')
           | Unanswered executed \<Rightarrow> (None, if executed then sets' else sets))"

definition NewRedisRateLimiter ::
  "(string \<Rightarrow> bool) \<Rightarrow> bool \<Rightarrow> string \<Rightarrow> int \<Rightarrow> int \<Rightarrow> bool \<Rightarrow> string + rate_limiter" where
  \<comment> \<open>whether the address parses, and whether the server answers\<close>
  "NewRedisRateLimiter parses pong redisURL limit window disabled =
     (if disabled then Inr \<lparr>rl_limit = 0, rl_window = 0, rl_disabled = True\<rparr>
      else if \<not> parses redisURL then Inl ''invalid redis URL''
      else if \<not> pong then Inl ''redis connection failed''
      else Inr \<lparr>rl_limit = limit, rl_window = window, rl_disabled = False\<rparr>)"

section \<open>The window\<close>

fun allow_run ::
  "rate_env \<Rightarrow> rate_limiter \<Rightarrow> string \<Rightarrow> (int \<times> int) list \<Rightarrow> nat \<Rightarrow> redis_sets \<Rightarrow> bool option list" where
  \<comment> \<open>requests under one key, with the two clocks\<close>
  "allow_run env r key [] n sets = []"
| "allow_run env r key ((now, clock) # rest) n sets =
     (let (ok, sets') = Allow env r key now clock n sets in ok # allow_run env r key rest (n + 1) sets')"

definition within :: "(int \<Rightarrow> int) \<Rightarrow> int \<Rightarrow> int \<Rightarrow> int list \<Rightarrow> int list" where
  \<comment> \<open>the requests after the start of the window that ends at \<open>now\<close>, as far as the numbers tell\<close>
  "within number window now ts = filter (\<lambda>t. number (now - window) < number t) ts"

fun window_run :: "(int \<Rightarrow> int) \<Rightarrow> int \<Rightarrow> int \<Rightarrow> int list \<Rightarrow> int list \<Rightarrow> bool list" where
  \<comment> \<open>the reference: \<open>past\<close> holds every request ever allowed\<close>
  "window_run number window limit past [] = []"
| "window_run number window limit past (now # rest) =
     (if int (length (within number window now past)) < limit
      then True # window_run number window limit (past @ [now]) rest
      else False # window_run number window limit past rest)"

definition allowed_of :: "int list \<Rightarrow> bool option list \<Rightarrow> int list" where
  "allowed_of nows oks = map fst (filter (\<lambda>(t, ok). ok = Some True) (zip nows oks))"

definition agrees ::
  "(int \<Rightarrow> int) \<Rightarrow> int \<Rightarrow> int \<Rightarrow> int \<Rightarrow> redis_set option \<Rightarrow> int list \<Rightarrow> bool" where
  \<comment> \<open>the set holds the allowed requests of the window that ended with the most recent request, and
     expires a minute after the last allowed one\<close>
  "agrees number window delay recent entry past \<longleftrightarrow>
     sorted_wrt (<) (map number past) \<and> (\<forall>t\<in>set past. 0 \<le> number t \<and> t \<le> recent)
     \<and> (case entry of
          None \<Rightarrow> within number window recent past = []
        | Some s \<Rightarrow> set (rs_members s) = number ` set (within number window recent past)
            \<and> distinct (rs_members s) \<and> past \<noteq> []
            \<and> rs_expires s = Some (last past + delay + 60 * second_ns))"

lemma number_reflects: "mono number \<Longrightarrow> number s < number t \<Longrightarrow> (s::int) < (t::int)"
  using monoD [of number t s] by (meson leD leI)

lemma last_is_latest:
  assumes "mono number" and "sorted_wrt (<) (map number past)" and "t \<in> set past"
  shows "t \<le> (last past :: int)"
proof -
  obtain us vs where past: "past = us @ t # vs" using assms(3) by (meson split_list)
  show ?thesis
  proof (cases vs rule: rev_cases)
    case (snoc ws v)
    then have "number t < number v" using assms(2) past by (simp add: sorted_wrt_append)
    then show ?thesis using number_reflects [OF assms(1)] past snoc by fastforce
  qed (simp add: past)
qed

lemma within_later:
  assumes "mono number" and "recent \<le> now"
  shows "within number window now (within number window recent past) = within number window now past"
proof -
  have "number (recent - window) \<le> number (now - window)" using assms by (simp add: monoD)
  then show ?thesis unfolding within_def filter_filter by (intro filter_cong) auto
qed

lemma length_members:
  assumes "sorted_wrt (<) (map number past)" and "set ms = number ` set (within number window now past)"
    and "distinct ms"
  shows "length ms = length (within number window now past)"
proof -
  have "distinct (map number past)" using assms(1) by (simp add: strict_sorted_iff)
  then have "distinct (map number (within number window now past))"
    unfolding within_def by (simp add: distinct_map_filter)
  then show ?thesis using assms(2,3)
    by (metis distinct_card length_map list.set_map)
qed

lemma live_members:
  assumes "mono number" and "window \<le> 60 * second_ns" and "agrees number window delay recent entry past"
    and "recent \<le> now"
  shows "set (filter (\<lambda>z. \<not> (0 \<le> z \<and> z \<le> number (now - window))) (live_set (now + delay) entry))
      = number ` set (within number window now past)"
    and "distinct (live_set (now + delay) entry)"
proof -
  have pos: "\<forall>t\<in>set past. 0 \<le> number t" using assms(3) by (simp add: agrees_def)
  show "distinct (live_set (now + delay) entry)"
    using assms(3) by (auto simp: live_set_def agrees_def split: option.splits)
  show "set (filter (\<lambda>z. \<not> (0 \<le> z \<and> z \<le> number (now - window))) (live_set (now + delay) entry))
      = number ` set (within number window now past)"
  proof (cases entry)
    case None
    then have "within number window now past = []"
      using assms(3) within_later [OF assms(1,4), of window past] by (simp add: agrees_def within_def)
    then show ?thesis by (simp add: None live_set_def)
  next
    case (Some s)
    then have s: "set (rs_members s) = number ` set (within number window recent past)" "past \<noteq> []"
      "rs_expires s = Some (last past + delay + 60 * second_ns)" "sorted_wrt (<) (map number past)"
      using assms(3) by (simp_all add: agrees_def)
    show ?thesis
    proof (cases "last past + 60 * second_ns \<le> now")
      case True
      have "number t \<le> number (now - window)" if "t \<in> set past" for t
        using last_is_latest [OF assms(1) s(4) that] True assms(1,2) by (simp add: monoD)
      then have "within number window now past = []" by (auto simp: within_def filter_empty_conv not_less)
      then show ?thesis using True by (simp add: Some live_set_def s(3))
    next
      case False
      then have "live_set (now + delay) entry = rs_members s" by (simp add: Some live_set_def s(3))
      then show ?thesis
        using s(1) pos within_later [OF assms(1,4), of window past, symmetric]
        by (force simp: within_def image_iff not_le)
    qed
  qed
qed

lemma rate_script_agrees:
  assumes "mono number" and "window \<le> 60 * second_ns" and "agrees number window delay recent entry past"
    and "recent \<le> now" and "\<forall>t\<in>set past. number t < number now" and "0 \<le> number now"
    and "number (now - window) < number now"
    and "rate_script number (now + delay) now (now - window) limit entry = (ok, entry')"
  shows "ok \<longleftrightarrow> int (length (within number window now past)) < limit"
    and "agrees number window delay now entry' (if ok then past @ [now] else past)"
proof -
  define zs where "zs = filter (\<lambda>z. \<not> (0 \<le> z \<and> z \<le> number (now - window))) (live_set (now + delay) entry)"
  have zs: "set zs = number ` set (within number window now past)" "distinct zs"
    using live_members [OF assms(1-4)] by (simp_all add: zs_def)
  have sorted: "sorted_wrt (<) (map number past)" using assms(3) by (simp add: agrees_def)
  note len = length_members [OF sorted zs]
  have step: "(ok, entry') =
     (if int (length zs) < limit
      then (True, Some \<lparr>rs_members = List.insert (number now) zs,
                        rs_expires = Some (now + delay + 60 * second_ns)\<rparr>)
      else (False, if zs = [] then None else Some \<lparr>rs_members = zs, rs_expires = remaining entry\<rparr>))"
    using assms(8) unfolding rate_script_def Let_def zs_def [symmetric] by simp
  then show "ok \<longleftrightarrow> int (length (within number window now past)) < limit"
    by (simp add: len split: if_splits)
  have past: "\<forall>t\<in>set past. 0 \<le> number t \<and> t \<le> now"
    using assms(3,4) by (auto simp: agrees_def)
  show "agrees number window delay now entry' (if ok then past @ [now] else past)"
  proof (cases ok)
    case True
    then have "entry' = Some \<lparr>rs_members = List.insert (number now) zs,
        rs_expires = Some (now + delay + 60 * second_ns)\<rparr>"
      using step by (simp split: if_splits)
    moreover have "within number window now (past @ [now]) = within number window now past @ [now]"
      using assms(7) by (simp add: within_def)
    ultimately show ?thesis
      using True zs sorted past assms(5,6) by (simp add: agrees_def sorted_wrt_append)
  next
    case False
    have "remaining entry = Some (last past + delay + 60 * second_ns) \<and> past \<noteq> []" if "zs \<noteq> []"
      using assms(3) that
      by (auto simp: remaining_def agrees_def zs_def live_set_def split: option.splits)
    then show ?thesis
      using False step zs sorted past by (auto simp: agrees_def split: if_splits)
  qed
qed

section \<open>Properties\<close>

lemma allow_run_window:
  assumes "mono (rl_number env)" and "rl_window r \<le> 60 * second_ns" and "\<not> rl_disabled r"
    and "\<And>n. rl_fate env n = Answered_by_redis"
  shows "agrees (rl_number env) (rl_window r) delay recent (map_of sets (rate_key key)) past \<Longrightarrow>
      sorted_wrt (<) (map (rl_number env) (past @ nows)) \<Longrightarrow> (\<forall>t\<in>set nows. recent \<le> t) \<Longrightarrow>
      (\<forall>t\<in>set nows. 0 \<le> rl_number env t \<and> rl_number env (t - rl_window r) < rl_number env t) \<Longrightarrow>
      allow_run env r key (map (\<lambda>t. (t, t + delay)) nows) n sets
        = map Some (window_run (rl_number env) (rl_window r) (rl_limit r) past nows)"
proof (induction nows arbitrary: recent past n sets)
  case (Cons now nows)
  let ?k = "rate_key key" and ?num = "rl_number env"
  obtain ok entry where script: "rate_script ?num (now + delay) now (now - rl_window r) (rl_limit r)
      (map_of sets ?k) = (ok, entry)" by force
  define sets' where "sets' = (case entry of None \<Rightarrow> AList.delete ?k sets | Some s \<Rightarrow> AList.update ?k s sets)"
  have allow: "Allow env r key now (now + delay) n sets = (Some ok, sets')"
    using script assms(3,4) by (simp add: Allow_def sets'_def Let_def)
  have entry: "map_of sets' ?k = entry"
    by (cases entry) (simp_all add: sets'_def AList.delete_conv update_conv')
  note step = rate_script_agrees [OF assms(1,2) Cons.prems(1) _ _ _ _ script]
  have earlier: "\<forall>t\<in>set past. ?num t < ?num now" and later: "\<forall>t\<in>set nows. ?num now < ?num t"
    using Cons.prems(2) by (auto simp: sorted_wrt_append)
  then have onward: "\<forall>t\<in>set nows. now \<le> t" using number_reflects [OF assms(1)] by fastforce
  have ok: "ok \<longleftrightarrow> int (length (within ?num (rl_window r) now past)) < rl_limit r"
    and agree: "agrees ?num (rl_window r) delay now entry (if ok then past @ [now] else past)"
    using step earlier Cons.prems(3,4) by simp_all
  have sorted: "sorted_wrt (<) (map ?num ((if ok then past @ [now] else past) @ nows))"
    using Cons.prems(2) by (auto simp: sorted_wrt_append)
  from Cons.IH [OF agree [folded entry] sorted onward, of "n + 1"] Cons.prems(4) allow ok
  show ?case by simp
qed simp

lemma length_filter_mono:
  "(\<And>x. x \<in> set xs \<Longrightarrow> P x \<Longrightarrow> Q x) \<Longrightarrow> length (filter P xs) \<le> length (filter Q xs)"
  by (induction xs) (auto simp: le_SucI)

lemma window_run_bounded:
  assumes "mono number"
  shows "\<forall>t. int (length (filter (\<lambda>s. s \<le> t) (within number window t past))) \<le> max 0 limit \<Longrightarrow>
    sorted_wrt (<) (past @ nows) \<Longrightarrow>
    int (length (filter (\<lambda>s. s \<le> t)
      (within number window t (past @ allowed_of nows (map Some (window_run number window limit past nows))))))
    \<le> max 0 limit"
proof (induction nows arbitrary: past)
  case Nil
  then show ?case by (simp add: allowed_of_def)
next
  case (Cons now nows)
  show ?case
  proof (cases "int (length (within number window now past)) < limit")
    case True
    have "int (length (filter (\<lambda>s. s \<le> t) (within number window t (past @ [now])))) \<le> max 0 limit" for t
    proof (cases "now \<le> t")
      case now: True
      then have "number (now - window) \<le> number (t - window)" using assms by (simp add: monoD)
      then have "length (filter (\<lambda>s. s \<le> t) (within number window t past))
          \<le> length (within number window now past)"
        unfolding within_def filter_filter by (intro length_filter_mono) auto
      then show ?thesis using True by (simp add: within_def)
    qed (use Cons.prems(1) in \<open>simp add: within_def\<close>)
    from Cons.IH [of "past @ [now]"] this Cons.prems(2) True show ?thesis
      by (simp add: allowed_of_def)
  next
    case False
    then show ?thesis
      using Cons.IH [of past] Cons.prems by (simp add: allowed_of_def sorted_wrt_append)
  qed
qed

text \<open>C13: Where Redis answers, the clocks differ by a constant, the window is at most the minute after which
  a key expires, and the rounded readings of the clock increase, the limiter decides exactly like a window
  over the history of all allowed requests, and no window, wherever it ends, holds more allowed requests
  than the limit.\<close>

theorem limiter_is_sliding_window:
  assumes "mono (rl_number env)" and "rl_window r \<le> 60 * second_ns" and "\<not> rl_disabled r"
    and "\<And>n. rl_fate env n = Answered_by_redis"
    and "sorted_wrt (<) (map (rl_number env) nows)"
    and "\<forall>t\<in>set nows. 0 \<le> rl_number env t \<and> rl_number env (t - rl_window r) < rl_number env t"
    and "map_of sets (rate_key key) = None"
    and "oks = allow_run env r key (map (\<lambda>t. (t, t + delay)) nows) n sets"
  shows "oks = map Some (window_run (rl_number env) (rl_window r) (rl_limit r) [] nows)
    \<and> int (length (filter (\<lambda>s. s \<le> t) (within (rl_number env) (rl_window r) t (allowed_of nows oks))))
        \<le> max 0 (rl_limit r)"
proof -
  have sorted: "sorted_wrt (<) nows"
    using assms(5) number_reflects [OF assms(1)]
    by (simp add: sorted_wrt_map) (meson sorted_wrt_mono_rel)
  then have "\<forall>s\<in>set nows. hd nows \<le> s" by (cases nows) auto
  then have "oks = map Some (window_run (rl_number env) (rl_window r) (rl_limit r) [] nows)"
    using allow_run_window [OF assms(1-4), of delay "hd nows" sets key "[]" nows n] assms(5-8)
    by (simp add: agrees_def within_def)
  then show ?thesis
    using window_run_bounded [OF assms(1), of "rl_window r" "[]" "rl_limit r" nows t] sorted
    by (simp add: within_def)
qed

definition sample_rate_env :: rate_env where
  \<comment> \<open>rounding to multiples of 256, as doubles have it for the nanoseconds of our day\<close>
  "sample_rate_env = \<lparr>rl_number = (\<lambda>n. n div 256 * 256), rl_fate = (\<lambda>_. Answered_by_redis)\<rparr>"

theorem limiter_is_sliding_window_witness:
  "allow_run sample_rate_env \<lparr>rl_limit = 2, rl_window = 10000, rl_disabled = False\<rparr> ''ip''
     (map (\<lambda>t. (t, t + 5)) [20000, 21000, 22000, 40000]) 0 []
   = [Some True, Some True, Some False, Some True]"
proof -
  let ?r = "\<lparr>rl_limit = 2, rl_window = 10000, rl_disabled = False\<rparr>" and ?nows = "[20000, 21000, 22000, 40000]"
  have "mono (\<lambda>n::int. n div 256 * 256)" by (intro monoI mult_right_mono zdiv_mono1) auto
  then have "mono (rl_number sample_rate_env)" by (simp add: sample_rate_env_def)
  from limiter_is_sliding_window [OF this, of ?r ?nows "[]" "''ip''" _ 5 0]
  have "allow_run sample_rate_env ?r ''ip'' (map (\<lambda>t. (t, t + 5)) ?nows) 0 []
    = map Some (window_run (rl_number sample_rate_env) 10000 2 [] ?nows)"
    by (simp add: sample_rate_env_def second_ns_def)
  also have "\<dots> = [Some True, Some True, Some False, Some True]"
    by (simp add: sample_rate_env_def within_def)
  finally show ?thesis .
qed

text \<open>Requests with one reading of the clock are counted once, so that a limit of two lets any number of
  them through; and a window longer than a minute is cut short by the expiry of the key.\<close>

lemma same_instant_unlimited:
  "allow_run sample_rate_env \<lparr>rl_limit = 2, rl_window = 10000, rl_disabled = False\<rparr> ''ip''
     [(20000, 20000), (20000, 20000), (20001, 20001), (20002, 20002)] 0 []
   = [Some True, Some True, Some True, Some True]"
  by code_simp

lemma long_window_cut:
  "allow_run \<lparr>rl_number = (\<lambda>n. n), rl_fate = (\<lambda>_. Answered_by_redis)\<rparr>
     \<lparr>rl_limit = 1, rl_window = 3600 * second_ns, rl_disabled = False\<rparr> ''ip''
     [(7200 * second_ns, 7200 * second_ns), (7260 * second_ns, 7260 * second_ns)] 0 []
   = [Some True, Some True]"
  by code_simp

end
