(* ===== verification/Dlq.thy ===== *)
theory Dlq
  imports Pipeline "HOL-Library.Char_ord" "HOL-Library.List_Lexorder" "HOL-Library.Multiset"
begin

text \<open>
  The dead-letter queues of the ingest service: the one in a directory
  (\<^verbatim>\<open>ingest/internal/dlq/dlq.go\<close>), whose state is the directory and a counter, and the one in a NATS stream
  (\<^verbatim>\<open>ingest/internal/dlq/jetstream.go\<close>). What the file system and the stream do to a single call is a
  parameter.
\<close>

record failed_event =
  fe_timestamp :: time
  fe_envelope :: raw_envelope
  fe_error :: string
  fe_reason :: string
  fe_attempts :: int
  fe_last_attempt :: time

datatype dlq_file = Directory | File string

type_synonym directory = "(string \<times> dlq_file) list"       \<comment> \<open>the names in it, each once\<close>

record dlq_env =
  dq_now :: "nat \<Rightarrow> time"
  dq_marshal :: "failed_event \<Rightarrow> string option"
  dq_unmarshal :: "string \<Rightarrow> failed_event option"
  dq_write :: "nat \<Rightarrow> (string \<times> string option) option"
    \<comment> \<open>None: written. Else the error, and what is left in the file if it was created\<close>
  dq_read_dir :: "nat \<Rightarrow> string option"
  dq_unreadable :: "nat \<Rightarrow> string \<Rightarrow> bool"
  dq_remove :: "nat \<Rightarrow> string \<Rightarrow> string option"               \<comment> \<open>the error of removing a file\<close>

record dlq =
  dl_base_path :: string
  dl_files :: directory
  dl_written :: nat
  dl_tick :: nat

datatype dlq_error =
    NotEnabled
  | MarshalError
  | WriteError string
  | ReadDirError string
  | EventNotFound
  | DeleteError string

definition NewQueue :: "(string \<Rightarrow> string option) \<Rightarrow> (string \<Rightarrow> directory) \<Rightarrow> string \<Rightarrow> string + dlq" where
  \<comment> \<open>over the error of making the directory, and what is in it\<close>
  "NewQueue mkdir contents basePath =
     (let path = (if basePath = [] then ''/var/lib/telhawk/dlq'' else basePath) in
      case mkdir path of
        Some e \<Rightarrow> Inl (''create dlq directory: '' @ e)
      | None \<Rightarrow> Inr \<lparr>dl_base_path = path, dl_files = contents path, dl_written = 0, dl_tick = 0\<rparr>)"

definition unix_seconds :: "time \<Rightarrow> int" where
  "unix_seconds t = t div 10 ^ 9"

definition failed_name :: "int \<Rightarrow> nat \<Rightarrow> string" where
  "failed_name seconds written =
     ''failed_'' @ int_string seconds @ ''_'' @ nat_string written @ ''.json''"

definition failed_event_of :: "dlq_env \<Rightarrow> nat \<Rightarrow> raw_envelope \<Rightarrow> string \<Rightarrow> string \<Rightarrow> failed_event" where
  "failed_event_of env n envelope err reason =
     \<lparr>fe_timestamp = dq_now env n, fe_envelope = envelope, fe_error = err, fe_reason = reason,
      fe_attempts = 1, fe_last_attempt = dq_now env (n + 1)\<rparr>"

definition put_file :: "string \<Rightarrow> string \<Rightarrow> directory \<Rightarrow> directory" where
  "put_file name content d = map_put name (File content) d"

definition dlq_Write ::
  "dlq_env \<Rightarrow> raw_envelope \<Rightarrow> string \<Rightarrow> string \<Rightarrow> dlq option \<Rightarrow> dlq_error option \<times> dlq option" where
  \<comment> \<open>a queue that is not there takes everything and keeps nothing\<close>
  "dlq_Write env envelope err reason q =
     (case q of
        None \<Rightarrow> (None, None)
      | Some st \<Rightarrow>
          let n = dl_tick st;
              failed = failed_event_of env n envelope err reason;
              name = failed_name (unix_seconds (dq_now env (n + 2))) (dl_written st);
              st1 = st\<lparr>dl_tick := n + 3\<rparr> in
          case dq_marshal env failed of
            None \<Rightarrow> (Some MarshalError, Some st1)
          | Some data \<Rightarrow>
              (case dq_write env n of
                 Some (e, left) \<Rightarrow>
                   (Some (WriteError e),
                    Some (case left of None \<Rightarrow> st1
                          | Some part \<Rightarrow> st1\<lparr>dl_files := put_file name part (dl_files st1)\<rparr>))
               | None \<Rightarrow>
                   (None, Some (st1\<lparr>dl_files := put_file name data (dl_files st1),
                                    dl_written := dl_written st + 1\<rparr>))))"

definition tick_dlq :: "dlq \<Rightarrow> dlq" where "tick_dlq st = st\<lparr>dl_tick := dl_tick st + 1\<rparr>"

definition dlq_Stats :: "dlq_env \<Rightarrow> dlq option \<Rightarrow> (string \<times> gval) list" where
  "dlq_Stats env q =
     (case q of
        None \<Rightarrow> [(''enabled'', GBool False)]
      | Some st \<Rightarrow>
          (case dq_read_dir env (dl_tick st) of
             Some e \<Rightarrow> [(''enabled'', GBool True), (''written'', GInt (int (dl_written st))),
                        (''pending_files'', GInt 0), (''error'', GStr e)]
           | None \<Rightarrow> [(''enabled'', GBool True), (''written'', GInt (int (dl_written st))),
                      (''pending_files'', GInt (int (length (dl_files st)))),
                      (''base_path'', GStr (dl_base_path st))]))"

definition read_failed :: "dlq_env \<Rightarrow> nat \<Rightarrow> string \<times> dlq_file \<Rightarrow> failed_event option" where
  \<comment> \<open>what one round of the loop appends: directories and files that cannot be read or parsed are skipped\<close>
  "read_failed env n f =
     (case snd f of
        Directory \<Rightarrow> None
      | File content \<Rightarrow> if dq_unreadable env n (fst f) then None else dq_unmarshal env content)"

definition read_dir :: "directory \<Rightarrow> directory" where
  \<comment> \<open>\<open>os.ReadDir\<close> sorts by name\<close>
  "read_dir d = sort_key fst d"

definition dlq_List :: "dlq_env \<Rightarrow> int \<Rightarrow> dlq option \<Rightarrow> dlq_error + failed_event list" where
  "dlq_List env limit q =
     (case q of
        None \<Rightarrow> Inl NotEnabled
      | Some st \<Rightarrow>
          (case dq_read_dir env (dl_tick st) of
             Some e \<Rightarrow> Inl (ReadDirError e)
           | None \<Rightarrow>
               let events = List.map_filter (read_failed env (dl_tick st)) (read_dir (dl_files st)) in
               Inr (if limit > 0 then take (nat limit) events else events)))"

fun remove_all ::
  "(string \<Rightarrow> string option) \<Rightarrow> string list \<Rightarrow> directory \<Rightarrow> string option \<times> directory" where
  "remove_all fails [] d = (None, d)"
| "remove_all fails (f # fs) d =
     (case fails f of
        Some e \<Rightarrow> (Some e, d)
      | None \<Rightarrow> remove_all fails fs (AList.delete f d))"

definition glob_matches :: "int \<Rightarrow> string \<Rightarrow> bool" where
  \<comment> \<open>\<open>failed_<seconds>_*.json\<close>, below a base path that has no character special to \<open>Glob\<close>\<close>
  "glob_matches seconds name \<longleftrightarrow>
     (let pre = ''failed_'' @ int_string seconds @ ''_'' in
      has_prefix name pre \<and> has_suffix (drop (length pre) name) ''.json'')"

definition dlq_Delete :: "dlq_env \<Rightarrow> int \<Rightarrow> dlq option \<Rightarrow> dlq_error option \<times> dlq option" where
  "dlq_Delete env seconds q =
     (case q of
        None \<Rightarrow> (Some NotEnabled, None)
      | Some st \<Rightarrow>
          let matches = filter (glob_matches seconds) (map fst (read_dir (dl_files st))) in
          if matches = [] then (Some EventNotFound, Some (tick_dlq st))
          else let (e, d) = remove_all (dq_remove env (dl_tick st)) matches (dl_files st) in
               (map_option DeleteError e, Some ((tick_dlq st)\<lparr>dl_files := d\<rparr>)))"

definition purged :: "dlq_env \<Rightarrow> nat \<Rightarrow> string \<times> dlq_file \<Rightarrow> bool" where
  "purged env n f \<longleftrightarrow> snd f \<noteq> Directory \<and> dq_remove env n (fst f) = None"

definition dlq_Purge :: "dlq_env \<Rightarrow> dlq option \<Rightarrow> dlq_error option \<times> dlq option" where
  \<comment> \<open>files that cannot be removed are passed over\<close>
  "dlq_Purge env q =
     (case q of
        None \<Rightarrow> (Some NotEnabled, None)
      | Some st \<Rightarrow>
          (case dq_read_dir env (dl_tick st) of
             Some e \<Rightarrow> (Some (ReadDirError e), Some (tick_dlq st))
           | None \<Rightarrow> (None, Some ((tick_dlq st)\<lparr>dl_files :=
               filter (\<lambda>f. \<not> purged env (dl_tick st) f) (dl_files st)\<rparr>))))"

section \<open>The queue in a stream\<close>

record js_env =
  js_dlq :: dlq_env                                    \<comment> \<open>clock and JSON\<close>
  js_publish :: "nat \<Rightarrow> (string \<times> bool) option"         \<comment> \<open>the error, and whether the message arrived\<close>
  js_error :: "nat \<Rightarrow> string option"                   \<comment> \<open>of a request to the stream\<close>
  js_fetch_error :: "nat \<Rightarrow> string option"
  js_arriving :: "nat \<Rightarrow> nat"                          \<comment> \<open>messages that arrive before the fetch ends\<close>

record js_queue =
  jq_stream :: "(string \<times> string) list"               \<comment> \<open>subjects and messages, oldest first\<close>
  jq_written :: nat
  jq_tick :: nat

definition js_Write ::
  "js_env \<Rightarrow> raw_envelope \<Rightarrow> string \<Rightarrow> string \<Rightarrow> js_queue option \<Rightarrow> dlq_error option \<times> js_queue option" where
  "js_Write env envelope err reason q =
     (case q of
        None \<Rightarrow> (None, None)
      | Some st \<Rightarrow>
          let n = jq_tick st; st1 = st\<lparr>jq_tick := n + 2\<rparr> in
          case dq_marshal (js_dlq env) (failed_event_of (js_dlq env) n envelope err reason) of
            None \<Rightarrow> (Some MarshalError, Some st1)
          | Some data \<Rightarrow>
              let arrived = st1\<lparr>jq_stream := jq_stream st @ [(''ingest.dlq.'' @ reason, data)]\<rparr> in
              (case js_publish env n of
                 Some (e, there) \<Rightarrow> (Some (WriteError e), Some (if there then arrived else st1))
               | None \<Rightarrow> (None, Some (arrived\<lparr>jq_written := jq_written st + 1\<rparr>))))"

definition js_List :: "js_env \<Rightarrow> int \<Rightarrow> js_queue option \<Rightarrow> dlq_error + failed_event list" where
  \<comment> \<open>an error that ends the fetch early is logged; the retention limits of the stream are left out\<close>
  "js_List env limit q =
     (case q of
        None \<Rightarrow> Inl NotEnabled
      | Some st \<Rightarrow>
          let limit = (if limit \<le> 0 then 100 else limit) in
          (case js_error env (jq_tick st) of
             Some e \<Rightarrow> Inl (ReadDirError e)
           | None \<Rightarrow>
               (case js_fetch_error env (jq_tick st) of
                  Some e \<Rightarrow> Inl (ReadDirError e)
                | None \<Rightarrow> Inr (List.map_filter (dq_unmarshal (js_dlq env) \<circ> snd)
                            (take (min (nat limit) (js_arriving env (jq_tick st))) (jq_stream st))))))"

definition js_Purge :: "js_env \<Rightarrow> js_queue option \<Rightarrow> dlq_error option \<times> js_queue option" where
  "js_Purge env q =
     (case q of
        None \<Rightarrow> (Some NotEnabled, None)
      | Some st \<Rightarrow>
          (case js_error env (jq_tick st) of
             Some e \<Rightarrow> (Some (DeleteError e), Some (st\<lparr>jq_tick := jq_tick st + 1\<rparr>))
           | None \<Rightarrow> (None, Some (st\<lparr>jq_stream := [], jq_tick := jq_tick st + 1\<rparr>))))"

end
