(* ===== verification/DlqProps.thy ===== *)
theory DlqProps
  imports Dlq Numerals
begin

text \<open>
  What the dead-letter queue in a directory keeps: within one life of the process every event whose
  write was reported as done is listed; a restart within a second overwrites, and a deletion takes all
  events of a second.
\<close>

lemma cut_failed_name:
  "failed_name s w = ''failed_'' @ int_string s @ CHR ''_'' # nat_string w @ CHR ''.'' # ''json''"
  by (simp add: failed_name_def)

lemma failed_name_inj:
  assumes "failed_name s w = failed_name s' w'"
  shows "s = s' \<and> w = w'"
proof -
  have "int_string s @ CHR ''_'' # nat_string w @ CHR ''.'' # ''json''
      = int_string s' @ CHR ''_'' # nat_string w' @ CHR ''.'' # ''json''"
    using assms unfolding cut_failed_name by simp
  then have "int_string s = int_string s'"
    and rest: "nat_string w @ CHR ''.'' # ''json'' = nat_string w' @ CHR ''.'' # ''json''"
    using cut_at_append [OF no_separator(1)] by (metis prod.inject option.inject)+
  moreover have "nat_string w = nat_string w'"
    using rest cut_at_append [OF no_separator(3)] by (metis prod.inject)
  ultimately show ?thesis using int_string_inj nat_string_inj by blast
qed

fun write_all ::
  "dlq_env \<Rightarrow> (raw_envelope \<times> string \<times> string) list \<Rightarrow> dlq \<Rightarrow> failed_event list \<times> dlq" where
  \<comment> \<open>the events whose write was reported as done, and the queue afterwards\<close>
  "write_all env [] st = ([], st)"
| "write_all env ((envelope, err, reason) # rest) st =
     (case dlq_Write env envelope err reason (Some st) of
        (None, Some st1) \<Rightarrow>
          (let (kept, st2) = write_all env rest st1 in
           (failed_event_of env (dl_tick st) envelope err reason # kept, st2))
      | (_, Some st1) \<Rightarrow> write_all env rest st1
      | (_, None) \<Rightarrow> ([], st))"

definition keeps :: "dlq_env \<Rightarrow> failed_event list \<Rightarrow> dlq \<Rightarrow> bool" where
  \<comment> \<open>the \<open>k\<close>-th event is in a file with the number \<open>k\<close>\<close>
  "keeps env kept st \<longleftrightarrow>
     dl_written st = length kept \<and> distinct (map fst (dl_files st))
     \<and> (\<forall>k < length kept. \<exists>secs data. map_of (dl_files st) (failed_name secs k) = Some (File data)
          \<and> dq_unmarshal env data = Some (kept ! k))"

lemma keeps_put_file:
  assumes "keeps env kept st"
  shows "keeps env kept (st\<lparr>dl_files := put_file (failed_name secs (dl_written st)) part (dl_files st), dl_tick := n\<rparr>)"
  using assms failed_name_inj unfolding keeps_def put_file_def
  by (auto simp: distinct_map_put) (metis less_irrefl_nat)

lemma keeps_snoc:
  assumes "keeps env kept st" and "map_of (dl_files st) (failed_name secs (dl_written st)) = Some (File data)"
    and "dq_unmarshal env data = Some e"
  shows "keeps env (kept @ [e]) (st\<lparr>dl_written := dl_written st + 1\<rparr>)"
  using assms unfolding keeps_def by (auto simp: nth_append less_Suc_eq)

lemma keeps_write:
  assumes "\<And>e data. dq_marshal env e = Some data \<Longrightarrow> dq_unmarshal env data = Some e"
    and "keeps env kept st" and "dlq_Write env envelope err reason (Some st) = (r, q)"
  shows "\<exists>st'. q = Some st'
    \<and> keeps env (if r = None then kept @ [failed_event_of env (dl_tick st) envelope err reason] else kept) st'"
proof (cases "dq_marshal env (failed_event_of env (dl_tick st) envelope err reason)")
  case None
  then show ?thesis using assms(2,3) by (auto simp: dlq_Write_def keeps_def Let_def)
next
  case (Some data)
  let ?n = "dl_tick st" and ?e = "failed_event_of env (dl_tick st) envelope err reason"
  let ?name = "failed_name (unix_seconds (dq_now env (?n + 2))) (dl_written st)"
  show ?thesis
  proof (cases "dq_write env ?n")
    case None
    let ?st = "st\<lparr>dl_files := put_file ?name data (dl_files st), dl_tick := ?n + 3\<rparr>"
    have "q = Some (?st\<lparr>dl_written := dl_written st + 1\<rparr>) \<and> r = None"
      using assms(3) Some None by (auto simp: dlq_Write_def Let_def)
    moreover have "keeps env kept ?st" using assms(2) by (rule keeps_put_file)
    then have "keeps env (kept @ [?e]) (?st\<lparr>dl_written := dl_written st + 1\<rparr>)"
      using keeps_snoc [OF _ _ assms(1) [OF Some], of kept ?st "unix_seconds (dq_now env (?n + 2))"]
      by (simp add: put_file_def)
    ultimately show ?thesis by auto
  next
    case e: (Some e)
    obtain x left where left: "e = (x, left)" by force
    show ?thesis
    proof (cases left)
      case None
      then show ?thesis using assms(2,3) Some e left by (auto simp: dlq_Write_def Let_def keeps_def)
    next
      case part: (Some part)
      have "q = Some (st\<lparr>dl_files := put_file ?name part (dl_files st), dl_tick := ?n + 3\<rparr>) \<and> r \<noteq> None"
        using assms(3) Some e left part by (auto simp: dlq_Write_def Let_def)
      then show ?thesis using keeps_put_file [OF assms(2)] by auto
    qed
  qed
qed

lemma keeps_write_all:
  assumes "\<And>e data. dq_marshal env e = Some data \<Longrightarrow> dq_unmarshal env data = Some e"
  shows "keeps env kept st \<Longrightarrow> write_all env ws st = (m1, st') \<Longrightarrow> keeps env (kept @ m1) st'"
proof (induction ws arbitrary: kept st m1 st')
  case (Cons w ws)
  obtain envelope err reason where w: "w = (envelope, err, reason)" by (cases w)
  obtain r q where rq: "dlq_Write env envelope err reason (Some st) = (r, q)" by force
  from keeps_write [OF assms Cons.prems(1) rq] obtain st1 where q: "q = Some st1"
    and k: "keeps env (if r = None then kept @ [failed_event_of env (dl_tick st) envelope err reason] else kept) st1"
    by blast
  obtain m2 st2 where m2: "write_all env ws st1 = (m2, st2)" by force
  from Cons.IH [OF k m2] Cons.prems(2) show ?case
    by (cases r) (auto simp: w rq q m2)
qed simp

lemma mset_map_filter:
  "mset (List.map_filter f xs) = image_mset (the \<circ> f) (filter_mset (\<lambda>x. f x \<noteq> None) (mset xs))"
  by (simp add: map_filter_def)

lemma distinct_part:
  assumes "distinct xs" and "set xs \<subseteq> set ys"
  shows "mset xs \<subseteq># mset ys"
  using assms by (metis finite_set mset_set_set mset_set_set_mset_msubset set_mset_mset
      subset_imp_msubset_mset_set subset_mset.order_trans)


lemma keeps_listed:
  assumes "keeps env kept st" and "\<And>n f. \<not> dq_unreadable env n f"
  shows "mset kept \<subseteq># mset (List.map_filter (read_failed env (dl_tick st)) (read_dir (dl_files st)))"
proof -
  have "\<forall>k < length kept. \<exists>f. f \<in> set (dl_files st) \<and> read_failed env (dl_tick st) f = Some (kept ! k)
      \<and> (\<exists>secs. fst f = failed_name secs k)"
    using assms by (fastforce simp: keeps_def read_failed_def dest: map_of_SomeD)
  then obtain place where place: "\<And>k. k < length kept \<Longrightarrow> place k \<in> set (dl_files st)"
    "\<And>k. k < length kept \<Longrightarrow> read_failed env (dl_tick st) (place k) = Some (kept ! k)"
    "\<And>k. k < length kept \<Longrightarrow> \<exists>secs. fst (place k) = failed_name secs k"
    by metis
  let ?fs = "map place [0..<length kept]" and ?r = "read_failed env (dl_tick st)"
  have "inj_on place {0..<length kept}"
    using place(3) failed_name_inj by (intro inj_onI) (metis atLeastLessThan_iff)
  then have "distinct ?fs" by (simp add: distinct_map)
  moreover have "set ?fs \<subseteq> set (dl_files st)" using place(1) by auto
  ultimately have "mset ?fs \<subseteq># mset (read_dir (dl_files st))"
    using distinct_part [of ?fs "dl_files st"] by (simp add: read_dir_def del: mset_map)
  then have "mset (List.map_filter ?r ?fs) \<subseteq># mset (List.map_filter ?r (read_dir (dl_files st)))"
    unfolding mset_map_filter by (intro image_mset_subseteq_mono multiset_filter_mono)
  moreover have "List.map_filter ?r ?fs = map (\<lambda>k. kept ! k) [0..<length kept]"
    using place(2) by (auto simp: map_filter_def filter_id_conv intro!: map_cong)
  ultimately show ?thesis by (simp add: map_nth)
qed

text \<open>C12: What went into the dead-letter queue comes out of it: after any sequence of writes by one process
  into a directory it found empty, the list holds every event whose write was reported as done, as often as
  it was written, whatever became of the other writes.\<close>

theorem failures_come_back:
  assumes "\<And>e data. dq_marshal env e = Some data \<Longrightarrow> dq_unmarshal env data = Some e"
    and "\<And>n. dq_read_dir env n = None" and "\<And>n f. \<not> dq_unreadable env n f"
    and "NewQueue mkdir (\<lambda>_. []) basePath = Inr st"
    and "write_all env ws st = (kept, st')"
  shows "\<exists>events. dlq_List env 0 (Some st') = Inr events \<and> mset kept \<subseteq># mset events"
proof -
  have "keeps env [] st" using assms(4) by (auto simp: NewQueue_def keeps_def Let_def split: option.splits)
  from keeps_listed [OF keeps_write_all [OF assms(1) this assms(5)] assms(3)] show ?thesis
    by (simp add: dlq_List_def assms(2))
qed


definition sample_envelope :: raw_envelope where
  "sample_envelope = \<lparr>en_id = ''e'', en_source = [], en_source_type = ''hec'', en_format = ''json'',
     en_payload = ''{'', en_attributes = [], en_received_at = 0\<rparr>"

definition sample_failure :: failed_event where
  "sample_failure = \<lparr>fe_timestamp = 0, fe_envelope = sample_envelope, fe_error = ''bad'',
     fe_reason = ''normalization_failed'', fe_attempts = 1, fe_last_attempt = 0\<rparr>"

definition sample_dlq_env :: dlq_env where
  \<comment> \<open>the clock stands still; the second write fails and leaves half a file\<close>
  "sample_dlq_env =
     \<lparr>dq_now = (\<lambda>_. 0), dq_marshal = (\<lambda>e. if e = sample_failure then Some ''f'' else None),
      dq_unmarshal = (\<lambda>s. if s = ''f'' then Some sample_failure else None),
      dq_write = (\<lambda>n. if n = 3 then Some (''disk full'', Some ''g'') else None),
      dq_read_dir = (\<lambda>_. None), dq_unreadable = (\<lambda>_ _. False), dq_remove = (\<lambda>_ _. None)\<rparr>"

definition sample_queue :: dlq where
  "sample_queue = \<lparr>dl_base_path = ''/dlq'', dl_files = [], dl_written = 0, dl_tick = 0\<rparr>"

definition three_writes :: "failed_event list \<times> dlq" where
  "three_writes = write_all sample_dlq_env
     (replicate 3 (sample_envelope, ''bad'', ''normalization_failed'')) sample_queue"

theorem failures_come_back_witness:
  "fst three_writes = [sample_failure, sample_failure]
   \<and> (\<exists>events. dlq_List sample_dlq_env 0 (Some (snd three_writes)) = Inr events
        \<and> {# sample_failure, sample_failure #} \<subseteq># mset events)"
proof -
  have kept: "fst three_writes = [sample_failure, sample_failure]" by code_simp
  obtain kept' st' where run: "write_all sample_dlq_env
      (replicate 3 (sample_envelope, ''bad'', ''normalization_failed'')) sample_queue = (kept', st')" by force
  have json: "dq_unmarshal sample_dlq_env data = Some e" if "dq_marshal sample_dlq_env e = Some data" for e data
    using that by (auto simp: sample_dlq_env_def split: if_splits)
  have start: "NewQueue (\<lambda>_. None) (\<lambda>_. []) ''/dlq'' = Inr sample_queue"
    by (simp add: NewQueue_def sample_queue_def)
  have io: "dq_read_dir sample_dlq_env n = None" "\<not> dq_unreadable sample_dlq_env n f" for n f
    by (simp_all add: sample_dlq_env_def)
  from failures_come_back [OF json io start run] kept run show ?thesis
    by (simp add: three_writes_def)
qed

text \<open>The number in a file's name starts anew with the process, so a queue opened again within a second
  overwrites; and a deletion by second takes all events of that second.\<close>

definition reopened :: dlq where
  "reopened = (snd three_writes)\<lparr>dl_written := 0, dl_tick := 9\<rparr>"

lemma restart_overwrites:
  "dlq_List sample_dlq_env 0 (Some (snd (write_all sample_dlq_env
      (replicate 2 (sample_envelope, ''bad'', ''normalization_failed'')) reopened)))
   = Inr [sample_failure, sample_failure]"
  by code_simp

lemma remove_all_succeeds:
  "(\<And>f. fails f = None) \<Longrightarrow> remove_all fails fs d = (None, fold AList.delete fs d)"
  by (induction fs arbitrary: d) simp_all

lemma fold_delete: "fold AList.delete fs d = filter (\<lambda>f. fst f \<notin> set fs) d"
  by (induction fs arbitrary: d) (auto simp: AList.delete_eq filter_filter case_prod_unfold intro: filter_cong)

lemma delete_takes_the_second:
  assumes "\<And>n f. dq_remove env n f = None" and "dlq_Delete env secs (Some st) = (None, q)"
  shows "\<exists>st'. q = Some st' \<and> dl_files st' = filter (\<lambda>f. \<not> glob_matches secs (fst f)) (dl_files st)"
  using assms by (auto simp: dlq_Delete_def remove_all_succeeds fold_delete read_dir_def Let_def
      split: if_splits intro!: filter_cong)

lemma purge_empties:
  assumes "\<And>n f. dq_remove env n f = None" and "dq_read_dir env (dl_tick st) = None"
  shows "\<exists>st'. dlq_Purge env (Some st) = (None, Some st')
    \<and> dl_files st' = filter (\<lambda>f. snd f = Directory) (dl_files st)"
  using assms by (simp add: dlq_Purge_def purged_def)

end
