(* ===== verification/HecStats.thy ===== *)
theory HecStats
  imports Prelude
begin

text \<open>
  Usage statistics of ingestion tokens (\<^verbatim>\<open>common/hecstats\<close>): the collector that gathers usage in the ingest
  service and flushes it in batches, the commands a batch becomes, and what the web backend reads back.
  Redis is the table of its keys with their expiry. A pipeline is not a transaction: when it breaks, any
  number of its commands may have been executed.
\<close>

section \<open>Redis\<close>

datatype hash_value = Text string | Number int

datatype redis_value = RHash "(string \<times> hash_value) list" | RCount int | RSet "string list"

record redis_entry =
  re_value :: redis_value
  re_until :: "int option"                        \<comment> \<open>seconds\<close>

type_synonym redis = "(string \<times> redis_entry) list"

datatype redis_cmd =
    HSet string "(string \<times> hash_value) list"
  | HIncrBy string string int
  | IncrBy string int
  | Expire string int
  | SAdd string "string list"

definition look_up :: "int \<Rightarrow> redis \<Rightarrow> string \<Rightarrow> redis_entry option" where
  \<comment> \<open>an expired key is not there\<close>
  "look_up clock db k =
     (case map_of db k of
        None \<Rightarrow> None
      | Some e \<Rightarrow> (case re_until e of
                     Some t \<Rightarrow> if t \<le> clock then None else Some e
                   | None \<Rightarrow> Some e))"

definition store_value :: "int \<Rightarrow> string \<Rightarrow> redis_value \<Rightarrow> redis \<Rightarrow> redis" where
  \<comment> \<open>keeps the expiry of a key that is there\<close>
  "store_value clock k v db =
     map_put k \<lparr>re_value = v, re_until = Option.bind (look_up clock db k) re_until\<rparr> db"

fun run_cmd :: "int \<Rightarrow> redis_cmd \<Rightarrow> redis \<Rightarrow> redis" where
  \<comment> \<open>a command on a key of another type is refused and changes nothing\<close>
  "run_cmd clock (HSet k fs) db =
     (case map_option re_value (look_up clock db k) of
        None \<Rightarrow> store_value clock k (RHash (fold (\<lambda>(f, v). map_put f v) fs [])) db
      | Some (RHash h) \<Rightarrow> store_value clock k (RHash (fold (\<lambda>(f, v). map_put f v) fs h)) db
      | Some _ \<Rightarrow> db)"
| "run_cmd clock (HIncrBy k f n) db =
     (case map_option re_value (look_up clock db k) of
        None \<Rightarrow> store_value clock k (RHash [(f, Number n)]) db
      | Some (RHash h) \<Rightarrow>
          (case map_of h f of
             None \<Rightarrow> store_value clock k (RHash (map_put f (Number n) h)) db
           | Some (Number m) \<Rightarrow> store_value clock k (RHash (map_put f (Number (m + n)) h)) db
           | Some (Text _) \<Rightarrow> db)
      | Some _ \<Rightarrow> db)"
| "run_cmd clock (IncrBy k n) db =
     (case map_option re_value (look_up clock db k) of
        None \<Rightarrow> store_value clock k (RCount n) db
      | Some (RCount m) \<Rightarrow> store_value clock k (RCount (m + n)) db
      | Some _ \<Rightarrow> db)"
| "run_cmd clock (Expire k secs) db =
     (case look_up clock db k of
        None \<Rightarrow> db
      | Some e \<Rightarrow> map_put k (e\<lparr>re_until := Some (clock + secs)\<rparr>) db)"
| "run_cmd clock (SAdd k ms) db =
     (case map_option re_value (look_up clock db k) of
        None \<Rightarrow> store_value clock k (RSet (fold List.insert ms [])) db
      | Some (RSet s) \<Rightarrow> store_value clock k (RSet (fold List.insert ms s)) db
      | Some _ \<Rightarrow> db)"

datatype pipe_fate = Executed | Broken nat      \<comment> \<open>after so many commands\<close>

definition run_pipe :: "int \<Rightarrow> pipe_fate \<Rightarrow> redis_cmd list \<Rightarrow> redis \<Rightarrow> bool \<times> redis" where
  "run_pipe clock fate cmds db =
     (case fate of
        Executed \<Rightarrow> (True, fold (run_cmd clock) cmds db)
      | Broken k \<Rightarrow> (False, fold (run_cmd clock) (take k cmds) db))"

section \<open>Batches\<close>

record stats_env =
  he_hour :: "time \<Rightarrow> string"            \<comment> \<open>\<open>YYYYMMDDHH\<close> and \<open>YYYYMMDD\<close>\<close>
  he_day :: "time \<Rightarrow> string"
  he_instance :: string
  he_rfc3339 :: "int \<Rightarrow> string"

record batch =
  b_token :: string
  b_count :: int
  b_ips :: "string list"
  b_last_ip :: "string option"           \<comment> \<open>an address, written out\<close>

definition NewBatchUpdate :: "string \<Rightarrow> batch" where
  "NewBatchUpdate tok = \<lparr>b_token = tok, b_count = 0, b_ips = [], b_last_ip = None\<rparr>"

definition batch_Add :: "int \<Rightarrow> string option \<Rightarrow> batch \<Rightarrow> batch" where
  "batch_Add n ip b =
     (let b1 = b\<lparr>b_count := b_count b + n\<rparr> in
      case ip of
        None \<Rightarrow> b1
      | Some a \<Rightarrow> b1\<lparr>b_ips := List.insert a (b_ips b1), b_last_ip := Some a\<rparr>)"

definition ip_text :: "string option \<Rightarrow> string" where
  \<comment> \<open>\<open>String\<close> of an address that may be nil\<close>
  "ip_text ip = (case ip of None \<Rightarrow> ''<nil>'' | Some a \<Rightarrow> a)"

definition stats_key :: "string \<Rightarrow> string" where "stats_key tok = ''hec:stats:'' @ tok"
definition hourly_key :: "string \<Rightarrow> string \<Rightarrow> string" where "hourly_key tok h = ''hec:hourly:'' @ tok @ '':'' @ h"
definition daily_key :: "string \<Rightarrow> string \<Rightarrow> string" where "daily_key tok d = ''hec:daily:'' @ tok @ '':'' @ d"
definition ips_key :: "string \<Rightarrow> string \<Rightarrow> string" where "ips_key tok d = ''hec:ips:'' @ tok @ '':'' @ d"
definition instances_key :: "string \<Rightarrow> string" where "instances_key tok = ''hec:instances:'' @ tok"

definition hour_s :: int where "hour_s = 3600"

definition usage_cmds ::
  "stats_env \<Rightarrow> time \<Rightarrow> string \<Rightarrow> int \<Rightarrow> string option \<Rightarrow> string list \<Rightarrow> redis_cmd list" where
  "usage_cmds env now tok n last_ip ips =
     (let unix = now div 10 ^ 9; hour = he_hour env now; day = he_day env now in
      [HSet (stats_key tok) [(''last_used_at'', Number unix), (''last_used_ip'', Text (ip_text last_ip))],
       HIncrBy (stats_key tok) ''total_events'' n,
       IncrBy (hourly_key tok hour) n, Expire (hourly_key tok hour) (48 * hour_s),
       IncrBy (daily_key tok day) n, Expire (daily_key tok day) (7 * 24 * hour_s)]
      @ (if ips = [] then [] else [SAdd (ips_key tok day) ips, Expire (ips_key tok day) (7 * 24 * hour_s)])
      @ [HSet (instances_key tok) [(he_instance env, Number unix)],
         Expire (instances_key tok) (24 * hour_s)])"

definition RecordUsage ::
  "stats_env \<Rightarrow> time \<Rightarrow> pipe_fate \<Rightarrow> string \<Rightarrow> int \<Rightarrow> string option \<Rightarrow> redis \<Rightarrow> bool \<times> redis" where
  "RecordUsage env now fate tok n ip db =
     run_pipe (now div 10 ^ 9) fate (usage_cmds env now tok n ip [ip_text ip]) db"

definition FlushBatch :: "stats_env \<Rightarrow> time \<Rightarrow> pipe_fate \<Rightarrow> batch \<Rightarrow> redis \<Rightarrow> bool \<times> redis" where
  "FlushBatch env now fate b db =
     (if b_count b = 0 then (True, db)
      else run_pipe (now div 10 ^ 9) fate
             (usage_cmds env now (b_token b) (b_count b) (b_last_ip b) (b_ips b)) db)"

section \<open>The collector\<close>

record collector =
  co_batches :: "(string \<times> batch) list"
  co_flushing :: "batch list"            \<comment> \<open>swapped out by a flush and not yet sent\<close>

definition NewCollector :: collector where
  "NewCollector = \<lparr>co_batches = [], co_flushing = []\<rparr>"

definition Record :: "string \<Rightarrow> int \<Rightarrow> string option \<Rightarrow> collector \<Rightarrow> collector" where
  "Record tok n ip c =
     (let b = (case map_of (co_batches c) tok of None \<Rightarrow> NewBatchUpdate tok | Some b \<Rightarrow> b) in
      c\<lparr>co_batches := map_put tok (batch_Add n ip b) (co_batches c)\<rparr>)"

definition start_flush :: "collector \<Rightarrow> collector" where
  \<comment> \<open>the first half of \<open>flush\<close>, under the lock\<close>
  "start_flush c =
     \<lparr>co_batches = [], co_flushing = co_flushing c @ map snd (co_batches c)\<rparr>"

definition merge_back :: "batch \<Rightarrow> collector \<Rightarrow> collector" where
  "merge_back b c =
     (case map_of (co_batches c) (b_token b) of
        None \<Rightarrow> c\<lparr>co_batches := map_put (b_token b) b (co_batches c)\<rparr>
      | Some old \<Rightarrow>
          c\<lparr>co_batches := map_put (b_token b)
              (old\<lparr>b_count := b_count old + b_count b, b_ips := fold List.insert (b_ips b) (b_ips old),
                   b_last_ip := (if b_last_ip b \<noteq> None then b_last_ip b else b_last_ip old)\<rparr>)
              (co_batches c)\<rparr>)"

definition flush_one :: "stats_env \<Rightarrow> time \<Rightarrow> pipe_fate \<Rightarrow> collector \<times> redis \<Rightarrow> collector \<times> redis" where
  \<comment> \<open>one round of the loop over the batches, which other calls interleave with\<close>
  "flush_one env now fate = (\<lambda>(c, db).
     case co_flushing c of
       [] \<Rightarrow> (c, db)
     | b # bs \<Rightarrow>
         (let (ok, db') = FlushBatch env now fate b db; c1 = c\<lparr>co_flushing := bs\<rparr> in
          (if ok then c1 else merge_back b c1, db')))"

definition pending_stats :: "collector \<Rightarrow> (string \<times> int) list" where
  \<comment> \<open>\<open>Stats\<close> of the collector\<close>
  "pending_stats c = map (\<lambda>(t, b). (t, b_count b)) (co_batches c)"

section \<open>Reading\<close>

record hec_stats =
  hs_token :: string
  hs_last_used_at :: "int option"
  hs_last_used_ip :: string
  hs_total :: int
  hs_last_hour :: int
  hs_last_24h :: int
  hs_unique_ips :: int
  hs_instances :: "(string \<times> string) list"

definition hash_at :: "int \<Rightarrow> redis \<Rightarrow> string \<Rightarrow> (string \<times> hash_value) list" where
  "hash_at clock db k =
     (case map_option re_value (look_up clock db k) of Some (RHash h) \<Rightarrow> h | _ \<Rightarrow> [])"

definition count_at :: "int \<Rightarrow> redis \<Rightarrow> string \<Rightarrow> int" where
  "count_at clock db k =
     (case map_option re_value (look_up clock db k) of Some (RCount n) \<Rightarrow> n | _ \<Rightarrow> 0)"

definition number_field :: "(string \<times> hash_value) list \<Rightarrow> string \<Rightarrow> int option" where
  "number_field h f = (case map_of h f of Some (Number n) \<Rightarrow> Some n | _ \<Rightarrow> None)"

definition stats_GetStats :: "stats_env \<Rightarrow> time \<Rightarrow> bool \<Rightarrow> string \<Rightarrow> redis \<Rightarrow> hec_stats option" where
  \<comment> \<open>the flag: Redis answers, and no key has a type of its own\<close>
  "stats_GetStats env now answers tok db =
     (if \<not> answers then None
      else let clock = now div 10 ^ 9; h = hash_at clock db (stats_key tok) in
        Some \<lparr>hs_token = tok, hs_last_used_at = number_field h ''last_used_at'',
              hs_last_used_ip = (case map_of h ''last_used_ip'' of Some (Text s) \<Rightarrow> s | _ \<Rightarrow> []),
              hs_total = (case number_field h ''total_events'' of None \<Rightarrow> 0 | Some n \<Rightarrow> n),
              hs_last_hour = count_at clock db (hourly_key tok (he_hour env now)),
              hs_last_24h = sum_list (map (\<lambda>i. count_at clock db
                 (hourly_key tok (he_hour env (now - int i * hour_s * 10 ^ 9)))) [0..<24]),
              hs_unique_ips = (case map_option re_value (look_up clock db (ips_key tok (he_day env now))) of
                 Some (RSet s) \<Rightarrow> int (length s) | _ \<Rightarrow> 0),
              hs_instances = List.map_filter (\<lambda>(i, v). case v of Number n \<Rightarrow> Some (i, he_rfc3339 env n)
                 | Text _ \<Rightarrow> None) (hash_at clock db (instances_key tok))\<rparr>)"

fun stats_GetMultiStats ::
  "stats_env \<Rightarrow> time \<Rightarrow> (string \<Rightarrow> bool) \<Rightarrow> string list \<Rightarrow> redis \<Rightarrow> (string \<times> hec_stats) list option" where
  "stats_GetMultiStats env now answers [] db = Some []"
| "stats_GetMultiStats env now answers (t # ts) db =
     (case stats_GetStats env now (answers t) t db of
        None \<Rightarrow> None
      | Some s \<Rightarrow> map_option (map_put t s) (stats_GetMultiStats env now answers ts db))"

definition ListActiveTokens :: "time \<Rightarrow> int \<Rightarrow> redis \<Rightarrow> string list" where
  \<comment> \<open>the scan answers; its order is that of the table\<close>
  "ListActiveTokens now since db =
     (let cutoff = (now - since) div 10 ^ 9; clock = now div 10 ^ 9 in
      List.map_filter (\<lambda>k.
        if has_prefix k ''hec:stats:'' \<and> length k > 10
           \<and> (case number_field (hash_at clock db k) ''last_used_at'' of None \<Rightarrow> False | Some t \<Rightarrow> t \<ge> cutoff)
        then Some (drop 10 k) else None) (map fst db))"

end
