(* ===== verification/HecStatsLaws.thy ===== *)
theory HecStatsLaws
  imports HecStats
begin

text \<open>
  The accounts of the usage statistics: what has been recorded of a token is in Redis or in the
  collector, and is counted twice exactly where a flush broke after the total had been increased.
\<close>

fun cmd_key :: "redis_cmd \<Rightarrow> string" where
  "cmd_key (HSet k _) = k"
| "cmd_key (HIncrBy k _ _) = k"
| "cmd_key (IncrBy k _) = k"
| "cmd_key (Expire k _) = k"
| "cmd_key (SAdd k _) = k"

lemma run_cmd_other: "cmd_key cmd \<noteq> k \<Longrightarrow> map_of (run_cmd clock cmd db) k = map_of db k"
  by (cases cmd) (auto simp: store_value_def split: option.split redis_value.split hash_value.split)

lemma run_cmds_other:
  "\<forall>cmd\<in>set cmds. cmd_key cmd \<noteq> k \<Longrightarrow> map_of (fold (run_cmd clock) cmds db) k = map_of db k"
  by (induction cmds arbitrary: db) (simp_all add: run_cmd_other)

lemma stats_key_other [simp]:
  "stats_key t \<noteq> hourly_key t' h" "stats_key t \<noteq> daily_key t' h" "stats_key t \<noteq> ips_key t' h"
  "stats_key t \<noteq> instances_key t'" "stats_key t = stats_key t' \<longleftrightarrow> t = t'"
  by (simp_all add: stats_key_def hourly_key_def daily_key_def ips_key_def instances_key_def)

lemmas stats_key_apart [simp] = stats_key_other(1-4) [symmetric]

definition total_of :: "redis_entry option \<Rightarrow> int" where
  "total_of e =
     (case map_option re_value e of
        Some (RHash h) \<Rightarrow> (case number_field h ''total_events'' of None \<Rightarrow> 0 | Some n \<Rightarrow> n)
      | _ \<Rightarrow> 0)"

definition stored_total :: "redis \<Rightarrow> string \<Rightarrow> int" where
  "stored_total db tok = total_of (map_of db (stats_key tok))"

definition well_kept :: "redis_entry option \<Rightarrow> bool" where
  \<comment> \<open>a hash that does not expire, whose total is a number\<close>
  "well_kept e \<longleftrightarrow>
     (case e of
        None \<Rightarrow> True
      | Some e \<Rightarrow> re_until e = None
          \<and> (case re_value e of RHash h \<Rightarrow> \<forall>s. map_of h ''total_events'' \<noteq> Some (Text s) | _ \<Rightarrow> False))"

definition hashes_kept :: "redis \<Rightarrow> bool" where
  "hashes_kept db \<longleftrightarrow> (\<forall>tok. well_kept (map_of db (stats_key tok)))"

lemma HSet_total:
  assumes "well_kept (map_of db k)" and "db' = run_cmd clock (HSet k
      [(''last_used_at'', Number u), (''last_used_ip'', Text a)]) db"
  shows "well_kept (map_of db' k) \<and> total_of (map_of db' k) = total_of (map_of db k)"
  using assms by (cases "map_of db k")
    (auto simp: well_kept_def total_of_def look_up_def store_value_def number_field_def
      split: option.splits redis_value.splits)

lemma HIncrBy_total:
  assumes "well_kept (map_of db k)" and "db' = run_cmd clock (HIncrBy k ''total_events'' n) db"
  shows "well_kept (map_of db' k) \<and> total_of (map_of db' k) = total_of (map_of db k) + n"
  using assms by (cases "map_of db k")
    (auto simp: well_kept_def total_of_def look_up_def store_value_def number_field_def
      split: option.splits hash_value.splits redis_value.splits)

lemma usage_cmds_split:
  obtains rest where "usage_cmds env now tok n ip ips =
      HSet (stats_key tok) [(''last_used_at'', Number (now div 10 ^ 9)), (''last_used_ip'', Text (ip_text ip))]
      # HIncrBy (stats_key tok) ''total_events'' n # rest"
    and "\<forall>t. \<forall>cmd\<in>set rest. cmd_key cmd \<noteq> stats_key t"
  by (auto simp: usage_cmds_def Let_def)


definition counted :: "pipe_fate \<Rightarrow> bool" where
  \<comment> \<open>the total has been increased\<close>
  "counted fate \<longleftrightarrow> (case fate of Executed \<Rightarrow> True | Broken k \<Rightarrow> 2 \<le> k)"

lemma run_usage_total:
  assumes "hashes_kept db"
  shows "hashes_kept (snd (run_pipe clock fate (usage_cmds env now tok n ip ips) db))
    \<and> stored_total (snd (run_pipe clock fate (usage_cmds env now tok n ip ips) db)) t
      = stored_total db t + (if t = tok \<and> counted fate then n else 0)"
proof -
  obtain rest where cmds: "usage_cmds env now tok n ip ips =
      HSet (stats_key tok) [(''last_used_at'', Number (now div 10 ^ 9)), (''last_used_ip'', Text (ip_text ip))]
      # HIncrBy (stats_key tok) ''total_events'' n # rest"
    and rest: "\<forall>t. \<forall>cmd\<in>set rest. cmd_key cmd \<noteq> stats_key t"
    by (rule usage_cmds_split)
  define h where "h = HSet (stats_key tok) [(''last_used_at'', Number (now div 10 ^ 9)), (''last_used_ip'', Text (ip_text ip))]"
  define i where "i = HIncrBy (stats_key tok) ''total_events'' n"
  define db1 where "db1 = run_cmd clock h db"
  define db2 where "db2 = run_cmd clock i db1"
  have one: "well_kept (map_of db1 (stats_key t)) \<and> stored_total db1 t = stored_total db t" for t
    using assms HSet_total [of db "stats_key tok" db1 clock] run_cmd_other [of h "stats_key t" clock db]
    by (cases "t = tok") (auto simp: hashes_kept_def stored_total_def db1_def h_def simp del: run_cmd.simps)
  have two: "well_kept (map_of db2 (stats_key t))
      \<and> stored_total db2 t = stored_total db t + (if t = tok then n else 0)" for t
    using one HIncrBy_total [of db1 "stats_key tok" db2 clock n] run_cmd_other [of i "stats_key t" clock db1]
    by (cases "t = tok") (auto simp: stored_total_def db2_def i_def simp del: run_cmd.simps)
  have others: "map_of (fold (run_cmd clock) cs db2) (stats_key t) = map_of db2 (stats_key t)"
    if "set cs \<subseteq> set rest" for cs t
    using that rest by (intro run_cmds_other) blast
  have part: "hashes_kept (fold (run_cmd clock) (take k (h # i # rest)) db)
      \<and> stored_total (fold (run_cmd clock) (take k (h # i # rest)) db) t
        = stored_total db t + (if t = tok \<and> 2 \<le> k then n else 0)" for k t
  proof (cases k)
    case (Suc k')
    show ?thesis
    proof (cases k')
      case 0
      then show ?thesis using Suc one
        by (simp add: hashes_kept_def db1_def [symmetric] del: run_cmd.simps)
    next
      case (Suc k'')
      then show ?thesis using \<open>k = Suc k'\<close> two others [of "take k'' rest"] set_take_subset [of k'' rest]
        by (simp add: hashes_kept_def stored_total_def db1_def [symmetric] db2_def [symmetric] del: run_cmd.simps)
    qed
  qed (use assms in simp)
  show ?thesis
  proof (cases fate)
    case Executed
    then show ?thesis using part [of "length (h # i # rest)" t]
      by (simp add: run_pipe_def cmds counted_def h_def i_def del: run_cmd.simps)
  next
    case (Broken k)
    then show ?thesis using part [of k t] by (simp add: run_pipe_def cmds counted_def h_def i_def del: run_cmd.simps)
  qed
qed

section \<open>Runs\<close>

inductive stats_reachable ::
  "stats_env \<Rightarrow> (string \<Rightarrow> int) \<Rightarrow> (string \<Rightarrow> int) \<Rightarrow> collector \<times> redis \<Rightarrow> bool" for env where
  \<comment> \<open>with what has been recorded of each token, and what a broken flush had already counted\<close>
  start: "stats_reachable env (\<lambda>_. 0) (\<lambda>_. 0) (NewCollector, [])"
| recorded: "stats_reachable env r d (c, db) \<Longrightarrow>
    stats_reachable env (r(tok := r tok + n)) d (Record tok n ip c, db)"
| swapped: "stats_reachable env r d (c, db) \<Longrightarrow> stats_reachable env r d (start_flush c, db)"
| flushed: "stats_reachable env r d (c, db) \<Longrightarrow> co_flushing c = b # bs \<Longrightarrow> fate = Executed \<or> \<not> counted fate
    \<Longrightarrow> stats_reachable env r d (flush_one env now fate (c, db))"
| broken: "stats_reachable env r d (c, db) \<Longrightarrow> co_flushing c = b # bs \<Longrightarrow> fate \<noteq> Executed \<Longrightarrow> counted fate
    \<Longrightarrow> stats_reachable env r (d(b_token b := d (b_token b) + b_count b)) (flush_one env now fate (c, db))"

definition batch_total :: "string \<Rightarrow> batch list \<Rightarrow> int" where
  "batch_total tok bs = sum_list (map b_count (filter (\<lambda>b. b_token b = tok) bs))"

definition pending_total :: "collector \<Rightarrow> string \<Rightarrow> int" where
  "pending_total c tok =
     (case map_of (co_batches c) tok of None \<Rightarrow> 0 | Some b \<Rightarrow> b_count b) + batch_total tok (co_flushing c)"

definition collector_ok :: "collector \<Rightarrow> bool" where
  "collector_ok c \<longleftrightarrow>
     distinct (map fst (co_batches c)) \<and> (\<forall>p\<in>set (co_batches c). b_token (snd p) = fst p)"

lemma set_map_put: "set (map_put k v m) \<subseteq> insert (k, v) (set m)"
  by (induction m) (auto simp: map_put_def)

lemma batch_total_simps [simp]:
  "batch_total tok [] = 0"
  "batch_total tok (b # bs) = (if b_token b = tok then b_count b else 0) + batch_total tok bs"
  "batch_total tok (as @ bs) = batch_total tok as + batch_total tok bs"
  by (simp_all add: batch_total_def)

lemma batch_total_table:
  assumes "distinct (map fst m)" and "\<forall>p\<in>set m. b_token (snd p) = fst p"
  shows "batch_total tok (map snd m) = (case map_of m tok of None \<Rightarrow> 0 | Some b \<Rightarrow> b_count b)"
  using assms
proof (induction m)
  case (Cons p m)
  then have "map_of m (fst p) = None" by (simp add: map_of_eq_None_iff)
  with Cons show ?case by (cases p) (auto split: option.split)
qed simp

text \<open>Replacing the batch of one token by one with \<open>n\<close> more.\<close>

lemma put_batch_total:
  assumes "collector_ok c" and "co_batches c' = map_put tok b (co_batches c)" and "b_token b = tok"
    and "b_count b = n + (case map_of (co_batches c) tok of None \<Rightarrow> 0 | Some old \<Rightarrow> b_count old)"
    and "co_flushing c' = co_flushing c"
  shows "collector_ok c'" and "pending_total c' t = pending_total c t + (if t = tok then n else 0)"
  using assms set_map_put [of tok b "co_batches c"]
  by (auto simp: collector_ok_def pending_total_def distinct_map_put simp del: map_of_eq_Some_iff)

lemma kept_token:
  "collector_ok c \<Longrightarrow> map_of (co_batches c) t = Some b \<Longrightarrow> b_token b = t"
  by (auto simp: collector_ok_def simp del: map_of_eq_Some_iff dest!: map_of_SomeD)

lemma merge_back_total:
  assumes "collector_ok c"
  shows "collector_ok (merge_back b c)"
    and "pending_total (merge_back b c) t = pending_total c t + (if t = b_token b then b_count b else 0)"
proof -
  obtain m where m: "co_batches (merge_back b c) = map_put (b_token b) m (co_batches c)" "b_token m = b_token b"
    "b_count m = b_count b + (case map_of (co_batches c) (b_token b) of None \<Rightarrow> 0 | Some old \<Rightarrow> b_count old)"
    "co_flushing (merge_back b c) = co_flushing c"
    using kept_token [OF assms] by (cases "map_of (co_batches c) (b_token b)")
      (simp_all add: merge_back_def del: map_of_eq_Some_iff)
  show "collector_ok (merge_back b c)"
    and "pending_total (merge_back b c) t = pending_total c t + (if t = b_token b then b_count b else 0)"
    using put_batch_total [OF assms m] by simp_all
qed

lemma Record_total:
  assumes "collector_ok c"
  shows "collector_ok (Record tok n ip c)"
    and "pending_total (Record tok n ip c) t = pending_total c t + (if t = tok then n else 0)"
proof -
  obtain m where m: "co_batches (Record tok n ip c) = map_put tok m (co_batches c)" "b_token m = tok"
    "b_count m = n + (case map_of (co_batches c) tok of None \<Rightarrow> 0 | Some old \<Rightarrow> b_count old)"
    "co_flushing (Record tok n ip c) = co_flushing c"
    using kept_token [OF assms] by (cases "map_of (co_batches c) tok"; cases ip)
      (simp_all add: Record_def batch_Add_def NewBatchUpdate_def Let_def del: map_of_eq_Some_iff)
  show "collector_ok (Record tok n ip c)"
    and "pending_total (Record tok n ip c) t = pending_total c t + (if t = tok then n else 0)"
    using put_batch_total [OF assms m] by simp_all
qed

lemma flush_one_accounts:
  assumes "collector_ok c" and "hashes_kept db" and "co_flushing c = b # bs"
    and "flush_one env now fate (c, db) = (c', db')"
  shows "collector_ok c' \<and> hashes_kept db'
    \<and> stored_total db' t + pending_total c' t = stored_total db t + pending_total c t
      + (if t = b_token b \<and> fate \<noteq> Executed \<and> counted fate then b_count b else 0)"
proof -
  let ?c = "c\<lparr>co_flushing := bs\<rparr>"
  have ok: "collector_ok ?c" using assms(1) by (simp add: collector_ok_def)
  have taken: "pending_total c t = pending_total ?c t + (if b_token b = t then b_count b else 0)"
    by (simp add: pending_total_def assms(3))
  obtain sent db1 where f: "FlushBatch env now fate b db = (sent, db1)" by force
  show ?thesis
  proof (cases "b_count b = 0")
    case True
    then show ?thesis using assms f ok taken
      by (auto simp: flush_one_def FlushBatch_def split: if_splits)
  next
    case False
    then have "sent = (fate = Executed)" and "hashes_kept db1"
      and "stored_total db1 t = stored_total db t + (if t = b_token b \<and> counted fate then b_count b else 0)"
      using f run_usage_total [OF assms(2), of "now div 10 ^ 9" fate env now "b_token b" "b_count b"
          "b_last_ip b" "b_ips b" t]
      by (auto simp: FlushBatch_def run_pipe_def split: pipe_fate.splits)
    moreover have "counted Executed" by (simp add: counted_def)
    ultimately show ?thesis
      using assms(3,4) f merge_back_total(1) [OF ok, of b] merge_back_total(2) [OF ok, of b t] ok taken
      by (auto simp: flush_one_def split: if_splits)
  qed
qed

lemma stats_accounts:
  assumes "stats_reachable env r d x"
  shows "collector_ok (fst x) \<and> hashes_kept (snd x)
    \<and> stored_total (snd x) tok + pending_total (fst x) tok = r tok + d tok"
  using assms
proof (induction rule: stats_reachable.induct)
  case start
  show ?case by (simp add: collector_ok_def NewCollector_def hashes_kept_def well_kept_def stored_total_def
        total_of_def pending_total_def)
next
  case (recorded r d c db t n ip)
  then show ?case by (auto simp: Record_total)
next
  case (swapped r d c db)
  then show ?case
    using batch_total_table [of "co_batches c" tok]
    by (auto simp: collector_ok_def start_flush_def pending_total_def)
next
  case (flushed r d c db b bs fate now)
  then show ?case using flush_one_accounts [of c db b bs env now fate "fst (flush_one env now fate (c, db))" "snd (flush_one env now fate (c, db))" tok]
    by auto
next
  case (broken r d c db b bs fate now)
  then show ?case using flush_one_accounts [of c db b bs env now fate "fst (flush_one env now fate (c, db))" "snd (flush_one env now fate (c, db))" tok]
    by auto
qed

text \<open>C14: The usage of a token is accounted for however recording and flushing interleave: what Redis holds
  and what the collector has still to send is what was recorded, and once more what a broken flush had
  already counted; the statistics shown are what Redis holds. So no usage is lost, and it is counted exactly
  as long as no pipeline breaks after its second command.\<close>

theorem usage_accounted:
  assumes "stats_reachable env r d (c, db)" and "stats_GetStats env now answers tok db = Some s"
  shows "hs_total s + pending_total c tok = r tok + d tok"
proof -
  have "well_kept (map_of db (stats_key tok))"
    using stats_accounts [OF assms(1)] by (simp add: hashes_kept_def)
  then have "hash_at clock db (stats_key tok)
      = (case map_option re_value (map_of db (stats_key tok)) of Some (RHash h) \<Rightarrow> h | _ \<Rightarrow> [])" for clock
    by (auto simp: hash_at_def look_up_def well_kept_def split: option.splits)
  then have "hs_total s = stored_total db tok"
    using assms(2) by (auto simp: stats_GetStats_def stored_total_def total_of_def number_field_def Let_def
        split: if_splits option.splits redis_value.splits)
  then show ?thesis using stats_accounts [OF assms(1), of tok] by simp
qed


definition sample_stats_env :: stats_env where
  "sample_stats_env = \<lparr>he_hour = (\<lambda>_. ''2026010100''), he_day = (\<lambda>_. ''20260101''),
     he_instance = ''ingest-1'', he_rfc3339 = (\<lambda>_. [])\<rparr>"

definition sample_usage :: "collector \<times> redis" where
  \<comment> \<open>three events, a flush that breaks after six commands, two more events, and a flush that succeeds\<close>
  "sample_usage =
     (let flush = (\<lambda>fate (c, db). flush_one sample_stats_env 0 fate (start_flush c, db));
          (c1, db1) = flush (Broken 6) (Record ''t'' 3 (Some ''10.0.0.1'') NewCollector, []) in
      flush Executed (Record ''t'' 2 None c1, db1))"

lemma sample_usage_reachable:
  "stats_reachable sample_stats_env (\<lambda>t. if t = ''t'' then 5 else 0) (\<lambda>t. if t = ''t'' then 3 else 0) sample_usage"
proof -
  let ?env = sample_stats_env and ?b = "batch_Add 3 (Some ''10.0.0.1'') (NewBatchUpdate ''t'')"
  let ?c0 = "start_flush (Record ''t'' 3 (Some ''10.0.0.1'') NewCollector)"
  obtain c1 db1 where one: "flush_one ?env 0 (Broken 6) (?c0, []) = (c1, db1)" by force
  have r1: "stats_reachable ?env ((\<lambda>_. 0)(''t'' := 0 + 3)) (\<lambda>_. 0) (?c0, [])"
    using stats_reachable.swapped [OF stats_reachable.recorded [OF stats_reachable.start]] .
  have "co_flushing ?c0 = [?b]"
    by (simp add: start_flush_def Record_def NewCollector_def map_put_def)
  from stats_reachable.broken [OF r1 this, of "Broken 6" 0] one
  have "stats_reachable ?env ((\<lambda>_. 0)(''t'' := 3)) ((\<lambda>_. 0)(''t'' := 3)) (c1, db1)"
    by (simp add: counted_def batch_Add_def NewBatchUpdate_def Let_def)
  then have two: "stats_reachable ?env ((\<lambda>_. 0)(''t'' := 5)) ((\<lambda>_. 0)(''t'' := 3))
      (start_flush (Record ''t'' 2 None c1), db1)"
    using stats_reachable.swapped [OF stats_reachable.recorded, of ?env "(\<lambda>_. 0)(''t'' := 3)" _ c1 db1 "''t''" 2 None]
    by simp
  obtain b bs where bs: "co_flushing (start_flush (Record ''t'' 2 None c1)) = b # bs"
    by (cases "co_flushing (start_flush (Record ''t'' 2 None c1))")
      (auto simp: start_flush_def Record_def Let_def map_put_def split: option.splits)
  show ?thesis
    using stats_reachable.flushed [OF two bs, of Executed 0] one
    by (simp add: sample_usage_def fun_upd_def)
qed

theorem usage_accounted_witness:
  "\<exists>s. stats_GetStats sample_stats_env 0 True ''t'' (snd sample_usage) = Some s
     \<and> hs_total s + pending_total (fst sample_usage) ''t'' = 8"
proof -
  obtain c db where x: "sample_usage = (c, db)" by force
  obtain s where s: "stats_GetStats sample_stats_env 0 True ''t'' db = Some s"
    by (simp add: stats_GetStats_def Let_def)
  have "hs_total s + pending_total c ''t'' = 8"
    using usage_accounted [OF _ s] sample_usage_reachable x by fastforce
  then show ?thesis using s by (simp add: x)
qed

end
