(* ===== verification/WebQuery.thy ===== *)
theory WebQuery
  imports Gateway SearchJobs SearchRoutes HecStats
begin

text \<open>
  What the web backend does itself instead of passing it on: asynchronous queries, which it publishes on
  the bus and whose results it keeps until they are fetched
  (\<^verbatim>\<open>web/backend/internal/handlers/async_query.go\<close>, \<^verbatim>\<open>nats/subscriber.go\<close>), the cached metrics of the
  dashboard (\<^verbatim>\<open>handlers/dashboard.go\<close>), the statistics of ingestion tokens (\<^verbatim>\<open>handlers/hec_stats.go\<close>) and
  the security headers (\<^verbatim>\<open>middleware/security.go\<close>). The search service at the other end is that of
  \<open>SearchJobs\<close> and \<open>SearchRoutes\<close>.
\<close>

section \<open>Asynchronous queries\<close>

record query_result =
  qr_status :: string
  qr_data :: "gval option"
  qr_error :: string
  qr_created_at :: time

record submit_request =
  sub_query :: string
  sub_time_range :: string
  sub_limit :: int

record query_job =
  qj_job_id :: string
  qj_query :: string
  qj_time_range :: string
  qj_limit :: int

record web_env =
  we_uuid :: "nat \<Rightarrow> string"
  we_now :: "nat \<Rightarrow> time"
  we_decode_submit :: "string option \<Rightarrow> string + submit_request"     \<comment> \<open>of the body\<close>
  we_publish :: "nat \<Rightarrow> string option"                               \<comment> \<open>the error of the bus\<close>

record web_state =
  wq_results :: "(string \<times> query_result) list"
  wq_tick :: nat

definition queryResultCacheTTL :: int where "queryResultCacheTTL = 5 * 60 * second"

definition wtick :: "web_state \<Rightarrow> web_state" where
  "wtick st = st\<lparr>wq_tick := wq_tick st + 1\<rparr>"

definition submit_publish :: "web_env \<Rightarrow> request \<Rightarrow> web_state \<Rightarrow> (doc response + query_job) \<times> web_state" where
  \<comment> \<open>\<open>SubmitQuery\<close> up to the publication of the job\<close>
  "submit_publish env r st =
     (case we_decode_submit env (rq_body r) of
        Inl e \<Rightarrow> (Inl (http_Error (''invalid request body: '' @ e) 400), st)
      | Inr req \<Rightarrow>
          if sub_query req = [] then (Inl (http_Error ''query is required'' 400), st)
          else let job = \<lparr>qj_job_id = we_uuid env (wq_tick st), qj_query = sub_query req,
                          qj_time_range = sub_time_range req, qj_limit = sub_limit req\<rparr> in
               (case we_publish env (wq_tick st) of
                  Some e \<Rightarrow> (Inl (http_Error (''failed to submit query: '' @ e) 500), wtick st)
                | None \<Rightarrow> (Inr job, wtick st)))"

definition submit_store :: "web_env \<Rightarrow> string \<Rightarrow> web_state \<Rightarrow> doc response \<times> web_state" where
  \<comment> \<open>the rest of \<open>SubmitQuery\<close>; what arrives meanwhile comes before it\<close>
  "submit_store env queryID st =
     (WriteJSON 202 (GObj [(''query_id'', GStr queryID)]),
      (wtick st)\<lparr>wq_results := map_put queryID
         \<lparr>qr_status = ''pending'', qr_data = None, qr_error = [], qr_created_at = we_now env (wq_tick st)\<rparr>
         (wq_results st)\<rparr>)"

definition status_doc :: "string \<Rightarrow> query_result \<Rightarrow> gval" where
  \<comment> \<open>empty data and an empty error are omitted\<close>
  "status_doc queryID result =
     GObj ([(''query_id'', GStr queryID), (''status'', GStr (qr_status result))]
       @ (case qr_data result of None \<Rightarrow> [] | Some d \<Rightarrow> [(''data'', d)])
       @ (if qr_error result = [] then [] else [(''error'', GStr (qr_error result))]))"

definition GetQueryStatus :: "string \<Rightarrow> web_state \<Rightarrow> doc response" where
  "GetQueryStatus queryID st =
     (if queryID = [] then http_Error ''query ID is required'' 400
      else case map_of (wq_results st) queryID of
        None \<Rightarrow> http_Error ''query not found'' 404
      | Some result \<Rightarrow> WriteJSON 200 (status_doc queryID result))"

definition SetQueryResult :: "web_env \<Rightarrow> string \<Rightarrow> string \<Rightarrow> gval \<Rightarrow> string \<Rightarrow> web_state \<Rightarrow> web_state" where
  "SetQueryResult env queryID status data err st =
     (wtick st)\<lparr>wq_results := map_put queryID
        (case map_of (wq_results st) queryID of
           Some result \<Rightarrow> result\<lparr>qr_status := status, qr_data := Some data, qr_error := err\<rparr>
         | None \<Rightarrow> \<lparr>qr_status = status, qr_data = Some data, qr_error = err,
                    qr_created_at = we_now env (wq_tick st)\<rparr>)
        (wq_results st)\<rparr>"

definition cleanupExpiredResults :: "web_env \<Rightarrow> web_state \<Rightarrow> web_state" where
  \<comment> \<open>one tick of the loop\<close>
  "cleanupExpiredResults env st =
     (wtick st)\<lparr>wq_results := filter
        (\<lambda>(_, result). \<not> we_now env (wq_tick st) - qr_created_at result > queryResultCacheTTL)
        (wq_results st)\<rparr>"

definition result_data :: "job_response \<Rightarrow> gval" where
  "result_data m =
     GObj [(''total_hits'', GInt (jr_total_hits m)),
           (''events'', case jr_events m of None \<Rightarrow> GNil | Some es \<Rightarrow> GArr (map GObj es)),
           (''took_ms'', GInt (jr_took_ms m))]"

definition handleResult :: "web_env \<Rightarrow> string + job_response \<Rightarrow> web_state \<Rightarrow> web_state" where
  \<comment> \<open>a message that cannot be decoded is dropped\<close>
  "handleResult env msg st =
     (case msg of
        Inl _ \<Rightarrow> st
      | Inr m \<Rightarrow>
          SetQueryResult env (jr_job_id m) (if jr_success m then ''complete'' else ''failed'') (result_data m)
            (if jr_success m then [] else jr_error m) st)"

section \<open>Over the bus\<close>

definition decode_job :: "query_job \<Rightarrow> string + search_job" where
  \<comment> \<open>the published job as \<open>SearchJobRequest\<close>: there \<^verbatim>\<open>time_range\<close> is an object, here a text that is
     omitted when empty\<close>
  "decode_job job =
     (if qj_time_range job \<noteq> [] then
        Inl ''json: cannot unmarshal string into Go struct field SearchJobRequest.time_range of type nats.TimeRange''
      else Inr \<lparr>jb_job_id = qj_job_id job, jb_query = qj_query job, jb_from = zero_time, jb_to = zero_time,
                jb_limit = qj_limit job\<rparr>)"

definition subscribed :: "string \<Rightarrow> bool" where
  \<comment> \<open>\<^verbatim>\<open>search.results.query.>\<close>\<close>
  "subscribed subject \<longleftrightarrow> has_prefix subject ''search.results.query.'' \<and> length subject > 21"

definition deliver :: "web_env \<Rightarrow> (string \<times> job_response) list \<Rightarrow> web_state \<Rightarrow> web_state" where
  "deliver env msgs =
     fold (\<lambda>(subject, m) st. if subscribed subject then handleResult env (Inr m) st else st) msgs"

datatype web_event = Stored string | Delivered string job_response | Cleanup

definition web_step :: "web_env \<Rightarrow> web_event \<Rightarrow> web_state \<Rightarrow> web_state" where
  \<comment> \<open>what other requests, the bus and the clean-up do to the results\<close>
  "web_step env ev st =
     (case ev of
        Stored i \<Rightarrow> snd (submit_store env i st)
      | Delivered subject m \<Rightarrow> deliver env [(subject, m)] st
      | Cleanup \<Rightarrow> cleanupExpiredResults env st)"

section \<open>The dashboard\<close>

record dashboard_cache =
  dc_data :: "gval option"
  dc_time :: time
  dc_duration :: int

definition NewDashboardHandler :: "string \<Rightarrow> dashboard_cache" where
  \<comment> \<open>over the variable \<^verbatim>\<open>DASHBOARD_CACHE_SECONDS\<close>\<close>
  "NewDashboardHandler envSeconds =
     \<lparr>dc_data = None, dc_time = zero_time,
      dc_duration = (case atoi envSeconds of
                       Some s \<Rightarrow> if s \<ge> 0 then s * second else 300 * second
                     | None \<Rightarrow> 300 * second)\<rparr>"

definition dashboard_agg :: "string \<Rightarrow> string \<Rightarrow> string \<Rightarrow> (string \<times> gval) list \<Rightarrow> gval" where
  "dashboard_agg name ty field rest =
     GObj ([(''name'', GStr name), (''type'', GStr ty), (''field'', GStr field)] @ rest)"

definition dashboard_query :: gval where
  "dashboard_query =
     GObj [(''data'', GObj
       [(''type'', GStr ''event-query''),
        (''attributes'', GObj
          [(''query'', GStr ''*''), (''limit'', GInt 0),
           (''aggregations'', GArr
             [dashboard_agg ''severity_count'' ''terms'' ''.severity'' [(''size'', GInt 10)],
              dashboard_agg ''events_by_class'' ''terms'' ''.class'' [(''size'', GInt 10)],
              dashboard_agg ''timeline'' ''date_histogram'' ''.time'' [(''interval'', GStr ''1h'')],
              dashboard_agg ''unique_users'' ''cardinality'' ''.actor.user.name'' [],
              dashboard_agg ''unique_ips'' ''cardinality'' ''.src_endpoint.ip'' []])])])]"

record dashboard_env =
  de_marshal :: "gval \<Rightarrow> string"
  de_request :: "string \<Rightarrow> request"                \<comment> \<open>what else the client sets in a request of a path\<close>
  de_received :: "doc response \<Rightarrow> string option"    \<comment> \<open>the body; None: it breaks off\<close>
  de_meta :: "string \<Rightarrow> (int \<times> gval option) option"   \<comment> \<open>total and aggregations\<close>
  de_alerts :: "string option \<Rightarrow> int"              \<comment> \<open>the critical alerts respond reports to a token, or 0\<close>

definition metrics_request :: "dashboard_env \<Rightarrow> request \<Rightarrow> request" where
  "metrics_request env r =
     (de_request env ''/api/v1/events/query'')
       \<lparr>rq_method := ''POST'', rq_path := ''/api/v1/events/query'',
        rq_header := (\<lambda>k.
          if k = ''Accept'' \<or> k = ''Content-Type'' then ''application/vnd.api+json''
          else if k = ''Authorization'' then
            (case rq_cookie r ''access_token'' of
               Some t \<Rightarrow> if t \<noteq> [] then ''Bearer '' @ t else []
             | None \<Rightarrow> [])
          else rq_header (de_request env ''/api/v1/events/query'') k),
        rq_body := Some (de_marshal env dashboard_query)\<rparr>"

definition dash_GetMetrics ::
  "dashboard_env \<Rightarrow> (request \<Rightarrow> 's \<Rightarrow> doc response option \<times> 's) \<Rightarrow> time \<Rightarrow> time \<Rightarrow> request \<Rightarrow>
     dashboard_cache \<times> 's \<Rightarrow> (string option \<times> doc response) \<times> dashboard_cache \<times> 's" where
  \<comment> \<open>over the exchange with the search service and the clock, first when the cache is looked at and then
     when it is filled; with the header \<^verbatim>\<open>X-Cache\<close>\<close>
  "dash_GetMetrics env ask now stored r = (\<lambda>(d, s).
     case (if now - dc_time d < dc_duration d then dc_data d else None) of
       Some cached \<Rightarrow> ((Some ''HIT'', WriteJSON 200 cached), d, s)
     | None \<Rightarrow>
         (case ask (metrics_request env r) s of
            (None, s1) \<Rightarrow> ((None, http_Error ''Failed to fetch dashboard metrics'' 500), d, s1)
          | (Some resp, s1) \<Rightarrow>
              (case de_received env resp of
                 None \<Rightarrow> ((None, http_Error ''Internal server error'' 500), d, s1)
               | Some body \<Rightarrow>
                   if rs_status resp \<noteq> 200
                   then ((None, \<lparr>rs_status = rs_status resp, rs_content_type = [], rs_body = Plain_text body\<rparr>), d, s1)
                   else (case de_meta env body of
                           None \<Rightarrow> ((None, http_Error ''Internal server error'' 500), d, s1)
                         | Some (hits, aggs) \<Rightarrow>
                             let legacy = GObj
                               [(''total_matches'', GInt hits),
                                (''critical_alerts'', GInt (de_alerts env
                                   (case rq_cookie r ''access_token'' of
                                      Some t \<Rightarrow> if t \<noteq> [] then Some t else None | None \<Rightarrow> None))),
                                (''aggregations'', case aggs of None \<Rightarrow> GObj [] | Some a \<Rightarrow> a)] in
                             ((Some ''MISS'', WriteJSON 200 legacy),
                              d\<lparr>dc_data := Some legacy, dc_time := stored\<rparr>, s1)))))"

section \<open>Statistics of tokens\<close>

datatype stats_answer = Stats_error int string | Stats_of "(string \<times> hec_stats) list"

definition web_GetStats :: "stats_env \<Rightarrow> time \<Rightarrow> bool \<Rightarrow> string \<Rightarrow> redis \<Rightarrow> stats_answer" where
  "web_GetStats env now answers tok db =
     (if tok = [] then Stats_error 400 ''token ID required''
      else case stats_GetStats env now answers tok db of
        None \<Rightarrow> Stats_error 500 ''failed to retrieve stats''
      | Some s \<Rightarrow> Stats_of [(tok, s)])"

definition web_GetMultiStats ::
  "stats_env \<Rightarrow> time \<Rightarrow> (string \<Rightarrow> bool) \<Rightarrow> string list option \<Rightarrow> redis \<Rightarrow> stats_answer" where
  \<comment> \<open>the decoded body, None where it cannot be decoded\<close>
  "web_GetMultiStats env now answers body db =
     (case body of
        None \<Rightarrow> Stats_error 400 ''invalid request body''
      | Some toks \<Rightarrow>
          if toks = [] then Stats_error 400 ''token_ids required''
          else if length toks > 100 then Stats_error 400 ''maximum 100 tokens per request''
          else (case stats_GetMultiStats env now answers toks db of
                  None \<Rightarrow> Stats_error 500 ''failed to retrieve stats''
                | Some ss \<Rightarrow> Stats_of ss))"

section \<open>Security headers\<close>

definition csp_source :: "string \<Rightarrow> string \<Rightarrow> string" where
  \<comment> \<open>a directive with a quoted keyword\<close>
  "csp_source directive keyword = directive @ '' '' @ [CHR 0x27] @ keyword @ [CHR 0x27]"

definition SecurityHeaders :: "bool \<Rightarrow> (string \<times> string) list" where
  "SecurityHeaders cookieSecure =
     [(''X-Frame-Options'', ''DENY''), (''X-Content-Type-Options'', ''nosniff''),
      (''Referrer-Policy'', ''strict-origin-when-cross-origin''),
      (''Permissions-Policy'', ''geolocation=(), microphone=(), camera=()''),
      (''X-XSS-Protection'', ''1; mode=block''),
      (''Content-Security-Policy'', join_with ''; ''
         [csp_source ''default-src'' ''self'',
          csp_source ''script-src'' ''self'',
          csp_source ''style-src'' ''self'',
          csp_source ''img-src'' ''self'' @ '' data:'',
          csp_source ''font-src'' ''self'',
          csp_source ''connect-src'' ''self'',
          csp_source ''frame-ancestors'' ''none'',
          csp_source ''base-uri'' ''self'',
          csp_source ''form-action'' ''self''])]
     @ (if cookieSecure
        then [(''Strict-Transport-Security'', ''max-age=31536000; includeSubDomains; preload'')] else [])"

section \<open>Behind the session middleware\<close>

definition protected ::
  "gateway \<Rightarrow> env \<Rightarrow> auth_codec \<Rightarrow> request \<Rightarrow> svc \<Rightarrow> (web_context \<Rightarrow> 'a) \<Rightarrow> (doc response + 'a) \<times> svc" where
  \<comment> \<open>the routes of this theory: \<open>Protect\<close>, then a handler that does not look at the context\<close>
  "protected gw env cd r st act =
     (case Protect gw env cd r st of
        ((None, _), st1) \<Rightarrow> (Inl unauthorized, st1)
      | ((Some ctx, _), st1) \<Rightarrow> (Inr (act ctx), st1))"

end
