(* ===== verification/WebQueryProps.thy ===== *)
theory WebQueryProps
  imports WebQuery SearchSamples
begin

text \<open>
  What becomes of an asynchronous query between the web backend and the search service, and whose data
  the dashboard shows.
\<close>

section \<open>Results by identifier\<close>

lemma submit_store_result:
  "map_of (wq_results (snd (submit_store env i st))) i
    = Some \<lparr>qr_status = ''pending'', qr_data = None, qr_error = [], qr_created_at = we_now env (wq_tick st)\<rparr>"
  by (simp add: submit_store_def wtick_def)

lemma subscribed_result: "i \<noteq> [] \<Longrightarrow> subscribed (''search.results.query.'' @ i)"
  using has_prefix_append [of "''search.results.query.''" i] by (simp add: subscribed_def)

lemma submit_publish_job:
  assumes "submit_publish env r st = (Inr job, st1)"
  shows "\<exists>req. we_decode_submit env (rq_body r) = Inr req \<and> qj_query job = sub_query req
    \<and> qj_time_range job = sub_time_range req \<and> qj_limit job = sub_limit req \<and> sub_query req \<noteq> []"
  using assms by (auto simp: submit_publish_def Let_def split: sum.splits option.splits if_splits)

definition query_answer :: "job_env \<Rightarrow> search_error + search_response \<Rightarrow> int \<Rightarrow> query_result" where
  \<comment> \<open>what an outcome of \<open>ExecuteSearch\<close> is shown as, after the given milliseconds\<close>
  "query_answer je result took =
     (case result of
        Inl e \<Rightarrow> \<lparr>qr_status = ''failed'',
          qr_data = Some (GObj [(''total_hits'', GInt 0), (''events'', GNil), (''took_ms'', GInt took)]),
          qr_error = je_error je e, qr_created_at = 0\<rparr>
      | Inr x \<Rightarrow> \<lparr>qr_status = ''complete'',
          qr_data = Some (GObj [(''total_hits'', GInt (sp_total_matches x)),
            (''events'', GArr (map GObj (sp_results x))), (''took_ms'', GInt took)]),
          qr_error = [], qr_created_at = 0\<rparr>)"

definition about :: "string \<Rightarrow> web_event \<Rightarrow> bool" where
  "about i ev = (case ev of Stored j \<Rightarrow> j = i | Delivered _ m \<Rightarrow> jr_job_id m = i | Cleanup \<Rightarrow> False)"

definition keyed :: "web_state \<Rightarrow> bool" where
  \<comment> \<open>the results are those of a map\<close>
  "keyed st \<longleftrightarrow> distinct (map fst (wq_results st))"

lemma map_of_filter_distinct:
  "distinct (map fst m) \<Longrightarrow> map_of (filter P m) k
    = (case map_of m k of None \<Rightarrow> None | Some v \<Rightarrow> if P (k, v) then Some v else None)"
proof (induction m)
  case (Cons a m)
  then show ?case
    by (cases a) (auto split: option.splits simp: map_of_eq_None_iff dest: map_of_SomeD intro: rev_image_eqI)
qed simp

lemma web_step_keyed: "keyed st \<Longrightarrow> keyed (web_step env ev st)"
  by (auto simp: keyed_def web_step_def submit_store_def deliver_def handleResult_def SetQueryResult_def
      cleanupExpiredResults_def wtick_def distinct_map_put distinct_map_filter split: web_event.split)

lemma web_run_keyed: "keyed st \<Longrightarrow> keyed (fold (web_step env) evs st)"
  by (induction evs arbitrary: st) (simp_all add: web_step_keyed)

definition holds :: "string \<Rightarrow> (query_result \<Rightarrow> bool) \<Rightarrow> web_state \<Rightarrow> bool" where
  \<comment> \<open>the result of this identifier, where there is one\<close>
  "holds i P st \<longleftrightarrow> (case map_of (wq_results st) i of None \<Rightarrow> True | Some q \<Rightarrow> P q)"

lemma web_step_holds:
  "\<not> about i ev \<Longrightarrow> keyed st \<Longrightarrow> holds i P st \<Longrightarrow> holds i P (web_step env ev st)"
  by (auto simp: holds_def keyed_def about_def web_step_def submit_store_def deliver_def handleResult_def
      SetQueryResult_def cleanupExpiredResults_def wtick_def map_of_filter_distinct
      split: web_event.splits option.splits dest: eq_key_imp_eq_value)

lemma web_run_holds:
  "list_all (\<lambda>ev. \<not> about i ev) evs \<Longrightarrow> keyed st \<Longrightarrow> holds i P st \<Longrightarrow> holds i P (fold (web_step env) evs st)"
  by (induction evs arbitrary: st) (simp_all add: web_step_holds web_step_keyed)

lemma holds_status:
  assumes "holds i (\<lambda>q. status_doc i q = d) st" and "i \<noteq> []"
  shows "GetQueryStatus i st \<in> {WriteJSON 200 d, http_Error ''query not found'' 404}"
  using assms by (auto simp: GetQueryStatus_def holds_def split: option.splits)

lemma handled_answer:
  assumes "qj_time_range job = []" "qj_query job = q" "qj_limit job = limit" and "qj_job_id job \<noteq> []"
    and "handleSearchJob je (decode_job job) [] ss = (msgs, ss1)"
  shows "\<exists>took. map_of (wq_results (deliver env msgs st)) (qj_job_id job) \<noteq> None
    \<and> holds (qj_job_id job) (\<lambda>x. status_doc (qj_job_id job) x = status_doc (qj_job_id job) (query_answer je
        (fst (ExecuteSearch (je_search je) (job_search q limit None) (snd (sx_Now (je_search je) ss)))) took))
        (deliver env msgs st)
    \<and> (deliver env msgs st = st \<or> (\<exists>ev. deliver env msgs st = web_step env ev st))"
proof -
  let ?id = "qj_job_id job"
  obtain start ss2 where now: "sx_Now (je_search je) ss = (start, ss2)" by fastforce
  obtain result ss3 where ex: "ExecuteSearch (je_search je) (job_search q limit None) ss2 = (result, ss3)"
    by fastforce
  obtain stop ss4 where stop: "sx_Now (je_search je) ss3 = (stop, ss4)" by fastforce
  have "\<exists>m. msgs = [(''search.results.query.'' @ ?id, m)] \<and> jr_job_id m = ?id
      \<and> jr_took_ms m = Milliseconds (stop - start)
      \<and> (case result of
          Inl e \<Rightarrow> \<not> jr_success m \<and> jr_error m = je_error je e \<and> jr_total_hits m = 0 \<and> jr_events m = None
        | Inr x \<Rightarrow> jr_success m \<and> jr_total_hits m = sp_total_matches x \<and> jr_events m = Some (sp_results x))"
    using assms(1-3,5)
    by (cases result) (auto simp: handleSearchJob_def decode_job_def now ex stop job_range_def is_zero_def reply_and_def)
  then obtain m where m: "msgs = [(''search.results.query.'' @ ?id, m)]" "jr_job_id m = ?id"
      "jr_took_ms m = Milliseconds (stop - start)"
    and outcome: "case result of
      Inl e \<Rightarrow> \<not> jr_success m \<and> jr_error m = je_error je e \<and> jr_total_hits m = 0 \<and> jr_events m = None
    | Inr x \<Rightarrow> jr_success m \<and> jr_total_hits m = sp_total_matches x \<and> jr_events m = Some (sp_results x)"
    by blast
  have d: "deliver env msgs st = handleResult env (Inr m) st"
    using subscribed_result [OF assms(4)] by (simp add: deliver_def m)
  have "deliver env msgs st = web_step env (Delivered (''search.results.query.'' @ ?id) m) st"
    by (simp add: web_step_def m)
  moreover have "map_of (wq_results (deliver env msgs st)) ?id \<noteq> None"
    unfolding d by (simp add: handleResult_def SetQueryResult_def m)
  moreover have "holds ?id (\<lambda>x. status_doc ?id x = status_doc ?id (query_answer je result
      (Milliseconds (stop - start)))) (deliver env msgs st)"
    unfolding d using outcome by (cases result)
      (auto simp: holds_def handleResult_def SetQueryResult_def result_data_def query_answer_def status_doc_def m
        split: option.split)
  ultimately show ?thesis by (auto simp: now ex)
qed

text \<open>C21: A query submitted without a time range is answered when its pending entry is there before the
  answer is delivered: the search service works on the job as it was published, and once its message has
  been delivered, whatever happened to the results since the entry was stored, the status shows the hits
  or the error of the search, to whoever asks; it stays so until it expires, as long as no other message
  has the identifier. That search is one of no client: it is not restricted to the events of the
  submitter's.\<close>

theorem async_query_answered:
  assumes "submit_publish env r st = (Inr job, st1)" and "we_decode_submit env (rq_body r) = Inr req"
    and "sub_time_range req = []" and "qj_job_id job \<noteq> []"
    and "handleSearchJob je (decode_job job) [] ss = (msgs, ss1)"
    and "delivered = deliver env msgs (fold (web_step env) meanwhile (snd (submit_store env (qj_job_id job) st1)))"
    and "keyed st1" and "list_all (\<lambda>ev. \<not> about (qj_job_id job) ev) later"
  shows "\<exists>took. let shown = WriteJSON 200 (status_doc (qj_job_id job)
          (query_answer je (fst (ExecuteSearch (je_search je) (job_search (sub_query req) (sub_limit req) None)
             (snd (sx_Now (je_search je) ss)))) took)) in
      GetQueryStatus (qj_job_id job) delivered = shown
      \<and> GetQueryStatus (qj_job_id job) (fold (web_step env) later delivered)
          \<in> {shown, http_Error ''query not found'' 404}"
proof -
  let ?id = "qj_job_id job"
  let ?st = "fold (web_step env) meanwhile (snd (submit_store env ?id st1))"
  let ?result = "fst (ExecuteSearch (je_search je) (job_search (sub_query req) (sub_limit req) None)
    (snd (sx_Now (je_search je) ss)))"
  have "qj_time_range job = []" "qj_query job = sub_query req" "qj_limit job = sub_limit req"
    using submit_publish_job [OF assms(1)] assms(2,3) by auto
  from handled_answer [OF this assms(4,5), of env ?st] obtain took
    where there: "map_of (wq_results delivered) ?id \<noteq> None"
      "holds ?id (\<lambda>q. status_doc ?id q = status_doc ?id (query_answer je ?result took)) delivered"
      and step: "delivered = ?st \<or> (\<exists>ev. delivered = web_step env ev ?st)"
    unfolding assms(6) by blast
  have "keyed ?st"
    using web_run_keyed [OF web_step_keyed [OF assms(7), of env "Stored ?id"], of env meanwhile]
    by (simp add: web_step_def)
  with step web_step_keyed have keyed: "keyed delivered" by metis
  show ?thesis
    unfolding Let_def
  proof (intro exI [of _ took] conjI)
    show "GetQueryStatus ?id delivered
        = WriteJSON 200 (status_doc ?id (query_answer je ?result took))"
      using holds_status [OF there(2) assms(4)] there(1) assms(4)
      by (auto simp: GetQueryStatus_def WriteJSON_def http_Error_def split: option.splits)
  qed (rule holds_status [OF web_run_holds [OF assms(8) keyed there(2)] assms(4)])
qed

section \<open>Queries without an answer\<close>

text \<open>C22: A query is never answered when its result arrives before the handler stores the pending entry,
  which it does after it has published the job: the entry replaces the result, and without another
  message about the query its status is \<open>pending\<close>, or the query is not found once it has expired. So it
  is, too, for every query with a time range: the search service cannot decode the job, a text where it
  expects an object, and publishes nothing.\<close>

theorem async_query_lost:
  assumes "submit_publish env r st = (Inr job, st1)" and "qj_job_id job \<noteq> []" and "keyed st1"
    and "list_all (\<lambda>ev. \<not> about (qj_job_id job) ev) later"
  shows "GetQueryStatus (qj_job_id job) (fold (web_step env) later
      (snd (submit_store env (qj_job_id job) (fold (web_step env) meanwhile st1))))
    \<in> {http_Error ''query not found'' 404,
       WriteJSON 200 (GObj [(''query_id'', GStr (qj_job_id job)), (''status'', GStr ''pending'')])}
   \<and> (qj_time_range job \<noteq> [] \<longrightarrow> handleSearchJob je (decode_job job) [] ss = ([], ss))"
proof
  let ?st = "snd (submit_store env (qj_job_id job) (fold (web_step env) meanwhile st1))"
  have "?st = web_step env (Stored (qj_job_id job)) (fold (web_step env) meanwhile st1)"
    by (simp add: web_step_def)
  with web_run_keyed [OF assms(3)] have "keyed ?st" by (metis web_step_keyed)
  moreover have "holds (qj_job_id job) (\<lambda>q. status_doc (qj_job_id job) q
      = GObj [(''query_id'', GStr (qj_job_id job)), (''status'', GStr ''pending'')]) ?st"
    by (simp add: holds_def submit_store_result status_doc_def)
  ultimately show "GetQueryStatus (qj_job_id job) (fold (web_step env) later ?st)
    \<in> {http_Error ''query not found'' 404,
       WriteJSON 200 (GObj [(''query_id'', GStr (qj_job_id job)), (''status'', GStr ''pending'')])}"
    using holds_status [OF web_run_holds [OF assms(4)] assms(2)] by blast
qed (simp add: handleSearchJob_def decode_job_def search_replyError_def)

section \<open>The dashboard\<close>

text \<open>C23: The dashboard of a caller who belongs to a client shows what somebody else's request has put
  into the cache, or nothing: while the cache is fresh everybody is served its content, whoever filled
  it; otherwise the caller's own request to the search service is refused and the cache stays as it is.\<close>

theorem dashboard_shows_others:
  assumes "search_requireUserContext h (metrics_request de r) = Some uc" and "uc_client_id uc \<noteq> []"
    and "dash_GetMetrics de (\<lambda>q s. map_prod Some id (search_NewRouter env h metrics nats q s)) now stored r
          (cache, st) = ((hit, resp), cache1, st1)"
  shows "cache1 = cache
   \<and> (rs_status resp = 200 \<longleftrightarrow> now - dc_time cache < dc_duration cache \<and> dc_data cache \<noteq> None)
   \<and> (rs_status resp = 200 \<longrightarrow> (\<exists>shown. dc_data cache = Some shown \<and> resp = WriteJSON 200 shown \<and> st1 = st))"
proof -
  let ?q = "metrics_request de r"
  have "search_NewRouter env h metrics nats ?q st = events_query env h ?q st"
    by (rule events_query_route) (simp add: metrics_request_def)
  then have refused: "rs_status (fst (search_NewRouter env h metrics nats ?q st)) \<in> {400, 405, 406, 415, 500}"
    using events_query_rejected [OF assms(1,2), of env st] by simp
  obtain answer st2 where "search_NewRouter env h metrics nats ?q st = (answer, st2)" by fastforce
  with refused assms(3) show ?thesis
    by (auto simp: dash_GetMetrics_def http_Error_def WriteJSON_def split: if_splits option.splits)
qed

section \<open>The properties at a sample\<close>

definition web_call :: "string \<Rightarrow> request" where
  "web_call body = search_call ''POST'' ''/api/async-query/submit'' [] body"

definition sample_web :: web_env where
  "sample_web =
     \<lparr>we_uuid = (\<lambda>n. ''q'' @ replicate n (CHR ''i'')), we_now = (\<lambda>n. (1700000000 + int n) * second),
      we_decode_submit = (\<lambda>b. case b of None \<Rightarrow> Inl ''EOF'' | Some t \<Rightarrow>
        Inr \<lparr>sub_query = ''*'', sub_time_range = t, sub_limit = 10\<rparr>),
      we_publish = (\<lambda>_. None)\<rparr>"

definition no_results :: web_state where
  "no_results = \<lparr>wq_results = [], wq_tick = 0\<rparr>"

definition sample_job :: "string \<Rightarrow> query_job" where
  "sample_job t = \<lparr>qj_job_id = ''q'', qj_query = ''*'', qj_time_range = t, qj_limit = 10\<rparr>"

lemma sample_submitted:
  "submit_publish sample_web (web_call t) no_results = (Inr (sample_job t), wtick no_results)"
  "we_decode_submit sample_web (rq_body (web_call t)) = Inr \<lparr>sub_query = ''*'', sub_time_range = t, sub_limit = 10\<rparr>"
  by (simp_all add: submit_publish_def sample_web_def web_call_def search_call_def no_results_def
      sample_job_def)

theorem async_query_answered_witness:
  "\<exists>took. GetQueryStatus ''q'' (deliver sample_web
      (fst (handleSearchJob sample_system (decode_job (sample_job [])) [] empty_search))
      (snd (submit_store sample_web ''q'' (wtick no_results))))
    = WriteJSON 200 (status_doc ''q'' \<lparr>qr_status = ''complete'',
        qr_data = Some (GObj [(''total_hits'', GInt 2),
          (''events'', GArr [GObj (sample_event ''c1''), GObj (sample_event ''c2'')]), (''took_ms'', GInt took)]),
        qr_error = [], qr_created_at = 0\<rparr>)"
proof -
  have found: "query_answer sample_system (fst (ExecuteSearch (je_search sample_system)
      (job_search ''*'' 10 None) (snd (sx_Now (je_search sample_system) empty_search)))) took
    = \<lparr>qr_status = ''complete'', qr_data = Some (GObj [(''total_hits'', GInt 2),
          (''events'', GArr [GObj (sample_event ''c1''), GObj (sample_event ''c2'')]), (''took_ms'', GInt took)]),
        qr_error = [], qr_created_at = 0\<rparr>" for took
    by code_simp
  have id: "qj_job_id (sample_job []) = ''q''" by (simp add: sample_job_def)
  have keyed: "keyed (wtick no_results)" by (simp add: keyed_def wtick_def no_results_def)
  show ?thesis
    using async_query_answered [OF sample_submitted(1) [where t = "[]"] sample_submitted(2) [where t = "[]"] _ _
        surjective_pairing refl keyed, where je = sample_system and ss = empty_search and later = "[]"
        and meanwhile = "[]"]
    unfolding id submit_request.simps found Let_def by (simp only: fold_simps id_apply list.pred_inject
        list.distinct not_False_eq_True simp_thms) blast
qed

theorem async_query_lost_witness:
  "GetQueryStatus ''q'' (snd (submit_store sample_web ''q'' (fold (web_step sample_web)
      (map (\<lambda>(s, m). Delivered s m)
         (fst (handleSearchJob sample_system (decode_job (sample_job [])) [] empty_search))) (wtick no_results))))
   = WriteJSON 200 (GObj [(''query_id'', GStr ''q''), (''status'', GStr ''pending'')])
   \<and> handleSearchJob sample_system (decode_job (sample_job ''24h'')) [] empty_search = ([], empty_search)"
proof
  have keyed: "keyed (wtick no_results)" by (simp add: keyed_def wtick_def no_results_def)
  have id: "qj_job_id (sample_job t) = ''q''" for t by (simp add: sample_job_def)
  have there: "GetQueryStatus ''q'' (snd (submit_store sample_web ''q'' st)) \<noteq> http_Error ''query not found'' 404"
    for st by (simp add: GetQueryStatus_def submit_store_result WriteJSON_def http_Error_def)
  show "GetQueryStatus ''q'' (snd (submit_store sample_web ''q'' (fold (web_step sample_web)
      (map (\<lambda>(s, m). Delivered s m)
         (fst (handleSearchJob sample_system (decode_job (sample_job [])) [] empty_search))) (wtick no_results))))
    = WriteJSON 200 (GObj [(''query_id'', GStr ''q''), (''status'', GStr ''pending'')])"
    (is "GetQueryStatus _ (snd (submit_store _ _ (fold _ ?meanwhile _))) = _")
    using async_query_lost [OF sample_submitted(1) [where t = "[]"] _ keyed, where later = "[]" and meanwhile = ?meanwhile]
      there
    unfolding id by (simp only: fold_simps id_apply list.pred_inject list.distinct) blast
  show "handleSearchJob sample_system (decode_job (sample_job ''24h'')) [] empty_search = ([], empty_search)"
    using async_query_lost [OF sample_submitted(1) [where t = "''24h''"] _ keyed, where later = "[]"
        and je = sample_system and ss = empty_search]
    unfolding id by (simp add: sample_job_def)
qed

definition sample_dashboard :: dashboard_env where
  "sample_dashboard =
     \<lparr>de_marshal = (\<lambda>_. ''event-query''), de_request = (\<lambda>p. search_call ''POST'' p [] []),
      de_received = (\<lambda>resp. if rs_status resp = 200 then Some [] else Some ''error''),
      de_meta = (\<lambda>_. Some (2, None)), de_alerts = (\<lambda>_. 0)\<rparr>"

definition browser :: "string \<Rightarrow> request" where
  "browser token = (search_call ''GET'' ''/api/dashboard/metrics'' [] [])
     \<lparr>rq_cookie := (\<lambda>k. if k = ''access_token'' then Some token else None)\<rparr>"

definition filled :: dashboard_cache where
  "filled = (NewDashboardHandler [])\<lparr>dc_data := Some (GObj [(''total_matches'', GInt 2)]), dc_time := 100 * second\<rparr>"

theorem dashboard_shows_others_witness:
  "fst (dash_GetMetrics sample_dashboard
      (\<lambda>q s. map_prod Some id (search_NewRouter sample_search_env sample_search_http None None q s))
      (200 * second) (201 * second) (browser ''c1'') (filled, empty_search))
    = (Some ''HIT'', WriteJSON 200 (GObj [(''total_matches'', GInt 2)]))
   \<and> rs_status (snd (fst (dash_GetMetrics sample_dashboard
      (\<lambda>q s. map_prod Some id (search_NewRouter sample_search_env sample_search_http None None q s))
      (900 * second) (901 * second) (browser ''c1'') (filled, empty_search)))) \<noteq> 200"
proof
  show "fst (dash_GetMetrics sample_dashboard
      (\<lambda>q s. map_prod Some id (search_NewRouter sample_search_env sample_search_http None None q s))
      (200 * second) (201 * second) (browser ''c1'') (filled, empty_search))
    = (Some ''HIT'', WriteJSON 200 (GObj [(''total_matches'', GInt 2)]))"
    by code_simp
  have who: "search_requireUserContext sample_search_http (metrics_request sample_dashboard (browser ''c1''))
      = Some (caller ''c1'')"
    by code_simp
  have old: "\<not> 900 * second - dc_time filled < dc_duration filled" by code_simp
  show "rs_status (snd (fst (dash_GetMetrics sample_dashboard
      (\<lambda>q s. map_prod Some id (search_NewRouter sample_search_env sample_search_http None None q s))
      (900 * second) (901 * second) (browser ''c1'') (filled, empty_search)))) \<noteq> 200"
    (is "rs_status (snd (fst ?r)) \<noteq> 200")
  proof -
    obtain hit resp cache1 st1 where r: "?r = ((hit, resp), cache1, st1)" by (metis prod.collapse)
    from dashboard_shows_others [OF who _ r] old show ?thesis by (simp add: r caller_def)
  qed
qed

end
