(* ===== verification/Spec2Isabelle.thy ===== *)
theory Spec2Isabelle
  imports QueryRefinement RuleFields MainPipeline EndToEnd RespondAnswers AuthPgRefine
    SearchPaging SearchCorrelation StorageMapping StorageProps RateLimit DlqProps HecStatsLaws WebQueryProps
begin

text \<open>
  A verification development of the TelHawk stack, a security information and event management
  system written in Go: services that share libraries under \<^verbatim>\<open>common/\<close>.

  \<^item> \<^verbatim>\<open>authenticate\<close> keeps users, roles, sessions and ingestion tokens, decides what a user may do, and
    writes a signed audit log.
  \<^item> \<^verbatim>\<open>ingest\<close> accepts events over the HTTP Event Collector protocol under an ingestion token that it
    lets \<^verbatim>\<open>authenticate\<close> check, queues them, normalizes them to OCSF events, stores them, and
    acknowledges them.
  \<^item> \<^verbatim>\<open>search\<close> takes queries in a canonical form, validates them against the field catalogue of
    \<^verbatim>\<open>common/fields\<close>, and translates them for OpenSearch; it keeps versioned saved searches, runs the
    queries of alert definitions on a schedule, and evaluates the correlation jobs of detection rules,
    which are checked against the same catalogue.
  \<^item> \<^verbatim>\<open>respond\<close> keeps versioned detection rules and the cases built from alerts, publishes the
    correlation jobs of the active rules and the alerts that come of them, and shows the alerts of the
    caller's client.
  \<^item> \<^verbatim>\<open>web/backend\<close> keeps the browser's tokens in cookies and passes its requests on to the services,
    with the user's identity in headers that the services trust.

  \<^bold>\<open>Theories and code.\<close>
  \<^item> \<open>Prelude\<close>: Go strings as byte strings, the values of \<open>interface{}\<close>, times in nanoseconds,
    association lists as maps, and the lemma collections.
  \<^item> \<open>FieldCatalog\<close> (\<^verbatim>\<open>common/fields/fields.go\<close>) and \<open>RuleFields\<close> (\<^verbatim>\<open>common/fields/validator.go\<close>): the
    catalogue, and the two walks over a detection rule, with the theorem that the rule validator
    reports exactly the unknown references of a rule, read off its documented shape, outside negated
    conditions.
  \<^item> \<open>QueryModel\<close> (\<^verbatim>\<open>search/pkg/model\<close>), \<open>QueryValidator\<close> (\<^verbatim>\<open>search/internal/validator\<close>), \<open>Translator\<close>
    (\<^verbatim>\<open>search/internal/translator\<close>) and \<open>QueryRefinement\<close>, which joins them: an accepted query
    translates, and the translated filter means what the canonical one says. The engine is the
    locale \<open>bool_query\<close>, the documented meaning of \<open>bool\<close> queries, interpreted (\<open>engine\<close>) on an
    evaluator of the documents the translator emits.
  \<^item> \<open>Rbac\<close> (\<^verbatim>\<open>authenticate/internal/models\<close>): users, roles and scopes, permission checks, who may
    assign which role and manage whom, with the escalation theorems.
  \<^item> \<open>AuthRepo\<close> (\<^verbatim>\<open>authenticate/internal/repository/memory.go\<close>): the in-memory repository over an
    explicit heap, since its two user maps share pointers; the locale \<open>user_store\<close> is its contract,
    interpreted as \<open>mem\<close>.
  \<^item> \<open>AuthPg\<close> (\<^verbatim>\<open>authenticate/internal/repository/postgres.go\<close>, over the tables of
    \<^verbatim>\<open>authenticate/dist/migrations\<close>): the repository of a deployment, each statement a function of the
    tables that may be executed, fail, or be executed while its answer is lost. \<open>AuthPgLaws\<close>: the
    locale \<open>unique_rows\<close>, interpreted on users, sessions and tokens, and what every statement keeps.
    \<open>AuthPgProps\<close>: removals are final. \<open>AuthPgRefine\<close>: the simulation between the two repositories.
  \<^item> \<open>AuditLog\<close> (\<^verbatim>\<open>authenticate/internal/audit\<close>, \<^verbatim>\<open>models/audit.go\<close>), \<open>AuthService\<close>
    (\<^verbatim>\<open>authenticate/internal/service\<close>, \<^verbatim>\<open>pkg/tokens\<close>), \<open>AuthLaws\<close> and \<open>AuthProps\<close>: the service's operations
    as state transformers, the step relation \<open>svc_step\<close> over them, the invariant of every reachable
    state, and the life of sessions and tokens.
  \<^item> \<open>Middleware\<close> (\<^verbatim>\<open>authenticate/internal/middleware\<close>): \<open>RequireAuth\<close> and the permission guards, each
    an interpretation of the locale \<open>guard\<close>.
  \<^item> \<open>Http\<close> (\<^verbatim>\<open>common/httputil\<close>): requests, the client's address, pagination, responses. \<open>AuthHandler\<close>
    (\<^verbatim>\<open>authenticate/internal/handlers\<close>, \<^verbatim>\<open>server/router.go\<close>): the handlers and the router over the service's
    state, what a request can change, and what the identity headers decide.
  \<^item> \<open>Gateway\<close> (\<^verbatim>\<open>web/backend/internal\<close>): the session middleware, login and logout, the proxy and the
    cross-origin checks, calling \<open>NewRouter\<close> of \<open>AuthHandler\<close> over a network that may lose the request
    or the answer; what identity arrives behind it.
  \<^item> \<open>OcsfTables\<close> (\<^verbatim>\<open>common/ocsf\<close>), \<open>Pipeline\<close> (\<^verbatim>\<open>ingest/internal/normalizer\<close>, \<^verbatim>\<open>validator\<close>, \<^verbatim>\<open>pipeline\<close>):
    names of OCSF identifiers, the hand-written normalizers, the template of the generated ones, the
    validator chain and \<open>Process\<close>. The locale \<open>normalizer_contract\<close> is what a normalizer owes the
    pipeline, interpreted for the two hand-written ones and for the template.
  \<^item> \<open>EventClasses\<close> (\<^verbatim>\<open>common/ocsf/events\<close>), \<open>GenNormalizers\<close> and \<open>GenValidators\<close>
    (\<^verbatim>\<open>ingest/internal/normalizer/generated\<close>): one definition for each constructor, \<open>Supports\<close>,
    \<open>Normalize\<close> and validator, and the two registries. \<open>MainPipeline\<close> (\<^verbatim>\<open>ingest/cmd/ingest/main.go\<close>): the
    pipeline of the service, which events it takes, and what it makes of them.
  \<^item> \<open>Ack\<close> (\<^verbatim>\<open>ingest/internal/ack\<close>): the acknowledgement manager, with the locale \<open>ack_ledger\<close> the
    service relies on, interpreted as \<open>ledger\<close>. \<open>TokenCache\<close> (\<^verbatim>\<open>ingest/internal/authclient\<close>): the
    cache of token answers.
  \<^item> \<open>Ingest\<close>, \<open>IngestLaws\<close> (\<^verbatim>\<open>ingest/internal/service\<close>): the queue, the processor and the
    acknowledgements, as the step relation \<open>ingest_step\<close> in which requests, the two halves of the
    processor's round and the manager's clean-up interleave. \<open>Hec\<close> (\<^verbatim>\<open>ingest/internal/handlers\<close>,
    \<^verbatim>\<open>ingest/pkg/hec\<close>): the HTTP endpoints. \<open>EndToEnd\<close> joins them to the authenticate service: the
    endpoints run on the tokens of its repository, through its router.

  \<^item> \<open>EventMapping\<close> and \<open>Storage\<close> (\<^verbatim>\<open>ingest/internal/storage\<close>): the mapping of the indices, the set-up of
    template, life-cycle policy, index and alias, and the bulk indexer with its buffer. \<open>StorageRun\<close>
    puts the client into the ingest service, as the step relation \<open>tandem_reachable\<close>, and
    \<open>StorageProps\<close> says what an acknowledgement is worth there. \<open>StorageMapping\<close> reads the mapping beside
    the field catalogue and beside the fields the translator aggregates over.
  \<^item> \<open>RateLimit\<close> (\<^verbatim>\<open>ingest/internal/ratelimit\<close>): the script run by Redis, equal to a window over the
    history of allowed requests. \<open>Dlq\<close> and \<open>DlqProps\<close> (\<^verbatim>\<open>ingest/internal/dlq\<close>): the dead-letter queues, with
    the numerals of their file names in \<open>Numerals\<close>. \<open>HecStats\<close> and \<open>HecStatsLaws\<close>
    (\<^verbatim>\<open>common/hecstats\<close>): the statistics of ingestion tokens, from the collector of \<^verbatim>\<open>ingest\<close> to what
    \<^verbatim>\<open>web\<close> shows, with the accounts of every reachable state.

  \<^item> \<open>RespondRepo\<close> (\<^verbatim>\<open>respond/internal/repository\<close>, over the tables of \<^verbatim>\<open>respond/migrations\<close>): each
    statement as a function of the tables. \<open>RespondService\<close> (\<^verbatim>\<open>respond/internal/service\<close>,
    \<^verbatim>\<open>scheduler\<close>, \<^verbatim>\<open>nats\<close>), \<open>JsonApi\<close> (\<^verbatim>\<open>common/httputil\<close>), \<open>RespondHandler\<close> and \<open>RespondAlerts\<close>
    (\<^verbatim>\<open>respond/internal/handlers\<close>, \<^verbatim>\<open>server\<close>, \<^verbatim>\<open>auth\<close>, \<^verbatim>\<open>storage\<close>): the operations, the handlers and the
    routes.
  \<^item> \<open>RespondLaws\<close>: the locale \<open>respond_change\<close>, which carries a relation from the statements to the
    router, the scheduler and whole runs; \<open>RespondProps\<close> interprets it for the versions of rules and
    for requests without a token, \<open>RespondAnswers\<close> for the cases. \<open>RespondVersions\<close>: ranks, the history,
    the latest version, and what disabling leaves to the scheduler.

  \<^item> \<open>SearchRepo\<close> (\<^verbatim>\<open>search/internal/repository\<close>, over the table of \<^verbatim>\<open>search/migrations\<close>),
    \<open>SearchService\<close> and \<open>SearchExec\<close> (\<^verbatim>\<open>search/internal/service\<close>), \<open>SearchHandler\<close> and \<open>SearchRoutes\<close>
    (\<^verbatim>\<open>search/internal/handlers\<close>, \<^verbatim>\<open>auth\<close>, \<^verbatim>\<open>server\<close>): the statements on saved searches, the operations,
    the handlers and the routes. \<open>SearchJobs\<close> (\<^verbatim>\<open>search/internal/nats\<close>, \<^verbatim>\<open>scheduler\<close>,
    \<^verbatim>\<open>notification\<close>): the jobs of the message bus, one pass of the scheduler, one run of an alert, and
    the channels a notification goes to.
  \<^item> \<open>SearchLaws\<close>: the locale \<open>search_change\<close> carries a relation from the one statement that changes
    the table to the router, the jobs and whole runs, interpreted for the growth of the table and for
    runs without an accepted token. \<open>SearchScope\<close>: which documents a caller is shown, with what the
    locale \<open>filtered_query\<close> of \<open>QueryRefinement\<close> says of the client's filter, and what is executed for
    nobody. \<open>SearchPaging\<close>: the pages of saved searches, their end and their contents.
    \<open>SearchCorrelation\<close>: a rule's way from the scheduler of \<^verbatim>\<open>respond\<close> through the evaluation in
    \<^verbatim>\<open>search\<close> to its alerts, and what becomes of notifications. \<open>SearchSamples\<close>: the inputs the examples
    of these theories share.
  \<^item> \<open>WebQuery\<close> (\<^verbatim>\<open>web/backend/internal/handlers\<close>, \<^verbatim>\<open>nats\<close>, \<^verbatim>\<open>middleware/security.go\<close>): asynchronous
    queries, the cached metrics of the dashboard, the statistics of tokens and the security headers.
    \<open>WebQueryProps\<close>: what becomes of a query on its way to \<open>handleSearchJob\<close> of \<open>SearchJobs\<close> and back,
    and whose data the dashboard shows.

  \<^bold>\<open>Conventions.\<close> A Go \<open>error\<close> is \<open>Inl\<close> of a datatype with a constructor per message, or an option;
  a panic is \<open>None\<close>, or a constructor of its own. A method that runs under a lock is one step. Go's
  \<open>int\<close> is \<open>int\<close>, with \<open>wrap64\<close> where numbers of a request are multiplied; no other computation of
  the modelled code comes near its bounds. Code outside the
  repository is a parameter, gathered in a record per service: bcrypt, the JWT library, the HMAC,
  JSON and date formatting and random identifiers (\<open>env\<close>, \<open>codec\<close>, \<open>ingest_env\<close>,
  \<open>respond_env\<close>, \<open>search_env\<close> and \<open>pg_env\<close> with PostgreSQL's reading of texts), the engine's leaf
  queries, \<open>regexp.Compile\<close>, float formatting and the network. The cluster behind the storage client,
  the clock and numbers of Redis, the file system of the dead-letter queue and the formats of the
  statistics are \<open>storage_env\<close>, \<open>rate_env\<close>, \<open>dlq_env\<close> and \<open>stats_env\<close>; the ingest service alone takes any
  storage client. What varies from call
  to call (clock, random source) is a function of a counter in the state, so a hypothesis such as
  \<open>fresh_ids\<close> can speak of all of a run's identifiers. Each hypothesis has a concrete instance.

  \<^bold>\<open>Bounds.\<close> The recursion over filters and rules is structural, and the validator's depth limit is
  a value of its state, as in the code. The event queue holds 10000 events, the token cache 10000
  answers. One definition uses fuel: \<open>follow\<close>, the client that follows the cursors of saved searches,
  for which \<open>paging_ends\<close> shows that one more than the number of stored versions is enough.

  \<^bold>\<open>Not modelled.\<close> OpenSearch, Redis, NATS and HTTP transport (input and
  output only); log lines and the headers \<^verbatim>\<open>Allow\<close> and \<^verbatim>\<open>Location\<close>; the static files of the web backend;
  the fields of the OCSF classes that no normalizer names; start-up and configuration, the metrics and
  the unused HTTP client of a storage service; the command line and its seeder; the generators under
  \<^verbatim>\<open>tools/\<close>; the findings service, scaffolding over a database.
\<close>

end
